(* ===== verification/Prelude.thy ===== *)
theory Prelude imports Main "HOL-Library.Sublist" "HOL-Library.Multiset" "HOL-Library.Code_Target_Nat" begin

text \<open>
  What every component shares and no component owns: the rule collections of the development,
  positions in an alphabet, insertion-ordered maps (JavaScript's \<open>Map\<close> and plain objects) and
  the facts about stable sorts and first matches that the component proofs rest on.
\<close>

named_theorems evals \<open>unfolding rules of looping definitions, for evaluating closed terms\<close>
named_theorems frames \<open>what an operation leaves unchanged\<close>
named_theorems wf_keeps \<open>invariant preservation, one fact per operation\<close>

section \<open>Positions in an alphabet\<close>

text \<open>\<open>index_of x xs\<close> is \<open>xs.indexOf(x)\<close>, with \<open>None\<close> for the source's \<open>-1\<close>.\<close>

fun index_of :: "'a \<Rightarrow> 'a list \<Rightarrow> nat option" where
  "index_of x [] = None"
| "index_of x (y # ys) = (if x = y then Some 0 else map_option Suc (index_of x ys))"

lemma index_of_None_iff [simp]: "index_of x xs = None \<longleftrightarrow> x \<notin> set xs"
  by (induction xs) auto

lemma index_of_SomeD: "index_of x xs = Some i \<Longrightarrow> i < length xs \<and> xs ! i = x"
  by (induction xs arbitrary: i) (auto split: if_splits)

lemma index_of_nth: "distinct xs \<Longrightarrow> i < length xs \<Longrightarrow> index_of (xs ! i) xs = Some i"
  by (induction xs arbitrary: i) (auto simp: nth_Cons split: nat.splits)

lemma index_of_ex: "x \<in> set xs \<Longrightarrow> \<exists>i. index_of x xs = Some i \<and> i < length xs \<and> xs ! i = x"
  by (metis index_of_None_iff index_of_SomeD not_Some_eq)

section \<open>Insertion-ordered maps\<close>

text \<open>
  \<open>Map.set\<close> of JavaScript: an existing key keeps its position and gets the new value, a new key
  goes to the end. Iteration order is list order.
\<close>

fun map_set :: "'k \<Rightarrow> 'v \<Rightarrow> ('k \<times> 'v) list \<Rightarrow> ('k \<times> 'v) list" where
  "map_set k v [] = [(k, v)]"
| "map_set k v ((a, b) # m) = (if a = k then (a, v) # m else (a, b) # map_set k v m)"

definition map_del :: "'k \<Rightarrow> ('k \<times> 'v) list \<Rightarrow> ('k \<times> 'v) list" where
  "map_del k m = filter (\<lambda>e. fst e \<noteq> k) m"

lemma map_of_map_set [simp]: "map_of (map_set k v m) = (map_of m)(k \<mapsto> v)"
  by (induction k v m rule: map_set.induct) (auto simp: fun_eq_iff)

lemma keys_map_set: "fst ` set (map_set k v m) = insert k (fst ` set m)"
  by (induction k v m rule: map_set.induct) auto

lemma distinct_map_set [simp]:
  "distinct (map fst m) \<Longrightarrow> distinct (map fst (map_set k v m))"
proof (induction k v m rule: map_set.induct)
  case (2 k v a b m)
  have "a \<noteq> k \<Longrightarrow> a \<notin> fst ` set (map_set k v m)"
    using "2.prems" by (auto simp: keys_map_set)
  then show ?case using 2 by auto
qed auto

lemma map_of_map_del [simp]: "map_of (map_del k m) = (map_of m)(k := None)"
  by (induction m) (auto simp: map_del_def fun_eq_iff)

lemma distinct_map_del [simp]: "distinct (map fst m) \<Longrightarrow> distinct (map fst (map_del k m))"
  by (auto simp: map_del_def distinct_map intro: inj_on_subset)

section \<open>First matches, sorts and sums\<close>

lemma find_SomeD: "List.find P xs = Some x \<Longrightarrow> x \<in> set xs \<and> P x"
  by (induction xs) (auto split: if_splits)

lemma find_None_conv: "List.find P xs = None \<longleftrightarrow> (\<forall>x \<in> set xs. \<not> P x)"
  by (induction xs) auto

lemma distinct_map_filterI: "distinct (map f xs) \<Longrightarrow> distinct (map f (filter P xs))"
  by (induction xs) auto

lemma distinct_map_take: "distinct (map f xs) \<Longrightarrow> distinct (map f (take n xs))"
  by (metis distinct_take take_map)

lemma distinct_map_perm:
  "distinct (map f xs) \<Longrightarrow> mset ys = mset xs \<Longrightarrow> distinct (map f ys)"
  by (metis mset_eq_imp_distinct_iff mset_map)

lemma distinct_map_sort_key: "distinct (map f (sort_key g xs)) \<longleftrightarrow> distinct (map f xs)"
  by (metis distinct_map_perm mset_sort)

lemma sum_list_filter_split:
  fixes f :: "'a \<Rightarrow> int"
  shows "sum_list (map f xs) = sum_list (map f (filter P xs)) + sum_list (map f (filter (\<lambda>x. \<not> P x) xs))"
  by (induction xs) auto

lemma div_mod_unique: "n = q * d + r \<Longrightarrow> r < d \<Longrightarrow> n div d = q \<and> n mod d = (r::nat)"
  by simp

section \<open>Totals in an insertion-ordered map\<close>

text \<open>
  \<open>m.set(k, (m.get(k) ?? 0n) + v)\<close>, the way every client adds amounts up by key. The total of a
  key is the sum of what was entered under it, and keys come in order of first entry.
\<close>

definition tally :: "'k \<Rightarrow> int \<Rightarrow> ('k \<times> int) list \<Rightarrow> ('k \<times> int) list" where
  "tally k v m = map_set k ((case map_of m k of None \<Rightarrow> 0 | Some t \<Rightarrow> t) + v) m"

definition tally_all :: "('k \<times> int) list \<Rightarrow> ('k \<times> int) list \<Rightarrow> ('k \<times> int) list" where
  "tally_all es m = fold (\<lambda>(k, v). tally k v) es m"

definition total_of :: "('k \<times> int) list \<Rightarrow> 'k \<Rightarrow> int" where
  "total_of m k = (case map_of m k of None \<Rightarrow> 0 | Some t \<Rightarrow> t)"

lemma map_set_fresh: "k \<notin> fst ` set m \<Longrightarrow> map_set k v m = m @ [(k, v)]"
  by (induction k v m rule: map_set.induct) auto

lemma map_fst_map_set: "map fst (map_set k v m) = (if k \<in> fst ` set m then map fst m else map fst m @ [k])"
  by (induction k v m rule: map_set.induct) auto

lemma tally_keys: "fst ` set (tally k v m) = insert k (fst ` set m)"
  by (simp add: tally_def keys_map_set)

lemma tally_distinct [simp]: "distinct (map fst m) \<Longrightarrow> distinct (map fst (tally k v m))"
  by (simp add: tally_def)

lemma total_of_tally: "total_of (tally k v m) j = total_of m j + (if j = k then v else 0)"
  by (simp add: total_of_def tally_def split: option.splits)

lemma tally_all_distinct: "distinct (map fst m) \<Longrightarrow> distinct (map fst (tally_all es m))"
  unfolding tally_all_def by (induction es arbitrary: m) (auto split: prod.splits)

lemma tally_all_keys: "fst ` set (tally_all es m) = fst ` set es \<union> fst ` set m"
  unfolding tally_all_def
  by (induction es arbitrary: m) (auto simp: tally_keys split: prod.splits)

lemma total_of_tally_all:
  "total_of (tally_all es m) k = total_of m k + sum_list (map snd (filter (\<lambda>e. fst e = k) es))"
  unfolding tally_all_def
  by (induction es arbitrary: m) (auto simp: total_of_tally split: prod.splits)

section \<open>Adding coins up\<close>

text \<open>
  Every client totals a list of coins the same way: a coin that reads as an amount is entered under
  its denomination, any other is skipped. A component gives its reading and its loop body; the
  totals are then the sums, each denomination once, in order of first appearance.
\<close>

locale adds_up =
  fixes reading :: "'c \<Rightarrow> ('k \<times> int) option"
    and step :: "'c \<Rightarrow> ('k \<times> int) list \<Rightarrow> ('k \<times> int) list"
  assumes step_reading: "step c m = (case reading c of None \<Rightarrow> m | Some (k, v) \<Rightarrow> tally k v m)"
begin

lemma fold_step: "fold step cs m = tally_all (List.map_filter reading cs) m"
  by (induction cs arbitrary: m)
    (simp_all add: step_reading tally_all_def List.map_filter_def split: option.splits)

lemma distinct_totals: "distinct (map fst (fold step cs []))"
  unfolding fold_step by (rule tally_all_distinct) simp

lemma total: "total_of (fold step cs []) k = sum_list (map snd (filter (\<lambda>e. fst e = k) (List.map_filter reading cs)))"
  unfolding fold_step total_of_tally_all by (simp add: total_of_def)

lemma total_in: "(k, t) \<in> set (fold step cs []) \<Longrightarrow> t = total_of (fold step cs []) k"
  using distinct_totals by (simp add: total_of_def)

end

end
