(* ===== verification/Text.thy ===== *)
theory Text imports Prelude begin

text \<open>
  JavaScript strings and big integers, as far as the clients use them. A \<open>string\<close> is the UTF-8
  encoding of the JavaScript string: bytes and text operations (trim, split, concatenation,
  comparison of encodings) are exact, and the operations that count UTF-16 units
  (\<open>length\<close>, \<open>slice\<close>, indexing) agree with \<open>length\<close>, \<open>take\<close> and \<open>drop\<close> on ASCII text, which is
  what identifiers, denominations, addresses and amounts are. Case conversion is ASCII only.
\<close>

section \<open>Prefixes, suffixes, pieces\<close>

definition starts_with :: "string \<Rightarrow> string \<Rightarrow> bool" where
  "starts_with s p \<longleftrightarrow> take (length p) s = p"

definition ends_with :: "string \<Rightarrow> string \<Rightarrow> bool" where
  "ends_with s p \<longleftrightarrow> length p \<le> length s \<and> drop (length s - length p) s = p"

lemma starts_with_append [simp]: "starts_with (p @ s) p"
  by (simp add: starts_with_def)

lemma starts_with_iff: "starts_with s p \<longleftrightarrow> (\<exists>t. s = p @ t)"
  unfolding starts_with_def by (metis append_eq_conv_conj append_take_drop_id)

text \<open>\<open>s.split(c)\<close> for a one-character separator, and \<open>xs.join(sep)\<close>.\<close>

fun split_on :: "char \<Rightarrow> string \<Rightarrow> string list" where
  "split_on c [] = [[]]"
| "split_on c (x # xs) =
     (if x = c then [] # split_on c xs
      else (case split_on c xs of [] \<Rightarrow> [[x]] | p # ps \<Rightarrow> (x # p) # ps))"

fun join_with :: "string \<Rightarrow> string list \<Rightarrow> string" where
  "join_with sep [] = []"
| "join_with sep [x] = x"
| "join_with sep (x # y # zs) = x @ sep @ join_with sep (y # zs)"

lemma split_on_ne [simp]: "split_on c s \<noteq> []"
  by (induction s) (auto split: list.splits)

lemma join_with_Cons: "ps \<noteq> [] \<Longrightarrow> join_with sep (p # ps) = p @ sep @ join_with sep ps"
  by (cases ps) auto

lemma join_split [simp]: "join_with [c] (split_on c s) = s"
proof (induction s)
  case (Cons x xs)
  obtain p ps where pps: "split_on c xs = p # ps"
    using split_on_ne [of c xs] by (meson list.exhaust)
  have "join_with [c] ((x # p) # ps) = x # join_with [c] (p # ps)"
    by (cases ps) auto
  then show ?case using Cons.IH by (simp add: join_with_Cons pps)
qed simp

lemma split_on_no_sep: "c \<notin> set s \<Longrightarrow> split_on c s = [s]"
  by (induction s) auto

lemma split_on_append: "c \<notin> set p \<Longrightarrow> split_on c (p @ c # s) = p # split_on c s"
  by (induction p) auto

lemma split_join:
  assumes "ps \<noteq> []" and "\<forall>p \<in> set ps. c \<notin> set p"
  shows "split_on c (join_with [c] ps) = ps"
  using assms
proof (induction ps)
  case (Cons p ps)
  then show ?case
    by (cases ps) (auto simp: join_with_Cons split_on_append split_on_no_sep)
qed simp

lemma split_on_parts_no_sep: "p \<in> set (split_on c s) \<Longrightarrow> c \<notin> set p"
  by (induction s arbitrary: p) (auto split: if_splits list.splits)

section \<open>Padding and case\<close>

definition pad_start :: "nat \<Rightarrow> char \<Rightarrow> string \<Rightarrow> string" where
  "pad_start n c s = replicate (n - length s) c @ s"

definition pad_end :: "nat \<Rightarrow> char \<Rightarrow> string \<Rightarrow> string" where
  "pad_end n c s = s @ replicate (n - length s) c"

lemma length_pad_start [simp]: "length (pad_start n c s) = max n (length s)"
  by (simp add: pad_start_def)

lemma length_pad_end [simp]: "length (pad_end n c s) = max n (length s)"
  by (simp add: pad_end_def)

definition upper_alphabet :: string where
  "upper_alphabet = ''ABCDEFGHIJKLMNOPQRSTUVWXYZ''"

definition lower_alphabet :: string where
  "lower_alphabet = ''abcdefghijklmnopqrstuvwxyz''"

definition to_upper_char :: "char \<Rightarrow> char" where
  "to_upper_char c = (case index_of c lower_alphabet of None \<Rightarrow> c | Some i \<Rightarrow> upper_alphabet ! i)"

definition to_lower_char :: "char \<Rightarrow> char" where
  "to_lower_char c = (case index_of c upper_alphabet of None \<Rightarrow> c | Some i \<Rightarrow> lower_alphabet ! i)"

definition to_upper :: "string \<Rightarrow> string" where
  "to_upper s = map to_upper_char s"

definition to_lower :: "string \<Rightarrow> string" where
  "to_lower s = map to_lower_char s"

lemma to_upper_char_id: "c \<notin> set lower_alphabet \<Longrightarrow> to_upper_char c = c"
  by (simp add: to_upper_char_def split: option.splits) (metis index_of_None_iff option.distinct(1))

lemma to_upper_char_in: "to_upper_char c \<in> set upper_alphabet \<or> (to_upper_char c = c \<and> c \<notin> set lower_alphabet)"
proof (cases "c \<in> set lower_alphabet")
  case True
  then obtain i where i: "index_of c lower_alphabet = Some i" "i < length lower_alphabet"
    using index_of_ex by metis
  then have "upper_alphabet ! i \<in> set upper_alphabet"
    by (intro nth_mem) (simp add: upper_alphabet_def lower_alphabet_def)
  then show ?thesis using i by (simp add: to_upper_char_def)
qed (simp add: to_upper_char_id)

lemma upper_not_lower: "c \<in> set upper_alphabet \<Longrightarrow> c \<notin> set lower_alphabet"
  by (auto simp: upper_alphabet_def lower_alphabet_def)

lemma to_upper_char_idem [simp]: "to_upper_char (to_upper_char c) = to_upper_char c"
  by (metis to_upper_char_in to_upper_char_id upper_not_lower)

lemma to_upper_idem [simp]: "to_upper (to_upper s) = to_upper s"
  by (simp add: to_upper_def)

lemma length_to_upper [simp]: "length (to_upper s) = length s"
  by (simp add: to_upper_def)

section \<open>Whitespace\<close>

text \<open>
  The encodings of the characters that \<open>trim\<close> and the class \<open>\s\<close> of a regular expression take for
  white space: tab to carriage return, space, U+00A0, U+1680, U+2000 to U+200A, U+2028, U+2029,
  U+202F, U+205F, U+3000 and U+FEFF.
\<close>

definition ws_units :: "string list" where
  "ws_units =
    [[CHR 0x09], [CHR 0x0A], [CHR 0x0B], [CHR 0x0C], [CHR 0x0D], [CHR 0x20],
     [CHR 0xC2, CHR 0xA0], [CHR 0xE1, CHR 0x9A, CHR 0x80],
     [CHR 0xE2, CHR 0x80, CHR 0x80], [CHR 0xE2, CHR 0x80, CHR 0x81], [CHR 0xE2, CHR 0x80, CHR 0x82],
     [CHR 0xE2, CHR 0x80, CHR 0x83], [CHR 0xE2, CHR 0x80, CHR 0x84], [CHR 0xE2, CHR 0x80, CHR 0x85],
     [CHR 0xE2, CHR 0x80, CHR 0x86], [CHR 0xE2, CHR 0x80, CHR 0x87], [CHR 0xE2, CHR 0x80, CHR 0x88],
     [CHR 0xE2, CHR 0x80, CHR 0x89], [CHR 0xE2, CHR 0x80, CHR 0x8A], [CHR 0xE2, CHR 0x80, CHR 0xA8],
     [CHR 0xE2, CHR 0x80, CHR 0xA9], [CHR 0xE2, CHR 0x80, CHR 0xAF], [CHR 0xE2, CHR 0x81, CHR 0x9F],
     [CHR 0xE3, CHR 0x80, CHR 0x80], [CHR 0xEF, CHR 0xBB, CHR 0xBF]]"

text \<open>
  \<open>unit_at us s\<close> is how many bytes the unit at the front of \<open>s\<close> takes, 0 when none of \<open>us\<close> is
  there. \<open>drop_units\<close> strips units from the front, \<open>remove_units\<close> strips them everywhere.
\<close>

definition unit_at :: "string list \<Rightarrow> string \<Rightarrow> nat" where
  "unit_at us s = (case List.find (\<lambda>u. starts_with s u) us of None \<Rightarrow> 0 | Some u \<Rightarrow> length u)"

lemma unit_at_Nil [simp]: "unit_at us [] = 0"
proof (cases "List.find (\<lambda>u. starts_with [] u) us")
  case (Some u)
  then have "starts_with [] u" using find_SomeD by metis
  then show ?thesis using Some by (simp add: unit_at_def starts_with_def)
qed (simp add: unit_at_def)

function drop_units :: "string list \<Rightarrow> string \<Rightarrow> string" where
  "drop_units us s = (if unit_at us s = 0 then s else drop_units us (drop (unit_at us s) s))"
  by pat_completeness auto
termination
proof (relation "measure (\<lambda>(us, s). length s)")
  fix us and s :: string
  assume n: "unit_at us s \<noteq> 0"
  then have "s \<noteq> []" using unit_at_Nil by metis
  then show "((us, drop (unit_at us s) s), us, s) \<in> measure (\<lambda>(us, s). length s)"
    using n by simp
qed simp

declare drop_units.simps [simp del, evals]

function remove_units :: "string list \<Rightarrow> string \<Rightarrow> string" where
  "remove_units us [] = []"
| "remove_units us (c # s) =
     (if unit_at us (c # s) = 0 then c # remove_units us s
      else remove_units us (drop (unit_at us (c # s) - 1) s))"
  by pat_completeness auto
termination by (relation "measure (\<lambda>(us, s). length s)") auto

definition trim_left :: "string \<Rightarrow> string" where
  "trim_left s = drop_units ws_units s"

definition trim :: "string \<Rightarrow> string" where
  "trim s = rev (drop_units (map rev ws_units) (rev (trim_left s)))"

text \<open>Text of visible ASCII characters has no white space in it.\<close>

definition graphic :: "char \<Rightarrow> bool" where
  "graphic c \<longleftrightarrow> 33 \<le> (of_char c :: nat) \<and> (of_char c :: nat) < 127"

lemma unit_at_graphic:
  assumes "graphic c" and "\<forall>u \<in> set us. u \<noteq> [] \<and> \<not> graphic (hd u)"
  shows "unit_at us (c # s) = 0"
proof -
  have "List.find (\<lambda>u. starts_with (c # s) u) us = None"
    using assms by (fastforce simp: find_None_conv starts_with_def neq_Nil_conv)
  then show ?thesis by (simp add: unit_at_def)
qed

lemma ws_heads: "\<forall>u \<in> set ws_units. u \<noteq> [] \<and> \<not> graphic (hd u)"
  by (simp add: ws_units_def graphic_def)

lemma ws_lasts: "\<forall>u \<in> set (map rev ws_units). u \<noteq> [] \<and> \<not> graphic (hd u)"
  by (simp add: ws_units_def graphic_def)

lemma drop_units_graphic:
  assumes "s = [] \<or> graphic (hd s)" and "\<forall>u \<in> set us. u \<noteq> [] \<and> \<not> graphic (hd u)"
  shows "drop_units us s = s"
  using assms by (cases s) (auto simp: drop_units.simps unit_at_graphic)

lemma remove_units_graphic:
  "\<forall>c \<in> set s. graphic c \<Longrightarrow> \<forall>u \<in> set us. u \<noteq> [] \<and> \<not> graphic (hd u) \<Longrightarrow> remove_units us s = s"
  by (induction s) (auto simp: unit_at_graphic)

lemma trim_left_graphic: "s = [] \<or> graphic (hd s) \<Longrightarrow> trim_left s = s"
  by (simp add: trim_left_def drop_units_graphic ws_heads)

lemma trim_graphic:
  assumes "s = [] \<or> (graphic (hd s) \<and> graphic (last s))"
  shows "trim s = s"
proof -
  have "trim_left s = s" using assms by (intro trim_left_graphic) auto
  moreover have "drop_units (map rev ws_units) (rev s) = rev s"
    using assms by (intro drop_units_graphic ws_lasts) (auto simp: hd_rev)
  ultimately show ?thesis by (simp add: trim_def)
qed

lemma trim_all_graphic: "\<forall>c \<in> set s. graphic c \<Longrightarrow> trim s = s"
  by (rule trim_graphic) auto

section \<open>Decimal digits\<close>

definition is_digit :: "char \<Rightarrow> bool" where
  "is_digit c \<longleftrightarrow> 48 \<le> (of_char c :: nat) \<and> (of_char c :: nat) \<le> 57"

definition digit_val :: "char \<Rightarrow> nat" where
  "digit_val c = of_char c - 48"

definition digit_char :: "nat \<Rightarrow> char" where
  "digit_char d = char_of (48 + d)"

definition all_digits :: "string \<Rightarrow> bool" where
  "all_digits s \<longleftrightarrow> (\<forall>c \<in> set s. is_digit c)"

fun dec_nat :: "nat \<Rightarrow> string" where
  "dec_nat n = (if n < 10 then [digit_char n] else dec_nat (n div 10) @ [digit_char (n mod 10)])"

declare dec_nat.simps [simp del, evals]

fun nat_of_dec_acc :: "nat \<Rightarrow> string \<Rightarrow> nat" where
  "nat_of_dec_acc a [] = a"
| "nat_of_dec_acc a (c # s) = nat_of_dec_acc (10 * a + digit_val c) s"

definition nat_of_dec :: "string \<Rightarrow> nat" where
  "nat_of_dec s = nat_of_dec_acc 0 s"

lemma of_char_digit_char [simp]: "d < 10 \<Longrightarrow> of_char (digit_char d) = 48 + d"
  by (simp add: digit_char_def)

lemma is_digit_digit_char [simp]: "d < 10 \<Longrightarrow> is_digit (digit_char d)"
  by (simp add: is_digit_def)

lemma digit_val_digit_char [simp]: "d < 10 \<Longrightarrow> digit_val (digit_char d) = d"
  by (simp add: digit_val_def)

lemma digit_char_digit_val [simp]: "is_digit c \<Longrightarrow> digit_char (digit_val c) = c"
  by (simp add: digit_char_def digit_val_def is_digit_def)

lemma digit_val_less: "is_digit c \<Longrightarrow> digit_val c < 10"
  unfolding digit_val_def is_digit_def by linarith

lemma digit_val_zero [simp]: "digit_val CHR ''0'' = 0"
  by (simp add: digit_val_def)

lemma digit_zero [simp]: "is_digit CHR ''0''"
  by (simp add: is_digit_def)

lemma digit_val_eq_0: "is_digit c \<Longrightarrow> digit_val c = 0 \<longleftrightarrow> c = CHR ''0''"
  by (metis digit_char_digit_val digit_val_zero digit_zero)

lemma digit_graphic: "is_digit c \<Longrightarrow> graphic c"
  by (simp add: is_digit_def graphic_def)

lemma digit_chars [simp]:
  "digit_char 0 = CHR ''0''" "digit_char (Suc 0) = CHR ''1''" "digit_char 1 = CHR ''1''"
  "digit_char 2 = CHR ''2''" "digit_char 3 = CHR ''3''" "digit_char 4 = CHR ''4''"
  "digit_char 5 = CHR ''5''" "digit_char 6 = CHR ''6''" "digit_char 7 = CHR ''7''"
  "digit_char 8 = CHR ''8''" "digit_char 9 = CHR ''9''"
  by (code_simp, code_simp, code_simp, code_simp, code_simp, code_simp, code_simp, code_simp,
      code_simp, code_simp, code_simp)

lemma all_digits_Nil [simp]: "all_digits []" by (simp add: all_digits_def)

lemma all_digits_Cons [simp]: "all_digits (c # s) \<longleftrightarrow> is_digit c \<and> all_digits s"
  by (simp add: all_digits_def)

lemma all_digits_append [simp]: "all_digits (s @ t) \<longleftrightarrow> all_digits s \<and> all_digits t"
  by (auto simp: all_digits_def)

lemma all_digits_replicate [simp]: "is_digit c \<Longrightarrow> all_digits (replicate n c)"
  by (simp add: all_digits_def)

lemma all_digits_take: "all_digits s \<Longrightarrow> all_digits (take n s)"
  by (auto simp: all_digits_def dest: in_set_takeD)

lemma all_digits_drop: "all_digits s \<Longrightarrow> all_digits (drop n s)"
  by (auto simp: all_digits_def dest: in_set_dropD)

lemma all_digits_graphic: "all_digits s \<Longrightarrow> \<forall>c \<in> set s. graphic c"
  by (simp add: all_digits_def digit_graphic)

lemma not_digit_in: "all_digits s \<Longrightarrow> \<not> is_digit c \<Longrightarrow> c \<notin> set s"
  by (auto simp: all_digits_def)

lemma nat_of_dec_acc_shift: "nat_of_dec_acc a s = a * 10 ^ length s + nat_of_dec s"
proof (induction s arbitrary: a)
  case (Cons c s)
  show ?case
    using Cons [of "10 * a + digit_val c"] Cons [of "digit_val c"]
    by (simp add: nat_of_dec_def algebra_simps)
qed (simp add: nat_of_dec_def)

lemma nat_of_dec_Nil [simp]: "nat_of_dec [] = 0" by (simp add: nat_of_dec_def)

lemma nat_of_dec_Cons: "nat_of_dec (c # s) = digit_val c * 10 ^ length s + nat_of_dec s"
  using nat_of_dec_acc_shift [of "digit_val c" s] by (simp add: nat_of_dec_def)

lemma nat_of_dec_append: "nat_of_dec (s @ t) = nat_of_dec s * 10 ^ length t + nat_of_dec t"
  by (induction s) (simp_all add: nat_of_dec_Cons power_add distrib_right mult.assoc)

lemma nat_of_dec_zeros [simp]: "nat_of_dec (replicate n CHR ''0'') = 0"
  by (induction n) (simp_all add: nat_of_dec_Cons)

lemma nat_of_dec_pad [simp]: "nat_of_dec (pad_start n CHR ''0'' s) = nat_of_dec s"
  by (simp add: pad_start_def nat_of_dec_append)

lemma nat_of_dec_less: "all_digits s \<Longrightarrow> nat_of_dec s < 10 ^ length s"
proof (induction s)
  case (Cons c s)
  have "nat_of_dec s < 10 ^ length s" using Cons by simp
  moreover have "digit_val c \<le> 9" using Cons.prems digit_val_less [of c] by simp
  then have "digit_val c * 10 ^ length s \<le> 9 * 10 ^ length s" by (rule mult_right_mono) simp
  ultimately have "digit_val c * 10 ^ length s + nat_of_dec s < 10 * 10 ^ length s" by linarith
  then show ?case by (simp add: nat_of_dec_Cons)
qed simp

lemma dec_nat_digits [simp]: "all_digits (dec_nat n)"
proof (induction n rule: dec_nat.induct)
  case (1 n)
  then show ?case by (subst dec_nat.simps) auto
qed

lemma dec_nat_ne [simp]: "dec_nat n \<noteq> []"
  by (subst dec_nat.simps) simp

lemma dec_nat_0 [simp]: "dec_nat 0 = ''0''"
  by (simp add: evals)

lemma nat_of_dec_dec_nat [simp]: "nat_of_dec (dec_nat n) = n"
proof (induction n rule: dec_nat.induct)
  case (1 n)
  show ?case
  proof (cases "n < 10")
    case False
    then have "nat_of_dec (dec_nat n) = nat_of_dec (dec_nat (n div 10)) * 10 + n mod 10"
      by (subst dec_nat.simps) (simp add: nat_of_dec_append nat_of_dec_Cons)
    then show ?thesis using 1 False by simp
  qed (subst dec_nat.simps, simp add: nat_of_dec_Cons)
qed

lemma length_dec_nat: "k > 0 \<Longrightarrow> n < 10 ^ k \<Longrightarrow> length (dec_nat n) \<le> k"
proof (induction n arbitrary: k rule: dec_nat.induct)
  case (1 n)
  show ?case
  proof (cases "n < 10")
    case False
    then obtain j where k: "k = Suc j" "j > 0" using 1 by (cases k; cases "k - 1") auto
    then have "length (dec_nat (n div 10)) \<le> j"
      using 1 False by (intro "1.IH") auto
    then show ?thesis using k False by (subst dec_nat.simps) simp
  qed (use 1 in \<open>subst dec_nat.simps, simp\<close>)
qed

lemma dec_nat_hd_zero: "hd (dec_nat n) = CHR ''0'' \<longleftrightarrow> n = 0"
proof (induction n rule: dec_nat.induct)
  case (1 n)
  show ?case
  proof (cases "n < 10")
    case True
    then have "hd (dec_nat n) = digit_char n" by (subst dec_nat.simps) simp
    then show ?thesis using True digit_val_eq_0 [of "digit_char n"] by simp
  next
    case False
    then have "hd (dec_nat n) = hd (dec_nat (n div 10))" by (subst dec_nat.simps) simp
    then show ?thesis using 1 False by auto
  qed
qed

lemma nat_of_dec_inj:
  "all_digits s \<Longrightarrow> all_digits t \<Longrightarrow> length s = length t \<Longrightarrow> nat_of_dec s = nat_of_dec t \<Longrightarrow> s = t"
proof (induction s arbitrary: t)
  case (Cons c s)
  then obtain d u where t: "t = d # u" by (cases t) auto
  have l: "nat_of_dec s < 10 ^ length s" "nat_of_dec u < 10 ^ length s"
    using Cons.prems t nat_of_dec_less by fastforce+
  have eq: "digit_val c * 10 ^ length s + nat_of_dec s = digit_val d * 10 ^ length s + nat_of_dec u"
    using Cons.prems t by (simp add: nat_of_dec_Cons)
  have "digit_val c = digit_val d"
    using arg_cong [OF eq, of "\<lambda>x. x div 10 ^ length s"] l by simp
  moreover have "nat_of_dec s = nat_of_dec u" using eq \<open>digit_val c = digit_val d\<close> by simp
  ultimately show ?case using Cons t by (metis all_digits_Cons digit_char_digit_val length_Cons nat.inject)
qed simp

lemma dec_nat_canonical:
  "all_digits s \<Longrightarrow> s \<noteq> [] \<Longrightarrow> hd s \<noteq> CHR ''0'' \<or> length s = 1 \<Longrightarrow> dec_nat (nat_of_dec s) = s"
proof (induction s rule: rev_induct)
  case (snoc c t)
  have c: "is_digit c" "digit_val c < 10" using snoc.prems digit_val_less by auto
  have v: "nat_of_dec (t @ [c]) = nat_of_dec t * 10 + digit_val c"
    by (simp add: nat_of_dec_append nat_of_dec_Cons)
  show ?case
  proof (cases "t = []")
    case True
    then show ?thesis using c by (simp add: nat_of_dec_Cons dec_nat.simps)
  next
    case False
    then have t: "dec_nat (nat_of_dec t) = t" "hd t \<noteq> CHR ''0''" using snoc by auto
    then have "nat_of_dec t \<noteq> 0" using dec_nat_hd_zero [of "nat_of_dec t"] by simp
    then have "dec_nat (nat_of_dec (t @ [c])) = dec_nat (nat_of_dec t) @ [digit_char (digit_val c)]"
      using c by (subst dec_nat.simps) (simp add: v)
    then show ?thesis using t c by simp
  qed
qed simp

section \<open>Big integers\<close>

text \<open>
  \<open>x.toString()\<close> of a big integer, and \<open>BigInt(s)\<close>: white space around is ignored, the empty
  string is 0, a radix prefix takes no sign, and anything else is a \<open>SyntaxError\<close> (\<open>None\<close>).
  \<open>/\<close> and \<open>%\<close> of big integers truncate toward zero.
\<close>

definition show_int :: "int \<Rightarrow> string" where
  "show_int i = (if i < 0 then CHR ''-'' # dec_nat (nat (- i)) else dec_nat (nat i))"

definition radix_val :: "nat \<Rightarrow> char \<Rightarrow> nat option" where
  "radix_val r c = (case index_of (to_lower_char c) ''0123456789abcdef'' of
     Some d \<Rightarrow> (if d < r then Some d else None) | None \<Rightarrow> None)"

fun radix_digits :: "nat \<Rightarrow> nat \<Rightarrow> string \<Rightarrow> nat option" where
  "radix_digits r a [] = Some a"
| "radix_digits r a (c # s) = (case radix_val r c of None \<Rightarrow> None | Some d \<Rightarrow> radix_digits r (r * a + d) s)"

definition radix_lit :: "nat \<Rightarrow> string \<Rightarrow> int option" where
  "radix_lit r s = (if s = [] then None else map_option int (radix_digits r 0 s))"

definition radix_prefix :: "string \<Rightarrow> nat option" where
  "radix_prefix s = (case s of a # b # _ \<Rightarrow>
       if a \<noteq> CHR ''0'' then None else if b \<in> set ''xX'' then Some 16
       else if b \<in> set ''oO'' then Some 8 else if b \<in> set ''bB'' then Some 2 else None
     | _ \<Rightarrow> None)"

definition dec_lit :: "string \<Rightarrow> int option" where
  "dec_lit s = (if s \<noteq> [] \<and> all_digits s then Some (int (nat_of_dec s)) else None)"

definition big_int :: "string \<Rightarrow> int option" where
  "big_int s =
    (let t = trim s in
     if t = [] then Some 0 else
     case radix_prefix t of Some r \<Rightarrow> radix_lit r (drop 2 t)
     | None \<Rightarrow> (if hd t = CHR ''-'' then map_option uminus (dec_lit (tl t))
               else if hd t = CHR ''+'' then dec_lit (tl t) else dec_lit t))"

definition big_div :: "int \<Rightarrow> int \<Rightarrow> int" where
  "big_div a b = (if (a < 0) = (b < 0) then \<bar>a\<bar> div \<bar>b\<bar> else - (\<bar>a\<bar> div \<bar>b\<bar>))"

definition big_mod :: "int \<Rightarrow> int \<Rightarrow> int" where
  "big_mod a b = a - b * big_div a b"

lemma big_div_nonneg [simp]: "0 \<le> a \<Longrightarrow> 0 < b \<Longrightarrow> big_div a b = a div b"
  by (simp add: big_div_def)

lemma big_mod_nonneg [simp]: "0 \<le> a \<Longrightarrow> 0 < b \<Longrightarrow> big_mod a b = a mod b"
  by (simp add: big_mod_def minus_mult_div_eq_mod)

lemma show_int_nonneg: "0 \<le> i \<Longrightarrow> show_int i = dec_nat (nat i)"
  by (simp add: show_int_def)

lemma special_not_digit: "\<forall>c \<in> set ''-+xXoObB.,/ ''. \<not> is_digit c"
  by (simp add: is_digit_def)

lemma show_int_of_nat [simp]: "show_int (int n) = dec_nat n"
  by (simp add: show_int_def)

lemma specials_no_digits [simp]:
  "\<not> is_digit CHR ''-''" "\<not> is_digit CHR ''+''" "\<not> is_digit CHR ''.''" "\<not> is_digit CHR '',''"
  "\<not> is_digit CHR ''/''" "\<not> is_digit CHR '' ''" "\<not> is_digit CHR '':''"
  by (simp_all add: is_digit_def)

lemma digit_not_special: "is_digit c \<Longrightarrow> c \<notin> set ''-+xXoObB.,/ ''"
  using special_not_digit by blast

lemma radix_prefix_digits:
  assumes "all_digits s"
  shows "radix_prefix s = None"
proof (cases s)
  case (Cons a t)
  then show ?thesis
    using assms digit_not_special [of "hd t"] by (cases t) (simp_all add: radix_prefix_def)
qed (simp add: radix_prefix_def)

lemma big_int_digits:
  assumes "all_digits s" and "s \<noteq> []"
  shows "big_int s = Some (int (nat_of_dec s))"
proof -
  have "trim s = s" using assms by (intro trim_all_graphic all_digits_graphic)
  moreover have "is_digit (hd s)" using assms by (cases s) auto
  ultimately show ?thesis
    using assms digit_not_special [of "hd s"]
    by (simp add: big_int_def radix_prefix_digits dec_lit_def)
qed

lemma big_int_neg_digits:
  assumes "all_digits s" and "s \<noteq> []"
  shows "big_int (CHR ''-'' # s) = Some (- int (nat_of_dec s))"
proof -
  have "trim (CHR ''-'' # s) = CHR ''-'' # s"
    using assms all_digits_graphic by (intro trim_all_graphic) (auto simp: graphic_def)
  moreover have "radix_prefix (CHR ''-'' # s) = None"
    by (cases s) (simp_all add: radix_prefix_def)
  ultimately show ?thesis using assms by (simp add: big_int_def dec_lit_def)
qed

lemma big_int_show [simp]: "big_int (show_int i) = Some i"
  by (cases "i < 0") (simp_all add: show_int_def big_int_digits big_int_neg_digits)

lemma show_int_inj [simp]: "show_int i = show_int j \<longleftrightarrow> i = j"
  by (metis big_int_show option.inject)

section \<open>Punctuation outside ASCII\<close>

definition EM_DASH :: string where "EM_DASH = [CHR 0xE2, CHR 0x80, CHR 0x94]"
definition APOS :: string where "APOS = [CHR 0xE2, CHR 0x80, CHR 0x99]"

end
