(* ===== verification/JsNumber.thy ===== *)
theory JsNumber imports Text begin

text \<open>
  JavaScript's \<open>Number\<close>, as IEEE 754 binary64: every finite value is kept exactly, as sign,
  mantissa and exponent, and an operation is the exact rational result rounded to nearest, ties
  to even. Converting a string (\<open>Number(s)\<close>) and printing (\<open>String(x)\<close>, the shortest digits that
  read back) follow ECMA-262.
\<close>

datatype jsnum = JNaN | JInf bool | JFin bool nat int

section \<open>Rounding\<close>

fun bit_len :: "nat \<Rightarrow> nat" where
  "bit_len n = (if n = 0 then 0 else Suc (bit_len (n div 2)))"

declare bit_len.simps [simp del, evals]

text \<open>For evaluation, the length of a literal is read off its digits instead of halved away.\<close>

fun num_len :: "num \<Rightarrow> nat" where
  "num_len num.One = 1"
| "num_len (num.Bit0 m) = Suc (num_len m)"
| "num_len (num.Bit1 m) = Suc (num_len m)"

lemma bit_len_0 [simp]: "bit_len 0 = 0" by (simp add: evals)

lemma bit_len_numeral: "bit_len (numeral m) = num_len m"
proof (induction m)
  case One
  then show ?case by (simp add: evals)
next
  case (Bit0 m)
  have "(a + a) div 2 = a" for a :: nat by simp
  then have "numeral (num.Bit0 m) div 2 = (numeral m :: nat)" by (subst numeral_Bit0) metis
  then show ?case using Bit0 by (subst bit_len.simps) simp
next
  case (Bit1 m)
  have "(a + a + 1) div 2 = a" for a :: nat by simp
  then have "numeral (num.Bit1 m) div 2 = (numeral m :: nat)" by (subst numeral_Bit1) metis
  then show ?case using Bit1 by (subst bit_len.simps) simp
qed

definition bit_len_integer :: "integer \<Rightarrow> nat" where
  "bit_len_integer k = bit_len (nat_of_integer k)"

lemma bit_len_integer_code [code]:
  "bit_len_integer 0 = 0"
  "bit_len_integer (Code_Numeral.Pos m) = num_len m"
  "bit_len_integer (Code_Numeral.Neg m) = 0"
  by (simp_all add: bit_len_integer_def bit_len_numeral)

lemma bit_len_code [code]: "bit_len n = bit_len_integer (integer_of_nat n)"
  by (simp add: bit_len_integer_def)

text \<open>\<open>scale n d e\<close> is \<open>n / (d * 2 ^ e)\<close> as a numerator and a denominator.\<close>

definition scale :: "nat \<Rightarrow> nat \<Rightarrow> int \<Rightarrow> nat \<times> nat" where
  "scale n d e = (if 0 \<le> e then (n, d * 2 ^ nat e) else (n * 2 ^ nat (- e), d))"

definition round_even :: "nat \<Rightarrow> nat \<Rightarrow> nat" where
  "round_even n d =
    (let q = n div d; r = 2 * (n mod d) in
     if r < d then q else if d < r then q + 1 else if even q then q else q + 1)"

definition num_exp :: "nat \<Rightarrow> nat \<Rightarrow> int" where
  "num_exp n d =
    (let e = int (bit_len n) - int (bit_len d) - 53; (a, b) = scale n d e in
     max (- 1074) (if 2 ^ 53 * b \<le> a then e + 1 else e))"

definition to_double :: "bool \<Rightarrow> nat \<Rightarrow> nat \<Rightarrow> jsnum" where
  "to_double neg n d =
    (if n = 0 then JFin neg 0 0 else
     let e = num_exp n d; (a, b) = scale n d e; m = round_even a b;
         (m, e) = (if m = 2 ^ 53 then (2 ^ 52, e + 1) else (m, e)) in
     if m = 0 then JFin neg 0 0 else if 971 < e then JInf neg else JFin neg m e)"

text \<open>The exact value of a finite number, as sign, numerator and denominator.\<close>

definition num_frac :: "nat \<Rightarrow> int \<Rightarrow> nat \<times> nat" where
  "num_frac m e = (if 0 \<le> e then (m * 2 ^ nat e, 1) else (m, 2 ^ nat (- e)))"

definition num_of_nat :: "nat \<Rightarrow> jsnum" where
  "num_of_nat n = to_double False n 1"

definition num_of_int :: "int \<Rightarrow> jsnum" where
  "num_of_int i = to_double (i < 0) (nat \<bar>i\<bar>) 1"

fun num_is_integer :: "jsnum \<Rightarrow> bool" where
  "num_is_integer (JFin s m e) = (let (n, d) = num_frac m e in n mod d = 0)"
| "num_is_integer _ = False"

section \<open>Arithmetic and comparison\<close>

fun num_neg :: "jsnum \<Rightarrow> jsnum" where
  "num_neg JNaN = JNaN"
| "num_neg (JInf s) = JInf (\<not> s)"
| "num_neg (JFin s m e) = JFin (\<not> s) m e"

fun num_mul :: "jsnum \<Rightarrow> jsnum \<Rightarrow> jsnum" where
  "num_mul (JFin s m e) (JFin t n f) =
    (let (a, b) = num_frac m e; (c, d) = num_frac n f in to_double (s \<noteq> t) (a * c) (b * d))"
| "num_mul (JInf s) (JFin t n f) = (if n = 0 then JNaN else JInf (s \<noteq> t))"
| "num_mul (JFin s m e) (JInf t) = (if m = 0 then JNaN else JInf (s \<noteq> t))"
| "num_mul (JInf s) (JInf t) = JInf (s \<noteq> t)"
| "num_mul _ _ = JNaN"

fun num_div :: "jsnum \<Rightarrow> jsnum \<Rightarrow> jsnum" where
  "num_div (JFin s m e) (JFin t n f) =
    (if n = 0 then (if m = 0 then JNaN else JInf (s \<noteq> t)) else
     let (a, b) = num_frac m e; (c, d) = num_frac n f in to_double (s \<noteq> t) (a * d) (b * c))"
| "num_div (JInf s) (JFin t n f) = JInf (s \<noteq> t)"
| "num_div (JFin s m e) (JInf t) = JFin (s \<noteq> t) 0 0"
| "num_div _ _ = JNaN"

definition signed_nat :: "bool \<Rightarrow> nat \<Rightarrow> int" where
  "signed_nat s n = (if s then - int n else int n)"

fun num_add :: "jsnum \<Rightarrow> jsnum \<Rightarrow> jsnum" where
  "num_add (JFin s m e) (JFin t n f) =
    (let (a, b) = num_frac m e; (c, d) = num_frac n f;
         v = signed_nat s (a * d) + signed_nat t (c * b) in
     if v = 0 then JFin (s \<and> t) 0 0 else to_double (v < 0) (nat \<bar>v\<bar>) (b * d))"
| "num_add (JInf s) (JFin t n f) = JInf s"
| "num_add (JFin s m e) (JInf t) = JInf t"
| "num_add (JInf s) (JInf t) = (if s = t then JInf s else JNaN)"
| "num_add _ _ = JNaN"

definition num_sub :: "jsnum \<Rightarrow> jsnum \<Rightarrow> jsnum" where
  "num_sub x y = num_add x (num_neg y)"

text \<open>\<open>x < y\<close>; a comparison with \<open>NaN\<close> is false, and the two zeros are equal.\<close>

fun num_less :: "jsnum \<Rightarrow> jsnum \<Rightarrow> bool" where
  "num_less (JFin s m e) (JFin t n f) =
    (let (a, b) = num_frac m e; (c, d) = num_frac n f in signed_nat s (a * d) < signed_nat t (c * b))"
| "num_less (JInf s) (JFin t n f) = s"
| "num_less (JFin s m e) (JInf t) = (\<not> t)"
| "num_less (JInf s) (JInf t) = (s \<and> \<not> t)"
| "num_less _ _ = False"

fun num_eq :: "jsnum \<Rightarrow> jsnum \<Rightarrow> bool" where
  "num_eq (JFin s m e) (JFin t n f) =
    (let (a, b) = num_frac m e; (c, d) = num_frac n f in signed_nat s (a * d) = signed_nat t (c * b))"
| "num_eq (JInf s) (JInf t) = (s = t)"
| "num_eq _ _ = False"

definition num_le :: "jsnum \<Rightarrow> jsnum \<Rightarrow> bool" where
  "num_le x y \<longleftrightarrow> num_less x y \<or> num_eq x y"

fun num_is_finite :: "jsnum \<Rightarrow> bool" where
  "num_is_finite (JFin _ _ _) = True"
| "num_is_finite _ = False"

section \<open>Reading\<close>

definition dec_scaled :: "bool \<Rightarrow> nat \<Rightarrow> int \<Rightarrow> jsnum" where
  "dec_scaled neg m k = (if 0 \<le> k then to_double neg (m * 10 ^ nat k) 1 else to_double neg m (10 ^ nat (- k)))"

definition signed_digits :: "string \<Rightarrow> int option" where
  "signed_digits s = (case s of
       [] \<Rightarrow> None
     | c # t \<Rightarrow> if c = CHR ''-'' then map_option uminus (dec_lit t)
               else if c = CHR ''+'' then dec_lit t else dec_lit s)"

definition unsigned_num :: "bool \<Rightarrow> string \<Rightarrow> jsnum" where
  "unsigned_num neg t =
    (if t = ''Infinity'' then JInf neg else
     let is_e = (\<lambda>c. c = CHR ''e'' \<or> c = CHR ''E'');
         mant = takeWhile (\<lambda>c. \<not> is_e c) t;
         tail = dropWhile (\<lambda>c. \<not> is_e c) t;
         ex = (if tail = [] then Some 0 else signed_digits (tl tail));
         ip = takeWhile (\<lambda>c. c \<noteq> CHR ''.'') mant;
         fp = drop (length ip + 1) mant in
     case ex of None \<Rightarrow> JNaN
     | Some k \<Rightarrow> if all_digits (ip @ fp) \<and> ip @ fp \<noteq> []
                then dec_scaled neg (nat_of_dec (ip @ fp)) (k - int (length fp)) else JNaN)"

text \<open>\<open>Number(s)\<close>.\<close>

definition number :: "string \<Rightarrow> jsnum" where
  "number s =
    (let t = trim s in
     if t = [] then JFin False 0 0 else
     case radix_prefix t of
       Some r \<Rightarrow> (case radix_lit r (drop 2 t) of None \<Rightarrow> JNaN | Some v \<Rightarrow> to_double False (nat v) 1)
     | None \<Rightarrow> if hd t = CHR ''-'' then unsigned_num True (tl t)
              else if hd t = CHR ''+'' then unsigned_num False (tl t) else unsigned_num False t)"

section \<open>Printing\<close>

text \<open>\<open>dec_exp n d\<close> is the \<open>k\<close> with \<open>10 ^ (k - 1) \<le> n / d < 10 ^ k\<close>; below one, the least
  power of ten that lifts the value to one is searched for (323 steps reach the smallest double).\<close>

fun lift_exp :: "nat \<Rightarrow> nat \<Rightarrow> nat \<Rightarrow> nat" where
  "lift_exp 0 n d = 0"
| "lift_exp (Suc f) n d = (if d \<le> n then 0 else Suc (lift_exp f (10 * n) d))"

definition dec_exp :: "nat \<Rightarrow> nat \<Rightarrow> int" where
  "dec_exp n d = (if d \<le> n then int (length (dec_nat (n div d))) else 1 - int (lift_exp 330 n d))"

text \<open>The candidates with \<open>k\<close> digits are the multiples of \<open>10 ^ (x - k)\<close> next to the value.\<close>

definition reads_back :: "jsnum \<Rightarrow> nat \<Rightarrow> int \<Rightarrow> bool" where
  "reads_back v s k = (dec_scaled False s k = v)"

definition pick_digits :: "jsnum \<Rightarrow> nat \<Rightarrow> nat \<Rightarrow> int \<Rightarrow> nat \<Rightarrow> nat option" where
  "pick_digits v n d x k =
    (let p = x - int k;
         (a, b) = (if 0 \<le> p then (n, d * 10 ^ nat p) else (n * 10 ^ nat (- p), d));
         lo = a div b; r = 2 * (a mod b);
         first = (if r < b \<or> (r = b \<and> even lo) then lo else lo + 1);
         second = (if first = lo then lo + 1 else lo) in
     if reads_back v first p then Some first
     else if reads_back v second p then Some second else None)"

fun shortest :: "nat \<Rightarrow> jsnum \<Rightarrow> nat \<Rightarrow> nat \<Rightarrow> int \<Rightarrow> nat \<Rightarrow> nat \<times> int" where
  "shortest 0 v n d x k = (0, x)"
| "shortest (Suc f) v n d x k = (case pick_digits v n d x k of
     Some s \<Rightarrow> if s = 10 ^ k then (1, x + 1) else (s, x)
   | None \<Rightarrow> shortest f v n d x (k + 1))"

definition layout_num :: "string \<Rightarrow> int \<Rightarrow> string" where
  "layout_num ds x =
    (let k = int (length ds) in
     if k \<le> x \<and> x \<le> 21 then ds @ replicate (nat (x - k)) CHR ''0''
     else if 0 < x \<and> x \<le> 21 then take (nat x) ds @ ''.'' @ drop (nat x) ds
     else if - 6 < x \<and> x \<le> 0 then ''0.'' @ replicate (nat (- x)) CHR ''0'' @ ds
     else let e = x - 1;
              suffix = ''e'' @ (if e < 0 then ''-'' else ''+'') @ dec_nat (nat \<bar>e\<bar>) in
          if length ds = 1 then ds @ suffix else [hd ds] @ ''.'' @ tl ds @ suffix)"

fun num_string :: "jsnum \<Rightarrow> string" where
  "num_string JNaN = ''NaN''"
| "num_string (JInf s) = (if s then ''-Infinity'' else ''Infinity'')"
| "num_string (JFin s m e) =
    (if m = 0 then ''0'' else
     let (n, d) = num_frac m e;
         (digits, x) = shortest 17 (JFin False m e) n d (dec_exp n d) 1 in
     (if s then ''-'' else []) @ layout_num (dec_nat digits) x)"

section \<open>Naturals below $2^{53}$ are exact\<close>

lemma bit_len_bounds: "0 < n \<Longrightarrow> 2 ^ (bit_len n - 1) \<le> n \<and> n < 2 ^ bit_len n \<and> 0 < bit_len n"
proof (induction n rule: bit_len.induct)
  case (1 n)
  show ?case
  proof (cases "n = 1")
    case False
    then have "0 < n div 2" using "1.prems" by auto
    then obtain k where k: "bit_len (n div 2) = Suc k" "2 ^ k \<le> n div 2" "n div 2 < 2 ^ Suc k"
      using 1 by (cases "bit_len (n div 2)") auto
    then have "bit_len n = Suc (Suc k)" using "1.prems" by (subst bit_len.simps) simp
    then show ?thesis using k by auto
  qed (simp add: evals)
qed

lemma bit_len_1 [simp]: "bit_len (Suc 0) = 1" by (simp add: evals)

end
