(* ===== verification/Denom.thy ===== *)
theory Denom imports JsNumber begin

text \<open>
  Denominations and the conversion between base and display units: \<open>sdk/src/denom.ts\<close>. A registry
  (a plain object there) is an association list from denominations; names that JavaScript objects
  inherit (\<open>constructor\<close>, \<open>toString\<close>) are not special in it. An exponent is an integer.
\<close>

section \<open>The registry\<close>

record denom_info =
  d_base :: string
  d_symbol :: string
  d_exponent :: int
  d_name :: string
  d_minor :: "nat option"

type_synonym registry = "(string \<times> denom_info) list"

abbreviation denom_info_of :: "string \<Rightarrow> string \<Rightarrow> int \<Rightarrow> nat option \<Rightarrow> string \<Rightarrow> denom_info" where
  "denom_info_of b s e m n \<equiv> \<lparr>d_base = b, d_symbol = s, d_exponent = e, d_name = n, d_minor = m\<rparr>"

definition KNOWN_DENOMS :: registry where
  "KNOWN_DENOMS =
   [(''uyml'', denom_info_of ''uyml'' ''YML'' 6 None ''Yamale''),
    (''uusd'', denom_info_of ''uusd'' ''USD'' 6 None ''US Dollar''),
    (''uusdc'', denom_info_of ''uusdc'' ''USDC'' 6 (Some 2) ''USD Coin''),
    (''ueurc'', denom_info_of ''ueurc'' ''EURC'' 6 (Some 2) ''Euro Coin''),
    (''uchf'', denom_info_of ''uchf'' ''CHF'' 6 None ''Swiss Franc''),
    (''ueur'', denom_info_of ''ueur'' ''EUR'' 6 None ''Euro''),
    (''ugbp'', denom_info_of ''ugbp'' ''GBP'' 6 None ''Pound Sterling''),
    (''ujpy'', denom_info_of ''ujpy'' ''JPY'' 6 (Some 0) ''Japanese Yen''),
    (''uaoa'', denom_info_of ''uaoa'' ''AOA'' 6 (Some 2) ''Angolan Kwanza''),
    (''ubif'', denom_info_of ''ubif'' ''BIF'' 6 (Some 0) ''Burundian Franc''),
    (''ubwp'', denom_info_of ''ubwp'' ''BWP'' 6 (Some 2) ''Botswana Pula''),
    (''ucdf'', denom_info_of ''ucdf'' ''CDF'' 6 (Some 2) ''Congolese Franc''),
    (''ucve'', denom_info_of ''ucve'' ''CVE'' 6 (Some 2) ''Cape Verdean Escudo''),
    (''udjf'', denom_info_of ''udjf'' ''DJF'' 6 (Some 0) ''Djiboutian Franc''),
    (''udzd'', denom_info_of ''udzd'' ''DZD'' 6 (Some 2) ''Algerian Dinar''),
    (''uegp'', denom_info_of ''uegp'' ''EGP'' 6 (Some 2) ''Egyptian Pound''),
    (''uern'', denom_info_of ''uern'' ''ERN'' 6 (Some 2) ''Eritrean Nakfa''),
    (''uetb'', denom_info_of ''uetb'' ''ETB'' 6 (Some 2) ''Ethiopian Birr''),
    (''ughs'', denom_info_of ''ughs'' ''GHS'' 6 (Some 2) ''Ghanaian Cedi''),
    (''ugmd'', denom_info_of ''ugmd'' ''GMD'' 6 (Some 2) ''Gambian Dalasi''),
    (''ugnf'', denom_info_of ''ugnf'' ''GNF'' 6 (Some 0) ''Guinean Franc''),
    (''ukes'', denom_info_of ''ukes'' ''KES'' 6 (Some 2) ''Kenyan Shilling''),
    (''ukmf'', denom_info_of ''ukmf'' ''KMF'' 6 (Some 0) ''Comorian Franc''),
    (''ulrd'', denom_info_of ''ulrd'' ''LRD'' 6 (Some 2) ''Liberian Dollar''),
    (''ulsl'', denom_info_of ''ulsl'' ''LSL'' 6 (Some 2) ''Lesotho Loti''),
    (''ulyd'', denom_info_of ''ulyd'' ''LYD'' 6 (Some 3) ''Libyan Dinar''),
    (''umad'', denom_info_of ''umad'' ''MAD'' 6 (Some 2) ''Moroccan Dirham''),
    (''umga'', denom_info_of ''umga'' ''MGA'' 6 (Some 2) ''Malagasy Ariary''),
    (''umru'', denom_info_of ''umru'' ''MRU'' 6 (Some 2) ''Mauritanian Ouguiya''),
    (''umur'', denom_info_of ''umur'' ''MUR'' 6 (Some 2) ''Mauritian Rupee''),
    (''umwk'', denom_info_of ''umwk'' ''MWK'' 6 (Some 2) ''Malawian Kwacha''),
    (''umzn'', denom_info_of ''umzn'' ''MZN'' 6 (Some 2) ''Mozambican Metical''),
    (''unad'', denom_info_of ''unad'' ''NAD'' 6 (Some 2) ''Namibian Dollar''),
    (''ungn'', denom_info_of ''ungn'' ''NGN'' 6 (Some 2) ''Nigerian Naira''),
    (''urwf'', denom_info_of ''urwf'' ''RWF'' 6 (Some 0) ''Rwandan Franc''),
    (''uscr'', denom_info_of ''uscr'' ''SCR'' 6 (Some 2) ''Seychellois Rupee''),
    (''usdg'', denom_info_of ''usdg'' ''SDG'' 6 (Some 2) ''Sudanese Pound''),
    (''usle'', denom_info_of ''usle'' ''SLE'' 6 (Some 2) ''Sierra Leonean Leone''),
    (''usos'', denom_info_of ''usos'' ''SOS'' 6 (Some 2) ''Somali Shilling''),
    (''ussp'', denom_info_of ''ussp'' ''SSP'' 6 (Some 2) ''South Sudanese Pound''),
    (''ustn'', denom_info_of ''ustn'' ''STN'' 6 (Some 2) (''S'' @ [CHR 0xC3] @ [CHR 0xA3] @ ''o Tom'' @ [CHR 0xC3] @ [CHR 0xA9] @ '' and Pr'' @ [CHR 0xC3] @ [CHR 0xAD] @ ''ncipe Dobra'')),
    (''uszl'', denom_info_of ''uszl'' ''SZL'' 6 (Some 2) ''Swazi Lilangeni''),
    (''utnd'', denom_info_of ''utnd'' ''TND'' 6 (Some 3) ''Tunisian Dinar''),
    (''utzs'', denom_info_of ''utzs'' ''TZS'' 6 (Some 2) ''Tanzanian Shilling''),
    (''uugx'', denom_info_of ''uugx'' ''UGX'' 6 (Some 0) ''Ugandan Shilling''),
    (''uxaf'', denom_info_of ''uxaf'' ''XAF'' 6 (Some 0) ''Central African CFA Franc''),
    (''uxof'', denom_info_of ''uxof'' ''XOF'' 6 (Some 0) ''West African CFA Franc''),
    (''uzar'', denom_info_of ''uzar'' ''ZAR'' 6 (Some 2) ''South African Rand''),
    (''uzmw'', denom_info_of ''uzmw'' ''ZMW'' 6 (Some 2) ''Zambian Kwacha''),
    (''uzwg'', denom_info_of ''uzwg'' ''ZWG'' 6 (Some 2) ''Zimbabwe Gold'')]"

definition LP_DENOM_PREFIX :: string where "LP_DENOM_PREFIX = ''amm/pool/''"

definition FRACTION_DENOM_PREFIX :: string where "FRACTION_DENOM_PREFIX = ''tok/''"

definition isPoolShare :: "string \<Rightarrow> bool" where
  "isPoolShare denom = starts_with denom LP_DENOM_PREFIX"

definition poolIdFromDenom :: "string \<Rightarrow> jsnum option" where
  "poolIdFromDenom denom =
    (if \<not> isPoolShare denom then None else
     let pid = number (drop (length LP_DENOM_PREFIX) denom) in
     if num_is_integer pid then Some pid else None)"

record fraction_denom =
  fr_asset :: string
  fr_symbol :: string

definition fractionDenomParts :: "string \<Rightarrow> fraction_denom option" where
  "fractionDenomParts denom =
    (if \<not> starts_with denom FRACTION_DENOM_PREFIX then None else
     let rest = drop (length FRACTION_DENOM_PREFIX) denom in
     case index_of CHR ''/'' rest of
       None \<Rightarrow> None
     | Some pos \<Rightarrow>
         if pos = 0 then None else
         let asset = take pos rest; symbol = drop (pos + 1) rest in
         if \<not> (asset \<noteq> [] \<and> all_digits asset) \<or> symbol = [] then None
         else Some \<lparr>fr_asset = asset, fr_symbol = symbol\<rparr>)"

definition isFractionShare :: "string \<Rightarrow> bool" where
  "isFractionShare denom = (fractionDenomParts denom \<noteq> None)"

definition resolveDenom :: "string \<Rightarrow> registry \<Rightarrow> denom_info" where
  "resolveDenom denom reg =
    (case map_of reg denom of
       Some known \<Rightarrow> known
     | None \<Rightarrow>
     (case poolIdFromDenom denom of
       Some pid \<Rightarrow> denom_info_of denom (''Pool '' @ num_string pid @ '' shares'') 0 None
                     (''Liquidity shares in pool '' @ num_string pid)
     | None \<Rightarrow>
     (case fractionDenomParts denom of
       Some fr \<Rightarrow> denom_info_of denom (fr_symbol fr) 0 None (''Shares in vehicle '' @ fr_asset fr)
     | None \<Rightarrow>
       if starts_with denom ''ibc/''
       then denom_info_of denom (''IBC '' @ drop 4 (take 10 denom) @ [CHR 0xE2, CHR 0x80, CHR 0xA6]) 0 None
              ''Transferred asset''
       else denom_info_of denom denom 0 None denom)))"

section \<open>Base units to display units\<close>

text \<open>The \<open>string | bigint\<close> of the amounts, and \<open>s.replace(/0+$/, '')\<close>.\<close>

datatype base_amount = BText string | BInt int

fun strip_zeros :: "string \<Rightarrow> string" where
  "strip_zeros [] = []"
| "strip_zeros (c # s) = (let r = strip_zeros s in if r = [] \<and> c = CHR ''0'' then [] else c # r)"

definition display_of :: "int \<Rightarrow> int \<Rightarrow> string" where
  "display_of value exponent =
    (if exponent \<le> 0 then show_int value else
     let divisor = 10 ^ nat exponent;
         whole = big_div value divisor;
         fraction = big_mod value divisor in
     if fraction = 0 then show_int whole else
     show_int whole @ ''.'' @ strip_zeros (pad_start (nat exponent) CHR ''0'' (show_int fraction)))"

fun toDisplayAmount :: "base_amount \<Rightarrow> int \<Rightarrow> string" where
  "toDisplayAmount (BInt v) exponent = (if v < 0 then ''-'' else []) @ display_of \<bar>v\<bar> exponent"
| "toDisplayAmount (BText s) exponent =
    (case big_int (trim s) of
       None \<Rightarrow> ''0''
     | Some v \<Rightarrow> (if starts_with (trim_left s) ''-'' then ''-'' else []) @ display_of \<bar>v\<bar> exponent)"

text \<open>
  The \<open>en-US\<close> thousands grouping of \<open>BigInt.prototype.toLocaleString\<close>: the last three digits go
  behind a comma as long as more than three are left.
\<close>

function group3 :: "string \<Rightarrow> string" where
  "group3 s = (if length s \<le> 3 then s
               else group3 (take (length s - 3) s) @ '','' @ drop (length s - 3) s)"
  by pat_completeness auto
termination by (relation "measure length") auto

declare group3.simps [simp del, evals]

definition split_point :: "string \<Rightarrow> string \<times> string option" where
  "split_point s = (case split_on CHR ''.'' s of [] \<Rightarrow> ([], None) | [w] \<Rightarrow> (w, None) | w # f # _ \<Rightarrow> (w, Some f))"

definition with_fraction :: "string \<Rightarrow> string option \<Rightarrow> string" where
  "with_fraction w f = (case f of None \<Rightarrow> w | Some f \<Rightarrow> if f = [] then w else w @ ''.'' @ f)"

definition groupDigits :: "string \<Rightarrow> string" where
  "groupDigits value =
    (let (whole, fraction) = split_point value;
         negative = starts_with whole ''-'';
         digits = filter is_digit (if negative then tl whole else whole);
         grouped = (case big_int (if digits = [] then ''0'' else digits) of
             None \<Rightarrow> if digits = [] then ''0'' else digits
           | Some v \<Rightarrow> group3 (show_int v)) in
     (if negative then ''-'' else []) @ with_fraction grouped fraction)"

section \<open>Typed text to base units\<close>

record base_units =
  bu_base :: string
  bu_truncated :: bool

definition typed_spaces :: "string list" where
  "typed_spaces = ws_units @ [[CHR 0x27]]"

definition replace_comma :: "string \<Rightarrow> string" where
  "replace_comma s = (case index_of CHR '','' s of None \<Rightarrow> s | Some i \<Rightarrow> s[i := CHR ''.''])"

definition is_decimal :: "string \<Rightarrow> bool" where
  "is_decimal s = (let ip = takeWhile is_digit s; r = drop (length ip) s in
     r = [] \<or> (hd r = CHR ''.'' \<and> all_digits (tl r)))"

definition toBaseUnits :: "string \<Rightarrow> int \<Rightarrow> base_units option" where
  "toBaseUnits input exponent =
    (if exponent < 0 \<or> 30 < exponent then None else
     let cleaned = remove_units typed_spaces input in
     if cleaned = [] then None else
     let dots = length (filter (\<lambda>c. c = CHR ''.'') cleaned);
         commas = length (filter (\<lambda>c. c = CHR '','') cleaned) in
     if 1 < dots \<or> 1 < commas \<or> (0 < dots \<and> 0 < commas) then None else
     let normalised = replace_comma cleaned in
     if \<not> is_decimal normalised \<or> normalised = ''.'' then None else
     let (whole, frac) = split_point normalised;
         fraction = (case frac of None \<Rightarrow> [] | Some f \<Rightarrow> f);
         e = nat exponent;
         kept = take e fraction;
         truncated = (e < length fraction \<and> list_ex (\<lambda>c. is_digit c \<and> c \<noteq> CHR ''0'') (drop e fraction));
         digits = (if whole = [] then ''0'' else whole) @ pad_end e CHR ''0'' kept in
     case big_int digits of
       None \<Rightarrow> None
     | Some v \<Rightarrow> Some \<lparr>bu_base = show_int v, bu_truncated = truncated\<rparr>)"

definition toBaseUnitsOf :: "string \<Rightarrow> string \<Rightarrow> registry \<Rightarrow> base_units option" where
  "toBaseUnitsOf input denom reg = toBaseUnits input (d_exponent (resolveDenom denom reg))"

section \<open>Formatting for a person\<close>

record format_options =
  fo_symbol :: bool
  fo_group :: bool
  fo_max :: "nat option"
  fo_registry :: registry

definition default_format :: format_options where
  "default_format = \<lparr>fo_symbol = True, fo_group = True, fo_max = None, fo_registry = KNOWN_DENOMS\<rparr>"

definition cap_decimals :: "nat option \<Rightarrow> string \<Rightarrow> string" where
  "cap_decimals places display =
    (case places of
       None \<Rightarrow> display
     | Some n \<Rightarrow>
         if CHR ''.'' \<notin> set display then display else
         let (whole, fraction) = split_point display;
             trimmed = strip_zeros (take n (the fraction)) in
         if trimmed = [] then whole else whole @ ''.'' @ trimmed)"

definition formatAmount :: "base_amount \<Rightarrow> string \<Rightarrow> format_options \<Rightarrow> string" where
  "formatAmount base denom opt =
    (let info = resolveDenom denom (fo_registry opt);
         display = toDisplayAmount base (d_exponent info);
         places = (case fo_max opt of Some n \<Rightarrow> Some n | None \<Rightarrow> d_minor info);
         display = cap_decimals places display;
         display = (if fo_group opt then groupDigits display else display) in
     if fo_symbol opt then display @ '' '' @ d_symbol info else display)"

definition EMPTY_AMOUNT :: string where
  "EMPTY_AMOUNT = [CHR 0xE2, CHR 0x80, CHR 0x93]"

record coin =
  c_denom :: string
  c_amount :: string

text \<open>\<open>tr\<close> is the translation function \<open>t\<close> of \<open>i18n.ts\<close> in the state it is called in.\<close>

definition joiner :: "(string \<Rightarrow> string) \<Rightarrow> string" where
  "joiner tr = (if tr ''amount.and'' = ''amount.and'' then ''and'' else tr ''amount.and'')"

definition formatCoins :: "(string \<Rightarrow> string) \<Rightarrow> coin list \<Rightarrow> format_options \<Rightarrow> string" where
  "formatCoins tr coins opt =
    (if coins = [] then EMPTY_AMOUNT else
     let parts = map (\<lambda>c. formatAmount (BText (c_amount c)) (c_denom c) opt) coins in
     if length parts = 1 then parts ! 0
     else join_with '', '' (butlast parts) @ '' '' @ joiner tr @ '' '' @ last parts)"

text \<open>
  The match \<open>/^(\d+)(.+)$/\<close>: the digits are greedy, and give one back when nothing follows them;
  \<open>.\<close> stops at a line terminator.
\<close>

definition line_terminators :: "string list" where
  "line_terminators = [[CHR 0x0A], [CHR 0x0D], [CHR 0xE2, CHR 0x80, CHR 0xA8], [CHR 0xE2, CHR 0x80, CHR 0xA9]]"

definition parseCoin :: "string \<Rightarrow> coin option" where
  "parseCoin value =
    (let v = trim value; ds = takeWhile is_digit v; r = drop (length ds) v in
     if r \<noteq> [] then
       (if ds \<noteq> [] \<and> remove_units line_terminators r = r
        then Some \<lparr>c_denom = r, c_amount = ds\<rparr> else None)
     else if 2 \<le> length ds then Some \<lparr>c_denom = [last ds], c_amount = butlast ds\<rparr>
     else None)"

section \<open>Decimal text and its value\<close>

lemma strip_zeros_split: "\<exists>k. s = strip_zeros s @ replicate k CHR ''0''"
proof (induction s)
  case (Cons c s)
  then obtain k where k: "s = strip_zeros s @ replicate k CHR ''0''" by blast
  show ?case
  proof (cases "strip_zeros s = [] \<and> c = CHR ''0''")
    case True
    then have "c # s = strip_zeros (c # s) @ replicate (Suc k) CHR ''0''" using k by simp
    then show ?thesis by blast
  next
    case False
    then have "c # s = strip_zeros (c # s) @ replicate k CHR ''0''" using k by (auto simp: Let_def)
    then show ?thesis by blast
  qed
qed simp

lemma strip_zeros_eq_Nil: "strip_zeros s = [] \<longleftrightarrow> (\<forall>c \<in> set s. c = CHR ''0'')"
  by (induction s) (auto simp: Let_def)

lemma all_digits_strip [simp]: "all_digits s \<Longrightarrow> all_digits (strip_zeros s)"
  by (induction s) (auto simp: Let_def)

lemma strip_zeros_last: "strip_zeros s \<noteq> [] \<Longrightarrow> last (strip_zeros s) \<noteq> CHR ''0''"
  by (induction s) (auto simp: Let_def split: if_splits)

lemma length_strip_zeros: "length (strip_zeros s) \<le> length s"
  by (induction s) (auto simp: Let_def)

text \<open>\<open>frac_units e f\<close> is what the decimals \<open>f\<close> are worth in units of \<open>10 ^ (- e)\<close>, rounded down.\<close>

definition frac_units :: "nat \<Rightarrow> string \<Rightarrow> nat" where
  "frac_units e f = nat_of_dec (pad_end e CHR ''0'' (take e f))"

lemma frac_units_strip:
  assumes "length f \<le> e"
  shows "frac_units e (strip_zeros f) = frac_units e f"
proof -
  obtain k where k: "f = strip_zeros f @ replicate k CHR ''0''" using strip_zeros_split by blast
  then have l: "length f = length (strip_zeros f) + k" by (metis length_append length_replicate)
  have "pad_end e CHR ''0'' f = pad_end e CHR ''0'' (strip_zeros f)"
    unfolding pad_end_def
    by (subst k, subst l) (use assms l in \<open>simp add: replicate_add [symmetric]\<close>)
  moreover have "take e f = f" "take e (strip_zeros f) = strip_zeros f" using assms l by auto
  ultimately show ?thesis unfolding frac_units_def by metis
qed

lemma frac_units_pad_start:
  assumes "n < 10 ^ e" and "0 < e"
  shows "frac_units e (pad_start e CHR ''0'' (dec_nat n)) = n"
proof -
  have "length (dec_nat n) \<le> e" using assms length_dec_nat by blast
  then show ?thesis by (simp add: frac_units_def pad_end_def)
qed

lemma frac_units_less: "all_digits f \<Longrightarrow> frac_units e f < 10 ^ e"
proof -
  assume f: "all_digits f"
  have "all_digits (pad_end e CHR ''0'' (take e f))"
    using f by (simp add: pad_end_def all_digits_take)
  then have "frac_units e f < 10 ^ length (pad_end e CHR ''0'' (take e f))"
    unfolding frac_units_def by (rule nat_of_dec_less)
  then show ?thesis by simp
qed

lemma frac_units_take:
  assumes f: "all_digits f" "length f \<le> e" and p: "p \<le> e"
  shows "frac_units e (take p f) = frac_units e f - frac_units e f mod 10 ^ (e - p)"
proof -
  define D where "D = pad_end e CHR ''0'' f"
  have D: "frac_units e f = nat_of_dec D" "length D = e" "all_digits D"
    using f by (simp_all add: D_def frac_units_def pad_end_def)
  have "nat_of_dec D = nat_of_dec (take p D) * 10 ^ (e - p) + nat_of_dec (drop p D)"
    using nat_of_dec_append [of "take p D" "drop p D"] D p by simp
  moreover have "nat_of_dec (drop p D) < 10 ^ (e - p)"
    using nat_of_dec_less [of "drop p D"] D by (simp add: all_digits_drop)
  ultimately have "frac_units e f - frac_units e f mod 10 ^ (e - p) = nat_of_dec (take p D) * 10 ^ (e - p)"
    using D by simp
  also have "\<dots> = nat_of_dec (take p D @ replicate (e - p) CHR ''0'')"
    by (simp add: nat_of_dec_append)
  also have "take p D @ replicate (e - p) CHR ''0'' = pad_end e CHR ''0'' (take p f)"
    using f p by (auto simp: D_def pad_end_def replicate_add [symmetric] take_replicate min_def)
  finally show ?thesis using f p by (simp add: frac_units_def)
qed

lemma frac_units_exact:
  assumes f: "all_digits f"
  shows "frac_units e f * 10 ^ length f \<le> nat_of_dec f * 10 ^ e"
    and "nat_of_dec f * 10 ^ e < (frac_units e f + 1) * 10 ^ length f"
    and "frac_units e f * 10 ^ length f = nat_of_dec f * 10 ^ e \<longleftrightarrow> nat_of_dec (drop e f) = 0"
proof -
  let ?n = "length f"
  have split: "nat_of_dec f = nat_of_dec (take e f) * 10 ^ (?n - e) + nat_of_dec (drop e f)"
    using nat_of_dec_append [of "take e f" "drop e f"] by simp
  have rest: "nat_of_dec (drop e f) < 10 ^ (?n - e)"
    using nat_of_dec_less [of "drop e f"] f by (simp add: all_digits_drop)
  have units: "frac_units e f = nat_of_dec (take e f) * 10 ^ (e - ?n)"
    by (simp add: frac_units_def pad_end_def nat_of_dec_append min_def)
  have pw: "(10::nat) ^ (e - ?n) * 10 ^ ?n = 10 ^ (?n - e) * 10 ^ e"
    by (simp add: power_add [symmetric])
  have base: "frac_units e f * 10 ^ ?n = nat_of_dec (take e f) * 10 ^ (?n - e) * 10 ^ e"
    using units pw by (metis mult.assoc)
  have eq: "nat_of_dec f * 10 ^ e = frac_units e f * 10 ^ ?n + nat_of_dec (drop e f) * 10 ^ e"
    using base split by (simp add: distrib_right)
  have small: "nat_of_dec (drop e f) * 10 ^ e < 10 ^ ?n"
  proof (cases "e \<le> ?n")
    case True
    then have "10 ^ ?n = (10::nat) ^ (?n - e) * 10 ^ e" by (simp add: power_add [symmetric])
    then show ?thesis using rest by simp
  qed simp
  show "frac_units e f * 10 ^ ?n \<le> nat_of_dec f * 10 ^ e" using eq by simp
  show "nat_of_dec f * 10 ^ e < (frac_units e f + 1) * 10 ^ ?n" using eq small by simp
  show "frac_units e f * 10 ^ ?n = nat_of_dec f * 10 ^ e \<longleftrightarrow> nat_of_dec (drop e f) = 0"
    using eq by simp
qed

lemma nat_of_dec_eq_0: "all_digits s \<Longrightarrow> nat_of_dec s = 0 \<longleftrightarrow> \<not> list_ex (\<lambda>c. is_digit c \<and> c \<noteq> CHR ''0'') s"
  by (induction s) (auto simp: nat_of_dec_Cons digit_val_eq_0)

section \<open>Reading plain decimal text\<close>

lemma typed_heads: "\<forall>u \<in> set typed_spaces. u \<noteq> [] \<and> \<not> is_digit (hd u) \<and> hd u \<noteq> CHR ''.''"
  by (simp add: typed_spaces_def is_digit_def ws_units_def)

lemma unit_at_typed:
  assumes "is_digit c \<or> c = CHR ''.''"
  shows "unit_at typed_spaces (c # s) = 0"
proof -
  have "List.find (\<lambda>u. starts_with (c # s) u) typed_spaces = None"
    using assms typed_heads by (fastforce simp: find_None_conv starts_with_def neq_Nil_conv)
  then show ?thesis by (simp add: unit_at_def)
qed

lemma remove_typed:
  "\<forall>c \<in> set s. is_digit c \<or> c = CHR ''.'' \<Longrightarrow> remove_units typed_spaces s = s"
  by (induction s) (auto simp: unit_at_typed)

definition plain :: "string \<Rightarrow> string option \<Rightarrow> string" where
  "plain w f = w @ (case f of None \<Rightarrow> [] | Some f \<Rightarrow> CHR ''.'' # f)"

lemma point_notin: "all_digits s \<Longrightarrow> CHR ''.'' \<notin> set s \<and> CHR '','' \<notin> set s"
  by (simp add: not_digit_in)

lemma split_point_plain:
  "all_digits w \<Longrightarrow> (\<And>g. f = Some g \<Longrightarrow> all_digits g) \<Longrightarrow> split_point (plain w f) = (w, f)"
  by (cases f) (auto simp: split_point_def plain_def split_on_append split_on_no_sep point_notin)

lemma takeWhile_digits: "all_digits w \<Longrightarrow> \<not> is_digit c \<Longrightarrow> takeWhile is_digit (w @ c # s) = w"
  by (induction w) auto

lemma takeWhile_all: "all_digits w \<Longrightarrow> takeWhile is_digit w = w"
  by (induction w) auto

lemma is_decimal_plain:
  "all_digits w \<Longrightarrow> (\<And>g. f = Some g \<Longrightarrow> all_digits g) \<Longrightarrow> is_decimal (plain w f)"
  by (cases f) (simp_all add: is_decimal_def plain_def takeWhile_digits takeWhile_all)

lemma no_commas: "CHR '','' \<notin> set s \<Longrightarrow> replace_comma s = s"
  by (simp add: replace_comma_def split: option.splits) (metis index_of_None_iff option.distinct(1))

lemma filter_none: "c \<notin> set s \<Longrightarrow> filter (\<lambda>x. x = c) s = []"
  by (induction s) auto

lemma toBaseUnits_plain:
  assumes w: "all_digits w" and f: "\<And>g. f = Some g \<Longrightarrow> all_digits g"
    and ne: "w \<noteq> [] \<or> (\<exists>g. f = Some g \<and> g \<noteq> [])" and e: "0 \<le> e" "e \<le> 30"
  defines "g \<equiv> (case f of None \<Rightarrow> [] | Some g \<Rightarrow> g)"
  shows "toBaseUnits (plain w f) e =
    Some \<lparr>bu_base = dec_nat (nat_of_dec w * 10 ^ nat e + frac_units (nat e) g),
          bu_truncated = (nat_of_dec (drop (nat e) g) \<noteq> 0)\<rparr>"
proof -
  let ?s = "plain w f" and ?k = "nat e"
  have g: "all_digits g" using f by (cases f) (simp_all add: g_def)
  have "set ?s \<subseteq> {c. is_digit c} \<union> {CHR ''.''}"
    using w f by (cases f) (auto simp: plain_def all_digits_def)
  then have clean: "remove_units typed_spaces ?s = ?s" by (intro remove_typed) auto
  have commas: "CHR '','' \<notin> set ?s" using w f point_notin by (cases f) (auto simp: plain_def)
  have dots: "length (filter (\<lambda>c. c = CHR ''.'') ?s) \<le> 1"
    using w f by (cases f) (auto simp: plain_def filter_none point_notin)
  have ne1: "?s \<noteq> []" "?s \<noteq> ''.''"
    using ne point_notin [OF w] by (cases f; cases w; auto simp: plain_def)+
  let ?d = "(if w = [] then ''0'' else w) @ pad_end ?k CHR ''0'' (take ?k g)"
  have d: "all_digits ?d" "?d \<noteq> []" using w g by (simp_all add: pad_end_def all_digits_take)
  have "nat_of_dec ?d = nat_of_dec w * 10 ^ ?k + frac_units ?k g"
    by (simp add: nat_of_dec_append frac_units_def nat_of_dec_Cons)
  then have big: "big_int ?d = Some (int (nat_of_dec w * 10 ^ ?k + frac_units ?k g))"
    using big_int_digits [OF d] by simp
  have tr: "(?k < length g \<and> list_ex (\<lambda>c. is_digit c \<and> c \<noteq> CHR ''0'') (drop ?k g))
      = (nat_of_dec (drop ?k g) \<noteq> 0)"
    using g nat_of_dec_eq_0 [of "drop ?k g"] by (cases "?k < length g") (simp_all add: all_digits_drop)
  have sp: "split_point ?s = (w, f)" using w f by (rule split_point_plain)
  have dec: "is_decimal ?s" using w f by (rule is_decimal_plain)
  show ?thesis
    unfolding toBaseUnits_def Let_def clean no_commas [OF commas] filter_none [OF commas] sp
      prod.case g_def [symmetric] big tr
    using e dots ne1 dec by (simp del: of_nat_add of_nat_mult of_nat_power)
qed

section \<open>The printed amount\<close>

lemma display_of_plain:
  assumes n: "0 \<le> n" and e: "0 \<le> e"
  obtains f where "display_of n e = plain (dec_nat (nat n div 10 ^ nat e)) f"
    and "case f of None \<Rightarrow> nat n mod 10 ^ nat e = 0
       | Some g \<Rightarrow> all_digits g \<and> g \<noteq> [] \<and> length g \<le> nat e \<and> frac_units (nat e) g = nat n mod 10 ^ nat e"
proof -
  define m where "m = nat n"
  have nm: "n = int m" using n by (simp add: m_def)
  define k where "k = nat e"
  have pw: "(10::int) ^ k = int (10 ^ k)" by simp
  have md: "n mod 10 ^ k = int (m mod 10 ^ k)" "n div 10 ^ k = int (m div 10 ^ k)"
    unfolding nm pw by (simp_all only: zmod_int zdiv_int)
  show thesis
  proof (cases "e = 0 \<or> m mod 10 ^ k = 0")
    case True
    then have "display_of n e = plain (dec_nat (m div 10 ^ k)) None"
      using e md n by (auto simp: display_of_def plain_def show_int_def k_def m_def)
    then show thesis using True that [of None] by (auto simp: m_def k_def)
  next
    case False
    let ?p = "pad_start k CHR ''0'' (dec_nat (m mod 10 ^ k))"
    have k: "0 < k" using False e by (simp add: k_def)
    have len: "length ?p = k" using length_dec_nat [OF k, of "m mod 10 ^ k"] by simp
    have dig: "all_digits ?p" by (simp add: pad_start_def)
    have fu: "frac_units k ?p = m mod 10 ^ k" using k by (intro frac_units_pad_start) auto
    have "display_of n e = plain (dec_nat (m div 10 ^ k)) (Some (strip_zeros ?p))"
      using False e md n by (auto simp: display_of_def Let_def plain_def show_int_def k_def m_def)
    moreover have "strip_zeros ?p \<noteq> []"
    proof
      assume "strip_zeros ?p = []"
      then have "?p = replicate k CHR ''0''"
        using strip_zeros_eq_Nil len by (metis replicate_length_same)
      then have "frac_units k ?p = 0" by (simp add: frac_units_def pad_end_def)
      then show False using fu False by simp
    qed
    ultimately show thesis
      using that [of "Some (strip_zeros ?p)"] dig fu len length_strip_zeros [of ?p]
        frac_units_strip [of ?p k] by (simp add: m_def k_def)
  qed
qed

lemma cap_decimals_plain:
  assumes "all_digits w" and "case f of None \<Rightarrow> True | Some g \<Rightarrow> all_digits g"
  shows "cap_decimals places (plain w f) =
    plain w (case f of None \<Rightarrow> None | Some g \<Rightarrow>
      (case places of None \<Rightarrow> Some g
       | Some p \<Rightarrow> (if strip_zeros (take p g) = [] then None else Some (strip_zeros (take p g)))))"
proof (cases f)
  case None
  then show ?thesis
    using assms point_notin by (auto simp: cap_decimals_def plain_def split: option.splits)
next
  case (Some g)
  then have "split_point (plain w f) = (w, Some g)" using assms split_point_plain [of w f] by simp
  then show ?thesis using Some by (auto simp: cap_decimals_def plain_def split: option.splits)
qed

lemma group3_commas [simp]: "filter (\<lambda>c. c \<noteq> CHR '','') (group3 s) = filter (\<lambda>c. c \<noteq> CHR '','') s"
proof (induction s rule: group3.induct)
  case (1 s)
  show ?case
  proof (cases "length s \<le> 3")
    case False
    then have "filter (\<lambda>c. c \<noteq> CHR '','') (group3 s) =
        filter (\<lambda>c. c \<noteq> CHR '','') (take (length s - 3) s @ drop (length s - 3) s)"
      using 1 by (subst group3.simps) (simp only: filter_append if_False, simp)
    then show ?thesis by simp
  qed (subst group3.simps, simp)
qed

lemma filter_commas_id: "all_digits s \<Longrightarrow> filter (\<lambda>c. c \<noteq> CHR '','') s = s"
  using point_notin by (fastforce simp: filter_id_conv)

lemma filter_digits_id: "all_digits s \<Longrightarrow> filter is_digit s = s"
  by (simp add: all_digits_def)

lemma groupDigits_plain:
  assumes "case f of None \<Rightarrow> True | Some g \<Rightarrow> all_digits g \<and> g \<noteq> []"
  shows "groupDigits (plain (dec_nat n) f) = plain (group3 (dec_nat n)) f"
proof -
  have "split_point (plain (dec_nat n) f) = (dec_nat n, f)"
    using assms by (intro split_point_plain) (auto split: option.splits)
  moreover have "\<not> starts_with (dec_nat n) ''-''"
    using dec_nat_digits [of n] unfolding starts_with_iff by (metis all_digits_append all_digits_Cons specials_no_digits(1))
  ultimately show ?thesis
    using assms
    by (auto simp: groupDigits_def filter_digits_id big_int_digits show_int_def with_fraction_def
        plain_def split: option.splits)
qed

lemma filter_commas_plain:
  assumes "case f of None \<Rightarrow> True | Some g \<Rightarrow> all_digits g"
  shows "filter (\<lambda>c. c \<noteq> CHR '','') (plain (group3 (dec_nat n)) f) = plain (dec_nat n) f"
  using assms by (auto simp: plain_def filter_commas_id split: option.splits)

text \<open>A printed amount, with or without separators, read back as typed text.\<close>

definition places_of :: "string \<Rightarrow> format_options \<Rightarrow> nat option" where
  "places_of denom opt = (case fo_max opt of Some n \<Rightarrow> Some n | None \<Rightarrow> d_minor (resolveDenom denom (fo_registry opt)))"

definition round_down :: "nat \<Rightarrow> nat option \<Rightarrow> nat \<Rightarrow> nat" where
  "round_down e places n = (case places of None \<Rightarrow> n | Some p \<Rightarrow> n - n mod 10 ^ (e - p))"

lemma round_down_split:
  assumes "p \<le> (e::nat)"
  shows "(n::nat) div 10 ^ e * 10 ^ e + (n mod 10 ^ e - n mod 10 ^ e mod 10 ^ (e - p)) = n - n mod 10 ^ (e - p)"
proof -
  have "n mod 10 ^ e mod 10 ^ (e - p) = n mod 10 ^ (e - p)"
    by (rule mod_mod_cancel) (simp add: le_imp_power_dvd)
  moreover have "n mod 10 ^ e mod 10 ^ (e - p) \<le> n mod 10 ^ e" by simp
  ultimately show ?thesis
    using div_mult_mod_eq [of n "10 ^ e"] by linarith
qed

lemma display_capped_reads_back:
  assumes n: "0 \<le> n" and e: "0 \<le> e" "e \<le> 30"
  obtains f where "cap_decimals places (display_of n e) = plain (dec_nat (nat n div 10 ^ nat e)) f"
    and "case f of None \<Rightarrow> True | Some g \<Rightarrow> all_digits g \<and> g \<noteq> []"
    and "toBaseUnits (plain (dec_nat (nat n div 10 ^ nat e)) f) e =
      Some \<lparr>bu_base = dec_nat (round_down (nat e) places (nat n)), bu_truncated = False\<rparr>"
proof -
  define m where "m = nat n"
  define k where "k = nat e"
  let ?w = "dec_nat (m div 10 ^ k)"
  obtain f where f: "display_of n e = plain ?w f"
    "case f of None \<Rightarrow> m mod 10 ^ k = 0
       | Some g \<Rightarrow> all_digits g \<and> g \<noteq> [] \<and> length g \<le> k \<and> frac_units k g = m mod 10 ^ k"
    by (rule display_of_plain [OF n e(1), folded m_def k_def])
  define h where "h = (case f of None \<Rightarrow> None | Some g \<Rightarrow>
      (case places of None \<Rightarrow> Some g
       | Some p \<Rightarrow> (if strip_zeros (take p g) = [] then None else Some (strip_zeros (take p g)))))"
  have cap: "cap_decimals places (display_of n e) = plain ?w h"
    unfolding f(1) h_def using f(2) by (intro cap_decimals_plain) (auto split: option.splits)
  have hd: "case h of None \<Rightarrow> True | Some g \<Rightarrow> all_digits g \<and> g \<noteq> []"
    using f(2) by (cases f; cases places) (simp_all add: h_def all_digits_take)
  let ?g = "case h of None \<Rightarrow> [] | Some g \<Rightarrow> g"
  have len: "length ?g \<le> k"
    using f(2) length_strip_zeros [of "take (the places) (the f)"] by (cases f; cases places) (simp_all add: h_def)
  have val: "m div 10 ^ k * 10 ^ k + frac_units k ?g = round_down k places m"
  proof (cases f)
    case None
    then have z: "m mod 10 ^ k = 0" using f(2) by simp
    have "m mod 10 ^ (k - p) = 0" for p
      using z by (meson dvd_trans le_imp_power_dvd diff_le_self mod_0_imp_dvd dvd_imp_mod_0)
    then show ?thesis
      using None z by (auto simp: h_def frac_units_def pad_end_def round_down_def split: option.splits)
  next
    case (Some g)
    then have g: "all_digits g" "length g \<le> k" "frac_units k g = m mod 10 ^ k" using f(2) by auto
    show ?thesis
    proof (cases places)
      case None
      then show ?thesis
        using Some g div_mult_mod_eq [of m "10 ^ k"] by (simp only: h_def round_down_def option.case)
    next
      case (Some p)
      have tk: "length (take p g) \<le> k" using g by simp
      have "?g = strip_zeros (take p g)" using Some \<open>f = Some g\<close> by (simp add: h_def)
      then have fu: "frac_units k ?g = frac_units k (take p g)" using frac_units_strip [OF tk] by simp
      show ?thesis
      proof (cases "p \<le> k")
        case True
        then have "frac_units k ?g = m mod 10 ^ k - m mod 10 ^ k mod 10 ^ (k - p)"
          using fu g frac_units_take [of g k p] by simp
        then show ?thesis
          using round_down_split [OF True, of m] Some by (simp add: round_down_def)
      qed (use fu g Some div_mult_mod_eq [of m "10 ^ k"] in \<open>simp add: round_down_def\<close>)
    qed
  qed
  have "toBaseUnits (plain ?w h) e = Some \<lparr>bu_base = dec_nat (nat_of_dec ?w * 10 ^ k + frac_units k ?g),
      bu_truncated = (nat_of_dec (drop k ?g) \<noteq> 0)\<rparr>"
    unfolding k_def using hd e by (intro toBaseUnits_plain) (auto split: option.splits)
  then have "toBaseUnits (plain ?w h) e =
      Some \<lparr>bu_base = dec_nat (round_down k places m), bu_truncated = False\<rparr>"
    using val len by simp
  then show thesis using that [OF cap [unfolded m_def k_def] hd] unfolding m_def k_def by blast
qed

lemma display_of_reads_back:
  assumes "0 \<le> n" and "0 \<le> e" and "e \<le> 30"
  shows "toBaseUnits (display_of n e) e = Some \<lparr>bu_base = dec_nat (nat n), bu_truncated = False\<rparr>"
proof -
  obtain f where "cap_decimals None (display_of n e) = plain (dec_nat (nat n div 10 ^ nat e)) f"
    and "toBaseUnits (plain (dec_nat (nat n div 10 ^ nat e)) f) e =
      Some \<lparr>bu_base = dec_nat (round_down (nat e) None (nat n)), bu_truncated = False\<rparr>"
    by (rule display_capped_reads_back [OF assms, where places = None])
  then show ?thesis by (simp add: cap_decimals_def round_down_def)
qed

section \<open>Properties\<close>

text \<open>
  C27. Money typed as \<open>whole.fraction\<close> becomes the largest number of base units that does not
  exceed what was typed, and \<open>truncated\<close> is reported exactly when the two differ, for every
  number of decimals typed and every exponent the function accepts.
\<close>

theorem typed_amount_is_exact:
  assumes "all_digits w" and "all_digits f" and "w \<noteq> [] \<or> f \<noteq> []" and "0 \<le> e" and "e \<le> 30"
  shows "\<exists>b t. toBaseUnits (w @ ''.'' @ f) e = Some \<lparr>bu_base = dec_nat b, bu_truncated = t\<rparr> \<and>
    b * 10 ^ length f \<le> nat_of_dec (w @ f) * 10 ^ nat e \<and>
    nat_of_dec (w @ f) * 10 ^ nat e < (b + 1) * 10 ^ length f \<and>
    (t \<longleftrightarrow> b * 10 ^ length f \<noteq> nat_of_dec (w @ f) * 10 ^ nat e)"
proof -
  define b where "b = nat_of_dec w * 10 ^ nat e + frac_units (nat e) f"
  have t: "toBaseUnits (w @ ''.'' @ f) e =
      Some \<lparr>bu_base = dec_nat b, bu_truncated = (nat_of_dec (drop (nat e) f) \<noteq> 0)\<rparr>"
    using toBaseUnits_plain [of w "Some f" e] assms by (simp add: plain_def b_def)
  have b: "b * 10 ^ length f = nat_of_dec w * 10 ^ length f * 10 ^ nat e + frac_units (nat e) f * 10 ^ length f"
    by (simp add: b_def algebra_simps)
  have v: "nat_of_dec (w @ f) * 10 ^ nat e = nat_of_dec w * 10 ^ length f * 10 ^ nat e + nat_of_dec f * 10 ^ nat e"
    by (simp add: nat_of_dec_append algebra_simps)
  note x = frac_units_exact [OF assms(2), of "nat e"]
  have "b * 10 ^ length f \<le> nat_of_dec (w @ f) * 10 ^ nat e" using b v x(1) by simp
  moreover have "nat_of_dec (w @ f) * 10 ^ nat e < (b + 1) * 10 ^ length f"
    using b v x(2) by (simp add: algebra_simps)
  moreover have "nat_of_dec (drop (nat e) f) \<noteq> 0 \<longleftrightarrow> b * 10 ^ length f \<noteq> nat_of_dec (w @ f) * 10 ^ nat e"
    using b v x(3) by simp
  ultimately show ?thesis using t by blast
qed

lemma typed_amount_is_exact_witness:
  "\<exists>b t. toBaseUnits ''1.23456789'' 6 = Some \<lparr>bu_base = dec_nat b, bu_truncated = t\<rparr> \<and>
    b * 10 ^ 8 \<le> 123456789 * 10 ^ 6 \<and> 123456789 * 10 ^ 6 < (b + 1) * 10 ^ 8 \<and>
    (t \<longleftrightarrow> b * 10 ^ 8 \<noteq> 123456789 * 10 ^ 6)"
proof -
  have n: "nat_of_dec ''123456789'' = 123456789" by code_simp
  have d: "all_digits ''1''" "all_digits ''23456789''" by code_simp+
  show ?thesis using typed_amount_is_exact [OF d, of 6] n by simp
qed

text \<open>
  C28. What \<open>formatAmount\<close> prints for a balance, with the thousands separators taken out, reads
  back through \<open>toBaseUnits\<close> as the balance rounded down to the decimals shown: no printed amount is
  ever larger than the real one, and without a cap it is the same amount.
\<close>

theorem printed_amount_reads_back_rounded_down:
  fixes n :: int
  assumes "0 \<le> n" and "e = d_exponent (resolveDenom denom (fo_registry opt))" and "0 \<le> e" and "e \<le> 30"
  shows "toBaseUnits (filter (\<lambda>c. c \<noteq> CHR '','') (formatAmount (BInt n) denom (opt\<lparr>fo_symbol := False\<rparr>))) e =
      Some \<lparr>bu_base = dec_nat (round_down (nat e) (places_of denom opt) (nat n)), bu_truncated = False\<rparr>"
proof -
  obtain f where cap: "cap_decimals (places_of denom opt) (display_of n e) = plain (dec_nat (nat n div 10 ^ nat e)) f"
    and f: "case f of None \<Rightarrow> True | Some g \<Rightarrow> all_digits g \<and> g \<noteq> []"
    and rb: "toBaseUnits (plain (dec_nat (nat n div 10 ^ nat e)) f) e =
      Some \<lparr>bu_base = dec_nat (round_down (nat e) (places_of denom opt) (nat n)), bu_truncated = False\<rparr>"
    by (rule display_capped_reads_back [OF assms(1,3,4)])
  have f': "case f of None \<Rightarrow> True | Some g \<Rightarrow> all_digits g" using f by (auto split: option.splits)
  have "formatAmount (BInt n) denom (opt\<lparr>fo_symbol := False\<rparr>) =
      (if fo_group opt then groupDigits (plain (dec_nat (nat n div 10 ^ nat e)) f)
       else plain (dec_nat (nat n div 10 ^ nat e)) f)"
    using assms(1,2) cap by (simp add: formatAmount_def Let_def places_of_def cong: option.case_cong)
  then have "filter (\<lambda>c. c \<noteq> CHR '','') (formatAmount (BInt n) denom (opt\<lparr>fo_symbol := False\<rparr>)) =
      plain (dec_nat (nat n div 10 ^ nat e)) f"
    using f f' filter_commas_plain [OF f'] groupDigits_plain [OF f]
    by (auto simp: plain_def filter_commas_id split: option.splits)
  then show ?thesis using rb by simp
qed

lemma printed_amount_reads_back_rounded_down_witness:
  "toBaseUnits (filter (\<lambda>c. c \<noteq> CHR '','') (formatAmount (BInt 1359844414) ''ungn'' (default_format\<lparr>fo_symbol := False\<rparr>))) 6 =
      Some \<lparr>bu_base = dec_nat (round_down 6 (Some 2) 1359844414), bu_truncated = False\<rparr>"
proof -
  have e: "d_exponent (resolveDenom ''ungn'' (fo_registry default_format)) = 6" by code_simp
  have p: "places_of ''ungn'' default_format = Some 2" by code_simp
  show ?thesis
    using printed_amount_reads_back_rounded_down [of 1359844414 6 "''ungn''" default_format] e p by simp
qed

text \<open>
  \<open>toDisplayAmount\<close> then \<open>toBaseUnits\<close> is the identity on every amount the chain can hold, at
  every exponent.
\<close>

theorem display_then_type_is_identity:
  assumes "0 \<le> n" and "0 \<le> e" and "e \<le> 30"
  shows "toBaseUnits (toDisplayAmount (BInt n) e) e = Some \<lparr>bu_base = show_int n, bu_truncated = False\<rparr>"
  using assms by (simp add: display_of_reads_back show_int_nonneg)

lemma display_then_type_is_identity_witness:
  "toBaseUnits (toDisplayAmount (BInt 12500000) 6) 6 = Some \<lparr>bu_base = ''12500000'', bu_truncated = False\<rparr>"
proof -
  have "show_int 12500000 = ''12500000''" by code_simp
  then show ?thesis using display_then_type_is_identity [of 12500000 6] by simp
qed

text \<open>
  A share denomination is recognised exactly when it is \<open>tok/<digits>/<symbol>\<close>: the parts are
  the ones it was made of, and it resolves to a whole-number unit under its own symbol unless
  the registry names it.
\<close>

theorem fraction_denom_parts_iff:
  "fractionDenomParts denom = Some fr \<longleftrightarrow>
    denom = ''tok/'' @ fr_asset fr @ ''/'' @ fr_symbol fr \<and>
    fr_asset fr \<noteq> [] \<and> all_digits (fr_asset fr) \<and> fr_symbol fr \<noteq> []"
proof
  assume l: "fractionDenomParts denom = Some fr"
  then have "starts_with denom ''tok/''" by (simp add: fractionDenomParts_def FRACTION_DENOM_PREFIX_def split: if_splits)
  then obtain r where r: "denom = ''tok/'' @ r" by (auto simp: starts_with_iff)
  then obtain i where i: "index_of CHR ''/'' r = Some i" "i \<noteq> 0" "fr = \<lparr>fr_asset = take i r, fr_symbol = drop (i + 1) r\<rparr>"
    "take i r \<noteq> []" "all_digits (take i r)" "drop (i + 1) r \<noteq> []"
    using l by (auto simp: fractionDenomParts_def FRACTION_DENOM_PREFIX_def Let_def split: option.splits if_splits)
  then have "i < length r" "r ! i = CHR ''/''" using index_of_SomeD by force+
  then have "r = take i r @ CHR ''/'' # drop (i + 1) r" using id_take_nth_drop by force
  then show "denom = ''tok/'' @ fr_asset fr @ ''/'' @ fr_symbol fr \<and>
      fr_asset fr \<noteq> [] \<and> all_digits (fr_asset fr) \<and> fr_symbol fr \<noteq> []"
    using i r by simp
next
  assume r: "denom = ''tok/'' @ fr_asset fr @ ''/'' @ fr_symbol fr \<and>
      fr_asset fr \<noteq> [] \<and> all_digits (fr_asset fr) \<and> fr_symbol fr \<noteq> []"
  have idx: "index_of CHR ''/'' (a @ CHR ''/'' # s) = Some (length a)" if "all_digits a" for a s
    using that by (induction a) auto
  show "fractionDenomParts denom = Some fr"
    using r by (simp add: fractionDenomParts_def FRACTION_DENOM_PREFIX_def starts_with_def idx)
qed

text \<open>
  \<open>parseCoin\<close> takes a printed amount followed by a denomination apart again; but it also gives
  an answer on a bare number of two digits or more, where it should give none: the pattern splits
  off the last digit as the denomination.
\<close>

theorem parse_coin_splits:
  assumes "all_digits a" and "a \<noteq> []" and "\<forall>c \<in> set d. graphic c" and "d \<noteq> []" and "\<not> is_digit (hd d)"
  shows "parseCoin (a @ d) = Some \<lparr>c_denom = d, c_amount = a\<rparr> \<and>
    parseCoin a = (if length a = 1 then None else Some \<lparr>c_denom = [last a], c_amount = butlast a\<rparr>)"
proof -
  have g: "\<forall>c \<in> set (a @ d). graphic c" using assms all_digits_graphic by auto
  then have t: "trim (a @ d) = a @ d" "trim a = a" by (simp_all add: trim_all_graphic)
  obtain x y where d: "d = x # y" using assms(4) by (cases d) auto
  have "takeWhile is_digit (a @ d) = a" using assms d by (simp add: takeWhile_digits)
  moreover have "remove_units line_terminators d = d"
    using assms(3) by (intro remove_units_graphic) (simp_all add: line_terminators_def graphic_def)
  ultimately have "parseCoin (a @ d) = Some \<lparr>c_denom = d, c_amount = a\<rparr>"
    using assms t by (simp add: parseCoin_def)
  moreover have "length a = 1 \<or> 2 \<le> length a" using assms(2) by (cases a; cases "tl a") auto
  then have "parseCoin a = (if length a = 1 then None else Some \<lparr>c_denom = [last a], c_amount = butlast a\<rparr>)"
    using assms(1) t by (auto simp: parseCoin_def takeWhile_all)
  ultimately show ?thesis by blast
qed

lemma parse_coin_splits_witness:
  "parseCoin ''500uyml'' = Some \<lparr>c_denom = ''uyml'', c_amount = ''500''\<rparr> \<and>
   parseCoin ''500'' = Some \<lparr>c_denom = ''0'', c_amount = ''50''\<rparr>"
  using parse_coin_splits [of "''500''" "''uyml''"] by (simp add: is_digit_def graphic_def)

end
