(* ===== verification/Amount.thy ===== *)
theory Amount imports Denom begin

text \<open>
  Amounts at the display boundary of two clients: the explorer's own formatter
  (\<open>explorer/src/amount.ts\<close>), which groups digits by text, and the wallet application's currency
  table and parsing (\<open>app/src/money.ts\<close>).
\<close>

section \<open>Grouping by text\<close>

text \<open>
  \<open>body.replace(/\B(?=(\d{3})+(?!\d))/g, ',')\<close> on a run of digits: a comma at every inner position
  with a positive multiple of three digits to its right.
\<close>

definition group_by_regex :: "string \<Rightarrow> string" where
  "group_by_regex s =
    concat (map (\<lambda>i. if 0 < i \<and> (length s - i) mod 3 = 0 then [CHR '','', s ! i] else [s ! i]) [0..<length s])"

definition groupInteger :: "string \<Rightarrow> string" where
  "groupInteger digits =
    (let negative = starts_with digits ''-''; body = (if negative then tl digits else digits) in
     if \<not> all_digits body then digits else (if negative then ''-'' else []) @ group_by_regex body)"

definition groupDecimal :: "string \<Rightarrow> string" where
  "groupDecimal value = (let (whole, fraction) = split_point value in with_fraction (groupInteger whole) fraction)"

definition truncateDecimals :: "string \<Rightarrow> int \<Rightarrow> string" where
  "truncateDecimals value places =
    (let (whole, fraction) = split_point value in
     if fraction = None \<or> fraction = Some [] \<or> places < 0 then whole
     else if places = 0 then whole
     else let kept = strip_zeros (take (nat places) (the fraction)) in
          if kept \<noteq> [] then whole @ ''.'' @ kept else whole)"

record display_amount =
  da_value :: string
  da_symbol :: string
  da_exact :: string
  da_base :: string
  da_denom :: string
  da_rounded :: bool
  da_unknown :: bool

definition displayAmount :: "string \<Rightarrow> string \<Rightarrow> registry \<Rightarrow> display_amount" where
  "displayAmount base denom reg =
    (let info = resolveDenom denom reg;
         unknown = (map_of reg denom = None \<and> d_exponent info = 0 \<and> d_symbol info = denom);
         full = toDisplayAmount (BText base) (d_exponent info);
         cut = (case d_minor info of None \<Rightarrow> full | Some places \<Rightarrow> truncateDecimals full (int places)) in
     \<lparr>da_value = groupDecimal cut, da_symbol = d_symbol info, da_exact = groupDecimal full,
      da_base = base, da_denom = denom, da_rounded = (cut \<noteq> full), da_unknown = unknown\<rparr>)"

definition explorer_formatAmount :: "string \<Rightarrow> string \<Rightarrow> registry \<Rightarrow> string" where
  "explorer_formatAmount base denom reg =
    (let a = displayAmount base denom reg in da_value a @ '' '' @ da_symbol a)"

definition formatCoinList :: "coin list \<Rightarrow> registry \<Rightarrow> string" where
  "formatCoinList coins reg =
    (if coins = [] then [] else
     let parts = map (\<lambda>c. explorer_formatAmount (c_amount c) (c_denom c) reg) coins in
     if length parts = 1 then parts ! 0
     else join_with '', '' (butlast parts) @ '' and '' @ last parts)"

definition shareOf :: "string \<Rightarrow> string \<Rightarrow> nat \<Rightarrow> jsnum option" where
  "shareOf part whole digits =
    (case (big_int part, big_int whole) of
       (Some numerator, Some denominator) \<Rightarrow>
         if denominator = 0 then None else
         let scale = 10 ^ digits in
         Some (num_div (num_of_int (big_div (numerator * scale) denominator)) (num_of_int scale))
     | _ \<Rightarrow> None)"

section \<open>Totals by denomination\<close>

text \<open>\<open>add_coin\<close> is one round of the loop; a coin whose amount is not an integer is skipped.\<close>

definition add_coin :: "coin \<Rightarrow> (string \<times> int) list \<Rightarrow> (string \<times> int) list" where
  "add_coin c totals = (case big_int (c_amount c) of
       None \<Rightarrow> totals
     | Some amount \<Rightarrow> tally (c_denom c) amount totals)"

definition coin_of :: "string \<times> int \<Rightarrow> coin" where
  "coin_of e = \<lparr>c_denom = fst e, c_amount = show_int (snd e)\<rparr>"

definition sumCoins :: "coin list \<Rightarrow> coin list" where
  "sumCoins coins = map coin_of (fold add_coin coins [])"

section \<open>The wallet application's currencies\<close>

record currency =
  cu_denom :: string
  cu_name :: string
  cu_code :: string
  cu_exponent :: int

abbreviation cur :: "string \<Rightarrow> string \<Rightarrow> string \<Rightarrow> int \<Rightarrow> currency" where
  "cur d n c e \<equiv> \<lparr>cu_denom = d, cu_name = n, cu_code = c, cu_exponent = e\<rparr>"

definition CURRENCIES :: "currency list" where
  "CURRENCIES =
   [cur ''uyml'' ''Yamale'' ''YML'' 6,
    cur ''uxof'' ''West African CFA franc'' ''XOF'' 6,
    cur ''uxaf'' ''Central African CFA franc'' ''XAF'' 6,
    cur ''ungn'' ''Nigerian Naira'' ''NGN'' 6,
    cur ''ukes'' ''Kenyan Shilling'' ''KES'' 6,
    cur ''uzar'' ''South African Rand'' ''ZAR'' 6,
    cur ''ughs'' ''Ghanaian Cedi'' ''GHS'' 6,
    cur ''uegp'' ''Egyptian Pound'' ''EGP'' 6,
    cur ''umad'' ''Moroccan Dirham'' ''MAD'' 6,
    cur ''udzd'' ''Algerian Dinar'' ''DZD'' 6,
    cur ''utnd'' ''Tunisian Dinar'' ''TND'' 6,
    cur ''uetb'' ''Ethiopian Birr'' ''ETB'' 6,
    cur ''uugx'' ''Ugandan Shilling'' ''UGX'' 6,
    cur ''utzs'' ''Tanzanian Shilling'' ''TZS'' 6,
    cur ''urwf'' ''Rwandan Franc'' ''RWF'' 6,
    cur ''uzmw'' ''Zambian Kwacha'' ''ZMW'' 6,
    cur ''umzn'' ''Mozambican Metical'' ''MZN'' 6,
    cur ''uaoa'' ''Angolan Kwanza'' ''AOA'' 6,
    cur ''ubwp'' ''Botswana Pula'' ''BWP'' 6,
    cur ''unad'' ''Namibian Dollar'' ''NAD'' 6,
    cur ''umur'' ''Mauritian Rupee'' ''MUR'' 6,
    cur ''ugmd'' ''Gambian Dalasi'' ''GMD'' 6,
    cur ''ugnf'' ''Guinean Franc'' ''GNF'' 6,
    cur ''ulrd'' ''Liberian Dollar'' ''LRD'' 6,
    cur ''usle'' ''Sierra Leonean Leone'' ''SLE'' 6,
    cur ''umwk'' ''Malawian Kwacha'' ''MWK'' 6,
    cur ''umga'' ''Malagasy Ariary'' ''MGA'' 6,
    cur ''ucdf'' ''Congolese Franc'' ''CDF'' 6,
    cur ''usdg'' ''Sudanese Pound'' ''SDG'' 6,
    cur ''ussp'' ''South Sudanese Pound'' ''SSP'' 6,
    cur ''ulyd'' ''Libyan Dinar'' ''LYD'' 6,
    cur ''usos'' ''Somali Shilling'' ''SOS'' 6,
    cur ''udjf'' ''Djiboutian Franc'' ''DJF'' 6,
    cur ''uern'' ''Eritrean Nakfa'' ''ERN'' 6,
    cur ''ubif'' ''Burundian Franc'' ''BIF'' 6,
    cur ''uscr'' ''Seychellois Rupee'' ''SCR'' 6,
    cur ''ucve'' ''Cape Verdean Escudo'' ''CVE'' 6,
    cur ''ustn'' (''S'' @ [CHR 0xC3] @ [CHR 0xA3] @ ''o Tom'' @ [CHR 0xC3] @ [CHR 0xA9] @ '' and Pr'' @ [CHR 0xC3] @ [CHR 0xAD] @ ''ncipe Dobra'') ''STN'' 6,
    cur ''ukmf'' ''Comorian Franc'' ''KMF'' 6,
    cur ''ulsl'' ''Lesotho Loti'' ''LSL'' 6,
    cur ''uszl'' ''Eswatini Lilangeni'' ''SZL'' 6,
    cur ''umru'' ''Mauritanian Ouguiya'' ''MRU'' 6,
    cur ''uzwg'' ''Zimbabwe Gold'' ''ZWG'' 6,
    cur ''uusdc'' ''USD Coin'' ''USDC'' 6,
    cur ''ueurc'' ''Euro Coin'' ''EURC'' 6]"

definition currencyOf :: "string \<Rightarrow> currency option" where
  "currencyOf denom = List.find (\<lambda>c. cu_denom c = denom) CURRENCIES"

definition parseAmount :: "string \<Rightarrow> string \<Rightarrow> base_units option" where
  "parseAmount input denom = (case currencyOf denom of None \<Rightarrow> None | Some c \<Rightarrow> toBaseUnits input (cu_exponent c))"

definition app_toBaseUnits :: "string \<Rightarrow> string \<Rightarrow> string" where
  "app_toBaseUnits input denom = (case parseAmount input denom of None \<Rightarrow> ''0'' | Some b \<Rightarrow> bu_base b)"

definition rawAmount :: "string \<Rightarrow> string \<Rightarrow> string" where
  "rawAmount amount denom =
    (case currencyOf denom of
       None \<Rightarrow> ''0''
     | Some c \<Rightarrow>
         let e = nat (cu_exponent c);
             padded = pad_start (e + 1) CHR ''0'' (if amount = [] then ''0'' else amount);
             whole = take (length padded - e) padded;
             frac = strip_zeros (drop (length padded - e) padded);
             whole = (if whole = [] then ''0'' else whole) in
         if frac \<noteq> [] then whole @ ''.'' @ frac else whole)"

text \<open>
  The saved default: \<open>None\<close> when nothing is saved or the storage throws. What is saved counts only
  while it names a currency of the table.
\<close>

definition defaultDenom :: "string option \<Rightarrow> string" where
  "defaultDenom saved = (case saved of
       None \<Rightarrow> ''uxof''
     | Some s \<Rightarrow> if s \<noteq> [] \<and> list_ex (\<lambda>c. cu_denom c = s) CURRENCIES then s else ''uxof'')"

section \<open>Grouping: text against arithmetic\<close>

lemma group_by_regex_short: "length s \<le> 3 \<Longrightarrow> group_by_regex s = s"
proof -
  assume s: "length s \<le> 3"
  have "concat (map (\<lambda>i. if 0 < i \<and> (length s - i) mod 3 = 0 then [CHR '','', s ! i] else [s ! i]) [0..<length s])
      = concat (map (\<lambda>i. [s ! i]) [0..<length s])"
  proof (intro arg_cong [of _ _ concat] map_cong refl)
    fix i assume "i \<in> set [0..<length s]"
    then have i: "i < length s" by simp
    show "(if 0 < i \<and> (length s - i) mod 3 = 0 then [CHR '','', s ! i] else [s ! i]) = [s ! i]"
    proof (cases "i = 0")
      case False
      then have "length s - i < 3" "0 < length s - i" using s i by auto
      then show ?thesis by simp
    qed simp
  qed
  also have "\<dots> = map (\<lambda>i. s ! i) [0..<length s]" by (induction "[0..<length s]") (simp_all add: concat_map_singleton)
  finally show ?thesis by (simp add: group_by_regex_def map_nth)
qed

lemma group_by_regex_step:
  assumes "a \<noteq> []" and "length b = 3"
  shows "group_by_regex (a @ b) = group_by_regex a @ '','' @ b"
proof -
  let ?n = "length a"
  let ?f = "\<lambda>s i. if 0 < i \<and> (length s - i) mod 3 = 0 then [CHR '','', s ! i] else [s ! i]"
  obtain x y z where b: "b = [x, y, z]" using assms(2) by (auto simp: numeral_3_eq_3 length_Suc_conv)
  have up: "[0..<length (a @ b)] = [0..<?n] @ [?n, ?n + 1, ?n + 2]" by (simp add: b)
  have "?f (a @ b) i = ?f a i" if "i < ?n" for i
  proof -
    have "length (a @ b) - i = length a - i + 3" using that assms(2) by simp
    then have "(length (a @ b) - i) mod 3 = (length a - i) mod 3" by (metis mod_add_self2)
    then show ?thesis using that by (simp only: nth_append if_True)
  qed
  then have m: "map (?f (a @ b)) [0..<?n] = map (?f a) [0..<?n]" by simp
  have e: "map (?f (a @ b)) [?n, ?n + 1, ?n + 2] = [[CHR '','', x], [y], [z]]"
    using assms(1) by (simp add: b nth_append)
  have "group_by_regex (a @ b) = concat (map (?f (a @ b)) [0..<?n]) @ concat (map (?f (a @ b)) [?n, ?n + 1, ?n + 2])"
    unfolding group_by_regex_def up by (simp only: map_append concat_append)
  then show ?thesis unfolding m e group_by_regex_def by (simp add: b)
qed

lemma group_by_regex_group3: "group_by_regex s = group3 s"
proof (induction s rule: group3.induct)
  case (1 s)
  show ?case
  proof (cases "length s \<le> 3")
    case False
    have "group_by_regex (take (length s - 3) s @ drop (length s - 3) s) =
        group_by_regex (take (length s - 3) s) @ '','' @ drop (length s - 3) s"
      using False by (intro group_by_regex_step) auto
    then show ?thesis using 1 False by (subst group3.simps) simp
  qed (subst group3.simps, simp add: group_by_regex_short)
qed

lemma dec_no_minus: "\<not> starts_with (dec_nat n) ''-''"
  using dec_nat_digits [of n] unfolding starts_with_iff
  by (metis all_digits_append all_digits_Cons specials_no_digits(1))

lemma groupDecimal_plain:
  assumes "case f of None \<Rightarrow> True | Some g \<Rightarrow> all_digits g \<and> g \<noteq> []"
  shows "groupDecimal (plain (dec_nat n) f) = groupDigits (plain (dec_nat n) f)"
proof -
  have "split_point (plain (dec_nat n) f) = (dec_nat n, f)"
    using assms by (intro split_point_plain) (auto split: option.splits)
  then show ?thesis
    using assms groupDigits_plain [OF assms, of n] dec_no_minus
    by (cases f) (simp_all add: groupDecimal_def groupInteger_def group_by_regex_group3 with_fraction_def plain_def)
qed

lemma truncate_is_cap:
  assumes "case f of None \<Rightarrow> True | Some g \<Rightarrow> all_digits g \<and> g \<noteq> []"
  shows "truncateDecimals (plain (dec_nat n) f) (int p) = cap_decimals (Some p) (plain (dec_nat n) f)"
proof -
  have "split_point (plain (dec_nat n) f) = (dec_nat n, f)"
    using assms by (intro split_point_plain) (auto split: option.splits)
  moreover have "cap_decimals (Some p) (plain (dec_nat n) f) = plain (dec_nat n) (case f of None \<Rightarrow> None | Some g \<Rightarrow>
      (if strip_zeros (take p g) = [] then None else Some (strip_zeros (take p g))))"
    using assms cap_decimals_plain [of "dec_nat n" f "Some p"] by (cases f) simp_all
  ultimately show ?thesis using assms by (cases f) (simp_all add: truncateDecimals_def plain_def)
qed

section \<open>Totals\<close>

definition coin_reading :: "coin \<Rightarrow> (string \<times> int) option" where
  "coin_reading c = map_option (Pair (c_denom c)) (big_int (c_amount c))"

interpretation coin_sums: adds_up coin_reading add_coin
  by unfold_locales (simp add: coin_reading_def add_coin_def split: option.splits)

definition amount_in :: "coin list \<Rightarrow> string \<Rightarrow> int" where
  "amount_in coins d = sum_list (map (\<lambda>c. if c_denom c = d then (case big_int (c_amount c) of None \<Rightarrow> 0 | Some v \<Rightarrow> v) else 0) coins)"

lemma amount_in_readings: "sum_list (map snd (filter (\<lambda>e. fst e = d) (List.map_filter coin_reading coins))) = amount_in coins d"
  by (induction coins) (simp_all add: coin_reading_def List.map_filter_def amount_in_def split: option.splits)

lemma amount_in_distinct:
  assumes "distinct (map fst m)"
  shows "amount_in (map coin_of m) d = total_of m d"
  using assms
proof (induction m)
  case (Cons e m)
  have "d \<notin> fst ` set m \<Longrightarrow> total_of m d = 0"
    by (metis total_of_def map_of_eq_None_iff option.case(1))
  then show ?case
    using Cons by (cases e) (auto simp: amount_in_def total_of_def coin_of_def)
qed (simp add: amount_in_def total_of_def)

text \<open>
  \<open>sumCoins\<close> conserves every denomination's total, whatever the order and the repetitions of
  the list; each denomination comes out once.
\<close>

theorem sum_coins_conserves:
  "amount_in (sumCoins coins) d = amount_in coins d \<and> distinct (map c_denom (sumCoins coins))"
proof -
  let ?m = "fold add_coin coins []"
  have "amount_in (map coin_of ?m) d = amount_in coins d"
    using amount_in_distinct [OF coin_sums.distinct_totals, of coins d] coin_sums.total [of coins d]
    by (simp add: amount_in_readings)
  moreover have "map c_denom (map coin_of ?m) = map fst ?m" by (simp add: coin_of_def)
  ultimately show ?thesis using coin_sums.distinct_totals [of coins] unfolding sumCoins_def by metis
qed

text \<open>
  The explorer and the SDK print the same figure: text grouping and truncation
  (\<open>displayAmount\<close>) agree with the SDK's \<open>formatAmount\<close> for every balance, denomination and
  registry.
\<close>

theorem explorer_agrees_with_sdk:
  assumes "0 \<le> n" and "0 \<le> d_exponent (resolveDenom denom reg)" and "d_exponent (resolveDenom denom reg) \<le> 30"
  shows "da_value (displayAmount (show_int n) denom reg) =
    formatAmount (BText (show_int n)) denom \<lparr>fo_symbol = False, fo_group = True, fo_max = None, fo_registry = reg\<rparr>"
proof -
  let ?i = "resolveDenom denom reg"
  let ?e = "d_exponent ?i"
  have sh: "show_int n = dec_nat (nat n)" using assms(1) by (rule show_int_nonneg)
  have "trim_left (dec_nat (nat n)) = dec_nat (nat n)" "trim (dec_nat (nat n)) = dec_nat (nat n)"
    using all_digits_graphic [OF dec_nat_digits, of "nat n"]
    by (auto intro: trim_left_graphic trim_all_graphic)
  then have full: "toDisplayAmount (BText (show_int n)) ?e = display_of n ?e"
    using assms(1) dec_no_minus by (simp add: sh big_int_digits)
  obtain f where f: "display_of n ?e = plain (dec_nat (nat n div 10 ^ nat ?e)) f"
      "case f of None \<Rightarrow> True | Some g \<Rightarrow> all_digits g \<and> g \<noteq> []"
    by (rule display_capped_reads_back [OF assms, of None]) (simp add: cap_decimals_def)
  obtain g where g: "cap_decimals (d_minor ?i) (display_of n ?e) = plain (dec_nat (nat n div 10 ^ nat ?e)) g"
      "case g of None \<Rightarrow> True | Some g \<Rightarrow> all_digits g \<and> g \<noteq> []"
    by (rule display_capped_reads_back [OF assms, of "d_minor ?i"])
  have "(case d_minor ?i of None \<Rightarrow> display_of n ?e | Some places \<Rightarrow> truncateDecimals (display_of n ?e) (int places))
      = cap_decimals (d_minor ?i) (display_of n ?e)"
    using truncate_is_cap [OF f(2)] f(1) by (simp add: cap_decimals_def split: option.splits)
  then show ?thesis
    using g groupDecimal_plain [OF g(2)]
    by (simp add: displayAmount_def formatAmount_def Let_def full del: toDisplayAmount.simps cong: option.case_cong)
qed

lemma explorer_agrees_with_sdk_witness:
  "da_value (displayAmount (show_int 1359844414) ''ungn'' KNOWN_DENOMS) =
    formatAmount (BText (show_int 1359844414)) ''ungn'' \<lparr>fo_symbol = False, fo_group = True, fo_max = None, fo_registry = KNOWN_DENOMS\<rparr>"
proof -
  have "d_exponent (resolveDenom ''ungn'' KNOWN_DENOMS) = 6" by code_simp
  then show ?thesis by (intro explorer_agrees_with_sdk) simp_all
qed

section \<open>A balance put back into the amount field\<close>

lemma raw_amount_plain:
  assumes c: "currencyOf denom = Some c" and e: "0 < cu_exponent c"
  shows "rawAmount (dec_nat n) denom = display_of (int n) (cu_exponent c)"
proof -
  define k where "k = nat (cu_exponent c)"
  have k: "0 < k" "cu_exponent c = int k" using e by (simp_all add: k_def)
  let ?q = "n div 10 ^ k" and ?r = "n mod 10 ^ k"
  let ?p = "pad_start (k + 1) CHR ''0'' (dec_nat n)"
  let ?w = "take (length ?p - k) ?p" and ?f = "drop (length ?p - k) ?p"
  have lf: "length ?f = k" and dig: "all_digits ?p" by (simp_all add: pad_start_def)
  have "n = nat_of_dec ?w * 10 ^ k + nat_of_dec ?f"
    using nat_of_dec_append [of ?w ?f] lf by simp
  moreover have "nat_of_dec ?f < 10 ^ k"
    using nat_of_dec_less [of ?f] lf dig by (simp add: all_digits_drop)
  ultimately have qr: "?q = nat_of_dec ?w" "?r = nat_of_dec ?f" using div_mod_unique by blast+
  have f: "pad_start k CHR ''0'' (dec_nat ?r) = ?f"
  proof (rule nat_of_dec_inj)
    show "length (pad_start k CHR ''0'' (dec_nat ?r)) = length ?f"
      using length_dec_nat [OF k(1), of ?r] lf by simp
  qed (use dig qr in \<open>simp_all add: pad_start_def all_digits_drop nat_of_dec_append\<close>)
  have "?w \<noteq> []" and hdw: "hd ?w \<noteq> CHR ''0'' \<or> length ?w = 1"
    using k dec_nat_hd_zero [of n]
    by (auto simp: pad_start_def hd_append max_def split: if_splits)
  then have w: "dec_nat ?q = ?w"
    unfolding qr using dig by (intro dec_nat_canonical) (simp_all add: all_digits_take)
  have "0 < length ?p" by simp
  then have pad_ne: "?p \<noteq> []" by (metis length_greater_0_conv)
  have pw: "(10::int) ^ k = int (10 ^ k)" by simp
  have md: "int n mod 10 ^ k = int ?r" "int n div 10 ^ k = int ?q"
    unfolding pw by (simp_all only: zmod_int zdiv_int)
  have z: "strip_zeros ?f = [] \<longleftrightarrow> ?r = 0"
    unfolding qr(2) strip_zeros_eq_Nil using dig nat_of_dec_eq_0 [of ?f]
    by (auto simp: all_digits_def list_ex_iff dest: in_set_dropD)
  have raw: "rawAmount (dec_nat n) denom = (if strip_zeros ?f \<noteq> [] then ?w @ ''.'' @ strip_zeros ?f else ?w)"
    using c k w pad_ne by (simp add: rawAmount_def Let_def)
  have "display_of (int n) (int k) = (if ?r = 0 then dec_nat ?q else dec_nat ?q @ ''.'' @ strip_zeros (pad_start k CHR ''0'' (dec_nat ?r)))"
    using k by (simp add: display_of_def md Let_def)
  then show ?thesis unfolding k(2) raw f w using z by simp
qed

text \<open>
  "Use my whole balance": the text \<open>rawAmount\<close> puts into the amount field means exactly the
  balance it came from, in every currency of the table.
\<close>

theorem raw_amount_round_trip:
  assumes "currencyOf denom \<noteq> None"
  shows "parseAmount (rawAmount (dec_nat n) denom) denom = Some \<lparr>bu_base = dec_nat n, bu_truncated = False\<rparr>"
proof -
  obtain c where c: "currencyOf denom = Some c" using assms by auto
  have "\<forall>c \<in> set CURRENCIES. cu_exponent c = 6" by (simp add: CURRENCIES_def)
  then have e: "cu_exponent c = 6" using c find_SomeD unfolding currencyOf_def by metis
  have "rawAmount (dec_nat n) denom = display_of (int n) 6"
    using raw_amount_plain [OF c] e by simp
  then show ?thesis using c e display_of_reads_back [of "int n" 6] by (simp add: parseAmount_def)
qed

lemma raw_amount_round_trip_witness:
  "parseAmount (rawAmount (dec_nat 1500000) ''uxof'') ''uxof'' = Some \<lparr>bu_base = dec_nat 1500000, bu_truncated = False\<rparr>"
proof (rule raw_amount_round_trip)
  show "currencyOf ''uxof'' \<noteq> None" by code_simp
qed

end
