(* ===== verification/Luhn.thy ===== *)
theory Luhn imports Text begin

text \<open>
  The check character two components share: Luhn modulo 32 over Crockford's alphabet
  (\<open>checkCharacter\<close> of \<open>sdk/src/alias.ts\<close> and of \<open>app/src/request.ts\<close>). What a single wrong or
  swapped symbol does to it is proved once, in the locale \<open>luhn_coded\<close>, for any component whose
  check character is the Luhn symbol of a list of values.
\<close>

definition crockford :: string where
  "crockford = ''0123456789ABCDEFGHJKMNPQRSTVWXYZ''"

lemma crockford_distinct: "distinct crockford" by code_simp
lemma crockford_length [simp]: "length crockford = 32" by code_simp

definition luhn_term :: "nat \<Rightarrow> nat \<Rightarrow> nat" where
  "luhn_term f v = f * v div 32 + f * v mod 32"

text \<open>Values rightmost first, the factor alternating between \<open>f\<close> and \<open>3 - f\<close>.\<close>

fun luhn_sum :: "nat \<Rightarrow> nat list \<Rightarrow> nat" where
  "luhn_sum f [] = 0"
| "luhn_sum f (v # vs) = luhn_term f v + luhn_sum (3 - f) vs"

definition luhn_check :: "nat list \<Rightarrow> nat" where
  "luhn_check vs = (32 - luhn_sum 2 vs mod 32) mod 32"

lemma luhn_check_less [simp]: "luhn_check vs < 32" by (simp add: luhn_check_def)

lemma luhn_term_2: "v < 32 \<Longrightarrow> luhn_term 2 v = (if v < 16 then 2 * v else 2 * v - 31)"
proof (cases "v < 16")
  case False
  assume "v < 32"
  then have "2 * v = 1 * 32 + (2 * v - 32)" "2 * v - 32 < 32" using False by auto
  then have "2 * v div 32 = 1 \<and> 2 * v mod 32 = 2 * v - 32" by (rule div_mod_unique)
  then show ?thesis using False by (simp add: luhn_term_def)
qed (simp add: luhn_term_def)

lemma luhn_term_2_inj:
  "a < 32 \<Longrightarrow> b < 32 \<Longrightarrow> luhn_term 2 a mod 32 = luhn_term 2 b mod 32 \<Longrightarrow> a = b"
proof -
  assume ab: "a < 32" "b < 32" and eq: "luhn_term 2 a mod 32 = luhn_term 2 b mod 32"
  have "luhn_term 2 v < 32" if "v < 32" for v using that by (auto simp: luhn_term_2)
  then have "luhn_term 2 a = luhn_term 2 b" using ab eq by simp
  then show ?thesis using ab by (simp add: luhn_term_2 split: if_splits) presburger+
qed

lemma small_multiple: "(32::int) dvd x \<Longrightarrow> - 32 < x \<Longrightarrow> x < 32 \<Longrightarrow> x = 0"
  by (elim dvdE) simp

lemma luhn_term_2_swap:
  assumes ab: "a < 32" "b < 32" and eq: "(luhn_term 2 a + b) mod 32 = (luhn_term 2 b + a) mod 32"
  shows "a = b \<or> (a = 0 \<and> b = 31) \<or> (a = 31 \<and> b = 0)"
proof -
  have "(int (luhn_term 2 a) + int b) mod 32 = (int (luhn_term 2 b) + int a) mod 32"
    using eq by (metis of_nat_add of_nat_mod of_nat_numeral)
  then have dvd: "32 dvd (int (luhn_term 2 a) + int b) - (int (luhn_term 2 b) + int a)"
    by (simp only: mod_eq_dvd_iff)
  have t: "int (luhn_term 2 v) = (if v < 16 then 2 * int v else 2 * int v - 31)" if "v < 32" for v
    using that by (simp add: luhn_term_2 of_nat_diff)
  have "(int (luhn_term 2 a) + int b) - (int (luhn_term 2 b) + int a)
      = (int a - int b) + (if a < 16 then 0 else - 31) + (if b < 16 then 0 else 31)"
    using t [OF ab(1)] t [OF ab(2)] by simp
  moreover have "\<dots> = 0"
    using dvd calculation ab by (intro small_multiple) (auto split: if_splits)
  ultimately show ?thesis using ab by (auto split: if_splits)
qed

lemma luhn_term_1 [simp]: "v < 32 \<Longrightarrow> luhn_term (Suc 0) v = v"
  by (simp add: luhn_term_def)

lemma luhn_term_inj:
  assumes "f = 1 \<or> f = 2" and "a < 32" and "b < 32" and "luhn_term f a mod 32 = luhn_term f b mod 32"
  shows "a = b"
proof (cases "f = 2")
  case True
  then show ?thesis using assms luhn_term_2_inj by blast
next
  case False
  then have "luhn_term f a = a" "luhn_term f b = b" using assms by simp_all
  then show ?thesis using assms by simp
qed

lemma luhn_swap:
  assumes "f = 1 \<or> f = 2" and "a < 32" and "b < 32"
    and "(luhn_term f a + luhn_term (3 - f) b) mod 32 = (luhn_term f b + luhn_term (3 - f) a) mod 32"
  shows "a = b \<or> (a = 0 \<and> b = 31) \<or> (a = 31 \<and> b = 0)"
proof -
  have "(luhn_term 2 a + b) mod 32 = (luhn_term 2 b + a) mod 32"
  proof (cases "f = 2")
    case False
    then have "(a + luhn_term 2 b) mod 32 = (b + luhn_term 2 a) mod 32" using assms by simp
    then show ?thesis by (simp add: add.commute)
  qed (use assms in simp)
  then show ?thesis using assms luhn_term_2_swap by blast
qed

lemma mod_cancel:
  assumes "(x + s) mod 32 = (y + s) mod (32 :: nat)"
  shows "x mod 32 = y mod 32"
proof -
  have "(int x + int s) mod 32 = (int y + int s) mod 32" using assms by (metis of_nat_add of_nat_mod of_nat_numeral)
  then have "(int x + int s - int s) mod 32 = (int y + int s - int s) mod 32" by (rule mod_diff_cong) simp
  then have "int (x mod 32) = int (y mod 32)" by (simp add: of_nat_mod)
  then show ?thesis by simp
qed

lemma luhn_check_mod: "luhn_check vs = luhn_check ws \<longleftrightarrow> luhn_sum 2 vs mod 32 = luhn_sum 2 ws mod 32"
proof -
  have "(32 - a) mod 32 = (32 - b) mod 32 \<longleftrightarrow> a = b" if "a < 32" "b < (32::nat)" for a b
    using that by (cases "a = 0"; cases "b = 0") auto
  then show ?thesis by (simp add: luhn_check_def)
qed

lemma luhn_sum_prefix:
  "f = 1 \<or> f = 2 \<Longrightarrow> \<exists>g. (g = 1 \<or> g = 2) \<and>
     (\<forall>ys. luhn_sum f (xs @ ys) = luhn_sum f xs + luhn_sum g ys)"
proof (induction xs arbitrary: f)
  case (Cons x xs)
  have "3 - f = 1 \<or> 3 - f = 2" using Cons.prems by auto
  then obtain g where "(g = 1 \<or> g = 2) \<and> (\<forall>ys. luhn_sum (3 - f) (xs @ ys) = luhn_sum (3 - f) xs + luhn_sum g ys)"
    using Cons.IH by blast
  then show ?case by (intro exI [of _ g]) simp
qed auto

lemma luhn_substitution:
  assumes "a < 32" and "b < 32" and "luhn_check (xs @ a # ys) = luhn_check (xs @ b # ys)"
  shows "a = b"
proof -
  obtain g where g: "g = 1 \<or> g = 2" and s: "\<And>ys. luhn_sum 2 (xs @ ys) = luhn_sum 2 xs + luhn_sum g ys"
    using luhn_sum_prefix [of 2 xs] by blast
  have "(luhn_term g a + (luhn_sum 2 xs + luhn_sum (3 - g) ys)) mod 32
      = (luhn_term g b + (luhn_sum 2 xs + luhn_sum (3 - g) ys)) mod 32"
    using assms(3) by (simp add: luhn_check_mod s ac_simps)
  then have "luhn_term g a mod 32 = luhn_term g b mod 32" by (rule mod_cancel)
  then show ?thesis using luhn_term_inj g assms by blast
qed

lemma luhn_transposition:
  assumes "a < 32" and "b < 32" and "luhn_check (xs @ a # b # ys) = luhn_check (xs @ b # a # ys)"
  shows "a = b \<or> (a = 0 \<and> b = 31) \<or> (a = 31 \<and> b = 0)"
proof -
  obtain g where g: "g = 1 \<or> g = 2" and s: "\<And>ys. luhn_sum 2 (xs @ ys) = luhn_sum 2 xs + luhn_sum g ys"
    using luhn_sum_prefix [of 2 xs] by blast
  have "((luhn_term g a + luhn_term (3 - g) b) + (luhn_sum 2 xs + luhn_sum (3 - (3 - g)) ys)) mod 32
      = ((luhn_term g b + luhn_term (3 - g) a) + (luhn_sum 2 xs + luhn_sum (3 - (3 - g)) ys)) mod 32"
    using assms(3) by (simp add: luhn_check_mod s ac_simps)
  then have "(luhn_term g a + luhn_term (3 - g) b) mod 32 = (luhn_term g b + luhn_term (3 - g) a) mod 32"
    by (rule mod_cancel)
  then show ?thesis using luhn_swap g assms by blast
qed

lemma luhn_extremes:
  assumes "(a = 0 \<and> b = 31) \<or> (a = 31 \<and> b = 0)"
  shows "luhn_check (xs @ a # b # ys) = luhn_check (xs @ b # a # ys)"
proof -
  obtain g where g: "g = 1 \<or> g = 2" and s: "\<And>ys. luhn_sum 2 (xs @ ys) = luhn_sum 2 xs + luhn_sum g ys"
    using luhn_sum_prefix [of 2 xs] by blast
  have "luhn_term g a + luhn_term (3 - g) b = luhn_term g b + luhn_term (3 - g) a"
    using g assms by (elim disjE conjE) (simp_all add: luhn_term_2)
  then have "luhn_sum 2 (xs @ a # b # ys) = luhn_sum 2 (xs @ b # a # ys)" by (simp add: s)
  then show ?thesis by (simp add: luhn_check_def)
qed

section \<open>The interface\<close>

text \<open>
  A component that puts a Luhn symbol behind its codes gives the values of a code, rightmost
  first, and promises that they are below 32 and that its check character is their Luhn symbol.
\<close>

locale luhn_coded =
  fixes coded :: "'a \<Rightarrow> bool"
    and digits :: "'a \<Rightarrow> nat list"
    and check :: "'a \<Rightarrow> char"
  assumes digit_range: "coded x \<Longrightarrow> \<forall>v \<in> set (digits x). v < 32"
    and check_symbol: "coded x \<Longrightarrow> check x = crockford ! luhn_check (digits x)"
begin

lemma check_eq: "coded x \<Longrightarrow> coded y \<Longrightarrow> check x = check y \<longleftrightarrow> luhn_check (digits x) = luhn_check (digits y)"
  by (simp add: check_symbol nth_eq_iff_index_eq crockford_distinct)

lemma substitution_detected:
  assumes "coded x" and "coded y" and "digits x = xs @ a # ys" and "digits y = xs @ b # ys" and "a \<noteq> b"
  shows "check x \<noteq> check y"
  using assms check_eq [of x y] digit_range [of x] digit_range [of y] luhn_substitution [of a b xs ys] by auto

lemma transposition_detected:
  assumes "coded x" and "coded y" and "digits x = xs @ a # b # ys" and "digits y = xs @ b # a # ys"
    and "a \<noteq> b"
  shows "check x = check y \<longleftrightarrow> {a, b} = {0, 31}"
proof -
  have "a < 32" "b < 32" using digit_range [of x] assms by auto
  then have "luhn_check (digits x) = luhn_check (digits y) \<longleftrightarrow> (a = 0 \<and> b = 31) \<or> (a = 31 \<and> b = 0)"
    using luhn_transposition [of a b xs ys] luhn_extremes [of a b xs ys] assms by metis
  then show ?thesis using check_eq [of x y] assms by (auto simp: doubleton_eq_iff)
qed

end

end
