(* ===== verification/UserId.thy ===== *)
theory UserId imports Luhn begin

text \<open>
  User identifiers (\<open>sdk/src/alias.ts\<close>): a two-letter country, a payload in Crockford's alphabet
  and a check character over both, with the confusable letters of the payload folded.
\<close>

definition COUNTRY_LENGTH :: nat where "COUNTRY_LENGTH = 2"
definition MIN_PAYLOAD :: nat where "MIN_PAYLOAD = 8"
definition MAX_PAYLOAD :: nat where "MAX_PAYLOAD = 16"
definition FOUNDATION_COUNTRY :: string where "FOUNDATION_COUNTRY = ''ZZ''"

text \<open>The table \<open>VALUE\<close>: the alphabet's positions, and the three folded letters.\<close>

definition VALUE :: "char \<Rightarrow> nat option" where
  "VALUE c = (if c = CHR ''I'' \<or> c = CHR ''L'' then Some 1 else if c = CHR ''O'' then Some 0
              else index_of c crockford)"

definition ASSIGNED :: "string list" where
  "ASSIGNED = split_on CHR '' ''
    (''AD AE AF AG AI AL AM AO AQ AR AS AT AU AW AX AZ BA BB BD BE BF BG BH BI BJ BL BM BN BO BQ ''
     @ ''BR BS BT BV BW BY BZ CA CC CD CF CG CH CI CK CL CM CN CO CR CU CV CW CX CY CZ DE DJ DK DM ''
     @ ''DO DZ EC EE EG EH ER ES ET FI FJ FK FM FO FR GA GB GD GE GF GG GH GI GL GM GN GP GQ GR GS ''
     @ ''GT GU GW GY HK HM HN HR HT HU ID IE IL IM IN IO IQ IR IS IT JE JM JO JP KE KG KH KI KM KN ''
     @ ''KP KR KW KY KZ LA LB LC LI LK LR LS LT LU LV LY MA MC MD ME MF MG MH MK ML MM MN MO MP MQ ''
     @ ''MR MS MT MU MV MW MX MY MZ NA NC NE NF NG NI NL NO NP NR NU NZ OM PA PE PF PG PH PK PL PM ''
     @ ''PN PR PS PT PW PY QA RE RO RS RU RW SA SB SC SD SE SG SH SI SJ SK SL SM SN SO SR SS ST SV ''
     @ ''SX SY SZ TC TD TF TG TH TJ TK TL TM TN TO TR TT TV TW TZ UA UG UM US UY UZ VA VC VE VG VI ''
     @ ''VN VU WF WS YE YT ZA ZM ZW'')"

definition assignedCountry :: "string \<Rightarrow> bool" where
  "assignedCountry code \<longleftrightarrow> to_upper code \<in> set ASSIGNED"

definition issuableCountry :: "string \<Rightarrow> bool" where
  "issuableCountry code \<longleftrightarrow> to_upper code = FOUNDATION_COUNTRY \<or> to_upper code \<in> set ASSIGNED"

definition fold_confusable :: "char \<Rightarrow> char" where
  "fold_confusable c = (if c = CHR ''I'' \<or> c = CHR ''L'' then CHR ''1'' else if c = CHR ''O'' then CHR ''0'' else c)"

text \<open>\<open>normalise_from n s\<close>: the loop of \<open>normaliseUserId\<close> when \<open>n\<close> characters are out already.\<close>

fun normalise_from :: "nat \<Rightarrow> string \<Rightarrow> string" where
  "normalise_from n [] = []"
| "normalise_from n (raw # s) =
     (if raw = CHR ''-'' \<or> raw = CHR '' '' then normalise_from n s
      else (let c = to_upper_char raw in
            (if COUNTRY_LENGTH \<le> n then fold_confusable c else c) # normalise_from (n + 1) s))"

definition normaliseUserId :: "string \<Rightarrow> string" where
  "normaliseUserId s = normalise_from 0 s"

text \<open>
  \<open>fold_luhn\<close> is the closure \<open>fold\<close> run over values in the order the two loops give them, with
  the running sum and factor as its state. A country character below \<open>A\<close> has a negative value.
\<close>

fun fold_luhn :: "int list \<Rightarrow> int \<Rightarrow> int \<Rightarrow> int" where
  "fold_luhn [] factor acc = acc"
| "fold_luhn (v # vs) factor acc =
     (let addend = factor * v; addend = addend div 32 + (if 0 \<le> addend then addend mod 32 else - ((- addend) mod 32)) in
      fold_luhn vs (3 - factor) (acc + addend))"

definition code_values :: "string \<Rightarrow> string \<Rightarrow> int list" where
  "code_values country payload =
    map (\<lambda>c. int (case VALUE c of None \<Rightarrow> 0 | Some v \<Rightarrow> v)) (rev payload) @
    map (\<lambda>c. int (of_char c) - 65) (rev country)"

definition checkCharacter :: "string \<Rightarrow> string \<Rightarrow> char" where
  "checkCharacter country payload =
    (let total = fold_luhn (code_values country payload) 2 0;
         r = (if 0 \<le> total then total mod 32 else - ((- total) mod 32)) in
     crockford ! nat ((32 - r) mod 32))"

definition validUserId :: "string \<Rightarrow> bool" where
  "validUserId s =
    (let n = normaliseUserId s in
     if length n < COUNTRY_LENGTH + MIN_PAYLOAD + 1 then False
     else if COUNTRY_LENGTH + MAX_PAYLOAD + 1 < length n then False
     else let country = take COUNTRY_LENGTH n in
     if \<not> issuableCountry country then False
     else let payload = drop COUNTRY_LENGTH (butlast n) in
     if list_ex (\<lambda>c. VALUE c = None) payload then False
     else checkCharacter country payload = last n)"

definition userIdCountry :: "string \<Rightarrow> string" where
  "userIdCountry s = (let n = normaliseUserId s in
     if length n < COUNTRY_LENGTH then [] else take COUNTRY_LENGTH n)"

fun chunks4 :: "string \<Rightarrow> string list" where
  "chunks4 (a # b # c # d # e # s) = [a, b, c, d] # chunks4 (e # s)"
| "chunks4 [] = []"
| "chunks4 s = [s]"

definition formatUserId :: "string \<Rightarrow> string" where
  "formatUserId s =
    (let n = normaliseUserId s in
     if length n < COUNTRY_LENGTH + 2 then n
     else join_with ''-'' ([take COUNTRY_LENGTH n] @ chunks4 (drop COUNTRY_LENGTH (butlast n)) @ [[last n]]))"

section \<open>Normal forms\<close>

text \<open>A character of a normal form: not a separator, upper case, and folded beyond the country.\<close>

definition normal_char :: "char \<Rightarrow> bool" where
  "normal_char c \<longleftrightarrow> c \<noteq> CHR ''-'' \<and> c \<noteq> CHR '' '' \<and> to_upper_char c = c"

definition normal_id :: "string \<Rightarrow> bool" where
  "normal_id n \<longleftrightarrow> (\<forall>c \<in> set n. normal_char c) \<and> (\<forall>c \<in> set (drop 2 n). fold_confusable c = c)"

lemma upper_no_separator: "to_upper_char c \<noteq> CHR ''-'' \<or> c = CHR ''-''"
    "to_upper_char c \<noteq> CHR '' '' \<or> c = CHR '' ''"
  using to_upper_char_in [of c] by (auto simp: upper_alphabet_def)

lemma fold_normal:
  assumes "normal_char c"
  shows "normal_char (fold_confusable c)" and "fold_confusable (fold_confusable c) = fold_confusable c"
proof -
  have "normal_char CHR ''1''" "normal_char CHR ''0''" by code_simp+
  then show "normal_char (fold_confusable c)" using assms by (simp add: fold_confusable_def)
qed (simp add: fold_confusable_def)

lemma normalise_from_chars:
  "\<forall>c \<in> set (normalise_from n s). normal_char c \<and> (2 \<le> n \<longrightarrow> fold_confusable c = c)"
proof (induction s arbitrary: n)
  case (Cons raw s)
  have "raw \<noteq> CHR ''-'' \<Longrightarrow> raw \<noteq> CHR '' '' \<Longrightarrow> normal_char (to_upper_char raw)"
    using upper_no_separator [of raw] by (auto simp: normal_char_def)
  then show ?case
    using Cons [of n] Cons [of "n + 1"] fold_normal by (auto simp: Let_def COUNTRY_LENGTH_def)
qed simp

lemma normalise_from_drop:
  "\<forall>c \<in> set (drop (2 - n) (normalise_from n s)). fold_confusable c = c"
proof (induction s arbitrary: n)
  case (Cons raw s)
  show ?case
  proof (cases "n < 2")
    case True
    then have "2 - n = Suc (2 - Suc n)" by simp
    then show ?thesis using Cons [of n] Cons [of "Suc n"] by (auto simp: Let_def)
  next
    case False
    then show ?thesis using normalise_from_chars [of n "raw # s"] by (auto dest: in_set_dropD)
  qed
qed simp

lemma normalise_normal: "normal_id (normaliseUserId s)"
  using normalise_from_chars [of 0 s] normalise_from_drop [of 0 s]
  by (simp add: normal_id_def normaliseUserId_def)

lemma normalise_from_id:
  "\<forall>c \<in> set s. normal_char c \<Longrightarrow> \<forall>c \<in> set (drop (2 - n) s). fold_confusable c = c \<Longrightarrow> normalise_from n s = s"
proof (induction s arbitrary: n)
  case (Cons c s)
  have "\<forall>c \<in> set (drop (2 - (n + 1)) s). fold_confusable c = c"
  proof (cases "n < 2")
    case True
    then have "2 - n = Suc (2 - (n + 1))" by simp
    then show ?thesis using Cons.prems(2) by simp
  qed (use Cons.prems(2) in simp)
  then have "normalise_from (n + 1) s = s" using Cons by auto
  then show ?case
    using Cons.prems by (auto simp: Let_def COUNTRY_LENGTH_def normal_char_def)
qed simp

lemma normalise_normal_id: "normal_id n \<Longrightarrow> normaliseUserId n = n"
  unfolding normaliseUserId_def normal_id_def by (rule normalise_from_id) auto

section \<open>Formatting\<close>

lemma chunks4_concat [simp]: "concat (chunks4 s) = s"
  by (induction s rule: chunks4.induct) auto

lemma normalise_dash: "normalise_from n (CHR ''-'' # s) = normalise_from n s" by simp

lemma normalise_from_append:
  "\<forall>c \<in> set s. normal_char c \<Longrightarrow> \<forall>c \<in> set (drop (2 - n) s). fold_confusable c = c \<Longrightarrow>
     normalise_from n (s @ t) = s @ normalise_from (n + length s) t"
proof (induction s arbitrary: n)
  case (Cons c s)
  have "\<forall>c \<in> set (drop (2 - (n + 1)) s). fold_confusable c = c"
  proof (cases "n < 2")
    case True
    then have "2 - n = Suc (2 - (n + 1))" by simp
    then show ?thesis using Cons.prems(2) by simp
  qed (use Cons.prems(2) in simp)
  then have "normalise_from (n + 1) (s @ t) = s @ normalise_from (n + 1 + length s) t" using Cons by auto
  then show ?case
    using Cons.prems by (auto simp: Let_def COUNTRY_LENGTH_def normal_char_def)
qed simp

lemma normalise_groups:
  assumes "2 \<le> n" and "gs \<noteq> []"
    and "\<forall>g \<in> set gs. \<forall>c \<in> set g. normal_char c \<and> fold_confusable c = c"
  shows "normalise_from n (join_with ''-'' gs) = concat gs"
  using assms
proof (induction gs arbitrary: n)
  case (Cons g gs)
  have g: "\<forall>c \<in> set g. normal_char c" "\<forall>c \<in> set (drop (2 - n) g). fold_confusable c = c"
    using Cons.prems by (auto dest: in_set_dropD)
  show ?case
  proof (cases "gs = []")
    case True
    then show ?thesis using normalise_from_id [OF g] by simp
  next
    case False
    then have "normalise_from n (join_with ''-'' (g # gs)) = g @ normalise_from (n + length g) (join_with ''-'' gs)"
      using normalise_from_append [OF g] by (simp add: join_with_Cons)
    then show ?thesis using Cons False by simp
  qed
qed simp

lemma format_keeps:
  assumes n: "normal_id n"
  shows "normaliseUserId (formatUserId n) = n"
proof (cases "length n < 4")
  case True
  then show ?thesis using n by (simp add: formatUserId_def COUNTRY_LENGTH_def normalise_normal_id)
next
  case False
  define h where "h = take 2 n"
  define p where "p = drop 2 (butlast n)"
  define k where "k = last n"
  have "n \<noteq> []" using False by auto
  then have nh: "n = h @ p @ [k]"
    using False append_take_drop_id [of 2 "butlast n"] take_butlast [of 2 n]
    by (simp add: h_def p_def k_def flip: append_assoc)
  have h: "length h = 2" "\<forall>c \<in> set h. normal_char c"
    using n False unfolding normal_id_def h_def by (auto dest: in_set_takeD)
  have "drop 2 (h @ p @ [k]) = p @ [k]" using h by simp
  then have "drop 2 n = p @ [k]" by (metis nh)
  then have pk: "\<forall>c \<in> set (p @ [k]). normal_char c \<and> fold_confusable c = c"
    using n unfolding normal_id_def by (metis in_set_dropD)
  let ?gs = "chunks4 p @ [[k]]"
  have "set (concat ?gs) = set (p @ [k])" by simp
  then have gs: "\<forall>g \<in> set ?gs. \<forall>c \<in> set g. normal_char c \<and> fold_confusable c = c"
    using pk by (metis UN_I set_concat)
  have f: "formatUserId n = h @ ''-'' @ join_with ''-'' ?gs"
    using False n join_with_Cons [of ?gs "''-''" h]
    by (simp add: formatUserId_def COUNTRY_LENGTH_def normalise_normal_id h_def p_def k_def Let_def)
  have "normalise_from 0 (formatUserId n) = h @ normalise_from 2 (join_with ''-'' ?gs)"
    unfolding f using normalise_from_append [of h 0] h by (simp add: eval_nat_numeral)
  then show ?thesis
    using normalise_groups [of 2 ?gs] gs nh by (simp add: normaliseUserId_def)
qed

text \<open>
  Normalising is idempotent, and formatting an identifier for display changes nothing about
  it: what is displayed normalises to the same identifier, so it is valid exactly when the
  original is and names the same country.
\<close>

theorem format_preserves_identity:
  "normaliseUserId (normaliseUserId s) = normaliseUserId s \<and>
   normaliseUserId (formatUserId s) = normaliseUserId s \<and>
   validUserId (formatUserId s) = validUserId s \<and>
   userIdCountry (formatUserId s) = userIdCountry s"
proof -
  have "formatUserId s = formatUserId (normaliseUserId s)"
    by (simp add: formatUserId_def normalise_normal_id normalise_normal)
  then have "normaliseUserId (formatUserId s) = normaliseUserId s"
    using format_keeps [OF normalise_normal] by metis
  then show ?thesis
    by (simp add: normalise_normal_id normalise_normal validUserId_def userIdCountry_def)
qed

section \<open>The check character\<close>

definition id_coded :: "string \<times> string \<Rightarrow> bool" where
  "id_coded x \<longleftrightarrow> set (fst x) \<subseteq> set upper_alphabet"

definition id_digits :: "string \<times> string \<Rightarrow> nat list" where
  "id_digits x = map (\<lambda>c. case VALUE c of None \<Rightarrow> 0 | Some v \<Rightarrow> v) (rev (snd x)) @
     map (\<lambda>c. of_char c - 65) (rev (fst x))"

lemma upper_codes: "\<forall>c \<in> set upper_alphabet. 65 \<le> (of_char c :: nat) \<and> (of_char c :: nat) \<le> 90"
  by (simp add: upper_alphabet_def)

lemma VALUE_less: "VALUE c = Some v \<Longrightarrow> v < 32"
  using index_of_SomeD [of c crockford v] by (auto simp: VALUE_def split: if_splits)

lemma fold_luhn_nat:
  "f = 1 \<or> f = 2 \<Longrightarrow> fold_luhn (map int vs) (int f) (int a) = int (a + luhn_sum f vs)"
proof (induction vs arbitrary: f a)
  case (Cons v vs)
  have f: "3 - int f = int (3 - f)" "3 - f = 1 \<or> 3 - f = 2" using Cons.prems by (elim disjE; simp)+
  have t: "int f * int v div 32 + int f * int v mod 32 = int (luhn_term f v)"
    by (simp only: luhn_term_def of_nat_add of_nat_div of_nat_mod of_nat_mult of_nat_numeral)
  have "0 \<le> int f * int v" by simp
  then have "fold_luhn (map int (v # vs)) (int f) (int a) =
      fold_luhn (map int vs) (3 - int f) (int a + (int f * int v div 32 + int f * int v mod 32))"
    by (simp only: list.map fold_luhn.simps Let_def if_True)
  also have "\<dots> = fold_luhn (map int vs) (int (3 - f)) (int (a + luhn_term f v))"
    by (simp only: f t of_nat_add)
  also have "\<dots> = int (a + luhn_term f v + luhn_sum (3 - f) vs)" by (rule Cons.IH [OF f(2)])
  finally show ?case by (simp only: luhn_sum.simps add.assoc)
qed simp

lemma code_values_nat:
  assumes "set country \<subseteq> set upper_alphabet"
  shows "code_values country payload = map int (id_digits (country, payload))"
proof -
  have "\<forall>c \<in> set country. 65 \<le> (of_char c :: nat)" using assms upper_codes by blast
  then have "map (\<lambda>c. int (of_char c) - 65) (rev country) = map (\<lambda>c. int (of_char c - 65)) (rev country)"
    by (intro map_cong) (simp_all add: of_nat_diff)
  then show ?thesis by (simp add: code_values_def id_digits_def comp_def)
qed

lemma check_is_luhn:
  assumes "set country \<subseteq> set upper_alphabet"
  shows "checkCharacter country payload = crockford ! luhn_check (id_digits (country, payload))"
proof -
  let ?s = "luhn_sum 2 (id_digits (country, payload))"
  have s: "fold_luhn (code_values country payload) 2 0 = int ?s"
    using fold_luhn_nat [of 2 "id_digits (country, payload)" 0] code_values_nat [OF assms] by simp
  have "nat ((32 - int ?s mod 32) mod 32) = luhn_check (id_digits (country, payload))"
    unfolding luhn_check_def by (simp add: nat_eq_iff of_nat_mod of_nat_diff)
  then show ?thesis by (simp add: checkCharacter_def s Let_def)
qed

interpretation user_id: luhn_coded id_coded id_digits "\<lambda>x. checkCharacter (fst x) (snd x)"
proof
  fix x assume x: "id_coded x"
  show "\<forall>v \<in> set (id_digits x). v < 32"
    using x upper_codes VALUE_less by (fastforce simp: id_coded_def id_digits_def split: option.splits)
  show "checkCharacter (fst x) (snd x) = crockford ! luhn_check (id_digits x)"
    using x check_is_luhn [of "fst x" "snd x"] by (simp add: id_coded_def)
qed

section \<open>What the check character catches\<close>

text \<open>\<open>issued cc pl\<close>: two capital letters and a payload in the alphabet, as the chain writes them.\<close>

definition issued :: "string \<Rightarrow> string \<Rightarrow> bool" where
  "issued cc pl \<longleftrightarrow> length cc = 2 \<and> set cc \<subseteq> set upper_alphabet \<and> set pl \<subseteq> set crockford"

lemma upper_normal: "\<forall>c \<in> set upper_alphabet. normal_char c" by code_simp
lemma crockford_normal: "\<forall>c \<in> set crockford. normal_char c \<and> fold_confusable c = c" by code_simp

lemma crockford_value: "c \<in> set crockford \<Longrightarrow> VALUE c = index_of c crockford"
proof -
  have "CHR ''I'' \<notin> set crockford" "CHR ''L'' \<notin> set crockford" "CHR ''O'' \<notin> set crockford" by code_simp+
  then show "c \<in> set crockford \<Longrightarrow> VALUE c = index_of c crockford" by (auto simp: VALUE_def)
qed

lemma issued_normal: "issued cc (pl @ [k]) \<Longrightarrow> normal_id (cc @ pl @ [k])"
  unfolding issued_def normal_id_def using upper_normal crockford_normal by (auto simp: subset_iff)

lemma checked_symbol: "id_coded (cc, pl) \<Longrightarrow> checkCharacter cc pl \<in> set crockford"
  using user_id.check_symbol [of "(cc, pl)"] by (simp add: nth_mem)

text \<open>On issued spellings \<open>validUserId\<close> is: issuable country, payload length, check character.\<close>

lemma valid_iff:
  assumes i: "issued cc pl" and k: "k \<in> set crockford"
  shows "validUserId (cc @ pl @ [k]) \<longleftrightarrow>
    issuableCountry cc \<and> 8 \<le> length pl \<and> length pl \<le> 16 \<and> k = checkCharacter cc pl"
proof -
  have "issued cc (pl @ [k])" using i k by (simp add: issued_def)
  then have n: "normaliseUserId (cc @ pl @ [k]) = cc @ pl @ [k]"
    by (intro normalise_normal_id issued_normal)
  have b: "butlast (cc @ pl @ [k]) = cc @ pl" using butlast_append [of "cc @ pl" "[k]"] by simp
  have "\<not> list_ex (\<lambda>c. VALUE c = None) pl"
    using i crockford_value unfolding issued_def list_ex_iff
    by (metis index_of_None_iff subset_iff)
  then show ?thesis
    using i by (auto simp: validUserId_def Let_def n b COUNTRY_LENGTH_def MIN_PAYLOAD_def MAX_PAYLOAD_def issued_def)
qed

definition symbol_value :: "char \<Rightarrow> nat" where
  "symbol_value c = (case VALUE c of None \<Rightarrow> 0 | Some v \<Rightarrow> v)"

lemma symbol_value_inj:
  "a \<in> set crockford \<Longrightarrow> b \<in> set crockford \<Longrightarrow> symbol_value a = symbol_value b \<Longrightarrow> a = b"
  by (metis crockford_value symbol_value_def index_of_ex option.case(2))

lemma symbol_extremes:
  assumes "a \<in> set crockford"
  shows "symbol_value a = 0 \<longleftrightarrow> a = CHR ''0''" and "symbol_value a = 31 \<longleftrightarrow> a = CHR ''Z''"
proof -
  have "symbol_value CHR ''0'' = 0" "symbol_value CHR ''Z'' = 31" "CHR ''0'' \<in> set crockford" "CHR ''Z'' \<in> set crockford"
    by code_simp+
  then show "symbol_value a = 0 \<longleftrightarrow> a = CHR ''0''" and "symbol_value a = 31 \<longleftrightarrow> a = CHR ''Z''"
    using assms symbol_value_inj by metis+
qed

lemma letter_code_inj: "a \<in> set upper_alphabet \<Longrightarrow> b \<in> set upper_alphabet \<Longrightarrow> of_char a - 65 = (of_char b - 65 :: nat) \<Longrightarrow> a = b"
proof -
  assume a: "a \<in> set upper_alphabet" "b \<in> set upper_alphabet" and e: "of_char a - 65 = (of_char b - 65 :: nat)"
  have "65 \<le> (of_char a :: nat)" "65 \<le> (of_char b :: nat)" using a upper_codes by blast+
  then have "(of_char a :: nat) = of_char b" using e by linarith
  then show "a = b" by simp
qed

lemma id_digits_payload:
  "id_digits (cc, p @ q) = map symbol_value (rev q) @ map symbol_value (rev p) @ map (\<lambda>c. of_char c - 65) (rev cc)"
  by (simp add: id_digits_def symbol_value_def)

text \<open>
  C29. One wrong symbol in a valid identifier, in the payload or in either letter of the country,
  makes it invalid.
\<close>

theorem one_wrong_symbol_refused:
  assumes "issued cc (p @ a # q)" and "issued cc' (p @ b # q)" and "k \<in> set crockford"
    and "(cc = cc' \<and> a \<noteq> b) \<or> (a = b \<and> (cc ! 0 = cc' ! 0) \<noteq> (cc ! 1 = cc' ! 1))"
    and "validUserId (cc @ (p @ a # q) @ [k])"
  shows "\<not> validUserId (cc' @ (p @ b # q) @ [k])"
proof -
  let ?x = "(cc, p @ a # q)" and ?y = "(cc', p @ b # q)"
  have coded: "id_coded ?x" "id_coded ?y" using assms(1,2) by (simp_all add: issued_def id_coded_def)
  have up: "set cc \<subseteq> set upper_alphabet" "set cc' \<subseteq> set upper_alphabet" using assms(1,2) by (simp_all add: issued_def)
  obtain x u where cc: "cc = [x, u]" using assms(1) by (auto simp: issued_def numeral_2_eq_2 length_Suc_conv)
  obtain y v where cc': "cc' = [y, v]" using assms(2) by (auto simp: issued_def numeral_2_eq_2 length_Suc_conv)
  consider "cc = cc'" "a \<noteq> b" | "a = b" "x = y" "u \<noteq> v" | "a = b" "x \<noteq> y" "u = v"
    using assms(4) by (auto simp: cc cc')
  then have "checkCharacter cc (p @ a # q) \<noteq> checkCharacter cc' (p @ b # q)"
  proof cases
    case 1
    have "a \<in> set crockford" "b \<in> set crockford" using assms(1,2) by (simp_all add: issued_def)
    then have "symbol_value a \<noteq> symbol_value b" using 1 symbol_value_inj by blast
    then show ?thesis
      using user_id.substitution_detected [OF coded, of "map symbol_value (rev q)" "symbol_value a"
          "map symbol_value (rev p) @ map (\<lambda>c. of_char c - 65) (rev cc)" "symbol_value b"] 1
      by (simp add: id_digits_payload [of _ p])
  next
    case 2
    then have "(of_char u - 65 :: nat) \<noteq> of_char v - 65" using up letter_code_inj by (auto simp: cc cc')
    then show ?thesis
      using user_id.substitution_detected [OF coded, of "map symbol_value (rev (p @ a # q))" "of_char u - 65"
          "[of_char x - 65]" "of_char v - 65"] 2
      by (simp add: id_digits_payload [of _ p] cc cc')
  next
    case 3
    then have "(of_char x - 65 :: nat) \<noteq> of_char y - 65" using up letter_code_inj by (auto simp: cc cc')
    then show ?thesis
      using user_id.substitution_detected [OF coded, of "map symbol_value (rev (p @ a # q)) @ [of_char u - 65]" "of_char x - 65"
          "[]" "of_char y - 65"] 3
      by (simp add: id_digits_payload [of _ p] cc cc')
  qed
  then show ?thesis using assms valid_iff [of cc "p @ a # q" k] valid_iff [of cc' "p @ b # q" k] by simp
qed

lemma one_wrong_symbol_refused_witness: "\<not> validUserId (''NG'' @ (''K3M'' @ CHR ''8'' # ''7QRT'') @ [CHR ''5''])"
proof (rule one_wrong_symbol_refused [of "''NG''" "''K3M''" "CHR ''9''" "''7QRT''"])
  show "issued ''NG'' (''K3M'' @ CHR ''9'' # ''7QRT'')" "issued ''NG'' (''K3M'' @ CHR ''8'' # ''7QRT'')"
    "CHR ''5'' \<in> set crockford" "validUserId (''NG'' @ (''K3M'' @ CHR ''9'' # ''7QRT'') @ [CHR ''5''])"
    by code_simp+
qed simp

text \<open>
  Two neighbouring payload symbols of a valid identifier exchanged: the result is invalid,
  with the one exception of \<open>0\<close> next to \<open>Z\<close>, which the check character never sees.
\<close>

theorem swapped_symbols_refused:
  assumes "issued cc (p @ a # b # q)" and "k \<in> set crockford" and "a \<noteq> b"
    and "validUserId (cc @ (p @ a # b # q) @ [k])"
  shows "validUserId (cc @ (p @ b # a # q) @ [k]) \<longleftrightarrow> {a, b} = {CHR ''0'', CHR ''Z''}"
proof -
  have i: "issued cc (p @ b # a # q)" using assms(1) by (simp add: issued_def insert_commute)
  let ?x = "(cc, p @ a # b # q)" and ?y = "(cc, p @ b # a # q)"
  have coded: "id_coded ?x" "id_coded ?y" using assms(1) by (simp_all add: issued_def id_coded_def)
  have ab: "a \<in> set crockford" "b \<in> set crockford" using assms(1) by (simp_all add: issued_def)
  then have ne: "symbol_value a \<noteq> symbol_value b" using assms(3) symbol_value_inj by blast
  have "{symbol_value a, symbol_value b} = {0, 31} \<longleftrightarrow> {a, b} = {CHR ''0'', CHR ''Z''}"
    using symbol_extremes [OF ab(1)] symbol_extremes [OF ab(2)] by (auto simp: doubleton_eq_iff)
  then have "checkCharacter cc (p @ a # b # q) = checkCharacter cc (p @ b # a # q) \<longleftrightarrow> {a, b} = {CHR ''0'', CHR ''Z''}"
    using user_id.transposition_detected [OF coded, of "map symbol_value (rev q)" "symbol_value b" "symbol_value a"
        "map symbol_value (rev p) @ map (\<lambda>c. of_char c - 65) (rev cc)"] ne
    by (simp add: id_digits_payload [of _ p] insert_commute)
  then show ?thesis using assms i valid_iff [of cc "p @ a # b # q" k] valid_iff [of cc "p @ b # a # q" k] by auto
qed

lemma swapped_symbols_refused_witness:
  "\<not> validUserId (''NG'' @ (''K3'' @ CHR ''9'' # CHR ''M'' # ''7QRT'') @ [CHR ''5'']) \<and>
   validUserId (''NG'' @ (''K3M9'' @ CHR ''Z'' # CHR ''0'' # ''RT'') @ [CHR ''W''])"
proof
  have "issued ''NG'' (''K3'' @ CHR ''M'' # CHR ''9'' # ''7QRT'')"
    "CHR ''5'' \<in> set crockford" "validUserId (''NG'' @ (''K3'' @ CHR ''M'' # CHR ''9'' # ''7QRT'') @ [CHR ''5''])"
    by code_simp+
  then show "\<not> validUserId (''NG'' @ (''K3'' @ CHR ''9'' # CHR ''M'' # ''7QRT'') @ [CHR ''5''])"
    using swapped_symbols_refused [of "''NG''" "''K3''" "CHR ''M''" "CHR ''9''" "''7QRT''" "CHR ''5''"]
    by (simp add: doubleton_eq_iff)
  have "issued ''NG'' (''K3M9'' @ CHR ''0'' # CHR ''Z'' # ''RT'')"
    "CHR ''W'' \<in> set crockford" "validUserId (''NG'' @ (''K3M9'' @ CHR ''0'' # CHR ''Z'' # ''RT'') @ [CHR ''W''])"
    by code_simp+
  then show "validUserId (''NG'' @ (''K3M9'' @ CHR ''Z'' # CHR ''0'' # ''RT'') @ [CHR ''W''])"
    using swapped_symbols_refused [of "''NG''" "''K3M9''" "CHR ''0''" "CHR ''Z''" "''RT''" "CHR ''W''"]
    by simp
qed

end
