(* ===== verification/Base32.thy ===== *)
theory Base32 imports Luhn "HOL-Library.Word" begin

unbundle bit_operations_syntax

text \<open>
  Crockford base 32 of the payment codes (\<open>toBase32\<close>, \<open>fromBase32\<close> of \<open>app/src/sealed.ts\<close>). The
  accumulator of both loops is a JavaScript number under \<open><<\<close>, \<open>>>>\<close>, \<open>|\<close> and \<open>&\<close>, so a 32-bit word
  that is never cleared and overflows; the bits still owed are always its low ones.
\<close>

type_synonym byte = "8 word"

section \<open>The two loops\<close>

definition symbol :: "32 word \<Rightarrow> char" where
  "symbol v = crockford ! unat (v AND 31)"

text \<open>\<open>emit v n\<close>: the inner \<open>while (bits >= 5)\<close>, giving the symbols and the bits left over.\<close>

fun emit :: "32 word \<Rightarrow> nat \<Rightarrow> string \<times> nat" where
  "emit v n = (if 5 \<le> n then (let (s, r) = emit v (n - 5) in (symbol (drop_bit (n - 5) v) # s, r)) else ([], n))"

declare emit.simps [simp del, evals]

fun encode_from :: "byte list \<Rightarrow> 32 word \<Rightarrow> nat \<Rightarrow> string" where
  "encode_from [] v n = (if 0 < n then [symbol (push_bit (5 - n) v)] else [])"
| "encode_from (b # bs) v n =
     (let v = push_bit 8 v OR ucast b; (s, r) = emit v (n + 8) in s @ encode_from bs v r)"

definition toBase32 :: "byte list \<Rightarrow> string" where
  "toBase32 bytes = encode_from bytes 0 0"

fun decode_from :: "string \<Rightarrow> 32 word \<Rightarrow> nat \<Rightarrow> byte list option" where
  "decode_from [] v n = Some []"
| "decode_from (c # s) v n =
     (case index_of c crockford of
        None \<Rightarrow> None
      | Some i \<Rightarrow>
          let v = push_bit 5 v OR of_nat i; n = n + 5 in
          if 8 \<le> n then map_option ((#) (ucast (drop_bit (n - 8) v AND 0xff))) (decode_from s v (n - 8))
          else decode_from s v n)"

definition fromBase32 :: "string \<Rightarrow> byte list option" where
  "fromBase32 text = decode_from text 0 0"

section \<open>Low bits, most significant first\<close>

definition low_bits :: "nat \<Rightarrow> 'a::len word \<Rightarrow> bool list" where
  "low_bits n v = map (bit v) (rev [0..<n])"

lemma length_low_bits [simp]: "length (low_bits n v) = n" by (simp add: low_bits_def)
lemma low_bits_0 [simp]: "low_bits 0 v = []" by (simp add: low_bits_def)

lemma rev_upt_add: "rev [0..<n + k] = map (\<lambda>i. i + k) (rev [0..<n]) @ rev [0..<k]"
proof -
  have "[0..<k + n] = [0..<k] @ [k..<k + n]" by (rule upt_add_eq_append) simp
  moreover have "[k..<k + n] = map (\<lambda>i. i + k) [0..<n]" by (simp add: map_add_upt add.commute)
  ultimately have "rev [0..<k + n] = rev (map (\<lambda>i. i + k) [0..<n]) @ rev [0..<k]" by simp
  then show ?thesis by (simp only: rev_map add.commute [of k n])
qed

lemma low_bits_eqI: "(\<And>i. i < n \<Longrightarrow> bit v i = bit w i) \<Longrightarrow> low_bits n v = low_bits n w"
  by (simp add: low_bits_def)

lemma low_bits_split: "low_bits (n + k) v = low_bits n (drop_bit k v) @ low_bits k v"
  unfolding low_bits_def rev_upt_add by (simp add: bit_drop_bit_eq comp_def add.commute)

lemma low_bits_shift:
  fixes u v :: "32 word"
  assumes "n + k \<le> 32" and "\<And>i. k \<le> i \<Longrightarrow> \<not> bit u i"
  shows "low_bits (n + k) (push_bit k v OR u) = low_bits n v @ low_bits k u"
proof -
  have "drop_bit k (push_bit k v OR u) = drop_bit k (push_bit k v)" 
    by (rule bit_word_eqI) (simp add: bit_simps assms(2))
  moreover have "low_bits n (drop_bit k (push_bit k v)) = low_bits n v"
    using assms(1) by (intro low_bits_eqI) (simp add: bit_simps)
  moreover have "low_bits k (push_bit k v OR u) = low_bits k u"
    by (intro low_bits_eqI) (simp add: bit_simps)
  ultimately show ?thesis by (simp add: low_bits_split)
qed

lemma and_31: "v AND 31 = take_bit 5 (v :: 32 word)"
  by (simp add: take_bit_eq_mask mask_eq_exp_minus_1)

lemma and_255: "v AND 0xff = take_bit 8 (v :: 32 word)"
  by (simp add: take_bit_eq_mask mask_eq_exp_minus_1)

lemma low_bits_ucast: "low_bits 8 (ucast (b :: byte) :: 32 word) = low_bits 8 b"
  by (simp add: low_bits_def bit_simps)

lemma high_ucast: "8 \<le> i \<Longrightarrow> \<not> bit (ucast (b :: byte) :: 32 word) i"
  by (auto simp: bit_simps dest: bit_imp_le_length)

lemma low_bits_mask5: "low_bits 5 (v AND 31 :: 32 word) = low_bits 5 v"
  unfolding and_31 by (intro low_bits_eqI) (simp add: bit_simps)

lemma low_bits_byte: "low_bits 8 (ucast (v AND 0xff :: 32 word) :: byte) = low_bits 8 v"
  unfolding and_255 by (simp add: low_bits_def bit_simps)

lemma low_bits_8_inj: "low_bits 8 (a :: byte) = low_bits 8 b \<Longrightarrow> a = b"
proof -
  assume "low_bits 8 a = low_bits 8 b"
  then have "\<forall>i \<in> set (rev [0..<8]). bit a i = bit b i" unfolding low_bits_def map_eq_conv .
  then show "a = b" by (intro bit_word_eqI) simp
qed

lemma bytes_inj: "concat (map (low_bits 8) (r :: byte list)) = concat (map (low_bits 8) s) \<Longrightarrow> length r = length s \<Longrightarrow> r = s"
proof (induction r arbitrary: s)
  case (Cons a r)
  then obtain b t where s: "s = b # t" by (cases s) auto
  then show ?case using Cons low_bits_8_inj by (auto simp: append_eq_append_conv)
qed simp

lemma length_bytes [simp]: "length (concat (map (low_bits 8) (bs :: byte list))) = 8 * length bs"
  by (induction bs) auto

text \<open>The five bits a symbol stands for.\<close>

definition symbol_bits :: "char \<Rightarrow> bool list" where
  "symbol_bits c = low_bits 5 (of_nat (case index_of c crockford of None \<Rightarrow> 0 | Some i \<Rightarrow> i) :: 32 word)"

lemma length_symbol_bits [simp]: "length (symbol_bits c) = 5" by (simp add: symbol_bits_def)

lemma unat_and_31: "unat (v AND 31 :: 32 word) < 32"
  unfolding and_31 using take_bit_nat_less_exp [of 5 "unat v"] by (simp add: unsigned_take_bit_eq)

lemma symbol_index: "index_of (symbol v) crockford = Some (unat (v AND 31))"
  unfolding symbol_def by (rule index_of_nth) (simp_all add: crockford_distinct unat_and_31)

lemma symbol_in [simp]: "symbol v \<in> set crockford"
  unfolding symbol_def by (simp add: nth_mem unat_and_31)

lemma symbol_bits_symbol [simp]: "symbol_bits (symbol v) = low_bits 5 v"
  by (simp add: symbol_bits_def symbol_index low_bits_mask5)

section \<open>What the loops write and read\<close>

abbreviation text_bits :: "string \<Rightarrow> bool list" where
  "text_bits s \<equiv> concat (map symbol_bits s)"

abbreviation byte_bits :: "byte list \<Rightarrow> bool list" where
  "byte_bits bs \<equiv> concat (map (low_bits 8) bs)"

lemma emit_bits:
  "text_bits (fst (emit v n)) @ low_bits (snd (emit v n)) v = low_bits n v \<and> snd (emit v n) < 5
   \<and> set (fst (emit v n)) \<subseteq> set crockford"
proof (induction n rule: less_induct)
  case (less n)
  show ?case
  proof (cases "5 \<le> n")
    case True
    have "low_bits n v = low_bits 5 (drop_bit (n - 5) v) @ low_bits (n - 5) v"
      using low_bits_split [of 5 "n - 5" v] True by simp
    moreover obtain s r where "emit v (n - 5) = (s, r)" by (cases "emit v (n - 5)")
    ultimately show ?thesis
      using less [of "n - 5"] True emit.simps [of v n] by simp
  qed (subst (1 2 3 4) emit.simps, simp)
qed

lemma encode_bits:
  "n < 5 \<Longrightarrow> \<exists>pad. length pad < 5 \<and> text_bits (encode_from bs v n) = low_bits n v @ byte_bits bs @ pad"
proof (induction bs arbitrary: v n)
  case Nil
  show ?case
  proof (cases "n = 0")
    case False
    have "low_bits 5 (push_bit (5 - n) v OR 0) = low_bits n v @ low_bits (5 - n) (0 :: 32 word)"
      using low_bits_shift [of n "5 - n" 0 v] Nil by simp
    then show ?thesis using False by (intro exI [of _ "low_bits (5 - n) (0 :: 32 word)"]) simp
  qed (intro exI [of _ "[]"], simp)
next
  case (Cons b bs)
  let ?v = "push_bit 8 v OR ucast b"
  obtain s r where e: "emit ?v (n + 8) = (s, r)" by (cases "emit ?v (n + 8)")
  have w: "low_bits (n + 8) ?v = low_bits n v @ low_bits 8 b"
    using low_bits_shift [of n 8 "ucast b" v] Cons.prems low_bits_ucast [of b] high_ucast [of _ b] by simp
  have "text_bits s @ low_bits r ?v = low_bits n v @ low_bits 8 b" "r < 5"
    using emit_bits [of ?v "n + 8"] e w by simp_all
  moreover obtain pad where "length pad < 5" "text_bits (encode_from bs ?v r) = low_bits r ?v @ byte_bits bs @ pad"
    using Cons.IH [OF \<open>r < 5\<close>] by blast
  ultimately show ?case using e by (intro exI [of _ pad]) (simp flip: append_assoc)
qed

lemma encode_symbols: "set (encode_from bs v n) \<subseteq> set crockford"
proof (induction bs arbitrary: v n)
  case (Cons b bs)
  obtain s r where "emit (push_bit 8 v OR ucast b) (n + 8) = (s, r)"
    by (cases "emit (push_bit 8 v OR ucast b) (n + 8)")
  then show ?case using Cons emit_bits [of "push_bit 8 v OR ucast b" "n + 8"] by simp
qed auto

lemma toBase32_symbols: "set (toBase32 bs) \<subseteq> set crockford"
  by (simp add: toBase32_def encode_symbols)

lemma low_bits_symbol:
  fixes v :: "32 word"
  assumes "index_of c crockford = Some i" and "n < 8"
  shows "low_bits (n + 5) (push_bit 5 v OR of_nat i) = low_bits n v @ symbol_bits c"
proof -
  have "i < 32" using index_of_SomeD [OF assms(1)] by simp
  then have "take_bit 5 i = i" by (simp add: take_bit_nat_eq_self)
  then have "(of_nat i :: 32 word) = take_bit 5 (of_nat i)" by (simp add: take_bit_of_nat)
  then have "\<not> bit (of_nat i :: 32 word) j" if "5 \<le> j" for j
    using that by (metis bit_take_bit_iff not_less)
  then show ?thesis
    using low_bits_shift [of n 5 "of_nat i" v] assms by (simp add: symbol_bits_def)
qed

lemma decode_bits:
  assumes "set s \<subseteq> set crockford" and "n < 8"
  shows "\<exists>r. decode_from s v n = Some r \<and>
    byte_bits r = take (8 * length r) (low_bits n v @ text_bits s) \<and>
    8 * length r \<le> n + 5 * length s \<and> n + 5 * length s < 8 * length r + 8"
  using assms
proof (induction s arbitrary: v n)
  case (Cons c s)
  then obtain i where i: "index_of c crockford = Some i" using index_of_ex [of c crockford] by auto
  let ?v = "push_bit 5 v OR of_nat i"
  have w: "low_bits (n + 5) ?v = low_bits n v @ symbol_bits c"
    using i Cons.prems by (intro low_bits_symbol) auto
  have s: "set s \<subseteq> set crockford" using Cons.prems by simp
  show ?case
  proof (cases "8 \<le> n + 5")
    case True
    have lt: "n + 5 - 8 < 8" using Cons.prems(2) by linarith
    let ?b = "ucast (drop_bit (n + 5 - 8) ?v AND 0xff) :: byte"
    obtain r where r: "decode_from s ?v (n + 5 - 8) = Some r"
      "byte_bits r = take (8 * length r) (low_bits (n + 5 - 8) ?v @ text_bits s)"
      "8 * length r \<le> n + 5 - 8 + 5 * length s" "n + 5 - 8 + 5 * length s < 8 * length r + 8"
      using Cons.IH [OF s lt, of ?v] by blast
    have "low_bits n v @ symbol_bits c = low_bits 8 ?b @ low_bits (n + 5 - 8) ?v"
    proof -
      have "8 + (n + 5 - 8) = n + 5" using True by simp
      then show ?thesis using low_bits_split [of 8 "n + 5 - 8" ?v] w by (simp only: low_bits_byte)
    qed
    then have "byte_bits (?b # r) = take (8 * length (?b # r)) (low_bits n v @ text_bits (c # s))"
      using r(2) by (simp flip: append_assoc)
    moreover have "decode_from (c # s) v n = Some (?b # r)" using i True r(1) by (simp add: Let_def)
    ultimately show ?thesis using r(3,4) True by (intro exI [of _ "?b # r"]) auto
  next
    case False
    then obtain r where r: "decode_from s ?v (n + 5) = Some r"
      "byte_bits r = take (8 * length r) (low_bits (n + 5) ?v @ text_bits s)"
      "8 * length r \<le> n + 5 + 5 * length s" "n + 5 + 5 * length s < 8 * length r + 8"
      using Cons.IH [OF s, of "n + 5" ?v] by auto
    then show ?thesis using i False w by (intro exI [of _ r]) (simp add: Let_def)
  qed
qed simp

lemma length_text_bits [simp]: "length (text_bits s) = 5 * length s"
  by (induction s) auto

lemma decode_encode: "fromBase32 (toBase32 bs) = Some bs"
proof -
  let ?s = "toBase32 bs"
  obtain pad where pad: "length pad < 5" "text_bits ?s = byte_bits bs @ pad"
    using encode_bits [of 0 bs 0] by (auto simp: toBase32_def)
  obtain r where r: "fromBase32 ?s = Some r" "byte_bits r = take (8 * length r) (text_bits ?s)"
    "8 * length r \<le> 5 * length ?s" "5 * length ?s < 8 * length r + 8"
    using decode_bits [OF toBase32_symbols, of 0 bs 0] by (auto simp: fromBase32_def)
  have "5 * length ?s = 8 * length bs + length pad"
    using arg_cong [OF pad(2), of length] by simp
  then have "length r = length bs" using r(3,4) pad(1) by linarith
  then have "byte_bits r = byte_bits bs" using r(2) pad(2) by simp
  then show ?thesis using r(1) bytes_inj \<open>length r = length bs\<close> by metis
qed

section \<open>The interface\<close>

text \<open>
  A text codec for byte strings: what is written reads back, in the symbols of the spoken codes.
  \<open>carried\<close> is what the payment codes are to their callers: a byte string inside a code.
\<close>

locale byte_codec =
  fixes to_text :: "byte list \<Rightarrow> string" and of_text :: "string \<Rightarrow> byte list option"
  assumes of_to_text: "of_text (to_text bs) = Some bs"
    and text_symbols: "set (to_text bs) \<subseteq> set crockford"
begin

lemma to_text_inj: "to_text a = to_text b \<longleftrightarrow> a = b"
  by (metis option.inject of_to_text)

end

interpretation b32: byte_codec toBase32 fromBase32
  by unfold_locales (simp_all add: decode_encode toBase32_symbols)

text \<open>
  A byte string of any length survives base 32, although the accumulator of both loops is a
  32-bit integer that overflows after four bytes; only alphabet symbols are written.
\<close>

theorem base32_round_trip:
  "fromBase32 (toBase32 bs) = Some bs \<and> set (toBase32 bs) \<subseteq> set crockford \<and>
   (toBase32 bs = toBase32 cs \<longleftrightarrow> bs = cs)"
  using b32.of_to_text b32.text_symbols b32.to_text_inj by blast

end
