(* ===== verification/Json.thy ===== *)
theory Json imports JsNumber begin

text \<open>
  \<open>JSON.parse\<close> and \<open>JSON.stringify\<close>. An object is its list of members, a repeated key keeping its
  first place and its last value; keys are in the order written (JavaScript moves keys that are
  array indices to the front, which nothing here depends on).
\<close>

datatype json = JNull | JBool bool | JNum jsnum | JStr string | JArr "json list" | JObj "(string \<times> json) list"

abbreviation DQ :: char where "DQ \<equiv> CHR 0x22"
abbreviation BS :: char where "BS \<equiv> CHR 0x5C"

section \<open>Writing\<close>

definition hex_char :: "nat \<Rightarrow> char" where
  "hex_char d = ''0123456789abcdef'' ! d"

definition escape_char :: "char \<Rightarrow> string" where
  "escape_char c =
    (if c = DQ then [BS, DQ] else if c = BS then [BS, BS]
     else if c = CHR 0x08 then [BS, CHR ''b''] else if c = CHR 0x0C then [BS, CHR ''f'']
     else if c = CHR 0x0A then [BS, CHR ''n''] else if c = CHR 0x0D then [BS, CHR ''r'']
     else if c = CHR 0x09 then [BS, CHR ''t'']
     else if of_char c < (32 :: nat) then [BS] @ ''u00'' @ [hex_char (of_char c div 16), hex_char (of_char c mod 16)]
     else [c])"

definition quote :: "string \<Rightarrow> string" where
  "quote s = [DQ] @ concat (map escape_char s) @ [DQ]"

fun json_stringify :: "json \<Rightarrow> string" where
  "json_stringify JNull = ''null''"
| "json_stringify (JBool b) = (if b then ''true'' else ''false'')"
| "json_stringify (JNum x) = (if num_is_finite x then num_string x else ''null'')"
| "json_stringify (JStr s) = quote s"
| "json_stringify (JArr xs) = ''['' @ join_with '','' (map json_stringify xs) @ '']''"
| "json_stringify (JObj ms) = ''{'' @ join_with '','' (map (\<lambda>(k, v). quote k @ '':'' @ json_stringify v) ms) @ ''}''"

section \<open>Reading\<close>

fun skip_ws :: "string \<Rightarrow> string" where
  "skip_ws [] = []"
| "skip_ws (c # s) = (if c \<in> {CHR '' '', CHR 0x09, CHR 0x0A, CHR 0x0D} then skip_ws s else c # s)"

fun hex_val :: "nat \<Rightarrow> string \<Rightarrow> nat option" where
  "hex_val a [] = Some a"
| "hex_val a (c # s) = (case radix_val 16 c of None \<Rightarrow> None | Some d \<Rightarrow> hex_val (16 * a + d) s)"

definition hex4 :: "string \<Rightarrow> nat option" where
  "hex4 s = (if length s < 4 then None else hex_val 0 (take 4 s))"

text \<open>The UTF-8 bytes of a code point; a lone surrogate is written the same way.\<close>

definition utf8 :: "nat \<Rightarrow> string" where
  "utf8 n =
    (if n < 128 then [char_of n]
     else if n < 2048 then [char_of (192 + n div 64), char_of (128 + n mod 64)]
     else if n < 65536 then [char_of (224 + n div 4096), char_of (128 + n div 64 mod 64), char_of (128 + n mod 64)]
     else [char_of (240 + n div 262144), char_of (128 + n div 4096 mod 64),
           char_of (128 + n div 64 mod 64), char_of (128 + n mod 64)])"

definition simple_escape :: "char \<Rightarrow> char option" where
  "simple_escape e =
    (if e = DQ \<or> e = BS \<or> e = CHR ''/'' then Some e
     else if e = CHR ''b'' then Some (CHR 0x08) else if e = CHR ''f'' then Some (CHR 0x0C)
     else if e = CHR ''n'' then Some (CHR 0x0A) else if e = CHR ''r'' then Some (CHR 0x0D)
     else if e = CHR ''t'' then Some (CHR 0x09) else None)"

text \<open>\<open>low_surrogate s\<close>: the second half of a pair, when \<open>s\<close> starts with its escape.\<close>

definition low_surrogate :: "string \<Rightarrow> nat option" where
  "low_surrogate s = (case s of
       a # b # r \<Rightarrow> if a = BS \<and> b = CHR ''u'' then
           (case hex4 r of Some n \<Rightarrow> if 0xDC00 \<le> n \<and> n < 0xE000 then Some n else None | None \<Rightarrow> None) else None
     | _ \<Rightarrow> None)"

fun p_string :: "string \<Rightarrow> (string \<times> string) option" where
  "p_string [] = None"
| "p_string (c # s) =
    (if c = DQ then Some ([], s)
     else if c \<noteq> BS then (if of_char c < (32 :: nat) then None else map_option (apfst ((#) c)) (p_string s))
     else (case s of
       [] \<Rightarrow> None
     | e # t \<Rightarrow>
        if e \<noteq> CHR ''u'' then
          (case simple_escape e of None \<Rightarrow> None | Some x \<Rightarrow> map_option (apfst ((#) x)) (p_string t))
        else (case hex4 t of
            None \<Rightarrow> None
          | Some n \<Rightarrow>
             (case (if 0xD800 \<le> n \<and> n < 0xDC00 then low_surrogate (drop 4 t) else None) of
                Some l \<Rightarrow> map_option (apfst ((@) (utf8 (0x10000 + (n - 0xD800) * 1024 + (l - 0xDC00))))) (p_string (drop 10 t))
              | None \<Rightarrow> map_option (apfst ((@) (utf8 n))) (p_string (drop 4 t))))))"

text \<open>\<open>p_number\<close> cuts the longest number lexeme off: sign, integer part, fraction, exponent.\<close>

definition p_number :: "string \<Rightarrow> (json \<times> string) option" where
  "p_number s =
    (let (sg, s1) = (if starts_with s ''-'' then (''-'', tl s) else ([], s));
         ip = takeWhile is_digit s1; s2 = drop (length ip) s1;
         fp = (if starts_with s2 ''.'' then takeWhile is_digit (tl s2) else []);
         s3 = (if fp = [] then s2 else drop (length fp + 1) s2);
         bad_point = (starts_with s2 ''.'' \<and> fp = []);
         has_e = (starts_with s3 ''e'' \<or> starts_with s3 ''E'');
         es = (if has_e \<and> (starts_with (tl s3) ''-'' \<or> starts_with (tl s3) ''+'') then take 1 (tl s3) else []);
         ed = (if has_e then takeWhile is_digit (drop (1 + length es) s3) else []);
         s4 = (if has_e then drop (1 + length es + length ed) s3 else s3) in
     if ip = [] \<or> (1 < length ip \<and> hd ip = CHR ''0'') \<or> bad_point \<or> (has_e \<and> ed = []) then None
     else Some (JNum (number (take (length s - length s4) s)), s4))"

fun p_value :: "nat \<Rightarrow> string \<Rightarrow> (json \<times> string) option"
  and p_elems :: "nat \<Rightarrow> string \<Rightarrow> (json list \<times> string) option"
  and p_members :: "nat \<Rightarrow> string \<Rightarrow> ((string \<times> json) list \<times> string) option" where
  "p_value 0 s = None"
| "p_value (Suc f) s =
    (case skip_ws s of
       [] \<Rightarrow> None
     | c # r \<Rightarrow>
        if c = CHR ''{'' then
          (if starts_with (skip_ws r) ''}'' then Some (JObj [], tl (skip_ws r))
           else map_option (apfst (\<lambda>ms. JObj (fold (\<lambda>(k, v) m. map_set k v m) ms []))) (p_members f r))
        else if c = CHR ''['' then
          (if starts_with (skip_ws r) '']'' then Some (JArr [], tl (skip_ws r))
           else map_option (apfst JArr) (p_elems f r))
        else if c = DQ then map_option (apfst JStr) (p_string r)
        else if starts_with (c # r) ''null'' then Some (JNull, drop 4 (c # r))
        else if starts_with (c # r) ''true'' then Some (JBool True, drop 4 (c # r))
        else if starts_with (c # r) ''false'' then Some (JBool False, drop 5 (c # r))
        else p_number (c # r))"
| "p_elems 0 s = None"
| "p_elems (Suc f) s =
    (case p_value f s of
       None \<Rightarrow> None
     | Some (v, t) \<Rightarrow>
        (case skip_ws t of
           [] \<Rightarrow> None
         | c # r \<Rightarrow> if c = CHR '','' then map_option (apfst ((#) v)) (p_elems f r)
                   else if c = CHR '']'' then Some ([v], r) else None))"
| "p_members 0 s = None"
| "p_members (Suc f) s =
    (case skip_ws s of
       [] \<Rightarrow> None
     | q # s1 \<Rightarrow>
        if q \<noteq> DQ then None else
        (case p_string s1 of
           None \<Rightarrow> None
         | Some (k, s2) \<Rightarrow>
            if \<not> starts_with (skip_ws s2) '':'' then None else
            (case p_value f (tl (skip_ws s2)) of
               None \<Rightarrow> None
             | Some (v, t) \<Rightarrow>
                (case skip_ws t of
                   [] \<Rightarrow> None
                 | c # r \<Rightarrow> if c = CHR '','' then map_option (apfst ((#) (k, v))) (p_members f r)
                           else if c = CHR ''}'' then Some ([(k, v)], r) else None))))"

text \<open>Every second call consumes a character, so twice the length is always enough.\<close>

definition json_parse :: "string \<Rightarrow> json option" where
  "json_parse s = (case p_value (2 * length s + 2) s of
       None \<Rightarrow> None
     | Some (v, t) \<Rightarrow> if skip_ws t = [] then Some v else None)"

definition member :: "string \<Rightarrow> json \<Rightarrow> json option" where
  "member k j = (case j of JObj ms \<Rightarrow> map_of ms k | _ \<Rightarrow> None)"

section \<open>What is written reads back\<close>

lemma hex_digits: "\<forall>d \<in> set [0..<16]. radix_val 16 (hex_char d) = Some d" by code_simp

lemma escape_read: "p_string (escape_char c @ t) = map_option (apfst ((#) c)) (p_string t)"
proof (cases "c = DQ \<or> c = BS \<or> c = CHR 0x08 \<or> c = CHR 0x0C \<or> c = CHR 0x0A \<or> c = CHR 0x0D \<or> c = CHR 0x09")
  case True
  then show ?thesis by (elim disjE) (simp_all add: escape_char_def simple_escape_def)
next
  case False
  show ?thesis
  proof (cases "of_char c < (32 :: nat)")
    case True
    let ?n = "of_char c :: nat"
    have h: "radix_val 16 (hex_char d) = Some d" if "d < 16" for d using hex_digits that by simp
    have z: "radix_val 16 (CHR ''0'') = Some 0" by code_simp
    have "?n div 16 < 16" "?n mod 16 < 16" using True by auto
    then have "hex4 (''00'' @ [hex_char (?n div 16), hex_char (?n mod 16)] @ t) = Some ?n"
      by (simp add: hex4_def h z)
    moreover have "escape_char c = [BS, CHR ''u''] @ ''00'' @ [hex_char (?n div 16), hex_char (?n mod 16)]"
      using False True by (simp add: escape_char_def)
    moreover have "((@) [c]) = ((#) c)" by (simp add: fun_eq_iff)
    ultimately show ?thesis using True by (simp add: utf8_def)
  next
    case c: False
    then show ?thesis using False by (simp add: escape_char_def)
  qed
qed

definition quoted_body :: "string \<Rightarrow> string" where
  "quoted_body s = concat (map escape_char s) @ [DQ]"

lemma quote_Cons: "quote s = DQ # quoted_body s" by (simp add: quote_def quoted_body_def)

lemma quote_read: "p_string (quoted_body s @ t) = Some (s, t)"
  by (induction s) (simp_all add: quoted_body_def escape_read)

text \<open>Values without numbers, keys distinct: what the clients seal and sign as JSON.\<close>

fun textual :: "json \<Rightarrow> bool" where
  "textual (JNum _) = False"
| "textual (JArr xs) = (\<forall>x \<in> set xs. textual x)"
| "textual (JObj ms) = (distinct (map fst ms) \<and> (\<forall>m \<in> set ms. textual (snd m)))"
| "textual _ = True"

fun nodes :: "json \<Rightarrow> nat" where
  "nodes (JArr xs) = Suc (sum_list (map (\<lambda>x. Suc (nodes x)) xs))"
| "nodes (JObj ms) = Suc (sum_list (map (\<lambda>m. Suc (nodes (snd m))) ms))"
| "nodes _ = 1"

lemma textual_first: "textual j \<Longrightarrow> \<exists>c r. json_stringify j = c # r \<and> c \<in> insert DQ (set ''ntf[{'')"
  by (cases j) (auto simp: quote_Cons)

lemma starts_Cons: "starts_with (c # r) (p # q) \<longleftrightarrow> c = p \<and> starts_with r q"
  by (auto simp: starts_with_def)

lemma starts_Nil [simp]: "starts_with s []" by (simp add: starts_with_def)

lemma skip_ws_textual: "textual j \<Longrightarrow> skip_ws (json_stringify j @ t) = json_stringify j @ t"
  using textual_first [of j] by auto

lemma map_set_build:
  "distinct (map fst m @ map fst ms) \<Longrightarrow> fold (\<lambda>(k, v) m. map_set k v m) ms m = m @ ms"
proof (induction ms arbitrary: m)
  case (Cons e ms)
  obtain k v where e: "e = (k, v)" by (cases e)
  then have "map_set k v m = m @ [(k, v)]" using Cons.prems by (intro map_set_fresh) auto
  then show ?case using Cons e by simp
qed simp

lemma elems_read:
  assumes "\<And>x f t. x \<in> set xs \<Longrightarrow> nodes x < f \<Longrightarrow> p_value f (json_stringify x @ t) = Some (x, t)"
    and "xs \<noteq> []" and "sum_list (map (\<lambda>x. Suc (nodes x)) xs) < f"
  shows "p_elems f (join_with '','' (map json_stringify xs) @ '']'' @ t) = Some (xs, t)"
  using assms
proof (induction xs arbitrary: f)
  case (Cons x xs)
  obtain g where f: "f = Suc g" using Cons.prems(3) by (cases f) auto
  show ?case
  proof (cases "xs = []")
    case True
    then show ?thesis using Cons.prems f by simp
  next
    case False
    then have "p_elems g (join_with '','' (map json_stringify xs) @ '']'' @ t) = Some (xs, t)"
      using Cons f by (intro Cons.IH) auto
    then show ?thesis
      using Cons.prems(1) [of x g] Cons.prems(3) f False by (simp add: join_with_Cons)
  qed
qed simp

abbreviation write_member :: "string \<times> json \<Rightarrow> string" where
  "write_member \<equiv> \<lambda>(k, v). quote k @ '':'' @ json_stringify v"

lemma members_read:
  assumes "\<And>m f t. m \<in> set ms \<Longrightarrow> nodes (snd m) < f \<Longrightarrow> p_value f (json_stringify (snd m) @ t) = Some (snd m, t)"
    and "ms \<noteq> []" and "sum_list (map (\<lambda>m. Suc (nodes (snd m))) ms) < f"
  shows "p_members f (join_with '','' (map write_member ms) @ ''}'' @ t) = Some (ms, t)"
  using assms
proof (induction ms arbitrary: f)
  case (Cons m ms)
  obtain g where f: "f = Suc g" using Cons.prems(3) by (cases f) auto
  obtain k v where m: "m = (k, v)" by (cases m)
  have v: "p_value g (json_stringify v @ u) = Some (v, u)" for u
    using Cons.prems(1) [of m g] Cons.prems(3) f m by simp
  show ?case
  proof (cases "ms = []")
    case True
    then show ?thesis using f m v quote_read [of k] by (simp add: quote_Cons starts_Cons)
  next
    case False
    then have "p_members g (join_with '','' (map write_member ms) @ ''}'' @ t) = Some (ms, t)"
      using Cons f by (intro Cons.IH) auto
    then show ?thesis using f m v quote_read [of k] False by (simp add: quote_Cons starts_Cons join_with_Cons)
  qed
qed simp

lemma value_read: "textual j \<Longrightarrow> nodes j < f \<Longrightarrow> p_value f (json_stringify j @ t) = Some (j, t)"
proof (induction j arbitrary: f t)
  case (JArr xs)
  obtain g where f: "f = Suc g" using JArr.prems(2) by (cases f) auto
  show ?case
  proof (cases xs)
    case Nil
    then show ?thesis using f by (simp add: starts_Cons)
  next
    case (Cons x ys)
    have "p_elems g (join_with '','' (map json_stringify xs) @ '']'' @ t) = Some (xs, t)"
      using JArr f Cons by (intro elems_read) auto
    moreover obtain c r where "json_stringify x = c # r" "c \<in> insert DQ (set ''ntf[{'')"
      using textual_first [of x] JArr.prems Cons by auto
    then have "\<not> starts_with (skip_ws (join_with '','' (map json_stringify xs) @ '']'' @ t)) '']''"
      using Cons by (cases ys) (auto simp: starts_Cons join_with_Cons)
    ultimately show ?thesis using f by simp
  qed
next
  case (JObj ms)
  obtain g where f: "f = Suc g" using JObj.prems(2) by (cases f) auto
  show ?case
  proof (cases ms)
    case Nil
    then show ?thesis using f by (simp add: starts_Cons)
  next
    case (Cons m ys)
    have "p_members g (join_with '','' (map write_member ms) @ ''}'' @ t) = Some (ms, t)"
    proof (rule members_read)
      fix e h u assume e: "e \<in> set ms" "nodes (snd e) < h"
      then show "p_value h (json_stringify (snd e) @ u) = Some (snd e, u)"
        using JObj.IH [of e "snd e" h u] JObj.prems(1) snds.intros [of e] by simp
    qed (use JObj.prems f Cons in auto)
    moreover have "\<not> starts_with (skip_ws (join_with '','' (map write_member ms) @ ''}'' @ t)) ''}''"
      using Cons by (cases m; cases ys) (auto simp: quote_Cons starts_Cons join_with_Cons)
    moreover have "fold (\<lambda>(k, v) m. map_set k v m) ms [] = ms"
      using map_set_build [of "[]" ms] JObj.prems by simp
    ultimately show ?thesis using f by simp
  qed
next
  case (JStr s)
  then show ?case using quote_read [of s t] by (cases f) (simp_all add: quote_Cons)
next
  case JNull
  then show ?case by (cases f) (simp_all add: starts_Cons)
next
  case (JBool b)
  then show ?case by (cases f; cases b) (simp_all add: starts_Cons)
qed simp

lemma length_join: "length (join_with '','' ps) + 1 = sum_list (map (\<lambda>p. Suc (length p)) ps) + (if ps = [] then 1 else 0)"
proof (induction ps)
  case (Cons p ps)
  then show ?case by (cases ps) auto
qed simp

lemma nodes_le: "textual j \<Longrightarrow> nodes j \<le> length (json_stringify j)"
proof (induction j)
  case (JArr xs)
  have "sum_list (map (\<lambda>x. Suc (nodes x)) xs) \<le> sum_list (map (\<lambda>x. Suc (length (json_stringify x))) xs)"
    using JArr by (intro sum_list_mono) auto
  then show ?case using length_join [of "map json_stringify xs"] by (simp add: comp_def split: if_splits)
next
  case (JObj ms)
  have "Suc (nodes (snd m)) \<le> Suc (length (write_member m))" if "m \<in> set ms" for m
    using JObj.IH [of m "snd m"] JObj.prems that by (cases m) (force simp: prod_set_simps)
  then have "sum_list (map (\<lambda>m. Suc (nodes (snd m))) ms) \<le> sum_list (map (\<lambda>m. Suc (length (write_member m))) ms)"
    by (intro sum_list_mono) auto
  then show ?case using length_join [of "map write_member ms"] by (simp add: comp_def split: if_splits)
qed (simp_all add: quote_Cons)

lemma stringify_parse: "textual j \<Longrightarrow> json_parse (json_stringify j) = Some j"
  using value_read [of j "2 * length (json_stringify j) + 2" "[]"] nodes_le [of j] by (simp add: json_parse_def)

end
