(* ===== verification/Request.thy ===== *)
theory Request imports Amount UserId Base32 Json begin

text \<open>
  Payment requests (\<open>app/src/request.ts\<close>), the sealed bytes they travel in (\<open>app/src/sealed.ts\<close>)
  and the signature check (\<open>app/src/signing.ts\<close>). AES-GCM, SHA-256, secp256k1, bech32 and base 64 are
  libraries: arguments of the definitions that use them. A promise is its value.
\<close>

section \<open>URL parameters\<close>

text \<open>
  \<open>URLSearchParams\<close>: the urlencoded serializer and parser of the URL standard, on the UTF-8 bytes.
  Percent escapes that spell invalid UTF-8 are kept as bytes (the platform replaces them).
\<close>

definition form_plain :: "char \<Rightarrow> bool" where
  "form_plain c \<longleftrightarrow> is_digit c \<or> c \<in> set upper_alphabet \<or> c \<in> set lower_alphabet \<or> c \<in> set ''*-._''"

definition hex_upper :: "nat \<Rightarrow> char" where
  "hex_upper d = ''0123456789ABCDEF'' ! d"

definition form_char :: "char \<Rightarrow> string" where
  "form_char c = (if c = CHR '' '' then ''+'' else if form_plain c then [c]
     else [CHR ''%'', hex_upper (of_char c div 16), hex_upper (of_char c mod 16)])"

definition form_text :: "string \<Rightarrow> string" where
  "form_text s = concat (map form_char s)"

type_synonym params = "(string \<times> string) list"

definition params_string :: "params \<Rightarrow> string" where
  "params_string p = join_with ''&'' (map (\<lambda>(k, v). form_text k @ ''='' @ form_text v) p)"

fun form_read :: "string \<Rightarrow> string" where
  "form_read [] = []"
| "form_read (c # s) =
     (if c = CHR ''+'' then CHR '' '' # form_read s
      else if c = CHR ''%'' then
        (case s of
           a # b # t \<Rightarrow> (case (radix_val 16 a, radix_val 16 b) of
               (Some x, Some y) \<Rightarrow> char_of (16 * x + y) # form_read t
             | _ \<Rightarrow> c # form_read s)
         | _ \<Rightarrow> c # form_read s)
      else c # form_read s)"

definition param_of :: "string \<Rightarrow> string \<times> string" where
  "param_of piece = (case index_of CHR ''='' piece of
       None \<Rightarrow> (form_read piece, [])
     | Some i \<Rightarrow> (form_read (take i piece), form_read (drop (i + 1) piece)))"

definition params_of :: "string \<Rightarrow> params" where
  "params_of s = (let s = (if starts_with s ''?'' then tl s else s) in
     map param_of (filter (\<lambda>p. p \<noteq> []) (split_on CHR ''&'' s)))"

definition param_get :: "params \<Rightarrow> string \<Rightarrow> string option" where
  "param_get p k = map_of p k"

section \<open>Requests\<close>

datatype recurrence = Once | Week | Month | Year

fun recurrence_text :: "recurrence \<Rightarrow> string" where
  "recurrence_text Once = ''once''"
| "recurrence_text Week = ''week''"
| "recurrence_text Month = ''month''"
| "recurrence_text Year = ''year''"

record pay_request =
  rq_to :: string
  rq_amount :: "string option"
  rq_currency :: string
  rq_recurrence :: recurrence
  rq_reference :: "string option"
  rq_payee :: "string option"

definition SCHEME :: string where "SCHEME = ''yamale:pay''"

definition truthy :: "string option \<Rightarrow> bool" where
  "truthy x = (case x of None \<Rightarrow> False | Some s \<Rightarrow> s \<noteq> [])"

definition request_params :: "pay_request \<Rightarrow> params" where
  "request_params req =
    [(''to'', rq_to req)] @
    (if truthy (rq_amount req) then [(''amt'', the (rq_amount req))] else []) @
    [(''cur'', rq_currency req)] @
    (if rq_recurrence req \<noteq> Once then [(''every'', recurrence_text (rq_recurrence req))] else []) @
    (if truthy (rq_reference req) then [(''ref'', the (rq_reference req))] else []) @
    (if truthy (rq_payee req) then [(''name'', the (rq_payee req))] else [])"

definition encode :: "pay_request \<Rightarrow> string" where
  "encode req = SCHEME @ ''?'' @ params_string (request_params req)"

definition recurrence_of :: "string option \<Rightarrow> recurrence" where
  "recurrence_of s = (case s of None \<Rightarrow> Once | Some t \<Rightarrow>
     if t = ''week'' then Week else if t = ''month'' then Month else if t = ''year'' then Year else Once)"

definition has_scheme :: "string \<Rightarrow> bool" where
  "has_scheme text = starts_with (to_lower text) SCHEME"

definition text_params :: "string \<Rightarrow> params" where
  "text_params text = params_of (drop (length SCHEME + 1) text)"

definition decode :: "string \<Rightarrow> pay_request option" where
  "decode raw =
    (let text = trim raw in
     if \<not> has_scheme text then None else
     let p = text_params text in
     case (param_get p ''to'', param_get p ''cur'') of
       (Some payee, Some currency) \<Rightarrow>
         if payee = [] \<or> currency = [] then None
         else if \<not> list_ex (\<lambda>c. cu_code c = currency) CURRENCIES then None
         else Some \<lparr>rq_to = payee, rq_amount = param_get p ''amt'', rq_currency = currency,
                    rq_recurrence = recurrence_of (param_get p ''every''),
                    rq_reference = param_get p ''ref'', rq_payee = param_get p ''name''\<rparr>
     | _ \<Rightarrow> None)"

section \<open>The spoken form\<close>

definition utf8_bytes :: "string \<Rightarrow> byte list" where
  "utf8_bytes s = map (\<lambda>c. of_nat (of_char c)) s"

text \<open>\<open>ALPHABET.indexOf(c)\<close>, with -1 for a character outside the alphabet, and \<open>%\<close> on it.\<close>

definition symbol_index_of :: "char \<Rightarrow> int" where
  "symbol_index_of c = (case index_of c crockford of None \<Rightarrow> - 1 | Some i \<Rightarrow> int i)"

definition js_rem :: "int \<Rightarrow> int \<Rightarrow> int" where
  "js_rem a n = (if 0 \<le> a then a mod n else - ((- a) mod n))"

fun request_sum :: "int \<Rightarrow> int \<Rightarrow> string \<Rightarrow> int" where
  "request_sum factor acc [] = acc"
| "request_sum factor acc (c # s) =
    (let addend = factor * symbol_index_of c; addend = addend div 32 + js_rem addend 32 in
     request_sum (if factor = 2 then 1 else 2) (acc + addend) s)"

definition request_check :: "string \<Rightarrow> char" where
  "request_check payload = crockford ! nat (js_rem (32 - js_rem (request_sum 2 0 (rev payload)) 32) 32)"

definition group :: "string \<Rightarrow> string" where
  "group s = join_with ''-'' (chunks4 s)"

text \<open>The packing loop of \<open>shortCode\<close> is that of \<open>toBase32\<close>, written out again.\<close>

definition shortCode :: "pay_request \<Rightarrow> string" where
  "shortCode req = (let out = toBase32 (utf8_bytes (encode req)) in group (out @ [request_check out]))"

definition normalise :: "string \<Rightarrow> string" where
  "normalise code = map fold_confusable (to_upper (filter (\<lambda>c. c \<noteq> CHR ''-'') code))"

definition verifyShortCode :: "string \<Rightarrow> bool" where
  "verifyShortCode code =
    (let clean = normalise code in
     if length clean < 2 then False else request_check (butlast clean) = last clean)"

section \<open>Sealing\<close>

definition MAGIC :: byte where "MAGIC = 0x59"

definition seal :: "(byte list \<Rightarrow> byte list \<Rightarrow> byte list) \<Rightarrow> byte list \<Rightarrow> string \<Rightarrow> byte list" where
  "seal encrypt nonce plaintext = [MAGIC] @ nonce @ encrypt nonce (utf8_bytes plaintext)"

text \<open>\<open>new TextDecoder().decode\<close>: a leading byte order mark is dropped.\<close>

definition text_of :: "byte list \<Rightarrow> string" where
  "text_of bs = (let s = map (\<lambda>b. char_of (unat b)) bs in
     if starts_with s [CHR 0xEF, CHR 0xBB, CHR 0xBF] then drop 3 s else s)"

definition unseal :: "(byte list \<Rightarrow> byte list \<Rightarrow> byte list option) \<Rightarrow> byte list \<Rightarrow> string option" where
  "unseal decrypt bytes =
    (if length bytes < 1 + 12 + 16 \<or> bytes ! 0 \<noteq> MAGIC then None
     else map_option text_of (decrypt (take 12 (drop 1 bytes)) (drop 13 bytes)))"

definition encodeSealed :: "(byte list \<Rightarrow> byte list \<Rightarrow> byte list) \<Rightarrow> byte list \<Rightarrow> pay_request \<Rightarrow> string" where
  "encodeSealed encrypt nonce req = SCHEME @ ''?s='' @ toBase32 (seal encrypt nonce (encode req))"

definition shortCodeSealed :: "(byte list \<Rightarrow> byte list \<Rightarrow> byte list) \<Rightarrow> byte list \<Rightarrow> pay_request \<Rightarrow> string" where
  "shortCodeSealed encrypt nonce req =
    (let body = toBase32 (seal encrypt nonce (encode req)) in group (body @ [request_check body]))"

definition decodeAny :: "(byte list \<Rightarrow> byte list \<Rightarrow> byte list option) \<Rightarrow> string \<Rightarrow> pay_request option" where
  "decodeAny decrypt raw =
    (let text = trim raw;
         opened = (\<lambda>body. case fromBase32 body of None \<Rightarrow> None
            | Some bytes \<Rightarrow> (case unseal decrypt bytes of None \<Rightarrow> None
                | Some pt \<Rightarrow> if pt = [] then None else decode pt)) in
     if \<not> has_scheme text then
       (let clean = normalise text in
        if \<not> verifyShortCode clean then None else opened (butlast clean))
     else
       (case param_get (text_params text) ''s'' of
          None \<Rightarrow> decode text
        | Some sealed \<Rightarrow> if sealed = [] then decode text else opened (normalise sealed)))"

definition describe :: "pay_request \<Rightarrow> string" where
  "describe req =
    (let c = List.find (\<lambda>x. cu_code x = rq_currency req) CURRENCIES;
         amount = (if truthy (rq_amount req)
           then the (rq_amount req) @ '' '' @ (case c of None \<Rightarrow> rq_currency req | Some x \<Rightarrow> cu_code x) else []);
         parts = filter (\<lambda>s. s \<noteq> []) [amount, case rq_reference req of None \<Rightarrow> [] | Some s \<Rightarrow> s] in
     join_with ('' '' @ [CHR 0xC2, CHR 0xB7] @ '' '') parts)"

section \<open>The parameters read back\<close>

lemma hex_upper_val: "\<forall>d \<in> set [0..<16]. radix_val 16 (hex_upper d) = Some d" by code_simp

definition form_safe :: "char \<Rightarrow> bool" where
  "form_safe c \<longleftrightarrow> graphic c \<and> c \<noteq> CHR ''&'' \<and> c \<noteq> CHR ''='' \<and> c \<noteq> CHR ''?''"

lemma form_sets_safe:
  "\<forall>c \<in> set upper_alphabet. form_safe c" "\<forall>c \<in> set lower_alphabet. form_safe c" "\<forall>c \<in> set ''*-._+%''. form_safe c"
  "\<forall>c \<in> set ''0123456789ABCDEF''. form_safe c"
  by code_simp+

lemma digit_safe: "is_digit c \<Longrightarrow> form_safe c"
  by (auto simp: form_safe_def digit_graphic is_digit_def)

lemma hex_upper_safe: "d < 16 \<Longrightarrow> form_safe (hex_upper d)"
  unfolding hex_upper_def by (rule form_sets_safe(4) [rule_format]) (intro nth_mem, simp)

lemma form_plain_safe: "form_plain c \<Longrightarrow> form_safe c"
  using form_sets_safe digit_safe unfolding form_plain_def by fastforce

lemma form_char_safe: "\<forall>x \<in> set (form_char c). form_safe x"
proof -
  have "(of_char c :: nat) div 16 < 16" "(of_char c :: nat) mod 16 < 16"
    using nat_of_char_less_256 [of c] by (auto intro: less_mult_imp_div_less)
  then show ?thesis
    using form_sets_safe(3) form_plain_safe [of c] hex_upper_safe by (auto simp: form_char_def)
qed

lemma form_text_safe: "\<forall>x \<in> set (form_text s). form_safe x"
  using form_char_safe by (auto simp: form_text_def)

lemma form_read_char: "form_read (form_char c @ t) = c # form_read t"
proof -
  have h: "radix_val 16 (hex_upper d) = Some d" if "d < 16" for d using hex_upper_val that by simp
  have n: "(of_char c :: nat) div 16 < 16" "(of_char c :: nat) mod 16 < 16"
    using nat_of_char_less_256 [of c] by (auto intro: less_mult_imp_div_less)
  have "form_plain c \<Longrightarrow> c \<noteq> CHR ''+'' \<and> c \<noteq> CHR ''%''"
  proof -
    have "\<not> form_plain CHR ''+''" "\<not> form_plain CHR ''%''" by code_simp+
    then show "form_plain c \<Longrightarrow> c \<noteq> CHR ''+'' \<and> c \<noteq> CHR ''%''" by auto
  qed
  moreover have "16 * (of_char c div 16) + of_char c mod 16 = (of_char c :: nat)" by simp
  ultimately show ?thesis using n by (simp add: form_char_def h)
qed

lemma form_read_text: "form_read (form_text s) = s"
  by (induction s) (simp_all add: form_text_def form_read_char)

lemma form_read_plain: "\<forall>c \<in> set s. c \<noteq> CHR ''+'' \<and> c \<noteq> CHR ''%'' \<Longrightarrow> form_read s = s"
  by (induction s) auto

lemma form_text_no: "CHR ''&'' \<notin> set (form_text s)" "CHR ''='' \<notin> set (form_text s)" "CHR ''?'' \<notin> set (form_text s)"
  using form_text_safe [of s] by (auto simp: form_safe_def)

lemma index_of_append: "c \<notin> set s \<Longrightarrow> index_of c (s @ c # t) = Some (length s)"
  by (induction s) auto

lemma param_of_pair: "param_of (form_text k @ CHR ''='' # form_text v) = (k, v)"
  by (simp add: param_of_def index_of_append form_text_no form_read_text)

lemma params_read:
  assumes "p \<noteq> []" and "fst (hd p) \<noteq> []"
  shows "params_of (params_string p) = p"
proof -
  let ?ps = "map (\<lambda>(k, v). form_text k @ ''='' @ form_text v) p"
  have "split_on CHR ''&'' (join_with ''&'' ?ps) = ?ps"
    using assms(1) form_text_no by (intro split_join) auto
  moreover have "\<not> starts_with (join_with ''&'' ?ps) ''?''"
  proof -
    obtain k v q where p: "p = (k, v) # q" using assms(1) by (cases p) auto
    then have "form_text k \<noteq> []" using assms(2) form_read_text [of k] by auto
    then obtain c r where c: "form_text k = c # r" by (cases "form_text k") auto
    then have "c \<noteq> CHR ''?''" using form_text_no(3) [of k] by auto
    then show ?thesis using p c by (cases q) (auto simp: starts_with_def join_with_Cons)
  qed
  moreover have "filter (\<lambda>p. p \<noteq> []) ?ps = ?ps" by (auto simp: filter_id_conv)
  moreover have "map param_of ?ps = p" by (induction p) (auto simp: param_of_pair)
  ultimately show ?thesis by (simp add: params_of_def params_string_def)
qed

lemma params_string_safe: "\<forall>c \<in> set (params_string p). graphic c"
proof -
  have j: "set (join_with ''&'' ps) \<subseteq> insert CHR ''&'' (\<Union> (set ` set ps))" for ps
    by (induction "''&''" ps rule: join_with.induct) auto
  have g: "graphic CHR ''&''" "graphic CHR ''=''" by code_simp+
  have "graphic c" if "c \<in> set (form_text k)" for c k using form_text_safe that by (auto simp: form_safe_def)
  then show ?thesis using j g by (fastforce simp: params_string_def)
qed

section \<open>Codes read back\<close>

definition payable :: "pay_request \<Rightarrow> bool" where
  "payable r \<longleftrightarrow> rq_to r \<noteq> [] \<and> list_ex (\<lambda>c. cu_code c = rq_currency r) CURRENCIES \<and>
     rq_amount r \<noteq> Some [] \<and> rq_reference r \<noteq> Some [] \<and> rq_payee r \<noteq> Some []"

lemma codes_ne: "\<forall>c \<in> set CURRENCIES. cu_code c \<noteq> []" by (simp add: CURRENCIES_def)

lemma to_lower_scheme: "to_lower (SCHEME @ s) = SCHEME @ to_lower s"
proof -
  have "to_lower SCHEME = SCHEME" by code_simp
  then show ?thesis by (simp add: to_lower_def)
qed

lemma scheme_graphic: "\<forall>c \<in> set SCHEME. graphic c" by code_simp

lemma scheme_text:
  assumes "\<forall>c \<in> set s. graphic c"
  shows "trim (SCHEME @ s) = SCHEME @ s" and "has_scheme (SCHEME @ s)"
proof -
  show "trim (SCHEME @ s) = SCHEME @ s" using assms scheme_graphic by (intro trim_all_graphic) auto
  show "has_scheme (SCHEME @ s)" by (simp add: has_scheme_def to_lower_scheme)
qed

lemma encode_text:
  shows "trim (encode r) = encode r" and "has_scheme (encode r)" and "text_params (encode r) = request_params r"
proof -
  have g: "\<forall>c \<in> set (''?'' @ params_string (request_params r)). graphic c"
    using params_string_safe by (auto simp: graphic_def)
  show "trim (encode r) = encode r" "has_scheme (encode r)"
    unfolding encode_def using scheme_text [OF g] by simp_all
  have "drop (length SCHEME + 1) (encode r) = params_string (request_params r)" by (simp add: encode_def)
  moreover have "params_of (params_string (request_params r)) = request_params r"
    by (rule params_read) (simp_all add: request_params_def)
  ultimately show "text_params (encode r) = request_params r" by (simp only: text_params_def)
qed

lemma request_fields:
  assumes "rq_amount r \<noteq> Some []" and "rq_reference r \<noteq> Some []" and "rq_payee r \<noteq> Some []"
  shows "map_of (request_params r) ''to'' = Some (rq_to r)" "map_of (request_params r) ''cur'' = Some (rq_currency r)"
    "map_of (request_params r) ''amt'' = rq_amount r" "map_of (request_params r) ''ref'' = rq_reference r"
    "map_of (request_params r) ''name'' = rq_payee r"
    "recurrence_of (map_of (request_params r) ''every'') = rq_recurrence r"
  using assms
  by (cases "rq_amount r"; cases "rq_reference r"; cases "rq_payee r"; cases "rq_recurrence r";
      simp add: request_params_def truthy_def recurrence_of_def)+

lemma decode_encode_request:
  assumes "payable r"
  shows "decode (encode r) = Some r"
proof -
  have "rq_currency r \<noteq> []" using assms codes_ne by (auto simp: payable_def list_ex_iff)
  then show ?thesis
    using assms request_fields [of r]
    by (simp add: decode_def Let_def encode_text param_get_def payable_def)
qed

section \<open>Spoken codes and sealed codes\<close>

lemma crockford_plain: "\<forall>c \<in> set crockford. c \<noteq> CHR ''-'' \<and> to_upper_char c = c \<and> fold_confusable c = c
    \<and> to_lower_char c \<noteq> CHR '':'' \<and> graphic c \<and> form_read [c] = [c] \<and> c \<noteq> CHR ''+'' \<and> c \<noteq> CHR ''%'' \<and> c \<noteq> CHR ''&'' \<and> c \<noteq> CHR ''=''"
  by code_simp

lemma filter_dash_join: "\<forall>g \<in> set gs. CHR ''-'' \<notin> set g \<Longrightarrow> filter (\<lambda>c. c \<noteq> CHR ''-'') (join_with ''-'' gs) = concat gs"
proof (induction gs)
  case (Cons g gs)
  have "filter (\<lambda>c. c \<noteq> CHR ''-'') g = g" using Cons.prems by (auto simp: filter_id_conv)
  then show ?case using Cons by (cases gs) (simp_all add: join_with_Cons)
qed simp

lemma normalise_symbols: "set s \<subseteq> set crockford \<Longrightarrow> normalise s = s"
proof -
  assume "set s \<subseteq> set crockford"
  then have "\<forall>c \<in> set s. c \<noteq> CHR ''-'' \<and> to_upper_char c = c \<and> fold_confusable c = c"
    using crockford_plain by blast
  then show "normalise s = s" by (induction s) (auto simp: normalise_def to_upper_def)
qed

lemma chunk_in: "g \<in> set (chunks4 s) \<Longrightarrow> set g \<subseteq> set s"
  by (metis UN_I chunks4_concat set_concat subsetI)

lemma normalise_group: "set s \<subseteq> set crockford \<Longrightarrow> normalise (group s) = s"
proof -
  assume s: "set s \<subseteq> set crockford"
  then have "CHR ''-'' \<notin> set s" using crockford_plain by blast
  then have f: "filter (\<lambda>c. c \<noteq> CHR ''-'') s = s" by (auto simp: filter_id_conv)
  have "filter (\<lambda>c. c \<noteq> CHR ''-'') (group s) = concat (chunks4 s)"
    unfolding group_def using chunk_in \<open>CHR ''-'' \<notin> set s\<close> by (intro filter_dash_join) blast
  then have "normalise (group s) = normalise s" by (simp add: normalise_def f)
  then show ?thesis using normalise_symbols [OF s] by simp
qed

lemma group_chars: "set (group s) \<subseteq> insert CHR ''-'' (set s)"
proof -
  have "set (join_with ''-'' gs) \<subseteq> insert CHR ''-'' (\<Union> (set ` set gs))" for gs
    by (induction "''-''" gs rule: join_with.induct) auto
  then show ?thesis using chunk_in unfolding group_def by fastforce
qed

lemma group_spoken:
  assumes "set s \<subseteq> set crockford"
  shows "trim (group s) = group s" and "\<not> has_scheme (group s)"
proof -
  have c: "\<forall>c \<in> set (group s). graphic c \<and> to_lower_char c \<noteq> CHR '':''"
  proof -
    have "graphic CHR ''-''" "to_lower_char CHR ''-'' \<noteq> CHR '':''" by code_simp+
    then show ?thesis using group_chars [of s] assms crockford_plain by blast
  qed
  then show "trim (group s) = group s" by (intro trim_all_graphic) auto
  show "\<not> has_scheme (group s)"
  proof
    assume "has_scheme (group s)"
    then have "CHR '':'' \<in> set (to_lower (group s))"
      by (auto simp: has_scheme_def starts_with_iff SCHEME_def)
    then show False using c by (auto simp: to_lower_def)
  qed
qed

lemma request_check_in: "request_check s \<in> set crockford"
proof -
  have "0 \<le> js_rem (32 - js_rem v 32) 32 \<and> js_rem (32 - js_rem v 32) 32 < 32" for v
  proof -
    have "0 \<le> (- v) mod 32" by simp
    then have "js_rem v 32 < 32" unfolding js_rem_def by (simp only: split: if_splits) auto
    then show ?thesis by (simp add: js_rem_def)
  qed
  then show ?thesis unfolding request_check_def by (intro nth_mem) (simp add: nat_less_iff)
qed

lemma spoken_verifies:
  assumes "set body \<subseteq> set crockford" and "body \<noteq> []"
  shows "verifyShortCode (group (body @ [request_check body]))"
    and "verifyShortCode (body @ [request_check body])"
proof -
  have s: "set (body @ [request_check body]) \<subseteq> set crockford" using assms request_check_in by simp
  show "verifyShortCode (group (body @ [request_check body]))"
    "verifyShortCode (body @ [request_check body])"
    using normalise_group [OF s] normalise_symbols [OF s] assms(2)
    by (simp_all add: verifyShortCode_def Let_def)
qed

lemma toBase32_ne: "bs \<noteq> [] \<Longrightarrow> toBase32 bs \<noteq> []"
  using b32.to_text_inj [of bs "[]"] by (simp add: toBase32_def)

lemma utf8_bytes_length [simp]: "length (utf8_bytes s) = length s"
  by (simp add: utf8_bytes_def)

lemma utf8_bytes_inj [simp]: "utf8_bytes s = utf8_bytes t \<longleftrightarrow> s = t"
proof -
  have "inj (\<lambda>c. of_nat (of_char c) :: byte)"
  proof (rule injI)
    fix c d :: char
    assume "(of_nat (of_char c) :: byte) = of_nat (of_char d)"
    then have "unat (of_nat (of_char c) :: byte) = unat (of_nat (of_char d) :: byte)" by simp
    then have "(of_char c :: nat) = of_char d" by (simp add: unat_of_nat)
    then show "c = d" by simp
  qed
  then show ?thesis unfolding utf8_bytes_def by (simp add: inj_map_eq_map)
qed

lemma text_of_utf8: "s \<noteq> [] \<Longrightarrow> graphic (hd s) \<Longrightarrow> text_of (utf8_bytes s) = s"
proof -
  assume s: "s \<noteq> []" "graphic (hd s)"
  have "map (\<lambda>b. char_of (unat b)) (utf8_bytes s) = s"
    by (induction s) (simp_all add: utf8_bytes_def unat_of_nat)
  moreover have "\<not> starts_with s [CHR 0xEF, CHR 0xBB, CHR 0xBF]"
    using s by (cases s) (auto simp: starts_with_def graphic_def)
  ultimately show ?thesis by (simp add: text_of_def)
qed

text \<open>What the codes rely on in AES-GCM: opening with the nonce used gives the text back, and the tag is 16 bytes.\<close>

definition aead :: "(byte list \<Rightarrow> byte list \<Rightarrow> byte list) \<Rightarrow> (byte list \<Rightarrow> byte list \<Rightarrow> byte list option) \<Rightarrow> bool" where
  "aead encrypt decrypt \<longleftrightarrow> (\<forall>n p. length n = 12 \<longrightarrow>
     decrypt n (encrypt n p) = Some p \<and> length (encrypt n p) = length p + 16)"

lemma unseal_seal:
  assumes "aead encrypt decrypt" and "length nonce = 12" and "s \<noteq> []" and "graphic (hd s)"
  shows "unseal decrypt (seal encrypt nonce s) = Some s"
  using assms text_of_utf8 [OF assms(3,4)] by (simp add: unseal_def seal_def aead_def)

lemma encode_first: "encode r \<noteq> []" "graphic (hd (encode r))" "hd (encode r) = CHR ''y''"
  by (simp_all add: encode_def SCHEME_def graphic_def)

section \<open>Properties\<close>

text \<open>
  C30. A payment request survives its code: every payable request is read back from its plain URI
  and, under AES-GCM, from the sealed square and from the sealed spoken form.
\<close>

theorem request_round_trip:
  assumes "payable r" and "aead encrypt decrypt" and "length nonce = 12"
  shows "decode (encode r) = Some r \<and>
    decodeAny decrypt (encodeSealed encrypt nonce r) = Some r \<and>
    decodeAny decrypt (shortCodeSealed encrypt nonce r) = Some r"
proof -
  let ?b = "toBase32 (seal encrypt nonce (encode r))"
  have sym: "set ?b \<subseteq> set crockford" by (rule b32.text_symbols)
  have ne: "?b \<noteq> []" by (intro toBase32_ne) (simp add: seal_def)
  have op: "unseal decrypt (seal encrypt nonce (encode r)) = Some (encode r)"
    using assms encode_first by (intro unseal_seal) auto
  have dec: "decode (encode r) = Some r" using assms(1) by (rule decode_encode_request)
  have "form_read ?b = ?b" using sym crockford_plain by (intro form_read_plain) blast
  moreover have "CHR ''='' \<notin> set ?b" "CHR ''&'' \<notin> set ?b" using sym crockford_plain by blast+
  ultimately have "params_of (''s='' @ ?b) = [(''s'', ?b)]"
    by (simp add: params_of_def starts_with_def split_on_no_sep param_of_def)
  then have p: "text_params (SCHEME @ ''?s='' @ ?b) = [(''s'', ?b)]"
    by (simp add: text_params_def)
  have g: "\<forall>c \<in> set (''?s='' @ ?b). graphic c"
  proof -
    have "graphic CHR ''?''" "graphic CHR ''s''" "graphic CHR ''=''" by code_simp+
    then show ?thesis using sym crockford_plain by auto
  qed
  have sealed: "decodeAny decrypt (encodeSealed encrypt nonce r) = Some r"
    using ne op dec p scheme_text [OF g] normalise_symbols [OF sym] encode_first
    by (simp add: decodeAny_def encodeSealed_def param_get_def b32.of_to_text)
  have s: "set (?b @ [request_check ?b]) \<subseteq> set crockford" using sym request_check_in by simp
  have "decodeAny decrypt (shortCodeSealed encrypt nonce r) = Some r"
    using ne op dec group_spoken [OF s] normalise_group [OF s] spoken_verifies [OF sym ne] encode_first
    by (simp add: decodeAny_def shortCodeSealed_def Let_def b32.of_to_text)
  then show ?thesis using dec sealed by blast
qed

definition sample_request :: pay_request where
  "sample_request = \<lparr>rq_to = ''K3M9-7QRT-B'', rq_amount = Some ''1500'', rq_currency = ''XOF'', rq_recurrence = Month,
     rq_reference = Some ''INV 42&=+'', rq_payee = None\<rparr>"

definition sample_encrypt :: "byte list \<Rightarrow> byte list \<Rightarrow> byte list" where
  "sample_encrypt n p = map (\<lambda>b. b XOR hd n) p @ replicate 16 (hd n)"

definition sample_decrypt :: "byte list \<Rightarrow> byte list \<Rightarrow> byte list option" where
  "sample_decrypt n c = Some (map (\<lambda>b. b XOR hd n) (take (length c - 16) c))"

lemma sample_aead: "aead sample_encrypt sample_decrypt"
  by (simp add: aead_def sample_encrypt_def sample_decrypt_def comp_def xor.assoc)

lemma request_round_trip_witness:
  "decode (encode sample_request) = Some sample_request \<and>
    decodeAny sample_decrypt (encodeSealed sample_encrypt (replicate 12 7) sample_request) = Some sample_request \<and>
    decodeAny sample_decrypt (shortCodeSealed sample_encrypt (replicate 12 7) sample_request) = Some sample_request"
proof (rule request_round_trip)
  show "payable sample_request" by code_simp
qed (simp_all add: sample_aead)

text \<open>
  Every plain spoken code carries a correct check character, and yet no reader of codes opens
  it: \<open>decodeAny\<close> treats a spoken code as sealed, and a plain one never starts with the magic byte.
\<close>

theorem plain_spoken_code_verifies_but_never_opens:
  "verifyShortCode (shortCode r) \<and> decodeAny decrypt (shortCode r) = None"
proof -
  let ?b = "toBase32 (utf8_bytes (encode r))"
  have sym: "set ?b \<subseteq> set crockford" by (rule b32.text_symbols)
  have ne: "?b \<noteq> []" using encode_first by (intro toBase32_ne) (simp add: utf8_bytes_def)
  have s: "set (?b @ [request_check ?b]) \<subseteq> set crockford" using sym request_check_in by simp
  have "utf8_bytes (encode r) ! 0 = 121"
    using encode_first(1,3) [of r] by (cases "encode r") (simp_all add: utf8_bytes_def)
  then have "unseal decrypt (utf8_bytes (encode r)) = None" by (simp add: unseal_def MAGIC_def)
  then have "decodeAny decrypt (shortCode r) = None"
    using group_spoken [OF s] normalise_group [OF s] spoken_verifies [OF sym ne]
    by (simp add: decodeAny_def shortCode_def Let_def b32.of_to_text)
  then show ?thesis using spoken_verifies [OF sym ne] by (simp add: shortCode_def Let_def)
qed

section \<open>The check character of spoken codes\<close>

definition code_digits :: "string \<Rightarrow> nat list" where
  "code_digits s = map (\<lambda>c. case index_of c crockford of None \<Rightarrow> 0 | Some i \<Rightarrow> i) (rev s)"

lemma request_sum_luhn:
  assumes "f = 1 \<or> f = 2" and "set s \<subseteq> set crockford"
  shows "request_sum (int f) (int a) s = int (a + luhn_sum f (map (\<lambda>c. case index_of c crockford of None \<Rightarrow> 0 | Some i \<Rightarrow> i) s))"
  using assms
proof (induction s arbitrary: f a)
  case (Cons c s)
  obtain i where i: "index_of c crockford = Some i" using Cons.prems(2) index_of_ex [of c crockford] by auto
  have f: "(if int f = 2 then 1 else 2) = int (3 - f)" "3 - f = 1 \<or> 3 - f = 2"
    using Cons.prems(1) by (elim disjE; simp)+
  have t: "int f * int i div 32 + int f * int i mod 32 = int (luhn_term f i)"
    by (simp only: luhn_term_def of_nat_add of_nat_div of_nat_mod of_nat_mult of_nat_numeral)
  have "0 \<le> int f * int i" by simp
  then have "request_sum (int f) (int a) (c # s) =
      request_sum (if int f = 2 then 1 else 2) (int a + (int f * int i div 32 + int f * int i mod 32)) s"
    by (simp only: request_sum.simps Let_def js_rem_def symbol_index_of_def i option.case if_True)
  also have "\<dots> = request_sum (int (3 - f)) (int (a + luhn_term f i)) s" by (simp only: f t of_nat_add)
  also have "\<dots> = int (a + luhn_term f i + luhn_sum (3 - f) (map (\<lambda>c. case index_of c crockford of None \<Rightarrow> 0 | Some i \<Rightarrow> i) s))"
    using Cons.prems(2) by (intro Cons.IH [OF f(2)]) simp
  finally show ?case by (simp only: list.map luhn_sum.simps i option.case add.assoc)
qed simp

interpretation spoken: luhn_coded "\<lambda>s. set s \<subseteq> set crockford" code_digits request_check
proof
  fix s :: string assume s: "set s \<subseteq> set crockford"
  then show "\<forall>v \<in> set (code_digits s). v < 32"
    by (auto simp: code_digits_def split: option.splits dest: index_of_SomeD)
  have "request_sum 2 0 (rev s) = int (luhn_sum 2 (code_digits s))"
    using request_sum_luhn [of 2 "rev s" 0] s by (simp add: code_digits_def)
  moreover have "nat ((32 - int n mod 32) mod 32) = (32 - n mod 32) mod 32" for n
    by (simp add: nat_eq_iff of_nat_mod of_nat_diff)
  moreover have "js_rem (32 - js_rem (int n) 32) 32 = (32 - int n mod 32) mod 32" for n
    by (simp add: js_rem_def)
  ultimately show "request_check s = crockford ! luhn_check (code_digits s)"
    by (simp add: request_check_def luhn_check_def)
qed

lemma code_digits_values: "set s \<subseteq> set crockford \<Longrightarrow> code_digits s = map symbol_value (rev s)"
  by (auto simp: code_digits_def symbol_value_def crockford_value subset_iff)

lemma spoken_check:
  assumes "set s \<subseteq> set crockford" and "k \<in> set crockford"
  shows "verifyShortCode (s @ [k]) \<longleftrightarrow> s \<noteq> [] \<and> request_check s = k"
proof -
  have "normalise (s @ [k]) = s @ [k]" using assms by (intro normalise_symbols) simp
  then show ?thesis by (cases s) (simp_all add: verifyShortCode_def)
qed

lemma extremes_pair:
  fixes x y :: nat
  assumes "x = 0 \<longleftrightarrow> a = CHR ''0''" and "x = 31 \<longleftrightarrow> a = CHR ''Z''"
    and "y = 0 \<longleftrightarrow> b = CHR ''0''" and "y = 31 \<longleftrightarrow> b = CHR ''Z''"
  shows "{y, x} = {0, 31} \<longleftrightarrow> {a, b} = {CHR ''0'', CHR ''Z''}"
  using assms by (auto simp: doubleton_eq_iff)

text \<open>
  In a spoken code, sealed or not, one wrong symbol is always caught, and two neighbouring
  symbols exchanged are caught unless they are \<open>0\<close> and \<open>Z\<close>.
\<close>

theorem spoken_code_errors_caught:
  assumes "set (p @ a # b # q) \<subseteq> set crockford" and "c \<in> set crockford" and "k \<in> set crockford"
    and "verifyShortCode ((p @ a # b # q) @ [k])" and "a \<noteq> b" and "a \<noteq> c"
  shows "\<not> verifyShortCode ((p @ c # b # q) @ [k]) \<and>
    (verifyShortCode ((p @ b # a # q) @ [k]) \<longleftrightarrow> {a, b} = {CHR ''0'', CHR ''Z''})"
proof -
  let ?x = "p @ a # b # q" and ?y = "p @ c # b # q" and ?z = "p @ b # a # q"
  have in32: "set ?x \<subseteq> set crockford" "set ?y \<subseteq> set crockford" "set ?z \<subseteq> set crockford" using assms(1,2) by auto
  have ab: "a \<in> set crockford" "b \<in> set crockford" using assms(1) by simp_all
  have ne: "symbol_value a \<noteq> symbol_value b" "symbol_value a \<noteq> symbol_value c"
    using ab assms(2,5,6) symbol_value_inj by blast+
  note d = code_digits_values [OF in32(1)] code_digits_values [OF in32(2)] code_digits_values [OF in32(3)]
  have "{symbol_value b, symbol_value a} = {0, 31} \<longleftrightarrow> {a, b} = {CHR ''0'', CHR ''Z''}"
    using symbol_extremes [OF ab(1)] symbol_extremes [OF ab(2)] by (rule extremes_pair)
  moreover have "request_check ?x = request_check ?z \<longleftrightarrow> {symbol_value b, symbol_value a} = {0, 31}"
    using ne(1) d by (intro spoken.transposition_detected [OF in32(1,3), of "map symbol_value (rev q)" _ _ "map symbol_value (rev p)"]) auto
  moreover have "request_check ?x \<noteq> request_check ?y"
    using ne(2) d by (intro spoken.substitution_detected [OF in32(1,2), of "map symbol_value (rev q) @ [symbol_value b]" "symbol_value a" "map symbol_value (rev p)" "symbol_value c"]) auto
  moreover have "request_check ?x = k" using spoken_check [OF in32(1) assms(3)] assms(4) by blast
  moreover have "?z \<noteq> []" by simp
  ultimately show ?thesis
    using spoken_check [OF in32(2) assms(3)] spoken_check [OF in32(3) assms(3)] by metis
qed

lemma spoken_code_errors_caught_witness:
  "\<not> verifyShortCode ((''K3'' @ CHR ''7'' # CHR ''9'' # ''Q'') @ [request_check ''K3M9Q'']) \<and>
    (verifyShortCode ((''K3'' @ CHR ''9'' # CHR ''M'' # ''Q'') @ [request_check ''K3M9Q'']) \<longleftrightarrow>
      {CHR ''M'', CHR ''9''} = {CHR ''0'', CHR ''Z''})"
proof (rule spoken_code_errors_caught)
  show "set (''K3'' @ CHR ''M'' # CHR ''9'' # ''Q'') \<subseteq> set crockford" "CHR ''7'' \<in> set crockford" by code_simp+
  show "request_check ''K3M9Q'' \<in> set crockford" by (rule request_check_in)
  show "verifyShortCode ((''K3'' @ CHR ''M'' # CHR ''9'' # ''Q'') @ [request_check ''K3M9Q''])" by code_simp
qed simp_all

end
