(* ===== verification/SignedRequest.thy ===== *)
theory SignedRequest imports Request begin

text \<open>
  Signed payment requests: the signature check of \<open>app/src/signing.ts\<close> and the signed forms of
  \<open>app/src/request.ts\<close>. The cryptography and the encodings are the libraries' functions, collected
  in the record \<open>crypto\<close>; \<open>None\<close> stands for a library function that throws.
\<close>

record crypto =
  cr_sha256 :: "byte list \<Rightarrow> byte list"
  cr_from64 :: "string \<Rightarrow> byte list option"
  cr_to64 :: "byte list \<Rightarrow> string"
  cr_verify :: "byte list \<Rightarrow> byte list \<Rightarrow> byte list \<Rightarrow> bool option"
  cr_account :: "string \<Rightarrow> byte list \<Rightarrow> string option"
  cr_from_bech32 :: "string \<Rightarrow> byte list option"

record signed_payload =
  sg_payload :: string
  sg_signature :: string
  sg_pubkey :: string

text \<open>
  What is read from a code is whatever JSON was sealed in it: a signature or key that is not a
  string makes \<open>fromBase64\<close> throw.
\<close>

record read_signed =
  rs_payload :: string
  rs_signature :: "json option"
  rs_pubkey :: "json option"

definition from64 :: "crypto \<Rightarrow> json option \<Rightarrow> byte list option" where
  "from64 cr j = (case j of Some (JStr s) \<Rightarrow> cr_from64 cr s | _ \<Rightarrow> None)"

definition verifySignature :: "crypto \<Rightarrow> read_signed \<Rightarrow> string \<Rightarrow> string option" where
  "verifySignature cr sd hrp =
    (let digest = cr_sha256 cr (utf8_bytes (rs_payload sd)) in
     case from64 cr (rs_pubkey sd) of
       None \<Rightarrow> None
     | Some pubkey \<Rightarrow>
        (case from64 cr (rs_signature sd) of
           None \<Rightarrow> None
         | Some signature \<Rightarrow>
            (case cr_verify cr signature digest pubkey of
               None \<Rightarrow> None
             | Some ok \<Rightarrow> if \<not> ok then None else cr_account cr hrp pubkey)))"

definition normaliseAddress :: "crypto \<Rightarrow> string \<Rightarrow> string" where
  "normaliseAddress cr addr = (case cr_from_bech32 cr addr of Some data \<Rightarrow> cr_to64 cr data | None \<Rightarrow> addr)"

definition verifyPayee :: "crypto \<Rightarrow> read_signed \<Rightarrow> string \<Rightarrow> (string \<Rightarrow> string option) \<Rightarrow> bool" where
  "verifyPayee cr sd claimed resolve =
    (case verifySignature cr sd ''yml'' of
       None \<Rightarrow> False
     | Some signer \<Rightarrow>
        if signer = [] then False else
        (case resolve claimed of
           None \<Rightarrow> False
         | Some payee \<Rightarrow> if payee = [] then False else normaliseAddress cr signer = normaliseAddress cr payee))"

definition signed_json :: "signed_payload \<Rightarrow> json" where
  "signed_json s = JObj [(''payload'', JStr (sg_payload s)), (''signature'', JStr (sg_signature s)), (''pubkey'', JStr (sg_pubkey s))]"

definition encodeSigned :: "(byte list \<Rightarrow> byte list \<Rightarrow> byte list) \<Rightarrow> byte list \<Rightarrow> pay_request \<Rightarrow> (string \<Rightarrow> signed_payload) \<Rightarrow> string" where
  "encodeSigned encrypt nonce req sign =
    SCHEME @ ''?g='' @ toBase32 (seal encrypt nonce (json_stringify (signed_json (sign (encode req)))))"

definition shortCodeSigned :: "(byte list \<Rightarrow> byte list \<Rightarrow> byte list) \<Rightarrow> byte list \<Rightarrow> pay_request \<Rightarrow> (string \<Rightarrow> signed_payload) \<Rightarrow> string" where
  "shortCodeSigned encrypt nonce req sign =
    (let body = toBase32 (seal encrypt nonce (json_stringify (signed_json (sign (encode req))))) in
     group (body @ [request_check body]))"

text \<open>
  The three ways \<open>readSigned\<close> ends: \<open>NotACode\<close> is its \<open>null\<close>, \<open>Read\<close> its result, and \<open>Rejected\<close> the
  promise rejecting with a \<open>TypeError\<close>, when what was sealed is JSON without a string payload.
\<close>

datatype read_outcome = NotACode | Rejected | Read pay_request bool

definition judge :: "crypto \<Rightarrow> (string \<Rightarrow> string option) \<Rightarrow> json \<Rightarrow> read_outcome" where
  "judge cr resolve j =
    (case member ''payload'' j of
       Some (JStr payload) \<Rightarrow>
         (case decode payload of
            None \<Rightarrow> NotACode
          | Some request \<Rightarrow>
              Read request (verifyPayee cr \<lparr>rs_payload = payload, rs_signature = member ''signature'' j,
                 rs_pubkey = member ''pubkey'' j\<rparr> (rq_to request) resolve))
     | _ \<Rightarrow> Rejected)"

definition open_signed :: "crypto \<Rightarrow> (byte list \<Rightarrow> byte list \<Rightarrow> byte list option) \<Rightarrow> (string \<Rightarrow> string option) \<Rightarrow> string \<Rightarrow> read_outcome" where
  "open_signed cr decrypt resolve body =
    (case fromBase32 (normalise body) of
       None \<Rightarrow> NotACode
     | Some bytes \<Rightarrow>
        (case unseal decrypt bytes of
           None \<Rightarrow> NotACode
         | Some packed \<Rightarrow>
            if packed = [] then NotACode else
            (case json_parse packed of None \<Rightarrow> NotACode | Some j \<Rightarrow> judge cr resolve j)))"

definition readSigned :: "crypto \<Rightarrow> (byte list \<Rightarrow> byte list \<Rightarrow> byte list option) \<Rightarrow> string \<Rightarrow> (string \<Rightarrow> string option) \<Rightarrow> read_outcome" where
  "readSigned cr decrypt raw resolve =
    (let text = trim raw in
     if has_scheme text then
       (case param_get (text_params text) ''g'' of
          None \<Rightarrow> NotACode
        | Some body \<Rightarrow> if body = [] then NotACode else open_signed cr decrypt resolve body)
     else
       (let clean = normalise text in
        if \<not> verifyShortCode clean then NotACode
        else if butlast clean = [] then NotACode
        else open_signed cr decrypt resolve (butlast clean)))"

section \<open>What trusted means\<close>

text \<open>\<open>signed_by cr s signer\<close>: the signature on the payload is valid under the key, and the key is the signer's.\<close>

definition signed_by :: "crypto \<Rightarrow> read_signed \<Rightarrow> string \<Rightarrow> bool" where
  "signed_by cr s signer \<longleftrightarrow>
    (\<exists>pk sg. from64 cr (rs_pubkey s) = Some pk \<and> from64 cr (rs_signature s) = Some sg \<and>
       cr_verify cr sg (cr_sha256 cr (utf8_bytes (rs_payload s))) pk = Some True \<and>
       cr_account cr ''yml'' pk = Some signer)"

lemma verifySignature_iff: "verifySignature cr s ''yml'' = Some signer \<longleftrightarrow> signed_by cr s signer"
  by (auto simp: verifySignature_def signed_by_def Let_def split: option.splits)

lemma verifyPayee_iff:
  "verifyPayee cr s claimed resolve \<longleftrightarrow>
    (\<exists>signer payee. signed_by cr s signer \<and> signer \<noteq> [] \<and> resolve claimed = Some payee \<and> payee \<noteq> [] \<and>
       normaliseAddress cr signer = normaliseAddress cr payee)"
  by (auto simp: verifyPayee_def simp flip: verifySignature_iff split: option.splits)

lemma judge_trusted:
  "judge cr resolve j = Read req True \<Longrightarrow>
    \<exists>s signer payee. decode (rs_payload s) = Some req \<and> signed_by cr s signer \<and> resolve (rq_to req) = Some payee \<and>
      normaliseAddress cr signer = normaliseAddress cr payee"
proof -
  assume "judge cr resolve j = Read req True"
  then obtain payload where "member ''payload'' j = Some (JStr payload)" "decode payload = Some req"
    and v: "verifyPayee cr \<lparr>rs_payload = payload, rs_signature = member ''signature'' j, rs_pubkey = member ''pubkey'' j\<rparr> (rq_to req) resolve"
    by (auto simp: judge_def split: option.splits json.splits)
  then show ?thesis unfolding verifyPayee_iff by (metis read_signed.select_convs(1))
qed

lemma open_trusted:
  "open_signed cr decrypt resolve body = Read req True \<Longrightarrow>
    \<exists>s signer payee. decode (rs_payload s) = Some req \<and> signed_by cr s signer \<and> resolve (rq_to req) = Some payee \<and>
      normaliseAddress cr signer = normaliseAddress cr payee"
  using judge_trusted by (simp add: open_signed_def split: option.splits if_splits)

text \<open>
  C14. A code is trusted only when the signature on exactly the payload the request was decoded
  from verifies, and the account of the signing key is the account the payee's identifier
  resolves to. A valid signature by anybody else is never enough.
\<close>

theorem trusted_code_is_signed_by_payee:
  assumes "readSigned cr decrypt raw resolve = Read req True"
  shows "\<exists>s signer payee. decode (rs_payload s) = Some req \<and> signed_by cr s signer \<and>
    resolve (rq_to req) = Some payee \<and> normaliseAddress cr signer = normaliseAddress cr payee"
  using assms open_trusted by (simp add: readSigned_def Let_def split: option.splits if_splits)

lemma signed_textual: "textual (signed_json s)" by (simp add: signed_json_def)

lemma open_sealed_signed:
  assumes "aead encrypt decrypt" and "length nonce = 12"
  shows "open_signed cr decrypt resolve (toBase32 (seal encrypt nonce (json_stringify (signed_json s)))) =
    judge cr resolve (signed_json s)"
proof -
  let ?t = "json_stringify (signed_json s)"
  have t: "?t \<noteq> []" "graphic (hd ?t)" by (simp_all add: signed_json_def graphic_def)
  have "normalise (toBase32 (seal encrypt nonce ?t)) = toBase32 (seal encrypt nonce ?t)"
    by (rule normalise_symbols [OF b32.text_symbols])
  then show ?thesis
    using unseal_seal [OF assms t] stringify_parse [OF signed_textual, of s] t(1)
    by (simp add: open_signed_def b32.of_to_text)
qed

text \<open>
  C31. A signed request travels: what the payer reads from the signed square or the signed spoken
  form is the request that was signed, trusted exactly when the payee check accepts the signer.
\<close>

theorem signed_request_round_trip:
  assumes "payable r" and "aead encrypt decrypt" and "length nonce = 12"
    and "sign (encode r) = \<lparr>sg_payload = encode r, sg_signature = sg, sg_pubkey = pk\<rparr>"
  shows "readSigned cr decrypt (encodeSigned encrypt nonce r sign) resolve =
      Read r (verifyPayee cr \<lparr>rs_payload = encode r, rs_signature = Some (JStr sg), rs_pubkey = Some (JStr pk)\<rparr> (rq_to r) resolve) \<and>
    readSigned cr decrypt (shortCodeSigned encrypt nonce r sign) resolve =
      Read r (verifyPayee cr \<lparr>rs_payload = encode r, rs_signature = Some (JStr sg), rs_pubkey = Some (JStr pk)\<rparr> (rq_to r) resolve)"
proof -
  let ?s = "sign (encode r)"
  let ?b = "toBase32 (seal encrypt nonce (json_stringify (signed_json ?s)))"
  have sym: "set ?b \<subseteq> set crockford" by (rule b32.text_symbols)
  have ne: "?b \<noteq> []" by (intro toBase32_ne) (simp add: seal_def)
  have judged: "judge cr resolve (signed_json ?s) =
      Read r (verifyPayee cr \<lparr>rs_payload = encode r, rs_signature = Some (JStr sg), rs_pubkey = Some (JStr pk)\<rparr> (rq_to r) resolve)"
    using decode_encode_request [OF assms(1)] by (simp add: judge_def signed_json_def member_def assms(4))
  have "form_read ?b = ?b" using sym crockford_plain by (intro form_read_plain) blast
  moreover have "CHR ''='' \<notin> set ?b" "CHR ''&'' \<notin> set ?b" using sym crockford_plain by blast+
  ultimately have "params_of (''g='' @ ?b) = [(''g'', ?b)]"
    by (simp add: params_of_def starts_with_def split_on_no_sep param_of_def)
  then have p: "text_params (SCHEME @ ''?g='' @ ?b) = [(''g'', ?b)]" by (simp add: text_params_def)
  have g: "\<forall>c \<in> set (''?g='' @ ?b). graphic c"
  proof -
    have "graphic CHR ''?''" "graphic CHR ''g''" "graphic CHR ''=''" by code_simp+
    then show ?thesis using sym crockford_plain by auto
  qed
  have square: "readSigned cr decrypt (encodeSigned encrypt nonce r sign) resolve = judge cr resolve (signed_json ?s)"
    using ne p scheme_text [OF g] open_sealed_signed [OF assms(2,3)]
    by (simp add: readSigned_def encodeSigned_def param_get_def)
  have s: "set (?b @ [request_check ?b]) \<subseteq> set crockford" using sym request_check_in by simp
  have "readSigned cr decrypt (shortCodeSigned encrypt nonce r sign) resolve = judge cr resolve (signed_json ?s)"
    using ne group_spoken [OF s] normalise_group [OF s] spoken_verifies [OF sym ne] open_sealed_signed [OF assms(2,3)]
    by (simp add: readSigned_def shortCodeSigned_def Let_def)
  then show ?thesis using square judged by simp
qed

definition sample_crypto :: crypto where
  "sample_crypto = \<lparr>cr_sha256 = (\<lambda>b. take 32 b), cr_from64 = (\<lambda>s. Some (utf8_bytes s)), cr_to64 = text_of,
     cr_verify = (\<lambda>sg d pk. Some (sg = pk)), cr_account = (\<lambda>p pk. Some (p @ ''1'' @ text_of pk)), cr_from_bech32 = (\<lambda>a. None)\<rparr>"

definition sample_sign :: "string \<Rightarrow> signed_payload" where
  "sample_sign p = \<lparr>sg_payload = p, sg_signature = ''KEY'', sg_pubkey = ''KEY''\<rparr>"

lemma signed_request_round_trip_witness:
  "readSigned sample_crypto sample_decrypt (encodeSigned sample_encrypt (replicate 12 7) sample_request sample_sign) (\<lambda>_. Some ''yml1KEY'') =
      Read sample_request True \<and>
   readSigned sample_crypto sample_decrypt (encodeSigned sample_encrypt (replicate 12 7) sample_request sample_sign) (\<lambda>_. Some ''yml1OTHER'') =
      Read sample_request False"
proof -
  let ?v = "\<lambda>f. verifyPayee sample_crypto \<lparr>rs_payload = encode sample_request, rs_signature = Some (JStr ''KEY''), rs_pubkey = Some (JStr ''KEY'')\<rparr> (rq_to sample_request) f"
  have "payable sample_request" by code_simp
  then have "\<And>f. readSigned sample_crypto sample_decrypt (encodeSigned sample_encrypt (replicate 12 7) sample_request sample_sign) f = Read sample_request (?v f)"
    using signed_request_round_trip [of sample_request sample_encrypt sample_decrypt "replicate 12 7" sample_sign "''KEY''" "''KEY''" sample_crypto]
    by (simp add: sample_aead sample_sign_def)
  moreover have "?v (\<lambda>_. Some ''yml1KEY'')" "\<not> ?v (\<lambda>_. Some ''yml1OTHER'')" by code_simp+
  ultimately show ?thesis by simp
qed

lemma trusted_code_is_signed_by_payee_witness:
  "\<exists>s signer payee. decode (rs_payload s) = Some sample_request \<and> signed_by sample_crypto s signer \<and>
    Some ''yml1KEY'' = Some payee \<and> normaliseAddress sample_crypto signer = normaliseAddress sample_crypto payee"
proof -
  have p: "payable sample_request" by code_simp
  have v: "verifyPayee sample_crypto \<lparr>rs_payload = encode sample_request, rs_signature = Some (JStr ''KEY''), rs_pubkey = Some (JStr ''KEY'')\<rparr>
      (rq_to sample_request) (\<lambda>_. Some ''yml1KEY'')" by code_simp
  have j: "judge sample_crypto (\<lambda>_. Some ''yml1KEY'') (signed_json (sample_sign (encode sample_request))) = Read sample_request True"
    using decode_encode_request [OF p] v by (simp add: judge_def signed_json_def member_def sample_sign_def)
  let ?b = "toBase32 (seal sample_encrypt (replicate 12 7) (json_stringify (signed_json (sample_sign (encode sample_request)))))"
  have sym: "set ?b \<subseteq> set crockford" by (rule b32.text_symbols)
  have ne: "?b \<noteq> []" by (intro toBase32_ne) (simp add: seal_def)
  have s: "set (?b @ [request_check ?b]) \<subseteq> set crockford" using sym request_check_in by simp
  have "readSigned sample_crypto sample_decrypt (group (?b @ [request_check ?b])) (\<lambda>_. Some ''yml1KEY'') = Read sample_request True"
    using ne group_spoken [OF s] normalise_group [OF s] spoken_verifies [OF sym ne] open_sealed_signed [OF sample_aead] j
    by (simp add: readSigned_def Let_def)
  then show ?thesis by (rule trusted_code_is_signed_by_payee)
qed

end
