(* ===== verification/Format.thy ===== *)
theory Format imports Text begin

text \<open>
  Identifiers and times as people read them (\<open>sdk/src/format.ts\<close>). Instants are milliseconds since
  the epoch, \<open>None\<close> for an invalid \<open>Date\<close>; seconds are whole numbers, for which the source's
  floating-point division and rounding agree with integer arithmetic up to 2 ^ 45.
\<close>

definition ELLIPSIS :: string where "ELLIPSIS = [CHR 0xE2, CHR 0x80, CHR 0xA6]"

definition slice_end :: "nat \<Rightarrow> string \<Rightarrow> string" where
  "slice_end n s = (if n = 0 then s else drop (length s - n) s)"

definition shorten :: "nat \<Rightarrow> nat \<Rightarrow> string \<Rightarrow> string" where
  "shorten lead tail s =
    (if s = [] then [] else if length s \<le> lead + tail + 1 then s
     else take lead s @ ELLIPSIS @ slice_end tail s)"

definition truncateAddress :: "string \<Rightarrow> string" where
  "truncateAddress address = shorten 10 4 address"

definition truncateHash :: "string \<Rightarrow> string" where
  "truncateHash hash = shorten 8 5 hash"

definition addressHue :: "string \<Rightarrow> nat" where
  "addressHue address = fold (\<lambda>c hash. (hash * 31 + of_char c) mod 360) address 0"

section \<open>Elapsed and remaining time\<close>

definition MINUTE :: int where "MINUTE = 60"
definition HOUR :: int where "HOUR = 60 * MINUTE"
definition DAY :: int where "DAY = 24 * HOUR"
definition WEEK :: int where "WEEK = 7 * DAY"
definition MONTH :: int where "MONTH = 30 * DAY"
definition YEAR :: int where "YEAR = 365 * DAY"

lemmas time_units = MINUTE_def HOUR_def DAY_def WEEK_def MONTH_def YEAR_def

definition timeAgo :: "int option \<Rightarrow> int \<Rightarrow> string" where
  "timeAgo thn now =
    (case thn of None \<Rightarrow> ''unknown''
     | Some t \<Rightarrow>
       let seconds = (now - t) div 1000 in
       if seconds < 0 then ''just now''
       else if seconds < 10 then ''just now''
       else if seconds < MINUTE then show_int seconds @ '' seconds ago''
       else if seconds < 2 * MINUTE then ''a minute ago''
       else if seconds < HOUR then show_int (seconds div MINUTE) @ '' minutes ago''
       else if seconds < 2 * HOUR then ''an hour ago''
       else if seconds < DAY then show_int (seconds div HOUR) @ '' hours ago''
       else if seconds < 2 * DAY then ''yesterday''
       else if seconds < WEEK then show_int (seconds div DAY) @ '' days ago''
       else if seconds < MONTH then show_int (seconds div WEEK) @ '' weeks ago''
       else if seconds < YEAR then show_int (seconds div MONTH) @ '' months ago''
       else show_int (seconds div YEAR) @ '' years ago'')"

definition plural_unit :: "int \<Rightarrow> string \<Rightarrow> string" where
  "plural_unit n unit = show_int n @ '' '' @ unit @ (if n = 1 then [] else ''s'')"

definition timeUntil :: "int option \<Rightarrow> int \<Rightarrow> string" where
  "timeUntil thn now =
    (case thn of None \<Rightarrow> ''unknown''
     | Some t \<Rightarrow>
       let seconds = (t - now) div 1000 in
       if seconds \<le> 0 then ''now''
       else if seconds < MINUTE then ''less than a minute left''
       else if seconds < HOUR then plural_unit (seconds div MINUTE) ''minute'' @ '' left''
       else if seconds < DAY then plural_unit (seconds div HOUR) ''hour'' @ '' left''
       else if seconds < MONTH then plural_unit (seconds div DAY) ''day'' @ '' left''
       else plural_unit (seconds div MONTH) ''month'' @ '' left'')"

text \<open>\<open>Math.round(s / u)\<close>: half rounds up.\<close>

definition round_div :: "int \<Rightarrow> int \<Rightarrow> int" where
  "round_div s u = (2 * s + u) div (2 * u)"

definition formatDuration :: "int \<Rightarrow> string" where
  "formatDuration seconds =
    (if seconds < MINUTE then show_int seconds @ '' seconds''
     else if seconds < HOUR then plural_unit (round_div seconds MINUTE) ''minute''
     else if seconds < DAY then plural_unit (round_div seconds HOUR) ''hour''
     else if seconds < YEAR then plural_unit (round_div seconds DAY) ''day''
     else plural_unit (round_div seconds YEAR) ''year'')"

lemma length_shorten: "0 < tail \<Longrightarrow> length (shorten lead tail s) \<le> max (length s) (lead + tail + 3)"
  by (auto simp: shorten_def slice_end_def ELLIPSIS_def)

lemma shorten_ends:
  "lead + tail + 1 < length s \<Longrightarrow> starts_with (shorten lead tail s) (take lead s) \<and>
     (0 < tail \<longrightarrow> ends_with (shorten lead tail s) (drop (length s - tail) s))"
  by (auto simp: shorten_def slice_end_def starts_with_def ends_with_def ELLIPSIS_def)

end
