(* ===== verification/Base64.thy ===== *)
theory Base64 imports Base32 begin

text \<open>
  Base 64 as the browser has it: \<open>btoa\<close> and \<open>atob\<close> on byte strings, the encoding in which every client
  passes binary through JSON and \<open>postMessage\<close>.
\<close>

section \<open>Decoding\<close>

definition base64_alphabet :: string where
  "base64_alphabet = ''ABCDEFGHIJKLMNOPQRSTUVWXYZabcdefghijklmnopqrstuvwxyz0123456789+/''"

text \<open>
  \<open>atob\<close>, the forgiving base 64 decoder: ASCII white space is ignored, one or two \<open>=\<close> may close a
  text whose length is a multiple of four, a remainder of one symbol is an error, and spare bits
  are dropped.
\<close>

fun sextets :: "string \<Rightarrow> nat list option" where
  "sextets [] = Some []"
| "sextets (c # s) = (case index_of c base64_alphabet of None \<Rightarrow> None | Some i \<Rightarrow> map_option ((#) i) (sextets s))"

fun sextet_bytes :: "nat list \<Rightarrow> byte list" where
  "sextet_bytes (a # b # c # d # r) =
     of_nat (a * 4 + b div 16) # of_nat (b mod 16 * 16 + c div 4) # of_nat (c mod 4 * 64 + d) # sextet_bytes r"
| "sextet_bytes [a, b, c] = [of_nat (a * 4 + b div 16), of_nat (b mod 16 * 16 + c div 4)]"
| "sextet_bytes [a, b] = [of_nat (a * 4 + b div 16)]"
| "sextet_bytes _ = []"

definition atob :: "string \<Rightarrow> byte list option" where
  "atob s =
    (let t = filter (\<lambda>c. c \<notin> {CHR 0x09, CHR 0x0A, CHR 0x0C, CHR 0x0D, CHR 0x20}) s;
         t = (if length t mod 4 = 0 then
                (if ends_with t ''=='' then take (length t - 2) t
                 else if ends_with t ''='' then butlast t else t) else t) in
     if length t mod 4 = 1 then None else map_option sextet_bytes (sextets t))"

section \<open>Encoding\<close>

definition sextet_char :: "nat \<Rightarrow> char" where
  "sextet_char i = base64_alphabet ! i"

fun btoa :: "byte list \<Rightarrow> string" where
  "btoa (a # b # c # r) =
     map sextet_char [unat a div 4, unat a mod 4 * 16 + unat b div 16, unat b mod 16 * 4 + unat c div 64, unat c mod 64] @ btoa r"
| "btoa [a, b] = map sextet_char [unat a div 4, unat a mod 4 * 16 + unat b div 16, unat b mod 16 * 4] @ ''=''"
| "btoa [a] = map sextet_char [unat a div 4, unat a mod 4 * 16] @ ''==''"
| "btoa [] = []"

section \<open>Round trip\<close>

lemma unat_byte: "unat (b :: byte) < 256"
  using unsigned_less [of b, where 'a = nat] by simp

lemma pack:
  "y < d \<Longrightarrow> (k * d + y) div d = (k :: nat)" "y < d \<Longrightarrow> (k * d + y) mod d = y"
  by simp_all

lemma small_divs:
  "unat (b :: byte) div 16 < 16" "unat b div 64 < 4" "unat b mod 4 < 4" "unat b mod 16 < 16"
  using unat_byte [of b] by (simp_all add: less_mult_imp_div_less)

lemma base64_alphabet_facts: "length base64_alphabet = 64" "distinct base64_alphabet"
  "\<forall>c \<in> set base64_alphabet. c \<notin> {CHR 0x09, CHR 0x0A, CHR 0x0C, CHR 0x0D, CHR 0x20, CHR ''=''}"
  by (simp_all add: base64_alphabet_def)

lemma sextet_char_in: "i < 64 \<Longrightarrow> sextet_char i \<in> set base64_alphabet"
  by (simp add: sextet_char_def base64_alphabet_facts)

lemma index_sextet_char: "i < 64 \<Longrightarrow> index_of (sextet_char i) base64_alphabet = Some i"
  by (simp add: sextet_char_def index_of_nth base64_alphabet_facts)

lemma sextets_chars: "\<forall>i \<in> set is. i < 64 \<Longrightarrow> sextets (map sextet_char is @ s) = map_option ((@) is) (sextets s)"
  by (induction "is"; cases "sextets s") (simp_all add: index_sextet_char)

text \<open>The sextets of a byte string, three bytes to four, and what \<open>btoa\<close> writes for them.\<close>

fun byte_sextets :: "byte list \<Rightarrow> nat list" where
  "byte_sextets (a # b # c # r) =
     [unat a div 4, unat a mod 4 * 16 + unat b div 16, unat b mod 16 * 4 + unat c div 64, unat c mod 64] @ byte_sextets r"
| "byte_sextets [a, b] = [unat a div 4, unat a mod 4 * 16 + unat b div 16, unat b mod 16 * 4]"
| "byte_sextets [a] = [unat a div 4, unat a mod 4 * 16]"
| "byte_sextets [] = []"

definition pad64 :: "nat \<Rightarrow> string" where
  "pad64 n = (if n mod 3 = 1 then ''=='' else if n mod 3 = 2 then ''='' else [])"

lemma byte_sextets_bound: "\<forall>i \<in> set (byte_sextets bs). i < 64"
proof (induction bs rule: byte_sextets.induct)
  case (1 a b c r)
  then show ?case using unat_byte [of a] unat_byte [of b] unat_byte [of c] by (auto simp: less_mult_imp_div_less)
next
  case (2 a b)
  then show ?case using unat_byte [of a] unat_byte [of b] by (auto simp: less_mult_imp_div_less)
next
  case (3 a)
  then show ?case using unat_byte [of a] by (auto simp: less_mult_imp_div_less)
qed simp

lemma btoa_sextets: "btoa bs = map sextet_char (byte_sextets bs) @ pad64 (length bs)"
  by (induction bs rule: btoa.induct) (simp_all add: pad64_def)

lemma length_byte_sextets: "length (byte_sextets bs) = 4 * (length bs div 3) + (if length bs mod 3 = 0 then 0 else length bs mod 3 + 1)"
proof (induction bs rule: byte_sextets.induct)
  case (1 a b c r)
  have "(3 + n) div 3 = Suc (n div 3)" "(3 + n) mod 3 = n mod 3" for n :: nat by simp_all
  then show ?case using 1 by simp
qed simp_all

lemma sextet_bytes_byte_sextets: "sextet_bytes (byte_sextets bs) = bs"
proof (induction bs rule: byte_sextets.induct)
  case (1 a b c r)
  then show ?case by (simp add: pack small_divs)
next
  case (2 a b)
  then show ?case by (simp add: pack small_divs)
qed (simp_all add: pack small_divs)

lemma chars_clean: "\<forall>c \<in> set (map sextet_char (byte_sextets bs)). c \<notin> {CHR 0x09, CHR 0x0A, CHR 0x0C, CHR 0x0D, CHR 0x20, CHR ''=''}"
proof
  fix c assume "c \<in> set (map sextet_char (byte_sextets bs))"
  then obtain i where "c = sextet_char i" "i < 64" using byte_sextets_bound by auto
  then have "c \<in> set base64_alphabet" by (simp add: sextet_char_in)
  then show "c \<notin> {CHR 0x09, CHR 0x0A, CHR 0x0C, CHR 0x0D, CHR 0x20, CHR ''=''}" using base64_alphabet_facts(3) by (rule bspec [rotated])
qed

lemma ends_with_set: "ends_with s p \<Longrightarrow> set p \<subseteq> set s"
  unfolding ends_with_def by (metis set_drop_subset)

lemma ends_with_append [simp]: "ends_with (s @ p) p"
  by (simp add: ends_with_def)

lemma atob_btoa [simp]: "atob (btoa bs) = Some bs"
proof -
  let ?t = "map sextet_char (byte_sextets bs)"
  have filt: "filter (\<lambda>c. c \<notin> {CHR 0x09, CHR 0x0A, CHR 0x0C, CHR 0x0D, CHR 0x20}) (btoa bs) = btoa bs"
    using chars_clean [of bs] by (intro filter_True) (auto simp: btoa_sextets pad64_def split: if_splits)
  have len: "length (btoa bs) mod 4 = 0"
    unfolding btoa_sextets by (simp add: length_byte_sextets pad64_def)
  have eq: "CHR ''='' \<notin> set ?t" using chars_clean [of bs] by (metis (no_types, lifting) insertI1 insertI2)
  have noeq: "\<not> ends_with ?t ''=''" "\<not> ends_with ?t ''==''"
    using eq ends_with_set [of ?t] by (meson list.set_intros(1) subsetD)+
  have t: "(if ends_with (btoa bs) ''=='' then take (length (btoa bs) - 2) (btoa bs)
      else if ends_with (btoa bs) ''='' then butlast (btoa bs) else btoa bs) = ?t"
  proof -
    consider "length bs mod 3 = 0" | "length bs mod 3 = 1" | "length bs mod 3 = 2" by linarith
    then show ?thesis
    proof cases
      case 1
      then show ?thesis using noeq by (simp add: btoa_sextets pad64_def)
    next
      case 2
      then show ?thesis by (simp add: btoa_sextets pad64_def)
    next
      case 3
      have "\<not> ends_with (?t @ ''='') ''==''"
      proof
        assume "ends_with (?t @ ''='') ''==''"
        then obtain u where "?t @ ''='' = u @ ''==''" unfolding ends_with_def by (metis append_take_drop_id)
        then have "?t = u @ ''=''" by simp
        then have "CHR ''='' \<in> set ?t" by (metis in_set_conv_decomp)
        then show False using eq by blast
      qed
      then show ?thesis using 3 by (simp add: btoa_sextets pad64_def butlast_append)
    qed
  qed
  have lt: "length ?t mod 4 \<noteq> 1" by (simp add: length_byte_sextets)
  have "sextets ?t = Some (byte_sextets bs)"
    using sextets_chars [of "byte_sextets bs" "[]"] byte_sextets_bound [of bs] by simp
  then show ?thesis
    unfolding atob_def Let_def filt using len t lt by (simp add: sextet_bytes_byte_sextets)
qed

end
