(* ===== verification/JsValue.thy ===== *)
theory JsValue imports Json begin

text \<open>
  JSON values as the code tests and converts them (truthiness, \<open>String\<close>, \<open>Number\<close>, \<open>BigInt\<close>), the
  rounding functions of \<open>Math\<close>, and the fact that integers below $2^{53}$ are exact in a double.
\<close>

section \<open>JSON values as the code tests them\<close>

definition nullish :: "json option \<Rightarrow> bool" where
  "nullish j \<longleftrightarrow> j = None \<or> j = Some JNull"

definition coalesce :: "json option \<Rightarrow> json option \<Rightarrow> json option" where
  "coalesce a b = (if nullish a then b else a)"

fun num_is_zero :: "jsnum \<Rightarrow> bool" where
  "num_is_zero (JFin s m e) = (m = 0)"
| "num_is_zero _ = False"

fun truthy_json :: "json option \<Rightarrow> bool" where
  "truthy_json None = False"
| "truthy_json (Some JNull) = False"
| "truthy_json (Some (JBool b)) = b"
| "truthy_json (Some (JNum x)) = (\<not> num_is_zero x \<and> x \<noteq> JNaN)"
| "truthy_json (Some (JStr s)) = (s \<noteq> [])"
| "truthy_json (Some (JArr _)) = True"
| "truthy_json (Some (JObj _)) = True"

text \<open>\<open>String(x)\<close>, as a template literal writes a value.\<close>

fun js_string :: "json \<Rightarrow> string" where
  "js_string JNull = ''null''"
| "js_string (JBool b) = (if b then ''true'' else ''false'')"
| "js_string (JNum x) = num_string x"
| "js_string (JStr s) = s"
| "js_string (JArr xs) = join_with '','' (map (\<lambda>x. if x = JNull then [] else js_string x) xs)"
| "js_string (JObj _) = ''[object Object]''"

definition js_string_or :: "json option \<Rightarrow> string \<Rightarrow> string" where
  "js_string_or j d = (case j of None \<Rightarrow> d | Some JNull \<Rightarrow> d | Some v \<Rightarrow> js_string v)"

text \<open>\<open>Number(x)\<close> on a JSON value; \<open>None\<close> is \<open>undefined\<close>.\<close>

fun js_number :: "json option \<Rightarrow> jsnum" where
  "js_number None = JNaN"
| "js_number (Some JNull) = JFin False 0 0"
| "js_number (Some (JBool b)) = num_of_nat (if b then 1 else 0)"
| "js_number (Some (JNum x)) = x"
| "js_number (Some v) = number (js_string v)"

section \<open>Rounding to integers\<close>

text \<open>\<open>BigInt(x)\<close> on a number: \<open>None\<close> when it throws.\<close>

definition int_of_num :: "jsnum \<Rightarrow> int option" where
  "int_of_num x = (case x of JFin s m e \<Rightarrow>
      (if num_is_integer x then (let (n, d) = num_frac m e; v = int (n div d) in Some (if s then - v else v)) else None)
    | _ \<Rightarrow> None)"

definition json_big_int :: "json \<Rightarrow> int option" where
  "json_big_int j = (case j of JNull \<Rightarrow> None | JBool b \<Rightarrow> Some (if b then 1 else 0) | JNum x \<Rightarrow> int_of_num x
     | JStr s \<Rightarrow> big_int s | v \<Rightarrow> big_int (js_string v))"

text \<open>\<open>Math.floor\<close>, \<open>Math.round\<close> (half towards positive infinity) and \<open>Math.max\<close>; a zero result is written as the positive zero.\<close>

fun num_floor :: "jsnum \<Rightarrow> jsnum" where
  "num_floor (JFin s m e) = (let (n, d) = num_frac m e in num_of_int (signed_nat s n div int d))"
| "num_floor x = x"

fun num_round :: "jsnum \<Rightarrow> jsnum" where
  "num_round (JFin s m e) = (let (n, d) = num_frac m e in num_of_int ((2 * signed_nat s n + int d) div (2 * int d)))"
| "num_round x = x"

definition num_max :: "jsnum \<Rightarrow> jsnum \<Rightarrow> jsnum" where
  "num_max x y = (if x = JNaN \<or> y = JNaN then JNaN else if num_less x y then y else x)"

definition num_min :: "jsnum \<Rightarrow> jsnum \<Rightarrow> jsnum" where
  "num_min x y = (if x = JNaN \<or> y = JNaN then JNaN else if num_less y x then y else x)"

section \<open>Integers below $2^{53}$\<close>

text \<open>\<open>holds_int x i\<close>: the double \<open>x\<close> is finite and its value is the integer \<open>i\<close>.\<close>

definition holds_int :: "jsnum \<Rightarrow> int \<Rightarrow> bool" where
  "holds_int x i \<longleftrightarrow> (case x of JFin s m e \<Rightarrow> (let (n, d) = num_frac m e in signed_nat s n = i * int d) | _ \<Rightarrow> False)"

lemma less_pow_bit_len: "n < 2 ^ bit_len n"
  using bit_len_bounds [of n] by (cases "n = 0") auto

lemma bit_len_le: "n < 2 ^ k \<Longrightarrow> bit_len n \<le> k"
proof (rule ccontr)
  assume n: "n < 2 ^ k" and nk: "\<not> bit_len n \<le> k"
  from nk have k: "k \<le> bit_len n - 1" by linarith
  have "n \<noteq> 0" using nk by (cases "n = 0") (simp_all add: evals)
  moreover have "(2::nat) ^ k \<le> 2 ^ (bit_len n - 1)" using k by (intro power_increasing) simp_all
  ultimately show False using n bit_len_bounds [of n] by linarith
qed

lemma bit_len_mult: "bit_len (q * d) \<le> bit_len q + bit_len d"
  by (rule bit_len_le) (simp add: power_add mult_strict_mono less_pow_bit_len)

lemma num_exp_exact:
  assumes "0 < d" "q < 2 ^ 53"
  shows "num_exp (q * d) d \<le> 0"
proof -
  let ?e = "int (bit_len (q * d)) - int (bit_len d) - 53"
  have le: "?e \<le> 0" using bit_len_mult [of q d] bit_len_le [OF assms(2)] by linarith
  have "\<not> 2 ^ 53 * d \<le> q * d" using assms by simp
  then have z: "\<not> 2 ^ 53 * snd (scale (q * d) d 0) \<le> fst (scale (q * d) d 0)" by (simp add: scale_def)
  show ?thesis
  proof (cases "?e = 0")
    case True
    then show ?thesis using z by (simp only: num_exp_def Let_def case_prod_beta if_False)
  next
    case False
    then have "?e + 1 \<le> 0" using le by linarith
    then show ?thesis using le by (simp add: num_exp_def Let_def case_prod_beta)
  qed
qed

lemma round_even_exact: "0 < b \<Longrightarrow> round_even (m * b) b = m"
  by (simp add: round_even_def)

lemma num_frac_minus: "num_frac m (- int k) = (m, 2 ^ k)"
  by (cases "k = 0") (simp_all add: num_frac_def)

lemma to_double_exact:
  assumes d: "0 < d" and q: "q < 2 ^ 53"
  shows "holds_int (to_double s (q * d) d) (signed_nat s q)"
proof (cases "q = 0")
  case False
  obtain k where e: "num_exp (q * d) d = - int k" using num_exp_exact [OF assms] by (metis nonneg_int_cases neg_0_le_iff_le minus_minus)
  have sc: "scale (q * d) d (- int k) = ((q * 2 ^ k) * d, d)"
    by (cases "k = 0") (simp_all add: scale_def mult.assoc mult.commute mult.left_commute)
  have td: "to_double s (q * d) d =
      (let (m, e) = (if q * 2 ^ k = 2 ^ 53 then (2 ^ 52, - int k + 1) else (q * 2 ^ k, - int k)) in
       if m = 0 then JFin s 0 0 else if 971 < e then JInf s else JFin s m e)"
    using False d by (simp add: to_double_def e sc round_even_exact)
  show ?thesis
  proof (cases "q * 2 ^ k = 2 ^ 53")
    case True
    then have k: "0 < k" using q by (cases k) auto
    then obtain j where j: "k = Suc j" by (cases k) auto
    have "to_double s (q * d) d = JFin s (2 ^ 52) (- int j)" unfolding td using True j by simp
    moreover have "q * 2 ^ j = 2 ^ 52" using True j by simp
    moreover from this have "int q * 2 ^ j = 2 ^ 52" by (metis of_nat_mult of_nat_numeral of_nat_power)
    ultimately show ?thesis by (simp add: holds_int_def num_frac_minus signed_nat_def)
  next
    case ne: False
    have "to_double s (q * d) d = JFin s (q * 2 ^ k) (- int k)" unfolding td using ne False by simp
    then show ?thesis by (simp add: holds_int_def num_frac_minus signed_nat_def)
  qed
qed (simp add: to_double_def holds_int_def num_frac_def signed_nat_def)

lemma signed_nat_mult: "signed_nat s (n * k) = signed_nat s n * int k"
  by (simp add: signed_nat_def)

lemma abs_signed_nat: "\<bar>signed_nat s n\<bar> = int n"
  by (simp add: signed_nat_def)

lemma num_frac_pos: "0 < snd (num_frac m e)"
  by (simp add: num_frac_def)

lemma num_of_int_exact [simp]: "\<bar>i\<bar> < 2 ^ 53 \<Longrightarrow> holds_int (num_of_int i) i"
  using to_double_exact [of 1 "nat \<bar>i\<bar>" "i < 0"] by (auto simp: num_of_int_def signed_nat_def nat_less_iff split: if_splits)

lemma int_of_num_holds: "holds_int x i \<Longrightarrow> int_of_num x = Some i"
proof (cases x)
  case (JFin s m e)
  assume h: "holds_int x i"
  obtain n d where nd: "num_frac m e = (n, d)" and d: "0 < d" using num_frac_pos [of m e] by (cases "num_frac m e") auto
  have v: "signed_nat s n = i * int d" using h JFin nd by (simp add: holds_int_def)
  then have "int n = \<bar>i\<bar> * int d" using abs_signed_nat [of s n] by (simp add: abs_mult)
  then have "int n = int (nat \<bar>i\<bar> * d)" by simp
  then have n: "n = nat \<bar>i\<bar> * d" by (simp only: of_nat_eq_iff)
  have "0 < i \<Longrightarrow> 0 < i * int d" "i < 0 \<Longrightarrow> i * int d < 0" using d by (simp_all add: mult_pos_pos mult_neg_pos)
  moreover have "s \<Longrightarrow> i * int d \<le> 0" "\<not> s \<Longrightarrow> 0 \<le> i * int d" using v by (simp_all add: signed_nat_def)
  ultimately have i: "(if s then - \<bar>i\<bar> else \<bar>i\<bar>) = i" by (cases s; cases "i \<le> 0"; cases "0 \<le> i") simp_all
  have "num_is_integer x" "n div d = nat \<bar>i\<bar>" using JFin nd n d by simp_all
  then show ?thesis using JFin nd i by (simp add: int_of_num_def)
qed (simp_all add: holds_int_def)

lemma num_add_exact:
  assumes "holds_int x i" "holds_int y j" "\<bar>i + j\<bar> < 2 ^ 53"
  shows "holds_int (num_add x y) (i + j)"
proof -
  obtain s m e t n f where xy: "x = JFin s m e" "y = JFin t n f"
    using assms by (auto simp: holds_int_def split: jsnum.splits)
  obtain a b c d where f: "num_frac m e = (a, b)" "num_frac n f = (c, d)" and p: "0 < b" "0 < d"
    using num_frac_pos [of m e] num_frac_pos [of n f] by (cases "num_frac m e"; cases "num_frac n f") auto
  have "signed_nat s a = i * int b" "signed_nat t c = j * int d" using assms xy f by (simp_all add: holds_int_def)
  then have v: "signed_nat s (a * d) + signed_nat t (c * b) = (i + j) * (int b * int d)"
    unfolding signed_nat_mult by (simp add: algebra_simps)
  show ?thesis
  proof (cases "i + j = 0")
    case True
    then show ?thesis using v xy f by (simp add: holds_int_def num_frac_def signed_nat_def)
  next
    case False
    have "nat \<bar>(i + j) * (int b * int d)\<bar> = nat \<bar>i + j\<bar> * (b * d)"
      by (simp add: abs_mult nat_mult_distrib)
    moreover have "((i + j) * (int b * int d) < 0) = (i + j < 0)" using p by (simp add: mult_less_0_iff)
    moreover have "(i + j) * (int b * int d) \<noteq> 0" using False p by simp
    ultimately have "num_add x y = to_double (i + j < 0) (nat \<bar>i + j\<bar> * (b * d)) (b * d)"
      unfolding xy using v f by simp
    moreover have "signed_nat (i + j < 0) (nat \<bar>i + j\<bar>) = i + j" by (simp add: signed_nat_def)
    ultimately show ?thesis using to_double_exact [of "b * d" "nat \<bar>i + j\<bar>" "i + j < 0"] p assms(3)
      by (simp add: nat_less_iff)
  qed
qed

lemma num_neg_exact: "holds_int x i \<Longrightarrow> holds_int (num_neg x) (- i)"
  by (cases x) (auto simp: holds_int_def signed_nat_def split: prod.splits if_splits)

lemma num_sub_exact: "holds_int x i \<Longrightarrow> holds_int y j \<Longrightarrow> \<bar>i - j\<bar> < 2 ^ 53 \<Longrightarrow> holds_int (num_sub x y) (i - j)"
  using num_add_exact [of x i "num_neg y" "- j"] num_neg_exact [of y j] by (simp add: num_sub_def)

text \<open>Comparisons of doubles that hold integers are comparisons of integers.\<close>

lemma holds_int_frac:
  assumes "holds_int x i"
  obtains s m e n d where "x = JFin s m e" "num_frac m e = (n, d)" "0 < d" "signed_nat s n = i * int d"
proof -
  obtain s m e where x: "x = JFin s m e" using assms by (cases x) (auto simp: holds_int_def)
  obtain n d where nd: "num_frac m e = (n, d)" by (cases "num_frac m e")
  show ?thesis using that [OF x nd] num_frac_pos [of m e] assms x nd by (simp add: holds_int_def)
qed

lemma num_cmp_holds:
  assumes "holds_int x i" "holds_int y j"
  shows "num_less x y \<longleftrightarrow> i < j" "num_eq x y \<longleftrightarrow> i = j" "num_le x y \<longleftrightarrow> i \<le> j"
proof -
  obtain s m e a b where x: "x = JFin s m e" "num_frac m e = (a, b)" "0 < b" "signed_nat s a = i * int b"
    using assms(1) by (rule holds_int_frac)
  obtain t n f c d where y: "y = JFin t n f" "num_frac n f = (c, d)" "0 < d" "signed_nat t c = j * int d"
    using assms(2) by (rule holds_int_frac)
  have l: "signed_nat s (a * d) = i * (int b * int d)" using x(4) by (simp add: signed_nat_mult)
  have "signed_nat t (c * b) = signed_nat t c * int b" by (rule signed_nat_mult)
  then have r: "signed_nat t (c * b) = j * (int b * int d)" using y(4) by simp
  have "0 < int b * int d" using x(3) y(3) by simp
  then show less: "num_less x y \<longleftrightarrow> i < j" and eq: "num_eq x y \<longleftrightarrow> i = j"
    using x y l r by simp_all
  show "num_le x y \<longleftrightarrow> i \<le> j" unfolding num_le_def less eq by linarith
qed

lemma holds_nat [simp]: "n < 2 ^ 53 \<Longrightarrow> holds_int (num_of_nat n) (int n)"
  using num_of_int_exact [of "int n"] by (simp add: num_of_int_def num_of_nat_def)

text \<open>\<open>Math.trunc\<close>.\<close>

fun num_trunc :: "jsnum \<Rightarrow> jsnum" where
  "num_trunc (JFin s m e) = (let (n, d) = num_frac m e in num_of_int (signed_nat s (n div d)))"
| "num_trunc x = x"

lemma num_trunc_holds: "holds_int x i \<Longrightarrow> \<bar>i\<bar> < 2 ^ 53 \<Longrightarrow> holds_int (num_trunc x) i"
proof -
  assume h: "holds_int x i" and i: "\<bar>i\<bar> < 2 ^ 53"
  obtain s m e n d where x: "x = JFin s m e" "num_frac m e = (n, d)" "0 < d" "signed_nat s n = i * int d"
    using h by (rule holds_int_frac)
  have "int n = int (nat \<bar>i\<bar> * d)" using abs_signed_nat [of s n] x(4) by (simp add: abs_mult)
  then have n: "n = nat \<bar>i\<bar> * d" by (simp only: of_nat_eq_iff)
  then have "signed_nat s n = signed_nat s (nat \<bar>i\<bar>) * int d" by (simp add: signed_nat_mult)
  then have "signed_nat s (nat \<bar>i\<bar>) = i" using x(3,4) by simp
  then have "num_trunc x = num_of_int i" using x n by simp
  then show ?thesis using i by simp
qed

end
