(* ===== verification/SignRequest.thy ===== *)
theory SignRequest imports Denom Format Base64 JsValue begin

text \<open>
  Reading a signing request (\<open>sdk/src/signrequest.ts\<close>): bytes to messages, nested messages followed
  to a bounded depth. The protobuf codecs are generated and third-party: arguments that say which
  types are registered, and decode bytes to the type's JSON (\<open>None\<close> when the decoder throws). The
  sentence of a message is the argument \<open>sentence\<close> (\<open>decodeMessage\<close> of \<open>decode.ts\<close>), \<open>None\<close> where it throws:
  nothing here catches that, so the summary is then \<open>None\<close>.
\<close>

section \<open>Messages\<close>

datatype msg_problem = Unregistered | Malformed

record decoded_message =
  dm_summary :: string
  dm_raw :: json

datatype request_message =
  RequestMessage (rm_type: string) (rm_decoded: "decoded_message option") (rm_problem: "msg_problem option")
    (rm_contains: "request_message list")

record request_fee =
  rf_amount :: "coin list"
  rf_gas :: string
  rf_payer :: "string option"
  rf_granter :: "string option"

record signing_summary =
  ss_messages :: "request_message list"
  ss_memo :: string
  ss_fee :: "request_fee option"
  ss_undecodable :: "string option"
  ss_incomplete :: bool

record tx_body =
  tb_messages :: "(string \<times> byte list) list"
  tb_memo :: string

record auth_fee =
  af_amount :: "coin list"
  af_gas :: int
  af_payer :: string
  af_granter :: string

text \<open>The generated and third-party codecs. \<open>pc_auth\<close> gives \<open>Some None\<close> for an auth-info without a fee.\<close>

record codecs =
  pc_known :: "string \<Rightarrow> bool"
  pc_json :: "string \<Rightarrow> byte list \<Rightarrow> json option"
  pc_body :: "byte list \<Rightarrow> string + tx_body"
  pc_auth :: "byte list \<Rightarrow> auth_fee option option"

section \<open>Decoding\<close>

text \<open>\<open>key.replace(/([a-z0-9])([A-Z])/g, '$1_$2').toLowerCase()\<close>.\<close>

fun snake_case :: "string \<Rightarrow> string" where
  "snake_case (a # b # s) =
     (if (a \<in> set lower_alphabet \<or> is_digit a) \<and> b \<in> set upper_alphabet
      then to_lower_char a # CHR ''_'' # snake_case (b # s) else to_lower_char a # snake_case (b # s))"
| "snake_case [a] = [to_lower_char a]"
| "snake_case [] = []"

fun snakeKeys :: "json \<Rightarrow> json" where
  "snakeKeys (JArr xs) = JArr (map snakeKeys xs)"
| "snakeKeys (JObj ms) =
     JObj (fold (\<lambda>(key, v) out.
       let snake = snake_case key; out = map_set snake v out in
       if snake \<noteq> key \<and> (key = ''typeUrl'' \<or> key = ''msgTypeUrl'') then map_set key v out else out)
       (map (\<lambda>(k, v). (k, snakeKeys v)) ms) [])"
| "snakeKeys v = v"

fun collectAnys :: "json \<Rightarrow> (string \<times> byte list) list" where
  "collectAnys (JArr xs) = concat (map collectAnys xs)"
| "collectAnys (JObj ms) =
     (case (coalesce (map_of ms ''type_url'') (map_of ms ''typeUrl''), map_of ms ''value'') of
        (Some (JStr url), Some (JStr raw)) \<Rightarrow>
          (if starts_with url ''/'' then
             (case atob raw of Some bytes \<Rightarrow> [(url, bytes)] | None \<Rightarrow> concat (map (\<lambda>m. collectAnys (snd m)) ms))
           else concat (map (\<lambda>m. collectAnys (snd m)) ms))
      | _ \<Rightarrow> concat (map (\<lambda>m. collectAnys (snd m)) ms))"
| "collectAnys _ = []"

definition toJsonShape :: "codecs \<Rightarrow> string \<Rightarrow> byte list \<Rightarrow> json option" where
  "toJsonShape pc typeUrl bytes = map_option snakeKeys (pc_json pc typeUrl bytes)"

definition MAX_DEPTH :: nat where "MAX_DEPTH = 4"

definition with_type :: "json \<Rightarrow> string \<Rightarrow> json" where
  "with_type j typeUrl = (case j of JObj ms \<Rightarrow> JObj (map_set ''@type'' (JStr typeUrl) ms) | _ \<Rightarrow> JObj [(''@type'', JStr typeUrl)])"

text \<open>\<open>decodeAny\<close> at depth \<open>MAX_DEPTH - k\<close>.\<close>

fun decode_any :: "codecs \<Rightarrow> (json \<Rightarrow> string option) \<Rightarrow> nat \<Rightarrow> string \<Rightarrow> byte list \<Rightarrow> request_message option" where
  "decode_any pc sentence k typeUrl bytes =
    (if \<not> pc_known pc typeUrl then Some (RequestMessage typeUrl None (Some Unregistered) []) else
     case toJsonShape pc typeUrl bytes of
       None \<Rightarrow> Some (RequestMessage typeUrl None (Some Malformed) [])
     | Some j \<Rightarrow>
         (case (case k of 0 \<Rightarrow> Some [] | Suc k' \<Rightarrow> those (map (\<lambda>(u, b). decode_any pc sentence k' u b) (collectAnys j))) of
            None \<Rightarrow> None
          | Some contains \<Rightarrow>
              map_option (\<lambda>t. RequestMessage typeUrl (Some \<lparr>dm_summary = t, dm_raw = with_type j typeUrl\<rparr>) None contains)
                (sentence (with_type j typeUrl))))"

declare decode_any.simps [simp del, evals]

fun anyIncomplete :: "request_message \<Rightarrow> bool" where
  "anyIncomplete (RequestMessage _ _ problem contains) \<longleftrightarrow> problem \<noteq> None \<or> list_ex anyIncomplete contains"

definition or_undefined :: "string \<Rightarrow> string option" where
  "or_undefined s = (if s = [] then None else Some s)"

definition read_fee :: "codecs \<Rightarrow> byte list option \<Rightarrow> request_fee option" where
  "read_fee pc auth =
    (case auth of None \<Rightarrow> None
     | Some bytes \<Rightarrow>
        (case pc_auth pc bytes of
           Some (Some f) \<Rightarrow> Some \<lparr>rf_amount = af_amount f, rf_gas = show_int (af_gas f),
              rf_payer = or_undefined (af_payer f), rf_granter = or_undefined (af_granter f)\<rparr>
         | _ \<Rightarrow> None))"

definition summariseSigningRequest ::
  "codecs \<Rightarrow> (json \<Rightarrow> string option) \<Rightarrow> byte list \<Rightarrow> byte list option \<Rightarrow> signing_summary option" where
  "summariseSigningRequest pc sentence bodyBytes authInfoBytes =
    (case pc_body pc bodyBytes of
       Inl err \<Rightarrow> Some \<lparr>ss_messages = [], ss_memo = [], ss_fee = None, ss_undecodable = Some err, ss_incomplete = True\<rparr>
     | Inr body \<Rightarrow>
        map_option (\<lambda>messages.
            \<lparr>ss_messages = messages, ss_memo = tb_memo body, ss_fee = read_fee pc authInfoBytes, ss_undecodable = None,
             ss_incomplete = list_ex anyIncomplete messages\<rparr>)
          (those (map (\<lambda>(u, b). decode_any pc sentence MAX_DEPTH u b) (tb_messages body))))"

section \<open>Sentences\<close>

definition shortTypeUrl :: "string \<Rightarrow> string" where
  "shortTypeUrl typeUrl = (if typeUrl = [] then ''unknown'' else last (split_on CHR ''.'' typeUrl))"

fun describe_message :: "request_message \<Rightarrow> string" where
  "describe_message (RequestMessage typeUrl decoded problem contains) =
    (case problem of
       Some Unregistered \<Rightarrow> ''An action this wallet cannot read: '' @ shortTypeUrl typeUrl
     | Some Malformed \<Rightarrow> ''A message that is not valid '' @ shortTypeUrl typeUrl
     | None \<Rightarrow>
        let summary = (case decoded of None \<Rightarrow> shortTypeUrl typeUrl | Some d \<Rightarrow> dm_summary d) in
        (case contains of [inner] \<Rightarrow> summary @ '': '' @ describe_message inner | _ \<Rightarrow> summary))"

definition headline :: "signing_summary \<Rightarrow> string" where
  "headline s =
    (if (case ss_undecodable s of Some e \<Rightarrow> e \<noteq> [] | None \<Rightarrow> False) then ''These bytes could not be read''
     else case ss_messages s of
        [] \<Rightarrow> ''A transaction that does nothing''
      | [m] \<Rightarrow> describe_message m
      | ms \<Rightarrow> dec_nat (length ms) @ '' actions in one transaction'')"

text \<open>\<open>names\<close> is the context's address book; the dash is U+2014.\<close>

definition describeFee :: "request_fee option \<Rightarrow> (string \<Rightarrow> string option) \<Rightarrow> registry \<Rightarrow> string option" where
  "describeFee fee names reg =
    (case fee of None \<Rightarrow> None
     | Some f \<Rightarrow>
        let paying = filter (\<lambda>c. c_amount c \<noteq> ''0'' \<and> c_amount c \<noteq> []) (rf_amount f);
            name = (\<lambda>a. case names a of Some n \<Rightarrow> n | None \<Rightarrow> truncateAddress a);
            dash = '' '' @ [CHR 0xE2, CHR 0x80, CHR 0x94] @ '' paid by '';
            given = (\<lambda>x. case x of Some a \<Rightarrow> a \<noteq> [] | None \<Rightarrow> False);
            payer = (if given (rf_granter f) then dash @ name (the (rf_granter f)) @ [CHR 0x27] @ ''s allowance''
                     else if given (rf_payer f) then dash @ name (the (rf_payer f)) else []) in
        if paying = [] then (if payer \<noteq> [] then Some (''No network fee'' @ payer) else None)
        else Some (''Network fee '' @
               join_with '' + '' (map (\<lambda>c. formatAmount (BText (c_amount c)) (c_denom c) (default_format\<lparr>fo_registry := reg\<rparr>)) paying)
               @ payer))"

section \<open>What the summary promises\<close>

fun all_messages :: "request_message \<Rightarrow> request_message list" where
  "all_messages (RequestMessage u d p ms) = RequestMessage u d p ms # concat (map all_messages ms)"

fun height :: "request_message \<Rightarrow> nat" where
  "height (RequestMessage u d p ms) = Suc (foldr max (map height ms) 0)"

lemma foldr_max_le: "foldr max ns 0 \<le> k \<longleftrightarrow> (\<forall>n \<in> set ns. n \<le> (k :: nat))"
  by (induction ns) auto

lemma anyIncomplete_iff: "anyIncomplete m \<longleftrightarrow> (\<exists>x \<in> set (all_messages m). rm_problem x \<noteq> None)"
  by (induction m rule: anyIncomplete.induct) (auto simp: list_ex_iff)

lemma those_all2: "those xs = Some ys \<longleftrightarrow> list_all2 (\<lambda>x y. x = Some y) xs ys"
  by (induction xs arbitrary: ys) (auto split: option.splits simp: list_all2_Cons1)

lemma those_None: "those xs = None \<longleftrightarrow> None \<in> set xs"
  by (induction xs) (auto split: option.splits)

lemma list_all2_Union:
  assumes "list_all2 (\<lambda>x y. f y = g x) xs ys"
  shows "(\<Union>y \<in> set ys. f y) = (\<Union>x \<in> set xs. g x)"
  using assms by (induction rule: list_all2_induct) auto

text \<open>
  The messages a list of \<open>Any\<close>s carries: the type and the bytes of each, then what the registered codec
  finds inside them, down to \<open>k\<close> levels.
\<close>

definition inside :: "codecs \<Rightarrow> string \<times> byte list \<Rightarrow> (string \<times> byte list) list" where
  "inside pc = (\<lambda>(u, b). if pc_known pc u then (case toJsonShape pc u b of None \<Rightarrow> [] | Some j \<Rightarrow> collectAnys j) else [])"

fun carried_to :: "codecs \<Rightarrow> nat \<Rightarrow> (string \<times> byte list) list \<Rightarrow> (string \<times> byte list) list" where
  "carried_to pc 0 ms = ms"
| "carried_to pc (Suc k) ms = ms @ carried_to pc k (concat (map (inside pc) ms))"

text \<open>What an honest reader says of such a message: its type, and its own decoding or why there is none.\<close>

definition any_reading :: "codecs \<Rightarrow> (json \<Rightarrow> string option) \<Rightarrow> string \<times> byte list \<Rightarrow> string \<times> decoded_message option \<times> msg_problem option" where
  "any_reading pc sentence = (\<lambda>(u, b).
     if \<not> pc_known pc u then (u, None, Some Unregistered) else
     case toJsonShape pc u b of None \<Rightarrow> (u, None, Some Malformed)
     | Some j \<Rightarrow> (u, map_option (\<lambda>t. \<lparr>dm_summary = t, dm_raw = with_type j u\<rparr>) (sentence (with_type j u)), None))"

definition shown :: "request_message \<Rightarrow> string \<times> decoded_message option \<times> msg_problem option" where
  "shown x = (rm_type x, rm_decoded x, rm_problem x)"

definition any_unread :: "codecs \<Rightarrow> string \<times> byte list \<Rightarrow> bool" where
  "any_unread pc = (\<lambda>(u, b). \<not> pc_known pc u \<or> toJsonShape pc u b = None)"

definition no_sentence :: "codecs \<Rightarrow> (json \<Rightarrow> string option) \<Rightarrow> string \<times> byte list \<Rightarrow> bool" where
  "no_sentence pc sentence = (\<lambda>(u, b). pc_known pc u \<and> (\<exists>j. toJsonShape pc u b = Some j \<and> sentence (with_type j u) = None))"

lemma carried_append: "set (carried_to pc k (xs @ ys)) = set (carried_to pc k xs) \<union> set (carried_to pc k ys)"
  by (induction k arbitrary: xs ys) auto

lemma carried_nil: "carried_to pc k [] = []" by (induction k) auto

lemma carried_each: "set (carried_to pc k ms) = (\<Union>m \<in> set ms. set (carried_to pc k [m]))"
proof (induction ms)
  case (Cons m ms)
  then show ?case using carried_append [of pc k "[m]" ms] by simp
qed (simp add: carried_nil)

lemma carried_one: "set (carried_to pc (Suc k) [m]) = insert m (\<Union>x \<in> set (inside pc m). set (carried_to pc k [x]))"
  using carried_each [of pc k "inside pc m"] by simp

lemma shown_problem: "rm_problem x = snd (snd (shown x))" by (simp add: shown_def)

lemma any_reading_problem: "snd (snd (any_reading pc sentence m)) \<noteq> None \<longleftrightarrow> any_unread pc m"
  by (cases m) (auto simp: any_reading_def any_unread_def split: option.splits)

lemma read_any:
  assumes "pc_known pc u" and "toJsonShape pc u b = Some j"
  shows "decode_any pc sentence k u b =
    (case (case k of 0 \<Rightarrow> Some [] | Suc k' \<Rightarrow> those (map (\<lambda>(u, b). decode_any pc sentence k' u b) (inside pc (u, b)))) of
       None \<Rightarrow> None
     | Some ms \<Rightarrow> map_option (\<lambda>t. RequestMessage u (Some \<lparr>dm_summary = t, dm_raw = with_type j u\<rparr>) None ms) (sentence (with_type j u)))"
proof -
  have "inside pc (u, b) = collectAnys j" using assms by (simp add: inside_def)
  then show ?thesis using assms by (cases k) (subst decode_any.simps, simp)+
qed

lemma any_unread_decoded:
  assumes "any_unread pc (u, b)"
  shows "\<exists>p. decode_any pc sentence k u b = Some (RequestMessage u None (Some p) []) \<and> any_reading pc sentence (u, b) = (u, None, Some p) \<and> inside pc (u, b) = []"
  using assms by (subst decode_any.simps) (auto simp: any_unread_def any_reading_def inside_def)

lemma all_messages_node: "shown ` set (all_messages (RequestMessage u d p ms)) = insert (u, d, p) (\<Union>m \<in> set ms. shown ` set (all_messages m))"
  by (auto simp: shown_def)

lemma decode_any_shows:
  "decode_any pc sentence k u b = Some m \<Longrightarrow>
     shown ` set (all_messages m) = any_reading pc sentence ` set (carried_to pc k [(u, b)]) \<and> height m \<le> Suc k \<and> rm_type m = u"
proof (induction k arbitrary: u b m)
  case 0
  show ?case
  proof (cases "any_unread pc (u, b)")
    case True
    then show ?thesis using 0 any_unread_decoded [OF True, of sentence 0] by (auto simp: shown_def)
  next
    case False
    then obtain j where j: "pc_known pc u" "toJsonShape pc u b = Some j" by (auto simp: any_unread_def)
    then show ?thesis using 0 by (auto simp: read_any [OF j] any_reading_def shown_def)
  qed
next
  case (Suc k)
  show ?case
  proof (cases "any_unread pc (u, b)")
    case True
    then obtain p where p: "m = RequestMessage u None (Some p) []" "any_reading pc sentence (u, b) = (u, None, Some p)" "inside pc (u, b) = []"
      using Suc.prems any_unread_decoded [OF True, of sentence "Suc k"] by auto
    have "carried_to pc k [] = []" by (rule carried_nil)
    then show ?thesis using p by (auto simp: shown_def)
  next
    case False
    then obtain j where j: "pc_known pc u" "toJsonShape pc u b = Some j" by (auto simp: any_unread_def)
    then obtain ms t where ms: "those (map (\<lambda>(u, b). decode_any pc sentence k u b) (inside pc (u, b))) = Some ms"
      and t: "sentence (with_type j u) = Some t" "m = RequestMessage u (Some \<lparr>dm_summary = t, dm_raw = with_type j u\<rparr>) None ms"
      using Suc.prems by (auto simp: read_any [OF j] split: option.splits)
    have l: "list_all2 (\<lambda>x m. decode_any pc sentence k (fst x) (snd x) = Some m) (inside pc (u, b)) ms"
      using ms by (simp add: those_all2 list.rel_map case_prod_beta)
    then have "list_all2 (\<lambda>x m. shown ` set (all_messages m) = any_reading pc sentence ` set (carried_to pc k [x]) \<and> height m \<le> Suc k) (inside pc (u, b)) ms"
      by (rule list_all2_mono) (use Suc.IH in force)
    then have s: "list_all2 (\<lambda>x m. shown ` set (all_messages m) = any_reading pc sentence ` set (carried_to pc k [x])) (inside pc (u, b)) ms"
      and h: "\<forall>m \<in> set ms. height m \<le> Suc k"
      by (auto elim!: list_all2_mono simp: in_set_conv_nth list_all2_conv_all_nth)
    have "any_reading pc sentence (u, b) = (u, Some \<lparr>dm_summary = t, dm_raw = with_type j u\<rparr>, None)"
      using j t by (simp add: any_reading_def)
    then have "shown ` set (all_messages m) = any_reading pc sentence ` set (carried_to pc (Suc k) [(u, b)])"
      unfolding t(2) all_messages_node list_all2_Union [OF s] carried_one by auto
    then show ?thesis using h by (simp add: t(2) foldr_max_le)
  qed
qed

lemma decode_any_throws:
  "decode_any pc sentence k u b = None \<longleftrightarrow> (\<exists>x \<in> set (carried_to pc k [(u, b)]). no_sentence pc sentence x)"
proof (induction k arbitrary: u b)
  case 0
  show ?case by (subst decode_any.simps) (auto simp: no_sentence_def split: option.splits)
next
  case (Suc k)
  show ?case
  proof (cases "any_unread pc (u, b)")
    case True
    moreover have "carried_to pc k [] = []" by (rule carried_nil)
    ultimately show ?thesis using any_unread_decoded [OF True, of sentence "Suc k"] by (auto simp: no_sentence_def any_unread_def)
  next
    case False
    then obtain j where j: "pc_known pc u" "toJsonShape pc u b = Some j" by (auto simp: any_unread_def)
    have n: "no_sentence pc sentence (u, b) \<longleftrightarrow> sentence (with_type j u) = None" using j by (auto simp: no_sentence_def)
    have i: "decode_any pc sentence k (fst x) (snd x) = None \<longleftrightarrow> (\<exists>y \<in> set (carried_to pc k [x]). no_sentence pc sentence y)" for x
      using Suc.IH [of "fst x" "snd x"] by simp
    have "those (map (\<lambda>(u, b). decode_any pc sentence k u b) (inside pc (u, b))) = None \<longleftrightarrow>
        (\<exists>x \<in> set (inside pc (u, b)). \<exists>y \<in> set (carried_to pc k [x]). no_sentence pc sentence y)"
      by (simp only: those_None set_map image_iff case_prod_beta i [symmetric]) metis
    then show ?thesis unfolding carried_one read_any [OF j] by (auto simp: n split: option.splits)
  qed
qed

text \<open>
  C16. What an approval screen is shown is what the bytes are. The messages of a request, at every depth
  followed, are those its body carries, each with the decoding of its own bytes by the registered codec of
  its type, or called unregistered or malformed exactly when that is so; none is left out down to four
  levels of nesting, and the reading goes no deeper. The request is reported incomplete exactly when
  one of these has no decoding or the body has none, and there is no summary at all, an exception, exactly
  when the sentence of one of them throws.
\<close>

theorem request_summary_is_honest:
  "case pc_body pc bodyBytes of
     Inl err \<Rightarrow> summariseSigningRequest pc sentence bodyBytes auth =
       Some \<lparr>ss_messages = [], ss_memo = [], ss_fee = None, ss_undecodable = Some err, ss_incomplete = True\<rparr>
   | Inr body \<Rightarrow>
      (summariseSigningRequest pc sentence bodyBytes auth = None \<longleftrightarrow>
        (\<exists>x \<in> set (carried_to pc MAX_DEPTH (tb_messages body)). no_sentence pc sentence x)) \<and>
      (\<forall>s. summariseSigningRequest pc sentence bodyBytes auth = Some s \<longrightarrow>
        ss_undecodable s = None \<and> map rm_type (ss_messages s) = map fst (tb_messages body) \<and>
        (\<Union>m \<in> set (ss_messages s). shown ` set (all_messages m)) = any_reading pc sentence ` set (carried_to pc MAX_DEPTH (tb_messages body)) \<and>
        (ss_incomplete s \<longleftrightarrow> (\<exists>x \<in> set (carried_to pc MAX_DEPTH (tb_messages body)). any_unread pc x)) \<and>
        (\<forall>m \<in> set (ss_messages s). height m \<le> 5))"
proof (cases "pc_body pc bodyBytes")
  case (Inr body)
  let ?all = "carried_to pc MAX_DEPTH (tb_messages body)" and ?ds = "map (\<lambda>(u, b). decode_any pc sentence MAX_DEPTH u b) (tb_messages body)"
  have "summariseSigningRequest pc sentence bodyBytes auth = None \<longleftrightarrow> (\<exists>x \<in> set (tb_messages body). decode_any pc sentence MAX_DEPTH (fst x) (snd x) = None)"
    by (simp add: summariseSigningRequest_def Inr those_None image_iff case_prod_beta) metis
  also have "\<dots> \<longleftrightarrow> (\<exists>x \<in> set ?all. no_sentence pc sentence x)"
    using carried_each [of pc MAX_DEPTH "tb_messages body"] by (simp add: decode_any_throws)
  finally have none: "summariseSigningRequest pc sentence bodyBytes auth = None \<longleftrightarrow> (\<exists>x \<in> set ?all. no_sentence pc sentence x)" .
  have some: "ss_undecodable s = None \<and> map rm_type (ss_messages s) = map fst (tb_messages body) \<and>
        (\<Union>m \<in> set (ss_messages s). shown ` set (all_messages m)) = any_reading pc sentence ` set ?all \<and>
        (ss_incomplete s \<longleftrightarrow> (\<exists>x \<in> set ?all. any_unread pc x)) \<and> (\<forall>m \<in> set (ss_messages s). height m \<le> 5)"
    if sm: "summariseSigningRequest pc sentence bodyBytes auth = Some s" for s
  proof -
    obtain ms where ms: "those ?ds = Some ms" and s: "ss_messages s = ms" "ss_undecodable s = None" "ss_incomplete s = list_ex anyIncomplete ms"
      using sm by (auto simp: summariseSigningRequest_def Inr)
    have "list_all2 (\<lambda>x m. decode_any pc sentence MAX_DEPTH (fst x) (snd x) = Some m) (tb_messages body) ms"
      using ms by (simp add: those_all2 list.rel_map case_prod_beta)
    then have l: "list_all2 (\<lambda>x m. shown ` set (all_messages m) = any_reading pc sentence ` set (carried_to pc MAX_DEPTH [x]) \<and>
        height m \<le> Suc MAX_DEPTH \<and> rm_type m = fst x) (tb_messages body) ms"
      by (rule list_all2_mono) (use decode_any_shows in force)
    then have u: "list_all2 (\<lambda>x m. shown ` set (all_messages m) = any_reading pc sentence ` set (carried_to pc MAX_DEPTH [x])) (tb_messages body) ms"
      and t: "map rm_type ms = map fst (tb_messages body)" and h: "\<forall>m \<in> set ms. height m \<le> 5"
      by (auto elim!: list_all2_mono intro!: nth_equalityI simp: in_set_conv_nth list_all2_conv_all_nth MAX_DEPTH_def)
    have all: "(\<Union>m \<in> set ms. shown ` set (all_messages m)) = any_reading pc sentence ` set ?all"
      unfolding list_all2_Union [OF u] carried_each [of pc MAX_DEPTH "tb_messages body"] by auto
    have "list_ex anyIncomplete ms \<longleftrightarrow> (\<exists>y \<in> (\<Union>m \<in> set ms. shown ` set (all_messages m)). snd (snd y) \<noteq> None)"
      by (simp add: list_ex_iff anyIncomplete_iff shown_problem del: split_paired_Ex split_paired_All)
    also have "\<dots> \<longleftrightarrow> (\<exists>x \<in> set ?all. any_unread pc x)" unfolding all by (simp only: bex_simps any_reading_problem)
    finally show ?thesis using all t h s by simp
  qed
  show ?thesis using none some by (simp only: Inr sum.case) blast
qed (simp add: summariseSigningRequest_def)

text \<open>
  Where the source says more than it does. A message five levels in is not read and does not make the
  request incomplete; and a fee that cannot be read is no fee, not an incomplete reading.
\<close>

lemma unreadable_fee_reads_as_none:
  "pc_auth pc a = None \<Longrightarrow> summariseSigningRequest pc sentence bodyBytes (Some a) = summariseSigningRequest pc sentence bodyBytes None"
  by (simp add: summariseSigningRequest_def read_fee_def split: sum.split)

text \<open>A wrapper that holds the wrapper of the rest of its bytes, and an unknown message when there are none.\<close>

definition deep_codecs :: codecs where
  "deep_codecs = \<lparr>pc_known = (\<lambda>u. u = ''/a.W''),
     pc_json = (\<lambda>u b. Some (JObj [(''msg'', JObj [(''typeUrl'', JStr (if b = [] then ''/a.X'' else ''/a.W'')), (''value'', JStr (btoa (tl b)))])])),
     pc_body = (\<lambda>b. Inr \<lparr>tb_messages = [(''/a.W'', b)], tb_memo = []\<rparr>), pc_auth = (\<lambda>b. None)\<rparr>"

lemma deep_messages_are_not_counted:
  "case summariseSigningRequest deep_codecs (\<lambda>j. Some ''wrapped'') [0, 0, 0, 0] None of None \<Rightarrow> False | Some s \<Rightarrow> \<not> ss_incomplete s"
  "(''/a.X'', []) \<in> set (carried_to deep_codecs 5 [(''/a.W'', [0, 0, 0, 0])])"
  by code_simp+

definition sample_codecs :: codecs where
  "sample_codecs = \<lparr>pc_known = (\<lambda>u. u = ''/a.MsgWrap'' \<or> u = ''/a.MsgSend''),
     pc_json = (\<lambda>u b. if u = ''/a.MsgWrap''
        then Some (JObj [(''msgs'', JArr [JObj [(''typeUrl'', JStr ''/a.MsgUnknown''), (''value'', JStr ''AQI='')]])])
        else Some (JObj [])),
     pc_body = (\<lambda>b. Inr \<lparr>tb_messages = [(''/a.MsgWrap'', [])], tb_memo = []\<rparr>), pc_auth = (\<lambda>b. None)\<rparr>"

lemma request_summary_is_honest_witness:
  "\<exists>s. summariseSigningRequest sample_codecs (\<lambda>j. Some ''wrapped'') [] None = Some s \<and> ss_incomplete s"
proof -
  have u: "list_ex (\<lambda>(u, b). \<not> pc_known sample_codecs u) (carried_to sample_codecs MAX_DEPTH [(''/a.MsgWrap'', [])])" by code_simp
  then have e: "\<exists>x \<in> set (carried_to sample_codecs MAX_DEPTH [(''/a.MsgWrap'', [])]). any_unread sample_codecs x"
    by (force simp: list_ex_iff any_unread_def)
  have b: "pc_body sample_codecs [] = Inr \<lparr>tb_messages = [(''/a.MsgWrap'', [])], tb_memo = []\<rparr>" by (simp add: sample_codecs_def)
  have q: "\<not> no_sentence sample_codecs (\<lambda>j. Some ''wrapped'') x" for x by (simp add: no_sentence_def split: prod.split)
  show ?thesis
    using request_summary_is_honest [where pc = sample_codecs and bodyBytes = "[]" and sentence = "\<lambda>j. Some ''wrapped''" and auth = None] e q
    by (cases "summariseSigningRequest sample_codecs (\<lambda>j. Some ''wrapped'') [] None") (simp_all add: b)
qed

end
