(* ===== verification/Consequence.thy ===== *)
theory Consequence imports SignRequest begin

text \<open>
  What signing does to the signing account (\<open>sdk/src/consequence.ts\<close>): the table of classifiers, the
  walk over a request's messages, and the totals. Addresses and amounts are the JSON values the
  decoded message holds; a coin is its two members.
\<close>

datatype reversibility = Irreversible | Delayed | Revocable | Proposal | Harmless | Unknown

text \<open>\<open>Harmless\<close> is the source's \<open>'none'\<close>. The list is the severity order.\<close>

definition REVERSIBILITY :: "reversibility list" where
  "REVERSIBILITY = [Irreversible, Delayed, Revocable, Proposal, Harmless, Unknown]"

datatype side = Outgoing | Incoming | Elsewhere

record jcoin =
  jc_denom :: json
  jc_amount :: json

record movement =
  mv_coins :: "jcoin list"
  mv_from :: "json option"
  mv_to :: "json option"
  mv_side :: side

record lock_effect =
  lk_coins :: "jcoin list"
  lk_beneficiary :: "json option"
  lk_releases :: "jsnum option"
  lk_revocable :: bool
  lk_note :: string
  lk_unknown :: bool

record authority_effect =
  au_grantee :: "json option"
  au_power :: string

record effect =
  ef_movements :: "movement list"
  ef_locks :: "lock_effect list"
  ef_authority :: "authority_effect list"
  ef_rev :: reversibility

section \<open>Reading coins, sides and times\<close>

definition coin_member :: "json \<Rightarrow> jcoin option" where
  "coin_member c = (case (member ''denom'' c, member ''amount'' c) of
      (Some d, Some a) \<Rightarrow> Some \<lparr>jc_denom = d, jc_amount = a\<rparr> | _ \<Rightarrow> None)"

definition coinList :: "json option \<Rightarrow> jcoin list" where
  "coinList j = (case j of Some (JArr xs) \<Rightarrow> List.map_filter coin_member xs | _ \<Rightarrow> [])"

text \<open>A missing amount is \<open>undefined\<close>; it is kept as \<open>null\<close>, which \<open>BigInt\<close> refuses just the same.\<close>

definition oneCoin :: "json option \<Rightarrow> jcoin list" where
  "oneCoin j = (case j of
      Some (JObj ms) \<Rightarrow> (case map_of ms ''denom'' of
         Some d \<Rightarrow> [\<lparr>jc_denom = d, jc_amount = (case map_of ms ''amount'' of Some a \<Rightarrow> a | None \<Rightarrow> JNull)\<rparr>]
       | None \<Rightarrow> [])
    | _ \<Rightarrow> [])"

definition splitCoin :: "json option \<Rightarrow> json option \<Rightarrow> jcoin list" where
  "splitCoin amount denom = (case (amount, denom) of
      (Some (JStr a), Some (JStr d)) \<Rightarrow> if a \<noteq> [] \<and> d \<noteq> [] then [\<lparr>jc_denom = JStr d, jc_amount = JStr a\<rparr>] else []
    | _ \<Rightarrow> [])"

definition sideOf :: "json option \<Rightarrow> json option \<Rightarrow> string \<Rightarrow> side" where
  "sideOf frm dest signer =
    (if signer \<noteq> [] \<and> frm = Some (JStr signer) then Outgoing
     else if signer \<noteq> [] \<and> dest = Some (JStr signer) then Incoming else Elsewhere)"

definition seconds_of :: "json option \<Rightarrow> jsnum option" where
  "seconds_of j = (case j of
      Some (JNum x) \<Rightarrow> if num_is_finite x \<and> num_less (JFin False 0 0) x then Some x else None
    | Some (JStr s) \<Rightarrow> if s \<noteq> [] \<and> all_digits s \<and> s \<noteq> ''0'' then Some (number s) else None
    | _ \<Rightarrow> None)"

section \<open>The classifiers\<close>

text \<open>
  One entry per message type. \<open>fld\<close> reads a member of the message; \<open>label\<close> is the template
  \<open>`name ${m.field ?? '?'}`\<close>; the apostrophe of the notes is U+2019.
\<close>

type_synonym classifier = "json \<Rightarrow> string \<Rightarrow> effect"

definition moves :: "movement list \<Rightarrow> reversibility \<Rightarrow> effect" where
  "moves ms r = \<lparr>ef_movements = ms, ef_locks = [], ef_authority = [], ef_rev = r\<rparr>"

definition locking_effect :: "lock_effect list \<Rightarrow> reversibility \<Rightarrow> effect" where
  "locking_effect ls r = \<lparr>ef_movements = [], ef_locks = ls, ef_authority = [], ef_rev = r\<rparr>"

definition grants :: "authority_effect list \<Rightarrow> reversibility \<Rightarrow> effect" where
  "grants as r = \<lparr>ef_movements = [], ef_locks = [], ef_authority = as, ef_rev = r\<rparr>"

definition only :: "reversibility \<Rightarrow> classifier" where
  "only r = (\<lambda>m signer. moves [] r)"

definition label :: "string \<Rightarrow> json \<Rightarrow> string \<Rightarrow> json option" where
  "label name m field = Some (JStr (name @ '' '' @ js_string_or (member field m) ''?''))"

definition move :: "jcoin list \<Rightarrow> json option \<Rightarrow> json option \<Rightarrow> side \<Rightarrow> movement" where
  "move coins frm dest s = \<lparr>mv_coins = coins, mv_from = frm, mv_to = dest, mv_side = s\<rparr>"


definition class_send :: classifier where
  "class_send m signer = moves [move (coinList (member ''amount'' m)) (member ''from_address'' m) (member ''to_address'' m)
     (sideOf (member ''from_address'' m) (member ''to_address'' m) signer)] Irreversible"

definition class_payment :: classifier where
  "class_payment m signer = moves [move (splitCoin (member ''amount'' m) (member ''denom'' m)) (member ''debtor'' m) (member ''creditor'' m)
     (sideOf (member ''debtor'' m) (member ''creditor'' m) signer)] Irreversible"

definition class_transfer :: classifier where
  "class_transfer m signer = moves [move (oneCoin (member ''token'' m)) (member ''sender'' m) (member ''receiver'' m)
     (sideOf (member ''sender'' m) (member ''receiver'' m) signer)] Irreversible"

definition class_swap :: classifier where
  "class_swap m signer = moves [move (splitCoin (member ''token_in_amount'' m) (member ''token_in_denom'' m)) (member ''sender'' m)
     (label ''pool'' m ''pool_id'') (sideOf (member ''sender'' m) None signer)] Irreversible"

definition class_burn :: classifier where
  "class_burn m signer = moves [move (splitCoin (member ''amount'' m) (member ''denom'' m)) (member ''issuer'' m) None
     (sideOf (member ''issuer'' m) None signer)] Irreversible"

definition class_fund_pool :: classifier where
  "class_fund_pool m signer = moves [move (coinList (member ''amount'' m)) (member ''depositor'' m) (Some (JStr ''the community pool''))
     (sideOf (member ''depositor'' m) None signer)] Irreversible"

definition class_spend :: classifier where
  "class_spend m signer = moves [move (coinList (member ''amount'' m)) (label ''treasury'' m ''treasury_id'') (member ''recipient'' m)
     (sideOf None (member ''recipient'' m) signer)] Irreversible"

definition class_deposit :: classifier where
  "class_deposit m signer = moves [move (coinList (member ''amount'' m)) (member ''depositor'' m) (label ''treasury'' m ''treasury_id'')
     (sideOf (member ''depositor'' m) None signer)] Irreversible"

definition class_create_lock :: classifier where
  "class_create_lock m signer =
    (let coins = (case (member ''amount'' m, member ''denom'' m) of
           (Some (JStr a), Some (JStr d)) \<Rightarrow> [\<lparr>jc_denom = JStr d, jc_amount = JStr a\<rparr>] | _ \<Rightarrow> []);
         releasesAt = seconds_of (member ''end_time'' m);
         revocable = truthy_json (member ''revocable'' m);
         note = (if member ''lock_type'' m = Some (JStr ''LOCK_TYPE_VESTING'')
             then ''committed to a beneficiary and released to them gradually''
           else if member ''lock_type'' m = Some (JStr ''LOCK_TYPE_CONDITIONAL'')
             then ''held until whoever committed it confirms, or a named moderator decides''
           else ''committed to a beneficiary and released to them in full at the end'') in
     locking_effect [\<lparr>lk_coins = coins, lk_beneficiary = member ''beneficiary'' m, lk_releases = releasesAt,
        lk_revocable = revocable, lk_note = note, lk_unknown = (releasesAt = None)\<rparr>]
       (if revocable then Revocable else Irreversible))"

definition class_delegate :: classifier where
  "class_delegate m signer = locking_effect [\<lparr>lk_coins = oneCoin (member ''amount'' m), lk_beneficiary = None, lk_releases = None,
     lk_revocable = False, lk_note = ''bonded to a validator, and released only after you unstake and the unbonding period runs out'',
     lk_unknown = True\<rparr>] Delayed"

definition class_undelegate :: classifier where
  "class_undelegate m signer = locking_effect [\<lparr>lk_coins = oneCoin (member ''amount'' m), lk_beneficiary = None, lk_releases = None,
     lk_revocable = False, lk_note = ''unbonding, and unavailable until the chain'' @ APOS @ ''s unbonding period runs out'',
     lk_unknown = True\<rparr>] Delayed"

definition class_gov_deposit :: classifier where
  "class_gov_deposit m signer = moves [move (coinList (member ''amount'' m)) (member ''depositor'' m) (label ''proposal'' m ''proposal_id'')
     (sideOf (member ''depositor'' m) None signer)] Delayed"

definition class_mint :: classifier where
  "class_mint m signer = (let dest = coalesce (member ''recipient'' m) (member ''issuer'' m) in
     moves [move (splitCoin (member ''amount'' m) (member ''denom'' m)) None dest (sideOf None dest signer)] Irreversible)"

definition class_grant :: classifier where
  "class_grant m signer = grants [\<lparr>au_grantee = member ''grantee'' m,
     au_power = ''send transactions from this account, within the grant'' @ APOS @ ''s limits, without asking again''\<rparr>] Revocable"

definition class_fee_grant :: classifier where
  "class_fee_grant m signer = grants [\<lparr>au_grantee = member ''grantee'' m, au_power = ''have this account pay their network fees''\<rparr>] Revocable"

definition class_assign_role :: classifier where
  "class_assign_role m signer =
    (let role = js_string_or (member ''role'' m) ''role'';
         role = to_lower (if starts_with role ''ROLE_'' then drop 5 role else role) in
     grants [\<lparr>au_grantee = member ''address'' m,
       au_power = ''hold the '' @ role @ '' role in treasury '' @ js_string_or (member ''treasury_id'' m) ''?''\<rparr>] Revocable)"

definition class_set_admin :: classifier where
  "class_set_admin m signer = grants [\<lparr>au_grantee = member ''new_admin'' m,
     au_power = ''administer treasury '' @ js_string_or (member ''treasury_id'' m) ''?''\<rparr>] Irreversible"

definition class_withdraw_address :: classifier where
  "class_withdraw_address m signer = grants [\<lparr>au_grantee = member ''withdraw_address'' m,
     au_power = ''receive this account'' @ APOS @ ''s staking rewards''\<rparr>] Revocable"

definition CLASSIFIERS :: "(string \<times> classifier) list" where
  "CLASSIFIERS =
   [(''/cosmos.bank.v1beta1.MsgSend'', class_send),
    (''/blockchain.paymsg.v1.MsgSendPayment'', class_payment),
    (''/ibc.applications.transfer.v1.MsgTransfer'', class_transfer),
    (''/blockchain.amm.v1.MsgSwap'', class_swap),
    (''/blockchain.stablecoin.v1.MsgBurnCoin'', class_burn),
    (''/cosmos.distribution.v1beta1.MsgFundCommunityPool'', class_fund_pool),
    (''/blockchain.treasury.v1.MsgSpend'', class_spend),
    (''/blockchain.treasury.v1.MsgDeposit'', class_deposit),
    (''/blockchain.treasury.v1.MsgCreateLock'', class_create_lock),
    (''/cosmos.staking.v1beta1.MsgDelegate'', class_delegate),
    (''/cosmos.staking.v1beta1.MsgUndelegate'', class_undelegate),
    (''/cosmos.staking.v1beta1.MsgBeginRedelegate'', only Delayed),
    (''/cosmos.staking.v1beta1.MsgCancelUnbondingDelegation'', only Delayed),
    (''/cosmos.gov.v1.MsgDeposit'', class_gov_deposit),
    (''/blockchain.treasury.v1.MsgClaimLock'', only Harmless),
    (''/cosmos.distribution.v1beta1.MsgWithdrawDelegatorReward'', only Harmless),
    (''/cosmos.distribution.v1beta1.MsgWithdrawValidatorCommission'', only Harmless),
    (''/blockchain.stablecoin.v1.MsgMintCoin'', class_mint),
    (''/cosmos.authz.v1beta1.MsgGrant'', class_grant),
    (''/cosmos.feegrant.v1beta1.MsgGrantAllowance'', class_fee_grant),
    (''/blockchain.treasury.v1.MsgAssignRole'', class_assign_role),
    (''/blockchain.treasury.v1.MsgSetAdmin'', class_set_admin),
    (''/cosmos.authz.v1beta1.MsgRevoke'', only Harmless),
    (''/cosmos.feegrant.v1beta1.MsgRevokeAllowance'', only Harmless),
    (''/blockchain.treasury.v1.MsgRevokeRole'', only Harmless),
    (''/cosmos.distribution.v1beta1.MsgSetWithdrawAddress'', class_withdraw_address),
    (''/cosmos.gov.v1.MsgSubmitProposal'', only Proposal),
    (''/cosmos.group.v1.MsgSubmitProposal'', only Proposal),
    (''/cosmos.gov.v1.MsgVote'', only Proposal),
    (''/cosmos.gov.v1.MsgVoteWeighted'', only Proposal),
    (''/cosmos.group.v1.MsgVote'', only Proposal),
    (''/blockchain.enforcement.v1.MsgVoteCase'', only Proposal),
    (''/blockchain.enforcement.v1.MsgOpenCase'', only Proposal),
    (''/blockchain.validatorgov.v1.MsgApplyValidator'', only Proposal),
    (''/blockchain.oracle.v1.MsgApplyAppraiser'', only Proposal),
    (''/blockchain.paymsg.v1.MsgApplyParticipant'', only Proposal),
    (''/blockchain.treasury.v1.MsgCreateTreasury'', only Harmless),
    (''/blockchain.treasury.v1.MsgSetSpendPolicy'', only Revocable),
    (''/blockchain.treasury.v1.MsgSetPaused'', only Revocable),
    (''/blockchain.treasury.v1.MsgRevokeLock'', only Irreversible),
    (''/blockchain.paymsg.v1.MsgRegisterCustomer'', only Revocable),
    (''/cosmos.staking.v1beta1.MsgEditValidator'', only Revocable),
    (''/blockchain.oracle.v1.MsgSubmitExchangeRates'', only Harmless),
    (''/blockchain.oracle.v1.MsgDelegateFeeder'', only Revocable)]"

section \<open>The ledger\<close>

definition rank_of :: "reversibility \<Rightarrow> nat" where
  "rank_of r = (case index_of r REVERSIBILITY of Some i \<Rightarrow> i | None \<Rightarrow> 0)"

definition worst :: "reversibility list \<Rightarrow> reversibility" where
  "worst rs = REVERSIBILITY ! fold (\<lambda>r best. if rank_of r < best then rank_of r else best) rs (length REVERSIBILITY - 1)"

record ledger =
  lg_movements :: "movement list"
  lg_locks :: "lock_effect list"
  lg_authority :: "authority_effect list"
  lg_ranks :: "reversibility list"

definition push_effect :: "effect \<Rightarrow> ledger \<Rightarrow> ledger" where
  "push_effect e out = \<lparr>lg_movements = lg_movements out @ ef_movements e, lg_locks = lg_locks out @ ef_locks e,
     lg_authority = lg_authority out @ ef_authority e, lg_ranks = lg_ranks out @ [ef_rev e]\<rparr>"

definition push_unknown :: "ledger \<Rightarrow> ledger" where
  "push_unknown out = out\<lparr>lg_ranks := lg_ranks out @ [Unknown]\<rparr>"

fun walk :: "request_message \<Rightarrow> string \<Rightarrow> bool \<Rightarrow> ledger \<Rightarrow> ledger" where
  "walk (RequestMessage typeUrl decoded problem contains) signer nested out =
    (if problem \<noteq> None then push_unknown out
     else
       let out = (if nested then out else
             (case map_of CLASSIFIERS typeUrl of
                None \<Rightarrow> push_unknown out
              | Some classify \<Rightarrow>
                  push_effect (classify (case decoded of None \<Rightarrow> JObj [] | Some d \<Rightarrow> dm_raw d) signer) out)) in
       fold (\<lambda>inner out. walk inner signer True out) contains out)"

record consequences =
  cq_movements :: "movement list"
  cq_locks :: "lock_effect list"
  cq_authority :: "authority_effect list"
  cq_reversibility :: reversibility
  cq_incomplete :: bool

definition empty_ledger :: ledger where
  "empty_ledger = \<lparr>lg_movements = [], lg_locks = [], lg_authority = [], lg_ranks = []\<rparr>"

definition consequencesOf :: "signing_summary \<Rightarrow> string \<Rightarrow> consequences" where
  "consequencesOf s signer =
    (if (case ss_undecodable s of Some e \<Rightarrow> e \<noteq> [] | None \<Rightarrow> False) then
       \<lparr>cq_movements = [], cq_locks = [], cq_authority = [], cq_reversibility = Unknown, cq_incomplete = True\<rparr>
     else
       let out = fold (\<lambda>m out. walk m signer False out) (ss_messages s) empty_ledger in
       \<lparr>cq_movements = filter (\<lambda>m. mv_coins m \<noteq> []) (lg_movements out), cq_locks = lg_locks out,
        cq_authority = lg_authority out, cq_reversibility = worst (lg_ranks out),
        cq_incomplete = (ss_incomplete s \<or> Unknown \<in> set (lg_ranks out))\<rparr>)"

section \<open>Totals\<close>

definition add_jcoin :: "jcoin \<Rightarrow> (json \<times> int) list \<Rightarrow> (json \<times> int) list" where
  "add_jcoin c m = (case json_big_int (jc_amount c) of None \<Rightarrow> m | Some v \<Rightarrow> tally (jc_denom c) v m)"

definition totalCoins :: "jcoin list \<Rightarrow> jcoin list" where
  "totalCoins coins =
    map (\<lambda>(d, v). \<lparr>jc_denom = d, jc_amount = JStr (show_int v)\<rparr>)
      (filter (\<lambda>(d, v). v \<noteq> 0) (fold add_jcoin coins []))"

definition leaving :: "consequences \<Rightarrow> jcoin list" where
  "leaving c = totalCoins (concat (map mv_coins (filter (\<lambda>m. mv_side m = Outgoing) (cq_movements c))))"

definition arriving :: "consequences \<Rightarrow> jcoin list" where
  "arriving c = totalCoins (concat (map mv_coins (filter (\<lambda>m. mv_side m = Incoming) (cq_movements c))))"

definition locking :: "consequences \<Rightarrow> jcoin list" where
  "locking c = totalCoins (concat (map lk_coins (cq_locks c)))"

section \<open>Severity\<close>

lemma rank_table:
  "rank_of Irreversible = 0" "rank_of Delayed = 1" "rank_of Revocable = 2" "rank_of Proposal = 3"
  "rank_of Harmless = 4" "rank_of Unknown = 5"
  by (simp_all add: rank_of_def REVERSIBILITY_def)

lemma rank_le: "rank_of r \<le> 5" by (cases r) (simp_all add: rank_table)

lemma REVERSIBILITY_rank: "REVERSIBILITY ! rank_of r = r"
  by (cases r) (simp_all add: rank_table REVERSIBILITY_def)

lemma rank_inj: "rank_of r = rank_of s \<Longrightarrow> r = s"
  by (metis REVERSIBILITY_rank)

lemma worst_fold:
  "fold (\<lambda>r best. if rank_of r < best then rank_of r else best) rs b = Min (insert b (rank_of ` set rs))"
proof (induction rs arbitrary: b)
  case (Cons r rs)
  have "Min (insert (if rank_of r < b then rank_of r else b) (rank_of ` set rs)) = Min (insert b (insert (rank_of r) (rank_of ` set rs)))"
    by (cases "rs = []") (auto simp: min_def)
  then show ?case using Cons by simp
qed simp

lemma worst_rank: "rank_of (worst rs) = Min (insert 5 (rank_of ` set rs))"
proof -
  let ?k = "Min (insert 5 (rank_of ` set rs))"
  have "?k \<in> insert 5 (rank_of ` set rs)" by (rule Min_in) auto
  then obtain r where r: "?k = rank_of r" using rank_table(6) by (metis (no_types, lifting) image_iff insert_iff)
  have "length REVERSIBILITY - 1 = 5" by (simp add: REVERSIBILITY_def)
  then have "worst rs = REVERSIBILITY ! ?k" by (simp only: worst_def worst_fold)
  then show ?thesis using r REVERSIBILITY_rank by metis
qed

lemma worst_le: "r \<in> set rs \<Longrightarrow> rank_of (worst rs) \<le> rank_of r"
  by (simp add: worst_rank)

lemma worst_in: "rs \<noteq> [] \<Longrightarrow> worst rs \<in> set rs"
proof -
  assume rs: "rs \<noteq> []"
  have "Min (insert 5 (rank_of ` set rs)) \<in> rank_of ` set rs"
  proof -
    have "Min (rank_of ` set rs) \<in> rank_of ` set rs" using rs by (intro Min_in) auto
    moreover from this have "Min (rank_of ` set rs) \<le> 5" using rank_le by (metis imageE)
    moreover have "Min (insert 5 (rank_of ` set rs)) = min 5 (Min (rank_of ` set rs))"
      using rs by (intro Min_insert) auto
    ultimately show ?thesis by (simp only: min_absorb2)
  qed
  then show ?thesis using worst_rank [of rs] rank_inj by (metis image_iff)
qed

section \<open>What each message adds\<close>

definition own_effects :: "string \<Rightarrow> request_message \<Rightarrow> effect list" where
  "own_effects signer m =
    (if rm_problem m \<noteq> None then [] else
     case map_of CLASSIFIERS (rm_type m) of None \<Rightarrow> []
     | Some classify \<Rightarrow> [classify (case rm_decoded m of None \<Rightarrow> JObj [] | Some d \<Rightarrow> dm_raw d) signer])"

definition unread :: "request_message \<Rightarrow> bool" where
  "unread m \<longleftrightarrow> anyIncomplete m \<or> map_of CLASSIFIERS (rm_type m) = None"

definition adds :: "effect list \<Rightarrow> bool \<Rightarrow> ledger \<Rightarrow> ledger \<Rightarrow> bool" where
  "adds es u out out' \<longleftrightarrow>
    lg_movements out' = lg_movements out @ concat (map ef_movements es) \<and>
    lg_locks out' = lg_locks out @ concat (map ef_locks es) \<and>
    lg_authority out' = lg_authority out @ concat (map ef_authority es) \<and>
    set (lg_ranks out') = set (lg_ranks out) \<union> ef_rev ` set es \<union> (if u then {Unknown} else {})"

lemma adds_refl: "adds [] False out out" by (simp add: adds_def)

lemma adds_trans: "adds es u a b \<Longrightarrow> adds fs v b c \<Longrightarrow> adds (es @ fs) (u \<or> v) a c"
  by (auto simp: adds_def)

lemma adds_unknown: "adds [] True out (push_unknown out)" by (simp add: adds_def push_unknown_def)

lemma adds_effect: "adds [e] False out (push_effect e out)" by (simp add: adds_def push_effect_def)

lemma adds_fold:
  assumes "\<And>m out. m \<in> set ms \<Longrightarrow> adds (E m) (U m) out (f m out)"
  shows "adds (concat (map E ms)) (\<exists>m \<in> set ms. U m) out (fold f ms out)"
  using assms
proof (induction ms arbitrary: out)
  case (Cons m ms)
  have "adds (E m) (U m) out (f m out)" using Cons.prems by simp
  moreover have "adds (concat (map E ms)) (\<exists>m \<in> set ms. U m) (f m out) (fold f ms (f m out))"
    using Cons by simp
  ultimately have "adds (E m @ concat (map E ms)) (U m \<or> (\<exists>m \<in> set ms. U m)) out (fold f ms (f m out))"
    by (rule adds_trans)
  then show ?case by simp
qed (simp add: adds_refl)

lemma concat_nils: "concat (map (\<lambda>m. []) ms) = []" by (induction ms) auto

lemma walk_nested: "adds [] (anyIncomplete m) out (walk m signer True out)"
proof (induction m arbitrary: out)
  case (RequestMessage u d p ms)
  show ?case
  proof (cases "p = None")
    case True
    have "adds (concat (map (\<lambda>m. []) ms)) (\<exists>m \<in> set ms. anyIncomplete m) out (fold (\<lambda>inner out. walk inner signer True out) ms out)"
      using RequestMessage by (intro adds_fold)
    then show ?thesis using True by (simp add: concat_nils list_ex_iff)
  qed (simp add: adds_unknown)
qed

lemma walk_top: "adds (own_effects signer m) (unread m) out (walk m signer False out)"
proof (cases m)
  case (RequestMessage u d p ms)
  show ?thesis
  proof (cases "p = None")
    case False
    then show ?thesis using RequestMessage by (simp add: own_effects_def unread_def adds_unknown)
  next
    case True
    let ?mid = "case map_of CLASSIFIERS u of None \<Rightarrow> push_unknown out
        | Some classify \<Rightarrow> push_effect (classify (case d of None \<Rightarrow> JObj [] | Some d \<Rightarrow> dm_raw d) signer) out"
    have "adds (own_effects signer m) (map_of CLASSIFIERS u = None) out ?mid"
      using RequestMessage True by (simp add: own_effects_def adds_unknown adds_effect split: option.splits)
    moreover have "adds (concat (map (\<lambda>m. []) ms)) (\<exists>m \<in> set ms. anyIncomplete m) ?mid (fold (\<lambda>inner out. walk inner signer True out) ms ?mid)"
      by (intro adds_fold walk_nested)
    ultimately have "adds (own_effects signer m @ concat (map (\<lambda>m. []) ms)) (map_of CLASSIFIERS u = None \<or> (\<exists>m \<in> set ms. anyIncomplete m)) out
        (fold (\<lambda>inner out. walk inner signer True out) ms ?mid)"
      by (rule adds_trans)
    then show ?thesis
      using RequestMessage True by (simp add: concat_nils unread_def list_ex_iff disj_commute cong: option.case_cong)
  qed
qed

lemma ledger_adds:
  "adds (concat (map (own_effects signer) ms)) (\<exists>m \<in> set ms. unread m) empty_ledger (fold (\<lambda>m out. walk m signer False out) ms empty_ledger)"
  by (intro adds_fold walk_top)

text \<open>
  C21. The ledger of a readable request is exactly what its outermost messages do: movements, locks
  and powers come from the classifiers of those messages and never from a message nested in a
  proposal, and the ledger is marked incomplete exactly when some message at any depth could not be
  read or an outermost one has no classifier.
\<close>

theorem ledger_is_what_outer_messages_do:
  assumes "ss_undecodable s = None"
  shows "let c = consequencesOf s signer; es = concat (map (own_effects signer) (ss_messages s)) in
    cq_movements c = filter (\<lambda>m. mv_coins m \<noteq> []) (concat (map ef_movements es)) \<and>
    cq_locks c = concat (map ef_locks es) \<and>
    cq_authority c = concat (map ef_authority es) \<and>
    (cq_incomplete c \<longleftrightarrow> ss_incomplete s \<or> Unknown \<in> ef_rev ` set es \<or> (\<exists>m \<in> set (ss_messages s). unread m))"
  using ledger_adds [of signer "ss_messages s"] assms
  by (auto simp: consequencesOf_def adds_def empty_ledger_def Let_def)

definition sample_summary :: signing_summary where
  "sample_summary = \<lparr>ss_messages =
     [RequestMessage ''/cosmos.gov.v1.MsgSubmitProposal'' None None
        [RequestMessage ''/cosmos.bank.v1beta1.MsgSend''
           (Some \<lparr>dm_summary = ''pays'', dm_raw = JObj [(''from_address'', JStr ''me'')]\<rparr>) None []],
      RequestMessage ''/cosmos.bank.v1beta1.MsgSend''
        (Some \<lparr>dm_summary = ''sent'', dm_raw = JObj [(''from_address'', JStr ''me''),
          (''amount'', JArr [JObj [(''denom'', JStr ''uyml''), (''amount'', JStr ''250'')]])]\<rparr>) None []],
     ss_memo = [], ss_fee = None, ss_undecodable = None, ss_incomplete = False\<rparr>"

lemma ledger_is_what_outer_messages_do_witness:
  "let c = consequencesOf sample_summary ''me''; es = concat (map (own_effects ''me'') (ss_messages sample_summary)) in
    cq_movements c = filter (\<lambda>m. mv_coins m \<noteq> []) (concat (map ef_movements es)) \<and>
    cq_locks c = concat (map ef_locks es) \<and>
    cq_authority c = concat (map ef_authority es) \<and>
    (cq_incomplete c \<longleftrightarrow> ss_incomplete sample_summary \<or> Unknown \<in> ef_rev ` set es \<or> (\<exists>m \<in> set (ss_messages sample_summary). unread m))"
  by (rule ledger_is_what_outer_messages_do) (simp add: sample_summary_def)

text \<open>
  Reversibility is taken at its worst over the outermost messages: one irreversible message
  makes the whole request irreversible, whatever surrounds it. But an unread message does not make
  the verdict unknown: it ranks below every other, so beside a message that moves nothing the
  verdict stays at "nothing leaves", with only the incomplete flag raised.
\<close>

theorem reversibility_is_the_worst:
  assumes "ss_undecodable s = None" and "e \<in> set (own_effects signer m)" and "m \<in> set (ss_messages s)"
  shows "rank_of (cq_reversibility (consequencesOf s signer)) \<le> rank_of (ef_rev e) \<and>
    (cq_reversibility (consequencesOf s signer) = Unknown \<longrightarrow> ef_rev e = Unknown) \<and>
    (ef_rev e = Irreversible \<longrightarrow> cq_reversibility (consequencesOf s signer) = Irreversible)"
proof -
  let ?out = "fold (\<lambda>m out. walk m signer False out) (ss_messages s) empty_ledger"
  have "ef_rev e \<in> set (lg_ranks ?out)"
    using ledger_adds [of signer "ss_messages s"] assms(2,3) by (auto simp: adds_def)
  then have "rank_of (worst (lg_ranks ?out)) \<le> rank_of (ef_rev e)" by (rule worst_le)
  moreover have "cq_reversibility (consequencesOf s signer) = worst (lg_ranks ?out)"
    using assms(1) by (simp add: consequencesOf_def Let_def)
  moreover have "rank_of r = 0 \<longleftrightarrow> r = Irreversible" "rank_of r = 5 \<longleftrightarrow> r = Unknown" for r
    by (cases r; simp add: rank_table)+
  ultimately show ?thesis using rank_le by (metis le_antisym le_zero_eq)
qed

definition half_read_summary :: signing_summary where
  "half_read_summary = \<lparr>ss_messages =
     [RequestMessage ''/blockchain.treasury.v1.MsgClaimLock'' None None [],
      RequestMessage ''/unknown.v1.MsgDrain'' None (Some Unregistered) []],
     ss_memo = [], ss_fee = None, ss_undecodable = None, ss_incomplete = True\<rparr>"

lemma reversibility_is_the_worst_witness:
  "cq_reversibility (consequencesOf half_read_summary ''me'') \<noteq> Unknown \<and>
   cq_reversibility (consequencesOf sample_summary ''me'') = Irreversible"
proof
  let ?e = "moves [] Harmless"
  have "?e \<in> set (own_effects ''me'' (RequestMessage ''/blockchain.treasury.v1.MsgClaimLock'' None None []))"
    by (simp add: own_effects_def CLASSIFIERS_def only_def)
  then show "cq_reversibility (consequencesOf half_read_summary ''me'') \<noteq> Unknown"
    using reversibility_is_the_worst [of half_read_summary ?e "''me''"] by (auto simp: half_read_summary_def moves_def)
  let ?m = "RequestMessage ''/cosmos.bank.v1beta1.MsgSend''
        (Some \<lparr>dm_summary = ''sent'', dm_raw = JObj [(''from_address'', JStr ''me''),
          (''amount'', JArr [JObj [(''denom'', JStr ''uyml''), (''amount'', JStr ''250'')]])]\<rparr>) None []"
  have "\<exists>e \<in> set (own_effects ''me'' ?m). ef_rev e = Irreversible"
    by (simp add: own_effects_def CLASSIFIERS_def class_send_def moves_def)
  then show "cq_reversibility (consequencesOf sample_summary ''me'') = Irreversible"
    using reversibility_is_the_worst [of sample_summary _ "''me''" ?m] by (auto simp: sample_summary_def)
qed

section \<open>Totals are sums\<close>

definition jcoin_reading :: "jcoin \<Rightarrow> (json \<times> int) option" where
  "jcoin_reading c = map_option (Pair (jc_denom c)) (json_big_int (jc_amount c))"

interpretation jcoin_sums: adds_up jcoin_reading add_jcoin
  by unfold_locales (simp add: jcoin_reading_def add_jcoin_def split: option.splits)

definition jamount :: "jcoin list \<Rightarrow> json \<Rightarrow> int" where
  "jamount coins d = sum_list (map (\<lambda>c. if jc_denom c = d then (case json_big_int (jc_amount c) of None \<Rightarrow> 0 | Some v \<Rightarrow> v) else 0) coins)"

lemma jamount_readings: "sum_list (map snd (filter (\<lambda>e. fst e = d) (List.map_filter jcoin_reading coins))) = jamount coins d"
  by (induction coins) (simp_all add: jcoin_reading_def List.map_filter_def jamount_def split: option.splits)

lemma totalCoins_iff:
  "c \<in> set (totalCoins coins) \<longleftrightarrow> jamount coins (jc_denom c) \<noteq> 0 \<and> jc_amount c = JStr (show_int (jamount coins (jc_denom c)))"
proof -
  let ?m = "fold add_jcoin coins []"
  have t: "total_of ?m d = jamount coins d" for d
    using jcoin_sums.total [of coins d] by (simp add: jamount_readings)
  have "(d, v) \<in> set ?m \<and> v \<noteq> 0 \<longleftrightarrow> v = jamount coins d \<and> jamount coins d \<noteq> 0" for d v
  proof
    assume "(d, v) \<in> set ?m \<and> v \<noteq> 0"
    then show "v = jamount coins d \<and> jamount coins d \<noteq> 0" using jcoin_sums.total_in [of d v coins] t by auto
  next
    assume v: "v = jamount coins d \<and> jamount coins d \<noteq> 0"
    then have "total_of ?m d \<noteq> 0" using t by simp
    then obtain w where "map_of ?m d = Some w" by (auto simp: total_of_def split: option.splits)
    then show "(d, v) \<in> set ?m \<and> v \<noteq> 0" using v t [of d] by (auto simp: total_of_def dest: map_of_SomeD)
  qed
  then show ?thesis by (cases c) (force simp: totalCoins_def)
qed

text \<open>
  The totals a signer reads are sums per denomination: a coin is in what leaves the account
  exactly when its denomination's outgoing amounts add up to it and not to zero, and no
  denomination is listed twice.
\<close>

theorem leaving_is_the_sum_per_denom:
  "let out = concat (map mv_coins (filter (\<lambda>m. mv_side m = Outgoing) (cq_movements c))) in
    (x \<in> set (leaving c) \<longleftrightarrow> jamount out (jc_denom x) \<noteq> 0 \<and> jc_amount x = JStr (show_int (jamount out (jc_denom x)))) \<and>
    distinct (map jc_denom (leaving c))"
proof -
  let ?out = "concat (map mv_coins (filter (\<lambda>m. mv_side m = Outgoing) (cq_movements c)))"
  have "map jc_denom (totalCoins ?out) = map fst (filter (\<lambda>(d, v). v \<noteq> 0) (fold add_jcoin ?out []))"
    by (simp add: totalCoins_def comp_def case_prod_beta)
  then have "distinct (map jc_denom (totalCoins ?out))"
    using distinct_map_filterI [OF jcoin_sums.distinct_totals] by metis
  then show ?thesis by (simp add: leaving_def totalCoins_iff Let_def)
qed

end
