(* ===== verification/Treasury.thy ===== *)
theory Treasury imports Denom JsValue begin

text \<open>
  Shared treasuries (\<open>sdk/src/treasury.ts\<close>): the spending policy as the chain returns it, what it
  refuses in words, what a treasury can pay, and the check made before a payment is proposed.
\<close>

section \<open>Data\<close>

record treasury =
  tr_id :: string
  tr_name :: string
  tr_admin :: string
  tr_paused :: bool
  tr_height :: jsnum

record treasury_balance =
  tb_denom :: string
  tb_total :: string
  tb_locked :: string
  tb_available :: string

record spend_policy =
  sp_treasury :: string
  sp_denom :: json
  sp_per_transaction :: "string option"
  sp_per_period :: "string option"
  sp_period_seconds :: "jsnum option"
  sp_allowlist :: "json list"
  sp_blocklist :: "json list"

record policy_refusal =
  pr_key :: string
  pr_vars :: "(string \<times> string) list"

section \<open>The spending policy\<close>

definition json_or :: "json option \<Rightarrow> json \<Rightarrow> json" where
  "json_or j d = (case j of None \<Rightarrow> d | Some JNull \<Rightarrow> d | Some v \<Rightarrow> v)"

definition optional_limit :: "json option \<Rightarrow> string option" where
  "optional_limit j = (case j of Some (JStr s) \<Rightarrow> if s \<noteq> [] \<and> s \<noteq> ''0'' then Some s else None | _ \<Rightarrow> None)"

definition json_list :: "json option \<Rightarrow> json list" where
  "json_list j = (case j of Some (JArr xs) \<Rightarrow> xs | _ \<Rightarrow> [])"

definition toSpendPolicy :: "json \<Rightarrow> spend_policy" where
  "toSpendPolicy raw =
    (let s = js_number (Some (json_or (member ''period_seconds'' raw) (JNum (num_of_nat 0)))) in
     \<lparr>sp_treasury = js_string_or (member ''treasury_id'' raw) ''0'',
      sp_denom = json_or (member ''denom'' raw) (JStr []),
      sp_per_transaction = optional_limit (member ''per_transaction_limit'' raw),
      sp_per_period = optional_limit (member ''period_limit'' raw),
      sp_period_seconds = (if num_is_zero s \<or> s = JNaN then None else Some s),
      sp_allowlist = json_list (member ''allowlist'' raw),
      sp_blocklist = json_list (member ''blocklist'' raw)\<rparr>)"

definition list_refusal :: "string \<Rightarrow> string \<Rightarrow> json list \<Rightarrow> policy_refusal list" where
  "list_refusal one many xs =
    (if length xs = 1 then [\<lparr>pr_key = one, pr_vars = []\<rparr>]
     else if 1 < length xs then [\<lparr>pr_key = many, pr_vars = [(''n'', dec_nat (length xs))]\<rparr>] else [])"

definition policyRefusals ::
  "spend_policy option \<Rightarrow> (string \<Rightarrow> json \<Rightarrow> string) \<Rightarrow> (jsnum \<Rightarrow> string) \<Rightarrow> policy_refusal list" where
  "policyRefusals policy format duration =
    (case policy of
       None \<Rightarrow> []
     | Some p \<Rightarrow>
         (case sp_per_transaction p of
            Some l \<Rightarrow> if l = [] then [] else
              [\<lparr>pr_key = ''safe.refusePerTx'', pr_vars = [(''limit'', format l (sp_denom p))]\<rparr>]
          | None \<Rightarrow> []) @
         (case sp_per_period p of
            Some l \<Rightarrow> if l = [] then [] else
              (let limit = format l (sp_denom p) in
               case sp_period_seconds p of
                 Some s \<Rightarrow> if num_is_zero s \<or> s = JNaN
                   then [\<lparr>pr_key = ''safe.refusePerPeriodNoWindow'', pr_vars = [(''limit'', limit)]\<rparr>]
                   else [\<lparr>pr_key = ''safe.refusePerPeriod'', pr_vars = [(''limit'', limit), (''window'', duration s)]\<rparr>]
               | None \<Rightarrow> [\<lparr>pr_key = ''safe.refusePerPeriodNoWindow'', pr_vars = [(''limit'', limit)]\<rparr>])
          | None \<Rightarrow> []) @
         list_refusal ''safe.refuseAllowlistOne'' ''safe.refuseAllowlistMany'' (sp_allowlist p) @
         list_refusal ''safe.refuseBlocklistOne'' ''safe.refuseBlocklistMany'' (sp_blocklist p))"

section \<open>Balances\<close>

definition spendable :: "treasury_balance list \<Rightarrow> coin list" where
  "spendable bs = map (\<lambda>b. \<lparr>c_denom = tb_denom b, c_amount = tb_available b\<rparr>) (filter (\<lambda>b. tb_available b \<noteq> ''0'') bs)"

definition committed :: "treasury_balance list \<Rightarrow> coin list" where
  "committed bs = map (\<lambda>b. \<lparr>c_denom = tb_denom b, c_amount = tb_locked b\<rparr>) (filter (\<lambda>b. tb_locked b \<noteq> ''0'') bs)"

section \<open>Checking a payment\<close>

datatype spend_verdict = SpendOk | SpendRefused string


definition NO_TREASURY :: string where "NO_TREASURY = ''This treasury does not exist.''"
definition PAUSED :: string where
  "PAUSED = ''This treasury is paused. Nothing can leave it until an admin unpauses it.''"
definition COMMITTED :: string where
  "COMMITTED = ''The treasury holds enough, but part of it is committed to a beneficiary and cannot be spent '' @
     EM_DASH @ '' not even by a proposal that reaches the threshold.''"
definition TOO_MUCH :: string where "TOO_MUCH = ''More than the treasury has available.''"
definition holds_none :: "string \<Rightarrow> string" where
  "holds_none denom = ''This treasury holds no '' @ d_symbol (resolveDenom denom KNOWN_DENOMS) @ ''.''"

text \<open>\<open>None\<close> is the \<open>SyntaxError\<close> of a \<open>BigInt\<close> that cannot be read; comparisons read left to right.\<close>

definition short_reason :: "treasury_balance \<Rightarrow> int \<Rightarrow> spend_verdict option" where
  "short_reason b wanted =
    (case big_int (tb_locked b) of
       None \<Rightarrow> None
     | Some locked \<Rightarrow>
         if 0 < locked then
           (case big_int (tb_total b) of
              None \<Rightarrow> None
            | Some held \<Rightarrow> Some (SpendRefused (if wanted \<le> held then COMMITTED else TOO_MUCH)))
         else Some (SpendRefused TOO_MUCH))"

fun check_coins :: "treasury_balance list \<Rightarrow> coin list \<Rightarrow> spend_verdict option" where
  "check_coins bs [] = Some SpendOk"
| "check_coins bs (c # cs) =
    (case List.find (\<lambda>b. tb_denom b = c_denom c) bs of
       None \<Rightarrow> Some (SpendRefused (holds_none (c_denom c)))
     | Some b \<Rightarrow>
         (case (big_int (tb_available b), big_int (c_amount c)) of
            (Some available, Some wanted) \<Rightarrow>
              if available < wanted then short_reason b wanted else check_coins bs cs
          | _ \<Rightarrow> None))"

definition checkSpend :: "treasury option \<Rightarrow> treasury_balance list \<Rightarrow> coin list \<Rightarrow> spend_verdict option" where
  "checkSpend t bs amount =
    (case t of
       None \<Rightarrow> Some (SpendRefused NO_TREASURY)
     | Some t \<Rightarrow> if tr_paused t then Some (SpendRefused PAUSED) else check_coins bs amount)"

section \<open>What the check promises\<close>

definition covers :: "treasury_balance list \<Rightarrow> coin \<Rightarrow> bool" where
  "covers bs c \<longleftrightarrow> (\<exists>b available wanted. List.find (\<lambda>b. tb_denom b = c_denom c) bs = Some b \<and>
     big_int (tb_available b) = Some available \<and> big_int (c_amount c) = Some wanted \<and> wanted \<le> available)"

lemma short_reason_refuses [simp]: "short_reason b w \<noteq> Some SpendOk"
  by (simp add: short_reason_def split: option.splits)

lemma check_coins_ok: "check_coins bs cs = Some SpendOk \<longleftrightarrow> (\<forall>c \<in> set cs. covers bs c)"
  by (induction cs) (auto simp: covers_def split: option.splits if_splits)

lemma short_reason_committed:
  "short_reason b w = Some (SpendRefused COMMITTED) \<Longrightarrow>
    \<exists>l t. big_int (tb_locked b) = Some l \<and> 0 < l \<and> big_int (tb_total b) = Some t \<and> w \<le> t"
  by (simp add: short_reason_def COMMITTED_def TOO_MUCH_def split: option.splits if_splits)

lemma holds_none_not_committed: "holds_none d \<noteq> COMMITTED"
  by (simp add: holds_none_def COMMITTED_def)

lemma check_coins_committed:
  "check_coins bs cs = Some (SpendRefused COMMITTED) \<Longrightarrow>
    \<exists>c \<in> set cs. \<exists>b \<in> set bs. \<exists>a w l t. tb_denom b = c_denom c \<and> big_int (tb_available b) = Some a \<and>
      big_int (c_amount c) = Some w \<and> a < w \<and> big_int (tb_locked b) = Some l \<and> 0 < l \<and>
      big_int (tb_total b) = Some t \<and> w \<le> t"
proof (induction cs)
  case (Cons c cs)
  obtain b where b: "List.find (\<lambda>b. tb_denom b = c_denom c) bs = Some b"
    using Cons.prems holds_none_not_committed by (fastforce split: option.splits)
  obtain a w where aw: "big_int (tb_available b) = Some a" "big_int (c_amount c) = Some w"
    using Cons.prems b by (auto split: option.splits)
  show ?case
  proof (cases "a < w")
    case True
    then show ?thesis using Cons.prems b aw short_reason_committed [of b w] find_SomeD [OF b] by auto
  next
    case False
    then show ?thesis using Cons b aw by auto
  qed
qed simp

definition wanted_of :: "coin list \<Rightarrow> string \<Rightarrow> int" where
  "wanted_of cs d = sum_list (map (\<lambda>c. if c_denom c = d then the (big_int (c_amount c)) else 0) cs)"

lemma wanted_absent: "d \<notin> c_denom ` set cs \<Longrightarrow> wanted_of cs d = 0"
  by (induction cs) (auto simp: wanted_of_def)

lemma wanted_once:
  "distinct (map c_denom cs) \<Longrightarrow> c \<in> set cs \<Longrightarrow> wanted_of cs (c_denom c) = the (big_int (c_amount c))"
proof (induction cs)
  case (Cons x cs)
  have step: "wanted_of (x # cs) d = (if c_denom x = d then the (big_int (c_amount x)) else 0) + wanted_of cs d" for d
    by (simp add: wanted_of_def)
  show ?case
  proof (cases "c = x")
    case True
    then show ?thesis using Cons.prems step wanted_absent [of "c_denom x" cs] by simp
  next
    case False
    then have "c \<in> set cs" using Cons.prems by simp
    moreover from this have "c_denom x \<noteq> c_denom c" using Cons.prems by (metis distinct.simps(2) imageI list.map(2) list.set_map)
    ultimately show ?thesis using Cons step by simp
  qed
qed simp

lemma spendable_covered:
  assumes "distinct (map tb_denom bs)" and "\<forall>b \<in> set bs. big_int (tb_available b) \<noteq> None" and "c \<in> set (spendable bs)"
  shows "covers bs c"
proof -
  obtain b where b: "b \<in> set bs" "c = \<lparr>c_denom = tb_denom b, c_amount = tb_available b\<rparr>"
    using assms(3) by (auto simp: spendable_def)
  have "List.find (\<lambda>b'. tb_denom b' = tb_denom b) bs = Some b"
    using assms(1) b(1) by (induction bs) (auto split: if_splits)
  then show ?thesis using b assms(2) by (auto simp: covers_def)
qed

text \<open>
  C17. A payment passes the check exactly when the treasury exists, is not paused and holds each coin
  of the payment in its available funds; with each denomination named once that bounds what leaves
  per denomination by what is available. What \<open>spendable\<close> lists always passes. A refusal
  blames committed funds only when the funds would have sufficed had nothing been locked.
\<close>

theorem spend_check_is_sound:
  "(checkSpend t bs amount = Some SpendOk \<longleftrightarrow> (\<exists>tr. t = Some tr \<and> \<not> tr_paused tr \<and> (\<forall>c \<in> set amount. covers bs c))) \<and>
   (checkSpend t bs amount = Some SpendOk \<and> distinct (map c_denom amount) \<longrightarrow>
     (\<forall>c \<in> set amount. \<exists>b \<in> set bs. tb_denom b = c_denom c \<and>
       (\<exists>a. big_int (tb_available b) = Some a \<and> wanted_of amount (c_denom c) \<le> a))) \<and>
   (t = Some tr \<and> \<not> tr_paused tr \<and> distinct (map tb_denom bs) \<and> (\<forall>b \<in> set bs. big_int (tb_available b) \<noteq> None) \<longrightarrow>
     checkSpend t bs (spendable bs) = Some SpendOk) \<and>
   (checkSpend t bs amount = Some (SpendRefused COMMITTED) \<longrightarrow>
     (\<exists>c \<in> set amount. \<exists>b \<in> set bs. \<exists>a w l held. tb_denom b = c_denom c \<and> big_int (tb_available b) = Some a \<and>
        big_int (c_amount c) = Some w \<and> a < w \<and> big_int (tb_locked b) = Some l \<and> 0 < l \<and>
        big_int (tb_total b) = Some held \<and> w \<le> held))"
proof (intro conjI impI)
  show ok: "checkSpend t bs amount = Some SpendOk \<longleftrightarrow> (\<exists>tr. t = Some tr \<and> \<not> tr_paused tr \<and> (\<forall>c \<in> set amount. covers bs c))"
    by (cases t) (simp_all add: checkSpend_def check_coins_ok)
  assume a: "checkSpend t bs amount = Some SpendOk \<and> distinct (map c_denom amount)"
  show "\<forall>c \<in> set amount. \<exists>b \<in> set bs. tb_denom b = c_denom c \<and>
       (\<exists>a. big_int (tb_available b) = Some a \<and> wanted_of amount (c_denom c) \<le> a)"
  proof
    fix c assume c: "c \<in> set amount"
    then have "covers bs c" using a ok by blast
    then show "\<exists>b \<in> set bs. tb_denom b = c_denom c \<and>
       (\<exists>a. big_int (tb_available b) = Some a \<and> wanted_of amount (c_denom c) \<le> a)"
      using wanted_once [OF conjunct2 [OF a] c] find_SomeD unfolding covers_def by fastforce
  qed
next
  assume "t = Some tr \<and> \<not> tr_paused tr \<and> distinct (map tb_denom bs) \<and> (\<forall>b \<in> set bs. big_int (tb_available b) \<noteq> None)"
  then show "checkSpend t bs (spendable bs) = Some SpendOk"
    by (simp add: checkSpend_def check_coins_ok spendable_covered)
next
  assume "checkSpend t bs amount = Some (SpendRefused COMMITTED)"
  then have "check_coins bs amount = Some (SpendRefused COMMITTED)"
    by (auto simp: checkSpend_def NO_TREASURY_def PAUSED_def COMMITTED_def split: option.splits if_splits)
  then show "\<exists>c \<in> set amount. \<exists>b \<in> set bs. \<exists>a w l held. tb_denom b = c_denom c \<and> big_int (tb_available b) = Some a \<and>
        big_int (c_amount c) = Some w \<and> a < w \<and> big_int (tb_locked b) = Some l \<and> 0 < l \<and>
        big_int (tb_total b) = Some held \<and> w \<le> held"
    by (rule check_coins_committed)
qed

definition sample_treasury :: treasury where
  "sample_treasury = \<lparr>tr_id = ''3'', tr_name = ''Works'', tr_admin = ''yml1a'', tr_paused = False, tr_height = num_of_nat 7\<rparr>"

definition sample_balances :: "treasury_balance list" where
  "sample_balances = [\<lparr>tb_denom = ''uyml'', tb_total = ''150'', tb_locked = ''50'', tb_available = ''100''\<rparr>]"

text \<open>The witness also shows the limit of the check: two coins of one denomination pass one by one.\<close>

lemma spend_check_is_sound_witness:
  "checkSpend (Some sample_treasury) sample_balances (spendable sample_balances) = Some SpendOk \<and>
   checkSpend (Some sample_treasury) sample_balances [\<lparr>c_denom = ''uyml'', c_amount = ''120''\<rparr>] = Some (SpendRefused COMMITTED) \<and>
   checkSpend (Some sample_treasury) sample_balances (replicate 2 \<lparr>c_denom = ''uyml'', c_amount = ''80''\<rparr>) = Some SpendOk"
proof (intro conjI)
  have "Some sample_treasury = Some sample_treasury \<and> \<not> tr_paused sample_treasury \<and> distinct (map tb_denom sample_balances) \<and>
      (\<forall>b \<in> set sample_balances. big_int (tb_available b) \<noteq> None)" by code_simp
  then show "checkSpend (Some sample_treasury) sample_balances (spendable sample_balances) = Some SpendOk"
    using spend_check_is_sound [of "Some sample_treasury" sample_balances "[]" sample_treasury] by blast
qed code_simp+

end
