(* ===== verification/Amm.thy ===== *)
theory Amm imports Amount JsValue begin

text \<open>
  Quotes of the automated market maker, in the wallet app (\<open>app/src/swap.ts\<close>) and in the SDK (the pool
  half of \<open>sdk/src/staking.ts\<close>). The locale \<open>pool_quote\<close> is the constant-product contract both
  implementations keep: a trade never takes more than its share of the pool.
\<close>

section \<open>The constant-product contract\<close>

locale pool_quote =
  fixes sound :: "'p \<Rightarrow> bool"
    and paid :: "'p \<Rightarrow> string \<Rightarrow> int \<Rightarrow> int option"
    and reserve_in :: "'p \<Rightarrow> string \<Rightarrow> int"
    and reserve_out :: "'p \<Rightarrow> string \<Rightarrow> int"
  assumes reserves: "sound p \<Longrightarrow> 0 < reserve_in p d \<and> 0 < reserve_out p d"
    and share: "sound p \<Longrightarrow> 0 < x \<Longrightarrow> paid p d x = Some y \<Longrightarrow> 0 \<le> y \<and> y * (reserve_in p d + x) \<le> reserve_out p d * x"
begin

lemma product_grows:
  assumes "sound p" "0 < x" "paid p d x = Some y"
  shows "reserve_in p d * reserve_out p d \<le> (reserve_in p d + x) * (reserve_out p d - y)"
  using share [OF assms] by (simp add: algebra_simps)

lemma never_drains:
  assumes "sound p" "0 < x" "paid p d x = Some y"
  shows "y < reserve_out p d"
proof (rule ccontr)
  let ?i = "reserve_in p d" and ?o = "reserve_out p d"
  assume "\<not> y < ?o"
  then have "?o * (?i + x) \<le> y * (?i + x)" using reserves [OF assms(1), of d] assms(2) by (intro mult_right_mono) auto
  moreover have "?o * x < ?o * (?i + x)" using reserves [OF assms(1), of d] by (simp add: algebra_simps)
  ultimately show False using share [OF assms] by linarith
qed

lemma no_round_trip_profit:
  assumes "sound p" "0 < x" "paid p d x = Some y"
    and "sound q" "0 < y" "paid q e y = Some z"
    and "reserve_in q e = reserve_out p d - y" "reserve_out q e = reserve_in p d + x"
  shows "z \<le> x"
proof -
  let ?i = "reserve_in p d" and ?o = "reserve_out p d"
  have "z * ?o \<le> (?i + x) * y" using share [OF assms(4-6)] assms(7,8) by simp
  also have "\<dots> \<le> x * ?o" using share [OF assms(1-3)] by (simp add: mult.commute)
  finally show ?thesis using reserves [OF assms(1), of d] by simp
qed

end

lemma cp_share:
  assumes "0 < i" "0 < r" "0 \<le> a" "a \<le> (x::int)"
  shows "0 \<le> (r * a) div (i + a) \<and> (r * a) div (i + a) * (i + x) \<le> r * x"
proof -
  let ?y = "(r * a) div (i + a)"
  have y: "0 \<le> ?y" using assms by (simp add: pos_imp_zdiv_nonneg_iff)
  have yi: "?y * (i + a) \<le> r * a" using assms by (metis add_pos_nonneg mult.commute pos_mod_sign minus_mod_eq_mult_div diff_ge_0_iff_ge minus_div_mult_eq_mod)
  have "?y \<le> r"
  proof -
    have "?y * (i + a) \<le> r * (i + a)" using yi assms by (smt (verit) mult_left_mono)
    then show ?thesis using assms by simp
  qed
  then have "?y * (x - a) \<le> r * (x - a)" using assms by (intro mult_right_mono) auto
  then show ?thesis using y yi by (simp add: algebra_simps)
qed

lemma fee_bounds:
  assumes "0 \<le> f" "f \<le> 10000" "0 < (x::int)"
  shows "0 \<le> (x * (10000 - f)) div 10000 \<and> (x * (10000 - f)) div 10000 \<le> x"
proof -
  have "x * (10000 - f) \<le> x * 10000" using assms by (intro mult_left_mono) auto
  then have "(x * (10000 - f)) div 10000 \<le> (x * 10000) div 10000" by (rule zdiv_mono1) simp
  then show ?thesis using assms by (simp add: pos_imp_zdiv_nonneg_iff)
qed

section \<open>The wallet app\<close>

record app_pool =
  ap_id :: string
  ap_denomA :: "string option"
  ap_denomB :: "string option"
  ap_reserveA :: int
  ap_reserveB :: int
  ap_feeBps :: jsnum

text \<open>
  \<open>pools\<close> reads the chain's answer: \<open>rs\<close> is its list of pools, each a map of strings. A member that is
  missing is \<open>undefined\<close>; a reserve that cannot be read makes the whole answer empty.
\<close>

definition read_pool :: "(string \<times> string) list \<Rightarrow> app_pool option" where
  "read_pool r =
    (let get = (\<lambda>a b. case map_of r a of Some v \<Rightarrow> Some v | None \<Rightarrow> map_of r b);
         or_zero = (\<lambda>v. case v of Some s \<Rightarrow> s | None \<Rightarrow> ''0'') in
     case (big_int (or_zero (get ''reserve_a'' ''reserveA'')), big_int (or_zero (get ''reserve_b'' ''reserveB''))) of
       (Some a, Some b) \<Rightarrow>
         Some \<lparr>ap_id = (case map_of r ''id'' of Some s \<Rightarrow> s | None \<Rightarrow> ''undefined''),
               ap_denomA = get ''denom_a'' ''denomA'', ap_denomB = get ''denom_b'' ''denomB'',
               ap_reserveA = a, ap_reserveB = b,
               ap_feeBps = (case get ''fee_bps'' ''feeBps'' of Some s \<Rightarrow> number s | None \<Rightarrow> num_of_nat 30)\<rparr>
     | _ \<Rightarrow> None)"

definition read_pools :: "(string \<times> string) list list \<Rightarrow> app_pool list" where
  "read_pools rs =
    (let ps = map read_pool rs in
     if None \<in> set ps then [] else filter (\<lambda>p. 0 < ap_reserveA p \<and> 0 < ap_reserveB p) (map the ps))"

definition findPool :: "app_pool list \<Rightarrow> string \<Rightarrow> string \<Rightarrow> app_pool option" where
  "findPool ps frm dest = List.find (\<lambda>p. (ap_denomA p = Some frm \<and> ap_denomB p = Some dest) \<or> (ap_denomB p = Some frm \<and> ap_denomA p = Some dest)) ps"

definition app_reserves :: "app_pool \<Rightarrow> string \<Rightarrow> int \<times> int" where
  "app_reserves p frm = (if ap_denomA p = Some frm then (ap_reserveA p, ap_reserveB p) else (ap_reserveB p, ap_reserveA p))"

text \<open>\<open>None\<close>: the \<open>RangeError\<close> of \<open>BigInt\<close> on a fee that is no integer, or of a division by zero.\<close>

definition pool_quote_of :: "app_pool \<Rightarrow> string \<Rightarrow> int \<Rightarrow> int option" where
  "pool_quote_of p frm amountIn =
    (if amountIn \<le> 0 then Some 0 else
     let (reserveIn, reserveOut) = app_reserves p frm in
     case int_of_num (num_sub (num_of_nat 10000) (ap_feeBps p)) of
       None \<Rightarrow> None
     | Some keep \<Rightarrow>
         let afterFee = big_div (amountIn * keep) 10000 in
         if afterFee \<le> 0 then Some 0
         else if reserveIn + afterFee = 0 then None
         else Some (big_div (reserveOut * afterFee) (reserveIn + afterFee)))"

definition floorFor :: "int \<Rightarrow> int" where
  "floorFor estimate = big_div (estimate * 99) 100"

definition tradable :: "app_pool list \<Rightarrow> string list" where
  "tradable ps =
    (let denoms = concat (map (\<lambda>p. filter (\<lambda>d. currencyOf d \<noteq> None) (List.map_filter id [ap_denomA p, ap_denomB p])) ps) in
     map cu_denom (filter (\<lambda>c. cu_denom c \<in> set denoms) CURRENCIES))"

definition priceImpactBps :: "app_pool \<Rightarrow> string \<Rightarrow> int \<Rightarrow> int \<Rightarrow> jsnum" where
  "priceImpactBps p frm amountIn amountOut =
    (if amountIn \<le> 0 \<or> amountOut \<le> 0 then num_of_nat 0 else
     let (reserveIn, reserveOut) = app_reserves p frm in
     if reserveIn \<le> 0 \<or> reserveOut \<le> 0 then num_of_nat 0 else
     let SCALE = 1000000;
         spot = big_div (reserveOut * SCALE) reserveIn;
         executed = big_div (amountOut * SCALE) amountIn in
     if spot \<le> 0 then num_of_nat 0 else
     let bps = big_div ((spot - executed) * 10000) spot in
     num_of_int (if bps < 0 then 0 else bps))"

definition depthOf :: "app_pool \<Rightarrow> string \<Rightarrow> int" where
  "depthOf p frm = (if ap_denomA p = Some frm then ap_reserveA p else ap_reserveB p)"

section \<open>The SDK\<close>

record sdk_pool =
  kp_id :: string
  kp_denomA :: string
  kp_denomB :: string
  kp_reserveA :: string
  kp_reserveB :: string
  kp_feeRate :: jsnum

definition sdk_reserves :: "sdk_pool \<Rightarrow> string \<Rightarrow> (int \<times> int) option" where
  "sdk_reserves p frm =
    (let forward = (frm = kp_denomA p) in
     case (big_int (if forward then kp_reserveA p else kp_reserveB p), big_int (if forward then kp_reserveB p else kp_reserveA p)) of
       (Some i, Some r) \<Rightarrow> Some (i, r) | _ \<Rightarrow> None)"

definition sdk_fee :: "sdk_pool \<Rightarrow> int option" where
  "sdk_fee p = int_of_num (num_round (num_mul (kp_feeRate p) (num_of_nat 10000)))"

definition price_impact :: "int \<Rightarrow> int \<Rightarrow> int \<Rightarrow> int \<Rightarrow> jsnum" where
  "price_impact reserveIn reserveOut input amountOut =
    (let spot = num_div (num_of_int reserveOut) (num_of_int reserveIn);
         effective = num_div (num_of_int amountOut) (num_of_int input) in
     if num_less (num_of_nat 0) spot
     then num_max (num_of_nat 0) (num_sub (num_of_nat 1) (num_div effective spot)) else num_of_nat 0)"

text \<open>The outer \<open>option\<close> is an exception, the inner one the code's \<open>null\<close>.\<close>

definition quoteSwap :: "sdk_pool \<Rightarrow> string \<Rightarrow> string \<Rightarrow> (string \<times> jsnum) option option" where
  "quoteSwap p amountIn denomIn =
    (case big_int amountIn of
       None \<Rightarrow> Some None
     | Some input \<Rightarrow>
         if input \<le> 0 then Some None else
         case sdk_reserves p denomIn of
           None \<Rightarrow> None
         | Some (reserveIn, reserveOut) \<Rightarrow>
             if reserveIn = 0 \<or> reserveOut = 0 then Some None else
             case sdk_fee p of
               None \<Rightarrow> None
             | Some feeBps \<Rightarrow>
                 let afterFee = big_div (input * (10000 - feeBps)) 10000 in
                 if reserveIn + afterFee = 0 then None else
                 let amountOut = big_div (reserveOut * afterFee) (reserveIn + afterFee) in
                 Some (Some (show_int amountOut, price_impact reserveIn reserveOut input amountOut)))"

definition minimumReceived :: "string \<Rightarrow> jsnum \<Rightarrow> string option" where
  "minimumReceived amountOut toleranceBps =
    (case big_int amountOut of
       None \<Rightarrow> Some ''0''
     | Some out \<Rightarrow>
         if out \<le> 0 then Some ''0'' else
         case int_of_num (num_max (num_of_nat 0) (num_min (num_of_nat 10000) (num_round toleranceBps))) of
           None \<Rightarrow> None
         | Some bps \<Rightarrow> Some (show_int (big_div (out * (10000 - bps)) 10000)))"

definition amountOf :: "coin list option \<Rightarrow> string \<Rightarrow> string" where
  "amountOf coins denom =
    (case coins of
       None \<Rightarrow> ''0''
     | Some cs \<Rightarrow> (case List.find (\<lambda>c. c_denom c = denom) cs of None \<Rightarrow> ''0'' | Some c \<Rightarrow> c_amount c))"

section \<open>Both keep the contract\<close>

text \<open>A pool as the chain can hold it: positive reserves and a fee of whole basis points.\<close>

definition app_sound :: "int \<Rightarrow> app_pool \<Rightarrow> bool" where
  "app_sound f p \<longleftrightarrow> 0 < ap_reserveA p \<and> 0 < ap_reserveB p \<and> 0 \<le> f \<and> f \<le> 10000 \<and> holds_int (ap_feeBps p) f"

definition sdk_sound :: "int \<Rightarrow> sdk_pool \<Rightarrow> bool" where
  "sdk_sound f p \<longleftrightarrow> (\<exists>a b. big_int (kp_reserveA p) = Some a \<and> 0 < a \<and> big_int (kp_reserveB p) = Some b \<and> 0 < b) \<and>
     0 \<le> f \<and> f \<le> 10000 \<and> sdk_fee p = Some f"

definition sdk_paid :: "sdk_pool \<Rightarrow> string \<Rightarrow> int \<Rightarrow> int option" where
  "sdk_paid p d x = (case quoteSwap p (show_int x) d of Some (Some (y, _)) \<Rightarrow> big_int y | _ \<Rightarrow> None)"

definition core_quote :: "int \<Rightarrow> int \<Rightarrow> int \<Rightarrow> int \<Rightarrow> int" where
  "core_quote f i r x = (let a = (x * (10000 - f)) div 10000 in (r * a) div (i + a))"

lemma core_share:
  assumes "0 < i" "0 < r" "0 \<le> f" "f \<le> 10000" "0 < x"
  shows "0 \<le> core_quote f i r x \<and> core_quote f i r x * (i + x) \<le> r * x"
  unfolding core_quote_def Let_def
  using fee_bounds [OF assms(3-5)] by (intro cp_share [OF assms(1,2)]) simp_all

lemma num_10000: "holds_int (num_of_nat 10000) 10000"
  using num_of_int_exact [of 10000] by (simp add: num_of_int_def num_of_nat_def)

lemma app_quote_core:
  assumes "app_sound f p" "0 < x"
  shows "pool_quote_of p d x = Some (core_quote f (fst (app_reserves p d)) (snd (app_reserves p d)) x)"
proof -
  obtain i r where ir: "app_reserves p d = (i, r)" and pos: "0 < i" "0 < r"
    using assms(1) by (cases "ap_denomA p = Some d") (auto simp: app_reserves_def app_sound_def)
  have f: "0 \<le> f" "f \<le> 10000" "holds_int (ap_feeBps p) f" using assms(1) by (simp_all add: app_sound_def)
  have "holds_int (num_sub (num_of_nat 10000) (ap_feeBps p)) (10000 - f)"
    using f by (intro num_sub_exact num_10000) auto
  then have keep: "int_of_num (num_sub (num_of_nat 10000) (ap_feeBps p)) = Some (10000 - f)" by (rule int_of_num_holds)
  let ?a = "(x * (10000 - f)) div 10000"
  have a: "0 \<le> ?a" using fee_bounds [of f x] f assms(2) by simp
  have b: "big_div (x * (10000 - f)) 10000 = ?a" using f assms(2) by (intro big_div_nonneg) auto
  show ?thesis
  proof (cases "?a = 0")
    case False
    then have "0 < ?a" using a by linarith
    then show ?thesis using assms(2) pos by (simp add: pool_quote_of_def ir keep b core_quote_def Let_def)
  qed (simp add: pool_quote_of_def ir keep b core_quote_def)
qed

lemma sdk_quote_core:
  assumes "sdk_sound f p" "0 < x"
  shows "\<exists>i r. sdk_reserves p d = Some (i, r) \<and> 0 < i \<and> 0 < r \<and>
    quoteSwap p (show_int x) d = Some (Some (show_int (core_quote f i r x), price_impact i r x (core_quote f i r x)))"
proof -
  obtain i r where ir: "sdk_reserves p d = Some (i, r)" and pos: "0 < i" "0 < r"
    using assms(1) by (cases "d = kp_denomA p") (auto simp: sdk_reserves_def sdk_sound_def Let_def)
  have f: "0 \<le> f" "f \<le> 10000" "sdk_fee p = Some f" using assms(1) by (simp_all add: sdk_sound_def)
  let ?a = "(x * (10000 - f)) div 10000"
  have a: "0 \<le> ?a" using fee_bounds [of f x] f assms(2) by simp
  have b: "big_div (x * (10000 - f)) 10000 = ?a" using f assms(2) by (intro big_div_nonneg) auto
  have c: "big_div (r * ?a) (i + ?a) = core_quote f i r x"
    using pos a by (simp add: core_quote_def Let_def)
  have "i + ?a \<noteq> 0" using pos a by linarith
  then show ?thesis using assms(2) pos ir f by (simp add: quoteSwap_def b c Let_def)
qed

lemma sdk_paid_core:
  assumes "sdk_sound f p" "0 < x"
  shows "sdk_paid p d x = Some (core_quote f (fst (the (sdk_reserves p d))) (snd (the (sdk_reserves p d))) x)"
  using sdk_quote_core [OF assms, of d] by (auto simp: sdk_paid_def)

interpretation app_amm: pool_quote "app_sound f" pool_quote_of "\<lambda>p d. fst (app_reserves p d)" "\<lambda>p d. snd (app_reserves p d)" for f
proof unfold_locales
  fix p d assume "app_sound f p"
  then show "0 < fst (app_reserves p d) \<and> 0 < snd (app_reserves p d)" by (simp add: app_sound_def app_reserves_def)
next
  fix p x d y assume a: "app_sound f p" "0 < x" "pool_quote_of p d x = Some y"
  then show "0 \<le> y \<and> y * (fst (app_reserves p d) + x) \<le> snd (app_reserves p d) * x"
    using app_quote_core [OF a(1,2), of d] core_share [of "fst (app_reserves p d)" "snd (app_reserves p d)" f x]
    by (simp add: app_sound_def app_reserves_def split: if_splits)
qed

interpretation sdk_amm: pool_quote "sdk_sound f" sdk_paid "\<lambda>p d. fst (the (sdk_reserves p d))" "\<lambda>p d. snd (the (sdk_reserves p d))" for f
proof unfold_locales
  fix p d assume "sdk_sound f p"
  then show "0 < fst (the (sdk_reserves p d)) \<and> 0 < snd (the (sdk_reserves p d))" by (auto simp: sdk_sound_def sdk_reserves_def Let_def)
next
  fix p x d y assume a: "sdk_sound f p" "0 < x" "sdk_paid p d x = Some y"
  obtain i r where "sdk_reserves p d = Some (i, r)" "0 < i" "0 < r" using sdk_quote_core [OF a(1,2), of d] by blast
  then show "0 \<le> y \<and> y * (fst (the (sdk_reserves p d)) + x) \<le> snd (the (sdk_reserves p d)) * x"
    using sdk_paid_core [OF a(1,2), of d] a core_share [of i r f x] by (simp add: sdk_sound_def)
qed

section \<open>Properties\<close>

text \<open>
  C13. A quote of the wallet app never gives away pool value: it is below the reserve it is taken
  from, the product of the reserves does not fall, and trading the proceeds straight back through
  the pool the trade left behind returns at most what was put in.
\<close>

theorem app_quote_keeps_the_pool:
  assumes "app_sound f p" "0 < x"
  shows "\<exists>y. pool_quote_of p d x = Some y \<and> 0 \<le> y \<and> y < snd (app_reserves p d) \<and>
    fst (app_reserves p d) * snd (app_reserves p d) \<le> (fst (app_reserves p d) + x) * (snd (app_reserves p d) - y) \<and>
    (\<forall>q e z. app_sound f q \<and> 0 < y \<and> app_reserves q e = (snd (app_reserves p d) - y, fst (app_reserves p d) + x) \<and>
       pool_quote_of q e y = Some z \<longrightarrow> z \<le> x)"
proof -
  define y where "y = core_quote f (fst (app_reserves p d)) (snd (app_reserves p d)) x"
  have y: "pool_quote_of p d x = Some y" using app_quote_core [OF assms] by (simp add: y_def)
  show ?thesis
  proof (intro exI conjI allI impI)
    show "pool_quote_of p d x = Some y" by (rule y)
    show "0 \<le> y" using app_amm.share [OF assms y] by blast
    show "y < snd (app_reserves p d)" by (rule app_amm.never_drains [OF assms y])
    show "fst (app_reserves p d) * snd (app_reserves p d) \<le> (fst (app_reserves p d) + x) * (snd (app_reserves p d) - y)"
      by (rule app_amm.product_grows [OF assms y])
  next
    fix q e z
    assume "app_sound f q \<and> 0 < y \<and> app_reserves q e = (snd (app_reserves p d) - y, fst (app_reserves p d) + x) \<and> pool_quote_of q e y = Some z"
    then show "z \<le> x" using app_amm.no_round_trip_profit [OF assms y, of q e z] by simp
  qed
qed

definition sample_pool :: app_pool where
  "sample_pool = \<lparr>ap_id = ''1'', ap_denomA = Some ''uyml'', ap_denomB = Some ''uxof'', ap_reserveA = 1000000,
     ap_reserveB = 600000000, ap_feeBps = num_of_nat 30\<rparr>"

lemma sample_pool_sound: "app_sound 30 sample_pool"
  unfolding app_sound_def sample_pool_def using num_of_int_exact [of 30] by (simp add: num_of_int_def num_of_nat_def)

lemma app_quote_keeps_the_pool_witness:
  "\<exists>y. pool_quote_of sample_pool ''uyml'' 5000 = Some y \<and> 0 \<le> y \<and> y < 600000000 \<and>
    1000000 * 600000000 \<le> (1000000 + 5000) * (600000000 - y)"
  using app_quote_keeps_the_pool [OF sample_pool_sound, of 5000 "''uyml''"]
  by (auto simp: app_reserves_def sample_pool_def)

text \<open>
  The SDK and the wallet app quote the same trade alike: on pools with the same reserves, and
  fees that come to the same whole basis points, the SDK's \<open>quoteSwap\<close> returns the decimal text of
  the figure the app's \<open>quote\<close> returns; and the app's protective floor is the SDK's
  \<open>minimumReceived\<close> at a tolerance of 100 basis points.
\<close>

theorem app_and_sdk_quote_alike:
  assumes "app_sound f p" "sdk_sound f q" "sdk_reserves q d = Some (app_reserves p d)" "0 < x"
  shows "\<exists>y impact. pool_quote_of p d x = Some y \<and> quoteSwap q (show_int x) d = Some (Some (show_int y, impact)) \<and>
    (0 < y \<longrightarrow> minimumReceived (show_int y) (num_of_nat 100) = Some (show_int (floorFor y)))"
proof -
  define y where "y = core_quote f (fst (app_reserves p d)) (snd (app_reserves p d)) x"
  obtain i r where ir: "sdk_reserves q d = Some (i, r)"
    "quoteSwap q (show_int x) d = Some (Some (show_int (core_quote f i r x), price_impact i r x (core_quote f i r x)))"
    using sdk_quote_core [OF assms(2,4)] by blast
  have "int_of_num (num_max (num_of_nat 0) (num_min (num_of_nat 10000) (num_round (num_of_nat 100)))) = Some 100"
    by code_simp
  then have "0 < y \<longrightarrow> minimumReceived (show_int y) (num_of_nat 100) = Some (show_int (floorFor y))"
    by (simp add: minimumReceived_def floorFor_def mult.commute)
  moreover have "pool_quote_of p d x = Some y" using app_quote_core [OF assms(1,4)] by (simp add: y_def)
  ultimately show ?thesis using ir assms(3) by (auto simp: y_def)
qed

text \<open>The fee rate is the double 0.003.\<close>

definition sample_sdk_pool :: sdk_pool where
  "sample_sdk_pool = \<lparr>kp_id = ''1'', kp_denomA = ''uyml'', kp_denomB = ''uxof'', kp_reserveA = ''1000000'',
     kp_reserveB = ''600000000'', kp_feeRate = JFin False 6917529027641082 (- 61)\<rparr>"

lemma app_and_sdk_quote_alike_witness:
  "\<exists>y impact. pool_quote_of sample_pool ''uyml'' 5000 = Some y \<and>
    quoteSwap sample_sdk_pool (show_int 5000) ''uyml'' = Some (Some (show_int y, impact)) \<and>
    (0 < y \<longrightarrow> minimumReceived (show_int y) (num_of_nat 100) = Some (show_int (floorFor y)))"
proof (rule app_and_sdk_quote_alike [OF sample_pool_sound])
  have "big_int (kp_reserveA sample_sdk_pool) = Some 1000000" "big_int (kp_reserveB sample_sdk_pool) = Some 600000000"
    "sdk_fee sample_sdk_pool = Some 30" by code_simp+
  then show "sdk_sound 30 sample_sdk_pool" by (simp add: sdk_sound_def)
  show "sdk_reserves sample_sdk_pool ''uyml'' = Some (app_reserves sample_pool ''uyml'')" by code_simp
qed simp

text \<open>
  The price impact of a quote is a number of basis points between 0 and 10000: a trade that
  beats the spot price reads as no impact, and none reads as worse than losing everything.
\<close>

theorem price_impact_is_a_share:
  "\<exists>b. 0 \<le> b \<and> b \<le> 10000 \<and> priceImpactBps p d x y = num_of_int b"
proof -
  have zero: "num_of_nat 0 = num_of_int 0" by (simp add: num_of_nat_def num_of_int_def)
  obtain i r where ir: "app_reserves p d = (i, r)" by (cases "app_reserves p d")
  define spot where "spot = big_div (r * 1000000) i"
  define executed where "executed = big_div (y * 1000000) x"
  define bps where "bps = big_div ((spot - executed) * 10000) spot"
  show ?thesis
  proof (cases "x \<le> 0 \<or> y \<le> 0 \<or> i \<le> 0 \<or> r \<le> 0 \<or> spot \<le> 0")
    case True
    then have "priceImpactBps p d x y = num_of_int 0"
      by (auto simp: priceImpactBps_def ir zero spot_def Let_def)
    then show ?thesis by (intro exI [of _ 0]) simp
  next
    case False
    then have c: "0 < x" "0 < y" "0 < i" "0 < r" "0 < spot" by simp_all
    then have p: "priceImpactBps p d x y = num_of_int (if bps < 0 then 0 else bps)"
      unfolding priceImpactBps_def ir Let_def prod.case spot_def [symmetric] executed_def [symmetric] bps_def [symmetric]
      by simp
    have e: "0 \<le> executed" using False by (simp add: executed_def pos_imp_zdiv_nonneg_iff)
    have "bps \<le> 10000"
    proof (cases "executed \<le> spot")
      case True
      have "bps = ((spot - executed) * 10000) div spot" using True False by (simp add: bps_def)
      also have "\<dots> \<le> (spot * 10000) div spot" using e False by (intro zdiv_mono1) auto
      finally show ?thesis using False by simp
    next
      case neg: False
      then have "(spot - executed) * 10000 < 0" by simp
      then have "bps \<le> 0" using False
        by (simp add: bps_def big_div_def sgn_if pos_imp_zdiv_nonneg_iff)
      then show ?thesis by simp
    qed
    then show ?thesis using p by (intro exI [of _ "if bps < 0 then 0 else bps"]) auto
  qed
qed

text \<open>
  Every pool the wallet app lists can be quoted: its reserves are positive, and when the chain's
  answer has neither of the two members the app looks for, its fee is 30 basis points. The chain
  calls the member \<open>swap_fee_bps\<close>, so this is the fee of every pool, whatever the chain charges.
\<close>

theorem listed_pools_are_quotable:
  assumes "p \<in> set (read_pools rs)" and "\<forall>r \<in> set rs. map_of r ''fee_bps'' = None \<and> map_of r ''feeBps'' = None"
  shows "app_sound 30 p \<and> (\<exists>r \<in> set rs. read_pool r = Some p) \<and> (0 < x \<longrightarrow> pool_quote_of p d x \<noteq> None)"
proof -
  obtain r where r: "r \<in> set rs" "read_pool r = Some p" and pos: "0 < ap_reserveA p" "0 < ap_reserveB p"
  proof -
    have none: "None \<notin> read_pool ` set rs" using assms(1) by (auto simp: read_pools_def Let_def split: if_splits)
    then obtain r where "r \<in> set rs" "p = the (read_pool r)" "0 < ap_reserveA p" "0 < ap_reserveB p"
      using assms(1) by (auto simp: read_pools_def Let_def)
    moreover from this(1) none obtain q where "read_pool r = Some q" by (metis image_eqI option.exhaust)
    ultimately show ?thesis using that by simp
  qed
  have "map_of r ''fee_bps'' = None" "map_of r ''feeBps'' = None" using assms(2) r(1) by blast+
  then have "ap_feeBps p = num_of_nat 30"
    using r(2) by (auto simp: read_pool_def Let_def split: option.splits)
  then have "app_sound 30 p" using pos num_of_int_exact [of 30] by (simp add: app_sound_def num_of_int_def num_of_nat_def)
  then show ?thesis using r app_quote_core [of 30 p x d] by auto
qed

definition chain_pool :: "(string \<times> string) list" where
  "chain_pool = [(''id'', ''1''), (''denom_a'', ''uyml''), (''denom_b'', ''uxof''), (''reserve_a'', ''1000000''),
     (''reserve_b'', ''600000000''), (''total_shares'', ''5''), (''swap_fee_bps'', ''100'')]"

lemma listed_pools_are_quotable_witness:
  "\<exists>p. read_pools [chain_pool] = [p] \<and> app_sound 30 p \<and> pool_quote_of p ''uyml'' 5000 \<noteq> None"
proof -
  have big: "big_int ''1000000'' = Some 1000000" "big_int ''600000000'' = Some 600000000" by code_simp+
  have p: "read_pools [chain_pool] = [sample_pool]"
    by (simp add: read_pools_def read_pool_def chain_pool_def big sample_pool_def)
  then show ?thesis using listed_pools_are_quotable [of sample_pool "[chain_pool]" 5000 "''uyml''"]
    by (simp add: chain_pool_def)
qed

end
