(* ===== verification/Connect.thy ===== *)
theory Connect imports Base64 JsValue begin

text \<open>
  The wallet connection (\<open>connect/src/protocol.ts\<close>, \<open>client.ts\<close>, \<open>provider.ts\<close>): an application and the
  wallet are pages of different origins that exchange \<open>postMessage\<close> envelopes. The client's pending
  request and the wallet's listener are state machines; \<open>sys_do\<close> composes them with the browser, which
  stamps the sender's origin on each message, and with hostile pages that may send anything to both.
\<close>

section \<open>Envelopes (protocol.ts)\<close>

definition PROTOCOL_VERSION :: nat where "PROTOCOL_VERSION = 1"

definition CHANNEL :: string where "CHANNEL = ''yamale.connect''"

definition wire_envelope :: "string \<Rightarrow> json \<Rightarrow> json" where
  "wire_envelope i payload = JObj [(''channel'', JStr CHANNEL), (''version'', JNum (num_of_nat PROTOCOL_VERSION)),
     (''id'', JStr i), (''payload'', payload)]"

definition isEnvelope :: "json \<Rightarrow> bool" where
  "isEnvelope v \<longleftrightarrow> member ''channel'' v = Some (JStr CHANNEL) \<and> (case member ''id'' v of Some (JStr _) \<Rightarrow> True | _ \<Rightarrow> False)"

definition envelope_id :: "json \<Rightarrow> string" where
  "envelope_id v = (case member ''id'' v of Some (JStr i) \<Rightarrow> i | _ \<Rightarrow> [])"

definition version_ok :: "json \<Rightarrow> bool" where
  "version_ok v \<longleftrightarrow> (case member ''version'' v of Some (JNum x) \<Rightarrow> num_eq x (num_of_nat PROTOCOL_VERSION) | _ \<Rightarrow> False)"

definition error_result :: "string \<Rightarrow> string \<Rightarrow> json" where
  "error_result code msg = JObj [(''kind'', JStr ''error''), (''code'', JStr code), (''message'', JStr msg)]"

definition has_kind :: "string \<Rightarrow> json \<Rightarrow> bool" where
  "has_kind k v \<longleftrightarrow> member ''kind'' v = Some (JStr k)"

definition READY :: json where
  "READY = wire_envelope ''ready'' (JObj [(''kind'', JStr ''ready'')])"

section \<open>The application's pending request (client.ts, request)\<close>

text \<open>
  A promise that is settled has an outcome, except when reading the reply throws after the request
  was marked settled: then it never resolves nor rejects.
\<close>

datatype outcome = Resolved json | Rejected "json option" "json option"

record client =
  cl_id :: string
  cl_payload :: json
  cl_wallet :: string
  cl_popup_closed :: bool
  cl_settled :: bool
  cl_outcome :: "outcome option"
  cl_sent :: "(json \<times> string) list"

definition wallet_error :: "string \<Rightarrow> string \<Rightarrow> outcome" where
  "wallet_error code msg = Rejected (Some (JStr code)) (Some (JStr msg))"

definition open_request :: "bool \<Rightarrow> string \<Rightarrow> string \<Rightarrow> json \<Rightarrow> client" where
  "open_request popup wallet i payload =
    \<lparr>cl_id = i, cl_payload = payload, cl_wallet = wallet, cl_popup_closed = False, cl_settled = \<not> popup,
     cl_outcome = (if popup then None else Some (wallet_error ''internal''
       ''The wallet window was blocked. Allow popups for this site and try again.'')),
     cl_sent = []\<rparr>"

definition finish :: "outcome option \<Rightarrow> client \<Rightarrow> client" where
  "finish out c = (if cl_settled c then c else c\<lparr>cl_settled := True, cl_outcome := out\<rparr>)"

definition reply_outcome :: "json option \<Rightarrow> outcome option" where
  "reply_outcome payload =
    (case payload of
       None \<Rightarrow> None
     | Some JNull \<Rightarrow> None
     | Some r \<Rightarrow> Some (if has_kind ''error'' r then Rejected (member ''code'' r) (member ''message'' r) else Resolved r))"

definition client_message :: "string \<Rightarrow> json \<Rightarrow> client \<Rightarrow> client" where
  "client_message origin data c =
    (if cl_settled c then c
     else if origin \<noteq> cl_wallet c then c
     else if \<not> isEnvelope data then c
     else
       let payload = member ''payload'' data in
       if truthy_json payload \<and> has_kind ''ready'' (the payload) then
         c\<lparr>cl_sent := cl_sent c @ [(wire_envelope (cl_id c) (cl_payload c), cl_wallet c)]\<rparr>
       else if envelope_id data \<noteq> cl_id c then c
       else if \<not> version_ok data then finish (Some (wallet_error ''unsupported'' ''The wallet speaks a different version.'')) c
       else finish (reply_outcome payload) (c\<lparr>cl_popup_closed := True\<rparr>))"

definition closed_check :: "client \<Rightarrow> client" where
  "closed_check c = (if cl_popup_closed c then finish (Some (wallet_error ''rejected'' ''The wallet window was closed.'')) c else c)"

definition timer_fires :: "client \<Rightarrow> client" where
  "timer_fires c = (if cl_settled c then c else
     finish (Some (wallet_error ''rejected'' ''The wallet did not answer in time.'')) (c\<lparr>cl_popup_closed := True\<rparr>))"

datatype client_event = Incoming_message string json | Closed_check | Timer_fires | User_closes

fun client_step :: "client_event \<Rightarrow> client \<Rightarrow> client" where
  "client_step (Incoming_message origin data) c = client_message origin data c"
| "client_step Closed_check c = closed_check c"
| "client_step Timer_fires c = timer_fires c"
| "client_step User_closes c = c\<lparr>cl_popup_closed := True\<rparr>"

definition client_run :: "client_event list \<Rightarrow> client \<Rightarrow> client" where
  "client_run es c = fold client_step es c"

section \<open>The wallet's listener (provider.ts)\<close>

record ask =
  ak_id :: string
  ak_request :: "json option"
  ak_origin :: string
  ak_source :: "nat option"

datatype decision = Approve json | Throws_error string | Throws_other

record provider =
  pv_allowed :: "string list option"
  pv_opener :: "string option"
  pv_asks :: "ask list"
  pv_posts :: "(nat option \<times> json \<times> string) list"

definition provider_load :: "string list option \<Rightarrow> provider" where
  "provider_load allowed = \<lparr>pv_allowed = allowed, pv_opener = None, pv_asks = [], pv_posts = []\<rparr>"

definition allowed_origin :: "string list option \<Rightarrow> string \<Rightarrow> bool" where
  "allowed_origin allowed origin \<longleftrightarrow> (case allowed of None \<Rightarrow> True | Some os \<Rightarrow> origin \<in> set os)"

definition post_reply :: "nat option \<Rightarrow> string \<Rightarrow> json \<Rightarrow> string \<Rightarrow> provider \<Rightarrow> provider" where
  "post_reply source i payload target p = p\<lparr>pv_posts := pv_posts p @ [(source, wire_envelope i payload, target)]\<rparr>"

definition provider_message :: "nat option \<Rightarrow> string \<Rightarrow> json \<Rightarrow> provider \<Rightarrow> provider" where
  "provider_message source origin data p =
    (if \<not> isEnvelope data then p
     else if pv_opener p = None \<and> \<not> allowed_origin (pv_allowed p) origin then p
     else
       let p = (if pv_opener p = None then p\<lparr>pv_opener := Some origin\<rparr> else p) in
       if Some origin \<noteq> pv_opener p then p
       else if \<not> version_ok data then
         post_reply source (envelope_id data) (error_result ''unsupported''
           (''This wallet speaks protocol '' @ dec_nat PROTOCOL_VERSION @ ''.'')) (the (pv_opener p)) p
       else p\<lparr>pv_asks := pv_asks p @ [\<lparr>ak_id = envelope_id data, ak_request = member ''payload'' data, ak_origin = origin, ak_source = source\<rparr>]\<rparr>)"

definition decision_reply :: "decision \<Rightarrow> json" where
  "decision_reply d =
    (case d of
       Approve r \<Rightarrow> r
     | Throws_error msg \<Rightarrow> error_result (if msg = ''rejected'' then ''rejected'' else ''internal'') msg
     | Throws_other \<Rightarrow> error_result ''internal'' ''The wallet could not complete the request.'')"

text \<open>The promise of \<open>onRequest\<close> for the pending request number \<open>k\<close> settles.\<close>

definition provider_decide :: "nat \<Rightarrow> decision \<Rightarrow> provider \<Rightarrow> provider" where
  "provider_decide k d p =
    (if k < length (pv_asks p) then
       let a = pv_asks p ! k in
       post_reply (ak_source a) (ak_id a) (decision_reply d) (the (pv_opener p))
         (p\<lparr>pv_asks := take k (pv_asks p) @ drop (Suc k) (pv_asks p)\<rparr>)
     else p)"

section \<open>Facts about the pieces\<close>

lemma member_envelope [simp]:
  "member ''id'' (wire_envelope i p) = Some (JStr i)" "member ''payload'' (wire_envelope i p) = Some p"
  "member ''channel'' (wire_envelope i p) = Some (JStr CHANNEL)"
  "member ''version'' (wire_envelope i p) = Some (JNum (num_of_nat PROTOCOL_VERSION))"
  by (simp_all add: wire_envelope_def member_def)

lemma envelope_is [simp]: "isEnvelope (wire_envelope i p)" "envelope_id (wire_envelope i p) = i"
  by (simp_all add: isEnvelope_def envelope_id_def)

lemma version_envelope [simp]: "version_ok (wire_envelope i p)"
proof -
  have "num_eq (num_of_nat PROTOCOL_VERSION) (num_of_nat PROTOCOL_VERSION)" by code_simp
  then show ?thesis by (simp add: version_ok_def)
qed

lemma envelope_inj [simp]: "wire_envelope i p = wire_envelope j q \<longleftrightarrow> i = j \<and> p = q"
  by (simp add: wire_envelope_def)

lemma error_kind [simp]: "has_kind ''error'' (error_result c m)" "\<not> has_kind ''ready'' (error_result c m)"
  by (simp_all add: has_kind_def error_result_def member_def)

lemma text_has_no_kind [simp]: "\<not> has_kind k (JStr s)"
  by (simp add: has_kind_def member_def)

lemma finish_frames [frames]:
  "cl_id (finish out c) = cl_id c" "cl_payload (finish out c) = cl_payload c" "cl_wallet (finish out c) = cl_wallet c"
  "cl_sent (finish out c) = cl_sent c" "cl_settled (finish out c)"
  by (simp_all add: finish_def)

lemma piece_frames [frames]:
  "cl_id (client_message o' d c) = cl_id c" "cl_payload (client_message o' d c) = cl_payload c" "cl_wallet (client_message o' d c) = cl_wallet c"
  "cl_id (closed_check c) = cl_id c" "cl_payload (closed_check c) = cl_payload c" "cl_wallet (closed_check c) = cl_wallet c"
  "cl_id (timer_fires c) = cl_id c" "cl_payload (timer_fires c) = cl_payload c" "cl_wallet (timer_fires c) = cl_wallet c"
  by (simp_all add: client_message_def closed_check_def timer_fires_def frames Let_def)

lemma client_frames [frames]:
  "cl_id (client_step e c) = cl_id c" "cl_payload (client_step e c) = cl_payload c" "cl_wallet (client_step e c) = cl_wallet c"
  by (cases e; simp add: frames)+

lemma settled_stays: "cl_settled c \<Longrightarrow> cl_settled (client_step e c) \<and> cl_outcome (client_step e c) = cl_outcome c"
  by (cases e) (simp_all add: client_message_def closed_check_def timer_fires_def finish_def)

lemma run_settled: "cl_settled c \<Longrightarrow> cl_settled (client_run es c) \<and> cl_outcome (client_run es c) = cl_outcome c"
  unfolding client_run_def by (induction es arbitrary: c) (simp_all add: settled_stays)

lemma run_frames [frames]:
  "cl_id (client_run es c) = cl_id c" "cl_payload (client_run es c) = cl_payload c" "cl_wallet (client_run es c) = cl_wallet c"
  unfolding client_run_def by (induction es arbitrary: c) (simp_all add: frames)

lemma run_append: "client_run (es @ fs) c = client_run fs (client_run es c)"
  by (simp add: client_run_def)

text \<open>The only step that resolves is a well-formed reply of the wallet's origin to this very request.\<close>

definition replies_with :: "client \<Rightarrow> client_event \<Rightarrow> json \<Rightarrow> bool" where
  "replies_with c e r \<longleftrightarrow> (\<exists>data. e = Incoming_message (cl_wallet c) data \<and> isEnvelope data \<and> envelope_id data = cl_id c \<and>
     version_ok data \<and> member ''payload'' data = Some r \<and> \<not> has_kind ''error'' r)"

lemma step_resolves:
  assumes "cl_outcome (client_step e c) = Some (Resolved r)" and "cl_outcome c \<noteq> Some (Resolved r)"
  shows "replies_with c e r"
proof (cases e)
  case (Incoming_message origin data)
  then show ?thesis using assms
    by (auto simp: client_message_def finish_def wallet_error_def reply_outcome_def replies_with_def Let_def
        split: if_splits option.splits json.splits)
qed (use assms in \<open>auto simp: closed_check_def timer_fires_def finish_def wallet_error_def split: if_splits\<close>)

lemma run_resolves:
  "cl_outcome (client_run es c) = Some (Resolved r) \<Longrightarrow> cl_outcome c \<noteq> Some (Resolved r) \<Longrightarrow> \<exists>e \<in> set es. replies_with c e r"
proof (induction es arbitrary: c)
  case (Cons e es)
  show ?case
  proof (cases "cl_outcome (client_step e c) = Some (Resolved r)")
    case True
    then show ?thesis using step_resolves Cons.prems(2) by auto
  next
    case False
    then have "\<exists>e' \<in> set es. replies_with (client_step e c) e' r" using Cons by (simp add: client_run_def)
    then show ?thesis by (auto simp: replies_with_def frames)
  qed
qed (simp add: client_run_def)

text \<open>
  The one reply that marks a request settled without settling it: a matching reply whose payload is
  missing or \<open>null\<close>, so that reading its kind throws.
\<close>

definition void_reply :: "client \<Rightarrow> client_event \<Rightarrow> bool" where
  "void_reply c e \<longleftrightarrow> (\<exists>data. e = Incoming_message (cl_wallet c) data \<and> isEnvelope data \<and> envelope_id data = cl_id c \<and>
     version_ok data \<and> (member ''payload'' data = None \<or> member ''payload'' data = Some JNull))"

lemma void_frames [frames]: "void_reply (client_step e c) = void_reply c" "void_reply (client_run es c) = void_reply c"
  by (rule ext, simp add: void_reply_def frames)+

definition settled_for_real :: "client \<Rightarrow> bool" where
  "settled_for_real c \<longleftrightarrow> (cl_settled c \<longleftrightarrow> cl_outcome c \<noteq> None)"

lemma step_real: "settled_for_real c \<Longrightarrow> \<not> void_reply c e \<Longrightarrow> settled_for_real (client_step e c)"
  by (cases e)
    (auto simp: settled_for_real_def void_reply_def client_message_def closed_check_def timer_fires_def finish_def reply_outcome_def Let_def
      split: option.splits json.splits)

lemma run_real: "settled_for_real c \<Longrightarrow> \<forall>e \<in> set es. \<not> void_reply c e \<Longrightarrow> settled_for_real (client_run es c)"
proof (induction es arbitrary: c)
  case (Cons e es)
  then show ?case using Cons.IH [of "client_step e c"] step_real [of c e] by (simp add: client_run_def frames)
qed (simp add: client_run_def)

lemma opened_real: "settled_for_real (open_request popup wallet i payload)"
  by (simp add: settled_for_real_def open_request_def)

lemma outcome_settles: "(cl_outcome c \<noteq> None \<longrightarrow> cl_settled c) \<Longrightarrow> cl_outcome (client_run es c) \<noteq> None \<longrightarrow> cl_settled (client_run es c)"
proof (induction es arbitrary: c)
  case (Cons e es)
  have "cl_outcome (client_step e c) \<noteq> None \<longrightarrow> cl_settled (client_step e c)"
    using Cons.prems by (cases e) (auto simp: client_message_def closed_check_def timer_fires_def finish_def Let_def)
  then show ?case using Cons.IH [of "client_step e c"] by (simp add: client_run_def)
qed (simp add: client_run_def)

lemma void_settles: "void_reply c e \<Longrightarrow> cl_outcome c = None \<Longrightarrow> cl_settled (client_step e c) \<and> cl_outcome (client_step e c) = None"
  by (auto simp: void_reply_def client_message_def finish_def reply_outcome_def Let_def)

lemma popup_stays: "cl_popup_closed c \<Longrightarrow> cl_popup_closed (client_run es c)"
proof (induction es arbitrary: c)
  case (Cons e es)
  have "cl_popup_closed (client_step e c)"
    using Cons.prems by (cases e) (simp_all add: client_message_def closed_check_def timer_fires_def finish_def Let_def)
  then show ?case using Cons.IH [of "client_step e c"] by (simp add: client_run_def)
qed (simp add: client_run_def)

text \<open>
  C33. The promise of a request comes to an end, and only once. If no matching reply is void, then
  whatever messages arrive before and after, it has an outcome once its timer has fired, or once the window
  is closed and the next check has run: the one it had, or else the rejection that names the silence or the
  closed window. An outcome never changes, and a resolution is the payload of an enveloped reply of the
  protocol's version, from the wallet's own origin, to its own identifier. A void reply is the exception: a
  request that receives one before it has an outcome never has any, whatever follows.
\<close>

theorem request_settles_once:
  assumes "c = open_request popup wallet i payload"
  shows "((\<forall>e \<in> set es. \<not> void_reply c e) \<longrightarrow> cl_outcome (client_run (es @ Timer_fires # fs) c) =
      (case cl_outcome (client_run es c) of None \<Rightarrow> Some (wallet_error ''rejected'' ''The wallet did not answer in time.'') | Some out \<Rightarrow> Some out)) \<and>
    ((\<forall>e \<in> set (es @ gs). \<not> void_reply c e) \<longrightarrow> cl_outcome (client_run (es @ User_closes # gs @ Closed_check # fs) c) =
      (case cl_outcome (client_run (es @ User_closes # gs) c) of
         None \<Rightarrow> Some (wallet_error ''rejected'' ''The wallet window was closed.'') | Some out \<Rightarrow> Some out)) \<and>
    (\<forall>out. cl_outcome (client_run es c) = Some out \<longrightarrow> cl_outcome (client_run (es @ fs) c) = Some out) \<and>
    (\<forall>r. cl_outcome (client_run es c) = Some (Resolved r) \<longrightarrow> (\<exists>e \<in> set es. replies_with c e r)) \<and>
    (\<forall>e. void_reply c e \<and> cl_outcome (client_run es c) = None \<longrightarrow> cl_outcome (client_run (es @ e # fs) c) = None)"
proof (intro conjI impI allI)
  have keep: "cl_settled (client_run as c) \<Longrightarrow> cl_outcome (client_run (as @ bs) c) = cl_outcome (client_run as c)" for as bs
    by (simp add: run_append run_settled)
  have real: "settled_for_real c" using assms opened_real by simp
  have known: "cl_outcome (client_run as c) \<noteq> None \<Longrightarrow> cl_settled (client_run as c)" for as
    using outcome_settles [of c as] real by (simp add: settled_for_real_def)
  { assume "\<forall>e \<in> set es. \<not> void_reply c e"
    then have "settled_for_real (client_run es c)" by (rule run_real [OF real])
    then have "cl_settled (client_run (es @ [Timer_fires]) c) \<and> cl_outcome (client_run (es @ [Timer_fires]) c) =
        (case cl_outcome (client_run es c) of None \<Rightarrow> Some (wallet_error ''rejected'' ''The wallet did not answer in time.'') | Some out \<Rightarrow> Some out)"
      by (auto simp: run_append client_run_def [of "[Timer_fires]"] timer_fires_def finish_def settled_for_real_def split: option.split)
    then show "cl_outcome (client_run (es @ Timer_fires # fs) c) =
        (case cl_outcome (client_run es c) of None \<Rightarrow> Some (wallet_error ''rejected'' ''The wallet did not answer in time.'') | Some out \<Rightarrow> Some out)"
      using keep [of "es @ [Timer_fires]" fs] by simp }
  { assume "\<forall>e \<in> set (es @ gs). \<not> void_reply c e"
    then have "\<forall>e \<in> set (es @ User_closes # gs). \<not> void_reply c e" by (auto simp: void_reply_def)
    then have "settled_for_real (client_run (es @ User_closes # gs) c)" by (rule run_real [OF real])
    moreover have "cl_popup_closed (client_run (es @ User_closes # gs) c)"
      using popup_stays [of "client_step User_closes (client_run es c)" gs] by (simp add: client_run_def)
    ultimately have "cl_settled (client_run ((es @ User_closes # gs) @ [Closed_check]) c) \<and> cl_outcome (client_run ((es @ User_closes # gs) @ [Closed_check]) c) =
        (case cl_outcome (client_run (es @ User_closes # gs) c) of None \<Rightarrow> Some (wallet_error ''rejected'' ''The wallet window was closed.'') | Some out \<Rightarrow> Some out)"
      unfolding run_append [of "es @ User_closes # gs" "[Closed_check]"]
      by (auto simp: client_run_def [of "[Closed_check]"] closed_check_def finish_def settled_for_real_def split: option.split)
    then show "cl_outcome (client_run (es @ User_closes # gs @ Closed_check # fs) c) =
        (case cl_outcome (client_run (es @ User_closes # gs) c) of None \<Rightarrow> Some (wallet_error ''rejected'' ''The wallet window was closed.'') | Some out \<Rightarrow> Some out)"
      using keep [of "(es @ User_closes # gs) @ [Closed_check]" fs] by simp }
  { fix out assume "cl_outcome (client_run es c) = Some out"
    then show "cl_outcome (client_run (es @ fs) c) = Some out" using known [of es] keep [of es fs] by simp }
  { fix r assume "cl_outcome (client_run es c) = Some (Resolved r)"
    moreover have "cl_outcome c \<noteq> Some (Resolved r)" by (simp add: assms open_request_def wallet_error_def)
    ultimately show "\<exists>e \<in> set es. replies_with c e r" by (rule run_resolves) }
  { fix e assume v: "void_reply c e \<and> cl_outcome (client_run es c) = None"
    then have "cl_settled (client_run (es @ [e]) c) \<and> cl_outcome (client_run (es @ [e]) c) = None"
      using void_settles [of "client_run es c" e] by (simp add: frames run_append client_run_def [of "[e]"])
    then show "cl_outcome (client_run (es @ e # fs) c) = None" using keep [of "es @ [e]" fs] by simp }
qed

definition sample_request :: client where
  "sample_request = open_request True ''https://wallet'' ''r1'' (JObj [(''kind'', JStr ''accounts'')])"

text \<open>A hostile page's reply is not void and does not stop the timer; a void reply of the wallet does.\<close>

lemma request_settles_once_witness:
  "cl_outcome (client_run [Incoming_message ''https://evil'' (wire_envelope ''r1'' JNull), Timer_fires] sample_request) =
     Some (wallet_error ''rejected'' ''The wallet did not answer in time.'') \<and>
   cl_outcome (client_run [Incoming_message ''https://wallet'' (wire_envelope ''r1'' JNull), Timer_fires] sample_request) = None"
proof -
  let ?e = "Incoming_message ''https://evil'' (wire_envelope ''r1'' JNull)" and ?v = "Incoming_message ''https://wallet'' (wire_envelope ''r1'' JNull)"
  have n: "\<forall>e \<in> set [?e]. \<not> void_reply sample_request e" "void_reply sample_request ?v"
    by (simp_all add: void_reply_def sample_request_def open_request_def)
  have o: "cl_outcome (client_run [?e] sample_request) = None" "cl_outcome (client_run [] sample_request) = None"
    by (simp_all add: sample_request_def open_request_def client_run_def client_message_def)
  show ?thesis
    using request_settles_once [OF sample_request_def, of "[?e]" "[]" "[]"] request_settles_once [OF sample_request_def, of "[]" "[Timer_fires]" "[]"] n o
    by simp
qed

section \<open>The two pages, the browser and everybody else\<close>

text \<open>
  Window 0 is the application's, with the pending request. \<open>sy_to_client\<close> and \<open>sy_to_wallet\<close> are the
  messages in transit between the two pages; a message may be delivered any number of times. The log
  holds the decisions taken in the wallet. A foreign page may post anything: to the application's
  window from any origin but the wallet's, to the wallet's window from any origin, but not from window
  0, and not with the identifier of this request when its origin is the application's own, whose other
  requests have other identifiers.
\<close>

record sys =
  sy_app :: string
  sy_client :: client
  sy_provider :: provider
  sy_to_client :: "json list"
  sy_to_wallet :: "json list"
  sy_log :: "(ask \<times> decision) list"

datatype sys_event =
    Wallet_loads
  | Deliver_to_client nat
  | Foreign_to_client string json
  | Deliver_to_wallet nat
  | Foreign_to_wallet string "nat option" json
  | Decide nat decision
  | Client_event client_event

text \<open>What the client posted goes to the wallet's window; what the provider posted to window 0 is delivered only if addressed to the application's origin.\<close>

definition client_does :: "client_event \<Rightarrow> sys \<Rightarrow> sys" where
  "client_does e s =
    (let c = client_step e (sy_client s) in
     s\<lparr>sy_client := c, sy_to_wallet := sy_to_wallet s @ map fst (drop (length (cl_sent (sy_client s))) (cl_sent c))\<rparr>)"

definition collect_posts :: "provider \<Rightarrow> sys \<Rightarrow> sys" where
  "collect_posts p s =
    s\<lparr>sy_provider := p\<lparr>pv_posts := []\<rparr>,
      sy_to_client := sy_to_client s @ map (\<lambda>(_, d, _). d) (filter (\<lambda>(src, _, target). src = Some 0 \<and> target = sy_app s) (pv_posts p))\<rparr>"

fun sys_do :: "sys \<Rightarrow> sys_event \<Rightarrow> sys option" where
  "sys_do s Wallet_loads =
     Some (s\<lparr>sy_provider := provider_load (pv_allowed (sy_provider s)), sy_to_client := sy_to_client s @ [READY]\<rparr>)"
| "sys_do s (Deliver_to_client k) =
     (if k < length (sy_to_client s) then Some (client_does (Incoming_message (cl_wallet (sy_client s)) (sy_to_client s ! k)) s) else None)"
| "sys_do s (Foreign_to_client origin data) =
     (if origin \<noteq> cl_wallet (sy_client s) then Some (client_does (Incoming_message origin data) s) else None)"
| "sys_do s (Deliver_to_wallet k) =
     (if k < length (sy_to_wallet s)
      then Some (collect_posts (provider_message (Some 0) (sy_app s) (sy_to_wallet s ! k) (sy_provider s)) s) else None)"
| "sys_do s (Foreign_to_wallet origin source data) =
     (if (source = Some 0 \<longrightarrow> origin = sy_app s) \<and> (origin = sy_app s \<longrightarrow> envelope_id data \<noteq> cl_id (sy_client s))
      then Some (collect_posts (provider_message source origin data (sy_provider s)) s) else None)"
| "sys_do s (Decide k d) =
     (if k < length (pv_asks (sy_provider s))
      then Some ((collect_posts (provider_decide k d (sy_provider s)) s)\<lparr>sy_log := sy_log s @ [(pv_asks (sy_provider s) ! k, d)]\<rparr>)
      else None)"
| "sys_do s (Client_event e) =
     (case e of Incoming_message _ _ \<Rightarrow> None | _ \<Rightarrow> Some (client_does e s))"

definition sys_start :: "string \<Rightarrow> string list option \<Rightarrow> client \<Rightarrow> sys" where
  "sys_start app allowed c =
    \<lparr>sy_app = app, sy_client = c, sy_provider = provider_load allowed, sy_to_client = [], sy_to_wallet = [], sy_log = []\<rparr>"

inductive sys_reach :: "sys \<Rightarrow> sys \<Rightarrow> bool" for s0 where
  reach_start: "sys_reach s0 s0"
| reach_step: "sys_reach s0 s \<Longrightarrow> sys_do s e = Some t \<Longrightarrow> sys_reach s0 t"

fun sys_run :: "sys \<Rightarrow> sys_event list \<Rightarrow> sys option" where
  "sys_run s [] = Some s"
| "sys_run s (e # es) = (case sys_do s e of None \<Rightarrow> None | Some t \<Rightarrow> sys_run t es)"

lemma reach_trans: "sys_reach s t \<Longrightarrow> sys_reach r s \<Longrightarrow> sys_reach r t"
  by (induction rule: sys_reach.induct) (auto intro: reach_step)

lemma run_reaches: "sys_run s es = Some t \<Longrightarrow> sys_reach s t"
  by (induction es arbitrary: s) (auto split: option.splits intro: reach_start reach_trans [OF _ reach_step [OF reach_start]])

section \<open>What holds in every reachable state\<close>

text \<open>
  \<open>asked_for\<close>: an entry under this request's identifier from the application's origin is this request.
  \<open>decided\<close>: a reply under this request's identifier is one a decision on this very request produced.
\<close>

definition asked_for :: "sys \<Rightarrow> ask \<Rightarrow> bool" where
  "asked_for s a \<longleftrightarrow> (ak_source a = Some 0 \<longrightarrow> ak_origin a = sy_app s) \<and>
     (ak_id a = cl_id (sy_client s) \<and> ak_origin a = sy_app s \<longrightarrow> ak_request a = Some (cl_payload (sy_client s))) \<and>
     allowed_origin (pv_allowed (sy_provider s)) (ak_origin a)"

definition decided :: "sys \<Rightarrow> json \<Rightarrow> bool" where
  "decided s d \<longleftrightarrow> d = READY \<or> (\<exists>i r. d = wire_envelope i r \<and>
     (i = cl_id (sy_client s) \<longrightarrow> (\<exists>(a, dc) \<in> set (sy_log s). ak_id a = i \<and> ak_origin a = sy_app s \<and> decision_reply dc = r)))"

definition sys_inv :: "sys \<Rightarrow> bool" where
  "sys_inv s \<longleftrightarrow>
    (\<forall>d \<in> set (sy_to_client s). decided s d) \<and>
    (\<forall>d \<in> set (sy_to_wallet s). d = wire_envelope (cl_id (sy_client s)) (cl_payload (sy_client s))) \<and>
    (\<forall>a \<in> set (pv_asks (sy_provider s)). asked_for s a \<and> Some (ak_origin a) = pv_opener (sy_provider s)) \<and>
    (\<forall>(a, dc) \<in> set (sy_log s). asked_for s a) \<and>
    pv_posts (sy_provider s) = [] \<and>
    (\<forall>origin. pv_opener (sy_provider s) = Some origin \<longrightarrow> allowed_origin (pv_allowed (sy_provider s)) origin) \<and>
    (\<forall>r. cl_outcome (sy_client s) = Some (Resolved r) \<longrightarrow>
       (\<exists>(a, dc) \<in> set (sy_log s). ak_id a = cl_id (sy_client s) \<and> ak_origin a = sy_app s \<and> dc = Approve r))"

lemma decision_reply_resolves: "decision_reply dc = r \<Longrightarrow> \<not> has_kind ''error'' r \<Longrightarrow> dc = Approve r"
  by (auto simp: decision_reply_def split: decision.splits)

lemma client_posts: "\<exists>ps. cl_sent (client_step e c) = cl_sent c @ ps \<and> (\<forall>(d, t) \<in> set ps. d = wire_envelope (cl_id c) (cl_payload c))"
  by (cases e) (auto simp: client_message_def closed_check_def timer_fires_def frames Let_def)

lemma client_does_inv:
  assumes inv: "sys_inv s"
    and from_wallet: "\<And>data. e = Incoming_message (cl_wallet (sy_client s)) data \<Longrightarrow> decided s data"
  shows "sys_inv (client_does e s)"
proof -
  let ?c = "sy_client s" and ?t = "client_does e s"
  obtain ps where ps: "cl_sent (client_step e ?c) = cl_sent ?c @ ps" "\<forall>(d, t) \<in> set ps. d = wire_envelope (cl_id ?c) (cl_payload ?c)"
    using client_posts by blast
  have t: "?t = s\<lparr>sy_client := client_step e ?c, sy_to_wallet := sy_to_wallet s @ map fst ps\<rparr>"
    using ps(1) by (simp add: client_does_def Let_def)
  have same: "decided ?t d = decided s d" "asked_for ?t a = asked_for s a" for d a
    by (simp_all add: t decided_def asked_for_def frames)
  have out: "\<exists>(a, dc) \<in> set (sy_log s). ak_id a = cl_id ?c \<and> ak_origin a = sy_app s \<and> dc = Approve r"
    if r: "cl_outcome (client_step e ?c) = Some (Resolved r)" for r
  proof (cases "cl_outcome ?c = Some (Resolved r)")
    case True
    then show ?thesis using inv by (simp add: sys_inv_def)
  next
    case False
    then obtain data where data: "e = Incoming_message (cl_wallet ?c) data" "envelope_id data = cl_id ?c"
        "member ''payload'' data = Some r" "\<not> has_kind ''error'' r"
      using step_resolves [OF r] by (auto simp: replies_with_def)
    have "\<not> has_kind ''ready'' r"
      using r False data by (auto simp: client_message_def Let_def has_kind_def member_def split: if_splits json.splits)
    then have "data \<noteq> READY" using data(3) by (auto simp: READY_def has_kind_def member_def [of "''kind''"])
    then obtain a dc where "(a, dc) \<in> set (sy_log s)" "ak_id a = cl_id ?c" "ak_origin a = sy_app s" "decision_reply dc = r"
      using from_wallet [OF data(1)] data(2,3) by (auto simp: decided_def)
    then show ?thesis using decision_reply_resolves data(4) by fastforce
  qed
  show ?thesis
    unfolding sys_inv_def same using inv out ps(2)
    by (auto simp: sys_inv_def t frames)
qed

lemma collect_inv:
  assumes inv: "sys_inv s"
    and asks: "\<forall>a \<in> set (pv_asks p). asked_for s a \<and> Some (ak_origin a) = pv_opener p"
    and same: "pv_allowed p = pv_allowed (sy_provider s)"
    and opener: "\<forall>origin. pv_opener p = Some origin \<longrightarrow> allowed_origin (pv_allowed p) origin"
    and posts: "\<forall>(src, d, target) \<in> set (pv_posts p). src = Some 0 \<and> target = sy_app s \<longrightarrow> decided (s\<lparr>sy_log := sy_log s @ l\<rparr>) d"
    and log: "\<forall>(a, dc) \<in> set l. asked_for s a"
  shows "sys_inv ((collect_posts p s)\<lparr>sy_log := sy_log s @ l\<rparr>)"
proof -
  let ?t = "(collect_posts p s)\<lparr>sy_log := sy_log s @ l\<rparr>"
  have same_asked: "asked_for ?t a = asked_for s a" for a
    by (simp add: asked_for_def collect_posts_def same)
  have more: "decided ?t d = decided (s\<lparr>sy_log := sy_log s @ l\<rparr>) d" for d
    by (simp add: decided_def collect_posts_def)
  have grow: "decided s d \<Longrightarrow> decided (s\<lparr>sy_log := sy_log s @ l\<rparr>) d" for d
    by (fastforce simp: decided_def)
  have "\<forall>d \<in> set (sy_to_client ?t). decided ?t d"
    unfolding more using inv posts grow by (fastforce simp: sys_inv_def collect_posts_def)
  moreover have "\<exists>(a, dc) \<in> set (sy_log ?t). ak_id a = cl_id (sy_client s) \<and> ak_origin a = sy_app s \<and> dc = Approve r"
    if "cl_outcome (sy_client s) = Some (Resolved r)" for r
    using inv that unfolding sys_inv_def by (simp add: collect_posts_def) blast
  ultimately show ?thesis
    unfolding sys_inv_def same_asked using inv asks opener log
    by (auto simp: sys_inv_def collect_posts_def)
qed

lemma provider_message_facts:
  fixes src :: "nat option" and origin :: string and data :: json and p :: provider
  defines "q \<equiv> provider_message src origin data p"
  assumes "pv_posts p = []" "\<forall>a \<in> set (pv_asks p). Some (ak_origin a) = pv_opener p"
    and "\<forall>origin. pv_opener p = Some origin \<longrightarrow> allowed_origin (pv_allowed p) origin"
  shows "pv_allowed q = pv_allowed p"
    and "\<forall>origin. pv_opener q = Some origin \<longrightarrow> allowed_origin (pv_allowed q) origin"
    and "a \<in> set (pv_asks q) \<Longrightarrow> a \<in> set (pv_asks p) \<or>
      (a = \<lparr>ak_id = envelope_id data, ak_request = member ''payload'' data, ak_origin = origin, ak_source = src\<rparr> \<and>
       pv_opener q = Some origin)"
    and "a \<in> set (pv_asks q) \<Longrightarrow> Some (ak_origin a) = pv_opener q"
    and "(w, d, target) \<in> set (pv_posts q) \<Longrightarrow> \<exists>m. d = wire_envelope (envelope_id data) m \<and> w = src \<and> target = origin \<and> \<not> version_ok data"
  using assms by (auto simp: provider_message_def post_reply_def Let_def split: if_splits) metis+

lemma wallet_hears_inv:
  assumes inv: "sys_inv s" and src: "src = Some 0 \<longrightarrow> origin = sy_app s"
    and own: "origin = sy_app s \<and> envelope_id data = cl_id (sy_client s) \<longrightarrow> data = wire_envelope (cl_id (sy_client s)) (cl_payload (sy_client s))"
  shows "sys_inv (collect_posts (provider_message src origin data (sy_provider s)) s)"
proof -
  let ?p = "sy_provider s" and ?q = "provider_message src origin data (sy_provider s)"
  have p: "pv_posts ?p = []" "\<forall>a \<in> set (pv_asks ?p). Some (ak_origin a) = pv_opener ?p"
    "\<forall>origin. pv_opener ?p = Some origin \<longrightarrow> allowed_origin (pv_allowed ?p) origin"
    using inv by (simp_all add: sys_inv_def)
  note facts = provider_message_facts [OF p, where src = src and origin = origin and data = data]
  have "sys_inv ((collect_posts ?q s)\<lparr>sy_log := sy_log s @ []\<rparr>)"
  proof (rule collect_inv [OF inv])
    show "\<forall>a \<in> set (pv_asks ?q). asked_for s a \<and> Some (ak_origin a) = pv_opener ?q"
    proof
      fix a assume a: "a \<in> set (pv_asks ?q)"
      have "asked_for s a" using facts(3) [OF a]
      proof
        assume "a \<in> set (pv_asks ?p)"
        then show ?thesis using inv by (simp add: sys_inv_def)
      next
        assume "a = \<lparr>ak_id = envelope_id data, ak_request = member ''payload'' data, ak_origin = origin, ak_source = src\<rparr> \<and> pv_opener ?q = Some origin"
        then show ?thesis using src own facts(1,2) by (auto simp: asked_for_def)
      qed
      then show "asked_for s a \<and> Some (ak_origin a) = pv_opener ?q" using facts(4) [OF a] by blast
    qed
    show "pv_allowed ?q = pv_allowed ?p" by (rule facts(1))
    show "\<forall>origin. pv_opener ?q = Some origin \<longrightarrow> allowed_origin (pv_allowed ?q) origin" by (rule facts(2))
    have "decided (s\<lparr>sy_log := sy_log s @ []\<rparr>) d" if m: "(w, d, target) \<in> set (pv_posts ?q)" "w = Some 0" "target = sy_app s" for w d target
    proof -
      obtain m where "d = wire_envelope (envelope_id data) m" "origin = sy_app s" "\<not> version_ok data"
        using facts(5) [OF m(1)] m(3) by blast
      then show ?thesis using own by (auto simp: decided_def)
    qed
    then show "\<forall>(src, d, target) \<in> set (pv_posts ?q). src = Some 0 \<and> target = sy_app s \<longrightarrow> decided (s\<lparr>sy_log := sy_log s @ []\<rparr>) d"
      by blast
  qed simp
  then show ?thesis by (simp add: collect_posts_def)
qed

lemma decide_inv:
  assumes inv: "sys_inv s" and k: "k < length (pv_asks (sy_provider s))"
  shows "sys_inv ((collect_posts (provider_decide k d (sy_provider s)) s)\<lparr>sy_log := sy_log s @ [(pv_asks (sy_provider s) ! k, d)]\<rparr>)"
proof (rule collect_inv [OF inv])
  let ?p = "sy_provider s" and ?a = "pv_asks (sy_provider s) ! k"
  have a: "asked_for s ?a" "Some (ak_origin ?a) = pv_opener ?p" using inv k by (simp_all add: sys_inv_def)
  have q: "provider_decide k d ?p = ?p\<lparr>pv_asks := take k (pv_asks ?p) @ drop (Suc k) (pv_asks ?p),
      pv_posts := [(ak_source ?a, wire_envelope (ak_id ?a) (decision_reply d), the (pv_opener ?p))]\<rparr>"
    using k inv by (simp add: provider_decide_def post_reply_def Let_def sys_inv_def)
  show "\<forall>a \<in> set (pv_asks (provider_decide k d ?p)). asked_for s a \<and> Some (ak_origin a) = pv_opener (provider_decide k d ?p)"
    unfolding q using inv by (auto simp: sys_inv_def dest!: in_set_takeD in_set_dropD)
  show "pv_allowed (provider_decide k d ?p) = pv_allowed ?p" by (simp add: q)
  show "\<forall>origin. pv_opener (provider_decide k d ?p) = Some origin \<longrightarrow> allowed_origin (pv_allowed (provider_decide k d ?p)) origin"
    unfolding q using inv by (simp add: sys_inv_def)
  have "ak_origin ?a = the (pv_opener ?p)" using a(2) by (metis option.sel)
  then show "\<forall>(src, m, target) \<in> set (pv_posts (provider_decide k d ?p)). src = Some 0 \<and> target = sy_app s \<longrightarrow>
      decided (s\<lparr>sy_log := sy_log s @ [(?a, d)]\<rparr>) m"
    unfolding q by (fastforce simp: decided_def)
  show "\<forall>(a, dc) \<in> set [(?a, d)]. asked_for s a" using a by simp
qed

lemma sys_do_inv [wf_keeps]: "sys_inv s \<Longrightarrow> sys_do s e = Some t \<Longrightarrow> sys_inv t"
proof (cases e)
  case Wallet_loads
  assume inv: "sys_inv s" and "sys_do s e = Some t"
  then have t: "t = s\<lparr>sy_provider := provider_load (pv_allowed (sy_provider s)), sy_to_client := sy_to_client s @ [READY]\<rparr>"
    using Wallet_loads by simp
  have "decided t d = decided s d" "asked_for t a = asked_for s a" for d a
    by (simp_all add: t decided_def asked_for_def provider_load_def)
  moreover have "decided s READY" by (simp add: decided_def)
  ultimately show ?thesis using inv unfolding sys_inv_def by (simp add: t provider_load_def)
next
  case (Deliver_to_client k)
  assume inv: "sys_inv s" and "sys_do s e = Some t"
  then have t: "t = client_does (Incoming_message (cl_wallet (sy_client s)) (sy_to_client s ! k)) s" "k < length (sy_to_client s)"
    using Deliver_to_client by (simp_all split: if_splits)
  show ?thesis unfolding t(1) by (rule client_does_inv [OF inv]) (use t(2) inv in \<open>auto simp: sys_inv_def\<close>)
next
  case (Foreign_to_client origin data)
  assume inv: "sys_inv s" and "sys_do s e = Some t"
  then have t: "t = client_does (Incoming_message origin data) s" "origin \<noteq> cl_wallet (sy_client s)"
    using Foreign_to_client by (simp_all split: if_splits)
  show ?thesis unfolding t(1) by (rule client_does_inv [OF inv]) (use t(2) in auto)
next
  case (Deliver_to_wallet k)
  assume inv: "sys_inv s" and "sys_do s e = Some t"
  then have t: "t = collect_posts (provider_message (Some 0) (sy_app s) (sy_to_wallet s ! k) (sy_provider s)) s" "k < length (sy_to_wallet s)"
    using Deliver_to_wallet by (simp_all split: if_splits)
  show ?thesis unfolding t(1) by (rule wallet_hears_inv [OF inv]) (use t(2) inv in \<open>auto simp: sys_inv_def\<close>)
next
  case (Foreign_to_wallet origin source data)
  assume inv: "sys_inv s" and "sys_do s e = Some t"
  then have t: "t = collect_posts (provider_message source origin data (sy_provider s)) s"
    "source = Some 0 \<longrightarrow> origin = sy_app s" "origin = sy_app s \<longrightarrow> envelope_id data \<noteq> cl_id (sy_client s)"
    using Foreign_to_wallet by (simp_all split: if_splits)
  show ?thesis unfolding t(1) by (rule wallet_hears_inv [OF inv]) (use t(2,3) in auto)
next
  case (Decide k d)
  assume inv: "sys_inv s" and "sys_do s e = Some t"
  then show ?thesis using Decide decide_inv [OF inv, of k d] by (auto split: if_splits)
next
  case (Client_event ce)
  assume inv: "sys_inv s" and "sys_do s e = Some t"
  then have t: "t = client_does ce s" "\<And>o' d. ce \<noteq> Incoming_message o' d"
    using Client_event by (auto split: client_event.splits)
  show ?thesis unfolding t(1) by (rule client_does_inv [OF inv]) (use t(2) in blast)
qed

lemma reachable_inv:
  assumes "sys_reach (sys_start app allowed c) s" and "cl_outcome c = None"
  shows "sys_inv s"
  using assms(1)
proof (induction rule: sys_reach.induct)
  case reach_start
  then show ?case using assms(2) by (simp add: sys_inv_def sys_start_def provider_load_def)
qed (rule sys_do_inv)

text \<open>What no step changes: who is asking for what, and whom the wallet allows.\<close>

lemma provider_allowed [frames]:
  "pv_allowed (provider_message w o' d p) = pv_allowed p" "pv_allowed (provider_decide k dc p) = pv_allowed p"
  by (simp_all add: provider_message_def provider_decide_def post_reply_def Let_def)

lemma sys_do_frames:
  "sys_do s e = Some t \<Longrightarrow> sy_app t = sy_app s \<and> cl_id (sy_client t) = cl_id (sy_client s) \<and>
     cl_payload (sy_client t) = cl_payload (sy_client s) \<and> pv_allowed (sy_provider t) = pv_allowed (sy_provider s)"
  by (cases e) (auto simp: client_does_def collect_posts_def provider_load_def frames Let_def split: if_splits client_event.splits)

lemma reachable_frames:
  "sys_reach s0 s \<Longrightarrow> sy_app s = sy_app s0 \<and> cl_id (sy_client s) = cl_id (sy_client s0) \<and>
     cl_payload (sy_client s) = cl_payload (sy_client s0) \<and> pv_allowed (sy_provider s) = pv_allowed (sy_provider s0)"
  by (induction rule: sys_reach.induct) (auto dest: sys_do_frames)

text \<open>
  C1. What an application is given is what a person approved for it: in every state the two pages
  can reach, with hostile pages posting to both windows and the wallet page reloading at will, a
  request that has resolved with a result was put to the wallet with exactly its own payload, under
  its own identifier and the application's real origin, that origin is one the wallet allows, and the
  decision taken on it was the approval with that very result.
\<close>

theorem resolved_means_approved:
  assumes "sys_reach (sys_start app allowed c) s" and "cl_outcome c = None"
    and "cl_outcome (sy_client s) = Some (Resolved r)"
  shows "\<exists>a. (a, Approve r) \<in> set (sy_log s) \<and> ak_id a = cl_id c \<and> ak_request a = Some (cl_payload c) \<and>
    ak_origin a = app \<and> allowed_origin allowed app"
proof -
  have same: "sy_app s = app" "cl_id (sy_client s) = cl_id c" "cl_payload (sy_client s) = cl_payload c" "pv_allowed (sy_provider s) = allowed"
    using reachable_frames [OF assms(1)] by (simp_all add: sys_start_def provider_load_def)
  have inv: "sys_inv s" by (rule reachable_inv [OF assms(1,2)])
  then obtain a where a: "(a, Approve r) \<in> set (sy_log s)" "ak_id a = cl_id c" "ak_origin a = app"
    using assms(3) same by (auto simp: sys_inv_def)
  then have "asked_for s a" using inv by (auto simp: sys_inv_def)
  then show ?thesis using a same by (auto simp: asked_for_def)
qed

definition approved_run :: "sys_event list" where
  "approved_run =
    [Foreign_to_wallet ''https://evil'' None (wire_envelope ''r1'' (JStr ''drain'')), Wallet_loads, Deliver_to_client 0,
     Deliver_to_wallet 0, Foreign_to_client ''https://evil'' (wire_envelope ''r1'' (JStr ''fake'')),
     Decide 0 (Approve (JStr ''ok'')), Deliver_to_client 1]"

lemma resolved_means_approved_witness:
  "\<exists>s a. sys_run (sys_start ''https://app'' (Some [''https://app'']) sample_request) approved_run = Some s \<and>
    (a, Approve (JStr ''ok'')) \<in> set (sy_log s) \<and> ak_request a = Some (cl_payload sample_request) \<and> ak_origin a = ''https://app''"
proof -
  have "case sys_run (sys_start ''https://app'' (Some [''https://app'']) sample_request) approved_run of
      Some s \<Rightarrow> cl_outcome (sy_client s) = Some (Resolved (JStr ''ok'')) | None \<Rightarrow> False" by code_simp
  then obtain s where s: "sys_run (sys_start ''https://app'' (Some [''https://app'']) sample_request) approved_run = Some s"
      "cl_outcome (sy_client s) = Some (Resolved (JStr ''ok''))"
    by (auto split: option.splits)
  have "cl_outcome sample_request = None" by (simp add: sample_request_def open_request_def)
  then show ?thesis using resolved_means_approved [OF run_reaches [OF s(1)] _ s(2)] s(1) by blast
qed

section \<open>The signer handed to applications (client.ts, YamaleWallet)\<close>

text \<open>
  \<open>accounts\<close> is an array, as the protocol types it. \<open>Type_error\<close> is reading a property of \<open>undefined\<close>,
  \<open>Encoding_error\<close> the exception of \<open>atob\<close>.
\<close>

record connect_options =
  co_chain :: string
  co_app :: string

record handle =
  hd_accounts :: "json list"

record sign_doc =
  sd_body :: "byte list"
  sd_auth :: "byte list"
  sd_chain :: "string option"
  sd_account :: string

record direct_signed =
  ds_doc :: sign_doc
  ds_pubkey :: "json option"
  ds_signature :: "json option"

datatype wallet_fail = Wallet_error "json option" "json option" | Type_error | Encoding_error

definition connected :: "handle \<Rightarrow> bool" where
  "connected h \<longleftrightarrow> hd_accounts h \<noteq> []"

definition current_address :: "handle \<Rightarrow> json option" where
  "current_address h = (case hd_accounts h of [] \<Rightarrow> None | a # _ \<Rightarrow> member ''address'' a)"

definition disconnect :: "handle \<Rightarrow> handle" where
  "disconnect h = h\<lparr>hd_accounts := []\<rparr>"

definition connect_payload :: "connect_options \<Rightarrow> json" where
  "connect_payload opts = JObj [(''kind'', JStr ''connect''), (''chainId'', JStr (co_chain opts)), (''appName'', JStr (co_app opts))]"

definition sign_payload :: "connect_options \<Rightarrow> string \<Rightarrow> sign_doc \<Rightarrow> json" where
  "sign_payload opts signer doc = JObj [(''kind'', JStr ''signDirect''),
     (''chainId'', JStr (case sd_chain doc of Some c \<Rightarrow> c | None \<Rightarrow> co_chain opts)), (''signerAddress'', JStr signer),
     (''bodyBytes'', JStr (btoa (sd_body doc))), (''authInfoBytes'', JStr (btoa (sd_auth doc))), (''accountNumber'', JStr (sd_account doc))]"

definition unexpected :: wallet_fail where
  "unexpected = Wallet_error (Some (JStr ''internal'')) (Some (JStr ''Unexpected reply.''))"

text \<open>\<open>fromBase64\<close> of a member of the reply: \<open>atob\<close> of the member converted to a string.\<close>

definition from_base64 :: "json option \<Rightarrow> byte list option" where
  "from_base64 j = atob (case j of None \<Rightarrow> ''undefined'' | Some v \<Rightarrow> js_string v)"

definition connect_result :: "outcome \<Rightarrow> handle \<Rightarrow> handle \<times> (wallet_fail + json list)" where
  "connect_result out h =
    (case out of
       Rejected c m \<Rightarrow> (h, Inl (Wallet_error c m))
     | Resolved r \<Rightarrow>
         if \<not> has_kind ''connect'' r then (h, Inl unexpected)
         else let as = (case member ''accounts'' r of Some (JArr xs) \<Rightarrow> xs | _ \<Rightarrow> []) in (h\<lparr>hd_accounts := as\<rparr>, Inr as))"

fun account_data :: "json list \<Rightarrow> (json option \<times> json option \<times> byte list) list option" where
  "account_data [] = Some []"
| "account_data (a # as) =
    (case (from_base64 (member ''pubkey'' a), account_data as) of
       (Some k, Some r) \<Rightarrow> Some ((member ''address'' a, member ''algo'' a, k) # r) | _ \<Rightarrow> None)"

text \<open>\<open>getAccounts\<close>, \<open>out\<close> being how the connection it makes when there is none ends.\<close>

definition get_accounts :: "outcome \<Rightarrow> handle \<Rightarrow> handle \<times> (wallet_fail + (json option \<times> json option \<times> byte list) list)" where
  "get_accounts out h =
    (let (h, r) = (if connected h then (h, Inr []) else connect_result out h) in
     case r of
       Inl e \<Rightarrow> (h, Inl e)
     | Inr _ \<Rightarrow> (h, case account_data (hd_accounts h) of None \<Rightarrow> Inl Encoding_error | Some as \<Rightarrow> Inr as))"

definition sign_result :: "handle \<Rightarrow> sign_doc \<Rightarrow> outcome \<Rightarrow> wallet_fail + direct_signed" where
  "sign_result h doc out =
    (case out of
       Rejected c m \<Rightarrow> Inl (Wallet_error c m)
     | Resolved r \<Rightarrow>
         if \<not> has_kind ''signDirect'' r then Inl unexpected else
         case (from_base64 (member ''bodyBytes'' r), from_base64 (member ''authInfoBytes'' r)) of
           (Some body, Some auth) \<Rightarrow>
             (case hd_accounts h of
                [] \<Rightarrow> Inl Type_error
              | a # _ \<Rightarrow> Inr \<lparr>ds_doc = doc\<lparr>sd_body := body, sd_auth := auth\<rparr>, ds_pubkey = member ''pubkey'' a,
                              ds_signature = member ''signature'' r\<rparr>)
         | _ \<Rightarrow> Inl Encoding_error)"

text \<open>The wallet's approval of a sign request, for the bytes it signed.\<close>

definition sign_reply :: "string \<Rightarrow> byte list \<Rightarrow> byte list \<Rightarrow> json" where
  "sign_reply sig body auth = JObj [(''kind'', JStr ''signDirect''), (''signature'', JStr sig),
     (''bodyBytes'', JStr (btoa body)), (''authInfoBytes'', JStr (btoa auth))]"

text \<open>
  Signing carries bytes unharmed in both directions: the wallet decodes exactly the document the
  application gave, and the application is handed exactly the document the wallet says it signed,
  with its signature, which need not be the one it sent. The public key it is handed is that of the
  first account, whichever account the document was to be signed by; an application that never
  connected gets an exception after the person has approved.
\<close>

theorem sign_direct_carries_bytes:
  "from_base64 (member ''bodyBytes'' (sign_payload opts signer doc)) = Some (sd_body doc) \<and>
   from_base64 (member ''authInfoBytes'' (sign_payload opts signer doc)) = Some (sd_auth doc) \<and>
   sign_result h doc (Resolved (sign_reply sig body auth)) =
     (case hd_accounts h of
        [] \<Rightarrow> Inl Type_error
      | a # _ \<Rightarrow> Inr \<lparr>ds_doc = doc\<lparr>sd_body := body, sd_auth := auth\<rparr>, ds_pubkey = member ''pubkey'' a, ds_signature = Some (JStr sig)\<rparr>)"
  by (simp add: sign_payload_def member_def from_base64_def sign_result_def sign_reply_def has_kind_def split: list.split)

end
