(* ===== verification/Vehicle.thy ===== *)
theory Vehicle imports Denom Base64 JsValue begin

text \<open>
  Tokenised vehicles (\<open>rwa/src/vehicle.ts\<close>): what a holding, a protection, a reported sale, a challenge
  bond and a redemption are, and which actions the interface offers. The interface claims to mirror
  the chain's keeper; the handlers it mirrors (\<open>x/tokenisation/keeper/sale.go\<close> and
  \<open>msg_server.go\<close>) are translated beside it, as the reference it is proved against. Times are
  milliseconds, \<open>None\<close> an invalid \<open>Date\<close>.
\<close>

section \<open>Data\<close>

datatype verification = Verify_unspecified | Verify_valuer | Verify_attestors | Verify_governance | Verify_schedule

datatype vehicle_status = St_unspecified | St_held | St_active | St_reported | St_realised | St_closed | St_disputed

record collection =
  cn_id :: string
  cn_authority :: string
  cn_verification :: verification
  cn_threshold :: jsnum
  cn_window :: jsnum
  cn_bond_bps :: jsnum

record asset =
  as_id :: string
  as_fraction_denom :: string
  as_status :: vehicle_status
  as_parcel :: string

record sale_report =
  sr_price :: coin
  sr_claimable :: "int option"
  sr_attestors :: "string list"
  sr_disputed :: bool

section \<open>Identifiers and percentages\<close>

definition isRealId :: "string option \<Rightarrow> bool" where
  "isRealId i =
    (case i of
       None \<Rightarrow> False
     | Some s \<Rightarrow> let t = trim s in t \<noteq> [] \<and> all_digits t \<and> 0 < nat_of_dec t)"

definition isOverLand :: "asset \<Rightarrow> bool" where
  "isOverLand a = isRealId (Some (as_parcel a))"

definition bpsToPercent :: "jsnum \<Rightarrow> jsnum" where
  "bpsToPercent bps = num_div bps (num_of_nat 100)"

record shareholding =
  sh_of_supply :: "jsnum option"
  sh_of_asset :: "jsnum option"
  sh_empty :: bool

definition or_zero :: "string \<Rightarrow> string" where
  "or_zero s = (if s = [] then ''0'' else s)"

definition shareholding_of :: "string \<Rightarrow> string \<Rightarrow> jsnum \<Rightarrow> shareholding" where
  "shareholding_of balance supply holderShareBps =
    (case (big_int (or_zero balance), big_int (or_zero supply)) of
       (Some held, Some supplied) \<Rightarrow>
         if supplied \<le> 0 then \<lparr>sh_of_supply = None, sh_of_asset = None, sh_empty = (held \<le> 0)\<rparr>
         else if held \<le> 0 then \<lparr>sh_of_supply = Some (num_of_nat 0), sh_of_asset = Some (num_of_nat 0), sh_empty = True\<rparr>
         else
           let SCALE = 1000000000;
               ratio = num_div (num_of_int (big_div (held * SCALE) supplied)) (num_of_int SCALE) in
           \<lparr>sh_of_supply = Some (num_mul ratio (num_of_nat 100)),
            sh_of_asset = Some (num_div (num_mul ratio holderShareBps) (num_of_nat 100)), sh_empty = False\<rparr>
     | _ \<Rightarrow> \<lparr>sh_of_supply = None, sh_of_asset = None, sh_empty = True\<rparr>)"

section \<open>Protections\<close>

datatype protection_level = Prot_none | Prot_weak | Prot_standard | Prot_strong

datatype tone = Tone_ok | Tone_warn | Tone_bad | Tone_mute

record protection_finding =
  pf_key :: string
  pf_tone :: tone
  pf_values :: "(string \<times> jsnum) list"

record protection =
  po_level :: protection_level
  po_findings :: "protection_finding list"

definition DAY_SECONDS :: nat where "DAY_SECONDS = 86400"
definition WEEK_SECONDS :: nat where "WEEK_SECONDS = 7 * DAY_SECONDS"

fun level_rank :: "protection_level \<Rightarrow> nat" where
  "level_rank Prot_none = 0"
| "level_rank Prot_weak = 1"
| "level_rank Prot_standard = 2"
| "level_rank Prot_strong = 3"

definition worsen :: "protection_level \<Rightarrow> protection \<Rightarrow> protection" where
  "worsen l p = (if level_rank l < level_rank (po_level p) then p\<lparr>po_level := l\<rparr> else p)"

definition add_finding :: "string \<Rightarrow> tone \<Rightarrow> (string \<times> jsnum) list \<Rightarrow> protection \<Rightarrow> protection" where
  "add_finding key tn vs p = p\<lparr>po_findings := po_findings p @ [\<lparr>pf_key = key, pf_tone = tn, pf_values = vs\<rparr>]\<rparr>"

definition check_verification :: "collection \<Rightarrow> protection \<Rightarrow> protection" where
  "check_verification c p =
    (case cn_verification c of
       Verify_attestors \<Rightarrow>
         if num_less (cn_threshold c) (num_of_nat 2) then worsen Prot_none (add_finding ''rwa.protect.thresholdTooLow'' Tone_bad [] p)
         else
           let p = add_finding ''rwa.protect.attestors'' Tone_ok [(''n'', cn_threshold c)] p in
           if num_less (cn_threshold c) (num_of_nat 3) then worsen Prot_standard p else p
     | Verify_valuer \<Rightarrow> add_finding ''rwa.protect.valuer'' Tone_ok [] p
     | Verify_governance \<Rightarrow> add_finding ''rwa.protect.governance'' Tone_ok [] p
     | Verify_schedule \<Rightarrow> add_finding ''rwa.protect.schedule'' Tone_ok [] p
     | Verify_unspecified \<Rightarrow> worsen Prot_none (add_finding ''rwa.protect.noVerification'' Tone_bad [] p))"

definition check_window :: "collection \<Rightarrow> protection \<Rightarrow> protection" where
  "check_window c p =
    (if num_le (cn_window c) (num_of_nat 0) then worsen Prot_none (add_finding ''rwa.protect.noWindow'' Tone_bad [] p)
     else if num_less (cn_window c) (num_of_nat DAY_SECONDS) then
       worsen Prot_weak (add_finding ''rwa.protect.shortWindow'' Tone_warn [(''seconds'', cn_window c)] p)
     else
       let p = add_finding ''rwa.protect.window'' Tone_ok [(''seconds'', cn_window c)] p in
       if num_less (cn_window c) (num_of_nat WEEK_SECONDS) then worsen Prot_standard p else p)"

definition check_bond :: "collection \<Rightarrow> protection \<Rightarrow> protection" where
  "check_bond c p =
    (if num_eq (cn_bond_bps c) (num_of_nat 0) then add_finding ''rwa.protect.freeChallenge'' Tone_warn [] p
     else add_finding ''rwa.protect.bond'' Tone_ok [(''percent'', bpsToPercent (cn_bond_bps c))] p)"

definition protectionOf :: "collection \<Rightarrow> protection" where
  "protectionOf c =
    (let p = check_bond c (check_window c (check_verification c \<lparr>po_level = Prot_strong, po_findings = []\<rparr>)) in
     if num_eq (cn_threshold c) (num_of_nat 0) \<and> num_le (cn_window c) (num_of_nat 0) then
       p\<lparr>po_level := Prot_none, po_findings := \<lparr>pf_key = ''rwa.protect.unchecked'', pf_tone = Tone_bad, pf_values = []\<rparr> # po_findings p\<rparr>
     else p)"

definition dilutionProtected :: "asset \<Rightarrow> bool" where
  "dilutionProtected a \<longleftrightarrow> as_fraction_denom a \<noteq> [] \<and> as_status a \<noteq> St_unspecified"

section \<open>The sale clock\<close>

datatype sale_phase = Ph_none | Ph_in_window | Ph_awaiting | Ph_disputed | Ph_clear | Ph_realised

record sale_state =
  st_phase :: sale_phase
  st_attestations :: nat
  st_needed :: jsnum
  st_remaining :: int
  st_total :: jsnum
  st_can_dispute :: bool
  st_bond :: string

definition disputeBond :: "string \<Rightarrow> jsnum \<Rightarrow> string" where
  "disputeBond priceAmount bps =
    (if \<not> num_is_finite bps \<or> num_le bps (num_of_nat 0) then ''0'' else
     case big_int (trim (or_zero priceAmount)) of
       None \<Rightarrow> ''0''
     | Some price \<Rightarrow>
         if price \<le> 0 then ''0''
         else show_int (big_div (price * the (int_of_num (num_trunc bps))) 10000))"

text \<open>\<open>Math.ceil(ms / 1000)\<close>, exact for every difference of two dates.\<close>

definition ceil_seconds :: "int option \<Rightarrow> int" where
  "ceil_seconds ms = (case ms of Some d \<Rightarrow> if 0 < d then (d + 999) div 1000 else 0 | None \<Rightarrow> 0)"

definition ms_diff :: "int option \<Rightarrow> int option \<Rightarrow> int option" where
  "ms_diff a b = (case (a, b) of (Some x, Some y) \<Rightarrow> Some (x - y) | _ \<Rightarrow> None)"

definition ms_le :: "int option \<Rightarrow> int option \<Rightarrow> bool" where
  "ms_le a b = (case (a, b) of (Some x, Some y) \<Rightarrow> x \<le> y | _ \<Rightarrow> False)"

definition saleState :: "vehicle_status \<Rightarrow> sale_report option \<Rightarrow> collection \<Rightarrow> int option \<Rightarrow> sale_state" where
  "saleState status sale c now =
    (let needed = (if cn_verification c = Verify_attestors then cn_threshold c else num_of_nat 0);
         state = (\<lambda>phase n remaining can bond.
           \<lparr>st_phase = phase, st_attestations = n, st_needed = needed, st_remaining = remaining, st_total = cn_window c,
            st_can_dispute = can, st_bond = bond\<rparr>) in
     if status = St_realised \<or> status = St_closed then
       state Ph_realised (case sale of None \<Rightarrow> 0 | Some r \<Rightarrow> length (sr_attestors r)) 0 False ''0''
     else case sale of
       None \<Rightarrow> state Ph_none 0 0 False ''0''
     | Some r \<Rightarrow>
         let n = length (sr_attestors r);
             bond = disputeBond (c_amount (sr_price r)) (cn_bond_bps c);
             remaining = ceil_seconds (ms_diff (sr_claimable r) now);
             inWindow = ms_le now (sr_claimable r) in
         if sr_disputed r \<or> status = St_disputed then state Ph_disputed n remaining False bond
         else if inWindow then state Ph_in_window n remaining (status = St_reported) bond
         else state (if num_less (num_of_nat 0) needed \<and> num_less (num_of_nat n) needed then Ph_awaiting else Ph_clear) n 0 False bond)"

definition redeemPayout :: "string \<Rightarrow> string \<Rightarrow> string \<Rightarrow> string option" where
  "redeemPayout accrued amount balance =
    (case (big_int (trim (or_zero accrued)), big_int (trim (or_zero amount)), big_int (trim (or_zero balance))) of
       (Some owed, Some want, Some held) \<Rightarrow>
         if want \<le> 0 then None
         else if held \<le> 0 then None
         else if held < want then None
         else if owed \<le> 0 then Some ''0''
         else Some (show_int (big_div (owed * want) held))
     | _ \<Rightarrow> None)"

section \<open>Land\<close>

record land_authorisation =
  la_expires :: jsnum
  la_withdrawn :: bool

datatype land_found = Land_found land_authorisation bool | Land_absent | Land_unreachable

datatype land_gate = Gate_not_land | Gate_absent | Gate_unreachable | Gate_withdrawn land_authorisation
  | Gate_expired land_authorisation | Gate_restricted land_authorisation | Gate_live land_authorisation

definition landGate :: "string \<Rightarrow> land_found \<Rightarrow> jsnum \<Rightarrow> land_gate" where
  "landGate parcel found now =
    (if \<not> isRealId (Some parcel) then Gate_not_land else
     case found of
       Land_absent \<Rightarrow> Gate_absent
     | Land_unreachable \<Rightarrow> Gate_unreachable
     | Land_found auth live \<Rightarrow>
         if live then Gate_live auth
         else if la_withdrawn auth then Gate_withdrawn auth
         else if num_le (la_expires auth) now then Gate_expired auth
         else Gate_restricted auth)"

definition issuancePermitted :: "land_gate \<Rightarrow> bool" where
  "issuancePermitted g \<longleftrightarrow> (case g of Gate_live _ \<Rightarrow> True | Gate_not_land \<Rightarrow> True | _ \<Rightarrow> False)"

section \<open>Words and tones\<close>

fun statusKey :: "vehicle_status \<Rightarrow> string" where
  "statusKey St_held = ''rwa.status.held''"
| "statusKey St_active = ''rwa.status.active''"
| "statusKey St_reported = ''rwa.status.reported''"
| "statusKey St_realised = ''rwa.status.realised''"
| "statusKey St_closed = ''rwa.status.closed''"
| "statusKey St_disputed = ''rwa.status.disputed''"
| "statusKey St_unspecified = ''rwa.status.unknown''"

definition parcelStatusKey :: "string \<Rightarrow> string" where
  "parcelStatusKey s =
    (if s = ''STATUS_REGISTERED'' then ''rwa.parcelState.registered''
     else if s = ''STATUS_TRANSFER_PENDING'' then ''rwa.parcelState.transferPending''
     else if s = ''STATUS_DISPUTED'' then ''rwa.parcelState.disputed''
     else if s = ''STATUS_FROZEN'' then ''rwa.parcelState.frozen'' else ''rwa.parcelState.unknown'')"

definition parcelTone :: "string \<Rightarrow> tone" where
  "parcelTone s =
    (if s = ''STATUS_REGISTERED'' then Tone_ok else if s = ''STATUS_TRANSFER_PENDING'' then Tone_warn
     else if s = ''STATUS_DISPUTED'' then Tone_bad else if s = ''STATUS_FROZEN'' then Tone_bad else Tone_mute)"

fun statusTone :: "vehicle_status \<Rightarrow> tone" where
  "statusTone St_active = Tone_ok"
| "statusTone St_reported = Tone_warn"
| "statusTone St_disputed = Tone_bad"
| "statusTone St_realised = Tone_warn"
| "statusTone St_closed = Tone_mute"
| "statusTone _ = Tone_mute"

section \<open>Actions\<close>

record action =
  ac_enabled :: bool
  ac_why :: "string option"

record actions =
  ax_claim :: action
  ax_redeem :: action
  ax_dispute :: action

definition enabled :: action where "enabled = \<lparr>ac_enabled = True, ac_why = None\<rparr>"
definition disabled :: "string \<Rightarrow> action" where "disabled why = \<lparr>ac_enabled = False, ac_why = Some why\<rparr>"

definition positive :: "string \<Rightarrow> bool" where
  "positive s = (case big_int (or_zero s) of Some n \<Rightarrow> 0 < n | None \<Rightarrow> False)"

definition actionsFor :: "vehicle_status \<Rightarrow> sale_state \<Rightarrow> string \<Rightarrow> string \<Rightarrow> bool \<Rightarrow> actions" where
  "actionsFor status sale balance entitlement conn =
    (let holds = positive balance; owed = positive entitlement in
     if \<not> conn then
       (let why = disabled ''rwa.act.needAccount'' in \<lparr>ax_claim = why, ax_redeem = why, ax_dispute = why\<rparr>)
     else
       \<lparr>ax_claim = (if \<not> holds then disabled ''rwa.act.noShares'' else if \<not> owed then disabled ''rwa.act.nothingOwed'' else enabled),
        ax_redeem = (if status \<noteq> St_realised then disabled ''rwa.act.notRealised'' else if \<not> holds then disabled ''rwa.act.noShares'' else enabled),
        ax_dispute = (if \<not> st_can_dispute sale then
            disabled (if st_phase sale = Ph_disputed then ''rwa.act.alreadyDisputed''
                      else if st_phase sale = Ph_none then ''rwa.act.noSale'' else ''rwa.act.windowClosed'')
          else enabled)\<rparr>)"

section \<open>The keeper's handlers\<close>

text \<open>
  The chain's side of three of the actions, every refusal in the order the handler comes to it, on the
  records it loads (\<open>None\<close> where the collection has none); \<open>Int.Quo\<close> truncates towards zero. What the bank
  and the address codec answer is an argument. A handler's result is the refusal, which leaves no trace, or
  what it pays or takes; what an accepted message writes is not modelled.
\<close>

datatype keeper_error = Err_bad_address | Err_asset_not_found | Err_collection_not_found | Err_wrong_status | Err_no_sale
  | Err_already_disputed | Err_window_closed | Err_still_in_window | Err_not_verified | Err_proceeds_unpaid | Err_no_vault
  | Err_no_shareholders | Err_amount_too_small | Err_vault_unfunded | Err_invalid_amount | Err_nothing_owed | Err_bank

record keeper_sale =
  ks_price :: int
  ks_claimable :: int
  ks_attestors :: nat
  ks_disputed :: bool

text \<open>\<open>valid\<close>: the challenger's address decodes; \<open>pays n\<close>: the bank moves \<open>n\<close> units from the challenger to the module.\<close>

definition keeper_dispute ::
  "vehicle_status option \<Rightarrow> keeper_sale option \<Rightarrow> int \<Rightarrow> int option \<Rightarrow> bool \<Rightarrow> (int \<Rightarrow> bool) \<Rightarrow> keeper_error + int" where
  "keeper_dispute status sale now bond_bps valid pays =
    (case status of
       None \<Rightarrow> Inl Err_asset_not_found
     | Some status \<Rightarrow>
         if status \<noteq> St_reported then Inl Err_wrong_status else
         case sale of
           None \<Rightarrow> Inl Err_no_sale
         | Some r \<Rightarrow>
             if ks_disputed r then Inl Err_already_disputed
             else if ks_claimable r < now then Inl Err_window_closed
             else case bond_bps of
               None \<Rightarrow> Inl Err_collection_not_found
             | Some bps \<Rightarrow>
                 if \<not> valid then Inl Err_bad_address
                 else let bond = big_div (ks_price r * bps) 10000 in
                   if 0 < bond \<and> \<not> pays bond then Inl Err_bank else Inr bond)"

text \<open>
  The vault a sale is finalised against: the holders' share of the asset in basis points, the proceeds
  that were paid in (and whether in the vault's own denomination), the shares in circulation and what
  the vault's ledger holds.
\<close>

record keeper_vault =
  kv_share_bps :: int
  kv_same_denom :: bool
  kv_paid :: int
  kv_supply :: int
  kv_held :: int

definition holder_cut :: "keeper_vault \<Rightarrow> int \<Rightarrow> int" where
  "holder_cut v gross = big_div (gross * kv_share_bps v) 10000"

definition credit_holders :: "keeper_vault \<Rightarrow> int \<Rightarrow> keeper_error + unit" where
  "credit_holders v credited =
    (if kv_supply v \<le> 0 then Inl Err_no_shareholders
     else if credited \<le> 0 then Inl Err_amount_too_small
     else if kv_held v < credited then Inl Err_vault_unfunded
     else Inr ())"

definition keeper_finalise ::
  "vehicle_status option \<Rightarrow> keeper_sale option \<Rightarrow> int \<Rightarrow> (verification \<times> int) option \<Rightarrow> keeper_vault option \<Rightarrow> keeper_error + unit" where
  "keeper_finalise status sale now c vault =
    (case status of
       None \<Rightarrow> Inl Err_asset_not_found
     | Some status \<Rightarrow>
         if status \<noteq> St_reported then Inl Err_wrong_status else
         case sale of
           None \<Rightarrow> Inl Err_no_sale
         | Some r \<Rightarrow>
             if ks_disputed r then Inl Err_already_disputed
             else if now < ks_claimable r then Inl Err_still_in_window
             else case c of
               None \<Rightarrow> Inl Err_collection_not_found
             | Some (v, threshold) \<Rightarrow>
                 if v = Verify_attestors \<and> int (ks_attestors r) < threshold then Inl Err_not_verified
                 else case vault of
                   None \<Rightarrow> Inl Err_no_vault
                 | Some vt \<Rightarrow>
                     if \<not> kv_same_denom vt \<or> kv_paid vt < holder_cut vt (ks_price r) then Inl Err_proceeds_unpaid
                     else credit_holders vt (holder_cut vt (ks_price r)))"

text \<open>
  What \<open>Redeem\<close> reads: the asset's status, whether it has a vault and the holder's position settles, what
  the position then accrues, the holder's balance, whether the bank takes the shares and burns them,
  what the vault's ledger holds, and whether the bank pays out of the module.
\<close>

record keeper_redemption =
  kr_status :: "vehicle_status option"
  kr_vault :: bool
  kr_settles :: bool
  kr_accrued :: "int option"
  kr_balance :: int
  kr_takes :: bool
  kr_burns :: bool
  kr_held :: int
  kr_pays :: bool

definition keeper_redeem :: "bool \<Rightarrow> keeper_redemption \<Rightarrow> int \<Rightarrow> keeper_error + int" where
  "keeper_redeem valid w amount =
    (if \<not> valid then Inl Err_bad_address else
     case kr_status w of
       None \<Rightarrow> Inl Err_asset_not_found
     | Some status \<Rightarrow>
         if status \<noteq> St_realised then Inl Err_wrong_status
         else if amount \<le> 0 then Inl Err_invalid_amount
         else if \<not> kr_vault w \<or> \<not> kr_settles w then Inl Err_no_vault
         else case kr_accrued w of
           None \<Rightarrow> Inl Err_nothing_owed
         | Some accrued \<Rightarrow>
             if kr_balance w \<le> 0 then Inl Err_nothing_owed
             else if kr_balance w < amount then Inl Err_invalid_amount
             else let share = big_div (accrued * amount) (kr_balance w) in
               if \<not> kr_takes w \<or> \<not> kr_burns w then Inl Err_bank
               else if 0 < share \<and> kr_held w < share then Inl Err_vault_unfunded
               else if 0 < share \<and> \<not> kr_pays w then Inl Err_bank
               else Inr share)"

section \<open>The interface against the keeper\<close>

lemma show_int_graphic: "\<forall>c \<in> set (show_int i). graphic c"
  using all_digits_graphic [OF dec_nat_digits] by (auto simp: show_int_def graphic_def)

lemma show_int_ne [simp]: "show_int i \<noteq> []"
  by (simp add: show_int_def)

lemma read_amount [simp]: "big_int (trim (or_zero (show_int i))) = Some i" "big_int (or_zero (show_int i)) = Some i"
  by (simp_all add: or_zero_def trim_all_graphic show_int_graphic)

lemma show_zero: "show_int 0 = ''0''"
  by (simp add: show_int_def)

lemma read_zero [simp]: "big_int (trim (or_zero ''0'')) = Some 0"
  using read_amount(1) [of 0] by (simp add: show_zero)

lemma positive_amount [simp]: "positive (show_int i) \<longleftrightarrow> 0 < i"
  by (simp add: positive_def)

lemma holds_int_finite: "holds_int x i \<Longrightarrow> num_is_finite x"
  by (cases x) (simp_all add: holds_int_def)

text \<open>A report as the interface reads it and as the keeper holds it.\<close>

definition mirrors :: "sale_report option \<Rightarrow> keeper_sale option \<Rightarrow> bool" where
  "mirrors a b \<longleftrightarrow>
    (case (a, b) of
       (None, None) \<Rightarrow> True
     | (Some r, Some k) \<Rightarrow> 0 \<le> ks_price k \<and> c_amount (sr_price r) = show_int (ks_price k) \<and>
         sr_claimable r = Some (ks_claimable k) \<and> length (sr_attestors r) = ks_attestors k \<and> sr_disputed r = ks_disputed k
     | _ \<Rightarrow> False)"

lemma bond_of_keeper:
  assumes "0 \<le> p" "holds_int bps b" "0 \<le> b" "b < 2 ^ 53"
  shows "disputeBond (show_int p) bps = show_int (big_div (p * b) 10000)"
proof -
  have le: "num_le bps (num_of_nat 0) \<longleftrightarrow> b \<le> 0" using num_cmp_holds(3) [OF assms(2) holds_nat [of 0]] by simp
  have t: "int_of_num (num_trunc bps) = Some b"
    using assms(3,4) by (intro int_of_num_holds num_trunc_holds assms(2)) simp
  show ?thesis
  proof (cases "b = 0 \<or> p = 0")
    case True
    then show ?thesis using assms le by (auto simp: disputeBond_def holds_int_finite show_zero)
  next
    case False
    then show ?thesis using assms le t by (simp add: disputeBond_def holds_int_finite)
  qed
qed

text \<open>
  C22. The interface offers a challenge to a connected account exactly when the keeper's
  \<open>DisputeSale\<close>, at the same instant and on the same report, would accept one from an account that can
  pay the bond, and the bond it quotes is to the unit the bond the keeper takes. It does not look at
  what the account holds: the one challenge it offers and the keeper refuses is that of an account which
  cannot pay a bond above zero, and then the bank is what refuses it.
\<close>

theorem dispute_offered_iff_accepted:
  assumes "mirrors sale ks" "holds_int (cn_bond_bps c) b" "0 \<le> b" "b < 2 ^ 53"
  shows "let st = saleState status sale c (Some now); offered = ac_enabled (ax_dispute (actionsFor status st balance owed True));
      answer = keeper_dispute (Some status) ks now (Some b) True pays in
    (offered \<longleftrightarrow> (\<exists>bond. keeper_dispute (Some status) ks now (Some b) True (\<lambda>_. True) = Inr bond)) \<and>
    ((\<exists>bond. answer = Inr bond) \<longleftrightarrow> offered \<and> (\<exists>bond. st_bond st = show_int bond \<and> (bond = 0 \<or> pays bond))) \<and>
    (\<forall>bond. answer = Inr bond \<longrightarrow> st_bond st = show_int bond) \<and>
    (offered \<and> (\<nexists>bond. answer = Inr bond) \<longrightarrow> answer = Inl Err_bank)"
proof -
  have can: "ac_enabled (ax_dispute (actionsFor status st balance owed True)) = st_can_dispute st" for st
    by (simp add: actionsFor_def Let_def enabled_def disabled_def)
  show ?thesis
  proof (cases sale)
    case None
    then have "ks = None" using assms(1) by (simp add: mirrors_def split: option.splits)
    then show ?thesis using None by (simp add: can saleState_def keeper_dispute_def Let_def)
  next
    case (Some r)
    then obtain k where k: "ks = Some k" "0 \<le> ks_price k" "c_amount (sr_price r) = show_int (ks_price k)"
        "sr_claimable r = Some (ks_claimable k)" "sr_disputed r = ks_disputed k"
      using assms(1) by (auto simp: mirrors_def split: option.splits)
    define bond where "bond = big_div (ks_price k * b) 10000"
    have shown: "disputeBond (show_int (ks_price k)) (cn_bond_bps c) = show_int bond"
      unfolding bond_def by (rule bond_of_keeper [OF k(2) assms(2-4)])
    have pos: "0 \<le> bond" using k(2) assms(3) by (simp add: bond_def pos_imp_zdiv_nonneg_iff)
    have keeper: "keeper_dispute (Some status) ks now (Some b) True f =
        (if status \<noteq> St_reported then Inl Err_wrong_status else if ks_disputed k then Inl Err_already_disputed
         else if ks_claimable k < now then Inl Err_window_closed else if 0 < bond \<and> \<not> f bond then Inl Err_bank else Inr bond)" for f
      by (simp add: keeper_dispute_def k(1) bond_def Let_def)
    have offered: "st_can_dispute (saleState status sale c (Some now)) \<longleftrightarrow> status = St_reported \<and> \<not> ks_disputed k \<and> now \<le> ks_claimable k"
      "status = St_reported \<Longrightarrow> st_bond (saleState status sale c (Some now)) = show_int bond"
      using Some k shown by (auto simp: saleState_def Let_def ms_le_def)
    have eq: "\<And>n. show_int bond = show_int n \<longleftrightarrow> n = bond" using show_int_inj by metis
    show ?thesis
      using pos offered(2) unfolding Let_def can keeper offered(1) by (auto simp: eq)
  qed
qed

definition sample_collection :: collection where
  "sample_collection = \<lparr>cn_id = ''1'', cn_authority = ''yml1a'', cn_verification = Verify_valuer, cn_threshold = num_of_nat 0,
     cn_window = num_of_nat 0, cn_bond_bps = num_of_nat 250\<rparr>"

definition sample_report :: sale_report where
  "sample_report = \<lparr>sr_price = \<lparr>c_denom = ''uyml'', c_amount = show_int 1000000\<rparr>, sr_claimable = Some 5000,
     sr_attestors = [], sr_disputed = False\<rparr>"

definition sample_keeper_sale :: keeper_sale where
  "sample_keeper_sale = \<lparr>ks_price = 1000000, ks_claimable = 5000, ks_attestors = 0, ks_disputed = False\<rparr>"

lemma sample_mirrors: "mirrors (Some sample_report) (Some sample_keeper_sale)"
  by (simp add: mirrors_def sample_report_def sample_keeper_sale_def)

lemma dispute_offered_iff_accepted_witness:
  "st_bond (saleState St_reported (Some sample_report) sample_collection (Some 5000)) = show_int 25000 \<and>
   keeper_dispute (Some St_reported) (Some sample_keeper_sale) 5000 (Some 250) True (\<lambda>n. n \<le> 24999) = Inl Err_bank"
proof -
  have h: "holds_int (cn_bond_bps sample_collection) 250" using holds_nat [of 250] by (simp add: sample_collection_def)
  have "keeper_dispute (Some St_reported) (Some sample_keeper_sale) 5000 (Some 250) True (\<lambda>_. True) = Inr 25000"
    "keeper_dispute (Some St_reported) (Some sample_keeper_sale) 5000 (Some 250) True (\<lambda>n. n \<le> 24999) = Inl Err_bank"
    by (simp_all add: keeper_dispute_def sample_keeper_sale_def)
  then show ?thesis
    using dispute_offered_iff_accepted [OF sample_mirrors h, of St_reported 5000 "[]" "[]" "\<lambda>_. True"] by (simp add: Let_def)
qed

definition vault_ready :: "keeper_vault \<Rightarrow> int \<Rightarrow> bool" where
  "vault_ready v price \<longleftrightarrow> kv_same_denom v \<and> holder_cut v price \<le> kv_paid v \<and> 0 < kv_supply v \<and> 0 < holder_cut v price \<and>
    holder_cut v price \<le> kv_held v"

text \<open>
  C24. A reported sale is shown as clear exactly when the keeper's \<open>FinaliseSale\<close> would accept it,
  except in two cases: at the closing instant of the window, when the keeper already finalises and the
  interface still shows the window, and while the vault is not ready, when the keeper refuses and
  the interface, which does not look, shows it as clear: the holders' share of the price has not been
  paid in, rounds to nothing or is not in the vault, or no share is in circulation.
\<close>

theorem clear_sale_can_be_finalised:
  assumes "mirrors (Some r) (Some k)" "holds_int (cn_threshold c) t" "length (sr_attestors r) < 2 ^ 53"
  shows "let phase = st_phase (saleState St_reported (Some r) c (Some now));
      finalise = \<lambda>v. keeper_finalise (Some St_reported) (Some k) now (Some (cn_verification c, t)) (Some v) in
    (\<forall>v. now \<noteq> ks_claimable k \<longrightarrow> (finalise v = Inr () \<longleftrightarrow> phase = Ph_clear \<and> vault_ready v (ks_price k))) \<and>
    (now = ks_claimable k \<and> \<not> ks_disputed k \<longrightarrow> phase = Ph_in_window) \<and>
    (\<forall>v. \<not> vault_ready v (ks_price k) \<longrightarrow> finalise v \<noteq> Inr ())"
proof -
  have k: "sr_claimable r = Some (ks_claimable k)" "length (sr_attestors r) = ks_attestors k" "sr_disputed r = ks_disputed k"
    using assms(1) by (simp_all add: mirrors_def)
  have n: "holds_int (num_of_nat (ks_attestors k)) (int (ks_attestors k))" using assms(3) k(2) by simp
  have "num_less (num_of_nat 0) (cn_threshold c) \<longleftrightarrow> 0 < t" using num_cmp_holds(1) [OF holds_nat [of 0] assms(2)] by simp
  moreover have "num_less (num_of_nat (ks_attestors k)) (cn_threshold c) \<longleftrightarrow> int (ks_attestors k) < t"
    by (rule num_cmp_holds(1) [OF n assms(2)])
  moreover have "\<not> num_less (num_of_nat 0) (num_of_nat 0)"
    using num_cmp_holds(1) [OF holds_nat [of 0] holds_nat [of 0]] by simp
  ultimately show ?thesis
    using k by (auto simp: saleState_def keeper_finalise_def credit_holders_def vault_ready_def Let_def ms_le_def not_le not_less)
qed

definition sample_vault :: keeper_vault where
  "sample_vault = \<lparr>kv_share_bps = 5000, kv_same_denom = True, kv_paid = 500000, kv_supply = 100, kv_held = 500000\<rparr>"

lemma clear_sale_can_be_finalised_witness:
  "st_phase (saleState St_reported (Some sample_report) sample_collection (Some 5001)) = Ph_clear \<and>
   keeper_finalise (Some St_reported) (Some sample_keeper_sale) 5001 (Some (Verify_valuer, 0)) (Some (sample_vault\<lparr>kv_paid := 499999\<rparr>)) \<noteq> Inr ()"
proof -
  have "holds_int (cn_threshold sample_collection) 0" using holds_nat [of 0] by (simp add: sample_collection_def)
  moreover have "keeper_finalise (Some St_reported) (Some sample_keeper_sale) 5001 (Some (cn_verification sample_collection, 0)) (Some sample_vault) = Inr ()"
    by (simp add: keeper_finalise_def credit_holders_def holder_cut_def sample_keeper_sale_def sample_collection_def sample_vault_def)
  moreover have "\<not> vault_ready (sample_vault\<lparr>kv_paid := 499999\<rparr>) (ks_price sample_keeper_sale)"
    by (simp add: vault_ready_def holder_cut_def sample_vault_def sample_keeper_sale_def)
  ultimately show ?thesis
    using clear_sale_can_be_finalised [OF sample_mirrors, of sample_collection 0 5001]
    by (simp add: Let_def sample_report_def) (simp add: sample_keeper_sale_def sample_collection_def)
qed

text \<open>Two floors add up to no more than the floor of the whole.\<close>

lemma split_payout:
  assumes "0 \<le> (x::int)" "0 < m" "0 < n" "m + n \<le> h"
  shows "x * m div h + (x - x * m div h) * n div (h - m) \<le> x * (m + n) div h"
proof -
  let ?s = "x * m div h" and ?t = "(x - x * m div h) * n div (h - m)"
  have h: "0 < h" "0 < h - m" using assms by simp_all
  have s: "?s * h \<le> x * m" using h(1) by (metis div_mult_mod_eq le_add_same_cancel1 pos_mod_sign)
  have t: "?t * (h - m) \<le> (x - ?s) * n" using h(2) by (metis div_mult_mod_eq le_add_same_cancel1 pos_mod_sign)
  have "(?s + ?t) * h * (h - m) = ?s * h * (h - m) + ?t * (h - m) * h" by (simp add: algebra_simps)
  also have "\<dots> \<le> ?s * h * (h - m) + (x - ?s) * n * h" using t h(1) by (simp add: mult_right_mono)
  also have "\<dots> = ?s * h * (h - m - n) + x * n * h" by (simp add: algebra_simps)
  also have "\<dots> \<le> x * m * (h - m - n) + x * n * h" using s assms(4) by (simp add: mult_right_mono)
  also have "\<dots> = x * (m + n) * (h - m)" by (simp add: algebra_simps)
  finally have "(?s + ?t) * h \<le> x * (m + n)" using h(2) by (simp only: mult_le_cancel_right_pos)
  then have "((?s + ?t) * h) div h \<le> x * (m + n) div h" using h(1) by (rule zdiv_mono1)
  then show ?thesis using h(1) by simp
qed

text \<open>
  C23. What the keeper's \<open>Redeem\<close> pays, whatever the state of the vehicle, is the payout that was shown, and no
  figure is shown only where it refuses. A shown figure is paid exactly when what the function is not
  told also holds: the vehicle is realised, its vault settles and holds the figure, and the bank
  takes, burns and pays. Redeeming everything pays everything owed, and redeeming in two steps never
  pays more than redeeming both at once.
\<close>

theorem redeem_pays_what_the_keeper_pays:
  assumes "0 \<le> accrued"
  shows "let shown = \<lambda>owed amount balance. redeemPayout (show_int owed) (show_int amount) (show_int balance);
      answer = keeper_redeem True (w\<lparr>kr_accrued := Some accrued, kr_balance := balance\<rparr>) amount in
    (\<forall>share. answer = Inr share \<longrightarrow> shown accrued amount balance = Some (show_int share)) \<and>
    (shown accrued amount balance = None \<longleftrightarrow> amount \<le> 0 \<or> balance < amount) \<and>
    (\<forall>share. shown accrued amount balance = Some (show_int share) \<longrightarrow>
       (answer = Inr share \<longleftrightarrow> kr_status w = Some St_realised \<and> kr_vault w \<and> kr_settles w \<and> kr_takes w \<and> kr_burns w \<and>
          (share = 0 \<or> share \<le> kr_held w \<and> kr_pays w))) \<and>
    (0 < balance \<longrightarrow> shown accrued balance balance = Some (show_int accrued)) \<and>
    (\<forall>more share rest. shown accrued amount balance = Some (show_int share) \<and>
       shown (accrued - share) more (balance - amount) = Some (show_int rest) \<longrightarrow>
       (\<exists>both. shown accrued (amount + more) balance = Some (show_int both) \<and> share + rest \<le> both \<and> both \<le> accrued))"
proof -
  have eq: "show_int m = show_int n \<longleftrightarrow> m = n" for m n using show_int_inj by metis
  have p: "redeemPayout (show_int x) (show_int m) (show_int h) =
      (if m \<le> 0 \<or> h < m then None else Some (show_int (x * m div h)))" if "0 \<le> x" for x m h
    using that by (cases "x = 0") (auto simp: redeemPayout_def show_zero)
  have q: "keeper_redeem True (w\<lparr>kr_accrued := Some accrued, kr_balance := balance\<rparr>) amount = Inr share \<longleftrightarrow>
      0 < amount \<and> amount \<le> balance \<and> share = accrued * amount div balance \<and> kr_status w = Some St_realised \<and> kr_vault w \<and> kr_settles w \<and>
      kr_takes w \<and> kr_burns w \<and> (share = 0 \<or> share \<le> kr_held w \<and> kr_pays w)" for share
    using assms pos_imp_zdiv_nonneg_iff [of balance "accrued * amount"]
    by (auto simp: keeper_redeem_def Let_def split: option.split)
  have split: "\<exists>both. redeemPayout (show_int accrued) (show_int (amount + more)) (show_int balance) = Some (show_int both) \<and>
      share + rest \<le> both \<and> both \<le> accrued"
    if s: "redeemPayout (show_int accrued) (show_int amount) (show_int balance) = Some (show_int share)"
      and r: "redeemPayout (show_int (accrued - share)) (show_int more) (show_int (balance - amount)) = Some (show_int rest)" for more share rest
  proof -
    have a: "0 < amount" "amount \<le> balance" "share = accrued * amount div balance" using s by (auto simp: p [OF assms] eq split: if_splits)
    have "accrued * amount div balance \<le> accrued * balance div balance" using a assms by (intro zdiv_mono1 mult_left_mono) auto
    then have "0 \<le> accrued - share" using a by simp
    then have b: "0 < more" "more \<le> balance - amount" "rest = (accrued - share) * more div (balance - amount)"
      using r by (auto simp: p eq split: if_splits)
    have "accrued * (amount + more) div balance \<le> accrued * balance div balance" using a b assms by (intro zdiv_mono1 mult_left_mono) auto
    then show ?thesis using split_payout [OF assms a(1) b(1), of balance] a b by (simp add: p [OF assms])
  qed
  show ?thesis using split unfolding Let_def q by (auto simp: p [OF assms] eq)
qed

definition sample_redemption :: keeper_redemption where
  "sample_redemption = \<lparr>kr_status = Some St_active, kr_vault = True, kr_settles = True, kr_accrued = None, kr_balance = 0, kr_takes = True,
     kr_burns = True, kr_held = 100, kr_pays = True\<rparr>"

text \<open>A figure is shown for a vehicle that is not realised, and the keeper pays nothing.\<close>

lemma redeem_pays_what_the_keeper_pays_witness:
  "redeemPayout (show_int 100) (show_int 1) (show_int 3) = Some (show_int 33) \<and>
   keeper_redeem True (sample_redemption\<lparr>kr_accrued := Some 100, kr_balance := 3\<rparr>) 1 \<noteq> Inr 33"
proof -
  have "keeper_redeem True (sample_redemption\<lparr>kr_status := Some St_realised, kr_accrued := Some 100, kr_balance := 3\<rparr>) 1 = Inr 33"
    by (simp add: keeper_redeem_def sample_redemption_def)
  then have "redeemPayout (show_int 100) (show_int 1) (show_int 3) = Some (show_int 33)"
    using redeem_pays_what_the_keeper_pays [where accrued = 100 and amount = 1 and balance = 3 and w = "sample_redemption\<lparr>kr_status := Some St_realised\<rparr>"] by (simp add: Let_def)
  then show ?thesis
    using redeem_pays_what_the_keeper_pays [where accrued = 100 and amount = 1 and balance = 3 and w = sample_redemption] by (simp add: Let_def sample_redemption_def)
qed

section \<open>The grade of a collection\<close>

text \<open>What the three checks do to the grade, and which findings they add.\<close>

definition flagged :: "protection \<Rightarrow> bool" where
  "flagged p \<longleftrightarrow> (\<exists>f \<in> set (po_findings p). pf_tone f = Tone_bad)"

definition lower_level :: "protection_level \<Rightarrow> protection_level \<Rightarrow> protection_level" where
  "lower_level l m = (if level_rank l < level_rank m then l else m)"

lemma finding_effects [simp]:
  "po_level (add_finding k t vs p) = po_level p" "flagged (add_finding k t vs p) \<longleftrightarrow> t = Tone_bad \<or> flagged p"
  "po_level (worsen l p) = lower_level l (po_level p)" "flagged (worsen l p) = flagged p"
  by (auto simp: add_finding_def flagged_def worsen_def lower_level_def)

lemma bond_effects: "po_level (check_bond c p) = po_level p" "flagged (check_bond c p) = flagged p"
  by (simp_all add: check_bond_def)

definition window_level :: "collection \<Rightarrow> protection_level" where
  "window_level c =
    (if num_le (cn_window c) (num_of_nat 0) then Prot_none
     else if num_less (cn_window c) (num_of_nat DAY_SECONDS) then Prot_weak
     else if num_less (cn_window c) (num_of_nat WEEK_SECONDS) then Prot_standard else Prot_strong)"

definition check_level :: "collection \<Rightarrow> protection_level" where
  "check_level c =
    (case cn_verification c of
       Verify_unspecified \<Rightarrow> Prot_none
     | Verify_attestors \<Rightarrow> if num_less (cn_threshold c) (num_of_nat 2) then Prot_none
         else if num_less (cn_threshold c) (num_of_nat 3) then Prot_standard else Prot_strong
     | _ \<Rightarrow> Prot_strong)"

lemma level_le_strong: "level_rank l \<le> 3" by (cases l) simp_all

lemma lower_strong [simp]: "lower_level Prot_strong l = l" "lower_level l Prot_strong = l"
  using level_le_strong [of l] by (cases l; simp add: lower_level_def)+

lemma window_effects:
  "po_level (check_window c p) = lower_level (window_level c) (po_level p)"
  "flagged (check_window c p) \<longleftrightarrow> window_level c = Prot_none \<or> flagged p"
  by (simp_all add: check_window_def window_level_def Let_def)

lemma verification_effects:
  "po_level (check_verification c p) = lower_level (check_level c) (po_level p)"
  "flagged (check_verification c p) \<longleftrightarrow> check_level c = Prot_none \<or> flagged p"
  by (simp_all add: check_verification_def check_level_def Let_def split: verification.split)

lemma unchecked_effects:
  "po_level (protectionOf c) = lower_level (window_level c) (check_level c)"
  "flagged (protectionOf c) \<longleftrightarrow> window_level c = Prot_none \<or> check_level c = Prot_none"
proof -
  let ?p = "check_bond c (check_window c (check_verification c \<lparr>po_level = Prot_strong, po_findings = []\<rparr>))"
  have p: "po_level ?p = lower_level (window_level c) (check_level c)" "flagged ?p \<longleftrightarrow> window_level c = Prot_none \<or> check_level c = Prot_none"
    by (simp_all only: bond_effects window_effects verification_effects) (simp_all add: flagged_def)
  have n: "num_le (cn_window c) (num_of_nat 0) \<Longrightarrow> window_level c = Prot_none" by (simp add: window_level_def)
  then have l: "num_le (cn_window c) (num_of_nat 0) \<Longrightarrow> lower_level (window_level c) (check_level c) = Prot_none"
    by (cases "check_level c") (simp_all add: lower_level_def)
  show "po_level (protectionOf c) = lower_level (window_level c) (check_level c)"
    unfolding protectionOf_def Let_def using p(1) l by simp
  show "flagged (protectionOf c) \<longleftrightarrow> window_level c = Prot_none \<or> check_level c = Prot_none"
    unfolding protectionOf_def Let_def using p(2) n by (auto simp: flagged_def)
qed

lemma lower_level_cases:
  "lower_level l m = Prot_none \<longleftrightarrow> l = Prot_none \<or> m = Prot_none" "lower_level l m = Prot_strong \<longleftrightarrow> l = Prot_strong \<and> m = Prot_strong"
  by (cases l; cases m; simp add: lower_level_def)+

text \<open>
  A collection is graded as unprotected exactly when one of its findings is bad; a graded
  protection says at least somebody checks the figure and somebody has time to object; and the top
  grade needs a window of a week and, under attestors, three signatures. A collection whose figure a
  valuer signs, with no window and the meaningless threshold of zero, is told at once that nothing
  verifies its figure and that the valuer does.
\<close>

theorem grade_is_the_worst_finding:
  "(po_level (protectionOf c) = Prot_none \<longleftrightarrow> (\<exists>f \<in> set (po_findings (protectionOf c)). pf_tone f = Tone_bad)) \<and>
   (po_level (protectionOf c) = Prot_strong \<longleftrightarrow>
     cn_verification c \<noteq> Verify_unspecified \<and>
     (cn_verification c = Verify_attestors \<longrightarrow> \<not> num_less (cn_threshold c) (num_of_nat 2) \<and> \<not> num_less (cn_threshold c) (num_of_nat 3)) \<and>
     \<not> num_le (cn_window c) (num_of_nat 0) \<and> \<not> num_less (cn_window c) (num_of_nat DAY_SECONDS) \<and>
     \<not> num_less (cn_window c) (num_of_nat WEEK_SECONDS)) \<and>
   (map pf_key (take 2 (po_findings (protectionOf sample_collection))) = [''rwa.protect.unchecked'', ''rwa.protect.valuer''])"
proof (intro conjI)
  show "po_level (protectionOf c) = Prot_none \<longleftrightarrow> (\<exists>f \<in> set (po_findings (protectionOf c)). pf_tone f = Tone_bad)"
    unfolding flagged_def [symmetric] unchecked_effects lower_level_cases by blast
  have "window_level c = Prot_strong \<longleftrightarrow> \<not> num_le (cn_window c) (num_of_nat 0) \<and> \<not> num_less (cn_window c) (num_of_nat DAY_SECONDS) \<and>
      \<not> num_less (cn_window c) (num_of_nat WEEK_SECONDS)" by (simp add: window_level_def)
  moreover have "check_level c = Prot_strong \<longleftrightarrow> cn_verification c \<noteq> Verify_unspecified \<and>
     (cn_verification c = Verify_attestors \<longrightarrow> \<not> num_less (cn_threshold c) (num_of_nat 2) \<and> \<not> num_less (cn_threshold c) (num_of_nat 3))"
    by (simp add: check_level_def split: verification.split)
  ultimately show "po_level (protectionOf c) = Prot_strong \<longleftrightarrow>
     cn_verification c \<noteq> Verify_unspecified \<and>
     (cn_verification c = Verify_attestors \<longrightarrow> \<not> num_less (cn_threshold c) (num_of_nat 2) \<and> \<not> num_less (cn_threshold c) (num_of_nat 3)) \<and>
     \<not> num_le (cn_window c) (num_of_nat 0) \<and> \<not> num_less (cn_window c) (num_of_nat DAY_SECONDS) \<and>
     \<not> num_less (cn_window c) (num_of_nat WEEK_SECONDS)"
    unfolding unchecked_effects lower_level_cases by blast
  show "map pf_key (take 2 (po_findings (protectionOf sample_collection))) = [''rwa.protect.unchecked'', ''rwa.protect.valuer'']"
    by code_simp
qed

lemma grade_is_the_worst_finding_witness:
  "po_level (protectionOf sample_collection) = Prot_none"
proof -
  have "\<exists>f \<in> set (po_findings (protectionOf sample_collection)). pf_tone f = Tone_bad" by code_simp
  then show ?thesis using grade_is_the_worst_finding [of sample_collection] by blast
qed

end
