(* ===== verification/VehicleWire.thy ===== *)
theory VehicleWire imports Vehicle begin

text \<open>
  The edges of the vehicle application: what a message will do before it is signed
  (\<open>rwa/src/message.ts\<close>), how a query's answer is told from the absence of one (\<open>rwa/src/abci.ts\<close>),
  durations (\<open>rwa/src/duration.ts\<close>) and the account being looked at (\<open>rwa/src/address.ts\<close>).
\<close>

section \<open>What will be signed (message.ts)\<close>

record plan_row =
  rw_field :: string
  rw_value :: string
  rw_denom :: "string option"
  rw_ledger :: bool
  rw_note :: "string option"

record plan =
  pl_type :: string
  pl_rows :: "plan_row list"

datatype draft =
    Draft_claim (dr_holder: string) (dr_asset: string) (dr_owed: string) (dr_owed_denom: string)
  | Draft_redeem (dr_holder: string) (dr_asset: string) (dr_amount: string) (dr_share_denom: string) (dr_payout: string) (dr_payout_denom: string)
  | Draft_dispute (dr_challenger: string) (dr_asset: string) (dr_reason: string) (dr_bond: string) (dr_bond_denom: string)

definition signed_row :: "string \<Rightarrow> string \<Rightarrow> string option \<Rightarrow> plan_row" where
  "signed_row f v d = \<lparr>rw_field = f, rw_value = v, rw_denom = d, rw_ledger = True, rw_note = None\<rparr>"

definition derived_row :: "string \<Rightarrow> string \<Rightarrow> string \<Rightarrow> string \<Rightarrow> plan_row" where
  "derived_row f v d note = \<lparr>rw_field = f, rw_value = v, rw_denom = Some d, rw_ledger = False, rw_note = Some note\<rparr>"

fun type_url_of :: "draft \<Rightarrow> string" where
  "type_url_of (Draft_claim _ _ _ _) = ''/blockchain.tokenisation.v1.MsgClaim''"
| "type_url_of (Draft_redeem _ _ _ _ _ _) = ''/blockchain.tokenisation.v1.MsgRedeem''"
| "type_url_of (Draft_dispute _ _ _ _ _) = ''/blockchain.tokenisation.v1.MsgDisputeSale''"

fun plan_rows :: "draft \<Rightarrow> plan_row list" where
  "plan_rows (Draft_claim holder assetId owed owedDenom) =
     [signed_row ''holder'' holder None, signed_row ''asset_id'' assetId None,
      derived_row ''paid'' owed owedDenom ''rwa.msg.paidNote'']"
| "plan_rows (Draft_redeem holder assetId amount shareDenom payout payoutDenom) =
     [signed_row ''holder'' holder None, signed_row ''asset_id'' assetId None, signed_row ''amount'' amount (Some shareDenom),
      derived_row ''burned'' amount shareDenom ''rwa.msg.burnNote'', derived_row ''paid'' payout payoutDenom ''rwa.msg.payoutNote'']"
| "plan_rows (Draft_dispute challenger assetId reason bond bondDenom) =
     [signed_row ''challenger'' challenger None, signed_row ''asset_id'' assetId None, signed_row ''reason'' reason None,
      derived_row ''bond'' bond bondDenom ''rwa.msg.bondNote'']"

definition messagePlan :: "draft \<Rightarrow> plan" where
  "messagePlan d = \<lparr>pl_type = type_url_of d, pl_rows = plan_rows d\<rparr>"

fun messageValue :: "draft \<Rightarrow> (string \<times> string) list" where
  "messageValue (Draft_claim holder assetId _ _) = [(''holder'', holder), (''assetId'', assetId)]"
| "messageValue (Draft_redeem holder assetId amount _ _ _) = [(''holder'', holder), (''assetId'', assetId), (''amount'', amount)]"
| "messageValue (Draft_dispute challenger assetId reason _ _) = [(''challenger'', challenger), (''assetId'', assetId), (''reason'', reason)]"

text \<open>The generated code's name of a protobuf field.\<close>

fun camel_case :: "string \<Rightarrow> string" where
  "camel_case (a # b # s) = (if a = CHR ''_'' then to_upper_char b # camel_case s else a # camel_case (b # s))"
| "camel_case s = s"

lemma rows_shown_as_signed: "map (\<lambda>r. (camel_case (rw_field r), rw_value r)) (filter rw_ledger (pl_rows (messagePlan d))) = messageValue d"
  by (cases d) (simp_all add: messagePlan_def signed_row_def derived_row_def to_upper_char_def lower_alphabet_def upper_alphabet_def)

lemma computed_rows_explained: "r \<in> set (pl_rows (messagePlan d)) \<Longrightarrow> \<not> rw_ledger r \<Longrightarrow> rw_note r \<noteq> None \<and> rw_denom r \<noteq> None"
  by (cases d) (auto simp: messagePlan_def signed_row_def derived_row_def)

section \<open>Answers and their absence (abci.ts)\<close>

datatype 'a query_outcome = Found 'a jsnum | Not_found string | Refused string | Unreachable string

fun isAnswer :: "'a query_outcome \<Rightarrow> bool" where
  "isAnswer (Unreachable _) = False"
| "isAnswer _ = True"

definition hex_byte :: "byte \<Rightarrow> string" where
  "hex_byte b = [hex_char (unat b div 16), hex_char (unat b mod 16)]"

definition toHex :: "byte list \<Rightarrow> string" where
  "toHex bs = ''0x'' @ concat (map hex_byte bs)"

definition abci_bytes :: "string \<Rightarrow> byte list option" where
  "abci_bytes v = (if v = [] then Some [] else atob v)"

record abci_response =
  ar_code :: "jsnum option"
  ar_log :: "string option"
  ar_value :: "string option"
  ar_height :: "string option"

record abci_error =
  ae_message :: "string option"
  ae_data :: "string option"

record abci_reply =
  rp_response :: "abci_response option"
  rp_error :: "abci_error option"

definition contains_text :: "string \<Rightarrow> string \<Rightarrow> bool" where
  "contains_text needle hay \<longleftrightarrow> list_ex (\<lambda>t. starts_with t needle) (suffixes hay)"

text \<open>\<open>/not ?found|no such|unknown request: .*not found/i\<close>; its last alternative contains the first.\<close>

definition says_missing :: "string \<Rightarrow> bool" where
  "says_missing log \<longleftrightarrow>
    (let l = to_lower log in contains_text ''not found'' l \<or> contains_text ''notfound'' l \<or> contains_text ''no such'' l)"

text \<open>\<open>None\<close>: the exception of \<open>atob\<close> on a value that is not base 64.\<close>

definition interpret_reply :: "abci_reply \<Rightarrow> byte list query_outcome option" where
  "interpret_reply reply =
    (case rp_error reply of
       Some e \<Rightarrow> Some (Unreachable (case ae_message e of Some s \<Rightarrow> s | None \<Rightarrow> (case ae_data e of Some s \<Rightarrow> s | None \<Rightarrow> ''rpc error'')))
     | None \<Rightarrow>
         (case rp_response reply of
            None \<Rightarrow> Some (Unreachable ''no response'')
          | Some r \<Rightarrow>
              (case ar_code r of
                 Some code \<Rightarrow>
                   if num_is_zero code \<or> code = JNaN then
                     map_option (\<lambda>b. Found b (number (case ar_height r of Some h \<Rightarrow> h | None \<Rightarrow> ''0'')))
                       (abci_bytes (case ar_value r of Some v \<Rightarrow> v | None \<Rightarrow> []))
                   else
                     (let log = (case ar_log r of Some l \<Rightarrow> l | None \<Rightarrow> ''abci code '' @ num_string code) in
                      Some (if says_missing log then Not_found log else Refused log))
               | None \<Rightarrow>
                   map_option (\<lambda>b. Found b (number (case ar_height r of Some h \<Rightarrow> h | None \<Rightarrow> ''0'')))
                     (abci_bytes (case ar_value r of Some v \<Rightarrow> v | None \<Rightarrow> [])))))"

text \<open>\<open>dec\<close> is the decoder passed in; \<open>Inl\<close> carries the message of what it throws.\<close>

fun decoded_outcome :: "byte list query_outcome \<Rightarrow> (byte list \<Rightarrow> string + 'a) \<Rightarrow> 'a query_outcome" where
  "decoded_outcome (Found b h) dec =
     (case dec b of Inr v \<Rightarrow> Found v h | Inl msg \<Rightarrow> Refused (''could not decode: '' @ msg))"
| "decoded_outcome (Not_found d) dec = Not_found d"
| "decoded_outcome (Refused d) dec = Refused d"
| "decoded_outcome (Unreachable d) dec = Unreachable d"

lemma decoding_keeps_the_answer: "isAnswer (decoded_outcome q dec) = isAnswer q"
  by (cases q) (auto split: sum.split)

text \<open>
  Silence is never taken for an answer: an outcome counts as the chain's answer exactly when the
  reply carries a response and no transport error, an absent record is reported only when the chain
  itself said so with an error code, and decoding never turns an answer into silence or back.
\<close>

theorem silence_is_not_an_answer:
  "(interpret_reply reply = Some out \<longrightarrow> (isAnswer out \<longleftrightarrow> rp_error reply = None \<and> rp_response reply \<noteq> None)) \<and>
   (interpret_reply reply = Some (Not_found d) \<longrightarrow>
     (\<exists>r code. rp_response reply = Some r \<and> ar_code r = Some code \<and> \<not> num_is_zero code \<and> says_missing d)) \<and>
   (isAnswer (decoded_outcome q dec) \<longleftrightarrow> isAnswer q)"
proof -
  have "interpret_reply reply = Some out \<longrightarrow> (isAnswer out \<longleftrightarrow> rp_error reply = None \<and> rp_response reply \<noteq> None)"
    by (cases "rp_error reply"; cases "rp_response reply") (auto simp: interpret_reply_def Let_def split: option.splits if_splits)
  moreover have "interpret_reply reply = Some (Not_found d) \<longrightarrow>
     (\<exists>r code. rp_response reply = Some r \<and> ar_code r = Some code \<and> \<not> num_is_zero code \<and> says_missing d)"
    by (cases "rp_error reply"; cases "rp_response reply") (auto simp: interpret_reply_def Let_def split: option.splits if_splits)
  ultimately show ?thesis using decoding_keeps_the_answer by blast
qed

lemma silence_is_not_an_answer_witness:
  "isAnswer (Not_found ''vault not found'' :: byte list query_outcome)"
proof -
  let ?r = "\<lparr>rp_response = Some \<lparr>ar_code = Some (num_of_nat 5), ar_log = Some ''vault not found'', ar_value = None, ar_height = None\<rparr>, rp_error = None\<rparr>"
  have "interpret_reply ?r = Some (Not_found ''vault not found'')" by code_simp
  then show ?thesis using silence_is_not_an_answer [of ?r "Not_found ''vault not found''"] by simp
qed

section \<open>Durations (duration.ts) and accounts (address.ts)\<close>

datatype duration_unit = Unit_day | Unit_hour | Unit_minute | Unit_second

text \<open>\<open>s\<close> is \<open>Math.max(0, Math.floor(seconds))\<close>.\<close>

definition splitDuration :: "int \<Rightarrow> int \<times> duration_unit" where
  "splitDuration seconds =
    (let s = max 0 seconds in
     if 86400 \<le> s then (s div 86400, Unit_day)
     else if 3600 \<le> s then (s div 3600, Unit_hour)
     else if 60 \<le> s then (s div 60, Unit_minute) else (s, Unit_second))"

datatype viewer = Viewer_none | Viewer_watching string | Viewer_connected string string

fun canSign :: "viewer \<Rightarrow> bool" where
  "canSign (Viewer_connected _ _) = True"
| "canSign _ = False"

fun addressOf :: "viewer \<Rightarrow> string" where
  "addressOf Viewer_none = []"
| "addressOf (Viewer_watching a) = a"
| "addressOf (Viewer_connected a _) = a"

end
