(* ===== verification/IsoDate.thy ===== *)
theory IsoDate imports Text begin

text \<open>
  Dates as the clients use them: the calendar of ECMAScript, \<open>Date.prototype.toISOString\<close>, the
  UTC forms of \<open>Date.parse\<close>, and the comparison of strings. A time is an \<open>int\<close>, milliseconds
  since the epoch. Every other form \<open>Date.parse\<close> takes (local times, offsets, the forms an engine
  adds) depends on the host, and is the parameter \<open>host\<close>.
\<close>

section \<open>The calendar\<close>

definition leap :: "int \<Rightarrow> bool" where
  "leap y \<longleftrightarrow> (y mod 4 = 0 \<and> y mod 100 \<noteq> 0) \<or> y mod 400 = 0"

text \<open>\<open>DayFromYear\<close>: the day number of the first day of a year.\<close>

definition days_before :: "int \<Rightarrow> int" where
  "days_before y = 365 * (y - 1970) + (y - 1969) div 4 - (y - 1901) div 100 + (y - 1601) div 400"

definition month_lengths :: "int \<Rightarrow> int list" where
  "month_lengths y = [31, if leap y then 29 else 28, 31, 30, 31, 30, 31, 31, 30, 31, 30, 31]"

text \<open>\<open>YearFromTime\<close>, from an estimate that is at most one year off.\<close>

definition year_of :: "int \<Rightarrow> int" where
  "year_of n =
    (let y = 1970 + (n * 400) div 146097 in
     if n < days_before y then y - 1 else if days_before (y + 1) \<le> n then y + 1 else y)"

fun month_of :: "int list \<Rightarrow> int \<Rightarrow> nat \<times> int" where
  "month_of [] d = (0, d)"
| "month_of (l # ls) d = (if d < l then (0, d) else apfst Suc (month_of ls (d - l)))"

text \<open>A date is a year, a month from 0 and a day of the month from 0.\<close>

definition civil :: "int \<Rightarrow> int \<times> nat \<times> int" where
  "civil n = (let y = year_of n in (y, month_of (month_lengths y) (n - days_before y)))"

definition day_number :: "int \<Rightarrow> nat \<Rightarrow> int \<Rightarrow> int" where
  "day_number y m d = days_before y + sum_list (take m (month_lengths y)) + d"

definition valid_date :: "int \<Rightarrow> nat \<Rightarrow> int \<Rightarrow> bool" where
  "valid_date y m d \<longleftrightarrow> m < 12 \<and> 0 \<le> d \<and> d < month_lengths y ! m"

section \<open>Reading and writing\<close>

definition two :: "int \<Rightarrow> string" where
  "two n = pad_start 2 CHR ''0'' (dec_nat (nat n))"

definition year_text :: "int \<Rightarrow> string" where
  "year_text y =
    (if 0 \<le> y \<and> y \<le> 9999 then pad_start 4 CHR ''0'' (dec_nat (nat y))
     else (if y < 0 then CHR ''-'' else CHR ''+'') # pad_start 6 CHR ''0'' (dec_nat (nat \<bar>y\<bar>)))"

definition date_text :: "int \<times> nat \<times> int \<Rightarrow> string" where
  "date_text ymd = (case ymd of (y, m, d) \<Rightarrow> year_text y @ ''-'' @ two (int m + 1) @ ''-'' @ two (d + 1))"

abbreviation DAY_MS :: int where "DAY_MS \<equiv> 86400000"

definition day_of :: "int \<Rightarrow> int" where "day_of t = t div DAY_MS"

definition second_of :: "int \<Rightarrow> int" where "second_of t = t mod DAY_MS div 1000"

definition hours :: "int \<Rightarrow> int" where "hours s = s div 3600"

definition minutes :: "int \<Rightarrow> int" where "minutes s = s div 60 mod 60"

definition seconds :: "int \<Rightarrow> int" where "seconds s = s mod 60"

definition time_text :: "int \<Rightarrow> string" where
  "time_text s = two (hours s) @ '':'' @ two (minutes s) @ '':'' @ two (seconds s)"

definition iso_string :: "int \<Rightarrow> string" where
  "iso_string t =
    date_text (civil (day_of t)) @ ''T'' @ time_text (second_of t) @ ''.'' @
    pad_start 3 CHR ''0'' (dec_nat (nat (t mod 1000))) @ ''Z''"

text \<open>The largest time a \<open>Date\<close> holds; \<open>toISOString\<close> of anything else throws.\<close>

definition time_ok :: "int \<Rightarrow> bool" where
  "time_ok t \<longleftrightarrow> \<bar>t\<bar> \<le> 8640000000000000"

definition shape :: "string \<Rightarrow> string" where
  "shape s = map (\<lambda>c. if is_digit c then CHR ''0'' else c) s"

definition digits_at :: "nat \<Rightarrow> nat \<Rightarrow> string \<Rightarrow> int" where
  "digits_at k n s = int (nat_of_dec (take n (drop k s)))"

definition iso_rest :: "int \<Rightarrow> string \<Rightarrow> int option" where
  "iso_rest y r =
    (if shape r \<notin> {''-00-00T00:00Z'', ''-00-00T00:00:00Z'', ''-00-00T00:00:00.000Z''} then None else
     let m = digits_at 1 2 r; d = digits_at 4 2 r; h = digits_at 7 2 r; mi = digits_at 10 2 r;
         s = (if length r > 13 then digits_at 13 2 r else 0);
         f = (if length r = 20 then digits_at 16 3 r else 0) in
     if 1 \<le> m \<and> valid_date y (nat (m - 1)) (d - 1) \<and> mi < 60 \<and> s < 60 \<and>
        (h < 24 \<or> h = 24 \<and> mi = 0 \<and> s = 0 \<and> f = 0)
     then Some (day_number y (nat (m - 1)) (d - 1) * DAY_MS + ((h * 60 + mi) * 60 + s) * 1000 + f)
     else None)"

definition iso_parse :: "string \<Rightarrow> int option" where
  "iso_parse s =
    (let t = (case s of [] \<Rightarrow> None | c # u \<Rightarrow>
       if c = CHR ''+'' \<or> c = CHR ''-'' then
         (if length u < 6 \<or> \<not> all_digits (take 6 u) \<or> (c = CHR ''-'' \<and> take 6 u = ''000000'') then None
          else iso_rest ((if c = CHR ''-'' then - 1 else 1) * digits_at 0 6 u) (drop 6 u))
       else if length s < 4 \<or> \<not> all_digits (take 4 s) then None
       else iso_rest (digits_at 0 4 s) (drop 4 s)) in
     case t of None \<Rightarrow> None | Some v \<Rightarrow> (if time_ok v then Some v else None))"

text \<open>\<open>new Date(s).getTime()\<close>, \<open>None\<close> for \<open>NaN\<close>.\<close>

definition date_parse :: "(string \<Rightarrow> int option) \<Rightarrow> string \<Rightarrow> int option" where
  "date_parse host s = (case iso_parse s of Some t \<Rightarrow> Some t | None \<Rightarrow>
     (case host s of Some t \<Rightarrow> (if time_ok t then Some t else None) | None \<Rightarrow> None))"

text \<open>
  \<open>a < b\<close> on strings, comparing encodings byte by byte: JavaScript compares UTF-16 units, which is
  the same order for text without characters above U+FFFF.
\<close>

fun js_less :: "string \<Rightarrow> string \<Rightarrow> bool" where
  "js_less _ [] = False"
| "js_less [] (_ # _) = True"
| "js_less (a # s) (b # t) =
     ((of_char a :: nat) < of_char b \<or> ((of_char a :: nat) = of_char b \<and> js_less s t))"

section \<open>The calendar is a bijection in order\<close>

lemma month_of_split:
  "\<forall>l \<in> set ls. 0 \<le> l \<Longrightarrow> 0 \<le> d \<Longrightarrow> d < sum_list ls \<Longrightarrow> month_of ls d = (m, r) \<Longrightarrow>
   m < length ls \<and> 0 \<le> r \<and> r < ls ! m \<and> sum_list (take m ls) + r = d"
proof (induction ls arbitrary: d m r)
  case (Cons l ls)
  show ?case
  proof (cases "d < l")
    case False
    obtain k q where kq: "month_of ls (d - l) = (k, q)" by (cases "month_of ls (d - l)")
    then have "k < length ls \<and> 0 \<le> q \<and> q < ls ! k \<and> sum_list (take k ls) + q = d - l"
      using Cons.IH [OF _ _ _ kq] Cons.prems False by simp
    then show ?thesis using kq False Cons.prems by auto
  qed (use Cons.prems in auto)
qed simp

lemma div_pred: "0 < k \<Longrightarrow> (y :: int) div k = (y - 1) div k + (if y mod k = 0 then 1 else 0)"
proof -
  assume k: "0 < k"
  have y: "y = y div k * k + y mod k" and r: "0 \<le> y mod k" "y mod k < k" using k by simp_all
  show ?thesis
  proof (cases "y mod k = 0")
    case True
    then have "y - 1 = k * (y div k - 1) + (k - 1)" using y by (simp add: algebra_simps)
    then have "(y - 1) div k = y div k - 1" by (rule int_div_pos_eq) (use k in simp_all)
    then show ?thesis using True by simp
  next
    case False
    then have "y - 1 = k * (y div k) + (y mod k - 1)" using y by (simp add: mult.commute)
    then have "(y - 1) div k = y div k" by (rule int_div_pos_eq) (use k r False in simp_all)
    then show ?thesis using False by simp
  qed
qed

lemma days_before_alt:
  "days_before y = 365 * (y - 1970) + (y - 1) div 4 - (y - 1) div 100 + (y - 1) div 400 - 477"
proof -
  have sh: "(x + c * k) div k = c + x div k" if "k \<noteq> 0" for x c k :: int
    using that by (rule div_mult_self1)
  have e: "y - 1969 = (y - 1) + (- 492) * 4" "y - 1901 = (y - 1) + (- 19) * 100"
    "y - 1601 = (y - 1) + (- 4) * 400" by simp_all
  have q: "(y - 1969) div 4 = - 492 + (y - 1) div 4" by (subst e(1), rule sh) simp
  have r: "(y - 1901) div 100 = - 19 + (y - 1) div 100" by (subst e(2), rule sh) simp
  have t: "(y - 1601) div 400 = - 4 + (y - 1) div 400" by (subst e(3), rule sh) simp
  show ?thesis unfolding days_before_def q r t by simp
qed

lemma nested_count:
  "(r \<Longrightarrow> q) \<Longrightarrow> (q \<Longrightarrow> p) \<Longrightarrow>
   (if p then 1 else 0) - (if q then 1 else 0) + (if r then 1 else 0) = (if (p \<and> \<not> q) \<or> r then 1 else (0 :: int))"
  by auto

lemma year_length: "days_before (y + 1) = days_before y + sum_list (month_lengths y)"
proof -
  have d: "y mod 400 = 0 \<Longrightarrow> y mod 100 = 0" "y mod 100 = 0 \<Longrightarrow> y mod 4 = 0"
    by (simp_all only: mod_eq_0_iff_dvd) (erule dvd_trans [rotated], simp)+
  define i where "i k = (if y mod k = 0 then 1 else (0 :: int))" for k
  have "i 4 - i 100 + i 400 = (if leap y then 1 else 0)"
    unfolding leap_def i_def by (rule nested_count) (rule d, assumption)+
  moreover have "sum_list (month_lengths y) = 365 + (if leap y then 1 else 0)" by (simp add: month_lengths_def)
  moreover have "days_before (y + 1) = 365 + 365 * (y - 1970) + y div 4 - y div 100 + y div 400 - 477"
    using days_before_alt [of "y + 1"] by simp
  moreover have "y div k = (y - 1) div k + i k" if "0 < k" for k
    using div_pred [OF that, of y] by (simp only: i_def)
  then have "y div 4 = (y - 1) div 4 + i 4" "y div 100 = (y - 1) div 100 + i 100"
    "y div 400 = (y - 1) div 400 + i 400" by simp_all
  ultimately show ?thesis using days_before_alt [of y] by (simp only:)
qed

lemma year_of_bracket: "days_before (year_of n) \<le> n" "n < days_before (year_of n + 1)"
proof -
  define y where "y = 1970 + (n * 400) div 146097"
  have q: "146097 * (y - 1970) \<le> n * 400" "n * 400 < 146097 * (y - 1970) + 146097"
    unfolding y_def by simp_all
  have b: "400 * days_before (w + 1) \<le> 146097 * (w - 1969) + 1000 \<and>
    146097 * (w - 1969) - 1000 \<le> 400 * days_before (w + 1)" for w
  proof -
    obtain p q r where pqr: "p = w div 4" "q = w div 100" "r = w div 400" by blast
    have "4 * p \<le> w" "w < 4 * p + 4" "100 * q \<le> w" "w < 100 * q + 100"
      "400 * r \<le> w" "w < 400 * r + 400" unfolding pqr by simp_all
    moreover have "days_before (w + 1) = 365 * (w - 1969) + p - q + r - 477"
      using days_before_alt [of "w + 1"] by (simp add: pqr)
    ultimately show ?thesis by (simp add: algebra_simps)
  qed
  have e: "y - 2 + 1 = y - 1" "y + 1 + 1 = y + 2" by simp_all
  have lo: "days_before (y - 1) \<le> n" using q b [of "y - 2", unfolded e] by (simp add: algebra_simps)
  have hi: "n < days_before (y + 2)" using q b [of "y + 1", unfolded e] by (simp add: algebra_simps)
  have "n < days_before (2 + y)" using hi by (simp only: add.commute)
  then show "days_before (year_of n) \<le> n" "n < days_before (year_of n + 1)"
    using lo hi unfolding year_of_def y_def [symmetric] Let_def by auto
qed

lemma month_lengths_facts:
  "length (month_lengths y) = 12" "\<forall>l \<in> set (month_lengths y). 0 \<le> l" "\<forall>l \<in> set (month_lengths y). l \<le> 31"
  by (simp_all add: month_lengths_def)

lemma civil_day:
  assumes "civil n = (y, m, d)"
  shows "valid_date y m d" and "day_number y m d = n" and "y = year_of n"
proof -
  have y: "y = year_of n" and md: "month_of (month_lengths y) (n - days_before y) = (m, d)"
    using assms by (auto simp: civil_def Let_def)
  show "y = year_of n" by (rule y)
  have "m < 12 \<and> 0 \<le> d \<and> d < month_lengths y ! m \<and> sum_list (take m (month_lengths y)) + d = n - days_before y"
    using month_of_split [OF month_lengths_facts(2) _ _ md] year_of_bracket [of n] year_length [of y] y
    by (simp add: month_lengths_facts)
  then show "valid_date y m d" "day_number y m d = n" by (auto simp: valid_date_def day_number_def)
qed

lemma year_starts_mono: "y < z \<Longrightarrow> days_before (y + 1) \<le> days_before z"
proof -
  have step: "days_before (y + 1 + int k) \<le> days_before (y + 1 + int (Suc k))" for k
    using year_length [of "y + 1 + int k"] month_lengths_facts(2) [of "y + 1 + int k"]
    by (simp add: sum_list_nonneg ac_simps)
  have "days_before (y + 1) \<le> days_before (y + 1 + int k)" for k
    by (induction k) (simp, use step order_trans in blast)
  moreover assume "y < z"
  then have "z = y + 1 + int (nat (z - y - 1))" by simp
  ultimately show ?thesis by metis
qed

lemma month_of_mono:
  "month_of ls c = (m, r) \<Longrightarrow> month_of ls d = (k, q) \<Longrightarrow> c < d \<Longrightarrow> m < k \<or> m = k \<and> r < q"
proof (induction ls arbitrary: c d m r k q)
  case (Cons l ls)
  obtain m' r' k' q' where mo: "month_of ls (c - l) = (m', r')" "month_of ls (d - l) = (k', q')"
    by (cases "month_of ls (c - l)"; cases "month_of ls (d - l)")
  have "m' < k' \<or> m' = k' \<and> r' < q'" using Cons.IH [OF mo] Cons.prems(3) by simp
  then show ?case using Cons.prems mo by (cases "c < l"; cases "d < l") auto
qed simp

lemma civil_mono:
  assumes "civil a = (y, m, d)" and "civil b = (z, k, e)" and "a < b"
  shows "y < z \<or> y = z \<and> (m < k \<or> m = k \<and> d < e)"
proof -
  have y: "y = year_of a" "z = year_of b" using assms civil_day(3) by blast+
  have md: "month_of (month_lengths y) (a - days_before y) = (m, d)" "month_of (month_lengths z) (b - days_before z) = (k, e)"
    using assms(1,2) unfolding civil_def Let_def y by simp_all
  have "\<not> z < y"
  proof
    assume "z < y"
    then have "days_before (z + 1) \<le> days_before y" by (rule year_starts_mono)
    then show False using year_of_bracket(2) [of b] year_of_bracket(1) [of a] assms(3) unfolding y by linarith
  qed
  moreover have "m < k \<or> m = k \<and> d < e" if "y = z"
    using month_of_mono [OF md(1) md(2) [folded that]] assms(3) that by simp
  ultimately show ?thesis by linarith
qed

section \<open>Order of texts\<close>

lemma js_less_irrefl [simp]: "\<not> js_less s s"
  by (induction s) auto

lemma js_less_asym: "js_less s t \<Longrightarrow> \<not> js_less t s"
  by (induction s t rule: js_less.induct) auto

lemma js_less_total: "js_less s t \<or> s = t \<or> js_less t s"
proof (induction s t rule: js_less.induct)
  case (1 s)
  then show ?case by (cases s) auto
qed auto

lemma js_less_append:
  "length s = length t \<Longrightarrow> js_less (s @ u) (t @ v) \<longleftrightarrow> js_less s t \<or> s = t \<and> js_less u v"
  by (induction s t rule: list_induct2) auto

lemma js_less_digits:
  "length s = length t \<Longrightarrow> all_digits s \<Longrightarrow> all_digits t \<Longrightarrow> js_less s t \<longleftrightarrow> nat_of_dec s < nat_of_dec t"
proof (induction s t rule: list_induct2)
  case (Cons a s b t)
  have l: "nat_of_dec s < 10 ^ length t" "nat_of_dec t < 10 ^ length t"
    using Cons nat_of_dec_less [of s] nat_of_dec_less [of t] by auto
  have o: "(of_char a :: nat) = 48 + digit_val a" "(of_char b :: nat) = 48 + digit_val b"
    using Cons.prems by (auto simp: digit_val_def is_digit_def)
  consider "digit_val a < digit_val b" | "digit_val a = digit_val b" | "digit_val b < digit_val a" by linarith
  then show ?case
  proof cases
    case 1
    then have "(digit_val a + 1) * 10 ^ length t \<le> digit_val b * 10 ^ length t" by (intro mult_right_mono) simp_all
    then show ?thesis using 1 l Cons.hyps by (simp add: nat_of_dec_Cons o)
  next
    case 3
    then have "(digit_val b + 1) * 10 ^ length t \<le> digit_val a * 10 ^ length t" by (intro mult_right_mono) simp_all
    then show ?thesis using 3 l Cons.hyps by (simp add: nat_of_dec_Cons o)
  qed (use Cons in \<open>simp add: nat_of_dec_Cons o\<close>)
qed simp

lemma fixed_width:
  assumes "0 \<le> n" and "n < 10 ^ k" and "0 < k"
  shows "length (pad_start k CHR ''0'' (dec_nat (nat n))) = k"
    and "all_digits (pad_start k CHR ''0'' (dec_nat (nat n)))"
    and "int (nat_of_dec (pad_start k CHR ''0'' (dec_nat (nat n)))) = n"
proof -
  have "nat n < 10 ^ k" using assms(1,2) by (simp add: nat_less_iff)
  then show "length (pad_start k CHR ''0'' (dec_nat (nat n))) = k"
    using length_dec_nat [of k "nat n"] assms(3) by simp
  show "int (nat_of_dec (pad_start k CHR ''0'' (dec_nat (nat n)))) = n" using assms(1) by simp
qed (simp add: pad_start_def)

lemmas two_facts = fixed_width [where k = 2, folded two_def, simplified]

lemma two_less:
  "0 \<le> a \<Longrightarrow> a < 100 \<Longrightarrow> 0 \<le> b \<Longrightarrow> b < 100 \<Longrightarrow> js_less (two a) (two b) \<longleftrightarrow> a < b"
  "0 \<le> a \<Longrightarrow> a < 100 \<Longrightarrow> 0 \<le> b \<Longrightarrow> b < 100 \<Longrightarrow> two a = two b \<longleftrightarrow> a = b"
proof -
  assume a: "0 \<le> a" "a < 100" and b: "0 \<le> b" "b < 100"
  note f = two_facts [OF a] two_facts [OF b]
  have "js_less (two a) (two b) \<longleftrightarrow> nat_of_dec (two a) < nat_of_dec (two b)"
    by (rule js_less_digits) (simp_all only: f)
  then show "js_less (two a) (two b) \<longleftrightarrow> a < b" using f(3,6) by linarith
  show "two a = two b \<longleftrightarrow> a = b" using f(3,6) by metis
qed


section \<open>Timestamps to the second\<close>

text \<open>\<open>`${d.toISOString().slice(0, 19)}Z`\<close>, and the years it writes with four digits.\<close>

definition iso_second :: "int \<Rightarrow> string" where
  "iso_second t = take 19 (iso_string t) @ ''Z''"

definition plain_year :: "int \<Rightarrow> bool" where
  "plain_year t \<longleftrightarrow> 0 \<le> year_of (day_of t) \<and> year_of (day_of t) \<le> 9999"

lemma month_bound: "valid_date y m d \<Longrightarrow> 0 \<le> d \<and> d < 31 \<and> m < 12"
  using month_lengths_facts(1,3) [of y] unfolding valid_date_def by (metis nth_mem less_le_trans)

lemma day_split: "day_of t = t div 1000 div 86400" "second_of t = t div 1000 mod 86400"
  using zdiv_zmult2_eq [of 86400 t 1000] zmod_zmult2_eq [of 86400 t 1000]
  by (simp_all add: day_of_def second_of_def)

lemma clock_bounds:
  "0 \<le> hours (second_of t)" "hours (second_of t) < 24" "0 \<le> minutes s" "minutes s < 60"
  "0 \<le> seconds s" "seconds s < 60"
proof -
  have "0 \<le> second_of t" "second_of t < 24 * 3600" by (simp_all add: day_split)
  then show "0 \<le> hours (second_of t)" "hours (second_of t) < 24"
    unfolding hours_def by (simp_all only: pos_imp_zdiv_nonneg_iff zero_less_numeral div_less_iff_less_mult mult.commute)
qed (simp_all add: minutes_def seconds_def)

lemma mixed_order:
  assumes "(a :: int) < b" and "0 < k"
  shows "a div k < b div k \<or> a div k = b div k \<and> a mod k < b mod k"
proof -
  have "a div k \<le> b div k" using assms by (intro zdiv_mono1) simp_all
  moreover have "a mod k < b mod k" if "a div k = b div k"
  proof -
    have "a div k * k = b div k * k" using that by simp
    then show ?thesis using assms(1) div_mult_mod_eq [of a k] div_mult_mod_eq [of b k] by linarith
  qed
  ultimately show ?thesis by linarith
qed

lemma clock_order:
  assumes "a < b"
  shows "hours a < hours b \<or> hours a = hours b \<and> (minutes a < minutes b \<or> minutes a = minutes b \<and> seconds a < seconds b)"
proof -
  have h: "hours x = x div 60 div 60" for x using zdiv_zmult2_eq [of 60 x 60] by (simp add: hours_def)
  consider "a div 60 < b div 60" | "a div 60 = b div 60" "a mod 60 < b mod 60"
    using mixed_order [OF assms, of 60] by auto
  then show ?thesis
  proof cases
    case 1
    show ?thesis using mixed_order [OF 1, of 60] unfolding h minutes_def by simp blast
  qed (simp add: h minutes_def seconds_def)
qed

lemma year_digits:
  assumes "0 \<le> y" and "y \<le> 9999"
  shows "length (year_text y) = 4" "all_digits (year_text y)" "int (nat_of_dec (year_text y)) = y"
  using fixed_width [of y 4] assms by (simp_all add: year_text_def)

lemma year_less:
  assumes "0 \<le> y" and "y \<le> 9999" and "0 \<le> z" and "z \<le> 9999"
  shows "js_less (year_text y) (year_text z) \<longleftrightarrow> y < z"
proof -
  note f = year_digits [OF assms(1,2)] year_digits [OF assms(3,4)]
  have "js_less (year_text y) (year_text z) \<longleftrightarrow> nat_of_dec (year_text y) < nat_of_dec (year_text z)"
    by (rule js_less_digits) (simp_all only: f)
  then show ?thesis using f(3,6) by linarith
qed

lemma clock_100:
  "hours (second_of t) < 100" "minutes s < 100" "seconds s < 100"
  using clock_bounds(2) [of t] clock_bounds(4,6) [of s] by linarith+

lemmas clock_text = two_facts [OF clock_bounds(1) clock_100(1)] two_facts [OF clock_bounds(3) clock_100(2)]
  two_facts [OF clock_bounds(5) clock_100(3)]

lemmas clock_less = two_less [OF clock_bounds(1) clock_100(1) clock_bounds(1) clock_100(1)]
  two_less [OF clock_bounds(3) clock_100(2) clock_bounds(3) clock_100(2)]
  two_less [OF clock_bounds(5) clock_100(3) clock_bounds(5) clock_100(3)]

lemma date_length:
  assumes "civil n = (y, m, d)" and "0 \<le> y" and "y \<le> 9999"
  shows "length (date_text (y, m, d)) = 10"
  using civil_day(1) [OF assms(1), THEN month_bound] year_digits [OF assms(2,3)]
  by (simp add: date_text_def two_facts)

lemma date_less:
  assumes "civil a = (y, m, d)" and "civil b = (z, k, e)" and "a < b"
    and "0 \<le> y" and "y \<le> 9999" and "0 \<le> z" and "z \<le> 9999"
  shows "js_less (date_text (y, m, d)) (date_text (z, k, e))"
proof -
  have b: "0 \<le> d" "d < 31" "m < 12" "0 \<le> e" "e < 31" "k < 12"
    using civil_day(1) [OF assms(1), THEN month_bound] civil_day(1) [OF assms(2), THEN month_bound] by simp_all
  note l = year_digits(1) [OF assms(4,5)] year_digits(1) [OF assms(6,7)]
  note yl = year_less [OF assms(4-7)]
  have ml: "js_less (two (int m + 1)) (two (int k + 1)) \<longleftrightarrow> m < k" "length (two (int m + 1)) = 2" "length (two (int k + 1)) = 2"
    using b by (simp_all add: two_less two_facts) arith
  have dl: "js_less (two (d + 1)) (two (e + 1)) \<longleftrightarrow> d < e" using b by (simp add: two_less) arith
  show ?thesis using civil_mono [OF assms(1,2,3)]
    by (auto simp: date_text_def js_less_append l yl ml dl)
qed

lemma time_length: "length (time_text (second_of t)) = 8"
  by (simp add: time_text_def clock_text)

lemma time_less: "second_of s < second_of t \<Longrightarrow> js_less (time_text (second_of s)) (time_text (second_of t))"
  using clock_order [of "second_of s" "second_of t"]
  by (auto simp: time_text_def js_less_append clock_text clock_less)

lemma iso_second_plain:
  assumes "plain_year t"
  shows "iso_second t = date_text (civil (day_of t)) @ ''T'' @ time_text (second_of t) @ ''Z''"
proof -
  obtain y m d where c: "civil (day_of t) = (y, m, d)" by (cases "civil (day_of t)")
  have "length (date_text (civil (day_of t))) = 10"
    using date_length [OF c] civil_day(3) [OF c] assms by (simp add: c plain_year_def)
  then show ?thesis using time_length [of t] by (simp add: iso_second_def iso_string_def)
qed

lemma iso_second_strict:
  assumes "plain_year s" and "plain_year t" and "s div 1000 < t div 1000"
  shows "js_less (iso_second s) (iso_second t)"
proof -
  obtain y m d where c: "civil (day_of s) = (y, m, d)" by (cases "civil (day_of s)")
  obtain z k e where f: "civil (day_of t) = (z, k, e)" by (cases "civil (day_of t)")
  have yr: "0 \<le> y" "y \<le> 9999" "0 \<le> z" "z \<le> 9999"
    using civil_day(3) [OF c] civil_day(3) [OF f] assms(1,2) by (simp_all add: plain_year_def)
  note dl = date_length [OF c yr(1,2)] date_length [OF f yr(3,4)]
  have "day_of s < day_of t \<or> day_of s = day_of t \<and> second_of s < second_of t"
    unfolding day_split by (rule mixed_order [OF assms(3)]) simp
  then consider "day_of s < day_of t" | "day_of s = day_of t" "second_of s < second_of t"
    by blast
  then show ?thesis
  proof cases
    case 1
    then show ?thesis using date_less [OF c f 1 yr]
      by (simp add: iso_second_plain assms(1,2) c f dl js_less_append)
  next
    case 2
    then show ?thesis using time_less [OF 2(2)] by (simp add: iso_second_plain assms(1,2) js_less_append time_length)
  qed
qed

lemma iso_second_order:
  assumes "plain_year s" and "plain_year t"
  shows "js_less (iso_second s) (iso_second t) \<longleftrightarrow> s div 1000 < t div 1000"
    and "iso_second s = iso_second t \<longleftrightarrow> s div 1000 = t div 1000"
proof -
  have "iso_second s = iso_second t" if "s div 1000 = t div 1000"
    unfolding iso_second_plain [OF assms(1)] iso_second_plain [OF assms(2)] day_split that ..
  then show "js_less (iso_second s) (iso_second t) \<longleftrightarrow> s div 1000 < t div 1000"
    "iso_second s = iso_second t \<longleftrightarrow> s div 1000 = t div 1000"
    using iso_second_strict [OF assms] iso_second_strict [OF assms(2,1)] js_less_asym
    by (metis js_less_irrefl linorder_neqE)+
qed


text \<open>\<open>Date.parse\<close> reads a timestamp to the second back, to the second.\<close>

lemma shape_append [simp]: "shape (s @ t) = shape s @ shape t"
  by (simp add: shape_def)

lemma shape_digits: "all_digits s \<Longrightarrow> shape s = replicate (length s) CHR ''0''"
  by (induction s) (simp_all add: shape_def)

lemma shape_other [simp]: "\<not> is_digit c \<Longrightarrow> shape [c] = [c]"
  by (simp add: shape_def)

lemma letters_no_digits [simp]: "\<not> is_digit CHR ''T''" "\<not> is_digit CHR ''Z''"
  by (simp_all add: is_digit_def)

lemma iso_rest_reads:
  assumes "0 \<le> m" "m < 12" "valid_date y (nat m) d" "0 \<le> d" "d < 31"
  shows "iso_rest y (''-'' @ two (m + 1) @ ''-'' @ two (d + 1) @ ''T'' @ time_text (second_of t) @ ''Z'') =
    Some (day_number y (nat m) d * DAY_MS + second_of t * 1000)"
proof -
  let ?h = "hours (second_of t)" and ?i = "minutes (second_of t)" and ?s = "seconds (second_of t)"
  let ?r = "''-'' @ two (m + 1) @ ''-'' @ two (d + 1) @ ''T'' @ two ?h @ '':'' @ two ?i @ '':'' @ two ?s @ ''Z''"
  note c = clock_text and b = clock_bounds(1,2) [of t] clock_bounds(3-6) [of "second_of t"]
  have l: "length (two (m + 1)) = 2" "length (two (d + 1)) = 2" "all_digits (two (m + 1))" "all_digits (two (d + 1))"
    "int (nat_of_dec (two (m + 1))) = m + 1" "int (nat_of_dec (two (d + 1))) = d + 1"
    using assms(1-5) by (simp_all add: two_facts)
  have sh: "shape ?r = ''-00-00T00:00:00Z''"
    using c l by (simp add: shape_digits numeral_2_eq_2 del: append.simps)
  have len: "length ?r = 16" using c l by simp
  have at: "digits_at 1 2 ?r = m + 1" "digits_at 4 2 ?r = d + 1" "digits_at 7 2 ?r = ?h"
    "digits_at 10 2 ?r = ?i" "digits_at 13 2 ?r = ?s"
    using c l by (simp_all add: digits_at_def)
  have "(?h * 60 + ?i) * 60 + ?s = second_of t"
    using zdiv_zmult2_eq [of 60 "second_of t" 60] by (simp add: hours_def minutes_def seconds_def)
  then show ?thesis
    using assms b unfolding time_text_def append_assoc iso_rest_def sh len at Let_def by simp
qed

lemma second_split: "day_of t * DAY_MS + second_of t * 1000 = t div 1000 * 1000"
proof -
  have "day_of t * 86400 + second_of t = t div 1000" unfolding day_split by simp
  then have "(day_of t * 86400 + second_of t) * 1000 = t div 1000 * 1000" by simp
  then show ?thesis by (simp add: algebra_simps)
qed

lemma time_ok_second: "time_ok t \<Longrightarrow> time_ok (t div 1000 * 1000)"
proof -
  assume t: "time_ok t"
  have "t div 1000 \<le> 8640000000000000 div 1000" "- 8640000000000000 div 1000 \<le> t div 1000"
    using t unfolding time_ok_def by (intro zdiv_mono1; linarith)+
  then show ?thesis unfolding time_ok_def by simp
qed

lemma iso_parse_plain:
  assumes "length p = 4" and "all_digits p"
  shows "iso_parse (p @ r) = (case iso_rest (int (nat_of_dec p)) r of None \<Rightarrow> None | Some v \<Rightarrow> (if time_ok v then Some v else None))"
proof -
  obtain c u where cu: "p = c # u" "length u = 3" using assms(1) by (cases p) auto
  have "c \<noteq> CHR ''+'' \<and> c \<noteq> CHR ''-''" using assms(2) cu(1) by auto
  then show ?thesis using assms cu by (simp add: iso_parse_def digits_at_def)
qed

lemma iso_parse_second:
  assumes "plain_year t" and "time_ok t"
  shows "iso_parse (iso_second t) = Some (t div 1000 * 1000)"
proof -
  obtain y m d where c: "civil (day_of t) = (y, m, d)" by (cases "civil (day_of t)")
  have yr: "0 \<le> y" "y \<le> 9999" using civil_day(3) [OF c] assms(1) by (simp_all add: plain_year_def)
  note v = civil_day(1) [OF c] and b = civil_day(1) [OF c, THEN month_bound]
  let ?r = "''-'' @ two (int m + 1) @ ''-'' @ two (d + 1) @ ''T'' @ time_text (second_of t) @ ''Z''"
  have s: "iso_second t = year_text y @ ?r" using c by (simp add: iso_second_plain assms(1) date_text_def)
  have r: "iso_rest y ?r = Some (t div 1000 * 1000)"
    using iso_rest_reads [of "int m" y d t] b v civil_day(2) [OF c] second_split [of t] by simp
  show ?thesis
    using iso_parse_plain [OF year_digits(1,2) [OF yr], of ?r] year_digits(3) [OF yr] r time_ok_second [OF assms(2)]
    unfolding s by simp
qed

lemma date_parse_second:
  "plain_year t \<Longrightarrow> time_ok t \<Longrightarrow> date_parse host (iso_second t) = Some (t div 1000 * 1000)"
  by (simp add: date_parse_def iso_parse_second)

end
