(* ===== verification/CeremonyWire.thy ===== *)
theory CeremonyWire imports Request Base64 IsoDate "HOL-Library.List_Lexorder" "HOL-Library.Char_ord" begin

text \<open>
  The byte strings of the key ceremony, and one custodian's key (clients/ceremony/src/wire.ts and
  key.ts). The hashes, the curve, bech32, base 32, BIP-32 and BIP-39 are libraries: the fields of a
  \<open>suite\<close>, with \<open>None\<close> where the library throws. \<open>threshold\<close> and \<open>policy_seq\<close> are integers, as they
  are in the JSON the coordinator sends.
\<close>

section \<open>The libraries\<close>

record suite =
  su_sha256 :: "byte list \<Rightarrow> byte list"
  su_ripemd160 :: "byte list \<Rightarrow> byte list"
  su_crockford :: "byte list \<Rightarrow> string"
  su_bech32 :: "string \<Rightarrow> byte list \<Rightarrow> string"
  su_unbech32 :: "string \<Rightarrow> (string \<times> byte list) option"
  su_verify :: "byte list \<Rightarrow> byte list \<Rightarrow> byte list \<Rightarrow> bool option"
  su_sign :: "byte list \<Rightarrow> byte list \<Rightarrow> byte list"
  su_mnemonic_ok :: "string \<Rightarrow> bool"
  su_derive :: "string \<Rightarrow> string \<Rightarrow> (byte list \<times> byte list) option"
  su_date :: "string \<Rightarrow> int option"

section \<open>Canonical fields\<close>

definition PARAMS_DOMAIN :: string where "PARAMS_DOMAIN = ''yamale-ceremony-params-v2''"
definition GROUP_DOMAIN :: string where "GROUP_DOMAIN = ''yamale-ceremony-group-v1''"
definition POSSESSION_DOMAIN :: string where "POSSESSION_DOMAIN = ''yamale-ceremony-possession-v1''"
definition ATTESTATION_DOMAIN :: string where "ATTESTATION_DOMAIN = ''yamale-ceremony-attestation-v1''"
definition FINGERPRINT_DOMAIN :: string where "FINGERPRINT_DOMAIN = ''yamale-ceremony-fingerprint-v1''"
definition SECP256K1_PUBKEY_TYPE :: string where "SECP256K1_PUBKEY_TYPE = ''/cosmos.crypto.secp256k1.PubKey''"
definition ADMINISTRATORS_MARKER :: string where "ADMINISTRATORS_MARKER = ''foundation-administrators''"

definition VALID_ROLES :: "string list" where
  "VALID_ROLES = [''ROLE_ENFORCEMENT_AUTHORITY'', ''ROLE_MONETARY_AUTHORITY'', ''ROLE_PAYMENTS_AUTHORITY'',
     ''ROLE_REGISTRY_AUTHORITY'', ''ROLE_SUPERVISOR'']"

text \<open>\<open>setUint32\<close> keeps the low 32 bits; a byte keeps the low 8.\<close>

definition uint32be :: "nat \<Rightarrow> byte list" where
  "uint32be n = [of_nat (n div 2 ^ 24), of_nat (n div 2 ^ 16), of_nat (n div 2 ^ 8), of_nat n]"

definition canonBytes :: "byte list \<Rightarrow> byte list" where
  "canonBytes b = uint32be (length b) @ b"

definition canonField :: "string \<Rightarrow> byte list" where
  "canonField s = (let b = utf8_bytes s in uint32be (length b) @ b)"

definition canonCount :: "nat \<Rightarrow> byte list" where
  "canonCount n = uint32be n"

definition digest :: "suite \<Rightarrow> string \<Rightarrow> byte list \<Rightarrow> byte list" where
  "digest su domain b = su_sha256 su (utf8_bytes domain @ b)"

definition shortDigest :: "suite \<Rightarrow> string \<Rightarrow> byte list \<Rightarrow> string" where
  "shortDigest su domain b =
    (let e = su_crockford su (take 5 (digest su domain b)) in take 4 e @ ''-'' @ take 4 (drop 4 e))"

definition longDigest :: "suite \<Rightarrow> string \<Rightarrow> byte list \<Rightarrow> string" where
  "longDigest su domain b =
    (let e = su_crockford su (take 10 (digest su domain b)) in
     take 4 e @ ''-'' @ take 4 (drop 4 e) @ ''-'' @ take 4 (drop 8 e) @ ''-'' @ take 4 (drop 12 e))"

section \<open>Go's order of strings\<close>

fun first_difference :: "string \<Rightarrow> string \<Rightarrow> int option" where
  "first_difference (a # s) (b # t) =
    (let l = int (of_char a); r = int (of_char b) in if l \<noteq> r then Some (l - r) else first_difference s t)"
| "first_difference _ _ = None"

definition compareGoStrings :: "string \<Rightarrow> string \<Rightarrow> int" where
  "compareGoStrings a b = (case first_difference a b of Some d \<Rightarrow> d | None \<Rightarrow> int (length a) - int (length b))"

text \<open>\<open>xs.sort(compare)\<close>, which is stable.\<close>

fun insert_by :: "('a \<Rightarrow> 'a \<Rightarrow> int) \<Rightarrow> 'a \<Rightarrow> 'a list \<Rightarrow> 'a list" where
  "insert_by cmp x [] = [x]"
| "insert_by cmp x (y # ys) = (if cmp x y \<le> 0 then x # y # ys else y # insert_by cmp x ys)"

definition sort_by :: "('a \<Rightarrow> 'a \<Rightarrow> int) \<Rightarrow> 'a list \<Rightarrow> 'a list" where
  "sort_by cmp xs = foldr (insert_by cmp) xs []"

section \<open>Parameters, identities, submissions, attestations\<close>

record office_params =
  of_country :: string
  of_roles :: "string list"

record ceremony_params =
  cp_id :: string
  cp_ceremony :: string
  cp_chain :: string
  cp_threshold :: int
  cp_custodians :: "string list"
  cp_seq :: int
  cp_voting :: string
  cp_office :: "office_params option"
  cp_admins :: bool

definition office_country :: "ceremony_params \<Rightarrow> string" where
  "office_country p = (case cp_office p of None \<Rightarrow> [] | Some f \<Rightarrow> of_country f)"

definition office_roles :: "ceremony_params \<Rightarrow> string list" where
  "office_roles p = (case cp_office p of None \<Rightarrow> [] | Some f \<Rightarrow> of_roles f)"

definition paramsCanonical :: "ceremony_params \<Rightarrow> byte list" where
  "paramsCanonical p =
    (let names = sort_by compareGoStrings (cp_custodians p);
         roles = sort_by compareGoStrings (office_roles p) in
     canonField PARAMS_DOMAIN @ canonField (cp_id p) @ canonField (cp_ceremony p) @ canonField (cp_chain p) @
     canonField (show_int (cp_threshold p)) @ canonField (show_int (cp_seq p)) @ canonField (cp_voting p) @
     canonCount (length names) @ concat (map canonField names) @
     canonField (office_country p) @
     canonCount (length roles) @ concat (map canonField roles) @
     (if cp_admins p then canonField ADMINISTRATORS_MARKER else []))"

definition paramsFingerprint :: "suite \<Rightarrow> ceremony_params \<Rightarrow> string" where
  "paramsFingerprint su p = longDigest su PARAMS_DOMAIN (paramsCanonical p)"

record identity =
  id_name :: string
  id_role :: string
  id_address :: string
  id_key_type :: string
  id_key :: string
  id_fingerprint :: string
  id_path :: string
  id_generated :: string
  id_ceremony :: "string option"

record submission =
  sb_ceremony :: string
  sb_identity :: identity
  sb_possession :: string

definition possessionMessage :: "string \<Rightarrow> identity \<Rightarrow> byte list" where
  "possessionMessage ceremony i =
    canonField POSSESSION_DOMAIN @ canonField ceremony @ canonField (id_role i) @ canonField (id_name i) @
    canonField (id_key i) @ canonField (id_path i) @ canonField (id_generated i)"

record attestation =
  at_ceremony :: string
  at_name :: string
  at_address :: string
  at_group :: string
  at_policy :: string
  at_transcription :: bool
  at_drill :: bool
  at_sealed :: bool
  at_virtual :: bool
  at_signed :: string

definition show_bool :: "bool \<Rightarrow> string" where
  "show_bool b = (if b then ''true'' else ''false'')"

definition attestationCanonical :: "attestation \<Rightarrow> byte list" where
  "attestationCanonical a =
    canonField ATTESTATION_DOMAIN @ canonField (at_ceremony a) @ canonField (at_name a) @
    canonField (at_address a) @ canonField (at_group a) @ canonField (at_policy a) @
    canonField (show_bool (at_transcription a)) @ canonField (show_bool (at_drill a)) @
    canonField (show_bool (at_sealed a)) @ canonField (show_bool (at_virtual a)) @ canonField (at_signed a)"

text \<open>\<open>toBase64\<close> and \<open>fromBase64\<close> are \<open>btoa\<close> and \<open>atob\<close> on bytes.\<close>

definition toBase64 :: "byte list \<Rightarrow> string" where "toBase64 raw = btoa raw"

definition fromBase64 :: "string \<Rightarrow> byte list option" where "fromBase64 s = atob s"

definition hex_of_bytes :: "byte list \<Rightarrow> string" where
  "hex_of_bytes raw = concat (map (\<lambda>b. [hex_char (unat b div 16), hex_char (unat b mod 16)]) raw)"

section \<open>A custodian's key\<close>

definition ACCOUNT_PREFIX :: string where "ACCOUNT_PREFIX = ''yml''"
definition COIN_TYPE :: nat where "COIN_TYPE = 118"

definition hdPath :: "int \<Rightarrow> string" where
  "hdPath i = ''m/44'' @ [CHR 0x27] @ ''/'' @ dec_nat COIN_TYPE @ [CHR 0x27] @ ''/0'' @ [CHR 0x27] @ ''/0/'' @ show_int i"

text \<open>The words of a phrase: lower case, one space between two.\<close>

function ws_to_space :: "string \<Rightarrow> string" where
  "ws_to_space [] = []"
| "ws_to_space (c # s) =
    (if unit_at ws_units (c # s) = 0 then c # ws_to_space s
     else CHR '' '' # ws_to_space (drop (unit_at ws_units (c # s) - 1) s))"
  by pat_completeness auto
termination by (relation "measure length") auto

definition normalisePhrase :: "string \<Rightarrow> string" where
  "normalisePhrase phrase =
    join_with '' '' (filter (\<lambda>w. w \<noteq> []) (split_on CHR '' '' (ws_to_space (to_lower (trim phrase)))))"

definition checkPhrase :: "suite \<Rightarrow> string \<Rightarrow> bool" where
  "checkPhrase su phrase = su_mnemonic_ok su (normalisePhrase phrase)"

definition addressBytes :: "suite \<Rightarrow> byte list \<Rightarrow> byte list" where
  "addressBytes su pub = su_ripemd160 su (su_sha256 su pub)"

definition bech32Address :: "suite \<Rightarrow> string \<Rightarrow> byte list \<Rightarrow> string" where
  "bech32Address su pre raw = su_bech32 su pre raw"

definition decodeBech32 :: "suite \<Rightarrow> string \<Rightarrow> (string \<times> byte list) option" where
  "decodeBech32 su address = su_unbech32 su address"

definition fingerprintOf :: "suite \<Rightarrow> byte list \<Rightarrow> string" where
  "fingerprintOf su pub = shortDigest su FINGERPRINT_DOMAIN pub"

record key_pair =
  kp_priv :: "byte list"
  kp_pub :: "byte list"
  kp_address :: string
  kp_fingerprint :: string
  kp_path :: string

text \<open>\<open>su_derive\<close> is the seed of a phrase with an empty passphrase, derived at a path.\<close>

definition deriveKey :: "suite \<Rightarrow> string \<Rightarrow> int \<Rightarrow> key_pair option" where
  "deriveKey su phrase i =
    (let path = hdPath i in
     case su_derive su (normalisePhrase phrase) path of
       None \<Rightarrow> None
     | Some (priv, pub) \<Rightarrow> Some \<lparr>kp_priv = priv, kp_pub = pub,
         kp_address = bech32Address su ACCOUNT_PREFIX (addressBytes su pub),
         kp_fingerprint = fingerprintOf su pub, kp_path = path\<rparr>)"

definition rfc3339Second :: "int \<Rightarrow> string" where
  "rfc3339Second t = iso_second t"

definition identityOf :: "string \<Rightarrow> key_pair \<Rightarrow> int \<Rightarrow> identity" where
  "identityOf name key at = \<lparr>id_name = name, id_role = ''custodian'', id_address = kp_address key,
     id_key_type = SECP256K1_PUBKEY_TYPE, id_key = toBase64 (kp_pub key), id_fingerprint = kp_fingerprint key,
     id_path = kp_path key, id_generated = rfc3339Second at, id_ceremony = None\<rparr>"

definition sign_message :: "suite \<Rightarrow> byte list \<Rightarrow> byte list \<Rightarrow> byte list" where
  "sign_message su m priv = su_sign su (su_sha256 su m) priv"

definition verify_message :: "suite \<Rightarrow> byte list \<Rightarrow> byte list \<Rightarrow> byte list \<Rightarrow> bool" where
  "verify_message su sg m pub = (case su_verify su sg (su_sha256 su m) pub of Some b \<Rightarrow> b | None \<Rightarrow> False)"

definition signSubmission :: "suite \<Rightarrow> string \<Rightarrow> identity \<Rightarrow> byte list \<Rightarrow> submission" where
  "signSubmission su ceremony i priv =
    \<lparr>sb_ceremony = ceremony, sb_identity = i, sb_possession = toBase64 (sign_message su (possessionMessage ceremony i) priv)\<rparr>"

section \<open>The order is Go's, and sorting depends on the set\<close>

lemma compare_le: "compareGoStrings a b \<le> 0 \<longleftrightarrow> a \<le> b"
proof (induction a b rule: first_difference.induct)
  case (1 a s b t)
  have "compareGoStrings (a # s) (b # t) = (if of_char a \<noteq> (of_char b :: nat) then int (of_char a) - int (of_char b) else compareGoStrings s t)"
    by (simp add: compareGoStrings_def split: option.split)
  then show ?case using 1 by (auto simp: less_char_def less_eq_char_def order.strict_iff_order)
qed (simp_all add: compareGoStrings_def)

lemma insert_by_key: "insert_by (\<lambda>a b. compareGoStrings (f a) (f b)) x xs = insort_key f x xs"
  by (induction xs) (simp_all add: compare_le)

lemma sort_by_key: "sort_by (\<lambda>a b. compareGoStrings (f a) (f b)) xs = sort_key f xs"
  by (induction xs) (simp_all add: sort_by_def insert_by_key)

lemma sort_by_go: "sort_by compareGoStrings xs = sort xs"
  using sort_by_key [of "\<lambda>x. x" xs] by simp

lemma js_less_order: "js_less a b \<longleftrightarrow> a < b"
  by (induction a b rule: js_less.induct) (auto simp: less_char_def less_eq_char_def)

lemma sort_depends_on_set: "mset xs = mset ys \<Longrightarrow> sort_by compareGoStrings xs = sort_by compareGoStrings ys"
  unfolding sort_by_go by (metis sorted_list_of_multiset_mset)

lemma sort_key_depends_on_set:
  assumes "mset xs = mset ys" and "distinct (map f xs)"
  shows "sort_by (\<lambda>a b. compareGoStrings (f a) (f b)) xs = sort_by (\<lambda>a b. compareGoStrings (f a) (f b)) ys"
  unfolding sort_by_key
proof -
  have st: "set xs = set ys" and dy: "distinct (map f ys)"
    using assms mset_eq_setD distinct_map_perm by (blast, metis mset_map mset_eq_imp_distinct_iff)
  have "map f (sort_key f xs) = map f (sort_key f ys)"
    by (rule sorted_distinct_set_unique) (simp_all add: st dy assms(2) distinct_map_sort_key)
  moreover have "inj_on f (set (sort_key f xs) \<union> set (sort_key f ys))"
    using assms(2) by (simp add: st [symmetric] distinct_map)
  ultimately show "sort_key f xs = sort_key f ys" by (rule map_inj_on)
qed

end
