(* ===== verification/GoJson.thy ===== *)
theory GoJson imports Json begin

text \<open>
  Go's \<open>encoding/json\<close> and durations as the ceremony page reproduces them
  (clients/ceremony/src/gojson.ts). Strings are byte strings in UTF-8; a lone surrogate is the three
  bytes of its code point.
\<close>

section \<open>Strings, objects, arrays\<close>

definition u_escape :: "nat \<Rightarrow> string" where
  "u_escape code = [BS, CHR ''u''] @ pad_start 4 CHR ''0'' [hex_char (code div 16), hex_char (code mod 16)]"

definition TWO_CHAR :: "char \<Rightarrow> string option" where
  "TWO_CHAR c = map_of [(CHR 0x08, [BS, CHR ''b'']), (CHR 0x09, [BS, CHR ''t'']), (CHR 0x0A, [BS, CHR ''n'']), (CHR 0x0C, [BS, CHR ''f'']),
     (CHR 0x0D, [BS, CHR ''r'']), (DQ, [BS, DQ]), (BS, [BS, BS])] c"

text \<open>One character of one byte; the others are told apart by their first bytes.\<close>

definition go_char :: "char \<Rightarrow> string" where
  "go_char c = (case TWO_CHAR c of Some s \<Rightarrow> s | None \<Rightarrow>
     (let code = of_char c :: nat in
      if code < 32 then u_escape code
      else if code = 0x3C \<or> code = 0x3E \<or> code = 0x26 then u_escape code else [c]))"

text \<open>U+2028 and U+2029 are escaped, a lone surrogate is replaced by U+FFFD.\<close>

definition go_wide :: "string \<Rightarrow> string option" where
  "go_wide s =
    (if take 3 s = [CHR 0xE2, CHR 0x80, CHR 0xA8] then Some (BS # ''u2028'')
     else if take 3 s = [CHR 0xE2, CHR 0x80, CHR 0xA9] then Some (BS # ''u2029'')
     else if length s \<ge> 3 \<and> hd s = CHR 0xED \<and> 0xA0 \<le> (of_char (s ! 1) :: nat) then Some [CHR 0xEF, CHR 0xBF, CHR 0xBD]
     else None)"

function go_body :: "string \<Rightarrow> string" where
  "go_body [] = []"
| "go_body (c # s) = (case go_wide (c # s) of
     Some w \<Rightarrow> w @ go_body (drop 2 s)
   | None \<Rightarrow> go_char c @ go_body s)"
  by pat_completeness auto
termination by (relation "measure length") auto

definition goJSONString :: "string \<Rightarrow> string" where
  "goJSONString s = DQ # go_body s @ [DQ]"

definition goJSONObject :: "(string \<times> string) list \<Rightarrow> string" where
  "goJSONObject fields =
    ''{'' @ join_with '','' (map (\<lambda>(key, raw). goJSONString key @ '':'' @ raw) fields) @ ''}''"

definition goJSONArray :: "string list \<Rightarrow> string" where
  "goJSONArray items = ''['' @ join_with '','' items @ '']''"

abbreviation NL :: char where "NL \<equiv> CHR 0x0A"

definition indentGoJSON :: "(string \<times> string) list \<Rightarrow> string" where
  "indentGoJSON fields =
    (if fields = [] then ''{}'' else
     let lines = map (\<lambda>(key, raw). ''  '' @ goJSONString key @ '': '' @ raw) fields in
     [CHR ''{'', NL] @ join_with [CHR '','', NL] lines @ [NL, CHR ''}''])"

section \<open>Durations\<close>

abbreviation SECOND_NS :: int where "SECOND_NS \<equiv> 1000000000"

text \<open>A fraction of a second in three, six or nine digits.\<close>

definition fraction_digits :: "nat \<Rightarrow> string" where
  "fraction_digits f =
    (let digits = pad_start 9 CHR ''0'' (dec_nat f) in
     if ends_with digits ''000000'' then take 3 digits
     else if ends_with digits ''000'' then take 6 digits else digits)"

definition protoDuration :: "int \<Rightarrow> string" where
  "protoDuration nanos =
    (let magnitude = \<bar>nanos\<bar>; s = magnitude div SECOND_NS; f = magnitude mod SECOND_NS;
         txt = show_int s @ (if f = 0 then [] else CHR ''.'' # fraction_digits (nat f)) in
     (if nanos < 0 then ''-'' else []) @ txt @ ''s'')"

text \<open>
  The units, with both spellings of the micro sign. A name inherited from \<open>Object.prototype\<close> is no
  unit either: scaling by it throws.
\<close>

definition DURATION_UNITS :: "string \<Rightarrow> int option" where
  "DURATION_UNITS u = map_of [(''ns'', 1), (''us'', 1000), ([CHR 0xC2, CHR 0xB5, CHR ''s''], 1000),
     ([CHR 0xCE, CHR 0xBC, CHR ''s''], 1000), (''ms'', 1000000), (''s'', 1000000000),
     (''m'', 60000000000), (''h'', 3600000000000)] u"

text \<open>
  The pattern of one component: digits with an optional fraction, or a fraction alone, then letters
  \<open>a\<close> to \<open>z\<close> and micro signs. Greedy matching is the only way it can match.
\<close>

definition number_at :: "string \<Rightarrow> (string \<times> string \<times> string) option" where
  "number_at s =
    (let i = takeWhile is_digit s; r = dropWhile is_digit s;
         f = takeWhile is_digit (tl r); after = dropWhile is_digit (tl r) in
     if i \<noteq> [] then (if r \<noteq> [] \<and> hd r = CHR ''.'' then Some (i, f, after) else Some (i, [], r))
     else if r \<noteq> [] \<and> hd r = CHR ''.'' \<and> f \<noteq> [] then Some ([], f, after) else None)"

definition micro :: "char \<Rightarrow> char \<Rightarrow> bool" where
  "micro c d \<longleftrightarrow> (c = CHR 0xC2 \<and> d = CHR 0xB5) \<or> (c = CHR 0xCE \<and> d = CHR 0xBC)"

fun unit_split :: "string \<Rightarrow> string \<times> string" where
  "unit_split [] = ([], [])"
| "unit_split (c # s) =
    (if c \<in> set lower_alphabet then apfst ((#) c) (unit_split s)
     else case s of
       d # u \<Rightarrow> (if micro c d then apfst (\<lambda>v. c # d # v) (unit_split u) else ([], c # s))
     | [] \<Rightarrow> ([], c # s))"

datatype duration_error = Not_a_duration | Unknown_unit string

definition component_value :: "string \<Rightarrow> string \<Rightarrow> int \<Rightarrow> int" where
  "component_value i f per =
    int (nat_of_dec (if i = [] then ''0'' else i)) * per +
    (if f = [] then 0 else big_div (int (nat_of_dec (take 9 (f @ ''000000000''))) * per) SECOND_NS)"

lemma unit_split_length: "length (fst (unit_split s)) + length (snd (unit_split s)) = length s"
  by (induction s rule: unit_split.induct) (auto split: list.split)

lemma number_at_length:
  assumes "number_at s = Some (i, f, r)"
  shows "length r < length s"
proof -
  let ?i = "takeWhile is_digit s" and ?d = "dropWhile is_digit s"
  have s: "length ?i + length ?d = length s" by (metis length_append takeWhile_dropWhile_id)
  consider "?i \<noteq> []" "r = ?d" | "?d \<noteq> []" "r = dropWhile is_digit (tl ?d)"
    using assms by (auto simp: number_at_def Let_def split: if_splits)
  then show ?thesis
  proof cases
    case 2
    then have "length r \<le> length ?d - 1" using length_dropWhile_le [of is_digit "tl ?d"] by simp
    then show ?thesis using 2(1) s by (cases ?d) auto
  qed (use s in \<open>cases ?i; simp\<close>)
qed

text \<open>The loop of \<open>parseGoDuration\<close>, from what is left and the total so far.\<close>

function duration_loop :: "string \<Rightarrow> int \<Rightarrow> duration_error + int" where
  "duration_loop rest acc =
    (if rest = [] then Inr acc else
     case number_at rest of
       None \<Rightarrow> Inl Not_a_duration
     | Some (i, f, r) \<Rightarrow> (case unit_split r of (u, r') \<Rightarrow>
         if u = [] then Inl Not_a_duration else
         case DURATION_UNITS u of
           None \<Rightarrow> Inl (Unknown_unit u)
         | Some per \<Rightarrow> duration_loop r' (acc + component_value i f per)))"
  by pat_completeness auto
termination
proof (relation "measure (length \<circ> fst)", goal_cases)
  case (2 rest acc x i y f r u r' per)
  then show ?case
    using number_at_length [of rest i f r] unit_split_length [of r] by (cases "unit_split r") auto
qed simp

declare duration_loop.simps [simp del, evals]

definition parseGoDuration :: "string \<Rightarrow> duration_error + int" where
  "parseGoDuration txt =
    (let t = trim txt in
     if t \<in> {''0'', ''+0'', ''-0''} then Inr 0 else
     let neg = starts_with t ''-'';
         rest = (if neg \<or> starts_with t ''+'' then tl t else t) in
     if rest = [] then Inl Not_a_duration
     else map_sum id (\<lambda>v. (if neg then - 1 else 1) * v) (duration_loop rest 0))"

section \<open>Reading durations back\<close>

text \<open>A text that does not go on with a letter or a micro sign.\<close>

definition after_unit :: "string \<Rightarrow> bool" where
  "after_unit r \<longleftrightarrow> r = [] \<or> is_digit (hd r)"

lemma letters_not_digits: "\<forall>c \<in> set lower_alphabet. \<not> is_digit c"
  by (simp add: lower_alphabet_def is_digit_def)

lemma micro_not_digit: "is_digit c \<Longrightarrow> \<not> micro c d"
  by (auto simp: micro_def is_digit_def)

lemma unit_split_letters:
  assumes "set u \<subseteq> set lower_alphabet" and "after_unit r"
  shows "unit_split (u @ r) = (u, r)"
  using assms(1)
proof (induction u)
  case Nil
  show ?case
  proof (cases r)
    case (Cons c s)
    then have "is_digit c" using assms(2) by (simp add: after_unit_def)
    then show ?thesis using Cons letters_not_digits micro_not_digit by (cases s) auto
  qed simp
qed simp

lemma number_at_whole:
  assumes "all_digits i" and "i \<noteq> []" and "r \<noteq> []" and "\<not> is_digit (hd r)" and "hd r \<noteq> CHR ''.''"
  shows "number_at (i @ r) = Some (i, [], r)"
proof -
  have "takeWhile is_digit (i @ r) = i" "dropWhile is_digit (i @ r) = r"
    using assms by (cases r; simp add: all_digits_def takeWhile_append2 dropWhile_append2)+
  then show ?thesis using assms by (simp add: number_at_def Let_def)
qed

lemma number_at_point:
  assumes "all_digits i" and "i \<noteq> []" and "all_digits f" and "r = [] \<or> \<not> is_digit (hd r)"
  shows "number_at (i @ CHR ''.'' # f @ r) = Some (i, f, r)"
proof -
  have "takeWhile is_digit (i @ CHR ''.'' # f @ r) = i" "dropWhile is_digit (i @ CHR ''.'' # f @ r) = CHR ''.'' # f @ r"
    using assms by (simp_all add: all_digits_def takeWhile_append2 dropWhile_append2)
  moreover have "takeWhile is_digit (f @ r) = f" "dropWhile is_digit (f @ r) = r"
    using assms by (cases r; simp add: all_digits_def takeWhile_append2 dropWhile_append2)+
  ultimately show ?thesis using assms by (simp add: number_at_def Let_def)
qed

text \<open>What one round of the loop does with a whole number and with a decimal.\<close>

lemma duration_step:
  assumes "all_digits i" and "i \<noteq> []" and "set u \<subseteq> set lower_alphabet" and "u \<noteq> []"
    and "DURATION_UNITS u = Some per" and "after_unit r"
  shows "duration_loop (i @ u @ r) acc = duration_loop r (acc + int (nat_of_dec i) * per)"
proof -
  have h: "\<not> is_digit (hd u)" "hd u \<noteq> CHR ''.''"
    using assms(3,4) letters_not_digits by (cases u; auto simp: lower_alphabet_def)+
  have n: "number_at (i @ u @ r) = Some (i, [], u @ r)"
    using number_at_whole [of i "u @ r"] assms h by simp
  show ?thesis
    using assms by (subst duration_loop.simps) (simp add: n unit_split_letters component_value_def)
qed

lemma duration_step_point:
  assumes "all_digits i" and "i \<noteq> []" and "all_digits f" and "set u \<subseteq> set lower_alphabet" and "u \<noteq> []"
    and "DURATION_UNITS u = Some per" and "after_unit r"
  shows "duration_loop (i @ CHR ''.'' # f @ u @ r) acc = duration_loop r (acc + component_value i f per)"
proof -
  have "\<not> is_digit (hd u)" using assms(4,5) letters_not_digits by (cases u) auto
  then have n: "number_at (i @ CHR ''.'' # f @ u @ r) = Some (i, f, u @ r)"
    using number_at_point [of i f "u @ r"] assms by simp
  show ?thesis
    using assms by (subst duration_loop.simps) (simp add: n unit_split_letters)
qed

lemma duration_units [simp]:
  "DURATION_UNITS ''h'' = Some 3600000000000" "DURATION_UNITS ''m'' = Some 60000000000" "DURATION_UNITS ''s'' = Some 1000000000"
  "CHR ''h'' \<in> set lower_alphabet" "CHR ''m'' \<in> set lower_alphabet" "CHR ''s'' \<in> set lower_alphabet"
  by (simp_all add: DURATION_UNITS_def lower_alphabet_def)

lemma take_pad:
  "length d = 9 \<Longrightarrow> ends_with d z \<Longrightarrow> set z \<subseteq> {CHR ''0''} \<Longrightarrow> length z \<le> 9 \<Longrightarrow>
   take 9 (take (9 - length z) d @ ''000000000'') = d"
proof -
  assume d: "length d = 9" "ends_with d z" "set z \<subseteq> {CHR ''0''}" "length z \<le> 9"
  have "z = replicate (length z) CHR ''0''" using d(3) by (intro replicate_eqI) auto
  moreover have "d = take (9 - length z) d @ z"
    using d(1,2) by (metis append_take_drop_id ends_with_def)
  moreover have "''000000000'' = replicate 9 CHR ''0''" by (simp add: numeral_eq_Suc)
  then have "take (length z) ''000000000'' = replicate (length z) CHR ''0''"
    using d(4) by (simp only: take_replicate min.absorb1)
  ultimately show ?thesis using d by (simp add: take_append)
qed

lemma fraction_read:
  assumes "0 < f" and "f < 1000000000"
  shows "all_digits (fraction_digits f)" "fraction_digits f \<noteq> []"
    "nat_of_dec (take 9 (fraction_digits f @ ''000000000'')) = f"
proof -
  let ?d = "pad_start 9 CHR ''0'' (dec_nat f)"
  have d: "length ?d = 9" "all_digits ?d" "nat_of_dec ?d = f"
    using length_dec_nat [of 9 f] assms by (simp_all add: pad_start_def nat_of_dec_append)
  have six: "take 9 (take 3 ?d @ ''000000000'') = ?d" if "ends_with ?d ''000000''"
    using take_pad [OF d(1) that] by simp
  have three: "take 9 (take 6 ?d @ ''000000000'') = ?d" if "ends_with ?d ''000''"
    using take_pad [OF d(1) that] by simp
  show "all_digits (fraction_digits f)" using d(2) by (simp add: fraction_digits_def Let_def all_digits_take)
  have "?d \<noteq> []" using d(1) by force
  then show "fraction_digits f \<noteq> []" by (simp add: fraction_digits_def Let_def)
  show "nat_of_dec (take 9 (fraction_digits f @ ''000000000'')) = f"
    using d(1,3) six three by (simp add: fraction_digits_def Let_def)
qed

lemma proto_magnitude:
  assumes "0 \<le> n"
  shows "duration_loop (show_int (n div SECOND_NS) @ (if n mod SECOND_NS = 0 then [] else CHR ''.'' # fraction_digits (nat (n mod SECOND_NS))) @ ''s'') 0 = Inr n"
proof -
  have s: "show_int (n div SECOND_NS) = dec_nat (nat (n div SECOND_NS))" using assms by (simp add: show_int_nonneg)
  have fin: "after_unit []" "duration_loop [] v = Inr v" for v by (simp_all add: after_unit_def evals)
  show ?thesis
  proof (cases "n mod SECOND_NS = 0")
    case True
    then have "n div SECOND_NS * SECOND_NS = n" using div_mult_mod_eq [of n SECOND_NS] by simp
    then show ?thesis
      using True assms fin duration_step [of "dec_nat (nat (n div SECOND_NS))" "''s''" SECOND_NS "[]" 0] by (simp add: s)
  next
    case False
    let ?f = "nat (n mod SECOND_NS)"
    have "0 \<le> n mod SECOND_NS" "n mod SECOND_NS < SECOND_NS" by simp_all
    then have f: "0 < ?f" "?f < 1000000000" using False by linarith+
    note r = fraction_read [OF f]
    have "component_value (dec_nat (nat (n div SECOND_NS))) (fraction_digits ?f) SECOND_NS = n"
      using r assms False div_mult_mod_eq [of n SECOND_NS] pos_imp_zdiv_nonneg_iff [of SECOND_NS n]
      by (simp add: component_value_def)
    then show ?thesis
      using duration_step_point [of "dec_nat (nat (n div SECOND_NS))" "fraction_digits ?f" "''s''" SECOND_NS "[]" 0] False r fin
      by (simp add: s)
  qed
qed

text \<open>
  C34. What \<open>protoDuration\<close> writes into the genesis fragment is the very duration it was given, to the
  nanosecond and with its sign, when \<open>parseGoDuration\<close> reads it; and the form Go prints, hours,
  minutes and seconds, is read as their sum.
\<close>

theorem durations_read_back:
  "parseGoDuration (protoDuration n) = Inr n \<and>
   parseGoDuration (dec_nat h @ ''h'' @ dec_nat m @ ''m'' @ dec_nat s @ ''s'') = Inr (((int h * 60 + int m) * 60 + int s) * SECOND_NS)"
proof
  let ?m = "show_int (\<bar>n\<bar> div SECOND_NS) @ (if \<bar>n\<bar> mod SECOND_NS = 0 then [] else CHR ''.'' # fraction_digits (nat (\<bar>n\<bar> mod SECOND_NS))) @ ''s''"
  have loop: "duration_loop ?m 0 = Inr \<bar>n\<bar>" by (rule proto_magnitude) simp
  have p: "protoDuration n = (if n < 0 then ''-'' else []) @ ?m" by (simp add: protoDuration_def Let_def)
  have hd: "is_digit (hd ?m)" "?m \<noteq> []"
    using dec_nat_digits [of "nat (\<bar>n\<bar> div SECOND_NS)"] by (cases "dec_nat (nat (\<bar>n\<bar> div SECOND_NS))"; simp add: show_int_nonneg)+
  then have sign: "\<not> starts_with ?m ''-''" "\<not> starts_with ?m ''+''" by (cases ?m; auto simp: starts_with_def)+
  have l: "last (protoDuration n) = CHR ''s''" "protoDuration n \<noteq> []" by (simp_all add: p)
  then have no: "protoDuration n \<notin> {''0'', ''+0'', ''-0''}" by auto
  have "graphic (hd (protoDuration n))" using hd digit_graphic by (cases "n < 0") (auto simp: p graphic_def)
  then have t: "trim (protoDuration n) = protoDuration n" using l by (intro trim_graphic) (simp add: graphic_def)
  show "parseGoDuration (protoDuration n) = Inr n"
    unfolding parseGoDuration_def t Let_def using no sign loop hd(2)
    by (cases "n < 0") (simp_all add: p starts_with_def)
next
  let ?t = "dec_nat h @ ''h'' @ dec_nat m @ ''m'' @ dec_nat s @ ''s''"
  have dd: "is_digit (hd (dec_nat x))" for x
    using dec_nat_digits [of x] dec_nat_ne [of x] by (cases "dec_nat x") simp_all
  have au: "after_unit (dec_nat x @ y)" for x y using dd [of x] by (simp add: after_unit_def)
  have hd: "is_digit (hd ?t)" using dd [of h] by simp
  then have sign: "\<not> starts_with ?t ''-''" "\<not> starts_with ?t ''+''" by (cases ?t; auto simp: starts_with_def)+
  have "duration_loop ?t 0 = duration_loop (dec_nat m @ ''m'' @ dec_nat s @ ''s'') (int h * 3600000000000)"
    using duration_step [of "dec_nat h" "''h''" 3600000000000 "dec_nat m @ ''m'' @ dec_nat s @ ''s''" 0] au by simp
  also have "\<dots> = duration_loop (dec_nat s @ ''s'') (int h * 3600000000000 + int m * 60000000000)"
    using duration_step [of "dec_nat m" "''m''" 60000000000 "dec_nat s @ ''s''"] au by simp
  also have "\<dots> = duration_loop [] (int h * 3600000000000 + int m * 60000000000 + int s * 1000000000)"
    using duration_step [of "dec_nat s" "''s''" 1000000000 "[]"] by (simp add: after_unit_def)
  also have "\<dots> = Inr (((int h * 60 + int m) * 60 + int s) * SECOND_NS)" by (simp add: duration_loop.simps)
  finally have "duration_loop ?t 0 = Inr (((int h * 60 + int m) * 60 + int s) * SECOND_NS)" .
  moreover have "last ?t = CHR ''s''" "?t \<noteq> []" by simp_all
  then have no: "?t \<notin> {''0'', ''+0'', ''-0''}" by auto
  moreover have "trim ?t = ?t" using hd digit_graphic by (intro trim_graphic) (simp add: graphic_def)
  ultimately show "parseGoDuration ?t = Inr (((int h * 60 + int m) * 60 + int s) * SECOND_NS)"
    unfolding parseGoDuration_def Let_def using sign by simp
qed

end
