(* ===== verification/CeremonyGroup.thy ===== *)
theory CeremonyGroup imports CeremonyWire GoJson begin

text \<open>
  The group, computed on every custodian's page (clients/ceremony/src/group.ts): the checks on the
  parameters and on each submission, the assembly of the group, its documents and its fingerprint.
  Every \<open>throw\<close> is a constructor of \<open>ceremony_error\<close>. Case conversion is ASCII only, so a country
  with another lower case letter is refused for its shape instead of its case.
\<close>

section \<open>Errors\<close>

datatype ceremony_error =
    No_ceremony_id | No_chain_id | Too_few_custodians | Unnamed_custodian | Named_twice string
  | Acts_alone int | No_redundancy int | Bad_duration duration_error | No_voting_window | Bad_sequence int
  | Two_purposes | Country_case string | Country_chain_wide | Country_foundation | Country_shape string
  | No_roles | Role_spelling string | Role_unset | Role_unknown string | Role_twice string
  | Other_ceremony string | Not_custodian string | Not_on_roster string | Not_secp256k1 string | Bad_base64
  | Key_length nat | Unreadable_time string | Time_spelling string | Other_path string | No_possession string
  | Address_edited string | Fingerprint_edited string | Submissions_missing string | Cannot_act int
  | Bad_address string | Other_chain string | Derived_account string | Two_votes string string
  | Metadata_long nat | Other_fingerprint nat | Not_in_group

definition require :: "bool \<Rightarrow> ceremony_error \<Rightarrow> ceremony_error + 'a \<Rightarrow> ceremony_error + 'a" where
  "require ok e next = (if ok then next else Inl e)"

definition after :: "ceremony_error + 'a \<Rightarrow> ('a \<Rightarrow> ceremony_error + 'b) \<Rightarrow> ceremony_error + 'b" where
  "after m f = (case m of Inl e \<Rightarrow> Inl e | Inr x \<Rightarrow> f x)"

lemma require_Inr [simp]: "require ok e next = Inr x \<longleftrightarrow> ok \<and> next = Inr x"
  by (simp add: require_def)

lemma after_Inr [simp]: "after m f = Inr y \<longleftrightarrow> (\<exists>x. m = Inr x \<and> f x = Inr y)"
  by (cases m) (simp_all add: after_def)

section \<open>Labels and the policy address\<close>

definition GROUP_MODULE :: string where "GROUP_MODULE = ''group''"
definition GROUP_POLICY_TABLE_PREFIX :: byte where "GROUP_POLICY_TABLE_PREFIX = 0x20"
definition THRESHOLD_POLICY_TYPE :: string where "THRESHOLD_POLICY_TYPE = ''/cosmos.group.v1.ThresholdDecisionPolicy''"
definition GROUP_ID :: nat where "GROUP_ID = 1"
definition FOUNDATION_LABEL :: string where "FOUNDATION_LABEL = ''Yamale foundation''"
definition MAX_GROUP_METADATA :: nat where "MAX_GROUP_METADATA = 255"

definition groupLabel :: "ceremony_params \<Rightarrow> string" where
  "groupLabel p = (case cp_office p of
     Some f \<Rightarrow> cp_ceremony p @ '' ('' @ of_country f @ '')''
   | None \<Rightarrow> (if cp_admins p then cp_ceremony p @ '' (foundation administrators)'' else FOUNDATION_LABEL))"

definition addressHash :: "suite \<Rightarrow> byte list \<Rightarrow> byte list \<Rightarrow> byte list" where
  "addressHash su typ key = su_sha256 su (su_sha256 su typ @ key)"

definition uint64be :: "int \<Rightarrow> byte list" where
  "uint64be n = map (\<lambda>i. of_int (n div 2 ^ (8 * i))) [7, 6, 5, 4, 3, 2, 1, 0]"

definition policyAddress :: "suite \<Rightarrow> int \<Rightarrow> string" where
  "policyAddress su seq =
    (let derivationKey = uint64be seq;
         seed = utf8_bytes GROUP_MODULE @ [0] @ [GROUP_POLICY_TABLE_PREFIX];
         addr = addressHash su (utf8_bytes ''module'') seed;
         addr = addressHash su addr derivationKey in
     bech32Address su ACCOUNT_PREFIX addr)"

section \<open>The parameters\<close>

definition CHAIN_WIDE :: string where "CHAIN_WIDE = ''*''"
definition CEREMONY_FOUNDATION_COUNTRY :: string where "CEREMONY_FOUNDATION_COUNTRY = ''ZZ''"

fun check_roles :: "string list \<Rightarrow> string list \<Rightarrow> ceremony_error + unit" where
  "check_roles seen [] = Inr ()"
| "check_roles seen (role # roles) =
    require (role = trim (to_upper role)) (Role_spelling role) (
    require (role \<noteq> ''ROLE_UNSPECIFIED'') Role_unset (
    require (role \<in> set VALID_ROLES) (Role_unknown role) (
    require (role \<notin> set seen) (Role_twice role) (
    check_roles (role # seen) roles))))"

definition validateOffice :: "office_params option \<Rightarrow> ceremony_error + unit" where
  "validateOffice office = (case office of None \<Rightarrow> Inr () | Some f \<Rightarrow>
     let country = of_country f in
     require (country = to_upper country) (Country_case country) (
     require (country \<noteq> CHAIN_WIDE) Country_chain_wide (
     require (country \<noteq> CEREMONY_FOUNDATION_COUNTRY) Country_foundation (
     require (length country = 2 \<and> (\<forall>c \<in> set country. c \<in> set upper_alphabet)) (Country_shape country) (
     require (of_roles f \<noteq> []) No_roles (
     check_roles [] (of_roles f)))))))"

fun check_roster :: "string list \<Rightarrow> string list \<Rightarrow> ceremony_error + unit" where
  "check_roster seen [] = Inr ()"
| "check_roster seen (name # names) =
    (let t = trim name in
     require (t \<noteq> []) Unnamed_custodian (
     require (t \<notin> set seen) (Named_twice t) (
     check_roster (t # seen) names)))"

definition go_duration :: "string \<Rightarrow> ceremony_error + int" where
  "go_duration s = map_sum Bad_duration id (parseGoDuration s)"

definition MAX_SAFE :: int where "MAX_SAFE = 2 ^ 53 - 1"

definition validateParams :: "ceremony_params \<Rightarrow> ceremony_error + unit" where
  "validateParams p =
    require (trim (cp_id p) \<noteq> []) No_ceremony_id (
    require (trim (cp_chain p) \<noteq> []) No_chain_id (
    require (3 \<le> length (cp_custodians p)) Too_few_custodians (
    after (check_roster [] (cp_custodians p)) (\<lambda>_.
    require (2 \<le> cp_threshold p) (Acts_alone (cp_threshold p)) (
    require (cp_threshold p < int (length (cp_custodians p))) (No_redundancy (cp_threshold p)) (
    after (go_duration (cp_voting p)) (\<lambda>period.
    require (0 < period) No_voting_window (
    require (\<bar>cp_seq p\<bar> \<le> MAX_SAFE \<and> 0 \<le> cp_seq p \<and> cp_seq p \<le> 2 ^ 40) (Bad_sequence (cp_seq p)) (
    require (\<not> (cp_admins p \<and> cp_office p \<noteq> None)) Two_purposes (
    validateOffice (cp_office p)))))))))))"

section \<open>One submission\<close>

definition onRoster :: "string list \<Rightarrow> string \<Rightarrow> bool" where
  "onRoster roster name \<longleftrightarrow> (\<exists>c \<in> set roster. trim c = trim name)"

definition checkCanonicalTimestamp :: "suite \<Rightarrow> string \<Rightarrow> ceremony_error + unit" where
  "checkCanonicalTimestamp su v = (case date_parse (su_date su) v of
     None \<Rightarrow> Inl (Unreadable_time v)
   | Some t \<Rightarrow> require (iso_second t = v) (Time_spelling v) (Inr ()))"

definition hd_base :: string where
  "hd_base = (let h = hdPath 0 in if ends_with h ''/0'' then take (length h - 2) h else h)"

definition checkHDPath :: "string \<Rightarrow> ceremony_error + unit" where
  "checkHDPath path = require (starts_with path (hd_base @ ''/'')) (Other_path path) (Inr ())"

definition identityFromPubKey :: "suite \<Rightarrow> string \<Rightarrow> byte list \<Rightarrow> string \<Rightarrow> string \<Rightarrow> identity" where
  "identityFromPubKey su name pub path generated =
    \<lparr>id_name = name, id_role = ''custodian'', id_address = bech32Address su ACCOUNT_PREFIX (addressBytes su pub),
     id_key_type = SECP256K1_PUBKEY_TYPE, id_key = toBase64 pub, id_fingerprint = fingerprintOf su pub,
     id_path = path, id_generated = generated, id_ceremony = None\<rparr>"

definition from64 :: "string \<Rightarrow> ceremony_error + byte list" where
  "from64 s = (case fromBase64 s of None \<Rightarrow> Inl Bad_base64 | Some b \<Rightarrow> Inr b)"

definition verifySubmission :: "suite \<Rightarrow> ceremony_params \<Rightarrow> submission \<Rightarrow> ceremony_error + identity" where
  "verifySubmission su p s =
    (let i = sb_identity s in
     require (sb_ceremony s = cp_id p) (Other_ceremony (sb_ceremony s)) (
     require (id_role i = ''custodian'') (Not_custodian (id_name i)) (
     require (onRoster (cp_custodians p) (id_name i)) (Not_on_roster (id_name i)) (
     require (id_key_type i = SECP256K1_PUBKEY_TYPE) (Not_secp256k1 (id_name i)) (
     after (from64 (id_key i)) (\<lambda>raw.
     require (length raw = 33) (Key_length (length raw)) (
     after (checkCanonicalTimestamp su (id_generated i)) (\<lambda>_.
     after (checkHDPath (id_path i)) (\<lambda>_.
     after (from64 (sb_possession s)) (\<lambda>sg.
     require (verify_message su sg (possessionMessage (cp_id p) i) raw) (No_possession (id_name i)) (
     let derived = identityFromPubKey su (id_name i) raw (id_path i) (id_generated i)\<lparr>id_ceremony := Some (cp_ceremony p)\<rparr> in
     require (id_address i = [] \<or> id_address i = id_address derived) (Address_edited (id_name i)) (
     require (id_fingerprint i = [] \<or> id_fingerprint i = id_fingerprint derived) (Fingerprint_edited (id_name i)) (
     Inr derived)))))))))))))"

section \<open>The documents\<close>

record group_purpose =
  gp_label :: string
  gp_on_chain :: bool

record group_documents =
  gd_policy :: string
  gd_metadata :: string
  gd_policy_metadata :: string
  gd_genesis :: string
  gd_constitution :: string
  gd_members :: string

definition foundationPurpose :: group_purpose where
  "foundationPurpose = \<lparr>gp_label = FOUNDATION_LABEL, gp_on_chain = False\<rparr>"

definition purposeFor :: "ceremony_params \<Rightarrow> group_purpose" where
  "purposeFor p = \<lparr>gp_label = groupLabel p, gp_on_chain = (cp_office p \<noteq> None \<or> cp_admins p)\<rparr>"

definition groupMetadata :: "string \<Rightarrow> identity list \<Rightarrow> int \<Rightarrow> string" where
  "groupMetadata lbl custodians threshold =
    (let names = map (\<lambda>c. id_name c @ '' '' @ id_fingerprint c) custodians in
     lbl @ '', '' @ show_int threshold @ '' of '' @ dec_nat (length custodians) @ '': '' @ join_with ''; '' names)"

definition member_note :: "identity \<Rightarrow> string" where
  "member_note c = id_name c @ '' ('' @ id_fingerprint c @ '')''"

definition membersDocument :: "identity list \<Rightarrow> string" where
  "membersDocument custodians =
    (let q = (\<lambda>k. ''      '' @ [DQ] @ k @ [DQ] @ '': '');
         rows = map (\<lambda>c. ''    {'' @ [NL] @ q ''address'' @ goJSONString (id_address c) @ '','' @ [NL] @
           q ''weight'' @ [DQ] @ ''1'' @ [DQ] @ '','' @ [NL] @
           q ''metadata'' @ goJSONString (member_note c) @ [NL] @ ''    }'') custodians in
     ''{'' @ [NL] @ ''  '' @ [DQ] @ ''members'' @ [DQ] @ '': ['' @ [NL] @ join_with (CHR '','' # [NL]) rows @ [NL] @ ''  ]'' @ [NL] @ ''}'')"

text \<open>The checks on the members, in the order of their addresses.\<close>

fun check_members :: "suite \<Rightarrow> (string \<times> string) list \<Rightarrow> identity list \<Rightarrow> ceremony_error + unit" where
  "check_members su seen [] = Inr ()"
| "check_members su seen (c # cs) =
    require (id_role c = ''custodian'') (Not_custodian (id_name c)) (
    after (case decodeBech32 su (id_address c) of None \<Rightarrow> Inl (Bad_address (id_address c)) | Some d \<Rightarrow> Inr d) (\<lambda>(pre, raw).
    require (pre = ACCOUNT_PREFIX) (Other_chain (id_name c)) (
    require (length raw = 20) (Derived_account (id_name c)) (
    case map_of seen (id_address c) of
      Some other \<Rightarrow> Inl (Two_votes other (id_name c))
    | None \<Rightarrow> check_members su (map_set (id_address c) (id_name c) seen) cs))))"

definition decision_policy :: "int \<Rightarrow> string \<Rightarrow> string" where
  "decision_policy threshold period = goJSONObject
    [(''@type'', goJSONString THRESHOLD_POLICY_TYPE),
     (''threshold'', goJSONString (show_int threshold)),
     (''windows'', goJSONObject [(''voting_period'', goJSONString period), (''min_execution_period'', goJSONString ''0s'')])]"

definition member_row :: "string \<Rightarrow> identity \<Rightarrow> string" where
  "member_row created c = goJSONObject
    [(''group_id'', goJSONString (dec_nat GROUP_ID)),
     (''member'', goJSONObject
       [(''address'', goJSONString (id_address c)), (''weight'', goJSONString ''1''),
        (''metadata'', goJSONString (member_note c)), (''added_at'', created)])]"

definition genesis_fragment :: "identity list \<Rightarrow> int \<Rightarrow> string \<Rightarrow> int \<Rightarrow> string \<Rightarrow> string \<Rightarrow> string \<Rightarrow> string" where
  "genesis_fragment custodians threshold period seq created policyAddr metadata =
    goJSONObject
     [(''group_seq'', goJSONString (dec_nat GROUP_ID)),
      (''groups'', goJSONArray [goJSONObject
        [(''id'', goJSONString (dec_nat GROUP_ID)), (''admin'', goJSONString policyAddr),
         (''metadata'', goJSONString metadata), (''version'', goJSONString ''1''),
         (''total_weight'', goJSONString (dec_nat (length custodians))), (''created_at'', created)]]),
      (''group_members'', goJSONArray (map (member_row created) custodians)),
      (''group_policy_seq'', goJSONString (show_int seq)),
      (''group_policies'', goJSONArray [goJSONObject
        [(''address'', goJSONString policyAddr), (''group_id'', goJSONString (dec_nat GROUP_ID)),
         (''admin'', goJSONString policyAddr), (''metadata'', goJSONString metadata),
         (''version'', goJSONString ''1''), (''decision_policy'', decision_policy threshold period),
         (''created_at'', created)]]),
      (''proposal_seq'', goJSONString ''0''), (''proposals'', ''[]''), (''votes'', ''[]'')]"

definition constitution_fragment :: "group_purpose \<Rightarrow> string \<Rightarrow> nat \<Rightarrow> int \<Rightarrow> string" where
  "constitution_fragment purpose policyAddr n threshold =
    (if gp_on_chain purpose then [] else indentGoJSON
      [(''enforcement_recovery_destination'', goJSONString policyAddr),
       (''foundation_custodian_count'', dec_nat n),
       (''foundation_signature_threshold'', show_int threshold)])"

definition buildGroup :: "suite \<Rightarrow> identity list \<Rightarrow> group_purpose \<Rightarrow> int \<Rightarrow> string \<Rightarrow> int \<Rightarrow> string \<Rightarrow> ceremony_error + group_documents" where
  "buildGroup su input purpose threshold votingPeriod seq createdAt =
    (let n = int (length input) in
     require (threshold \<le> n) (Cannot_act threshold) (
     require (2 \<le> threshold) (Acts_alone threshold) (
     require (threshold \<noteq> n) (No_redundancy threshold) (
     let custodians = sort_by (\<lambda>a b. compareGoStrings (id_address a) (id_address b)) input in
     after (check_members su [] custodians) (\<lambda>_.
     let policyAddr = policyAddress su seq;
         metadata = groupMetadata (gp_label purpose) custodians threshold;
         policyMetadata = gp_label purpose @ '' '' @ show_int threshold @ ''-of-'' @ dec_nat (length custodians) in
     require (length metadata \<le> MAX_GROUP_METADATA) (Metadata_long (length metadata)) (
     require (length policyMetadata \<le> MAX_GROUP_METADATA) (Metadata_long (length policyMetadata)) (
     after (go_duration votingPeriod) (\<lambda>nanos.
     Inr \<lparr>gd_policy = policyAddr, gd_metadata = metadata, gd_policy_metadata = policyMetadata,
          gd_genesis = genesis_fragment custodians threshold (protoDuration nanos) seq (goJSONString createdAt) policyAddr metadata,
          gd_constitution = constitution_fragment purpose policyAddr (length custodians) threshold,
          gd_members = membersDocument custodians\<rparr>)))))))) "

section \<open>The assembled group\<close>

record assembled_group =
  ag_params :: ceremony_params
  ag_custodians :: "identity list"
  ag_policy :: string
  ag_fingerprint :: string
  ag_genesis :: string
  ag_constitution :: string
  ag_members :: string
  ag_computed :: string

definition assembledCanonical :: "assembled_group \<Rightarrow> byte list" where
  "assembledCanonical a =
    canonField GROUP_DOMAIN @ canonBytes (paramsCanonical (ag_params a)) @ canonField (ag_policy a) @
    canonField (ag_computed a) @ canonCount (length (ag_custodians a)) @
    concat (map (\<lambda>c. canonField (id_address c) @ canonField (id_key c) @ canonField (id_name c)) (ag_custodians a)) @
    canonBytes (utf8_bytes (ag_genesis a)) @ canonBytes (utf8_bytes (ag_constitution a))"

definition missingFrom :: "ceremony_params \<Rightarrow> submission list \<Rightarrow> string" where
  "missingFrom p subs =
    (let present = map (\<lambda>s. trim (id_name (sb_identity s))) subs;
         missing = filter (\<lambda>name. trim name \<notin> set present) (cp_custodians p) in
     if missing = [] then ''Every name on the roster has a submission.''
     else ''Still missing: '' @ join_with '', '' missing @ ''.'')"

fun collect :: "suite \<Rightarrow> ceremony_params \<Rightarrow> string \<Rightarrow> submission list \<Rightarrow> ceremony_error + identity list \<times> string" where
  "collect su p latest [] = Inr ([], latest)"
| "collect su p latest (s # ss) =
    after (verifySubmission su p s) (\<lambda>i.
    after (collect su p (if js_less latest (id_generated i) then id_generated i else latest) ss) (\<lambda>(is, l).
    Inr (i # is, l)))"

definition assembleGroup :: "suite \<Rightarrow> ceremony_params \<Rightarrow> submission list \<Rightarrow> ceremony_error + assembled_group" where
  "assembleGroup su p subs =
    after (validateParams p) (\<lambda>_.
    require (length subs = length (cp_custodians p)) (Submissions_missing (missingFrom p subs)) (
    after (collect su p [] subs) (\<lambda>(custodians, latest).
    after (buildGroup su custodians (purposeFor p) (cp_threshold p) (cp_voting p) (cp_seq p) latest) (\<lambda>documents.
    let a = \<lparr>ag_params = p,
             ag_custodians = sort_by (\<lambda>a b. compareGoStrings (id_address a) (id_address b)) custodians,
             ag_policy = gd_policy documents, ag_fingerprint = [], ag_genesis = gd_genesis documents,
             ag_constitution = gd_constitution documents, ag_members = gd_members documents, ag_computed = latest\<rparr> in
    Inr (a\<lparr>ag_fingerprint := longDigest su GROUP_DOMAIN (assembledCanonical a)\<rparr>)))))"

fun presence_from :: "nat \<Rightarrow> identity list \<Rightarrow> string \<Rightarrow> string \<Rightarrow> ceremony_error + unit" where
  "presence_from i [] address fingerprint = Inl Not_in_group"
| "presence_from i (c # cs) address fingerprint =
    (if id_address c \<noteq> address then presence_from (i + 1) cs address fingerprint
     else require (id_fingerprint c = fingerprint) (Other_fingerprint (i + 1)) (Inr ()))"

definition presence :: "assembled_group \<Rightarrow> string \<Rightarrow> string \<Rightarrow> ceremony_error + unit" where
  "presence a address fingerprint = presence_from 0 (ag_custodians a) address fingerprint"

end
