(* ===== verification/Ceremony.thy ===== *)
theory Ceremony imports CeremonyGroup begin

text \<open>
  What the ceremony's group promises: it depends on the set of submissions only, every member proved
  possession of its key, and its fingerprint covers everything the custodians agreed to.
\<close>

section \<open>What the checks establish\<close>

lemma check_roster_iff:
  "check_roster seen names = Inr () \<longleftrightarrow>
   distinct (map trim names) \<and> (\<forall>n \<in> set names. trim n \<noteq> [] \<and> trim n \<notin> set seen)"
  by (induction seen names rule: check_roster.induct) (auto simp: Let_def image_iff)

definition role_ok :: "string \<Rightarrow> bool" where
  "role_ok r \<longleftrightarrow> r = trim (to_upper r) \<and> r \<noteq> ''ROLE_UNSPECIFIED'' \<and> r \<in> set VALID_ROLES"

lemma check_roles_iff:
  "check_roles seen roles = Inr () \<longleftrightarrow> distinct roles \<and> (\<forall>r \<in> set roles. role_ok r \<and> r \<notin> set seen)"
  by (induction seen roles rule: check_roles.induct) (auto simp: role_ok_def)

definition member_ok :: "suite \<Rightarrow> identity \<Rightarrow> bool" where
  "member_ok su c \<longleftrightarrow> id_role c = ''custodian'' \<and>
     (\<exists>raw. decodeBech32 su (id_address c) = Some (ACCOUNT_PREFIX, raw) \<and> length raw = 20)"

lemma check_members_iff:
  "check_members su seen cs = Inr () \<longleftrightarrow>
   distinct (map id_address cs) \<and> (\<forall>c \<in> set cs. member_ok su c \<and> id_address c \<notin> fst ` set seen)"
proof (induction su seen cs rule: check_members.induct)
  case (2 su seen c cs)
  show ?case
  proof (cases "map_of seen (id_address c)")
    case None
    then have "id_address c \<notin> fst ` set seen" by (simp add: map_of_eq_None_iff)
    then show ?thesis using 2 None
      by (cases "decodeBech32 su (id_address c)") (auto simp: member_ok_def keys_map_set image_iff)
  next
    case (Some other)
    then have "id_address c \<in> fst ` set seen" by (metis domI dom_map_of_conv_image_fst)
    then show ?thesis using Some by auto
  qed
qed simp

text \<open>A verified submission: everything derivable is derived from the public key.\<close>

definition possesses :: "suite \<Rightarrow> ceremony_params \<Rightarrow> submission \<Rightarrow> byte list \<Rightarrow> bool" where
  "possesses su p s raw \<longleftrightarrow> fromBase64 (id_key (sb_identity s)) = Some raw \<and> length raw = 33 \<and>
     (\<exists>sg. fromBase64 (sb_possession s) = Some sg \<and>
           verify_message su sg (possessionMessage (cp_id p) (sb_identity s)) raw)"

definition derived_from :: "suite \<Rightarrow> ceremony_params \<Rightarrow> submission \<Rightarrow> byte list \<Rightarrow> identity" where
  "derived_from su p s raw = (let i = sb_identity s in
     (identityFromPubKey su (id_name i) raw (id_path i) (id_generated i))\<lparr>id_ceremony := Some (cp_ceremony p)\<rparr>)"

lemma from64_Inr [simp]: "from64 s = Inr b \<longleftrightarrow> fromBase64 s = Some b"
  by (simp add: from64_def split: option.split)

lemma timestamp_Inr [simp]:
  "checkCanonicalTimestamp su v = Inr u \<longleftrightarrow> (\<exists>t. date_parse (su_date su) v = Some t \<and> iso_second t = v)"
  by (auto simp: checkCanonicalTimestamp_def split: option.split)

lemma verified:
  assumes "verifySubmission su p s = Inr i"
  obtains raw where "possesses su p s raw" and "i = derived_from su p s raw"
    and "onRoster (cp_custodians p) (id_name (sb_identity s))" and "sb_ceremony s = cp_id p"
    and "checkCanonicalTimestamp su (id_generated (sb_identity s)) = Inr ()"
    and "checkHDPath (id_path (sb_identity s)) = Inr ()"
  using assms unfolding verifySubmission_def Let_def
  by (auto simp: possesses_def derived_from_def Let_def)

lemma derived_fields [simp]:
  "id_name (derived_from su p s raw) = id_name (sb_identity s)"
  "id_role (derived_from su p s raw) = ''custodian''"
  "id_key (derived_from su p s raw) = toBase64 raw"
  "id_address (derived_from su p s raw) = bech32Address su ACCOUNT_PREFIX (addressBytes su raw)"
  "id_fingerprint (derived_from su p s raw) = fingerprintOf su raw"
  "id_generated (derived_from su p s raw) = id_generated (sb_identity s)"
  by (simp_all add: derived_from_def identityFromPubKey_def Let_def)

section \<open>The loop over the submissions\<close>

definition reading :: "suite \<Rightarrow> ceremony_params \<Rightarrow> submission \<Rightarrow> identity" where
  "reading su p s = projr (verifySubmission su p s)"

definition all_verified :: "suite \<Rightarrow> ceremony_params \<Rightarrow> submission list \<Rightarrow> bool" where
  "all_verified su p subs \<longleftrightarrow> (\<forall>s \<in> set subs. \<exists>i. verifySubmission su p s = Inr i)"

lemma later: "(if js_less l g then g else l) = max l g"
  by (auto simp: js_less_order max_def)

lemma collect_iff:
  "collect su p latest subs = Inr r \<longleftrightarrow> all_verified su p subs \<and>
   r = (map (reading su p) subs, fold max (map (\<lambda>s. id_generated (reading su p s)) subs) latest)"
proof (induction subs arbitrary: latest r)
  case (Cons s subs)
  then show ?case
    by (cases "verifySubmission su p s") (auto simp: all_verified_def reading_def later max.commute)
qed (auto simp: all_verified_def)

lemma fold_max: "fold max (xs :: string list) l = Max (insert l (set xs))"
  by (metis Max.set_eq_fold fold_simps(1) list.set(2))

section \<open>Terms\<close>

text \<open>The terms of a ceremony: its parameters, up to the order of the roster and of the roles.\<close>

definition same_office :: "office_params \<Rightarrow> office_params \<Rightarrow> bool" where
  "same_office f g \<longleftrightarrow> of_country f = of_country g \<and> mset (of_roles f) = mset (of_roles g)"

definition same_terms :: "ceremony_params \<Rightarrow> ceremony_params \<Rightarrow> bool" where
  "same_terms p q \<longleftrightarrow> cp_id p = cp_id q \<and> cp_ceremony p = cp_ceremony q \<and> cp_chain p = cp_chain q \<and>
     cp_threshold p = cp_threshold q \<and> cp_seq p = cp_seq q \<and> cp_voting p = cp_voting q \<and>
     mset (cp_custodians p) = mset (cp_custodians q) \<and> rel_option same_office (cp_office p) (cp_office q) \<and>
     cp_admins p = cp_admins q"

lemma same_terms_canonical: "same_terms p q \<Longrightarrow> paramsCanonical p = paramsCanonical q"
proof -
  assume t: "same_terms p q"
  then have n: "sort_by compareGoStrings (cp_custodians p) = sort_by compareGoStrings (cp_custodians q)"
    by (intro sort_depends_on_set) (simp add: same_terms_def)
  have o: "office_country p = office_country q \<and> mset (office_roles p) = mset (office_roles q)"
    using t by (auto simp: same_terms_def office_country_def office_roles_def same_office_def elim!: option.rel_cases)
  then have r: "sort_by compareGoStrings (office_roles p) = sort_by compareGoStrings (office_roles q)"
    by (intro sort_depends_on_set) simp
  show ?thesis using t o by (simp add: paramsCanonical_def Let_def n r same_terms_def)
qed

lemma office_valid:
  "validateOffice (Some f) = Inr () \<longleftrightarrow>
   of_country f = to_upper (of_country f) \<and> of_country f \<noteq> CHAIN_WIDE \<and> of_country f \<noteq> CEREMONY_FOUNDATION_COUNTRY \<and>
   length (of_country f) = 2 \<and> (\<forall>c \<in> set (of_country f). c \<in> set upper_alphabet) \<and>
   of_roles f \<noteq> [] \<and> distinct (of_roles f) \<and> (\<forall>r \<in> set (of_roles f). role_ok r)"
  by (auto simp: validateOffice_def Let_def check_roles_iff)

lemma same_terms_valid: "same_terms p q \<Longrightarrow> validateParams p = Inr () \<Longrightarrow> validateParams q = Inr ()"
proof -
  assume t: "same_terms p q" and v: "validateParams p = Inr ()"
  have s: "set (cp_custodians p) = set (cp_custodians q)" "length (cp_custodians p) = length (cp_custodians q)"
    using t by (auto simp: same_terms_def dest: mset_eq_setD mset_eq_length)
  have "mset (map trim (cp_custodians p)) = mset (map trim (cp_custodians q))" using t by (simp add: same_terms_def)
  then have d: "distinct (map trim (cp_custodians p)) \<longleftrightarrow> distinct (map trim (cp_custodians q))"
    by (rule mset_eq_imp_distinct_iff)
  have "validateOffice (cp_office q) = Inr ()" if "validateOffice (cp_office p) = Inr ()"
  proof (cases "cp_office q")
    case (Some g)
    then obtain f where f: "cp_office p = Some f" "same_office f g"
      using t by (auto simp: same_terms_def elim!: option.rel_cases)
    then have "set (of_roles f) = set (of_roles g)" "distinct (of_roles f) = distinct (of_roles g)"
      "of_roles f \<noteq> [] \<longleftrightarrow> of_roles g \<noteq> []"
      using mset_eq_imp_distinct_iff [of "of_roles f" "of_roles g"] mset_eq_setD [of "of_roles f" "of_roles g"]
      by (auto simp: same_office_def)
    then show ?thesis using that f Some by (auto simp: office_valid same_office_def)
  qed (simp add: validateOffice_def)
  moreover have "cp_office p = None \<longleftrightarrow> cp_office q = None"
    using t by (auto simp: same_terms_def elim!: option.rel_cases)
  ultimately show ?thesis using v t s d by (auto simp: validateParams_def same_terms_def check_roster_iff)
qed

section \<open>What a successful assembly says\<close>

lemma addresses_sorted: "sorted (map id_address (sort_by (\<lambda>a b. compareGoStrings (id_address a) (id_address b)) is))"
  unfolding sort_by_key by simp

abbreviation by_address :: "identity list \<Rightarrow> identity list" where
  "by_address is \<equiv> sort_by (\<lambda>a b. compareGoStrings (id_address a) (id_address b)) is"

lemma by_address_facts [simp]:
  "mset (by_address is) = mset is" "set (by_address is) = set is" "length (by_address is) = length is"
  "distinct (map id_address (by_address is)) = distinct (map id_address is)"
  unfolding sort_by_key by (simp_all add: distinct_map_sort_key)

lemma buildGroup_Inr:
  assumes "buildGroup su is purpose k v seq at = Inr d"
  shows "2 \<le> k" "k < int (length is)" "distinct (map id_address is)" "\<forall>c \<in> set is. member_ok su c"
    "gd_policy d = policyAddress su seq" "\<exists>n. go_duration v = Inr n"
  using assms unfolding buildGroup_def Let_def
  by (auto simp: check_members_iff)

lemma buildGroup_set:
  assumes "mset is = mset js" and "distinct (map id_address is)"
  shows "buildGroup su is purpose k v seq at = buildGroup su js purpose k v seq at"
proof -
  have "by_address is = by_address js" by (rule sort_key_depends_on_set [OF assms])
  moreover have "length is = length js" using assms(1) by (metis size_mset)
  ultimately show ?thesis by (simp add: buildGroup_def)
qed

definition assembled_from :: "suite \<Rightarrow> ceremony_params \<Rightarrow> submission list \<Rightarrow> string \<Rightarrow> group_documents \<Rightarrow> assembled_group" where
  "assembled_from su p subs latest d =
    (let a = \<lparr>ag_params = p, ag_custodians = by_address (map (reading su p) subs),
        ag_policy = gd_policy d, ag_fingerprint = [], ag_genesis = gd_genesis d,
        ag_constitution = gd_constitution d, ag_members = gd_members d, ag_computed = latest\<rparr> in
     a\<lparr>ag_fingerprint := longDigest su GROUP_DOMAIN (assembledCanonical a)\<rparr>)"

definition latest_of :: "suite \<Rightarrow> ceremony_params \<Rightarrow> submission list \<Rightarrow> string" where
  "latest_of su p subs = fold max (map (\<lambda>s. id_generated (reading su p s)) subs) []"

lemma assembleGroup_iff:
  "assembleGroup su p subs = Inr a \<longleftrightarrow>
   validateParams p = Inr () \<and> length subs = length (cp_custodians p) \<and> all_verified su p subs \<and>
   (\<exists>d. buildGroup su (map (reading su p) subs) (purposeFor p) (cp_threshold p) (cp_voting p) (cp_seq p) (latest_of su p subs) = Inr d \<and>
        a = assembled_from su p subs (latest_of su p subs) d)"
  unfolding assembleGroup_def assembled_from_def Let_def latest_of_def
  by (auto simp: collect_iff)

text \<open>The same terms verify the same submissions.\<close>

lemma same_terms_reading:
  assumes "same_terms p q"
  shows "verifySubmission su p s = verifySubmission su q s" and "reading su p s = reading su q s"
    and "purposeFor p = purposeFor q"
proof -
  have "set (cp_custodians p) = set (cp_custodians q)" using assms mset_eq_setD by (auto simp: same_terms_def)
  then have "onRoster (cp_custodians p) n = onRoster (cp_custodians q) n" for n by (simp add: onRoster_def)
  then show "verifySubmission su p s = verifySubmission su q s"
    using assms unfolding verifySubmission_def Let_def same_terms_def by simp
  then show "reading su p s = reading su q s" by (simp add: reading_def)
  show "purposeFor p = purposeFor q"
    using assms by (auto simp: purposeFor_def groupLabel_def same_terms_def same_office_def elim!: option.rel_cases)
qed

lemma assemble_permuted:
  assumes "assembleGroup su p subs = Inr a" and "same_terms p q" and "mset ts = mset subs"
  shows "assembleGroup su q ts = Inr (a\<lparr>ag_params := q\<rparr>)"
proof -
  let ?at = "latest_of su p subs"
  obtain d where v: "validateParams p = Inr ()" "length subs = length (cp_custodians p)" "all_verified su p subs"
    and b: "buildGroup su (map (reading su p) subs) (purposeFor p) (cp_threshold p) (cp_voting p) (cp_seq p) ?at = Inr d"
    and a: "a = assembled_from su p subs ?at d"
    using assms(1) by (auto simp: assembleGroup_iff)
  note r = same_terms_reading [OF assms(2)]
  have r': "reading su p = reading su q" using r(2) by (rule ext)
  have m: "mset (map (reading su q) ts) = mset (map (reading su q) subs)" using assms(3) by simp
  have dist: "distinct (map id_address (map (reading su q) ts))"
    using buildGroup_Inr(3) [OF b] m r' by (metis mset_map mset_eq_imp_distinct_iff)
  have "latest_of su q ts = ?at"
    using mset_eq_setD [OF assms(3)] by (simp add: latest_of_def fold_max r')
  moreover have "buildGroup su (map (reading su q) ts) (purposeFor q) (cp_threshold q) (cp_voting q) (cp_seq q) ?at = Inr d"
    using b buildGroup_set [OF m dist] assms(2) by (simp add: r(3) r' same_terms_def)
  moreover have "validateParams q = Inr ()" by (rule same_terms_valid [OF assms(2) v(1)])
  moreover have "length ts = length (cp_custodians q)"
    using v(2) assms(2,3) by (metis same_terms_def size_mset)
  moreover have "all_verified su q ts"
    using v(3) mset_eq_setD [OF assms(3)] by (simp add: all_verified_def r(1))
  moreover have "assembled_from su q ts ?at d = a\<lparr>ag_params := q\<rparr>"
    using sort_key_depends_on_set [OF m dist] same_terms_canonical [OF assms(2)]
    by (simp add: a assembled_from_def Let_def assembledCanonical_def r')
  ultimately show ?thesis by (auto simp: assembleGroup_iff)
qed

text \<open>
  C20. Two pages that hold the same submissions, in any order, for the same terms, with the roster and
  the roles in any order, compute the same group to the byte: the same members, documents and
  fingerprint.
\<close>

theorem group_depends_on_the_set_of_submissions:
  assumes "assembleGroup su p subs = Inr a" and "same_terms p q" and "mset ts = mset subs"
  shows "assembleGroup su q ts = Inr (a\<lparr>ag_params := q\<rparr>)"
  using assms by (rule assemble_permuted)

section \<open>Who is in the group\<close>

lemma presence_from_distinct:
  "distinct (map id_address cs) \<Longrightarrow>
   presence_from i cs x f = Inr () \<longleftrightarrow> (\<exists>c \<in> set cs. id_address c = x \<and> id_fingerprint c = f)"
  by (induction i cs x f rule: presence_from.induct) (auto simp: image_iff)

lemma presence_distinct:
  "distinct (map id_address (ag_custodians a)) \<Longrightarrow>
   presence a x f = Inr () \<longleftrightarrow> (\<exists>c \<in> set (ag_custodians a). id_address c = x \<and> id_fingerprint c = f)"
  unfolding presence_def by (rule presence_from_distinct)

text \<open>
  C11. An assembled group has at least three members and needs at least two and not all of them to act;
  its members have distinct 20-byte addresses of this chain, in order; each is derived from a
  submission whose sender proved possession of the key, on the roster; the timestamp is the latest
  of the submissions; and a custodian passes the presence check exactly with the address and the
  fingerprint of a submitted key.
\<close>

theorem assembled_group_is_sound:
  assumes "assembleGroup su p subs = Inr a"
  shows "2 \<le> cp_threshold p \<and> cp_threshold p < int (length (ag_custodians a)) \<and>
      length (ag_custodians a) = length (cp_custodians p) \<and>
      sorted (map id_address (ag_custodians a)) \<and> distinct (map id_address (ag_custodians a)) \<and>
      (\<forall>c \<in> set (ag_custodians a). member_ok su c \<and>
        (\<exists>s \<in> set subs. \<exists>raw. possesses su p s raw \<and> c = derived_from su p s raw \<and>
           onRoster (cp_custodians p) (id_name c) \<and> id_generated c \<le> ag_computed a)) \<and>
      (\<exists>c \<in> set (ag_custodians a). id_generated c = ag_computed a \<or> ag_computed a = []) \<and>
      (\<forall>x f. presence a x f = Inr () \<longleftrightarrow>
        (\<exists>s \<in> set subs. \<exists>raw. possesses su p s raw \<and> x = bech32Address su ACCOUNT_PREFIX (addressBytes su raw) \<and> f = fingerprintOf su raw))"
proof -
  let ?at = "latest_of su p subs" and ?is = "map (reading su p) subs"
  obtain d where v: "validateParams p = Inr ()" "length subs = length (cp_custodians p)" "all_verified su p subs"
    and b: "buildGroup su ?is (purposeFor p) (cp_threshold p) (cp_voting p) (cp_seq p) ?at = Inr d"
    and a: "a = assembled_from su p subs ?at d"
    using assms by (auto simp: assembleGroup_iff)
  have cs: "ag_custodians a = by_address ?is" and at: "ag_computed a = ?at"
    by (simp_all add: a assembled_from_def Let_def)
  have raw: "\<exists>raw. possesses su p s raw \<and> reading su p s = derived_from su p s raw \<and> onRoster (cp_custodians p) (id_name (sb_identity s))"
    if "s \<in> set subs" for s
    using v(3) that verified unfolding all_verified_def reading_def by (metis sum.sel(2))
  have one: "raw = raw'" if "possesses su p s raw" "possesses su p s raw'" for s raw raw'
    using that by (simp add: possesses_def)
  have mx: "?at = Max (insert [] (id_generated ` set ?is))" by (simp add: latest_of_def fold_max image_image)
  have le: "id_generated c \<le> ?at" if "c \<in> set ?is" for c using that unfolding mx by (intro Max_ge) auto
  have "?at \<in> insert [] (id_generated ` set ?is)" unfolding mx by (rule Max_in) simp_all
  moreover have "?is \<noteq> []" using buildGroup_Inr(1,2) [OF b] by auto
  ultimately have ex: "\<exists>c \<in> set (ag_custodians a). id_generated c = ag_computed a \<or> ag_computed a = []"
    unfolding cs at by (cases ?is) auto
  have members: "\<forall>c \<in> set (ag_custodians a). member_ok su c \<and> (\<exists>s \<in> set subs. \<exists>raw. possesses su p s raw \<and>
      c = derived_from su p s raw \<and> onRoster (cp_custodians p) (id_name c) \<and> id_generated c \<le> ag_computed a)"
  proof
    fix c assume "c \<in> set (ag_custodians a)"
    then have c: "c \<in> set ?is" by (simp add: cs)
    then obtain s where s: "s \<in> set subs" "c = reading su p s" by auto
    then show "member_ok su c \<and> (\<exists>s \<in> set subs. \<exists>raw. possesses su p s raw \<and>
      c = derived_from su p s raw \<and> onRoster (cp_custodians p) (id_name c) \<and> id_generated c \<le> ag_computed a)"
      using buildGroup_Inr(4) [OF b] raw [OF s(1)] le [OF c] c at by (metis derived_fields(1))
  qed
  have dist: "distinct (map id_address (ag_custodians a))" using buildGroup_Inr(3) [OF b] by (simp add: cs)
  have pres: "presence a x f = Inr () \<longleftrightarrow> (\<exists>s \<in> set subs. \<exists>raw. possesses su p s raw \<and>
      x = bech32Address su ACCOUNT_PREFIX (addressBytes su raw) \<and> f = fingerprintOf su raw)" for x f
    unfolding presence_distinct [OF dist] using raw one by (auto simp: cs) (metis derived_fields(4,5))+
  show ?thesis
    using buildGroup_Inr(1,2) [OF b] v(2) members ex dist pres addresses_sorted [of ?is] by (simp add: cs)
qed

section \<open>The canonical bytes determine the values\<close>

lemma uint32be_inj:
  assumes "n < 2 ^ 32" and "m < 2 ^ 32"
  shows "uint32be n = uint32be m \<longleftrightarrow> n = m"
proof
  assume e: "uint32be n = uint32be m"
  have w: "a mod 256 = b mod 256" if "(of_nat a :: byte) = of_nat b" for a b :: nat
    using arg_cong [OF that, of unat] by (simp add: unat_of_nat)
  have d: "n div 2 ^ 24 mod 256 = m div 2 ^ 24 mod 256" "n div 2 ^ 16 mod 256 = m div 2 ^ 16 mod 256"
    "n div 2 ^ 8 mod 256 = m div 2 ^ 8 mod 256" "n mod 256 = m mod 256"
    using e w unfolding uint32be_def by blast+
  have up: "x div 256 = y div 256" if "x div 256 div 256 = y div 256 div 256" "x div 256 mod 256 = y div 256 mod 256"
    for x y :: nat
    by (metis div_mult_mod_eq that)
  have q: "x div 2 ^ 8 = x div 256" "x div 2 ^ 16 = x div 256 div 256" "x div 2 ^ 24 = x div 256 div 256 div 256" for x :: nat
    by (simp_all add: div_mult2_eq [symmetric])
  have top: "n div 256 div 256 div 256 = m div 256 div 256 div 256"
  proof -
    have "x div 2 ^ 24 < 256" if "x < 2 ^ 32" for x :: nat using that by (simp add: less_mult_imp_div_less)
    then show ?thesis using d(1) assms unfolding q by simp
  qed
  have "n div 256 div 256 = m div 256 div 256" using up [of "n div 256" "m div 256"] top d(2) unfolding q by simp
  then have "n div 256 = m div 256" using up [of n m] d(3) unfolding q by simp
  then show "n = m" using d(4) by (metis div_mult_mod_eq)
qed simp

definition fits :: "'a list \<Rightarrow> bool" where
  "fits s \<longleftrightarrow> length s < 2 ^ 32"

lemma length_uint32be [simp]: "length (uint32be n) = 4"
  by (simp add: uint32be_def)

text \<open>Length prefixes: a field in front of anything determines the field and what follows.\<close>

lemma count_front:
  "n < 2 ^ 32 \<Longrightarrow> m < 2 ^ 32 \<Longrightarrow> canonCount n @ x = canonCount m @ y \<longleftrightarrow> n = m \<and> x = y"
  by (simp add: canonCount_def uint32be_inj)

lemma bytes_front:
  assumes "fits a" and "fits b"
  shows "canonBytes a @ x = canonBytes b @ y \<longleftrightarrow> a = b \<and> x = y"
proof -
  have "canonBytes a @ x = canonBytes b @ y \<longleftrightarrow> length a = length b \<and> a @ x = b @ y"
    using assms by (simp add: canonBytes_def fits_def uint32be_inj)
  then show ?thesis by auto
qed

lemma canonField_bytes: "canonField s = canonBytes (utf8_bytes s)"
  by (simp add: canonField_def canonBytes_def Let_def)

lemma field_front: "fits a \<Longrightarrow> fits b \<Longrightarrow> canonField a @ x = canonField b @ y \<longleftrightarrow> a = b \<and> x = y"
  using bytes_front [of "utf8_bytes a" "utf8_bytes b"] by (simp add: canonField_bytes fits_def)

lemma fields_front:
  "length as = length bs \<Longrightarrow> \<forall>s \<in> set as \<union> set bs. fits s \<Longrightarrow>
   concat (map canonField as) @ x = concat (map canonField bs) @ y \<longleftrightarrow> as = bs \<and> x = y"
  by (induction as bs rule: list_induct2) (auto simp: field_front)

text \<open>Every text shorter than \<open>2 ^ 32\<close> bytes, and every list than \<open>2 ^ 32\<close> elements.\<close>

definition terms_fit :: "ceremony_params \<Rightarrow> bool" where
  "terms_fit p \<longleftrightarrow> (\<forall>s \<in> {cp_id p, cp_ceremony p, cp_chain p, show_int (cp_threshold p), show_int (cp_seq p),
      cp_voting p, office_country p} \<union> set (cp_custodians p) \<union> set (office_roles p). fits s) \<and>
     fits (cp_custodians p) \<and> fits (office_roles p)"

lemma marker_field: "canonField ADMINISTRATORS_MARKER \<noteq> []"
  by (simp add: canonField_def Let_def uint32be_def)

lemma domain_fits: "fits PARAMS_DOMAIN" "fits GROUP_DOMAIN"
  by (simp_all add: fits_def PARAMS_DOMAIN_def GROUP_DOMAIN_def)

lemma sort_by_go_facts [simp]:
  "set (sort_by compareGoStrings xs) = set xs" "length (sort_by compareGoStrings xs) = length xs"
  by (simp_all add: sort_by_go)

lemma sort_by_go_mset: "sort_by compareGoStrings xs = sort_by compareGoStrings ys \<longleftrightarrow> mset xs = mset ys"
  unfolding sort_by_go by (metis mset_sort sorted_list_of_multiset_mset)

lemma sorted_fields_front:
  assumes "length xs = length ys" and "\<forall>s \<in> set xs \<union> set ys. fits s"
  shows "concat (map canonField (sort_by compareGoStrings xs)) @ x = concat (map canonField (sort_by compareGoStrings ys)) @ y
    \<longleftrightarrow> mset xs = mset ys \<and> x = y"
  using fields_front [of "sort_by compareGoStrings xs" "sort_by compareGoStrings ys" x y] assms
  by (simp add: sort_by_go_mset)

lemma params_fields:
  assumes "terms_fit p" and "terms_fit q" and "paramsCanonical p = paramsCanonical q"
  shows "cp_id p = cp_id q \<and> cp_ceremony p = cp_ceremony q \<and> cp_chain p = cp_chain q \<and>
    cp_threshold p = cp_threshold q \<and> cp_seq p = cp_seq q \<and> cp_voting p = cp_voting q \<and>
    mset (cp_custodians p) = mset (cp_custodians q) \<and> office_country p = office_country q \<and>
    mset (office_roles p) = mset (office_roles q) \<and> cp_admins p = cp_admins q"
proof -
  let ?tail = "\<lambda>p. canonField (office_country p) @ canonCount (length (office_roles p)) @
    concat (map canonField (sort_by compareGoStrings (office_roles p))) @
    (if cp_admins p then canonField ADMINISTRATORS_MARKER else [])"
  note f = assms(1,2) [unfolded terms_fit_def]
  have head: "cp_id p = cp_id q \<and> cp_ceremony p = cp_ceremony q \<and> cp_chain p = cp_chain q \<and>
    show_int (cp_threshold p) = show_int (cp_threshold q) \<and> show_int (cp_seq p) = show_int (cp_seq q) \<and>
    cp_voting p = cp_voting q \<and> length (cp_custodians p) = length (cp_custodians q) \<and>
    concat (map canonField (sort_by compareGoStrings (cp_custodians p))) @ ?tail p =
    concat (map canonField (sort_by compareGoStrings (cp_custodians q))) @ ?tail q"
    using assms(3) f unfolding paramsCanonical_def Let_def
    by (simp add: field_front count_front domain_fits fits_def [of "cp_custodians _"])
  moreover have "\<forall>s \<in> set (cp_custodians p) \<union> set (cp_custodians q). fits s"
    "\<forall>s \<in> set (office_roles p) \<union> set (office_roles q). fits s" using f by blast+
  note front = sorted_fields_front [OF _ this(1)] sorted_fields_front [OF _ this(2)]
  ultimately have names: "mset (cp_custodians p) = mset (cp_custodians q)" and tail: "?tail p = ?tail q"
    using front(1) by blast+
  from tail have "office_country p = office_country q \<and> length (office_roles p) = length (office_roles q) \<and>
    concat (map canonField (sort_by compareGoStrings (office_roles p))) @ (if cp_admins p then canonField ADMINISTRATORS_MARKER else []) =
    concat (map canonField (sort_by compareGoStrings (office_roles q))) @ (if cp_admins q then canonField ADMINISTRATORS_MARKER else [])"
    using f by (simp add: field_front count_front fits_def [of "office_roles _"])
  then have "office_country p = office_country q" "mset (office_roles p) = mset (office_roles q)"
    "(if cp_admins p then canonField ADMINISTRATORS_MARKER else []) = (if cp_admins q then canonField ADMINISTRATORS_MARKER else [])"
    using front(2) by blast+
  moreover from this(3) have "cp_admins p = cp_admins q" using marker_field by (simp split: if_splits)
  ultimately show ?thesis using head names by (simp add: show_int_inj)
qed

lemma terms_determined:
  assumes "terms_fit p" and "terms_fit q" and "validateParams p = Inr ()" and "validateParams q = Inr ()"
  shows "paramsCanonical p = paramsCanonical q \<longleftrightarrow> same_terms p q"
proof
  assume "paramsCanonical p = paramsCanonical q"
  note e = params_fields [OF assms(1,2) this]
  have "validateOffice (cp_office p) = Inr ()" "validateOffice (cp_office q) = Inr ()"
    using assms(3,4) by (auto simp: validateParams_def)
  then have "rel_option same_office (cp_office p) (cp_office q)"
    using e by (cases "cp_office p"; cases "cp_office q")
      (auto simp: office_valid same_office_def office_country_def office_roles_def)
  then show "same_terms p q" using e by (simp add: same_terms_def)
qed (rule same_terms_canonical)

section \<open>The fingerprint\<close>

definition seat :: "identity \<Rightarrow> string \<times> string \<times> string" where
  "seat c = (id_address c, id_key c, id_name c)"

definition group_fits :: "assembled_group \<Rightarrow> bool" where
  "group_fits a \<longleftrightarrow> terms_fit (ag_params a) \<and> fits (paramsCanonical (ag_params a)) \<and> fits (ag_policy a) \<and>
     fits (ag_computed a) \<and> fits (ag_custodians a) \<and> fits (ag_genesis a) \<and> fits (ag_constitution a) \<and>
     (\<forall>c \<in> set (ag_custodians a). fits (id_address c) \<and> fits (id_key c) \<and> fits (id_name c))"

lemma seats_front:
  "length cs = length ds \<Longrightarrow> \<forall>c \<in> set cs \<union> set ds. fits (id_address c) \<and> fits (id_key c) \<and> fits (id_name c) \<Longrightarrow>
   concat (map (\<lambda>c. canonField (id_address c) @ canonField (id_key c) @ canonField (id_name c)) cs) @ x =
   concat (map (\<lambda>c. canonField (id_address c) @ canonField (id_key c) @ canonField (id_name c)) ds) @ y \<longleftrightarrow>
   map seat cs = map seat ds \<and> x = y"
  by (induction cs ds rule: list_induct2) (auto simp: field_front seat_def)

lemma canonical_determines:
  assumes "group_fits a" and "group_fits b" and "assembledCanonical a = assembledCanonical b"
  shows "paramsCanonical (ag_params a) = paramsCanonical (ag_params b) \<and> ag_policy a = ag_policy b \<and>
    ag_computed a = ag_computed b \<and> map seat (ag_custodians a) = map seat (ag_custodians b) \<and>
    ag_genesis a = ag_genesis b \<and> ag_constitution a = ag_constitution b"
proof -
  let ?docs = "\<lambda>a. canonBytes (utf8_bytes (ag_genesis a)) @ canonBytes (utf8_bytes (ag_constitution a))"
  let ?seats = "\<lambda>a. concat (map (\<lambda>c. canonField (id_address c) @ canonField (id_key c) @ canonField (id_name c)) (ag_custodians a))"
  note f = assms(1,2) [unfolded group_fits_def]
  have head: "paramsCanonical (ag_params a) = paramsCanonical (ag_params b) \<and> ag_policy a = ag_policy b \<and>
    ag_computed a = ag_computed b \<and> length (ag_custodians a) = length (ag_custodians b) \<and>
    ?seats a @ ?docs a = ?seats b @ ?docs b"
    using assms(3) f unfolding assembledCanonical_def
    by (simp add: field_front bytes_front count_front domain_fits fits_def [of "ag_custodians _"])
  moreover have "\<forall>c \<in> set (ag_custodians a) \<union> set (ag_custodians b). fits (id_address c) \<and> fits (id_key c) \<and> fits (id_name c)"
    using f by blast
  ultimately have seats: "map seat (ag_custodians a) = map seat (ag_custodians b)" and docs: "?docs a = ?docs b"
    using seats_front by blast+
  have "fits (utf8_bytes (ag_genesis a))" "fits (utf8_bytes (ag_genesis b))" "fits (utf8_bytes (ag_constitution a))" "fits (utf8_bytes (ag_constitution b))"
    using f by (simp_all add: fits_def)
  then have "ag_genesis a = ag_genesis b \<and> ag_constitution a = ag_constitution b"
    using docs bytes_front [of _ _ "[]" "[]"] by (simp add: bytes_front)
  then show ?thesis using head seats by blast
qed

lemma canonical_determined:
  assumes "paramsCanonical (ag_params a) = paramsCanonical (ag_params b)" and "ag_policy a = ag_policy b"
    and "ag_computed a = ag_computed b" and "map seat (ag_custodians a) = map seat (ag_custodians b)"
    and "ag_genesis a = ag_genesis b" and "ag_constitution a = ag_constitution b"
  shows "assembledCanonical a = assembledCanonical b"
proof -
  let ?f = "\<lambda>c. canonField (id_address c) @ canonField (id_key c) @ canonField (id_name c)"
  have f: "?f = (\<lambda>(x, k, n). canonField x @ canonField k @ canonField n) \<circ> seat" by (simp add: seat_def comp_def)
  have "map ?f (ag_custodians a) = map ?f (ag_custodians b)" unfolding f by (metis list.map_comp assms(4))
  then show ?thesis
    unfolding assembledCanonical_def assms(1-3,5,6) map_eq_imp_length_eq [OF assms(4)] by simp
qed

lemma assembled_params: "assembleGroup su p subs = Inr a \<Longrightarrow> ag_params a = p \<and> validateParams p = Inr () \<and>
  ag_fingerprint a = longDigest su GROUP_DOMAIN (assembledCanonical a)"
  by (auto simp: assembleGroup_iff assembled_from_def Let_def assembledCanonical_def)

text \<open>
  C15. Two groups that fit the 32-bit length prefixes have the same fingerprint, unless the digest collides on them,
  exactly when everything the custodians read to each other it for is the same: the terms of the
  ceremony, the policy address, the timestamp, every member's address, key and name, and the bytes
  of the genesis and constitution fragments.
\<close>

theorem fingerprint_covers_the_group:
  assumes "assembleGroup su p subs = Inr a" and "assembleGroup su q ts = Inr b"
    and "group_fits a" and "group_fits b"
    and "longDigest su GROUP_DOMAIN (assembledCanonical a) = longDigest su GROUP_DOMAIN (assembledCanonical b) \<Longrightarrow>
         assembledCanonical a = assembledCanonical b"
  shows "ag_fingerprint a = ag_fingerprint b \<longleftrightarrow>
    same_terms p q \<and> ag_policy a = ag_policy b \<and> ag_computed a = ag_computed b \<and>
    map seat (ag_custodians a) = map seat (ag_custodians b) \<and>
    ag_genesis a = ag_genesis b \<and> ag_constitution a = ag_constitution b"
proof -
  note a = assembled_params [OF assms(1)] and b = assembled_params [OF assms(2)]
  have terms: "paramsCanonical p = paramsCanonical q \<longleftrightarrow> same_terms p q"
    using terms_determined [of p q] a b assms(3,4) by (simp add: group_fits_def)
  have "assembledCanonical a = assembledCanonical b \<longleftrightarrow>
    paramsCanonical p = paramsCanonical q \<and> ag_policy a = ag_policy b \<and> ag_computed a = ag_computed b \<and>
    map seat (ag_custodians a) = map seat (ag_custodians b) \<and> ag_genesis a = ag_genesis b \<and> ag_constitution a = ag_constitution b"
    using canonical_determines [OF assms(3,4)] canonical_determined [of a b] a b by metis
  moreover have "ag_fingerprint a = ag_fingerprint b \<longleftrightarrow> assembledCanonical a = assembledCanonical b"
    using assms(5) a b by metis
  ultimately show ?thesis unfolding terms by blast
qed

section \<open>Timestamps and honest submissions\<close>

lemma expanded_year_accepted: "checkCanonicalTimestamp su ''+012345-01-01T00:00Z'' = Inr ()"
proof -
  have "iso_parse ''+012345-01-01T00:00Z'' = Some 327403382400000" "iso_second 327403382400000 = ''+012345-01-01T00:00Z''"
    by code_simp+
  then show ?thesis by (simp add: date_parse_def)
qed

lemma plain_year_digit: "plain_year t \<Longrightarrow> \<exists>c u. iso_second t = c # u \<and> is_digit c"
proof -
  assume t: "plain_year t"
  obtain y m d where c: "civil (day_of t) = (y, m, d)" by (cases "civil (day_of t)")
  have y: "0 \<le> y" "y \<le> 9999" using civil_day(3) [OF c] t by (simp_all add: plain_year_def)
  then show ?thesis using year_digits [OF y] c by (cases "year_text y") (simp_all add: iso_second_plain t date_text_def)
qed

text \<open>
  Two timestamps the page accepts, in years of four digits, are ordered as strings exactly as
  their instants are: the latest string is the latest instant, and one instant has one spelling. A
  year past 9999 breaks this: it is written with a sign and six digits, the first nineteen
  characters lose the seconds, and the page accepts a spelling that sorts before every timestamp.
\<close>

theorem accepted_timestamps_sort_by_time:
  assumes "checkCanonicalTimestamp su v = Inr ()" and "checkCanonicalTimestamp su w = Inr ()"
    and "date_parse (su_date su) v = Some s" and "date_parse (su_date su) w = Some t"
    and "plain_year s" and "plain_year t"
  shows "(js_less v w \<longleftrightarrow> s div 1000 < t div 1000) \<and> (v = w \<longleftrightarrow> s div 1000 = t div 1000) \<and>
    checkCanonicalTimestamp su ''+012345-01-01T00:00Z'' = Inr () \<and> js_less ''+012345-01-01T00:00Z'' v"
proof -
  have v: "v = iso_second s" "w = iso_second t" using assms(1-4) by simp_all
  obtain c u where "v = c # u" "is_digit c" using plain_year_digit [OF assms(5)] v by auto
  then have "js_less ''+012345-01-01T00:00Z'' v" by (simp add: is_digit_def)
  then show ?thesis using iso_second_order [OF assms(5,6)] expanded_year_accepted v by simp
qed

lemma hd_base_path: "starts_with (hdPath i) (hd_base @ ''/'')"
proof -
  have "hd_base = ''m/44'' @ [CHR 0x27] @ ''/118'' @ [CHR 0x27] @ ''/0'' @ [CHR 0x27] @ ''/0''" by code_simp
  moreover have "dec_nat COIN_TYPE = ''118''" by code_simp
  ultimately have "hdPath i = (hd_base @ ''/'') @ show_int i" by (simp add: hdPath_def)
  then show ?thesis by (metis starts_with_append)
qed

text \<open>
  A custodian who derives a key, is on the roster and signs with it is accepted by every page, and
  under the address and the fingerprint of that key.
\<close>

theorem honest_submission_is_accepted:
  assumes "deriveKey su phrase i = Some key" and "length (kp_pub key) = 33"
    and "\<And>h. su_verify su (su_sign su h (kp_priv key)) h (kp_pub key) = Some True"
    and "onRoster (cp_custodians p) name" and "plain_year t" and "time_ok t"
  shows "\<exists>d. verifySubmission su p (signSubmission su (cp_id p) (identityOf name key t) (kp_priv key)) = Inr d \<and>
    id_name d = name \<and> id_address d = kp_address key \<and> id_fingerprint d = kp_fingerprint key \<and>
    id_generated d = rfc3339Second t"
proof -
  have k: "kp_address key = bech32Address su ACCOUNT_PREFIX (addressBytes su (kp_pub key))"
    "kp_fingerprint key = fingerprintOf su (kp_pub key)" "kp_path key = hdPath i"
    using assms(1) by (auto simp: deriveKey_def Let_def split: option.splits)
  have "day_of (t div 1000 * 1000) = day_of t" unfolding day_split by simp
  then have "iso_second (t div 1000 * 1000) = iso_second t"
    using iso_second_order(2) [of "t div 1000 * 1000" t] assms(5) by (simp add: plain_year_def)
  then have t: "checkCanonicalTimestamp su (iso_second t) = Inr ()"
    using date_parse_second [OF assms(5,6)] by simp
  show ?thesis
    using assms(2-4) t
    by (simp add: verifySubmission_def Let_def signSubmission_def identityOf_def k identityFromPubKey_def
        fromBase64_def toBase64_def verify_message_def sign_message_def checkHDPath_def hd_base_path
        rfc3339Second_def require_def after_def from64_def del: timestamp_Inr)
qed

section \<open>A ceremony of three\<close>

definition sample_suite :: suite where
  "sample_suite = \<lparr>su_sha256 = take 32, su_ripemd160 = take 20, su_crockford = hex_of_bytes,
     su_bech32 = (\<lambda>pre raw. pre @ map (\<lambda>b. char_of (unat b)) raw),
     su_unbech32 = (\<lambda>s. Some (take 3 s, utf8_bytes (drop 3 s))),
     su_verify = (\<lambda>sg h pub. Some (sg = pub)), su_sign = (\<lambda>h priv. priv), su_mnemonic_ok = (\<lambda>_. True),
     su_derive = (\<lambda>_ _. Some (replicate 33 7, replicate 33 7)), su_date = (\<lambda>_. None)\<rparr>"

definition sample_submission :: "string \<Rightarrow> byte \<Rightarrow> string \<Rightarrow> submission" where
  "sample_submission name b at = (let k = toBase64 (replicate 33 b) in
     \<lparr>sb_ceremony = ''c-1'', sb_identity = \<lparr>id_name = name, id_role = ''custodian'', id_address = [],
        id_key_type = SECP256K1_PUBKEY_TYPE, id_key = k, id_fingerprint = [], id_path = hdPath 0,
        id_generated = at, id_ceremony = None\<rparr>, sb_possession = k\<rparr>)"

definition sample_terms :: "string list \<Rightarrow> ceremony_params" where
  "sample_terms names = \<lparr>cp_id = ''c-1'', cp_ceremony = ''Launch'', cp_chain = ''yml-1'', cp_threshold = 2,
     cp_custodians = names, cp_seq = 1, cp_voting = ''168h0m0s'', cp_office = None, cp_admins = False\<rparr>"

abbreviation sub_ana where "sub_ana \<equiv> sample_submission ''Ana'' 1 ''2026-03-02T11:17:00Z''"
abbreviation sub_ben where "sub_ben \<equiv> sample_submission ''Ben'' 2 ''2026-03-02T11:16:00Z''"
abbreviation sub_cleo where "sub_cleo \<equiv> sample_submission ''Cleo'' 3 ''2026-03-02T11:15:00Z''"

abbreviation three_terms where "three_terms \<equiv> sample_terms [''Ana'', ''Ben'', ''Cleo'']"
abbreviation three_subs where "three_subs \<equiv> [sub_cleo, sub_ana, sub_ben]"

text \<open>What the page reads from the three submissions.\<close>

definition sample_identity :: "string \<Rightarrow> byte \<Rightarrow> string \<Rightarrow> identity" where
  "sample_identity name b at = \<lparr>id_name = name, id_role = ''custodian'', id_address = ''yml'' @ replicate 20 (char_of (unat b)),
     id_key_type = SECP256K1_PUBKEY_TYPE, id_key = toBase64 (replicate 33 b), id_fingerprint = ''7961-6d61'', id_path = hdPath 0,
     id_generated = at, id_ceremony = Some ''Launch''\<rparr>"

abbreviation id_ana where "id_ana \<equiv> sample_identity ''Ana'' 1 ''2026-03-02T11:17:00Z''"
abbreviation id_ben where "id_ben \<equiv> sample_identity ''Ben'' 2 ''2026-03-02T11:16:00Z''"
abbreviation id_cleo where "id_cleo \<equiv> sample_identity ''Cleo'' 3 ''2026-03-02T11:15:00Z''"
abbreviation id_other where "id_other \<equiv> sample_identity ''Ana'' 2 ''2026-03-02T11:16:00Z''"
abbreviation sub_other where "sub_other \<equiv> sample_submission ''Ana'' 2 ''2026-03-02T11:16:00Z''"

lemma sample_verified:
  "verifySubmission sample_suite three_terms sub_ana = Inr id_ana"
  "verifySubmission sample_suite three_terms sub_ben = Inr id_ben"
  "verifySubmission sample_suite three_terms sub_cleo = Inr id_cleo"
  "verifySubmission sample_suite three_terms sub_other = Inr id_other"
  by (code_simp, code_simp, code_simp, code_simp)

lemma sample_valid: "validateParams three_terms = Inr ()" by code_simp

lemma buildGroup_ok:
  assumes "2 \<le> k" and "k < int (length is)" and "check_members su [] (by_address is) = Inr ()"
    and "length (groupMetadata (gp_label purpose) (by_address is) k) \<le> MAX_GROUP_METADATA"
    and "length (gp_label purpose @ '' '' @ show_int k @ ''-of-'' @ dec_nat (length is)) \<le> MAX_GROUP_METADATA"
    and "go_duration v = Inr n"
  obtains d where "buildGroup su is purpose k v seq at = Inr d"
    and "gd_genesis d = genesis_fragment (by_address is) k (protoDuration n) seq (goJSONString at) (policyAddress su seq)
      (groupMetadata (gp_label purpose) (by_address is) k)"
    and "gd_constitution d = constitution_fragment purpose (policyAddress su seq) (length is) k"
    and "gd_policy d = policyAddress su seq"
  using assms unfolding buildGroup_def Let_def by (simp add: require_def after_def)

definition built :: "identity list \<Rightarrow> string \<Rightarrow> group_documents" where
  "built is at = projr (buildGroup sample_suite is (purposeFor three_terms) 2 ''168h0m0s'' 1 at)"

text \<open>The conditions of \<open>buildGroup\<close> for a list of identities.\<close>

definition buildable :: "identity list \<Rightarrow> bool" where
  "buildable is \<longleftrightarrow> length is = 3 \<and> check_members sample_suite [] (by_address is) = Inr () \<and>
     length (groupMetadata FOUNDATION_LABEL (by_address is) 2) \<le> MAX_GROUP_METADATA"

lemma built_ok:
  assumes "buildable is"
  shows "buildGroup sample_suite is (purposeFor three_terms) 2 ''168h0m0s'' 1 at = Inr (built is at)"
    and "gd_genesis (built is at) = genesis_fragment (by_address is) 2 ''604800s'' 1 (goJSONString at) (policyAddress sample_suite 1)
      (groupMetadata FOUNDATION_LABEL (by_address is) 2)"
    and "gd_constitution (built is at) = constitution_fragment (purposeFor three_terms) (policyAddress sample_suite 1) 3 2"
    and "gd_policy (built is at) = policyAddress sample_suite 1"
proof -
  have p: "gp_label (purposeFor three_terms) = FOUNDATION_LABEL"
    by (simp add: purposeFor_def groupLabel_def sample_terms_def)
  have "length (FOUNDATION_LABEL @ '' '' @ show_int 2 @ ''-of-'' @ dec_nat 3) \<le> MAX_GROUP_METADATA"
    "go_duration ''168h0m0s'' = Inr 604800000000000" by code_simp+
  then obtain d where d: "buildGroup sample_suite is (purposeFor three_terms) 2 ''168h0m0s'' 1 at = Inr d"
    "gd_genesis d = genesis_fragment (by_address is) 2 (protoDuration 604800000000000) 1 (goJSONString at) (policyAddress sample_suite 1)
      (groupMetadata FOUNDATION_LABEL (by_address is) 2)"
    "gd_constitution d = constitution_fragment (purposeFor three_terms) (policyAddress sample_suite 1) 3 2"
    "gd_policy d = policyAddress sample_suite 1"
    using assms buildGroup_ok [of 2 "is" sample_suite "purposeFor three_terms" "''168h0m0s''" 604800000000000 1 at]
    unfolding buildable_def p by auto
  have "protoDuration 604800000000000 = ''604800s''" by code_simp
  then show "buildGroup sample_suite is (purposeFor three_terms) 2 ''168h0m0s'' 1 at = Inr (built is at)"
    "gd_genesis (built is at) = genesis_fragment (by_address is) 2 ''604800s'' 1 (goJSONString at) (policyAddress sample_suite 1)
      (groupMetadata FOUNDATION_LABEL (by_address is) 2)"
    "gd_constitution (built is at) = constitution_fragment (purposeFor three_terms) (policyAddress sample_suite 1) 3 2"
    "gd_policy (built is at) = policyAddress sample_suite 1"
    using d by (simp_all add: built_def)
qed

lemma sample_buildable: "buildable [id_cleo, id_ana, id_ben]" "buildable [id_cleo, id_ana, id_other]"
  by (code_simp, code_simp)

definition sample_group :: assembled_group where
  "sample_group = assembled_from sample_suite three_terms three_subs ''2026-03-02T11:17:00Z''
     (built [id_cleo, id_ana, id_ben] ''2026-03-02T11:17:00Z'')"

lemma assemble_three:
  assumes "\<forall>s \<in> set [a, b, c]. \<exists>i. verifySubmission sample_suite three_terms s = Inr i"
    and "buildable (map (reading sample_suite three_terms) [a, b, c])"
  shows "assembleGroup sample_suite three_terms [a, b, c] =
    Inr (assembled_from sample_suite three_terms [a, b, c] (latest_of sample_suite three_terms [a, b, c])
      (built (map (reading sample_suite three_terms) [a, b, c]) (latest_of sample_suite three_terms [a, b, c])))"
  unfolding assembleGroup_iff
  using sample_valid assms built_ok(1) [OF assms(2)]
  by (auto simp: all_verified_def sample_terms_def)

lemma sample_readings [simp]:
  "reading sample_suite three_terms sub_ana = id_ana" "reading sample_suite three_terms sub_ben = id_ben"
  "reading sample_suite three_terms sub_cleo = id_cleo" "reading sample_suite three_terms sub_other = id_other"
  by (simp_all add: reading_def sample_verified)

lemma sample_latest: "latest_of sample_suite three_terms three_subs = ''2026-03-02T11:17:00Z''"
  by (simp add: latest_of_def, code_simp)

lemma sample_assembles: "assembleGroup sample_suite three_terms three_subs = Inr sample_group"
proof -
  have "assembleGroup sample_suite three_terms three_subs =
    Inr (assembled_from sample_suite three_terms three_subs ''2026-03-02T11:17:00Z'' (built [id_cleo, id_ana, id_ben] ''2026-03-02T11:17:00Z''))"
    using assemble_three [of sub_cleo sub_ana sub_ben] sample_verified sample_buildable(1)
    by (simp add: sample_latest)
  then show ?thesis by (simp add: sample_group_def)
qed

lemma sample_reordered: "same_terms three_terms (sample_terms [''Cleo'', ''Ana'', ''Ben''])"
  by (simp add: same_terms_def sample_terms_def)

theorem group_depends_on_the_set_of_submissions_witness:
  "assembleGroup sample_suite (sample_terms [''Cleo'', ''Ana'', ''Ben'']) [sub_ana, sub_ben, sub_cleo] =
   Inr (sample_group\<lparr>ag_params := sample_terms [''Cleo'', ''Ana'', ''Ben'']\<rparr>)"
  by (rule group_depends_on_the_set_of_submissions [OF sample_assembles sample_reordered]) simp

theorem assembled_group_is_sound_witness:
  "cp_threshold three_terms < int (length (ag_custodians sample_group))"
  using assembled_group_is_sound [OF sample_assembles] by blast

lemma sample_fields:
  "ag_policy sample_group = policyAddress sample_suite 1" "ag_computed sample_group = ''2026-03-02T11:17:00Z''"
  "ag_custodians sample_group = by_address [id_cleo, id_ana, id_ben]"
  "ag_genesis sample_group = genesis_fragment (by_address [id_cleo, id_ana, id_ben]) 2 ''604800s'' 1 (goJSONString ''2026-03-02T11:17:00Z'')
     (policyAddress sample_suite 1) (groupMetadata FOUNDATION_LABEL (by_address [id_cleo, id_ana, id_ben]) 2)"
  "ag_constitution sample_group = constitution_fragment (purposeFor three_terms) (policyAddress sample_suite 1) 3 2"
  by (simp_all add: sample_group_def assembled_from_def Let_def built_ok [OF sample_buildable(1)])

lemma sample_group_fits:
  assumes "p \<in> {three_terms, sample_terms [''Cleo'', ''Ana'', ''Ben'']}"
  shows "group_fits (sample_group\<lparr>ag_params := p\<rparr>)"
proof -
  have p: "terms_fit p \<and> fits (paramsCanonical p)" using assms by (elim insertE emptyE; hypsubst) (code_simp, code_simp)
  have g: "fits (genesis_fragment (by_address [id_cleo, id_ana, id_ben]) 2 ''604800s'' 1 (goJSONString ''2026-03-02T11:17:00Z'')
     (policyAddress sample_suite 1) (groupMetadata FOUNDATION_LABEL (by_address [id_cleo, id_ana, id_ben]) 2))" by code_simp
  have c: "fits (constitution_fragment (purposeFor three_terms) (policyAddress sample_suite 1) 3 2) \<and> fits (policyAddress sample_suite 1)"
    by code_simp
  have m: "\<forall>c \<in> set [id_cleo, id_ana, id_ben]. fits (id_address c) \<and> fits (id_key c) \<and> fits (id_name c)" by code_simp
  show ?thesis using p g c m by (simp add: group_fits_def sample_fields fits_def)
qed

theorem fingerprint_covers_the_group_witness:
  "let b = sample_group\<lparr>ag_params := sample_terms [''Cleo'', ''Ana'', ''Ben'']\<rparr> in
   ag_fingerprint sample_group = ag_fingerprint b \<longleftrightarrow>
    same_terms three_terms (sample_terms [''Cleo'', ''Ana'', ''Ben'']) \<and>
    ag_policy sample_group = ag_policy b \<and> ag_computed sample_group = ag_computed b \<and>
    map seat (ag_custodians sample_group) = map seat (ag_custodians b) \<and>
    ag_genesis sample_group = ag_genesis b \<and> ag_constitution sample_group = ag_constitution b"
  unfolding Let_def
proof (rule fingerprint_covers_the_group [OF sample_assembles])
  show "assembleGroup sample_suite (sample_terms [''Cleo'', ''Ana'', ''Ben'']) [sub_ana, sub_ben, sub_cleo] =
    Inr (sample_group\<lparr>ag_params := sample_terms [''Cleo'', ''Ana'', ''Ben'']\<rparr>)"
    by (rule assemble_permuted [OF sample_assembles sample_reordered]) simp
  have "ag_params sample_group = three_terms" by (simp add: sample_group_def assembled_from_def Let_def)
  then show "group_fits sample_group" using sample_group_fits [of three_terms] by (simp add: group_fits_def)
  show "group_fits (sample_group\<lparr>ag_params := sample_terms [''Cleo'', ''Ana'', ''Ben'']\<rparr>)"
    and "assembledCanonical sample_group = assembledCanonical (sample_group\<lparr>ag_params := sample_terms [''Cleo'', ''Ana'', ''Ben'']\<rparr>)"
    using sample_group_fits [of "sample_terms [''Cleo'', ''Ana'', ''Ben'']"] same_terms_canonical [OF sample_reordered]
      \<open>ag_params sample_group = three_terms\<close>
    by (simp_all add: assembledCanonical_def)
qed

theorem accepted_timestamps_sort_by_time_witness:
  "js_less ''2026-03-02T11:15:00Z'' ''2026-03-02T11:16:00Z'' \<longleftrightarrow> 1772450100000 div 1000 < (1772450160000 :: int) div 1000"
proof -
  have c: "checkCanonicalTimestamp sample_suite ''2026-03-02T11:15:00Z'' = Inr ()"
    "checkCanonicalTimestamp sample_suite ''2026-03-02T11:16:00Z'' = Inr ()" by code_simp+
  have d: "date_parse (su_date sample_suite) ''2026-03-02T11:15:00Z'' = Some 1772450100000"
    "date_parse (su_date sample_suite) ''2026-03-02T11:16:00Z'' = Some 1772450160000" by code_simp+
  have y: "plain_year 1772450100000" "plain_year 1772450160000" by code_simp+
  show ?thesis using accepted_timestamps_sort_by_time [OF c d y] by blast
qed

theorem honest_submission_is_accepted_witness:
  "let key = the (deriveKey sample_suite ''legal winner'' 0); p = three_terms in
   \<exists>d. verifySubmission sample_suite p (signSubmission sample_suite (cp_id p) (identityOf ''Ben'' key 1772450160000) (kp_priv key)) = Inr d \<and>
     id_name d = ''Ben'' \<and> id_address d = kp_address key \<and> id_fingerprint d = kp_fingerprint key \<and>
     id_generated d = rfc3339Second 1772450160000"
  unfolding Let_def
proof (rule honest_submission_is_accepted)
  show "deriveKey sample_suite ''legal winner'' 0 = Some (the (deriveKey sample_suite ''legal winner'' 0))"
    by (simp add: deriveKey_def sample_suite_def Let_def)
  show "onRoster (cp_custodians three_terms) ''Ben''" by (simp add: onRoster_def sample_terms_def)
  show "plain_year 1772450160000" "time_ok 1772450160000" by code_simp+
qed (simp_all add: deriveKey_def sample_suite_def Let_def)

section \<open>A gap of the checks\<close>

text \<open>
  Two submissions under one name of the roster, with two keys, assemble a group from which another
  custodian of the roster is missing: the members are counted and told apart by key, not by name.
\<close>

lemma one_name_can_take_two_seats:
  "\<exists>a. assembleGroup sample_suite three_terms [sub_cleo, sub_ana, sub_other] = Inr a \<and>
     ''Ben'' \<notin> id_name ` set (ag_custodians a)"
proof -
  have "assembleGroup sample_suite three_terms [sub_cleo, sub_ana, sub_other] =
    Inr (assembled_from sample_suite three_terms [sub_cleo, sub_ana, sub_other] (latest_of sample_suite three_terms [sub_cleo, sub_ana, sub_other])
      (built [id_cleo, id_ana, id_other] (latest_of sample_suite three_terms [sub_cleo, sub_ana, sub_other])))"
    using assemble_three [of sub_cleo sub_ana sub_other] sample_verified sample_buildable(2) by simp
  moreover have "''Ben'' \<notin> id_name ` {id_cleo, id_ana, id_other}" by (simp add: sample_identity_def)
  ultimately show ?thesis by (auto simp: assembled_from_def Let_def)
qed

end
