(* ===== verification/Remittance.thy ===== *)
theory Remittance imports IsoDate Base32 begin

text \<open>
  The payment instruction of the wallet app and the memo that carries it (clients/app/src/iso.ts).
\<close>

section \<open>Purpose codes and end-to-end identifiers\<close>

record purpose =
  pu_code :: string
  pu_key :: string

definition PURPOSES :: "purpose list" where
  "PURPOSES = map (\<lambda>(c, k). \<lparr>pu_code = c, pu_key = k\<rparr>)
     [(''GDDS'', ''iso.purpGDDS''), (''SCVE'', ''iso.purpSCVE''), (''SUPP'', ''iso.purpSUPP''), (''SALA'', ''iso.purpSALA''),
      (''FAMI'', ''iso.purpFAMI''), (''RENT'', ''iso.purpRENT''), (''TAXS'', ''iso.purpTAXS''), (''OTHR'', ''iso.purpOTHR'')]"

definition purposeKey :: "string \<Rightarrow> string option" where
  "purposeKey code = map_option pu_key (List.find (\<lambda>p. pu_code p = code) PURPOSES)"

definition ID_ALPHABET :: string where
  "ID_ALPHABET = ''0123456789ABCDEFGHJKMNPQRSTVWXYZ''"

text \<open>\<open>t\<close> is the \<open>Date\<close>; a missing byte of \<open>entropy\<close> counts as 0.\<close>

definition endToEndId :: "int \<Rightarrow> byte list \<Rightarrow> string" where
  "endToEndId t entropy = (case civil (day_of t) of (y, m, d) \<Rightarrow>
     ''YML-'' @ pad_start 4 CHR ''0'' (show_int y) @ two (int m + 1) @ two (d + 1) @ ''-'' @
     map (\<lambda>i. ID_ALPHABET ! ((if i < length entropy then unat (entropy ! i) else 0) mod length ID_ALPHABET)) [0..<8])"

section \<open>The memo\<close>

definition MEMO_PREFIX :: string where "MEMO_PREFIX = ''ym1;''"
definition MEMO_LIMIT :: nat where "MEMO_LIMIT = 256"

record remittance =
  rm_e2e :: string
  rm_purpose :: string
  rm_text :: string
  rm_structured :: bool

definition encodeMemo :: "string \<Rightarrow> string \<Rightarrow> string \<Rightarrow> string" where
  "encodeMemo e2e code rmt =
    (let parts = (if e2e = [] then [] else [''e2e='' @ e2e]) @ (if code = [] then [] else [''purp='' @ code]) @
         (if rmt = [] then [] else [''rmt='' @ rmt]) in
     if parts = [] then [] else MEMO_PREFIX @ join_with '';'' parts)"

text \<open>One token of a memo, and the loop over the tokens.\<close>

definition memo_token :: "string \<Rightarrow> remittance \<Rightarrow> remittance" where
  "memo_token token out =
    (if starts_with token ''e2e='' then out\<lparr>rm_e2e := drop 4 token\<rparr>
     else if starts_with token ''purp='' then out\<lparr>rm_purpose := drop 5 token\<rparr> else out)"

function memo_loop :: "string \<Rightarrow> remittance \<Rightarrow> remittance" where
  "memo_loop rest out =
    (if rest = [] then out
     else if starts_with rest ''rmt='' then out\<lparr>rm_text := drop 4 rest\<rparr>
     else (case index_of CHR '';'' rest of
       None \<Rightarrow> memo_token rest out
     | Some k \<Rightarrow> memo_loop (drop (k + 1) rest) (memo_token (take k rest) out)))"
  by pat_completeness auto
termination by (relation "measure (length \<circ> fst)") (auto dest: index_of_SomeD)

declare memo_loop.simps [simp del, evals]

definition decodeMemo :: "string \<Rightarrow> remittance" where
  "decodeMemo memo =
    (if \<not> starts_with memo MEMO_PREFIX
     then \<lparr>rm_e2e = [], rm_purpose = [], rm_text = memo, rm_structured = False\<rparr>
     else memo_loop (drop (length MEMO_PREFIX) memo) \<lparr>rm_e2e = [], rm_purpose = [], rm_text = [], rm_structured = True\<rparr>)"

section \<open>The instruction and where its fields go\<close>

record instruction =
  in_debtor :: string
  in_e2e :: string
  in_instructing :: string
  in_instructed :: string
  in_creditor :: string
  in_denom :: string
  in_amount :: string
  in_purpose :: string
  in_remittance :: string
  in_jurisdiction :: string

record payment_draft =
  pd_debtor :: string
  pd_debtor_id :: string
  pd_creditor :: string
  pd_creditor_id :: string
  pd_denom :: string
  pd_amount :: string
  pd_purpose :: string
  pd_remittance :: string
  pd_e2e :: string

definition settlementJurisdiction :: "string \<Rightarrow> string" where
  "settlementJurisdiction user_id =
    (let pre = to_upper (take 2 (filter (\<lambda>c. c \<noteq> CHR ''-'') user_id)) in
     if \<not> (length pre = 2 \<and> (\<forall>c \<in> set pre. c \<in> set upper_alphabet)) \<or> pre = ''ZZ'' then [] else pre)"

definition instructionFor :: "payment_draft \<Rightarrow> instruction" where
  "instructionFor d = \<lparr>in_debtor = pd_debtor d, in_e2e = pd_e2e d, in_instructing = [], in_instructed = [],
     in_creditor = pd_creditor d, in_denom = pd_denom d, in_amount = pd_amount d, in_purpose = pd_purpose d,
     in_remittance = pd_remittance d, in_jurisdiction = settlementJurisdiction (pd_debtor_id d)\<rparr>"

datatype carrier = On_ledger | In_memo | Dropped

record planned_field =
  pf_iso :: string
  pf_chain :: string
  pf_value :: string
  pf_carried :: carrier
  pf_why :: "string option"

definition planned :: "string \<Rightarrow> string \<Rightarrow> string \<Rightarrow> carrier \<Rightarrow> string option \<Rightarrow> planned_field" where
  "planned el field v c why = \<lparr>pf_iso = el, pf_chain = field, pf_value = v, pf_carried = c, pf_why = why\<rparr>"

definition fieldPlan :: "instruction \<Rightarrow> planned_field list" where
  "fieldPlan i =
    [planned ''Dbtr/Id'' ''debtor'' (in_debtor i) On_ledger None,
     planned ''Cdtr/Id'' ''creditor'' (in_creditor i) On_ledger None,
     planned ''IntrBkSttlmAmt/Ccy'' ''denom'' (in_denom i) On_ledger None,
     planned ''IntrBkSttlmAmt'' ''amount'' (in_amount i) On_ledger None,
     planned ''PmtId/EndToEndId'' ''end_to_end_id'' (in_e2e i) In_memo None,
     planned ''Purp/Cd'' ''purpose_code'' (in_purpose i) In_memo None,
     planned ''RmtInf/Ustrd'' ''remittance_information'' (in_remittance i) In_memo None,
     planned ''DbtrAgt/FinInstnId'' ''instructing_participant'' (in_instructing i) Dropped (Some ''iso.whyNoAgent''),
     planned ''CdtrAgt/FinInstnId'' ''instructed_participant'' (in_instructed i) Dropped (Some ''iso.whyNoAgent''),
     planned ''SttlmInf/SttlmCtry'' ''settlement_jurisdiction'' (in_jurisdiction i) Dropped
       (Some (if in_jurisdiction i = [] then ''iso.whyNoJurisdiction'' else ''iso.whyNoRecord''))]"

record participant =
  pt_address :: string
  pt_code :: string
  pt_name :: string

datatype standing = Unknown_standing string | Known_standing "participant list" nat

datatype blocker = Blocked_unknown string | Blocked_no_participants | Blocked_not_a_customer "participant list"

definition blocker_of :: "standing \<Rightarrow> blocker" where
  "blocker_of s = (case s of
     Unknown_standing why \<Rightarrow> Blocked_unknown why
   | Known_standing ps _ \<Rightarrow> (if ps = [] then Blocked_no_participants else Blocked_not_a_customer ps))"

section \<open>What travels in the memo\<close>

lemma index_of_first: "c \<notin> set p \<Longrightarrow> index_of c (p @ c # s) = Some (length p)"
  by (induction p) auto

text \<open>A token followed by more, and the last token.\<close>

lemma memo_loop_token:
  assumes "CHR '';'' \<notin> set p" and "p \<noteq> []" and "hd p \<noteq> CHR ''r''"
  shows "memo_loop (p @ CHR '';'' # s) out = memo_loop s (memo_token p out)"
    and "memo_loop p out = memo_token p out"
proof -
  have n: "\<not> starts_with (p @ t) ''rmt=''" for t using assms(2,3) by (cases p) (auto simp: starts_with_def)
  show "memo_loop (p @ CHR '';'' # s) out = memo_loop s (memo_token p out)"
    using assms n by (subst memo_loop.simps) (simp add: index_of_first)
  show "memo_loop p out = memo_token p out"
    using assms(2) n [of "[]"] unfolding memo_loop.simps [of p] index_of_None_iff [THEN iffD2, OF assms(1)] by simp
qed

lemma memo_loop_text: "memo_loop (''rmt='' @ t) out = out\<lparr>rm_text := t\<rparr>"
  by (subst memo_loop.simps) (simp add: starts_with_def)

lemma memo_tokens:
  "memo_token (''e2e='' @ v) out = out\<lparr>rm_e2e := v\<rparr>" "memo_token (''purp='' @ v) out = out\<lparr>rm_purpose := v\<rparr>"
  by (simp_all add: memo_token_def starts_with_def)

lemma memo_parts:
  assumes "CHR '';'' \<notin> set e" and "CHR '';'' \<notin> set c"
  shows "decodeMemo (encodeMemo e c r) =
    \<lparr>rm_e2e = e, rm_purpose = c, rm_text = r, rm_structured = (e \<noteq> [] \<or> c \<noteq> [] \<or> r \<noteq> [])\<rparr>"
proof -
  let ?s = "\<lparr>rm_e2e = [], rm_purpose = [], rm_text = [], rm_structured = True\<rparr>"
  have loop: "decodeMemo (MEMO_PREFIX @ b) = memo_loop b ?s" for b by (simp add: decodeMemo_def)
  have t: "CHR '';'' \<notin> set (''e2e='' @ e)" "CHR '';'' \<notin> set (''purp='' @ c)" using assms by simp_all
  have hd: "''e2e='' @ e \<noteq> []" "hd (''e2e='' @ e) \<noteq> CHR ''r''" "''purp='' @ c \<noteq> []" "hd (''purp='' @ c) \<noteq> CHR ''r''" by simp_all
  note E = memo_loop_token [OF t(1) hd(1,2), unfolded memo_tokens]
    and C = memo_loop_token [OF t(2) hd(3,4), unfolded memo_tokens]
  consider "e = []" "c = []" "r = []" | "e \<noteq> [] \<or> c \<noteq> [] \<or> r \<noteq> []" by blast
  then show ?thesis
  proof cases
    case 1
    then show ?thesis by (simp add: encodeMemo_def decodeMemo_def MEMO_PREFIX_def starts_with_def)
  next
    case 2
    let ?parts = "(if e = [] then [] else [''e2e='' @ e]) @ (if c = [] then [] else [''purp='' @ c]) @ (if r = [] then [] else [''rmt='' @ r])"
    have "encodeMemo e c r = MEMO_PREFIX @ join_with '';'' ?parts" using 2 by (simp only: encodeMemo_def Let_def) auto
    moreover have "memo_loop (join_with '';'' ?parts) ?s = \<lparr>rm_e2e = e, rm_purpose = c, rm_text = r, rm_structured = True\<rparr>"
      using 2 E C memo_loop_text [of r]
      by (cases "e = []"; cases "c = []"; cases "r = []") simp_all
    ultimately show ?thesis using 2 by (simp add: loop)
  qed
qed

text \<open>
  C32. What the memo of a payment carries is what the field plan says it carries: an end-to-end
  identifier and a purpose code without a semicolon, and any remittance text, semicolons and
  all, are read back from the memo exactly; nothing else of the instruction is, and a memo from
  before the format is read as remittance text in full.
\<close>

theorem memo_carries_the_planned_fields:
  assumes "CHR '';'' \<notin> set (pd_e2e d)" and "CHR '';'' \<notin> set (pd_purpose d)"
  shows "(let i = instructionFor d; m = decodeMemo (encodeMemo (in_e2e i) (in_purpose i) (in_remittance i)) in
      map pf_value (filter (\<lambda>f. pf_carried f = In_memo) (fieldPlan i)) = [rm_e2e m, rm_purpose m, rm_text m] \<and>
      (rm_structured m \<longleftrightarrow> encodeMemo (in_e2e i) (in_purpose i) (in_remittance i) \<noteq> []) \<and>
      (\<forall>f \<in> set (fieldPlan i). (pf_carried f = Dropped) = (pf_why f \<noteq> None))) \<and>
    (\<not> starts_with old MEMO_PREFIX \<longrightarrow> decodeMemo old = \<lparr>rm_e2e = [], rm_purpose = [], rm_text = old, rm_structured = False\<rparr>)"
  using memo_parts [OF assms, of "pd_remittance d"]
  by (simp add: Let_def instructionFor_def fieldPlan_def planned_def decodeMemo_def [of old])
    (auto simp: encodeMemo_def Let_def MEMO_PREFIX_def)

text \<open>The identifiers the app makes have no semicolon, and fit the 35 characters of the standard.\<close>

lemma id_alphabet: "length ID_ALPHABET = 32" "CHR '';'' \<notin> set ID_ALPHABET"
  by (simp_all add: ID_ALPHABET_def)

lemma endToEndId_fits:
  assumes "plain_year t"
  shows "CHR '';'' \<notin> set (endToEndId t entropy) \<and> length (endToEndId t entropy) = 21"
proof -
  obtain y m d where c: "civil (day_of t) = (y, m, d)" by (cases "civil (day_of t)")
  have y: "0 \<le> y" "y \<le> 9999" using civil_day(3) [OF c] assms by (simp_all add: plain_year_def)
  have b: "0 \<le> d" "d < 31" "m < 12" using civil_day(1) [OF c, THEN month_bound] by simp_all
  have yt: "pad_start 4 CHR ''0'' (show_int y) = year_text y" using y by (simp add: year_text_def show_int_nonneg)
  have md: "length (two (int m + 1)) = 2" "length (two (d + 1)) = 2" "all_digits (two (int m + 1))" "all_digits (two (d + 1))"
    using b by (simp_all add: two_facts)
  have semi: "CHR '';'' \<notin> set s" if "all_digits s" for s by (rule not_digit_in [OF that]) (simp add: is_digit_def)
  have "ID_ALPHABET ! (k mod length ID_ALPHABET) \<in> set ID_ALPHABET" for k
    by (rule nth_mem) (simp add: id_alphabet)
  then have "CHR '';'' \<notin> set (map (\<lambda>i. ID_ALPHABET ! ((if i < length entropy then unat (entropy ! i) else 0) mod length ID_ALPHABET)) [0..<8])"
    using id_alphabet(2) by (auto simp del: upt_Suc)
  then show ?thesis
    using md semi year_digits [OF y] by (simp add: endToEndId_def c yt del: upt_Suc)
qed

definition sample_draft :: payment_draft where
  "sample_draft = \<lparr>pd_debtor = ''yml1a'', pd_debtor_id = ''NG-K3M9'', pd_creditor = ''yml1b'', pd_creditor_id = ''GH-1111'',
     pd_denom = ''uyml'', pd_amount = ''5'', pd_purpose = ''GDDS'', pd_remittance = ''a;b'', pd_e2e = endToEndId 0 []\<rparr>"

theorem memo_carries_the_planned_fields_witness:
  "rm_text (decodeMemo (encodeMemo (pd_e2e sample_draft) ''GDDS'' ''a;b'')) = ''a;b''"
proof -
  have "CHR '';'' \<notin> set (pd_e2e sample_draft)" "CHR '';'' \<notin> set (pd_purpose sample_draft)"
    using endToEndId_fits [of 0 "[]"] by (code_simp, simp add: sample_draft_def)
  then show ?thesis
    using memo_carries_the_planned_fields [of sample_draft "[]"]
    by (simp add: Let_def instructionFor_def fieldPlan_def planned_def sample_draft_def)
qed

end
