(* ===== verification/Wire.thy ===== *)
theory Wire imports Request Base64 JsValue begin

text \<open>
  Protocol buffers as the generated code uses them. The library (protobufjs) is the record
  \<open>wire_lib\<close>: what its \<open>Writer\<close> appends and what its \<open>Reader\<close> takes off the front, \<open>None\<close> where the
  reader throws (\<open>r_uint64\<close> and \<open>r_int64\<close> give the number a \<open>Long\<close> holds, and the writers of 64-bit
  fields take its digits, \<open>None\<close> where the text is refused). The locale \<open>protobuf\<close> states what the clients rely on, that a reader takes back
  what a writer wrote and never moves backwards, and that a number is of its reader's width; and \<open>varint_wire\<close> is the documented encoding, on which it is interpreted.
  \<open>decode_loop\<close> is the loop every generated \<open>decode\<close> has.
\<close>

section \<open>The library\<close>

record wire_lib =
  w_uint32 :: "nat \<Rightarrow> byte list"
  w_bytes :: "byte list \<Rightarrow> byte list"
  w_string :: "string \<Rightarrow> byte list"
  r_uint32 :: "byte list \<Rightarrow> (nat \<times> byte list) option"
  r_bytes :: "byte list \<Rightarrow> (byte list \<times> byte list) option"
  r_string :: "byte list \<Rightarrow> (string \<times> byte list) option"
  r_skip :: "nat \<Rightarrow> byte list \<Rightarrow> byte list option"
  w_number :: "jsnum \<Rightarrow> byte list"
  w_int32 :: "jsnum \<Rightarrow> byte list"
  w_bool :: "bool \<Rightarrow> byte list"
  w_uint64 :: "string \<Rightarrow> byte list option"
  w_int64 :: "string \<Rightarrow> byte list option"
  r_int32 :: "byte list \<Rightarrow> (int \<times> byte list) option"
  r_bool :: "byte list \<Rightarrow> (bool \<times> byte list) option"
  r_uint64 :: "byte list \<Rightarrow> (int \<times> byte list) option"
  r_int64 :: "byte list \<Rightarrow> (int \<times> byte list) option"

locale protobuf =
  fixes w :: wire_lib
  assumes uint32_back: "n < 2 ^ 32 \<Longrightarrow> r_uint32 w (w_uint32 w n @ t) = Some (n, t)"
    and bytes_back: "length b < 2 ^ 32 \<Longrightarrow> r_bytes w (w_bytes w b @ t) = Some (b, t)"
    and string_back: "length s < 2 ^ 32 \<Longrightarrow> r_string w (w_string w s @ t) = Some (s, t)"
    and uint32_written: "w_uint32 w n \<noteq> []"
    and number_back: "n < 2 ^ 32 \<Longrightarrow> w_number w (num_of_int (int n)) = w_uint32 w n"
    and int32_back: "- (2 ^ 31) \<le> i \<Longrightarrow> i < 2 ^ 31 \<Longrightarrow> r_int32 w (w_int32 w (num_of_int i) @ t) = Some (i, t)"
    and bool_back: "r_bool w (w_bool w c @ t) = Some (c, t)"
    and uint64_back: "0 \<le> i \<Longrightarrow> i < 2 ^ 64 \<Longrightarrow> \<exists>b. w_uint64 w (show_int i) = Some b \<and> (\<forall>t. r_uint64 w (b @ t) = Some (i, t))"
    and int64_back: "- (2 ^ 63) \<le> i \<Longrightarrow> i < 2 ^ 63 \<Longrightarrow> \<exists>b. w_int64 w (show_int i) = Some b \<and> (\<forall>t. r_int64 w (b @ t) = Some (i, t))"
    and reads: "r_uint32 w bs = Some (n, r) \<Longrightarrow> length r < length bs"
      "r_bytes w bs = Some (b, r) \<Longrightarrow> length r \<le> length bs" "r_string w bs = Some (s, r) \<Longrightarrow> length r \<le> length bs"
      "r_int32 w bs = Some (i, r) \<Longrightarrow> length r \<le> length bs" "r_bool w bs = Some (c, r) \<Longrightarrow> length r \<le> length bs"
      "r_uint64 w bs = Some (i, r) \<Longrightarrow> length r \<le> length bs" "r_int64 w bs = Some (i, r) \<Longrightarrow> length r \<le> length bs"
      "r_skip w k bs = Some r \<Longrightarrow> length r \<le> length bs"
    and widths: "r_uint32 w bs = Some (n, r) \<Longrightarrow> n < 2 ^ 32" "r_int32 w bs = Some (i, r) \<Longrightarrow> - (2 ^ 31) \<le> i \<and> i < 2 ^ 31"
      "r_uint64 w bs = Some (i, r) \<Longrightarrow> 0 \<le> i \<and> i < 2 ^ 64" "r_int64 w bs = Some (i, r) \<Longrightarrow> - (2 ^ 63) \<le> i \<and> i < 2 ^ 63"
    and carried: "length b \<le> length (w_bytes w b)" "length s \<le> length (w_string w s)"

section \<open>The generated decoders' loop\<close>

text \<open>
  \<open>todo\<close> is \<open>end - reader.pos\<close>. \<open>field tag\<close> is the message's \<open>switch\<close>: \<open>None\<close> when it is left by
  \<open>break\<close> or matches no case, and otherwise the message with the field set and the bytes left, or
  \<open>Some None\<close> where reading the field throws.
\<close>

partial_function (option) decode_loop ::
  "wire_lib \<Rightarrow> (nat \<Rightarrow> byte list \<Rightarrow> 'm \<Rightarrow> ('m \<times> byte list) option option) \<Rightarrow> nat \<Rightarrow> byte list \<Rightarrow> 'm \<Rightarrow> ('m \<times> byte list) option" where
  "decode_loop w field todo bs m =
    (if todo = 0 then Some (m, bs)
     else (case r_uint32 w bs of
       None \<Rightarrow> None
     | Some (tag, bs1) \<Rightarrow>
         (case field tag bs1 m of
            Some (Some (m', bs2)) \<Rightarrow> decode_loop w field (todo - (length bs - length bs2)) bs2 m'
          | Some None \<Rightarrow> None
          | None \<Rightarrow>
              if tag mod 8 = 4 \<or> tag = 0 then Some (m, bs1)
              else (case r_skip w (tag mod 8) bs1 of
                None \<Rightarrow> None
              | Some bs2 \<Rightarrow> decode_loop w field (todo - (length bs - length bs2)) bs2 m))))"

declare decode_loop.simps [evals]

text \<open>A field that is read: the reader's result goes into the message.\<close>

definition set_field :: "('v \<Rightarrow> 'm \<Rightarrow> 'm) \<Rightarrow> ('v \<times> byte list) option \<Rightarrow> 'm \<Rightarrow> ('m \<times> byte list) option option" where
  "set_field upd r m = Some (map_option (\<lambda>(v, bs). (upd v m, bs)) r)"

lemma set_field_Some [simp]: "set_field upd (Some (v, bs)) m = Some (Some (upd v m, bs))"
  by (simp add: set_field_def)

text \<open>The \<open>decode\<close> of a whole buffer.\<close>

definition decode_all ::
  "wire_lib \<Rightarrow> (nat \<Rightarrow> byte list \<Rightarrow> 'm \<Rightarrow> ('m \<times> byte list) option option) \<Rightarrow> 'm \<Rightarrow> byte list \<Rightarrow> 'm option" where
  "decode_all w field base bs = map_option fst (decode_loop w field (length bs) bs base)"

context protobuf begin

lemma loop_ends [simp]: "decode_loop w field 0 bs m = Some (m, bs)"
  by (simp add: decode_loop.simps)

text \<open>One field of the message in front: its tag and value are consumed and the loop goes on.\<close>

lemma loop_field:
  assumes "tag < 2 ^ 32" and "field tag (v @ b @ t) m = Some (Some (m', b @ t))"
  shows "decode_loop w field (length (w_uint32 w tag @ v @ b)) (w_uint32 w tag @ v @ b @ t) m =
    decode_loop w field (length b) (b @ t) m'"
  using assms uint32_written [of tag] by (subst decode_loop.simps) (simp add: uint32_back [of tag "v @ b @ t"])

text \<open>An optional field: written when it is not the default, and unwritten as good as read.\<close>

lemma loop_optional:
  assumes "tag < 2 ^ 32" and "c \<Longrightarrow> field tag (v @ b @ t) m = Some (Some (m', b @ t))" and "\<not> c \<Longrightarrow> m' = m"
  shows "decode_loop w field (length ((if c then w_uint32 w tag @ v else []) @ b)) ((if c then w_uint32 w tag @ v else []) @ b @ t) m =
    decode_loop w field (length b) (b @ t) m'"
  using assms loop_field [of tag field v b t m m'] by (cases c) (simp_all add: add.assoc)

lemma loop_optional_last:
  assumes "tag < 2 ^ 32" and "c \<Longrightarrow> field tag (v @ t) m = Some (Some (m', t))" and "\<not> c \<Longrightarrow> m' = m"
  shows "decode_loop w field (length (if c then w_uint32 w tag @ v else [])) ((if c then w_uint32 w tag @ v else []) @ t) m = Some (m', t)"
  using loop_optional [of tag c field v "[]" t m m'] assms by simp

end

section \<open>The documented encoding\<close>

text \<open>Seven bits a byte, lowest first, the top bit set on all but the last.\<close>

fun varint :: "nat \<Rightarrow> byte list" where
  "varint n = (if n < 128 then [of_nat n] else of_nat (128 + n mod 128) # varint (n div 128))"

fun read_varint :: "byte list \<Rightarrow> (nat \<times> byte list) option" where
  "read_varint [] = None"
| "read_varint (b # bs) =
    (if unat b < 128 then Some (unat b, bs)
     else map_option (\<lambda>(n, r). (unat b - 128 + 128 * n, r)) (read_varint bs))"

definition read_uint32 :: "byte list \<Rightarrow> (nat \<times> byte list) option" where
  "read_uint32 bs = map_option (apfst (\<lambda>n. n mod 2 ^ 32)) (read_varint bs)"

definition delimited :: "byte list \<Rightarrow> byte list" where
  "delimited b = varint (length b) @ b"

definition read_delimited :: "byte list \<Rightarrow> (byte list \<times> byte list) option" where
  "read_delimited bs = Option.bind (read_uint32 bs) (\<lambda>(n, r). if n \<le> length r then Some (take n r, drop n r) else None)"

definition skip_field :: "nat \<Rightarrow> byte list \<Rightarrow> byte list option" where
  "skip_field k bs =
    (if k = 0 then map_option snd (read_varint bs)
     else if k = 1 then (if 8 \<le> length bs then Some (drop 8 bs) else None)
     else if k = 2 then map_option snd (read_delimited bs)
     else if k = 5 then (if 4 \<le> length bs then Some (drop 4 bs) else None) else None)"

text \<open>A number as 32 bits, \<open>x >>> 0\<close>, and the signed value of the low \<open>k\<close> bits.\<close>

definition to_bits :: "nat \<Rightarrow> int \<Rightarrow> nat" where
  "to_bits k i = nat (i mod 2 ^ k)"

definition from_bits :: "nat \<Rightarrow> nat \<Rightarrow> int" where
  "from_bits k n = (let r = int n mod 2 ^ k in if r < 2 ^ (k - 1) then r else r - 2 ^ k)"

definition number_int :: "jsnum \<Rightarrow> int" where
  "number_int x = (case int_of_num (num_trunc x) of None \<Rightarrow> 0 | Some i \<Rightarrow> i)"

definition varint_wire :: wire_lib where
  "varint_wire = \<lparr>w_uint32 = varint, w_bytes = delimited, w_string = (\<lambda>s. delimited (utf8_bytes s)),
     r_uint32 = read_uint32, r_bytes = read_delimited,
     r_string = (\<lambda>bs. map_option (\<lambda>(b, r). (map (\<lambda>x. char_of (unat x)) b, r)) (read_delimited bs)), r_skip = skip_field,
     w_number = (\<lambda>x. varint (to_bits 32 (number_int x))),
     w_int32 = (\<lambda>x. varint (to_bits 64 (number_int x))),
     w_bool = (\<lambda>c. [if c then 1 else 0]),
     w_uint64 = (\<lambda>s. map_option (\<lambda>i. varint (to_bits 64 i)) (big_int s)),
     w_int64 = (\<lambda>s. map_option (\<lambda>i. varint (to_bits 64 i)) (big_int s)),
     r_int32 = (\<lambda>bs. map_option (apfst (from_bits 32)) (read_varint bs)),
     r_bool = (\<lambda>bs. map_option (apfst (\<lambda>n. n \<noteq> 0)) (read_varint bs)),
     r_uint64 = (\<lambda>bs. map_option (apfst (\<lambda>n. int n mod 2 ^ 64)) (read_varint bs)),
     r_int64 = (\<lambda>bs. map_option (apfst (from_bits 64)) (read_varint bs))\<rparr>"

declare varint.simps [simp del]

lemma varint_back: "read_varint (varint n @ t) = Some (n, t)"
proof (induction n rule: varint.induct)
  case (1 n)
  show ?case
  proof (cases "n < 128")
    case True
    then show ?thesis by (simp add: varint.simps [of n] unat_of_nat)
  next
    case False
    have "128 + n mod 128 < 256" using mod_less_divisor [of 128 n] by simp
    then have "unat (of_nat (128 + n mod 128) :: byte) = 128 + n mod 128" by (simp only: unat_of_nat) simp
    then show ?thesis
      using 1 [OF False] False by (subst varint.simps) simp
  qed
qed

lemma uint32_back: "n < 2 ^ 32 \<Longrightarrow> read_uint32 (varint n @ t) = Some (n, t)"
  by (simp add: read_uint32_def varint_back)

lemma delimited_back: "length b < 2 ^ 32 \<Longrightarrow> read_delimited (delimited b @ t) = Some (b, t)"
  by (simp add: read_delimited_def delimited_def uint32_back)

lemma varint_ne: "varint n \<noteq> []" by (subst varint.simps) simp

lemma bytes_text: "map (\<lambda>x. char_of (unat x)) (utf8_bytes s) = s"
  by (induction s) (simp_all add: utf8_bytes_def unat_of_nat)

lemma number_int_of [simp]: "\<bar>i\<bar> < 2 ^ 53 \<Longrightarrow> number_int (num_of_int i) = i"
  by (simp add: number_int_def int_of_num_holds [OF num_trunc_holds [OF num_of_int_exact]])

lemma to_bits_small: "0 \<le> i \<Longrightarrow> i < 2 ^ k \<Longrightarrow> to_bits k i = nat i"
  by (simp add: to_bits_def)

lemma bits_back:
  assumes "0 < k" and "k \<le> j" and "- (2 ^ (k - 1)) \<le> i" and "i < 2 ^ (k - 1)"
  shows "from_bits k (to_bits j i) = i"
proof -
  have j: "(2 :: int) ^ k dvd 2 ^ j" using assms(2) by (rule le_imp_power_dvd)
  have two: "(2 :: int) ^ k = 2 * 2 ^ (k - 1)" using assms(1) by (cases k) simp_all
  have r: "int (to_bits j i) mod 2 ^ k = i mod 2 ^ k" by (simp add: to_bits_def mod_mod_cancel [OF j])
  have "i mod 2 ^ k = (if 0 \<le> i then i else i + 2 ^ k)"
  proof (cases "0 \<le> i")
    case False
    have "i mod 2 ^ k = (i + 2 ^ k) mod 2 ^ k" by simp
    also have "\<dots> = i + 2 ^ k" by (rule mod_pos_pos_trivial) (use assms(3,4) False two in linarith)+
    finally show ?thesis using False by simp
  qed (use assms(4) two in simp)
  then show ?thesis unfolding from_bits_def r Let_def using assms(3,4) two by (simp split: if_splits)
qed

lemma read_varint_shorter: "read_varint bs = Some (n, r) \<Longrightarrow> length r < length bs"
  by (induction bs arbitrary: n r) (auto split: if_splits)

lemma read_uint32_shorter: "read_uint32 bs = Some (n, r) \<Longrightarrow> length r < length bs"
  by (auto simp: read_uint32_def dest: read_varint_shorter)

lemma from_bits_range: "0 < k \<Longrightarrow> - (2 ^ (k - 1)) \<le> from_bits k n \<and> from_bits k n < 2 ^ (k - 1)"
proof -
  assume k: "0 < k"
  have two: "(2 :: int) ^ k = 2 * 2 ^ (k - 1)" using k by (cases k) simp_all
  have fold: "- h \<le> (if r < h then r else r - p) \<and> (if r < h then r else r - p) < h" if "0 \<le> r" "r < p" "p = 2 * h" for r h p :: int
    using that by auto
  show ?thesis unfolding from_bits_def Let_def by (rule fold [OF _ _ two]) simp_all
qed

lemma read_delimited_shorter: "read_delimited bs = Some (b, r) \<Longrightarrow> length r \<le> length bs"
  by (auto simp: read_delimited_def bind_eq_Some_conv split: if_splits dest: read_uint32_shorter)

lemma skip_field_shorter: "skip_field k bs = Some r \<Longrightarrow> length r \<le> length bs"
  by (auto simp: skip_field_def split: if_splits dest: read_varint_shorter read_delimited_shorter)

lemma varint_wire_simps:
  "w_uint32 varint_wire = varint" "w_bytes varint_wire = delimited" "w_string varint_wire s = delimited (utf8_bytes s)"
  "r_uint32 varint_wire = read_uint32" "r_bytes varint_wire = read_delimited"
  "r_string varint_wire bs = map_option (\<lambda>(b, r). (map (\<lambda>x. char_of (unat x)) b, r)) (read_delimited bs)"
  "r_skip varint_wire = skip_field"
  "w_number varint_wire x = varint (to_bits 32 (number_int x))" "w_int32 varint_wire x = varint (to_bits 64 (number_int x))"
  "w_bool varint_wire c = [if c then 1 else 0]"
  "w_uint64 varint_wire s = map_option (\<lambda>i. varint (to_bits 64 i)) (big_int s)"
  "w_int64 varint_wire s = map_option (\<lambda>i. varint (to_bits 64 i)) (big_int s)"
  "r_int32 varint_wire bs = map_option (apfst (from_bits 32)) (read_varint bs)"
  "r_bool varint_wire bs = map_option (apfst (\<lambda>n. n \<noteq> 0)) (read_varint bs)"
  "r_uint64 varint_wire bs = map_option (apfst (\<lambda>n. int n mod 2 ^ 64)) (read_varint bs)"
  "r_int64 varint_wire bs = map_option (apfst (from_bits 64)) (read_varint bs)"
  by (simp_all add: varint_wire_def)

interpretation pb: protobuf varint_wire
proof (unfold_locales, unfold varint_wire_simps)
  fix n :: nat and i :: int and b t bs r :: "byte list" and s :: string and c :: bool and k :: nat
  show "read_uint32 (varint n @ t) = Some (n, t)" if "n < 2 ^ 32" using that by (rule uint32_back)
  show "read_delimited (delimited b @ t) = Some (b, t)" if "length b < 2 ^ 32" using that by (rule delimited_back)
  show "map_option (\<lambda>(b, r). (map (\<lambda>x. char_of (unat x)) b, r)) (read_delimited (delimited (utf8_bytes s) @ t)) = Some (s, t)"
    if "length s < 2 ^ 32"
    using that by (simp add: delimited_back bytes_text)
  show "varint n \<noteq> []" by (rule varint_ne)
  show "varint (to_bits 32 (number_int (num_of_int (int n)))) = varint n" if "n < 2 ^ 32"
    using that by (simp add: to_bits_small)
  show "map_option (apfst (from_bits 32)) (read_varint (varint (to_bits 64 (number_int (num_of_int i))) @ t)) = Some (i, t)"
    if "- (2 ^ 31) \<le> i" "i < 2 ^ 31"
    using that bits_back [of 32 64 i] by (simp add: varint_back)
  show "map_option (apfst (\<lambda>n. n \<noteq> 0)) (read_varint ([if c then 1 else 0] @ t)) = Some (c, t)" by simp
  show "\<exists>b. map_option (\<lambda>i. varint (to_bits 64 i)) (big_int (show_int i)) = Some b \<and>
      (\<forall>t. map_option (apfst (\<lambda>n. int n mod 2 ^ 64)) (read_varint (b @ t)) = Some (i, t))" if "0 \<le> i" "i < 2 ^ 64"
    using that by (simp add: varint_back to_bits_def)
  show "\<exists>b. map_option (\<lambda>i. varint (to_bits 64 i)) (big_int (show_int i)) = Some b \<and>
      (\<forall>t. map_option (apfst (from_bits 64)) (read_varint (b @ t)) = Some (i, t))" if "- (2 ^ 63) \<le> i" "i < 2 ^ 63"
    using that bits_back [of 64 64 i] by (simp add: varint_back)
  show "length r < length bs" if "read_uint32 bs = Some (n, r)" using that by (rule read_uint32_shorter)
  show "n < 2 ^ 32" if "read_uint32 bs = Some (n, r)"
    using that by (auto simp: read_uint32_def)
  show "- (2 ^ 31) \<le> i \<and> i < 2 ^ 31" if "map_option (apfst (from_bits 32)) (read_varint bs) = Some (i, r)"
    using that from_bits_range [of 32] by auto
  show "0 \<le> i \<and> i < 2 ^ 64" if "map_option (apfst (\<lambda>n. int n mod 2 ^ 64)) (read_varint bs) = Some (i, r)"
    using that by auto
  show "- (2 ^ 63) \<le> i \<and> i < 2 ^ 63" if "map_option (apfst (from_bits 64)) (read_varint bs) = Some (i, r)"
    using that from_bits_range [of 64] by auto
  show "length r \<le> length bs" if "read_delimited bs = Some (b, r)" using that by (rule read_delimited_shorter)
  show "length r \<le> length bs" if "map_option (\<lambda>(b, r). (map (\<lambda>x. char_of (unat x)) b, r)) (read_delimited bs) = Some (s, r)"
    using that by (auto dest: read_delimited_shorter)
  show "length r \<le> length bs" if "map_option (apfst (from_bits 32)) (read_varint bs) = Some (i, r)"
    using that by (auto dest: read_varint_shorter)
  show "length r \<le> length bs" if "map_option (apfst (\<lambda>n. n \<noteq> 0)) (read_varint bs) = Some (c, r)"
    using that by (auto dest: read_varint_shorter)
  show "length r \<le> length bs" if "map_option (apfst (\<lambda>n. int n mod 2 ^ 64)) (read_varint bs) = Some (i, r)"
    using that by (auto dest: read_varint_shorter)
  show "length r \<le> length bs" if "map_option (apfst (from_bits 64)) (read_varint bs) = Some (i, r)"
    using that by (auto dest: read_varint_shorter)
  show "length r \<le> length bs" if "skip_field k bs = Some r" using that by (rule skip_field_shorter)
  show "length b \<le> length (delimited b)" "length s \<le> length (delimited (utf8_bytes s))" by (simp_all add: delimited_def)
qed

end
