(* ===== verification/Envelope.thy ===== *)
theory Envelope imports Wire begin

text \<open>
  The sealed detail of a payment (clients/sdk/src/envelope.ts and the generated messages
  PaymentMetadata, PayloadEnvelope and RecipientBlock) and its hash (clients/sdk/src/metadata.ts).
  X25519, HKDF, SHA-256 and ChaCha20-Poly1305 are libraries, the fields of a \<open>box_suite\<close>; random
  keys and nonces are arguments.
\<close>

section \<open>The generated messages\<close>

record metadata =
  md_salt :: "byte list"
  md_purpose :: string
  md_remittance :: string

definition metadata_base :: metadata where
  "metadata_base = \<lparr>md_salt = [], md_purpose = [], md_remittance = []\<rparr>"

definition metadata_encode :: "wire_lib \<Rightarrow> metadata \<Rightarrow> byte list" where
  "metadata_encode w m =
    (if md_salt m \<noteq> [] then w_uint32 w 10 @ w_bytes w (md_salt m) else []) @
    (if md_purpose m \<noteq> [] then w_uint32 w 18 @ w_string w (md_purpose m) else []) @
    (if md_remittance m \<noteq> [] then w_uint32 w 26 @ w_string w (md_remittance m) else [])"

definition metadata_field :: "wire_lib \<Rightarrow> nat \<Rightarrow> byte list \<Rightarrow> metadata \<Rightarrow> (metadata \<times> byte list) option option" where
  "metadata_field w tag bs m =
    (if tag = 10 then set_field (\<lambda>v. md_salt_update (\<lambda>_. v)) (r_bytes w bs) m
     else if tag = 18 then set_field (\<lambda>v. md_purpose_update (\<lambda>_. v)) (r_string w bs) m
     else if tag = 26 then set_field (\<lambda>v. md_remittance_update (\<lambda>_. v)) (r_string w bs) m
     else None)"

definition metadata_decode :: "wire_lib \<Rightarrow> byte list \<Rightarrow> metadata option" where
  "metadata_decode w bs = decode_all w (metadata_field w) metadata_base bs"

record block =
  bk_id :: "byte list"
  bk_ephemeral :: "byte list"
  bk_wrapped :: "byte list"

definition block_base :: block where
  "block_base = \<lparr>bk_id = [], bk_ephemeral = [], bk_wrapped = []\<rparr>"

definition block_encode :: "wire_lib \<Rightarrow> block \<Rightarrow> byte list" where
  "block_encode w m =
    (if bk_id m \<noteq> [] then w_uint32 w 10 @ w_bytes w (bk_id m) else []) @
    (if bk_ephemeral m \<noteq> [] then w_uint32 w 18 @ w_bytes w (bk_ephemeral m) else []) @
    (if bk_wrapped m \<noteq> [] then w_uint32 w 26 @ w_bytes w (bk_wrapped m) else [])"

definition block_field :: "wire_lib \<Rightarrow> nat \<Rightarrow> byte list \<Rightarrow> block \<Rightarrow> (block \<times> byte list) option option" where
  "block_field w tag bs m =
    (if tag = 10 then set_field (\<lambda>v. bk_id_update (\<lambda>_. v)) (r_bytes w bs) m
     else if tag = 18 then set_field (\<lambda>v. bk_ephemeral_update (\<lambda>_. v)) (r_bytes w bs) m
     else if tag = 26 then set_field (\<lambda>v. bk_wrapped_update (\<lambda>_. v)) (r_bytes w bs) m
     else None)"

text \<open>\<open>RecipientBlock.decode(reader, length)\<close> inside an envelope.\<close>

definition block_decode :: "wire_lib \<Rightarrow> nat \<Rightarrow> byte list \<Rightarrow> (block \<times> byte list) option" where
  "block_decode w len bs = decode_loop w (block_field w) len bs block_base"

record envelope =
  ev_version :: nat
  ev_recipients :: "block list"
  ev_nonce :: "byte list"
  ev_ciphertext :: "byte list"

definition envelope_base :: envelope where
  "envelope_base = \<lparr>ev_version = 0, ev_recipients = [], ev_nonce = [], ev_ciphertext = []\<rparr>"

definition envelope_encode :: "wire_lib \<Rightarrow> envelope \<Rightarrow> byte list" where
  "envelope_encode w m =
    (if ev_version m \<noteq> 0 then w_uint32 w 8 @ w_uint32 w (ev_version m) else []) @
    concat (map (\<lambda>v. w_uint32 w 18 @ w_uint32 w (length (block_encode w v)) @ block_encode w v) (ev_recipients m)) @
    (if ev_nonce m \<noteq> [] then w_uint32 w 26 @ w_bytes w (ev_nonce m) else []) @
    (if ev_ciphertext m \<noteq> [] then w_uint32 w 34 @ w_bytes w (ev_ciphertext m) else [])"

definition envelope_field :: "wire_lib \<Rightarrow> nat \<Rightarrow> byte list \<Rightarrow> envelope \<Rightarrow> (envelope \<times> byte list) option option" where
  "envelope_field w tag bs m =
    (if tag = 8 then set_field (\<lambda>v. ev_version_update (\<lambda>_. v)) (r_uint32 w bs) m
     else if tag = 18 then
       set_field (\<lambda>v. ev_recipients_update (\<lambda>rs. rs @ [v]))
         (Option.bind (r_uint32 w bs) (\<lambda>(len, bs1). block_decode w len bs1)) m
     else if tag = 26 then set_field (\<lambda>v. ev_nonce_update (\<lambda>_. v)) (r_bytes w bs) m
     else if tag = 34 then set_field (\<lambda>v. ev_ciphertext_update (\<lambda>_. v)) (r_bytes w bs) m
     else None)"

definition envelope_decode :: "wire_lib \<Rightarrow> byte list \<Rightarrow> envelope option" where
  "envelope_decode w bs = decode_all w (envelope_field w) envelope_base bs"

section \<open>Constants and errors\<close>

definition ENVELOPE_VERSION :: nat where "ENVELOPE_VERSION = 1"
definition VIEWING_KEY_BYTES :: nat where "VIEWING_KEY_BYTES = 32"
definition CONTENT_KEY_BYTES :: nat where "CONTENT_KEY_BYTES = 32"
definition NONCE_BYTES :: nat where "NONCE_BYTES = 12"
definition KEY_ID_BYTES :: nat where "KEY_ID_BYTES = 8"
definition PADDING_BLOCK :: nat where "PADDING_BLOCK = 256"
definition MAX_PLAINTEXT_BYTES :: nat where "MAX_PLAINTEXT_BYTES = 64 * 1024"
definition ENVELOPE_DOMAIN :: string where "ENVELOPE_DOMAIN = ''yamale/paymsg/payload-envelope/v1''"
definition METADATA_SALT_BYTES :: nat where "METADATA_SALT_BYTES = 32"
definition METADATA_HASH_BYTES :: nat where "METADATA_HASH_BYTES = 32"

text \<open>
  \<open>EnvelopeUnreadableError\<close>, \<open>EnvelopeMalformedError\<close> and a plain \<open>Error\<close>. A plain error of a library
  carries the empty text.
\<close>

datatype envelope_error = Unreadable string | Malformed string | Plain_error string

record box_suite =
  bx_public :: "byte list \<Rightarrow> byte list"
  bx_shared :: "byte list \<Rightarrow> byte list \<Rightarrow> byte list option"
  bx_sha256 :: "byte list \<Rightarrow> byte list"
  bx_hkdf :: "byte list \<Rightarrow> byte list \<Rightarrow> byte list"
  bx_encrypt :: "byte list \<Rightarrow> byte list \<Rightarrow> byte list \<Rightarrow> byte list \<Rightarrow> byte list"
  bx_decrypt :: "byte list \<Rightarrow> byte list \<Rightarrow> byte list \<Rightarrow> byte list \<Rightarrow> byte list option"

definition keyId :: "box_suite \<Rightarrow> byte list \<Rightarrow> byte list" where
  "keyId su publicKey = take KEY_ID_BYTES (bx_sha256 su publicKey)"

definition paymentAad :: "string \<Rightarrow> string \<Rightarrow> byte list" where
  "paymentAad instructing e2e = utf8_bytes ENVELOPE_DOMAIN @ [0] @ utf8_bytes instructing @ [0] @ utf8_bytes e2e"

definition deriveWrappingKey :: "box_suite \<Rightarrow> byte list \<Rightarrow> byte list \<Rightarrow> byte list \<Rightarrow> byte list" where
  "deriveWrappingKey su shared ephemeralPublic recipientPublic =
    bx_hkdf su shared (utf8_bytes ENVELOPE_DOMAIN @ [0] @ ephemeralPublic @ recipientPublic)"

section \<open>Padding\<close>

definition pad :: "byte list \<Rightarrow> envelope_error + byte list" where
  "pad plaintext =
    (if length plaintext > MAX_PLAINTEXT_BYTES
     then Inl (Plain_error (''payload is '' @ dec_nat (length plaintext) @ '' bytes, above the '' @ dec_nat MAX_PLAINTEXT_BYTES @ ''-byte limit''))
     else
       (let tot = length plaintext + 4; rem = tot mod PADDING_BLOCK;
            tot = (if rem \<noteq> 0 then tot + (PADDING_BLOCK - rem) else tot); n = length plaintext in
        Inr ([of_nat (n div 2 ^ 24), of_nat (n div 2 ^ 16), of_nat (n div 2 ^ 8), of_nat n] @ plaintext @
             replicate (tot - 4 - n) 0)))"

definition unpad :: "byte list \<Rightarrow> envelope_error + byte list" where
  "unpad padded =
    (if length padded < 4 then Inl (Malformed (''padded plaintext is '' @ dec_nat (length padded) @ '' bytes''))
     else
       (let n = unat (padded ! 0) * 2 ^ 24 + unat (padded ! 1) * 2 ^ 16 + unat (padded ! 2) * 2 ^ 8 + unat (padded ! 3) in
        if n > MAX_PLAINTEXT_BYTES \<or> 4 + n > length padded
        then Inl (Malformed (''padded plaintext claims a '' @ dec_nat n @ ''-byte payload''))
        else Inr (take n (drop 4 padded))))"

section \<open>One block\<close>

definition wrap :: "box_suite \<Rightarrow> byte list \<Rightarrow> byte list \<Rightarrow> byte list \<Rightarrow> envelope_error + block" where
  "wrap su ephemeralPrivate secret recipientPublic =
    (if length recipientPublic \<noteq> VIEWING_KEY_BYTES
     then Inl (Plain_error (''viewing key must be '' @ dec_nat VIEWING_KEY_BYTES @ '' bytes, got '' @ dec_nat (length recipientPublic)))
     else
       (let ephemeralPublic = bx_public su ephemeralPrivate in
        case bx_shared su ephemeralPrivate recipientPublic of
          None \<Rightarrow> Inl (Plain_error [])
        | Some shared \<Rightarrow>
            (let i = keyId su recipientPublic; k = deriveWrappingKey su shared ephemeralPublic recipientPublic in
             Inr \<lparr>bk_id = i, bk_ephemeral = ephemeralPublic, bk_wrapped = bx_encrypt su k (replicate NONCE_BYTES 0) i secret\<rparr>)))"

text \<open>\<open>None\<close> where it throws: every caller catches whatever is thrown.\<close>

definition unwrap :: "box_suite \<Rightarrow> block \<Rightarrow> byte list \<Rightarrow> byte list \<Rightarrow> byte list option" where
  "unwrap su b privateKey self =
    (case bx_shared su privateKey (bk_ephemeral b) of
       None \<Rightarrow> None
     | Some shared \<Rightarrow>
         (case bx_decrypt su (deriveWrappingKey su shared (bk_ephemeral b) self) (replicate NONCE_BYTES 0) (keyId su self) (bk_wrapped b) of
            None \<Rightarrow> None
          | Some secret \<Rightarrow> if length secret \<noteq> CONTENT_KEY_BYTES then None else Some secret))"

definition sealToViewingKey :: "box_suite \<Rightarrow> byte list \<Rightarrow> byte list \<Rightarrow> byte list \<Rightarrow> envelope_error + block" where
  "sealToViewingKey su ephemeralPrivate secret recipientPublic =
    (if length secret \<noteq> CONTENT_KEY_BYTES
     then Inl (Plain_error (''secret must be '' @ dec_nat CONTENT_KEY_BYTES @ '' bytes, got '' @ dec_nat (length secret)))
     else wrap su ephemeralPrivate secret recipientPublic)"

definition openRecipientBlock :: "box_suite \<Rightarrow> block \<Rightarrow> byte list \<Rightarrow> envelope_error + byte list" where
  "openRecipientBlock su b privateKey =
    (if length privateKey \<noteq> VIEWING_KEY_BYTES then Inl (Unreadable ''that is not an X25519 private key'')
     else (case unwrap su b privateKey (bx_public su privateKey) of
       None \<Rightarrow> Inl (Unreadable ''this block does not open with the key provided'')
     | Some secret \<Rightarrow> Inr secret))"

section \<open>The envelope\<close>

text \<open>\<open>recipients.map\<close>, each block under a fresh ephemeral key; the first error is thrown.\<close>

fun wrap_all :: "box_suite \<Rightarrow> byte list \<Rightarrow> (byte list \<times> byte list) list \<Rightarrow> envelope_error + block list" where
  "wrap_all su secret [] = Inr []"
| "wrap_all su secret ((e, r) # rs) =
    (case wrap su e secret r of
       Inl err \<Rightarrow> Inl err
     | Inr b \<Rightarrow> (case wrap_all su secret rs of Inl err \<Rightarrow> Inl err | Inr bs \<Rightarrow> Inr (b # bs)))"

text \<open>\<open>recipients\<close> are the public keys, each with the ephemeral secret drawn for it.\<close>

definition sealPayload ::
  "box_suite \<Rightarrow> wire_lib \<Rightarrow> metadata \<Rightarrow> (byte list \<times> byte list) list \<Rightarrow> byte list \<Rightarrow> byte list \<Rightarrow> byte list \<Rightarrow> envelope_error + envelope" where
  "sealPayload su w payload recipients aad contentKey nonce =
    (if recipients = [] then Inl (Plain_error ''an envelope with no recipients is readable by nobody'')
     else if length (md_salt payload) \<noteq> METADATA_SALT_BYTES
     then Inl (Plain_error (''payload salt must be '' @ dec_nat METADATA_SALT_BYTES @ '' bytes, got '' @ dec_nat (length (md_salt payload))))
     else (case pad (metadata_encode w payload) of
       Inl err \<Rightarrow> Inl err
     | Inr padded \<Rightarrow>
         (case wrap_all su contentKey recipients of
            Inl err \<Rightarrow> Inl err
          | Inr blocks \<Rightarrow> Inr \<lparr>ev_version = ENVELOPE_VERSION, ev_recipients = blocks, ev_nonce = nonce,
              ev_ciphertext = bx_encrypt su contentKey nonce aad padded\<rparr>)))"

definition bytesEqual :: "byte list \<Rightarrow> byte list \<Rightarrow> bool" where
  "bytesEqual a b \<longleftrightarrow> length a = length b \<and> (fold (\<lambda>(x, y) d. or d (xor x y)) (zip a b) 0 = 0)"

fun try_blocks :: "box_suite \<Rightarrow> bool \<Rightarrow> byte list \<Rightarrow> byte list \<Rightarrow> byte list \<Rightarrow> block list \<Rightarrow> byte list option" where
  "try_blocks su only_matching want privateKey self [] = None"
| "try_blocks su only_matching want privateKey self (b # bs) =
    (if only_matching \<and> \<not> bytesEqual (bk_id b) want then try_blocks su only_matching want privateKey self bs
     else (case unwrap su b privateKey self of
       Some k \<Rightarrow> Some k
     | None \<Rightarrow> try_blocks su only_matching want privateKey self bs))"

definition NO_BLOCK :: string where "NO_BLOCK = ''no recipient block in this envelope opens with the key provided''"

definition NOT_AUTHENTIC :: string where
  "NOT_AUTHENTIC = ''the content key was recovered but the body did not authenticate, so the ciphertext or the payment it names has been altered''"

definition openPayload :: "box_suite \<Rightarrow> wire_lib \<Rightarrow> envelope \<Rightarrow> byte list \<Rightarrow> byte list \<Rightarrow> envelope_error + metadata" where
  "openPayload su w env privateKey aad =
    (if ev_version env \<noteq> ENVELOPE_VERSION then Inl (Malformed (''envelope version '' @ dec_nat (ev_version env)))
     else if length (ev_nonce env) \<noteq> NONCE_BYTES then Inl (Malformed (''nonce is '' @ dec_nat (length (ev_nonce env)) @ '' bytes''))
     else if length privateKey \<noteq> VIEWING_KEY_BYTES then Inl (Unreadable ''that is not an X25519 private key'')
     else
       (let self = bx_public su privateKey; want = keyId su self in
        case (case try_blocks su True want privateKey self (ev_recipients env) of
                Some k \<Rightarrow> Some k | None \<Rightarrow> try_blocks su False want privateKey self (ev_recipients env)) of
          None \<Rightarrow> Inl (Unreadable NO_BLOCK)
        | Some contentKey \<Rightarrow>
            (case bx_decrypt su contentKey (ev_nonce env) aad (ev_ciphertext env) of
               None \<Rightarrow> Inl (Malformed NOT_AUTHENTIC)
             | Some padded \<Rightarrow>
                 (case unpad padded of
                    Inl err \<Rightarrow> Inl err
                  | Inr plaintext \<Rightarrow>
                      (case metadata_decode w plaintext of None \<Rightarrow> Inl (Plain_error []) | Some m \<Rightarrow> Inr m)))))"

definition encodeEnvelope :: "wire_lib \<Rightarrow> envelope \<Rightarrow> byte list" where
  "encodeEnvelope w env = envelope_encode w env"

text \<open>The text of the error ends with what the library threw.\<close>

definition decodeEnvelope :: "wire_lib \<Rightarrow> byte list \<Rightarrow> envelope_error + envelope" where
  "decodeEnvelope w bs = (case envelope_decode w bs of
     None \<Rightarrow> Inl (Malformed ''these bytes are not a PayloadEnvelope: '') | Some env \<Rightarrow> Inr env)"

section \<open>The hash on the chain (metadata.ts)\<close>

text \<open>\<open>String.length\<close>: UTF-16 units, two for a character of four bytes.\<close>

definition utf16_length :: "string \<Rightarrow> nat" where
  "utf16_length s = sum_list (map (\<lambda>c. if of_char c < (0x80::nat) then 1 else if of_char c < (0xC0::nat) then 0
     else if of_char c < (0xF0::nat) then 1 else 2) s)"

definition MAX_PURPOSE_CODE :: nat where "MAX_PURPOSE_CODE = 4"
definition MAX_REMITTANCE :: nat where "MAX_REMITTANCE = 140"

definition newPaymentMetadata :: "byte list \<Rightarrow> string \<Rightarrow> string \<Rightarrow> string + metadata" where
  "newPaymentMetadata salt purposeCode remittance =
    (if utf16_length purposeCode > MAX_PURPOSE_CODE
     then Inl (''purposeCode must be at most '' @ dec_nat MAX_PURPOSE_CODE @ '' characters'')
     else if utf16_length remittance > MAX_REMITTANCE
     then Inl (''remittanceInformation must be at most '' @ dec_nat MAX_REMITTANCE @ '' characters'')
     else Inr \<lparr>md_salt = salt, md_purpose = purposeCode, md_remittance = remittance\<rparr>)"

definition metadataHash :: "box_suite \<Rightarrow> wire_lib \<Rightarrow> metadata \<Rightarrow> string + byte list" where
  "metadataHash su w payload =
    (if length (md_salt payload) \<noteq> METADATA_SALT_BYTES
     then Inl (''salt must be '' @ dec_nat METADATA_SALT_BYTES @ '' bytes, got '' @ dec_nat (length (md_salt payload)) @
       ''; an unsalted hash publishes the field it was meant to hide'')
     else Inr (bx_sha256 su (metadata_encode w payload)))"

text \<open>An index past the end reads as \<open>undefined\<close>, which \<open>^\<close> takes for 0.\<close>

definition byte_at :: "byte list \<Rightarrow> nat \<Rightarrow> byte" where
  "byte_at bs i = (if i < length bs then bs ! i else 0)"

definition verifyMetadata :: "box_suite \<Rightarrow> wire_lib \<Rightarrow> metadata \<Rightarrow> byte list \<Rightarrow> string + bool" where
  "verifyMetadata su w payload recorded =
    (if length recorded \<noteq> METADATA_HASH_BYTES then Inr False
     else (case metadataHash su w payload of
       Inl err \<Rightarrow> Inl err
     | Inr computed \<Rightarrow> Inr (fold (\<lambda>i d. or d (xor (byte_at computed i) (byte_at recorded i))) [0..<METADATA_HASH_BYTES] 0 = 0)))"

end
