(* ===== verification/Sealing.thy ===== *)
theory Sealing imports Envelope begin

text \<open>
  What sealing a payment's detail guarantees: the messages and the padding are read back, a recipient
  opens what was sealed, and every other outcome is told apart.
\<close>

section \<open>The messages are read back\<close>

definition block_fits :: "block \<Rightarrow> bool" where
  "block_fits b \<longleftrightarrow> length (bk_id b) < 2 ^ 32 \<and> length (bk_ephemeral b) < 2 ^ 32 \<and> length (bk_wrapped b) < 2 ^ 32"

text \<open>Every length of the envelope is written in 32 bits.\<close>

definition envelope_fits :: "wire_lib \<Rightarrow> envelope \<Rightarrow> bool" where
  "envelope_fits w m \<longleftrightarrow> ev_version m < 2 ^ 32 \<and> length (ev_nonce m) < 2 ^ 32 \<and> length (ev_ciphertext m) < 2 ^ 32 \<and>
    (\<forall>b \<in> set (ev_recipients m). block_fits b \<and> length (block_encode w b) < 2 ^ 32)"

context protobuf begin

lemma metadata_back:
  assumes "length (md_salt m) < 2 ^ 32" and "length (md_purpose m) < 2 ^ 32" and "length (md_remittance m) < 2 ^ 32"
  shows "metadata_decode w (metadata_encode w m) = Some m"
proof -
  let ?f = "metadata_field w" and ?s = "md_salt m" and ?p = "md_purpose m" and ?r = "md_remittance m"
  let ?P = "if ?p \<noteq> [] then w_uint32 w 18 @ w_string w ?p else []"
  let ?R = "if ?r \<noteq> [] then w_uint32 w 26 @ w_string w ?r else []"
  have "decode_loop w ?f (length (metadata_encode w m)) (metadata_encode w m @ []) metadata_base =
      decode_loop w ?f (length (?P @ ?R)) ((?P @ ?R) @ []) (metadata_base\<lparr>md_salt := ?s\<rparr>)"
    unfolding metadata_encode_def append_assoc
    by (rule loop_optional [of 10 "?s \<noteq> []" ?f _ "?P @ ?R" "[]", unfolded append_assoc])
      (use assms bytes_back [of ?s] in \<open>simp_all add: metadata_field_def metadata_base_def\<close>)
  also have "\<dots> = decode_loop w ?f (length ?R) (?R @ []) (metadata_base\<lparr>md_salt := ?s, md_purpose := ?p\<rparr>)"
    unfolding append_assoc
    by (rule loop_optional) (use assms string_back [of ?p] in \<open>simp_all add: metadata_field_def metadata_base_def\<close>)
  also have "\<dots> = Some (metadata_base\<lparr>md_salt := ?s, md_purpose := ?p, md_remittance := ?r\<rparr>, [])"
    by (rule loop_optional_last) (use assms string_back [of ?r "[]"] in \<open>simp_all add: metadata_field_def metadata_base_def\<close>)
  finally show ?thesis by (simp add: metadata_decode_def decode_all_def metadata_base_def)
qed

lemma block_back:
  assumes "block_fits m"
  shows "block_decode w (length (block_encode w m)) (block_encode w m @ t) = Some (m, t)"
proof -
  let ?f = "block_field w" and ?i = "bk_id m" and ?e = "bk_ephemeral m" and ?k = "bk_wrapped m"
  let ?E = "if ?e \<noteq> [] then w_uint32 w 18 @ w_bytes w ?e else []"
  let ?K = "if ?k \<noteq> [] then w_uint32 w 26 @ w_bytes w ?k else []"
  note fits = assms [unfolded block_fits_def]
  have "decode_loop w ?f (length (block_encode w m)) (block_encode w m @ t) block_base =
      decode_loop w ?f (length (?E @ ?K)) ((?E @ ?K) @ t) (block_base\<lparr>bk_id := ?i\<rparr>)"
    unfolding block_encode_def append_assoc
    by (rule loop_optional [of 10 "?i \<noteq> []" ?f _ "?E @ ?K" t, unfolded append_assoc])
      (use fits bytes_back [of ?i] in \<open>simp_all add: block_field_def block_base_def\<close>)
  also have "\<dots> = decode_loop w ?f (length ?K) (?K @ t) (block_base\<lparr>bk_id := ?i, bk_ephemeral := ?e\<rparr>)"
    unfolding append_assoc
    by (rule loop_optional) (use fits bytes_back [of ?e] in \<open>simp_all add: block_field_def block_base_def\<close>)
  also have "\<dots> = Some (block_base\<lparr>bk_id := ?i, bk_ephemeral := ?e, bk_wrapped := ?k\<rparr>, t)"
    by (rule loop_optional_last) (use fits bytes_back [of ?k t] in \<open>simp_all add: block_field_def block_base_def\<close>)
  finally show ?thesis by (simp add: block_decode_def block_base_def)
qed

lemma blocks_back:
  assumes "\<forall>b \<in> set bs. block_fits b \<and> length (block_encode w b) < 2 ^ 32"
  shows "decode_loop w (envelope_field w)
      (length (concat (map (\<lambda>v. w_uint32 w 18 @ w_uint32 w (length (block_encode w v)) @ block_encode w v) bs) @ b))
      (concat (map (\<lambda>v. w_uint32 w 18 @ w_uint32 w (length (block_encode w v)) @ block_encode w v) bs) @ b @ t) m =
    decode_loop w (envelope_field w) (length b) (b @ t) (m\<lparr>ev_recipients := ev_recipients m @ bs\<rparr>)"
  using assms
proof (induction bs arbitrary: m)
  case (Cons v bs)
  let ?rest = "concat (map (\<lambda>v. w_uint32 w 18 @ w_uint32 w (length (block_encode w v)) @ block_encode w v) bs) @ b"
  let ?v = "w_uint32 w (length (block_encode w v)) @ block_encode w v"
  have "envelope_field w 18 (?v @ ?rest @ t) m = Some (Some (m\<lparr>ev_recipients := ev_recipients m @ [v]\<rparr>, ?rest @ t))"
    using Cons.prems uint32_back [of "length (block_encode w v)" "block_encode w v @ ?rest @ t"] block_back [of v "?rest @ t"]
    by (simp add: envelope_field_def)
  then have "decode_loop w (envelope_field w) (length (w_uint32 w 18 @ ?v @ ?rest)) (w_uint32 w 18 @ ?v @ ?rest @ t) m =
      decode_loop w (envelope_field w) (length ?rest) (?rest @ t) (m\<lparr>ev_recipients := ev_recipients m @ [v]\<rparr>)"
    by (intro loop_field) simp_all
  then show ?case using Cons.IH [of "m\<lparr>ev_recipients := ev_recipients m @ [v]\<rparr>"] Cons.prems by simp
qed simp

lemma envelope_back:
  assumes "envelope_fits w m"
  shows "envelope_decode w (envelope_encode w m) = Some m"
proof -
  let ?f = "envelope_field w" and ?v = "ev_version m" and ?n = "ev_nonce m" and ?c = "ev_ciphertext m"
  let ?B = "concat (map (\<lambda>v. w_uint32 w 18 @ w_uint32 w (length (block_encode w v)) @ block_encode w v) (ev_recipients m))"
  let ?N = "if ?n \<noteq> [] then w_uint32 w 26 @ w_bytes w ?n else []"
  let ?C = "if ?c \<noteq> [] then w_uint32 w 34 @ w_bytes w ?c else []"
  note fits = assms [unfolded envelope_fits_def]
  have "decode_loop w ?f (length (envelope_encode w m)) (envelope_encode w m @ []) envelope_base =
      decode_loop w ?f (length (?B @ ?N @ ?C)) ((?B @ ?N @ ?C) @ []) (envelope_base\<lparr>ev_version := ?v\<rparr>)"
    unfolding envelope_encode_def append_assoc
    by (rule loop_optional [of 8 "?v \<noteq> 0" ?f _ "?B @ ?N @ ?C" "[]", unfolded append_assoc])
      (use fits uint32_back [of ?v] in \<open>simp_all add: envelope_field_def envelope_base_def\<close>)
  also have "\<dots> = decode_loop w ?f (length (?N @ ?C)) ((?N @ ?C) @ []) (envelope_base\<lparr>ev_version := ?v, ev_recipients := ev_recipients m\<rparr>)"
    using blocks_back [of "ev_recipients m" "?N @ ?C" "[]" "envelope_base\<lparr>ev_version := ?v\<rparr>"] fits
    by (simp only: append_assoc) (simp add: envelope_base_def)
  also have "\<dots> = decode_loop w ?f (length ?C) (?C @ []) (envelope_base\<lparr>ev_version := ?v, ev_recipients := ev_recipients m, ev_nonce := ?n\<rparr>)"
    unfolding append_assoc
    by (rule loop_optional) (use fits bytes_back [of ?n] in \<open>simp_all add: envelope_field_def envelope_base_def\<close>)
  also have "\<dots> = Some (envelope_base\<lparr>ev_version := ?v, ev_recipients := ev_recipients m, ev_nonce := ?n, ev_ciphertext := ?c\<rparr>, [])"
    by (rule loop_optional_last) (use fits bytes_back [of ?c "[]"] in \<open>simp_all add: envelope_field_def envelope_base_def\<close>)
  finally show ?thesis by (simp add: envelope_decode_def decode_all_def envelope_base_def)
qed

end

section \<open>Padding\<close>

definition padded_length :: "nat \<Rightarrow> nat" where
  "padded_length n = 256 * ((n + 259) div 256)"

lemma pad_up: "(if n mod 256 \<noteq> 0 then n + (256 - n mod 256) else n) = 256 * ((n + 255) div (256::nat))"
proof (cases "n mod 256 = 0")
  case True
  then obtain q where "n = 256 * q" by (auto simp: mod_eq_0_iff_dvd elim: dvdE)
  then show ?thesis by simp
next
  case False
  have "n = 256 * (n div 256) + n mod 256" "n mod 256 < 256" by simp_all
  moreover have "m = 256 * q + r \<Longrightarrow> r < 256 \<Longrightarrow> m + (256 - r) = 256 * (q + 1)" for m q r :: nat by simp
  ultimately have "n + (256 - n mod 256) = 256 * (n div 256 + 1)" by blast
  moreover have "(n + 255) div 256 = n div 256 + 1"
  proof -
    have "n + 255 = (n div 256 + 1) * 256 + (n mod 256 - 1)" using False by simp
    moreover have "n mod 256 - 1 < 256" using mod_less_divisor [of 256 n] by simp
    ultimately show ?thesis by (metis div_mod_unique)
  qed
  ultimately show ?thesis using False by simp
qed

lemma pad_iff: "pad p = Inr b \<longleftrightarrow> length p \<le> 65536 \<and>
    b = [of_nat (length p div 2 ^ 24), of_nat (length p div 2 ^ 16), of_nat (length p div 2 ^ 8), of_nat (length p)] @ p @
      replicate (padded_length (length p) - 4 - length p) 0"
  using pad_up [of "length p + 4"]
  by (auto simp: pad_def MAX_PLAINTEXT_BYTES_def PADDING_BLOCK_def padded_length_def Let_def add.commute)

lemma pad_refuses: "(\<exists>b. pad p = Inr b) \<longleftrightarrow> length p \<le> 65536"
  by (simp add: pad_iff)

lemma padded_length_ge: "n + 4 \<le> padded_length n"
  unfolding padded_length_def by simp

lemma length_pad: "pad p = Inr b \<Longrightarrow> length b = padded_length (length p)"
  using padded_length_ge [of "length p"] by (auto simp: pad_iff)

lemma byte_digits: "n < 2 ^ 32 \<Longrightarrow>
    unat (of_nat (n div 2 ^ 24) :: byte) * 2 ^ 24 + unat (of_nat (n div 2 ^ 16) :: byte) * 2 ^ 16 +
    unat (of_nat (n div 2 ^ 8) :: byte) * 2 ^ 8 + unat (of_nat n :: byte) = n"
proof -
  assume n: "n < 2 ^ 32"
  define a b c where "a = n div 256" and "b = a div 256" and "c = b div 256"
  note defs = this
  have d: "n div 2 ^ 8 = a" "n div 2 ^ 16 = b" "n div 2 ^ 24 = c"
    by (simp_all add: defs flip: div_mult2_eq)
  have "n = 256 * a + n mod 256" "a = 256 * b + a mod 256" "b = 256 * c + b mod 256" by (simp_all add: defs)
  moreover have "c < 256" using n by (simp add: defs flip: div_mult2_eq)
  moreover have "k = 256 * a + x \<Longrightarrow> a = 256 * b + y \<Longrightarrow> b = 256 * c + z \<Longrightarrow> c * 2 ^ 24 + z * 2 ^ 16 + y * 2 ^ 8 + x = k" for k x y z
    by simp
  ultimately show ?thesis unfolding d by (simp only: unat_of_nat) simp
qed

lemma unpad_pad: "pad p = Inr b \<Longrightarrow> unpad b = Inr p"
  using byte_digits [of "length p"]
  by (auto simp: pad_iff unpad_def MAX_PLAINTEXT_BYTES_def Let_def numeral_3_eq_3 simp del: unat_of_nat of_nat_numeral)

lemma unpad_bounds: "unpad b = Inr p \<Longrightarrow> length p \<le> 65536 \<and> length p + 4 \<le> length b \<and> p = take (length p) (drop 4 b)"
  by (auto simp: unpad_def MAX_PLAINTEXT_BYTES_def Let_def split: if_splits)

text \<open>
  C36. The padding is exact and hides the length: a plaintext is refused exactly above 64 KiB, what
  was padded is read back whatever it ends in, the padded length is a multiple of 256 and the same
  for two plaintexts of one 256-byte bucket, and no buffer makes the reader go past its end or the
  limit.
\<close>

theorem padding_hides_length:
  "((\<exists>b. pad p = Inr b) \<longleftrightarrow> length p \<le> 65536) \<and>
   (\<forall>b. pad p = Inr b \<longrightarrow> unpad b = Inr p \<and> 256 dvd length b \<and> length b < length p + 260 \<and>
     (\<forall>q c. pad q = Inr c \<longrightarrow> (length b = length c \<longleftrightarrow> (length p + 3) div 256 = (length q + 3) div 256))) \<and>
   (\<forall>b q. unpad b = Inr q \<longrightarrow> length q \<le> 65536 \<and> q = take (length q) (drop 4 b) \<and> length q + 4 \<le> length b)"
proof -
  have "(n + 259) div 256 = (n + 3) div 256 + 1" for n :: nat by (simp add: add.commute div_add_self2 [of 256 "n + 3", symmetric])
  then have "padded_length n = padded_length m \<longleftrightarrow> (n + 3) div 256 = (m + 3) div 256" for n m by (simp add: padded_length_def)
  moreover have "padded_length n < n + 260" for n
    using mult_div_mod_eq [of 256 "n + 259"] by (simp add: padded_length_def)
  ultimately show ?thesis
    using length_pad unpad_pad unpad_bounds pad_refuses [of p] by (auto simp: padded_length_def)
qed

theorem padding_hides_length_witness:
  "(\<exists>b c. pad (replicate 3 7) = Inr b \<and> pad (replicate 252 7) = Inr c \<and> unpad b = Inr (replicate 3 7) \<and> length b = length c)"
proof -
  obtain b where b: "pad (replicate 3 7) = Inr b" using pad_refuses [of "replicate 3 7"] by auto
  obtain c where c: "pad (replicate 252 7) = Inr c" using pad_refuses [of "replicate 252 7"] by auto
  have "length b = length c" "unpad b = Inr (replicate 3 7)"
    using padding_hides_length [of "replicate 3 7"] b c by simp_all
  then show ?thesis using b c by blast
qed

section \<open>Who can open an envelope\<close>

text \<open>
  What the clients rely on in the libraries: X25519 agrees on both sides, keys and hashes have 32
  bytes, and ChaCha20-Poly1305 opens what it sealed and adds a tag.
\<close>

definition box_laws :: "box_suite \<Rightarrow> bool" where
  "box_laws su \<longleftrightarrow>
    (\<forall>a b. bx_shared su a (bx_public su b) = bx_shared su b (bx_public su a)) \<and>
    (\<forall>k. length k = 32 \<longrightarrow> length (bx_public su k) = 32) \<and>
    (\<forall>m. length (bx_sha256 su m) = 32) \<and>
    (\<forall>k n a p. bx_decrypt su k n a (bx_encrypt su k n a p) = Some p \<and> length p + 16 \<le> length (bx_encrypt su k n a p))"

text \<open>A block made for another key that this private key opens: a forgery of the cipher.\<close>

definition opens_foreign :: "box_suite \<Rightarrow> byte list \<Rightarrow> (byte list \<times> byte list) list \<Rightarrow> byte list \<Rightarrow> bool" where
  "opens_foreign su secret rs k \<longleftrightarrow>
    list_ex (\<lambda>(e, r). r \<noteq> bx_public su k \<and>
      (case wrap su e secret r of Inl _ \<Rightarrow> False | Inr b \<Rightarrow> unwrap su b k (bx_public su k) \<noteq> None)) rs"

lemma bytesEqual_refl [simp]: "bytesEqual a a"
proof -
  have "fold (\<lambda>(x, y) d. or d (xor x y)) (zip a a) (0 :: byte) = 0" by (induction a) simp_all
  then show ?thesis by (simp add: bytesEqual_def)
qed

text \<open>The search fails exactly when no block it may try opens.\<close>

lemma try_blocks_None:
  "try_blocks su om want k self bs = None \<longleftrightarrow> (\<forall>b \<in> set bs. (om \<longrightarrow> bytesEqual (bk_id b) want) \<longrightarrow> unwrap su b k self = None)"
  by (induction bs) (auto split: option.splits)

lemma try_blocks_SomeD: "try_blocks su om want k self bs = Some x \<Longrightarrow> \<exists>b \<in> set bs. unwrap su b k self = Some x"
  by (induction bs) (auto split: option.splits if_splits)

lemma wrap_allD: "wrap_all su secret rs = Inr bs \<Longrightarrow> list_all2 (\<lambda>(e, r) b. wrap su e secret r = Inr b) rs bs"
  by (induction rs arbitrary: bs) (auto split: sum.splits)

lemma wrap_all_in:
  assumes "wrap_all su secret rs = Inr bs" and "b \<in> set bs"
  obtains e r where "(e, r) \<in> set rs" and "wrap su e secret r = Inr b"
  using wrap_allD [OF assms(1)] assms(2) by (induction rs bs rule: list_all2_induct) auto

lemma wrap_all_has:
  assumes "wrap_all su secret rs = Inr bs" and "(e, r) \<in> set rs"
  obtains b where "b \<in> set bs" and "wrap su e secret r = Inr b"
  using wrap_allD [OF assms(1)] assms(2) by (induction rs bs rule: list_all2_induct) auto

lemma own_block_opens:
  assumes "box_laws su" and "wrap su e secret (bx_public su k) = Inr b" and "length secret = 32"
  shows "unwrap su b k (bx_public su k) = Some secret" and "bk_id b = keyId su (bx_public su k)"
  using assms by (auto simp: wrap_def unwrap_def box_laws_def CONTENT_KEY_BYTES_def Let_def split: if_splits option.splits)

text \<open>Whatever opens is the content key, and the blocks that open are those made for the reader.\<close>

lemma opened_is_own:
  assumes "box_laws su" and "wrap_all su secret rs = Inr bs" and "length secret = 32"
    and "\<not> opens_foreign su secret rs k" and "b \<in> set bs" and "unwrap su b k (bx_public su k) = Some x"
  shows "x = secret" and "bx_public su k \<in> snd ` set rs"
proof -
  obtain e r where r: "(e, r) \<in> set rs" "wrap su e secret r = Inr b" using wrap_all_in [OF assms(2,5)] by blast
  then have "r = bx_public su k"
    using assms(4,6) unfolding opens_foreign_def list_ex_iff by force
  then show "x = secret" "bx_public su k \<in> snd ` set rs"
    using own_block_opens(1) [OF assms(1) _ assms(3)] r assms(6) by force+
qed

definition found_key :: "box_suite \<Rightarrow> byte list \<Rightarrow> block list \<Rightarrow> byte list option" where
  "found_key su k bs = (let self = bx_public su k; want = keyId su self in
     case try_blocks su True want k self bs of Some x \<Rightarrow> Some x | None \<Rightarrow> try_blocks su False want k self bs)"

lemma found_key_sealed:
  assumes "box_laws su" and "wrap_all su secret rs = Inr bs" and "length secret = 32" and "\<not> opens_foreign su secret rs k"
  shows "found_key su k bs = (if bx_public su k \<in> snd ` set rs then Some secret else None)"
proof -
  have own: "try_blocks su om want k (bx_public su k) bs \<in> {None, Some secret}" for om want
    using opened_is_own(1) [OF assms] try_blocks_SomeD [of su om want k "bx_public su k" bs]
    by (cases "try_blocks su om want k (bx_public su k) bs") auto
  show ?thesis
  proof (cases "bx_public su k \<in> snd ` set rs")
    case True
    then obtain e where "(e, bx_public su k) \<in> set rs" by auto
    then obtain b where b: "b \<in> set bs" "wrap su e secret (bx_public su k) = Inr b" by (rule wrap_all_has [OF assms(2)])
    note opens = own_block_opens [OF assms(1) b(2) assms(3)]
    have "try_blocks su True (keyId su (bx_public su k)) k (bx_public su k) bs \<noteq> None"
      unfolding try_blocks_None using b(1) opens by (metis bytesEqual_refl option.distinct(1))
    then show ?thesis using own [of True "keyId su (bx_public su k)"] True by (auto simp: found_key_def Let_def)
  next
    case False
    then have "unwrap su b k (bx_public su k) = None" if "b \<in> set bs" for b
      using opened_is_own(2) [OF assms that] by fastforce
    then have "try_blocks su om want k (bx_public su k) bs = None" for om want
      unfolding try_blocks_None by blast
    then show ?thesis using False by (simp add: found_key_def Let_def)
  qed
qed

text \<open>How an envelope opens, case by case.\<close>

lemma openPayload_cases:
  assumes "ev_version env = 1" and "length (ev_nonce env) = 12" and "length k = 32"
  shows "openPayload su w env k aad =
    (case found_key su k (ev_recipients env) of
       None \<Rightarrow> Inl (Unreadable NO_BLOCK)
     | Some x \<Rightarrow>
         (case bx_decrypt su x (ev_nonce env) aad (ev_ciphertext env) of
            None \<Rightarrow> Inl (Malformed NOT_AUTHENTIC)
          | Some padded \<Rightarrow>
              (case unpad padded of
                 Inl err \<Rightarrow> Inl err
               | Inr plaintext \<Rightarrow>
                   (case metadata_decode w plaintext of None \<Rightarrow> Inl (Plain_error []) | Some m \<Rightarrow> Inr m))))"
  using assms by (simp add: openPayload_def found_key_def ENVELOPE_VERSION_def NONCE_BYTES_def VIEWING_KEY_BYTES_def Let_def)

lemma sealPayloadD:
  assumes "sealPayload su w p rs aad ck nonce = Inr env"
  obtains padded blocks where "pad (metadata_encode w p) = Inr padded" and "wrap_all su ck rs = Inr blocks"
    and "env = \<lparr>ev_version = 1, ev_recipients = blocks, ev_nonce = nonce, ev_ciphertext = bx_encrypt su ck nonce aad padded\<rparr>"
    and "length (md_salt p) = 32"
proof (cases "rs = [] \<or> length (md_salt p) \<noteq> METADATA_SALT_BYTES")
  case True
  then show ?thesis using assms by (simp add: sealPayload_def split: if_splits)
next
  case False
  then obtain padded blocks where "pad (metadata_encode w p) = Inr padded" "wrap_all su ck rs = Inr blocks"
    using assms by (simp add: sealPayload_def split: sum.splits)
  then show ?thesis using assms False by (intro that) (auto simp: sealPayload_def ENVELOPE_VERSION_def METADATA_SALT_BYTES_def)
qed

text \<open>What fits in a padded plaintext is read back.\<close>

lemma padded_metadata_back:
  assumes "protobuf w" and "pad (metadata_encode w p) = Inr padded" and "length (md_salt p) = 32"
  shows "metadata_decode w (metadata_encode w p) = Some p"
proof (rule protobuf.metadata_back [OF assms(1)])
  have le: "length (metadata_encode w p) \<le> 65536" using assms(2) pad_refuses by blast
  have "length (md_purpose p) \<le> length (metadata_encode w p)" "length (md_remittance p) \<le> length (metadata_encode w p)"
    using protobuf.carried(2) [OF assms(1), of "md_purpose p"] protobuf.carried(2) [OF assms(1), of "md_remittance p"]
    by (simp_all add: metadata_encode_def)
  then show "length (md_purpose p) < 2 ^ 32" "length (md_remittance p) < 2 ^ 32" using le by simp_all
qed (use assms(3) in simp)

lemma sealed_opens:
  assumes "protobuf w" and "box_laws su" and "length ck = 32" and "length nonce = 12" and "length k = 32"
    and "pad (metadata_encode w p) = Inr padded" and "wrap_all su ck rs = Inr blocks"
    and "env = \<lparr>ev_version = 1, ev_recipients = blocks, ev_nonce = nonce, ev_ciphertext = bx_encrypt su ck nonce aad padded\<rparr>"
    and "length (md_salt p) = 32" and "\<not> opens_foreign su ck rs k" and "bx_public su k \<in> snd ` set rs"
  shows "openPayload su w env k aad = Inr p"
proof -
  have "bx_decrypt su ck nonce aad (bx_encrypt su ck nonce aad padded) = Some padded"
    using assms(2) by (simp add: box_laws_def)
  then show ?thesis
    using found_key_sealed [OF assms(2,7,3,10)] unpad_pad [OF assms(6)] padded_metadata_back [OF assms(1,6,9)] assms(4,5,11)
    by (simp add: assms(8) openPayload_cases)
qed

text \<open>
  C12. An envelope opens for exactly those it was sealed to. Unless some private key opens a block made
  for another, every recipient gets the sealed detail back; a recipient who names another payment or
  holds an altered body that does not authenticate is told the envelope is damaged; and anybody else
  is told it is not addressed to them, whatever was done to the body.
\<close>

theorem envelope_opens_for_its_recipients:
  assumes "protobuf w" and "box_laws su" and "length ck = 32" and "length nonce = 12" and "length k = 32"
    and sealed: "sealPayload su w p rs aad ck nonce = Inr env" and "\<not> opens_foreign su ck rs k"
  shows "if bx_public su k \<in> snd ` set rs
    then openPayload su w env k aad = Inr p \<and>
      (\<forall>aad' c. bx_decrypt su ck nonce aad' c = None \<longrightarrow>
        openPayload su w (env\<lparr>ev_ciphertext := c\<rparr>) k aad' = Inl (Malformed NOT_AUTHENTIC))
    else \<forall>aad' c. openPayload su w (env\<lparr>ev_ciphertext := c\<rparr>) k aad' = Inl (Unreadable NO_BLOCK)"
proof -
  obtain padded blocks where s: "pad (metadata_encode w p) = Inr padded" "wrap_all su ck rs = Inr blocks"
    "env = \<lparr>ev_version = 1, ev_recipients = blocks, ev_nonce = nonce, ev_ciphertext = bx_encrypt su ck nonce aad padded\<rparr>"
    "length (md_salt p) = 32"
    using sealPayloadD [OF sealed] by blast
  note found = found_key_sealed [OF assms(2) s(2) assms(3,7)]
  show ?thesis
    using found sealed_opens [OF assms(1-5) s(1-4) assms(7)] assms(4,5) by (simp add: s(3) openPayload_cases)
qed

section \<open>A small suite that obeys the laws\<close>

definition small_suite :: box_suite where
  "small_suite = \<lparr>bx_public = id, bx_shared = (\<lambda>a b. Some (map2 xor a b)), bx_sha256 = (\<lambda>m. take 32 (m @ replicate 32 0)),
     bx_hkdf = (@), bx_encrypt = (\<lambda>k n a p. replicate 16 0 @ k @ n @ a @ p),
     bx_decrypt = (\<lambda>k n a c. if take (length (k @ n @ a)) (drop 16 c) = k @ n @ a then Some (drop (length (k @ n @ a)) (drop 16 c)) else None)\<rparr>"

lemma small_suite_laws: "box_laws small_suite"
proof -
  have "map2 xor a b = map2 xor b a" for a b :: "byte list"
    by (induction a b rule: list_induct2') (simp_all add: xor.commute)
  then show ?thesis by (auto simp: box_laws_def small_suite_def min_def)
qed

definition sample_detail :: metadata where
  "sample_detail = \<lparr>md_salt = replicate 32 7, md_purpose = ''SALA'', md_remittance = ''March salary''\<rparr>"

definition sample_recipients :: "(byte list \<times> byte list) list" where
  "sample_recipients = [(replicate 32 1, replicate 32 2), (replicate 32 3, replicate 32 4)]"

definition sample_envelope :: envelope where
  "sample_envelope = (case sealPayload small_suite varint_wire sample_detail sample_recipients (paymentAad ''bank'' ''E2E-1'')
     (replicate 32 9) (replicate 12 5) of Inr env \<Rightarrow> env | Inl _ \<Rightarrow> envelope_base)"

lemma small_wrap: "length r = 32 \<Longrightarrow> wrap small_suite e s r = Inr \<lparr>bk_id = keyId small_suite r, bk_ephemeral = e,
    bk_wrapped = replicate 16 0 @ deriveWrappingKey small_suite (map2 xor e r) e r @ replicate 12 0 @ keyId small_suite r @ s\<rparr>"
  by (simp add: wrap_def small_suite_def VIEWING_KEY_BYTES_def NONCE_BYTES_def Let_def)

lemma sample_encoded: "length (metadata_encode varint_wire sample_detail) \<le> 65536"
  by (simp add: metadata_encode_def sample_detail_def varint_wire_def delimited_def varint.simps)

lemma sample_sealed:
  "sealPayload small_suite varint_wire sample_detail sample_recipients (paymentAad ''bank'' ''E2E-1'') (replicate 32 9) (replicate 12 5)
    = Inr sample_envelope"
proof -
  obtain padded where "pad (metadata_encode varint_wire sample_detail) = Inr padded" using sample_encoded pad_refuses by blast
  moreover have "length (md_salt sample_detail) = METADATA_SALT_BYTES" "sample_recipients \<noteq> []"
    by (simp_all add: sample_detail_def METADATA_SALT_BYTES_def sample_recipients_def)
  moreover obtain blocks where "wrap_all small_suite (replicate 32 9) sample_recipients = Inr blocks"
    by (simp add: sample_recipients_def small_wrap)
  ultimately show ?thesis unfolding sample_envelope_def sealPayload_def by simp
qed

lemma sample_foreign: "j \<noteq> 2 \<Longrightarrow> \<not> opens_foreign small_suite (replicate 32 9) sample_recipients (replicate 32 j)"
  by (simp add: opens_foreign_def sample_recipients_def small_wrap unwrap_def)
    (simp add: small_suite_def keyId_def deriveWrappingKey_def NONCE_BYTES_def KEY_ID_BYTES_def)

theorem envelope_opens_for_its_recipients_witness:
  "openPayload small_suite varint_wire sample_envelope (replicate 32 4) (paymentAad ''bank'' ''E2E-1'') = Inr sample_detail \<and>
   openPayload small_suite varint_wire (sample_envelope\<lparr>ev_ciphertext := []\<rparr>) (replicate 32 6) (paymentAad ''bank'' ''E2E-1'') = Inl (Unreadable NO_BLOCK)"
proof -
  have "bx_public small_suite (replicate 32 4) \<in> snd ` set sample_recipients"
    "bx_public small_suite (replicate 32 6) \<notin> snd ` set sample_recipients"
    by (simp_all add: small_suite_def sample_recipients_def)
  then show ?thesis
    using envelope_opens_for_its_recipients [OF pb.protobuf_axioms small_suite_laws _ _ _ sample_sealed sample_foreign [of 4]]
      envelope_opens_for_its_recipients [OF pb.protobuf_axioms small_suite_laws _ _ _ sample_sealed sample_foreign [of 6]]
    by (simp split: if_splits)
qed

text \<open>
  \<open>newPaymentMetadata\<close> counts UTF-16 units where the chain's \<open>ValidateMetadataFields\<close> counts bytes: the
  two limits agree on ASCII, and a remittance line the client accepts can have three times as many.
\<close>

lemma utf16_length_ascii: "\<forall>c \<in> set s. of_char c < (0x80 :: nat) \<Longrightarrow> utf16_length s = length s"
  by (induction s) (simp_all add: utf16_length_def)

lemma accented_detail_passes:
  "newPaymentMetadata salt [] (concat (replicate 140 [CHR 0xC3, CHR 0xA9])) =
     Inr \<lparr>md_salt = salt, md_purpose = [], md_remittance = concat (replicate 140 [CHR 0xC3, CHR 0xA9])\<rparr> \<and>
   length (concat (replicate 140 [CHR 0xC3, CHR 0xA9])) = 280"
proof -
  have "utf16_length (concat (replicate n [CHR 0xC3, CHR 0xA9])) = n" for n
    by (induction n) (simp_all add: utf16_length_def)
  moreover have "length (concat (replicate n [CHR 0xC3, CHR 0xA9])) = 2 * n" for n by (induction n) simp_all
  moreover have "utf16_length [] = 0" by (simp add: utf16_length_def)
  ultimately show ?thesis unfolding newPaymentMetadata_def MAX_PURPOSE_CODE_def MAX_REMITTANCE_def by simp
qed

end
