(* ===== verification/PayloadStore.thy ===== *)
theory PayloadStore imports Sealing begin

text \<open>
  Reading a payment's detail from a participant's store (clients/sdk/src/payloadstore.ts). The two
  HTTP exchanges are arguments: \<open>asked\<close> is the answer to \<open>/challenge\<close>, \<open>answered h\<close> the answer to the
  request that carries the header \<open>h\<close>; each is \<open>None\<close> where \<open>fetch\<close> or \<open>json()\<close> throws, and otherwise
  \<open>response.ok\<close> with the parsed body, itself \<open>None\<close> for the JSON value \<open>null\<close>.
\<close>

section \<open>Outcomes\<close>

datatype reason = Erased | Never_stored | No_such_payment | No_store_registered | Not_entitled | Unproven
  | Store_unreachable | Not_the_recorded_payload

text \<open>\<open>Caught\<close> is \<open>String(caught)\<close>, the text of whatever was thrown.\<close>

datatype detail = No_detail | Detail string | Caught

datatype payload_result = Available metadata | Unavailable reason detail

fun describeUnavailable :: "reason \<Rightarrow> string" where
  "describeUnavailable Erased = ''Detail unavailable '' @ EM_DASH @ '' the payment detail was erased. The payment itself is unchanged and still verifies.''"
| "describeUnavailable Never_stored = ''Detail unavailable '' @ EM_DASH @ '' no detail was stored for this payment.''"
| "describeUnavailable No_such_payment = ''Detail unavailable '' @ EM_DASH @ '' the chain records no payment with this reference.''"
| "describeUnavailable No_store_registered = ''Detail unavailable '' @ EM_DASH @ '' the instructing institution publishes no payload store.''"
| "describeUnavailable Not_entitled = ''Detail unavailable '' @ EM_DASH @ '' you are not recorded as a party to this payment.''"
| "describeUnavailable Unproven = ''Detail unavailable '' @ EM_DASH @ '' your viewing key could not be verified.''"
| "describeUnavailable Store_unreachable = ''Detail unavailable '' @ EM_DASH @ '' the institution'' @ APOS @ ''s payload store could not be reached.''"
| "describeUnavailable Not_the_recorded_payload = ''Detail unavailable '' @ EM_DASH @ '' the stored payload is not the one this payment recorded.''"

record store_response =
  sr_status :: "string option"
  sr_reason :: "string option"
  sr_detail :: "string option"
  sr_envelope :: "string option"
  sr_challenge_id :: "string option"
  sr_ephemeral :: "string option"
  sr_wrapped :: "string option"
  sr_key_id :: "string option"

type_synonym http = "(bool \<times> store_response option) option"

definition reasonOf :: "store_response \<Rightarrow> reason" where
  "reasonOf body =
    (if sr_reason body = Some ''erased'' then Erased
     else if sr_reason body = Some ''never_stored'' then Never_stored
     else if sr_reason body = Some ''no_such_payment'' then No_such_payment
     else if sr_reason body = Some ''not_entitled'' then Not_entitled
     else if sr_reason body = Some ''unproven'' then Unproven
     else Store_unreachable)"

section \<open>The client\<close>

definition trim_slash :: "string \<Rightarrow> string" where
  "trim_slash url = (if url \<noteq> [] \<and> last url = CHR ''/'' then butlast url else url)"

text \<open>\<open>encodeURIComponent\<close>.\<close>

definition unreserved :: "char \<Rightarrow> bool" where
  "unreserved c \<longleftrightarrow> c \<in> set upper_alphabet \<or> c \<in> set lower_alphabet \<or> is_digit c \<or> c \<in> set ''-_.!~*()'' \<or> c = CHR 0x27"

definition upper_hex :: "nat \<Rightarrow> char" where
  "upper_hex n = ''0123456789ABCDEF'' ! n"

definition component_char :: "char \<Rightarrow> string" where
  "component_char c = (if unreserved c then [c] else [CHR ''%'', upper_hex (of_char c div 16), upper_hex (of_char c mod 16)])"

definition encode_component :: "string \<Rightarrow> string" where
  "encode_component s = concat (map component_char s)"

definition endpoint :: "string \<Rightarrow> string \<Rightarrow> string \<Rightarrow> string" where
  "endpoint base participant e2e = base @ ''/payloads/'' @ encode_component participant @ ''/'' @ encode_component e2e"

definition filled :: "string option \<Rightarrow> bool" where
  "filled v \<longleftrightarrow> v \<noteq> None \<and> v \<noteq> Some []"

text \<open>\<open>None\<close> where it throws.\<close>

definition authorise :: "box_suite \<Rightarrow> byte list \<Rightarrow> http \<Rightarrow> string option" where
  "authorise su viewingKey asked =
    (case asked of
       Some (ok, Some body) \<Rightarrow>
         if \<not> ok \<or> \<not> filled (sr_challenge_id body) \<or> \<not> filled (sr_ephemeral body) \<or> \<not> filled (sr_wrapped body) \<or> \<not> filled (sr_key_id body)
         then None
         else (case (atob (the (sr_key_id body)), atob (the (sr_ephemeral body)), atob (the (sr_wrapped body))) of
             (Some i, Some e, Some k) \<Rightarrow>
               (case openRecipientBlock su \<lparr>bk_id = i, bk_ephemeral = e, bk_wrapped = k\<rparr> viewingKey of
                  Inl _ \<Rightarrow> None
                | Inr nonce \<Rightarrow> Some (''Yamale '' @ the (sr_challenge_id body) @ '':'' @ btoa nonce))
           | _ \<Rightarrow> None)
     | _ \<Rightarrow> None)"

text \<open>\<open>None\<close> where the promise is rejected.\<close>

definition fetchPayload ::
  "box_suite \<Rightarrow> wire_lib \<Rightarrow> byte list \<Rightarrow> http \<Rightarrow> (string \<Rightarrow> http) \<Rightarrow> string \<Rightarrow> string \<Rightarrow> byte list \<Rightarrow> payload_result option" where
  "fetchPayload su w viewingKey asked answered participant e2e recorded =
    (case Option.bind (authorise su viewingKey asked) answered of
       None \<Rightarrow> Some (Unavailable Store_unreachable Caught)
     | Some (ok, None) \<Rightarrow> None
     | Some (ok, Some body) \<Rightarrow>
         if \<not> ok \<or> sr_status body \<noteq> Some ''ok'' \<or> \<not> filled (sr_envelope body)
         then Some (Unavailable (reasonOf body) (case sr_detail body of None \<Rightarrow> No_detail | Some d \<Rightarrow> Detail d))
         else (case atob (the (sr_envelope body)) of
             None \<Rightarrow> Some (Unavailable Not_the_recorded_payload Caught)
           | Some bytes \<Rightarrow>
               (case decodeEnvelope w bytes of
                  Inl _ \<Rightarrow> Some (Unavailable Not_the_recorded_payload Caught)
                | Inr env \<Rightarrow>
                    (case openPayload su w env viewingKey (paymentAad participant e2e) of
                       Inl _ \<Rightarrow> Some (Unavailable Not_the_recorded_payload Caught)
                     | Inr payload \<Rightarrow>
                         (case verifyMetadata su w payload recorded of
                            Inl _ \<Rightarrow> Some (Unavailable Not_the_recorded_payload Caught)
                          | Inr verified \<Rightarrow>
                              if \<not> verified then Some (Unavailable Not_the_recorded_payload No_detail)
                              else Some (Available payload))))))"

definition sealForStore ::
  "box_suite \<Rightarrow> wire_lib \<Rightarrow> metadata \<Rightarrow> (byte list \<times> byte list) list \<Rightarrow> string \<Rightarrow> string \<Rightarrow> byte list \<Rightarrow> byte list \<Rightarrow> envelope_error + byte list" where
  "sealForStore su w payload recipients participant e2e contentKey nonce =
    (case sealPayload su w payload recipients (paymentAad participant e2e) contentKey nonce of
       Inl err \<Rightarrow> Inl err | Inr env \<Rightarrow> Inr (encodeEnvelope w env))"

definition viewingKeyPublic :: "box_suite \<Rightarrow> byte list \<Rightarrow> byte list" where
  "viewingKeyPublic su privateKey = bx_public su privateKey"

section \<open>Verification compares the hashes\<close>

lemma or_zero: "or (a :: byte) b = 0 \<longleftrightarrow> a = 0 \<and> b = 0"
  by (auto simp: bit_eq_iff bit_or_iff)

lemma xor_zero: "xor (a :: byte) b = 0 \<longleftrightarrow> a = b"
  by (auto simp: bit_eq_iff bit_xor_iff)

lemma fold_differ: "fold (\<lambda>i d. or d (xor (f i) (g i))) xs (d :: byte) = 0 \<longleftrightarrow> d = 0 \<and> (\<forall>i \<in> set xs. f i = g i)"
  by (induction xs arbitrary: d) (auto simp: or_zero xor_zero)

lemma verified_iff:
  assumes "box_laws su"
  shows "verifyMetadata su w p recorded = Inr True \<longleftrightarrow>
    length recorded = 32 \<and> length (md_salt p) = 32 \<and> bx_sha256 su (metadata_encode w p) = recorded"
proof -
  let ?h = "bx_sha256 su (metadata_encode w p)"
  have len: "length ?h = 32" using assms by (simp add: box_laws_def)
  have "(\<forall>i < 32. byte_at ?h i = byte_at recorded i) \<longleftrightarrow> ?h = recorded" if "length recorded = 32"
    using that len by (auto simp: byte_at_def intro: nth_equalityI)
  then show ?thesis
    by (auto simp: verifyMetadata_def metadataHash_def METADATA_HASH_BYTES_def METADATA_SALT_BYTES_def fold_differ atLeast0LessThan simp del: upt_Suc upt_conv_Cons_Cons)
qed

section \<open>What the store can and cannot make the client show\<close>

lemma fetch_available:
  "fetchPayload su w k asked answered participant e2e recorded = Some (Available p) \<longleftrightarrow>
    (\<exists>h body bytes env. authorise su k asked = Some h \<and> answered h = Some (True, Some body) \<and> sr_status body = Some ''ok'' \<and>
      filled (sr_envelope body) \<and> atob (the (sr_envelope body)) = Some bytes \<and> decodeEnvelope w bytes = Inr env \<and>
      openPayload su w env k (paymentAad participant e2e) = Inr p \<and> verifyMetadata su w p recorded = Inr True)"
  by (auto simp: fetchPayload_def Option.bind_eq_Some_conv split: option.splits sum.splits prod.splits if_splits bool.splits)

text \<open>
  C18. A detail that is shown is the one the payment recorded: its encoding hashes to the value on the
  chain and it carries a full salt. And it comes from nowhere but the store: the bytes the store answered
  with, to the reader whose key opened its challenge, decode to an envelope whose content key the
  reader's own key unwraps, whose ciphertext decrypts only as sealed for this participant and
  this payment reference, and whose plaintext, its padding taken off, is that detail.
\<close>

theorem available_detail_is_the_recorded_one:
  assumes "box_laws su" and "fetchPayload su w k asked answered participant e2e recorded = Some (Available p)"
  shows "bx_sha256 su (metadata_encode w p) = recorded \<and> length recorded = 32 \<and> length (md_salt p) = 32 \<and>
    (\<exists>h body text bytes (env :: envelope) x padded.
      authorise su k asked = Some h \<and> answered h = Some (True, Some body) \<and>
      sr_status body = Some ''ok'' \<and> sr_envelope body = Some text \<and> atob text = Some bytes \<and> decodeEnvelope w bytes = Inr env \<and>
      found_key su k (ev_recipients env) = Some x \<and>
      bx_decrypt su x (ev_nonce env) (paymentAad participant e2e) (ev_ciphertext env) = Some padded \<and>
      (\<exists>plain. unpad padded = Inr plain \<and> metadata_decode w plain = Some p))"
proof -
  obtain h body bytes env where a: "authorise su k asked = Some h" "answered h = Some (True, Some body)"
      "sr_status body = Some ''ok''" "filled (sr_envelope body)" "atob (the (sr_envelope body)) = Some bytes"
    and env: "decodeEnvelope w bytes = Inr env" "openPayload su w env k (paymentAad participant e2e) = Inr p"
    and v: "verifyMetadata su w p recorded = Inr True"
    using assms(2) unfolding fetch_available by blast
  obtain t where t: "sr_envelope body = Some t" using a(4) by (auto simp: filled_def)
  have "ev_version env = 1 \<and> length (ev_nonce env) = 12 \<and> length k = 32"
    using env(2) by (simp add: openPayload_def ENVELOPE_VERSION_def NONCE_BYTES_def VIEWING_KEY_BYTES_def split: if_splits)
  then obtain x padded b where o: "found_key su k (ev_recipients env) = Some x"
      "bx_decrypt su x (ev_nonce env) (paymentAad participant e2e) (ev_ciphertext env) = Some padded"
      "unpad padded = Inr b" "metadata_decode w b = Some p"
    using env(2) by (auto simp: openPayload_cases split: option.splits sum.splits)
  have "bx_sha256 su (metadata_encode w p) = recorded" "length recorded = 32" "length (md_salt p) = 32"
    using v verified_iff [OF assms(1)] by blast+
  moreover have "atob t = Some bytes" using a(5) t by simp
  ultimately show ?thesis using a(1-3) t env(1) o by blast
qed

text \<open>
  Every other outcome is named for what happened. Erasure, absence and refusal are shown only when
  the store said so, and the accusation that the payload is not the recorded one only for an envelope
  the store called good; the promise is rejected exactly when the store answered with the JSON value
  \<open>null\<close>, the one answer that has no name.
\<close>

theorem outcomes_are_the_stores_answers:
  "(\<forall>r d. fetchPayload su w k asked answered participant e2e recorded = Some (Unavailable r d) \<longrightarrow> r \<noteq> Store_unreachable \<longrightarrow>
     (\<exists>h ok body. authorise su k asked = Some h \<and> answered h = Some (ok, Some body) \<and>
        (if r = Not_the_recorded_payload then ok \<and> sr_status body = Some ''ok'' \<and> filled (sr_envelope body)
         else r \<noteq> No_store_registered \<and> sr_reason body \<noteq> None \<and> reasonOf body = r))) \<and>
   (fetchPayload su w k asked answered participant e2e recorded = None \<longleftrightarrow>
     (\<exists>h ok. authorise su k asked = Some h \<and> answered h = Some (ok, None)))"
proof (cases "Option.bind (authorise su k asked) answered")
  case None
  then have "fetchPayload su w k asked answered participant e2e recorded = Some (Unavailable Store_unreachable Caught)"
    by (simp add: fetchPayload_def)
  moreover have "authorise su k asked = Some h \<Longrightarrow> answered h = None" for h using None by simp
  ultimately show ?thesis by auto
next
  case (Some r)
  then obtain h where h: "authorise su k asked = Some h" "answered h = Some r" by (auto simp: Option.bind_eq_Some_conv)
  obtain ok b where r: "r = (ok, b)" by (cases r)
  show ?thesis
  proof (cases b)
    case None
    then show ?thesis using h r by (auto simp: fetchPayload_def)
  next
    case (Some body)
    have known: "reasonOf body \<notin> {Not_the_recorded_payload, No_store_registered}"
      "reasonOf body \<noteq> Store_unreachable \<Longrightarrow> sr_reason body \<noteq> None"
      by (cases "sr_reason body"; simp add: reasonOf_def)+
    show ?thesis
      using known h r Some
      by (cases "\<not> ok \<or> sr_status body \<noteq> Some ''ok'' \<or> \<not> filled (sr_envelope body)")
        (auto simp: fetchPayload_def split: option.splits sum.splits if_splits)
  qed
qed

section \<open>From the payer's back office to the reader\<close>

lemma btoa_empty: "btoa bs = [] \<longleftrightarrow> bs = []"
  by (cases bs rule: btoa.cases) simp_all

lemma wrapD:
  assumes "wrap su e secret r = Inr b" and "box_laws su"
  shows "length r = 32" and "bk_id b = keyId su r" and "bk_ephemeral b = bx_public su e" and "bk_wrapped b \<noteq> []" and "bk_id b \<noteq> []"
proof -
  have tag: "bx_encrypt su k n a p \<noteq> []" for k n a p
    using assms(2) unfolding box_laws_def by (metis add_leD2 list.size(3) not_numeral_le_zero)
  have "length (bx_sha256 su r) = 32" using assms(2) by (simp add: box_laws_def)
  then have "keyId su r \<noteq> []" by (auto simp: keyId_def KEY_ID_BYTES_def)
  then show "length r = 32" "bk_id b = keyId su r" "bk_ephemeral b = bx_public su e" "bk_wrapped b \<noteq> []" "bk_id b \<noteq> []"
    using assms(1) tag by (auto simp: wrap_def VIEWING_KEY_BYTES_def Let_def split: if_splits option.splits)
qed

text \<open>The store's challenge, as it answers \<open>/challenge\<close>.\<close>

definition challenge_body :: "string \<Rightarrow> block \<Rightarrow> store_response" where
  "challenge_body i b = \<lparr>sr_status = None, sr_reason = None, sr_detail = None, sr_envelope = None, sr_challenge_id = Some i,
     sr_ephemeral = Some (btoa (bk_ephemeral b)), sr_wrapped = Some (btoa (bk_wrapped b)), sr_key_id = Some (btoa (bk_id b))\<rparr>"

lemma challenge_answered:
  assumes "box_laws su" and "length k = 32" and "length ce = 32" and "i \<noteq> []"
    and "sealToViewingKey su ce n (viewingKeyPublic su k) = Inr b"
  shows "authorise su k (Some (True, Some (challenge_body i b))) = Some (''Yamale '' @ i @ '':'' @ btoa n)"
proof -
  have w: "wrap su ce n (bx_public su k) = Inr b" and n: "length n = 32"
    using assms(5) by (auto simp: sealToViewingKey_def viewingKeyPublic_def CONTENT_KEY_BYTES_def split: if_splits)
  have "bk_ephemeral b \<noteq> []" using wrapD(3) [OF w assms(1)] assms(1,3) unfolding box_laws_def by (metis list.size(3) zero_neq_numeral)
  moreover have "openRecipientBlock su b k = Inr n"
    using own_block_opens(1) [OF assms(1) w n] assms(2) by (simp add: openRecipientBlock_def VIEWING_KEY_BYTES_def)
  ultimately show ?thesis
    using wrapD(4,5) [OF w assms(1)] assms(4) by (cases b) (simp add: authorise_def challenge_body_def filled_def btoa_empty)
qed

definition envelope_body :: "byte list \<Rightarrow> store_response" where
  "envelope_body bytes = \<lparr>sr_status = Some ''ok'', sr_reason = None, sr_detail = None, sr_envelope = Some (btoa bytes),
     sr_challenge_id = None, sr_ephemeral = None, sr_wrapped = None, sr_key_id = None\<rparr>"

lemma store_path:
  assumes "protobuf w" and "box_laws su" and "length ck = 32" and "length nonce = 12" and "length k = 32" and "length ce = 32" and "i \<noteq> []"
    and sealed: "sealPayload su w p rs (paymentAad participant e2e) ck nonce = Inr env" and "envelope_fits w env"
    and "sealForStore su w p rs participant e2e ck nonce = Inr bytes"
    and "viewingKeyPublic su k \<in> snd ` set rs" and "\<not> opens_foreign su ck rs k"
    and "sealToViewingKey su ce n (viewingKeyPublic su k) = Inr b"
    and "answered (''Yamale '' @ i @ '':'' @ btoa n) = Some (True, Some (envelope_body bytes))"
  shows "fetchPayload su w k (Some (True, Some (challenge_body i b))) answered participant e2e recorded =
    Some (if metadataHash su w p = Inr recorded then Available p else Unavailable Not_the_recorded_payload No_detail)"
proof -
  have bytes: "bytes = envelope_encode w env" using assms(10) sealed by (simp add: sealForStore_def encodeEnvelope_def)
  obtain padded blocks where s: "pad (metadata_encode w p) = Inr padded" "wrap_all su ck rs = Inr blocks"
    "env = \<lparr>ev_version = 1, ev_recipients = blocks, ev_nonce = nonce, ev_ciphertext = bx_encrypt su ck nonce (paymentAad participant e2e) padded\<rparr>"
    and salt: "length (md_salt p) = 32"
    using sealPayloadD [OF sealed] by blast
  have "ev_version env = 1" by (simp add: s(3))
  then have "bytes \<noteq> []" using protobuf.uint32_written [OF assms(1)] by (simp add: bytes envelope_encode_def)
  moreover have "decodeEnvelope w bytes = Inr env"
    by (simp add: bytes decodeEnvelope_def protobuf.envelope_back [OF assms(1,9)])
  moreover have "openPayload su w env k (paymentAad participant e2e) = Inr p"
    by (rule sealed_opens [OF assms(1,2,3,4,5) s salt assms(12) assms(11) [unfolded viewingKeyPublic_def]])
  moreover have "verifyMetadata su w p recorded = Inr (metadataHash su w p = Inr recorded)"
    using verified_iff [OF assms(2), of w p recorded] salt assms(2)
    by (cases "verifyMetadata su w p recorded") (auto simp: verifyMetadata_def metadataHash_def METADATA_SALT_BYTES_def METADATA_HASH_BYTES_def box_laws_def split: if_splits)
  ultimately show ?thesis
    using challenge_answered [OF assms(2,5,6,7,13)] assms(14)
    by (simp add: fetchPayload_def envelope_body_def filled_def btoa_empty)
qed

text \<open>
  C19. The whole path works: a detail sealed for a payment, handed out by a store that challenges the
  reader's registered key and serves it to the right answer, is shown to every recipient exactly as
  it was sealed when the chain recorded its hash, and refused under any other hash.
\<close>

theorem stored_detail_reaches_its_reader:
  assumes "protobuf w" and "box_laws su" and "length ck = 32" and "length nonce = 12" and "length k = 32" and "length ce = 32" and "i \<noteq> []"
    and sealed: "sealPayload su w p rs (paymentAad participant e2e) ck nonce = Inr env" and "envelope_fits w env"
    and "sealForStore su w p rs participant e2e ck nonce = Inr bytes"
    and "viewingKeyPublic su k \<in> snd ` set rs" and "\<not> opens_foreign su ck rs k"
    and "sealToViewingKey su ce n (viewingKeyPublic su k) = Inr b"
    and "answered (''Yamale '' @ i @ '':'' @ btoa n) = Some (True, Some (envelope_body bytes))"
  shows "fetchPayload su w k (Some (True, Some (challenge_body i b))) answered participant e2e recorded =
    Some (if metadataHash su w p = Inr recorded then Available p else Unavailable Not_the_recorded_payload No_detail)"
  by (rule store_path [where answered = answered, OF assms])

definition sample_bytes :: "byte list" where
  "sample_bytes = encodeEnvelope varint_wire sample_envelope"

definition sample_challenge :: block where
  "sample_challenge = (case sealToViewingKey small_suite (replicate 32 8) (replicate 32 11) (replicate 32 4) of Inr b \<Rightarrow> b | Inl _ \<Rightarrow> block_base)"

definition sample_store :: "string \<Rightarrow> http" where
  "sample_store h = (if h = ''Yamale c1:'' @ btoa (replicate 32 11) then Some (True, Some (envelope_body sample_bytes)) else None)"

lemma varint_length: "length (varint n) \<le> Suc n"
proof (induction n rule: varint.induct)
  case (1 n)
  show ?case using 1 by (subst varint.simps) (auto intro: order_trans simp: Suc_le_eq le_less_trans [OF _ div_less_dividend])
qed

lemma block_length: "length (block_encode varint_wire b) \<le> 100 + 2 * (length (bk_id b) + length (bk_ephemeral b) + length (bk_wrapped b))"
  using varint_length [of 10] varint_length [of 18] varint_length [of 26] varint_length [of "length (bk_id b)"]
    varint_length [of "length (bk_ephemeral b)"] varint_length [of "length (bk_wrapped b)"]
  by (simp add: block_encode_def varint_wire_def delimited_def)

lemma sample_fits: "envelope_fits varint_wire sample_envelope"
proof -
  obtain padded blocks where s: "pad (metadata_encode varint_wire sample_detail) = Inr padded"
    "wrap_all small_suite (replicate 32 9) sample_recipients = Inr blocks"
    "sample_envelope = \<lparr>ev_version = 1, ev_recipients = blocks, ev_nonce = replicate 12 5,
      ev_ciphertext = bx_encrypt small_suite (replicate 32 9) (replicate 12 5) (paymentAad ''bank'' ''E2E-1'') padded\<rparr>"
    using sealPayloadD [OF sample_sealed] by blast
  have len: "length padded \<le> 65536 + 260"
    using length_pad [OF s(1)] sample_encoded mult_div_mod_eq [of 256 "length (metadata_encode varint_wire sample_detail) + 259"]
    by (simp add: padded_length_def)
  have "block_fits b \<and> length (block_encode varint_wire b) < 2 ^ 32" if mem: "b \<in> set blocks" for b
  proof -
    obtain e r where "(e, r) \<in> set sample_recipients" and wrapped: "wrap small_suite e (replicate 32 9) r = Inr b"
      by (rule wrap_all_in [OF s(2) mem])
    then have "length e = 32" "length r = 32" by (auto simp: sample_recipients_def)
    moreover have "b = \<lparr>bk_id = keyId small_suite r, bk_ephemeral = e,
        bk_wrapped = replicate 16 0 @ deriveWrappingKey small_suite (map2 xor e r) e r @ replicate 12 0 @ keyId small_suite r @ replicate 32 9\<rparr>"
      using wrapped small_wrap [OF \<open>length r = 32\<close>, of e "replicate 32 9"] by simp
    ultimately have "length (bk_id b) = 8" "length (bk_ephemeral b) = 32" "length (bk_wrapped b) < 1000"
      by (simp_all add: small_suite_def keyId_def KEY_ID_BYTES_def deriveWrappingKey_def ENVELOPE_DOMAIN_def)
    then show ?thesis using block_length [of b] by (simp add: block_fits_def)
  qed
  moreover have "length (bx_encrypt small_suite (replicate 32 9) (replicate 12 5) (paymentAad ''bank'' ''E2E-1'') padded) < 2 ^ 32"
    using len by (simp add: small_suite_def paymentAad_def ENVELOPE_DOMAIN_def)
  ultimately show ?thesis by (simp add: envelope_fits_def s(3))
qed

lemma sample_path:
  "sealForStore small_suite varint_wire sample_detail sample_recipients ''bank'' ''E2E-1'' (replicate 32 9) (replicate 12 5) = Inr sample_bytes"
  "viewingKeyPublic small_suite (replicate 32 4) \<in> snd ` set sample_recipients"
  "sealToViewingKey small_suite (replicate 32 8) (replicate 32 11) (viewingKeyPublic small_suite (replicate 32 4)) = Inr sample_challenge"
  "sample_store (''Yamale '' @ ''c1'' @ '':'' @ btoa (replicate 32 11)) = Some (True, Some (envelope_body sample_bytes))"
proof -
  show "sealForStore small_suite varint_wire sample_detail sample_recipients ''bank'' ''E2E-1'' (replicate 32 9) (replicate 12 5) = Inr sample_bytes"
    by (simp add: sealForStore_def sample_sealed sample_bytes_def)
  have k: "viewingKeyPublic small_suite (replicate 32 4) = replicate 32 4" by (simp add: viewingKeyPublic_def small_suite_def)
  then show "viewingKeyPublic small_suite (replicate 32 4) \<in> snd ` set sample_recipients" by (simp add: sample_recipients_def)
  show "sealToViewingKey small_suite (replicate 32 8) (replicate 32 11) (viewingKeyPublic small_suite (replicate 32 4)) = Inr sample_challenge"
    unfolding k by (simp add: sample_challenge_def sealToViewingKey_def small_wrap CONTENT_KEY_BYTES_def)
qed (simp add: sample_store_def)

theorem stored_detail_reaches_its_reader_witness:
  "fetchPayload small_suite varint_wire (replicate 32 4) (Some (True, Some (challenge_body ''c1'' sample_challenge))) sample_store
     ''bank'' ''E2E-1'' (bx_sha256 small_suite (metadata_encode varint_wire sample_detail)) = Some (Available sample_detail)"
  using stored_detail_reaches_its_reader [where answered = sample_store, OF pb.protobuf_axioms small_suite_laws _ _ _ _ _
      sample_sealed sample_fits sample_path(1,2) sample_foreign [of 4] sample_path(3,4)]
  by (simp add: metadataHash_def sample_detail_def METADATA_SALT_BYTES_def)

theorem available_detail_is_the_recorded_one_witness:
  "length (bx_sha256 small_suite (metadata_encode varint_wire sample_detail)) = 32"
proof -
  have "fetchPayload small_suite varint_wire (replicate 32 4) (Some (True, Some (challenge_body ''c1'' sample_challenge))) sample_store
     ''bank'' ''E2E-1'' (bx_sha256 small_suite (metadata_encode varint_wire sample_detail)) = Some (Available sample_detail)"
    using store_path [where answered = sample_store, OF pb.protobuf_axioms small_suite_laws _ _ _ _ _
      sample_sealed sample_fits sample_path(1,2) sample_foreign [of 4] sample_path(3,4)]
    by (simp add: metadataHash_def sample_detail_def METADATA_SALT_BYTES_def)
  from available_detail_is_the_recorded_one [OF small_suite_laws this] show ?thesis by simp
qed

text \<open>A store that says the detail was erased, and one that answers \<open>null\<close>.\<close>

theorem outcomes_are_the_stores_answers_witness:
  "fetchPayload small_suite varint_wire (replicate 32 4) None (\<lambda>h. None) ''bank'' ''E2E-1'' [] \<noteq> None \<and>
   (\<forall>d. fetchPayload small_suite varint_wire (replicate 32 4) None (\<lambda>h. Some (True, None)) ''bank'' ''E2E-1'' [] \<noteq>
     Some (Unavailable Erased d))"
  using outcomes_are_the_stores_answers [of small_suite varint_wire "replicate 32 4" None "\<lambda>h. None" "''bank''" "''E2E-1''" "[]"]
    outcomes_are_the_stores_answers [of small_suite varint_wire "replicate 32 4" None "\<lambda>h. Some (True, None)" "''bank''" "''E2E-1''" "[]"]
  by fastforce

section \<open>One path per payment\<close>

text \<open>No escaped character starts another, and none holds a slash: the two segments cannot run together.\<close>

lemma upper_hex_inj: "i < 16 \<Longrightarrow> j < 16 \<Longrightarrow> upper_hex i = upper_hex j \<Longrightarrow> i = j"
proof -
  have "distinct ''0123456789ABCDEF''" "length ''0123456789ABCDEF'' = 16" by simp_all
  then show "i < 16 \<Longrightarrow> j < 16 \<Longrightarrow> upper_hex i = upper_hex j \<Longrightarrow> i = j"
    unfolding upper_hex_def by (metis nth_eq_iff_index_eq)
qed

lemma hex_pair_inj:
  assumes "upper_hex (of_char c div 16) = upper_hex (of_char d div 16)" and "upper_hex (of_char c mod 16) = upper_hex (of_char d mod 16)"
  shows "c = d"
proof -
  have "of_char x div 16 < (16 :: nat)" for x :: char using nat_of_char_less_256 [of x] by (simp add: div_less_iff_less_mult)
  then have "of_char c div 16 = (of_char d div 16 :: nat)" "of_char c mod 16 = (of_char d mod 16 :: nat)"
    using assms by (auto intro: upper_hex_inj)
  then have "(of_char c :: nat) = of_char d" by (metis div_mod_decomp)
  then show ?thesis by simp
qed

lemma component_prefix: "component_char c @ s = component_char d @ t \<longleftrightarrow> c = d \<and> s = t"
proof -
  have "\<not> unreserved CHR ''%''" by code_simp
  then show ?thesis using hex_pair_inj [of c d] by (auto simp: component_char_def)
qed

lemma component_ne: "component_char c @ s \<noteq> []" by (simp add: component_char_def)

lemma encode_component_inj: "encode_component s = encode_component t \<Longrightarrow> s = t"
proof (induction s arbitrary: t)
  case Nil
  then show ?case using component_ne by (cases t) (auto simp: encode_component_def)
next
  case (Cons c s)
  then obtain d t' where "t = d # t'" using component_ne by (cases t) (auto simp: encode_component_def)
  then show ?case using Cons component_prefix [of c _ d] by (simp add: encode_component_def)
qed

lemma upper_hex_digit: "i < 16 \<Longrightarrow> upper_hex i \<noteq> CHR ''/''"
proof -
  have "\<forall>i < 16. upper_hex i \<noteq> CHR ''/''" unfolding upper_hex_def by code_simp
  then show "i < 16 \<Longrightarrow> upper_hex i \<noteq> CHR ''/''" by blast
qed

lemma no_slash: "CHR ''/'' \<notin> set (encode_component s)"
proof -
  have "\<not> unreserved CHR ''/''" by code_simp
  moreover have "of_char c div 16 < (16 :: nat)" for c :: char using nat_of_char_less_256 [of c] by (simp add: div_less_iff_less_mult)
  ultimately have "CHR ''/'' \<notin> set (component_char c)" for c
    using upper_hex_digit [of "of_char c div 16"] upper_hex_digit [of "of_char c mod 16"] by (auto simp: component_char_def)
  then show ?thesis by (simp add: encode_component_def)
qed

lemma endpoint_separates_payments:
  "endpoint base p e = endpoint base p' e' \<longleftrightarrow> p = p' \<and> e = e'"
proof -
  have "takeWhile (\<lambda>c. c \<noteq> CHR ''/'') (encode_component q @ CHR ''/'' # t) = encode_component q" for q t
    using no_slash [of q] by (subst takeWhile_append2) auto
  then have "encode_component p @ CHR ''/'' # encode_component e = encode_component p' @ CHR ''/'' # encode_component e' \<Longrightarrow>
      encode_component p = encode_component p'" by metis
  then show ?thesis by (auto simp: endpoint_def dest: encode_component_inj)
qed

end
