(* ===== verification/LocalStore.thy ===== *)
theory LocalStore imports Json Base64 UserId Envelope begin

text \<open>
  What the SDK keeps in \<open>localStorage\<close>: one item of JSON text holding an object, read whole, changed at
  one key and written back. The locale \<open>json_object\<close> is the contract of such a store, a map from keys
  to values; the payment details (clients/sdk/src/metadata.ts) and the address book
  (clients/sdk/src/addressbook.ts) are its two instances.
\<close>

section \<open>The stored object\<close>

text \<open>\<open>read\<close>: absent, empty or unreadable text is an empty object.\<close>

definition read_store :: "string option \<Rightarrow> json" where
  "read_store item = (case item of
     None \<Rightarrow> JObj []
   | Some raw \<Rightarrow> if raw = [] then JObj [] else (case json_parse raw of None \<Rightarrow> JObj [] | Some j \<Rightarrow> j))"

text \<open>
  \<open>store[key] = value\<close> on what was read, with \<open>None\<close> where it throws: on \<open>null\<close>, and in strict code on any
  other primitive. A property of an array that is no index is dropped by \<open>JSON.stringify\<close>.
\<close>

definition put_key :: "string \<Rightarrow> json \<Rightarrow> json \<Rightarrow> json option" where
  "put_key k v j = (case j of JObj ms \<Rightarrow> Some (JObj (map_set k v ms)) | JArr xs \<Rightarrow> Some (JArr xs) | _ \<Rightarrow> None)"

text \<open>\<open>delete store[key]\<close> throws on \<open>null\<close> only.\<close>

definition delete_key :: "string \<Rightarrow> json \<Rightarrow> json option" where
  "delete_key k j = (case j of JObj ms \<Rightarrow> Some (JObj (map_del k ms)) | JNull \<Rightarrow> None | _ \<Rightarrow> Some j)"

definition write_store :: "json \<Rightarrow> string option" where
  "write_store j = Some (json_stringify j)"

text \<open>
  A store that only its own code wrote: an object with each key once, and under each key the JSON of a
  value. \<open>lookup\<close> is the map it stands for.
\<close>

locale json_object =
  fixes to_json :: "'v \<Rightarrow> json" and of_json :: "json \<Rightarrow> 'v option"
  assumes textual_json: "textual (to_json v)" and json_back: "of_json (to_json v) = Some v"
begin

definition lookup :: "string option \<Rightarrow> string \<Rightarrow> 'v option" where
  "lookup item k = Option.bind (member k (read_store item)) of_json"

definition own :: "string option \<Rightarrow> bool" where
  "own item \<longleftrightarrow> (\<exists>ms. read_store item = JObj ms \<and> distinct (map fst ms) \<and> (\<forall>m \<in> set ms. snd m \<in> range to_json))"

lemma own_fresh: "own None" "own (Some [])" "json_parse raw = None \<Longrightarrow> own (Some raw)"
  by (auto simp: own_def read_store_def)

lemma read_written: "distinct (map fst ms) \<Longrightarrow> \<forall>m \<in> set ms. snd m \<in> range to_json \<Longrightarrow> read_store (write_store (JObj ms)) = JObj ms"
proof -
  assume "distinct (map fst ms)" "\<forall>m \<in> set ms. snd m \<in> range to_json"
  then have "textual (JObj ms)" using textual_json by auto
  moreover have "json_stringify (JObj ms) \<noteq> []" by simp
  ultimately show ?thesis by (simp add: read_store_def write_store_def stringify_parse del: json_stringify.simps)
qed

lemma values_map_set: "\<forall>m \<in> set ms. P (snd m) \<Longrightarrow> P v \<Longrightarrow> \<forall>m \<in> set (map_set k v ms). P (snd m)"
  by (induction k v ms rule: map_set.induct) auto

lemma ownI: "read_store item = JObj ms \<Longrightarrow> distinct (map fst ms) \<Longrightarrow> \<forall>m \<in> set ms. snd m \<in> range to_json \<Longrightarrow> own item"
  unfolding own_def by blast

lemma reread: "own item \<Longrightarrow> read_store (write_store (read_store item)) = read_store item"
  unfolding own_def using read_written by auto

text \<open>Saving is an update of the map, and removing an erasure.\<close>

lemma put_own:
  assumes "own item"
  obtains j where "put_key k (to_json v) (read_store item) = Some j" and "own (write_store j)"
    and "lookup (write_store j) = (lookup item)(k \<mapsto> v)" and "read_store (write_store j) = j"
proof -
  obtain ms where ms: "read_store item = JObj ms" "distinct (map fst ms)" "\<forall>m \<in> set ms. snd m \<in> range to_json"
    using assms unfolding own_def by blast
  have r: "read_store (write_store (JObj (map_set k (to_json v) ms))) = JObj (map_set k (to_json v) ms)"
    using ms values_map_set [of ms "\<lambda>x. x \<in> range to_json" "to_json v" k] by (intro read_written) auto
  show ?thesis
  proof (rule that)
    show "put_key k (to_json v) (read_store item) = Some (JObj (map_set k (to_json v) ms))" by (simp add: put_key_def ms(1))
    show "own (write_store (JObj (map_set k (to_json v) ms)))"
      using ms values_map_set [of ms "\<lambda>x. x \<in> range to_json" "to_json v" k] by (intro ownI [OF r]) auto
    show "lookup (write_store (JObj (map_set k (to_json v) ms))) = (lookup item)(k \<mapsto> v)"
      by (rule ext) (simp add: lookup_def r ms(1) member_def json_back)
  qed (rule r)
qed

lemma delete_own:
  assumes "own item"
  obtains j where "delete_key k (read_store item) = Some j" and "own (write_store j)"
    and "lookup (write_store j) = (lookup item)(k := None)"
proof -
  obtain ms where ms: "read_store item = JObj ms" "distinct (map fst ms)" "\<forall>m \<in> set ms. snd m \<in> range to_json"
    using assms unfolding own_def by blast
  have v: "\<forall>m \<in> set (map_del k ms). snd m \<in> range to_json" using ms(3) by (simp add: map_del_def)
  have r: "read_store (write_store (JObj (map_del k ms))) = JObj (map_del k ms)"
    using ms(2) v by (intro read_written) auto
  show ?thesis
  proof (rule that)
    show "delete_key k (read_store item) = Some (JObj (map_del k ms))" by (simp add: delete_key_def ms(1))
    show "own (write_store (JObj (map_del k ms)))" using ms(2) v by (intro ownI [OF r]) auto
    show "lookup (write_store (JObj (map_del k ms))) = (lookup item)(k := None)"
      by (rule ext) (simp add: lookup_def r ms(1) member_def)
  qed
qed

end

section \<open>Payment details (metadata.ts)\<close>

definition STORAGE_KEY :: string where "STORAGE_KEY = ''yamale.paymsg.metadata.v1''"

definition storageKey :: "string \<Rightarrow> string \<Rightarrow> string" where
  "storageKey instructing e2e = instructing @ ''/'' @ e2e"

text \<open>A \<open>StoredPayload\<close> is the payload and when it was saved.\<close>

definition stored_json :: "metadata \<times> string \<Rightarrow> json" where
  "stored_json s = JObj [(''salt'', JStr (btoa (md_salt (fst s)))), (''purposeCode'', JStr (md_purpose (fst s))),
     (''remittanceInformation'', JStr (md_remittance (fst s))), (''savedAt'', JStr (snd s))]"

definition json_text :: "json option \<Rightarrow> string option" where
  "json_text j = (case j of Some (JStr s) \<Rightarrow> Some s | _ \<Rightarrow> None)"

text \<open>Only entries of the stored shape are modelled, the ones this code writes.\<close>

definition json_stored :: "json \<Rightarrow> (metadata \<times> string) option" where
  "json_stored j =
    Option.bind (json_text (member ''salt'' j)) (\<lambda>s. Option.bind (atob s) (\<lambda>salt.
    Option.bind (json_text (member ''purposeCode'' j)) (\<lambda>p.
    Option.bind (json_text (member ''remittanceInformation'' j)) (\<lambda>r.
    Option.bind (json_text (member ''savedAt'' j)) (\<lambda>at.
      Some (\<lparr>md_salt = salt, md_purpose = p, md_remittance = r\<rparr>, at))))))"

text \<open>\<open>now\<close> is \<open>new Date().toISOString()\<close>. The result is the new item, \<open>None\<close> where writing throws.\<close>

definition savePaymentMetadata :: "string \<Rightarrow> string option \<Rightarrow> string \<Rightarrow> string \<Rightarrow> metadata \<Rightarrow> string option option" where
  "savePaymentMetadata now item instructing e2e payload =
    map_option write_store (put_key (storageKey instructing e2e) (stored_json (payload, now)) (read_store item))"

definition loadPaymentMetadata :: "string option \<Rightarrow> string \<Rightarrow> string \<Rightarrow> metadata option" where
  "loadPaymentMetadata item instructing e2e =
    map_option fst (Option.bind (member (storageKey instructing e2e) (read_store item)) json_stored)"

interpretation details: json_object stored_json json_stored
proof unfold_locales
  show "json_stored (stored_json v) = Some v" for v
    by (cases v; cases "fst v") (simp add: stored_json_def json_stored_def json_text_def member_def)
qed (simp add: stored_json_def)

lemma load_lookup: "loadPaymentMetadata item p e = map_option fst (details.lookup item (storageKey p e))"
  by (simp add: loadPaymentMetadata_def details.lookup_def)

lemma storageKey_inj:
  assumes "CHR ''/'' \<notin> set p" and "CHR ''/'' \<notin> set q"
  shows "storageKey p e = storageKey q f \<longleftrightarrow> p = q \<and> e = f"
proof -
  have "takeWhile (\<lambda>c. c \<noteq> CHR ''/'') (x @ CHR ''/'' # t) = x" if "CHR ''/'' \<notin> set x" for x t
    using that by (subst takeWhile_append2) auto
  then show ?thesis using assms unfolding storageKey_def by (metis append_Cons append_Nil same_append_eq list.inject)
qed

text \<open>
  The browser's store of payment details is a map from payments to details. As long as only this
  code wrote the item, saving succeeds, keeps the item so, makes the saved payment read back to the
  saved detail and changes what no other payment reads back to; an absent or unreadable item is the
  empty map.
\<close>

theorem saved_details_are_a_map:
  assumes "details.own item" and "CHR ''/'' \<notin> set p"
  shows "(\<exists>item'. savePaymentMetadata now item p e m = Some item' \<and> details.own item' \<and>
      (\<forall>q f. CHR ''/'' \<notin> set q \<longrightarrow>
        loadPaymentMetadata item' q f = (if (q, f) = (p, e) then Some m else loadPaymentMetadata item q f))) \<and>
    details.own None \<and> loadPaymentMetadata None q f = None"
proof -
  obtain j where j: "put_key (storageKey p e) (stored_json (m, now)) (read_store item) = Some j" "details.own (write_store j)"
    "details.lookup (write_store j) = (details.lookup item)(storageKey p e \<mapsto> (m, now))"
    using details.put_own [OF assms(1)] by blast
  have "loadPaymentMetadata (write_store j) q f = (if (q, f) = (p, e) then Some m else loadPaymentMetadata item q f)"
    if "CHR ''/'' \<notin> set q" for q f
    using storageKey_inj [OF that assms(2), of f e] by (simp add: load_lookup j(3))
  then have "\<exists>item'. savePaymentMetadata now item p e m = Some item' \<and> details.own item' \<and>
      (\<forall>q f. CHR ''/'' \<notin> set q \<longrightarrow>
        loadPaymentMetadata item' q f = (if (q, f) = (p, e) then Some m else loadPaymentMetadata item q f))"
    using j(1,2) by (intro exI [of _ "write_store j"]) (simp add: savePaymentMetadata_def)
  then show ?thesis by (simp add: details.own_fresh load_lookup details.lookup_def read_store_def member_def)
qed

theorem saved_details_are_a_map_witness:
  "\<exists>item'. savePaymentMetadata ''2026-08-26T00:00:00.000Z'' None ''bank'' ''a/b'' \<lparr>md_salt = [1, 2], md_purpose = ''SALA'', md_remittance = ''x''\<rparr> = Some item' \<and>
    loadPaymentMetadata item' ''bank'' ''a/b'' = Some \<lparr>md_salt = [1, 2], md_purpose = ''SALA'', md_remittance = ''x''\<rparr> \<and>
    loadPaymentMetadata item' ''bank'' ''a'' = None"
  using saved_details_are_a_map [of None "''bank''" "''2026-08-26T00:00:00.000Z''" "''a/b''" "\<lparr>md_salt = [1, 2], md_purpose = ''SALA'', md_remittance = ''x''\<rparr>" "''bank''" "''a''"]
  by (auto simp: details.own_fresh)

end
