(* ===== verification/AddressBook.thy ===== *)
theory AddressBook imports LocalStore begin

text \<open>
  The SDK's address book (clients/sdk/src/addressbook.ts): private names for accounts in the browser's
  storage, and the one rule for what an account is called on screen.
\<close>

record contact =
  co_address :: string
  co_pseudonym :: string
  co_user_id :: "string option"
  co_note :: "string option"
  co_added_at :: string

definition optional_member :: "string \<Rightarrow> string option \<Rightarrow> (string \<times> json) list" where
  "optional_member k v = (case v of None \<Rightarrow> [] | Some s \<Rightarrow> [(k, JStr s)])"

text \<open>\<open>JSON.stringify\<close> leaves a member that is \<open>undefined\<close> out.\<close>

definition contact_json :: "contact \<Rightarrow> json" where
  "contact_json c = JObj ([(''address'', JStr (co_address c)), (''pseudonym'', JStr (co_pseudonym c))] @
     optional_member ''userId'' (co_user_id c) @ optional_member ''note'' (co_note c) @ [(''addedAt'', JStr (co_added_at c))])"

text \<open>A member that is not a text, which this code never writes, is not modelled.\<close>

definition json_contact :: "json \<Rightarrow> contact option" where
  "json_contact j =
    Option.bind (json_text (member ''address'' j)) (\<lambda>a.
    Option.bind (json_text (member ''pseudonym'' j)) (\<lambda>p.
    Option.bind (json_text (member ''addedAt'' j)) (\<lambda>t.
      Some \<lparr>co_address = a, co_pseudonym = p, co_user_id = json_text (member ''userId'' j),
        co_note = json_text (member ''note'' j), co_added_at = t\<rparr>)))"

interpretation book: json_object contact_json json_contact
proof unfold_locales
  show "textual (contact_json v)" for v
    by (cases "co_user_id v"; cases "co_note v") (simp_all add: contact_json_def optional_member_def)
  show "json_contact (contact_json v) = Some v" for v
    by (cases v; cases "co_user_id v"; cases "co_note v")
      (simp_all add: contact_json_def json_contact_def optional_member_def json_text_def member_def)
qed

section \<open>Operations\<close>

definition getContact :: "string option \<Rightarrow> string \<Rightarrow> contact option" where
  "getContact item address = Option.bind (member address (read_store item)) json_contact"

text \<open>\<open>added\<close> is \<open>contact.addedAt\<close>, and \<open>now\<close> the time it defaults to.\<close>

definition stamp :: "string \<Rightarrow> contact \<Rightarrow> string option \<Rightarrow> contact" where
  "stamp now c added = c\<lparr>co_added_at := (case added of None \<Rightarrow> now | Some t \<Rightarrow> t)\<rparr>"

definition saveContact :: "string \<Rightarrow> string option \<Rightarrow> contact \<Rightarrow> string option \<Rightarrow> string option option" where
  "saveContact now item c added =
    map_option write_store (put_key (co_address c) (contact_json (stamp now c added)) (read_store item))"

definition removeContact :: "string option \<Rightarrow> string \<Rightarrow> string option option" where
  "removeContact item address = map_option write_store (delete_key address (read_store item))"

text \<open>
  \<open>importBook\<close> after \<open>JSON.parse\<close>: \<open>None\<close> in the list is an element without an address or a pseudonym, which
  is skipped. The loop carries the book and the count.
\<close>

fun import_loop :: "string \<Rightarrow> (contact \<times> string option) option list \<Rightarrow> json \<Rightarrow> nat \<Rightarrow> (json \<times> nat) option" where
  "import_loop now [] b n = Some (b, n)"
| "import_loop now (None # cs) b n = import_loop now cs b n"
| "import_loop now (Some (c, added) # cs) b n =
     Option.bind (put_key (co_address c) (contact_json (stamp now c added)) b) (\<lambda>b'. import_loop now cs b' (n + 1))"

definition importBook :: "string \<Rightarrow> string option \<Rightarrow> (contact \<times> string option) option list \<Rightarrow> (string option \<times> nat) option" where
  "importBook now item cs = map_option (apfst write_store) (import_loop now cs (read_store item) 0)"

section \<open>The display rule\<close>

datatype name_kind = By_pseudonym | By_user_id | By_address

record display_name =
  dn_label :: string
  dn_kind :: name_kind
  dn_address :: string

definition truncate_address :: "string \<Rightarrow> string" where
  "truncate_address a = (if length a \<le> 20 then a
     else take 10 a @ [CHR 0xE2, CHR 0x80, CHR 0xA6] @ drop (length a - 4) a)"

text \<open>The second and third tier: a registered user id, else the address.\<close>

definition by_id_or_address :: "string \<Rightarrow> (string \<Rightarrow> string option) option \<Rightarrow> display_name" where
  "by_id_or_address address lookupUserId =
    (case Option.bind lookupUserId (\<lambda>f. f address) of
       Some u \<Rightarrow> if u \<noteq> [] then \<lparr>dn_label = formatUserId u, dn_kind = By_user_id, dn_address = address\<rparr>
         else \<lparr>dn_label = truncate_address address, dn_kind = By_address, dn_address = address\<rparr>
     | None \<Rightarrow> \<lparr>dn_label = truncate_address address, dn_kind = By_address, dn_address = address\<rparr>)"

definition displayName :: "string option \<Rightarrow> string \<Rightarrow> (string \<Rightarrow> string option) option \<Rightarrow> display_name" where
  "displayName item address lookupUserId =
    (case getContact item address of
       Some c \<Rightarrow> if co_pseudonym c \<noteq> [] then \<lparr>dn_label = co_pseudonym c, dn_kind = By_pseudonym, dn_address = address\<rparr>
         else by_id_or_address address lookupUserId
     | None \<Rightarrow> by_id_or_address address lookupUserId)"

section \<open>The book is a map, whatever is done to it\<close>

lemma get_lookup: "getContact item = book.lookup item"
  by (rule ext) (simp add: getContact_def book.lookup_def)

text \<open>A sequence of operations, on the stored text and on the map it stands for.\<close>

datatype book_op = Save string contact "string option" | Remove string | Import string "(contact \<times> string option) option list"

definition book_step :: "book_op \<Rightarrow> string option \<Rightarrow> string option option" where
  "book_step a item = (case a of
     Save now c added \<Rightarrow> saveContact now item c added
   | Remove address \<Rightarrow> removeContact item address
   | Import now cs \<Rightarrow> map_option fst (importBook now item cs))"

definition map_step :: "book_op \<Rightarrow> (string \<rightharpoonup> contact) \<Rightarrow> (string \<rightharpoonup> contact)" where
  "map_step a m = (case a of
     Save now c added \<Rightarrow> m(co_address c \<mapsto> stamp now c added)
   | Remove address \<Rightarrow> m(address := None)
   | Import now cs \<Rightarrow> fold (\<lambda>e m. case e of None \<Rightarrow> m | Some (c, added) \<Rightarrow> m(co_address c \<mapsto> stamp now c added)) cs m)"

fun book_run :: "book_op list \<Rightarrow> string option \<Rightarrow> string option option" where
  "book_run [] item = Some item"
| "book_run (a # as) item = Option.bind (book_step a item) (book_run as)"

lemma stamp_address [simp]: "co_address (stamp now c added) = co_address c" by (simp add: stamp_def)

lemma import_own:
  assumes "book.own item"
  shows "\<exists>j. import_loop now cs (read_store item) n = Some (j, n + length (filter (\<lambda>e. e \<noteq> None) cs)) \<and> book.own (write_store j) \<and>
    book.lookup (write_store j) =
      fold (\<lambda>e m. case e of None \<Rightarrow> m | Some (c, added) \<Rightarrow> m(co_address c \<mapsto> stamp now c added)) cs (book.lookup item)"
  using assms
proof (induction cs arbitrary: item n)
  case Nil
  then show ?case by (simp add: book.own_def book.lookup_def book.reread [OF Nil] fun_eq_iff)
next
  case (Cons e cs)
  show ?case
  proof (cases e)
    case None
    then show ?thesis using Cons.IH [OF Cons.prems] by simp
  next
    case (Some ca)
    obtain c added where e: "e = Some (c, added)" using Some by (cases ca) simp
    obtain j where j: "put_key (co_address c) (contact_json (stamp now c added)) (read_store item) = Some j" "book.own (write_store j)"
      "book.lookup (write_store j) = (book.lookup item)(co_address c \<mapsto> stamp now c added)" "read_store (write_store j) = j"
      using book.put_own [OF Cons.prems] by blast
    show ?thesis using Cons.IH [OF j(2), of "Suc n", unfolded j(3,4)] by (simp add: e j(1) del: fun_upd_apply)
  qed
qed

lemma step_own:
  assumes "book.own item"
  shows "\<exists>item'. book_step a item = Some item' \<and> book.own item' \<and> book.lookup item' = map_step a (book.lookup item)"
proof (cases a)
  case (Save now c added)
  obtain j where "put_key (co_address c) (contact_json (stamp now c added)) (read_store item) = Some j" "book.own (write_store j)"
      "book.lookup (write_store j) = (book.lookup item)(co_address c \<mapsto> stamp now c added)"
    using book.put_own [OF assms] by blast
  then show ?thesis using Save by (simp add: book_step_def saveContact_def map_step_def)
next
  case (Remove address)
  obtain j where "delete_key address (read_store item) = Some j" "book.own (write_store j)"
      "book.lookup (write_store j) = (book.lookup item)(address := None)"
    using book.delete_own [OF assms] by blast
  then show ?thesis using Remove by (simp add: book_step_def removeContact_def map_step_def)
next
  case (Import now cs)
  then show ?thesis using import_own [OF assms, of now cs 0] by (auto simp: book_step_def importBook_def map_step_def)
qed

text \<open>
  C25. The address book refines a map from addresses to contacts: from an empty, unreadable or own item,
  any sequence of saves, removals and imports succeeds, leaves an item of the same kind, and what is
  read back is what the same sequence does to the map. An imported contact never removes another.
\<close>

theorem address_book_refines_a_map:
  assumes "book.own item"
  shows "\<exists>item'. book_run as item = Some item' \<and> book.own item' \<and> getContact item' = fold map_step as (getContact item)"
  using assms
proof (induction as arbitrary: item)
  case (Cons a as)
  obtain item1 where s: "book_step a item = Some item1" "book.own item1" "book.lookup item1 = map_step a (book.lookup item)"
    using step_own [OF Cons.prems] by blast
  then show ?case using Cons.IH [OF s(2)] by (simp add: get_lookup)
qed simp

definition sample_contact :: contact where
  "sample_contact = \<lparr>co_address = ''yml1abc'', co_pseudonym = ''Mum'', co_user_id = Some ''NGK3M97QRTB'', co_note = None, co_added_at = []\<rparr>"

theorem address_book_refines_a_map_witness:
  "\<exists>item. book_run [Save ''2026'' sample_contact None, Import ''2027'' [None, Some (sample_contact\<lparr>co_address := ''yml1xyz''\<rparr>, None)], Remove ''yml1xyz''] None = Some item \<and>
    map_option co_pseudonym (getContact item ''yml1abc'') = Some ''Mum'' \<and> getContact item ''yml1xyz'' = None"
  using address_book_refines_a_map [OF book.own_fresh(1),
      of "[Save ''2026'' sample_contact None, Import ''2027'' [None, Some (sample_contact\<lparr>co_address := ''yml1xyz''\<rparr>, None)], Remove ''yml1xyz'']"]
  by (auto simp: map_step_def stamp_def sample_contact_def)

end
