(* ===== verification/PayeeBook.thy ===== *)
theory PayeeBook imports UserId begin

text \<open>
  The wallet app's own address book (clients/app/src/book.ts): contacts a person saved, and recent
  payees they did not. The two items of \<open>localStorage\<close> are the lists they hold, empty when absent or
  unreadable; times are \<open>Date.now()\<close>.
\<close>

section \<open>Contacts\<close>

record payee =
  py_id :: string
  py_label :: string
  py_last_used :: "int option"

record recent =
  rc_id :: string
  rc_seen_as :: "string option"
  rc_last_paid :: int

record device =
  dv_book :: "payee list"
  dv_recent :: "recent list"

definition used_at :: "payee \<Rightarrow> int" where
  "used_at c = (case py_last_used c of None \<Rightarrow> 0 | Some t \<Rightarrow> t)"

text \<open>The sort is stable, and its comparison the difference of two times, the later first.\<close>

definition contacts :: "device \<Rightarrow> payee list" where
  "contacts d = sort_key (\<lambda>c. - used_at c) (dv_book d)"

definition same_id :: "string \<Rightarrow> string \<Rightarrow> bool" where
  "same_id a b \<longleftrightarrow> normaliseUserId a = normaliseUserId b"

definition save_contact :: "payee \<Rightarrow> device \<Rightarrow> device" where
  "save_contact c d = d\<lparr>dv_book := c # filter (\<lambda>x. \<not> same_id (py_id x) (py_id c)) (contacts d)\<rparr>"

definition remove_contact :: "string \<Rightarrow> device \<Rightarrow> device" where
  "remove_contact i d = d\<lparr>dv_book := filter (\<lambda>x. \<not> same_id (py_id x) i) (contacts d)\<rparr>"

definition touch :: "int \<Rightarrow> string \<Rightarrow> device \<Rightarrow> device" where
  "touch now i d = (case List.find (\<lambda>c. same_id (py_id c) i) (contacts d) of
     Some c \<Rightarrow> save_contact (c\<lparr>py_last_used := Some now\<rparr>) d | None \<Rightarrow> d)"

definition payee_name :: "device \<Rightarrow> string \<Rightarrow> string" where
  "payee_name d i = (case List.find (\<lambda>c. same_id (py_id c) i) (contacts d) of Some c \<Rightarrow> py_label c | None \<Rightarrow> i)"

section \<open>Recent payees\<close>

definition RECENT_MAX :: nat where "RECENT_MAX = 12"

definition recents :: "device \<Rightarrow> recent list" where
  "recents d =
    (let saved = map (\<lambda>c. normaliseUserId (py_id c)) (contacts d) in
     sort_key (\<lambda>r. - rc_last_paid r) (filter (\<lambda>r. normaliseUserId (rc_id r) \<notin> set saved) (dv_recent d)))"

definition remember :: "int \<Rightarrow> string \<Rightarrow> string option \<Rightarrow> device \<Rightarrow> device" where
  "remember now i seenAs d = d\<lparr>dv_recent := take RECENT_MAX
     (\<lparr>rc_id = to_upper i, rc_seen_as = seenAs, rc_last_paid = now\<rparr> # filter (\<lambda>r. \<not> same_id (rc_id r) i) (recents d))\<rparr>"

definition forgetRecent :: "string \<Rightarrow> device \<Rightarrow> device" where
  "forgetRecent i d = d\<lparr>dv_recent := filter (\<lambda>r. \<not> same_id (rc_id r) i) (recents d)\<rparr>"

definition isKnown :: "device \<Rightarrow> string \<Rightarrow> bool" where
  "isKnown d i \<longleftrightarrow> list_ex (\<lambda>c. same_id (py_id c) i) (contacts d) \<or> list_ex (\<lambda>r. same_id (rc_id r) i) (recents d)"

section \<open>Naming a counterparty\<close>

definition WELL_KNOWN :: "(string \<times> string) list" where
  "WELL_KNOWN = [(''yml1zqn5c7gwlqr6wk34w5af2hc53vzjkjf9ag3knh'', ''Faucet'')]"

text \<open>
  \<open>cache\<close> is \<open>nameCache\<close>, and \<open>alias\<close> the user id the chain answered with, \<open>None\<close> when it answered
  with none, with an error or not at all.
\<close>

definition nameForAddress :: "device \<Rightarrow> (string \<times> string) list \<Rightarrow> string option \<Rightarrow> string \<Rightarrow> string \<Rightarrow> string \<times> (string \<times> string) list" where
  "nameForAddress d cache alias address fallback =
    (if address = [] then (fallback, cache)
     else (case map_of WELL_KNOWN address of
       Some known \<Rightarrow> (known, cache)
     | None \<Rightarrow>
         (case map_of cache address of
            Some hit \<Rightarrow> (hit, cache)
          | None \<Rightarrow>
              (let label = (case alias of
                   None \<Rightarrow> fallback
                 | Some i \<Rightarrow> if i = [] then fallback else (let n = payee_name d i in if n = [] then i else n)) in
               (label, map_set address label cache)))))"

section \<open>Reachable devices\<close>

inductive book_reachable :: "device \<Rightarrow> bool" where
  new_device: "book_reachable \<lparr>dv_book = [], dv_recent = []\<rparr>"
| saves: "book_reachable d \<Longrightarrow> book_reachable (save_contact c d)"
| removes: "book_reachable d \<Longrightarrow> book_reachable (remove_contact i d)"
| touches: "book_reachable d \<Longrightarrow> book_reachable (touch now i d)"
| remembers: "book_reachable d \<Longrightarrow> book_reachable (remember now i seenAs d)"
| forgets: "book_reachable d \<Longrightarrow> book_reachable (forgetRecent i d)"

definition book_inv :: "device \<Rightarrow> bool" where
  "book_inv d \<longleftrightarrow> distinct (map (\<lambda>c. normaliseUserId (py_id c)) (dv_book d)) \<and>
     distinct (map (\<lambda>r. normaliseUserId (rc_id r)) (dv_recent d)) \<and> length (dv_recent d) \<le> RECENT_MAX"

lemma normalise_upper [simp]: "normaliseUserId (to_upper s) = normaliseUserId s"
proof -
  have u: "to_upper_char c = CHR ''-'' \<longleftrightarrow> c = CHR ''-''" "to_upper_char c = CHR '' '' \<longleftrightarrow> c = CHR '' ''" for c
    using to_upper_char_in [of c] by (auto simp: upper_alphabet_def to_upper_char_def lower_alphabet_def)
  have "normalise_from n (to_upper s) = normalise_from n s" for n
    by (induction n s rule: normalise_from.induct) (simp_all add: to_upper_def u Let_def)
  then show ?thesis by (simp add: normaliseUserId_def)
qed

lemma set_contacts: "set (contacts d) = set (dv_book d)" by (simp add: contacts_def)

lemma set_recents: "set (recents d) = {r \<in> set (dv_recent d). normaliseUserId (rc_id r) \<notin> (\<lambda>c. normaliseUserId (py_id c)) ` set (dv_book d)}"
  by (auto simp: recents_def Let_def set_contacts)

lemma known_iff: "isKnown d i \<longleftrightarrow> normaliseUserId i \<in> (\<lambda>c. normaliseUserId (py_id c)) ` set (dv_book d) \<union> (\<lambda>r. normaliseUserId (rc_id r)) ` set (dv_recent d)"
  by (force simp: isKnown_def list_ex_iff same_id_def set_contacts set_recents)

lemma contacts_distinct [wf_keeps]: "book_inv d \<Longrightarrow> distinct (map (\<lambda>c. normaliseUserId (py_id c)) (contacts d))"
  by (simp add: contacts_def distinct_map_sort_key book_inv_def)

lemma recents_distinct [wf_keeps]: "book_inv d \<Longrightarrow> distinct (map (\<lambda>r. normaliseUserId (rc_id r)) (recents d))"
  by (simp add: recents_def Let_def distinct_map_sort_key distinct_map_filterI book_inv_def)

lemma recents_length: "length (recents d) \<le> length (dv_recent d)"
  by (simp add: recents_def Let_def)

lemma save_inv [wf_keeps]: "book_inv d \<Longrightarrow> book_inv (save_contact c d)"
  using contacts_distinct [of d]
  by (auto simp: book_inv_def save_contact_def same_id_def distinct_map_filterI)

lemma remove_inv [wf_keeps]: "book_inv d \<Longrightarrow> book_inv (remove_contact i d)"
  using contacts_distinct [of d] by (simp add: book_inv_def remove_contact_def distinct_map_filterI)

lemma touch_inv [wf_keeps]: "book_inv d \<Longrightarrow> book_inv (touch now i d)"
  by (simp add: touch_def save_inv split: option.split)

lemma remember_inv [wf_keeps]: "book_inv d \<Longrightarrow> book_inv (remember now i seenAs d)"
proof -
  assume d: "book_inv d"
  let ?l = "\<lparr>rc_id = to_upper i, rc_seen_as = seenAs, rc_last_paid = now\<rparr> # filter (\<lambda>r. \<not> same_id (rc_id r) i) (recents d)"
  have "distinct (map (\<lambda>r. normaliseUserId (rc_id r)) ?l)"
    using recents_distinct [OF d] by (auto simp: same_id_def distinct_map_filterI)
  then have "distinct (map (\<lambda>r. normaliseUserId (rc_id r)) (take RECENT_MAX ?l))" by (rule distinct_map_take)
  then show ?thesis using d unfolding book_inv_def remember_def by simp
qed

lemma forget_inv [wf_keeps]: "book_inv d \<Longrightarrow> book_inv (forgetRecent i d)"
proof -
  assume d: "book_inv d"
  have "length (filter (\<lambda>r. \<not> same_id (rc_id r) i) (recents d)) \<le> RECENT_MAX"
    using d recents_length [of d] length_filter_le [of "\<lambda>r. \<not> same_id (rc_id r) i" "recents d"] unfolding book_inv_def by linarith
  then show ?thesis using d recents_distinct [OF d] by (simp add: book_inv_def forgetRecent_def distinct_map_filterI)
qed

lemma book_reachable_inv: "book_reachable d \<Longrightarrow> book_inv d"
  by (induction rule: book_reachable.induct) (simp_all add: wf_keeps, simp add: book_inv_def)

text \<open>Somebody just paid, or just saved, is known.\<close>

lemma saved_known: "isKnown (save_contact c d) (py_id c)"
  by (simp add: known_iff save_contact_def)

lemma remembered_known: "isKnown (remember now i seenAs d) i"
  by (simp add: known_iff remember_def RECENT_MAX_def)

text \<open>
  C26. On every device this code can leave behind, nobody is listed twice: no two entries of the contacts
  and the recent payees together name the same user id, however it was typed, the recent payees are at
  most twelve, and both lists run from the latest to the earliest. Paying somebody never makes them a
  contact, makes them known, and leaves the name the user gave them alone.
\<close>

theorem nobody_is_listed_twice:
  assumes "book_reachable d"
  shows "distinct (map (\<lambda>c. normaliseUserId (py_id c)) (contacts d) @ map (\<lambda>r. normaliseUserId (rc_id r)) (recents d)) \<and>
    length (recents d) \<le> 12 \<and> sorted (map (\<lambda>c. - used_at c) (contacts d)) \<and> sorted (map (\<lambda>r. - rc_last_paid r) (recents d)) \<and>
    contacts (remember now i seenAs d) = contacts d \<and> payee_name (remember now i seenAs d) j = payee_name d j \<and>
    isKnown (remember now i seenAs d) i"
proof -
  have inv: "book_inv d" by (rule book_reachable_inv [OF assms])
  have c: "contacts (remember now i seenAs d) = contacts d" by (simp add: contacts_def remember_def)
  have "set (map (\<lambda>c. normaliseUserId (py_id c)) (contacts d)) \<inter> set (map (\<lambda>r. normaliseUserId (rc_id r)) (recents d)) = {}"
    by (force simp: set_recents set_contacts)
  moreover have "length (recents d) \<le> 12"
    using inv recents_length [of d] by (simp add: book_inv_def RECENT_MAX_def)
  moreover have "sorted (map (\<lambda>c. - used_at c) (contacts d))" "sorted (map (\<lambda>r. - rc_last_paid r) (recents d))"
    by (simp_all add: contacts_def recents_def Let_def)
  ultimately show ?thesis
    using contacts_distinct [OF inv] recents_distinct [OF inv] remembered_known c
    by (simp add: payee_name_def)
qed

theorem nobody_is_listed_twice_witness:
  "distinct (map (\<lambda>c. normaliseUserId (py_id c)) (contacts (save_contact \<lparr>py_id = ''NG-K3M9'', py_label = ''Mama'', py_last_used = None\<rparr>
       (remember 5 ''ng k3m9'' None \<lparr>dv_book = [], dv_recent = []\<rparr>))))"
  using nobody_is_listed_twice [OF saves [OF remembers [OF new_device]]] by simp

end
