(* ===== verification/Ramp.thy ===== *)
theory Ramp imports Amount Base32 begin

text \<open>
  Money held back and money in and out: the local side of secured payments (clients/app/src/escrow.ts)
  and of ramp requests (clients/app/src/ramp.ts). The items of \<open>localStorage\<close> are the lists they hold,
  empty when absent or unreadable; times are \<open>Date.now()\<close>, identifiers and references, which are random,
  are arguments.
\<close>

section \<open>Secured payments\<close>

definition FEE_BPS :: int where "FEE_BPS = 100"

datatype deal_state = Awaiting_seller | In_progress | In_review | Released | Refunded
datatype case_party = Buyer | Seller

record dispute_case =
  dc_opened_by :: case_party
  dc_reason :: string
  dc_opened_at :: int

record deal =
  de_id :: string
  de_seller :: string
  de_buyer :: string
  de_amount :: string
  de_denom :: string
  de_fee :: string
  de_what :: string
  de_state :: deal_state
  de_created :: int
  de_dispute :: "dispute_case option"

text \<open>\<open>amount || '0'\<close> read by \<open>BigInt\<close>; \<open>None\<close> where it throws.\<close>

definition amount_or_zero :: "string \<Rightarrow> int option" where
  "amount_or_zero amount = big_int (if amount = [] then ''0'' else amount)"

definition fee_units :: "int \<Rightarrow> int" where
  "fee_units base = big_div (base * FEE_BPS + 10000 - 1) 10000"

definition feeFor :: "string \<Rightarrow> string option" where
  "feeFor amount = map_option (\<lambda>base. show_int (fee_units base)) (amount_or_zero amount)"

definition totalFor :: "string \<Rightarrow> string option" where
  "totalFor amount = Option.bind (amount_or_zero amount) (\<lambda>base. Option.bind (feeFor amount) (\<lambda>fee.
     map_option (\<lambda>f. show_int (base + f)) (big_int fee)))"

definition deals :: "deal list \<Rightarrow> deal list" where
  "deals store = sort_key (\<lambda>d. - de_created d) store"

definition open_deal :: "int \<Rightarrow> string \<Rightarrow> deal \<Rightarrow> deal list \<Rightarrow> (deal \<times> deal list) option" where
  "open_deal now i d store =
    map_option (\<lambda>fee. let created = d\<lparr>de_id := i, de_fee := fee, de_state := Awaiting_seller, de_created := now\<rparr> in
      (created, created # deals store)) (feeFor (de_amount d))"

definition update_deal :: "string \<Rightarrow> deal_state \<Rightarrow> deal list \<Rightarrow> deal list" where
  "update_deal i st store = map (\<lambda>d. if de_id d = i then d\<lparr>de_state := st\<rparr> else d) (deals store)"

definition raiseCase :: "int \<Rightarrow> string \<Rightarrow> case_party \<Rightarrow> string \<Rightarrow> deal list \<Rightarrow> deal list" where
  "raiseCase now i party why store =
    map (\<lambda>d. if de_id d = i \<and> (de_state d = In_progress \<or> de_state d = Awaiting_seller)
      then d\<lparr>de_state := In_review, de_dispute := Some \<lparr>dc_opened_by = party, dc_reason = why, dc_opened_at = now\<rparr>\<rparr> else d)
      (deals store)"

definition currencyName :: "string \<Rightarrow> string" where
  "currencyName denom = (case List.find (\<lambda>c. cu_denom c = denom) CURRENCIES of Some c \<Rightarrow> cu_name c | None \<Rightarrow> denom)"

section \<open>Ramps\<close>

datatype ramp_kind = Money_in | Money_out
datatype ramp_route = Partner | Agent
datatype ramp_status = Awaiting | Locked | Settled | Disputed | Cancelled

record payout =
  po_fiat :: string
  po_method :: string
  po_fee_bps :: int

record ramp_quote =
  ra_kind :: ramp_kind
  ra_route :: ramp_route
  ra_denom :: string
  ra_beneficiary :: "string option"
  ra_payout :: "payout option"
  ra_units :: int
  ra_fee :: int
  ra_net :: int
  ra_fee_bps :: int
  ra_counterparty :: string

definition RAMP_DENOMS :: "string list" where "RAMP_DENOMS = [''uusdc'', ''ueurc'']"

definition isRampDenom :: "string \<Rightarrow> bool" where "isRampDenom denom \<longleftrightarrow> denom \<in> set RAMP_DENOMS"

record partner =
  pa_id :: string
  pa_name :: string
  pa_fee_bps :: int
  pa_note :: string

definition PARTNERS :: "partner list" where
  "PARTNERS = [\<lparr>pa_id = ''card'', pa_name = ''Card'', pa_fee_bps = 290, pa_note = ''Visa or Mastercard. Instant, dearest.''\<rparr>,
     \<lparr>pa_id = ''bank'', pa_name = ''Bank transfer'', pa_fee_bps = 90, pa_note = ''SEPA or SWIFT. One to two days.''\<rparr>,
     \<lparr>pa_id = ''momo'', pa_name = ''Mobile money'', pa_fee_bps = 120, pa_note = ''M-Pesa, Orange Money, Wave.''\<rparr>]"

definition quoteRamp ::
  "ramp_kind \<Rightarrow> ramp_route \<Rightarrow> string \<Rightarrow> int \<Rightarrow> int \<Rightarrow> string \<Rightarrow> string option \<Rightarrow> payout option \<Rightarrow> ramp_quote" where
  "quoteRamp kind route denom amount feeBps counterparty beneficiary pay =
    (let tot = feeBps + (case pay of None \<Rightarrow> 0 | Some p \<Rightarrow> po_fee_bps p); fee = big_div (amount * tot) 10000 in
     \<lparr>ra_kind = kind, ra_route = route, ra_denom = denom, ra_beneficiary = beneficiary, ra_payout = pay, ra_units = amount,
      ra_fee = fee, ra_net = amount - fee, ra_fee_bps = tot, ra_counterparty = counterparty\<rparr>)"

record ramp_request = ramp_quote +
  rr_id :: string
  rr_created :: int
  rr_status :: ramp_status
  rr_reference :: string
  rr_lock :: "string option"

datatype ramp_side = Customer | Counterparty

definition depositorSide :: "ramp_kind \<Rightarrow> ramp_side" where
  "depositorSide kind = (if kind = Money_out then Customer else Counterparty)"

text \<open>\<open>next.slice(0, 30)\<close> is what the device keeps.\<close>

definition save_ramp :: "ramp_request \<Rightarrow> ramp_request list \<Rightarrow> ramp_request list" where
  "save_ramp req saved = take 30 (req # filter (\<lambda>r. rr_id r \<noteq> rr_id req) saved)"

definition updateStatus :: "string \<Rightarrow> ramp_status \<Rightarrow> string option \<Rightarrow> ramp_request list \<Rightarrow> ramp_request list" where
  "updateStatus i st lock saved =
    (case List.find (\<lambda>r. rr_id r = i) saved of
       None \<Rightarrow> saved
     | Some hit \<Rightarrow> save_ramp (hit\<lparr>rr_status := st, rr_lock := (case lock of None \<Rightarrow> rr_lock hit | Some l \<Rightarrow> Some l)\<rparr>) saved)"

definition newRequest :: "ramp_quote \<Rightarrow> int \<Rightarrow> string \<Rightarrow> string \<Rightarrow> ramp_request" where
  "newRequest q now i ref = \<lparr>ra_kind = ra_kind q, ra_route = ra_route q, ra_denom = ra_denom q, ra_beneficiary = ra_beneficiary q,
     ra_payout = ra_payout q, ra_units = ra_units q, ra_fee = ra_fee q, ra_net = ra_net q, ra_fee_bps = ra_fee_bps q,
     ra_counterparty = ra_counterparty q, rr_id = i, rr_created = now, rr_status = Awaiting, rr_reference = ref, rr_lock = None\<rparr>"

text \<open>\<open>reference\<close> on the six bytes drawn.\<close>

definition reference_of :: "byte list \<Rightarrow> string" where
  "reference_of bytes = map (\<lambda>b. ''ABCDEFGHJKLMNPQRSTUVWXYZ23456789'' ! (unat b mod 32)) bytes"

section \<open>Fees\<close>

lemma fee_ceiling: "0 \<le> a \<Longrightarrow> fee_units a = (a + 99) div 100"
proof -
  assume a: "0 \<le> a"
  have "a * 100 + 9999 = (a + 99) * 100 + 99" by simp
  then have "(a * 100 + 9999) div 10000 = ((a + 99) * 100 + 99) div 100 div 100"
    using zdiv_zmult2_eq [of 100 "a * 100 + 9999" 100] by simp
  also have "((a + 99) * 100 + 99) div 100 = a + 99" by simp
  finally show ?thesis using a by (simp add: fee_units_def FEE_BPS_def)
qed

lemma ceiling_bounds: "a \<le> 100 * ((a + 99) div 100)" "100 * ((a + 99) div 100) < a + (100::int)"
  using mult_div_mod_eq [of 100 "a + 99"] pos_mod_bound [of 100 "a + 99"] pos_mod_sign [of 100 "a + 99"] by linarith+

lemma ceiling_split: "(a + b + 99) div 100 \<le> (a + 99) div 100 + (b + 99) div (100::int)"
proof -
  have "a + b + 99 \<le> 99 + ((a + 99) div 100 + (b + 99) div 100) * 100"
    using ceiling_bounds(1) [of a] ceiling_bounds(1) [of b] by (simp add: algebra_simps)
  then have "(a + b + 99) div 100 \<le> (99 + ((a + 99) div 100 + (b + 99) div 100) * 100) div 100" by (rule zdiv_mono1) simp
  then show ?thesis by simp
qed

text \<open>
  C35. The fee of a secured payment is one percent rounded up, whatever the size: it is never more than
  one unit above one percent, and never zero on a positive amount; the total is the amount and the fee;
  and splitting an amount never lowers what is paid.
\<close>

theorem splitting_never_lowers_the_fee:
  assumes "0 \<le> a" and "0 \<le> b"
  shows "feeFor (show_int a) = Some (show_int (fee_units a)) \<and> totalFor (show_int a) = Some (show_int (a + fee_units a)) \<and>
    a \<le> 100 * fee_units a \<and> 100 * fee_units a < a + 100 \<and> (0 < a \<longrightarrow> 0 < fee_units a) \<and>
    fee_units (a + b) \<le> fee_units a + fee_units b"
proof -
  have ne: "show_int a \<noteq> []" by (simp add: show_int_def)
  show ?thesis
    using assms ne ceiling_bounds [of a] ceiling_split [of a b] by (auto simp: feeFor_def totalFor_def amount_or_zero_def fee_ceiling)
qed

theorem splitting_never_lowers_the_fee_witness: "feeFor ''101'' = Some ''2'' \<and> totalFor ''101'' = Some ''103''"
proof -
  have "show_int 101 = ''101''" "fee_units 101 = 2" "show_int 2 = ''2''" "show_int 103 = ''103''" by code_simp+
  then show ?thesis using splitting_never_lowers_the_fee [of 101 50] by simp
qed

text \<open>A ramp's fee is rounded down instead: it never exceeds its rate, and small enough amounts ramp free.\<close>

lemma ramp_fee_down:
  assumes "0 \<le> a" and "0 \<le> f" and "f \<le> 10000" and "q = quoteRamp k r d a f c ben None"
  shows "ra_net q + ra_fee q = a \<and> 0 \<le> ra_net q \<and> 10000 * ra_fee q \<le> a * f \<and> (a * f < 10000 \<longrightarrow> ra_fee q = 0)"
proof -
  have "a * f div 10000 \<le> a"
  proof -
    have "a * f \<le> a * 10000" using assms(1,3) by (rule mult_left_mono [rotated])
    then have "a * f div 10000 \<le> a * 10000 div 10000" by (rule zdiv_mono1) simp
    then show ?thesis by simp
  qed
  moreover have "10000 * (a * f div 10000) \<le> a * f"
    using mult_div_mod_eq [of 10000 "a * f"] pos_mod_sign [of 10000 "a * f"] by linarith
  moreover have "0 \<le> a * f" using assms by simp
  ultimately show ?thesis using assms by (simp add: quoteRamp_def Let_def)
qed

section \<open>What the device keeps of ramps\<close>

text \<open>Requests are made from a quote, and stored, updated or not.\<close>

inductive ramps_reachable :: "ramp_request list \<Rightarrow> bool" where
  no_ramps: "ramps_reachable []"
| ramp_saved: "ramps_reachable saved \<Longrightarrow>
    ramps_reachable (save_ramp (newRequest (quoteRamp kind route denom amount feeBps counterparty ben pay) now i ref) saved)"
| ramp_updated: "ramps_reachable saved \<Longrightarrow> ramps_reachable (updateStatus i st lock saved)"

text \<open>What a status update may not touch.\<close>

definition ramp_terms :: "ramp_request \<Rightarrow> ramp_request" where
  "ramp_terms r = r\<lparr>rr_status := Awaiting, rr_lock := None\<rparr>"

definition ramps_inv :: "ramp_request list \<Rightarrow> bool" where
  "ramps_inv saved \<longleftrightarrow> distinct (map rr_id saved) \<and> length saved \<le> 30 \<and> (\<forall>r \<in> set saved. ra_net r + ra_fee r = ra_units r)"

lemma save_ramps_inv:
  assumes "ramps_inv saved" and "ra_net req + ra_fee req = ra_units req"
  shows "ramps_inv (save_ramp req saved)"
proof -
  have "distinct (map rr_id (req # filter (\<lambda>r. rr_id r \<noteq> rr_id req) saved))"
    using assms(1) by (auto simp: ramps_inv_def distinct_map_filterI)
  then have "distinct (map rr_id (save_ramp req saved))" unfolding save_ramp_def by (rule distinct_map_take)
  moreover have "ra_net r + ra_fee r = ra_units r" if "r \<in> set (save_ramp req saved)" for r
    using assms that by (auto simp: save_ramp_def ramps_inv_def dest!: in_set_takeD)
  ultimately show ?thesis by (simp add: ramps_inv_def save_ramp_def)
qed

lemma update_hit:
  assumes "List.find (\<lambda>r. rr_id r = i) saved = Some hit"
  shows "updateStatus i st lock saved =
    save_ramp (hit\<lparr>rr_status := st, rr_lock := (case lock of None \<Rightarrow> rr_lock hit | Some l \<Rightarrow> Some l)\<rparr>) saved"
  using assms by (simp add: updateStatus_def)

lemma reachable_ramps_inv: "ramps_reachable saved \<Longrightarrow> ramps_inv saved"
proof (induction rule: ramps_reachable.induct)
  case (ramp_saved saved kind route denom amount feeBps counterparty ben pay now i ref)
  then show ?case by (intro save_ramps_inv) (simp_all add: newRequest_def quoteRamp_def Let_def)
next
  case (ramp_updated saved i st lock)
  show ?case
  proof (cases "List.find (\<lambda>r. rr_id r = i) saved")
    case None
    then show ?thesis using ramp_updated.IH by (simp add: updateStatus_def)
  next
    case (Some hit)
    then have "hit \<in> set saved" using find_SomeD [of "\<lambda>r. rr_id r = i" saved hit] by blast
    then show ?thesis using ramp_updated.IH unfolding update_hit [OF Some] by (intro save_ramps_inv) (auto simp: ramps_inv_def)
  qed
qed (simp add: ramps_inv_def)

text \<open>An update replaces a request already there, so none is pushed out.\<close>

lemma others_fit:
  assumes "distinct (map rr_id saved)" and "hit \<in> set saved" and "length saved \<le> 30"
  shows "length (filter (\<lambda>r. rr_id r \<noteq> rr_id hit) saved) < 30"
proof -
  have "length (filter (\<lambda>r. rr_id r \<noteq> rr_id hit) saved) < length saved"
    using assms(2) by (rule length_filter_less) simp
  then show ?thesis using assms(3) by simp
qed

text \<open>
  The device keeps at most thirty ramps, each once, and what lands plus the fee is always what was
  handed over. Moving one to another status, whatever the status, forgets no ramp and changes nothing
  but that one's status and lock, and an identifier the device does not hold changes nothing at all.
\<close>

theorem a_status_update_keeps_the_terms:
  assumes "ramps_reachable saved"
  shows "distinct (map rr_id saved) \<and> length saved \<le> 30 \<and> (\<forall>r \<in> set saved. ra_net r + ra_fee r = ra_units r) \<and>
    set (map ramp_terms (updateStatus i st lock saved)) = set (map ramp_terms saved) \<and>
    (\<forall>r \<in> set (updateStatus i st lock saved). if rr_id r = i then rr_status r = st else r \<in> set saved)"
proof -
  have inv: "ramps_inv saved" by (rule reachable_ramps_inv [OF assms])
  have "set (map ramp_terms (updateStatus i st lock saved)) = set (map ramp_terms saved) \<and>
    (\<forall>r \<in> set (updateStatus i st lock saved). if rr_id r = i then rr_status r = st else r \<in> set saved)"
  proof (cases "List.find (\<lambda>r. rr_id r = i) saved")
    case None
    then have "updateStatus i st lock saved = saved" by (simp only: updateStatus_def option.case)
    moreover have "\<forall>r \<in> set saved. rr_id r \<noteq> i" using None unfolding find_None_conv by simp
    ultimately show ?thesis by auto
  next
    case (Some hit)
    let ?new = "hit\<lparr>rr_status := st, rr_lock := (case lock of None \<Rightarrow> rr_lock hit | Some l \<Rightarrow> Some l)\<rparr>"
    have hit: "hit \<in> set saved" "rr_id hit = i" using find_SomeD [OF Some] by simp_all
    have "length (filter (\<lambda>r. rr_id r \<noteq> i) saved) < 30"
      using others_fit [OF _ hit(1)] inv hit(2) by (simp add: ramps_inv_def)
    then have u: "updateStatus i st lock saved = ?new # filter (\<lambda>r. rr_id r \<noteq> i) saved"
      unfolding update_hit [OF Some] save_ramp_def by (simp add: hit(2))
    have same: "r = hit" if "r \<in> set saved" "rr_id r = i" for r
      using inv that hit by (auto simp: ramps_inv_def distinct_map dest: inj_onD)
    have all: "set saved = insert hit (set (filter (\<lambda>r. rr_id r \<noteq> i) saved))"
    proof (intro equalityI subsetI)
      fix r assume "r \<in> set saved"
      then show "r \<in> insert hit (set (filter (\<lambda>r. rr_id r \<noteq> i) saved))" using same [of r] by (cases "rr_id r = i") simp_all
    qed (use hit in auto)
    have "ramp_terms ?new = ramp_terms hit" by (simp only: ramp_terms_def) simp
    then have "set (map ramp_terms (updateStatus i st lock saved)) = set (map ramp_terms saved)"
      unfolding u list.set_map by (subst all) (simp only: list.simps(15) image_insert)
    moreover have "\<forall>r \<in> set (updateStatus i st lock saved). if rr_id r = i then rr_status r = st else r \<in> set saved"
      unfolding u using hit(2) by simp
    ultimately show ?thesis by blast
  qed
  then show ?thesis using inv by (simp add: ramps_inv_def)
qed

theorem a_status_update_keeps_the_terms_witness:
  "rr_status (hd (updateStatus ''r1'' Locked None
     (save_ramp (newRequest (quoteRamp Money_out Agent ''uxof'' 5000 150 ''shop'' None None) 7 ''r1'' ''ABCDEF'') []))) = Locked \<and>
   length (save_ramp (newRequest (quoteRamp Money_out Agent ''uxof'' 5000 150 ''shop'' None None) 7 ''r1'' ''ABCDEF'') []) \<le> 30"
proof -
  let ?saved = "save_ramp (newRequest (quoteRamp Money_out Agent ''uxof'' 5000 150 ''shop'' None None) 7 ''r1'' ''ABCDEF'') []"
  have "\<forall>r \<in> set (updateStatus ''r1'' Locked None ?saved). if rr_id r = ''r1'' then rr_status r = Locked else r \<in> set ?saved"
    and len: "length ?saved \<le> 30"
    using a_status_update_keeps_the_terms [OF ramp_saved [OF no_ramps]] by blast+
  moreover have "hd (updateStatus ''r1'' Locked None ?saved) \<in> set (updateStatus ''r1'' Locked None ?saved)"
    "rr_id (hd (updateStatus ''r1'' Locked None ?saved)) = ''r1''"
    by (simp_all add: updateStatus_def save_ramp_def newRequest_def)
  ultimately show ?thesis by auto
qed

end
