(* ===== verification/Schema.thy ===== *)
theory Schema imports Wire IsoDate begin

text \<open>
  The generated protobuf codecs (\<open>clients/sdk/src/generated\<close>). The generator emits for every message
  the same \<open>createBase\<close>, \<open>encode\<close>, \<open>decode\<close>, \<open>fromJSON\<close>, \<open>toJSON\<close> and \<open>fromPartial\<close>, which differ in
  the fields alone. A message's code is therefore its schema, the number, name and kind of each field in
  order, and the six functions are here once, over the schema.
\<close>

section \<open>Schemas and messages\<close>

text \<open>
  A scalar is named after the writer's method. An enum is an \<open>int32\<close> with the names of its constants.
  \<open>Moment\<close> is a \<open>Date\<close> sent as a \<open>Timestamp\<close>.
\<close>

datatype proto_scalar =
    T_string | T_bytes | T_bool | T_uint32 | T_int32 | T_uint64 | T_int64 | T_enum "(nat \<times> string) list"

datatype proto_kind =
    One proto_scalar | Each proto_scalar | Moment
  | Sub "(nat \<times> string \<times> proto_kind) list" | Subs "(nat \<times> string \<times> proto_kind) list"

type_synonym schema = "(nat \<times> string \<times> proto_kind) list"

text \<open>
  What a property holds. An invalid \<open>Date\<close> is \<open>I_date None\<close>, a valid one its milliseconds. The chain's own
  codecs never hold an \<open>I_big\<close>, a \<open>BigInt\<close>: the standard ones take it.
\<close>

datatype proto_item =
    I_undefined | I_text string | I_bytes "byte list" | I_flag bool | I_num jsnum | I_date "int option"
  | I_msg "(string \<times> proto_item) list" | I_list "proto_item list" | I_big int

type_synonym message = "(string \<times> proto_item) list"

definition prop_of :: "message \<Rightarrow> string \<Rightarrow> proto_item" where
  "prop_of m x = (case map_of m x of None \<Rightarrow> I_undefined | Some v \<Rightarrow> v)"

fun scalar_default :: "proto_scalar \<Rightarrow> proto_item" where
  "scalar_default T_string = I_text []"
| "scalar_default T_bytes = I_bytes []"
| "scalar_default T_bool = I_flag False"
| "scalar_default T_uint64 = I_text ''0''"
| "scalar_default T_int64 = I_text ''0''"
| "scalar_default T_uint32 = I_num (num_of_int 0)"
| "scalar_default T_int32 = I_num (num_of_int 0)"
| "scalar_default (T_enum _) = I_num (num_of_int 0)"

fun kind_default :: "proto_kind \<Rightarrow> proto_item" where
  "kind_default (One t) = scalar_default t"
| "kind_default (Each t) = I_list []"
| "kind_default (Subs fs) = I_list []"
| "kind_default (Sub fs) = I_undefined"
| "kind_default Moment = I_undefined"

text \<open>\<open>createBase\<close>.\<close>

definition proto_base :: "schema \<Rightarrow> message" where
  "proto_base fs = map (\<lambda>(n, x, k). (x, kind_default k)) fs"

section \<open>Dates\<close>

text \<open>\<open>toTimestamp\<close> and \<open>fromTimestamp\<close> of the generated code; \<open>new Date(t)\<close> cuts to whole milliseconds in range.\<close>

definition timestamp_schema :: schema where
  "timestamp_schema = [(1, ''seconds'', One T_int64), (2, ''nanos'', One T_int32)]"

definition toTimestamp :: "int option \<Rightarrow> message" where
  "toTimestamp d =
    [(''seconds'', I_text (case d of None \<Rightarrow> ''NaN'' | Some t \<Rightarrow> show_int (big_div t 1000))),
     (''nanos'', I_num (case d of None \<Rightarrow> JNaN | Some t \<Rightarrow> num_of_int (big_mod t 1000 * 1000000)))]"

definition time_clip :: "jsnum \<Rightarrow> int option" where
  "time_clip x = Option.bind (int_of_num (num_trunc x)) (\<lambda>t. if time_ok t then Some t else None)"

definition num_or_zero :: "jsnum \<Rightarrow> jsnum" where
  "num_or_zero x = (if x = JNaN then num_of_int 0 else x)"

definition fromTimestamp :: "message \<Rightarrow> proto_item" where
  "fromTimestamp m =
    (case (prop_of m ''seconds'', prop_of m ''nanos'') of
       (I_text s, I_num x) \<Rightarrow>
         I_date (time_clip (num_add (num_mul (num_or_zero (number s)) (num_of_int 1000)) (num_div (num_or_zero x) (num_of_int 1000000))))
     | _ \<Rightarrow> I_date None)"

section \<open>encode\<close>

fun wire_type :: "proto_scalar \<Rightarrow> nat" where
  "wire_type T_string = 2"
| "wire_type T_bytes = 2"
| "wire_type _ = 0"

fun kind_wire :: "proto_kind \<Rightarrow> nat" where
  "kind_wire (One t) = wire_type t"
| "kind_wire (Each t) = wire_type t"
| "kind_wire _ = 2"

text \<open>
  A value the writer has no bytes for gives \<open>None\<close>: a 64-bit number whose text is refused, or a value
  that is not of the type TypeScript declares for the field.
\<close>

definition write_scalar :: "wire_lib \<Rightarrow> proto_scalar \<Rightarrow> proto_item \<Rightarrow> byte list option" where
  "write_scalar w t v =
    (case (t, v) of
       (T_string, I_text s) \<Rightarrow> Some (w_string w s)
     | (T_bytes, I_bytes b) \<Rightarrow> Some (w_bytes w b)
     | (T_bool, I_flag c) \<Rightarrow> Some (w_bool w c)
     | (T_uint32, I_num x) \<Rightarrow> Some (w_number w x)
     | (T_int32, I_num x) \<Rightarrow> Some (w_int32 w x)
     | (T_enum _, I_num x) \<Rightarrow> Some (w_int32 w x)
     | (T_uint64, I_text s) \<Rightarrow> w_uint64 w s
     | (T_int64, I_text s) \<Rightarrow> w_int64 w s
     | _ \<Rightarrow> None)"

text \<open>The test before a field is written: \<open>!== ""\<close>, \<open>!== "0"\<close>, \<open>!== 0\<close>, \<open>!== false\<close>, \<open>.length !== 0\<close>.\<close>

definition is_default :: "proto_scalar \<Rightarrow> proto_item \<Rightarrow> bool" where
  "is_default t v =
    (case (scalar_default t, v) of (I_num y, I_num x) \<Rightarrow> num_eq x y | (d, _) \<Rightarrow> v = d)"

definition concat_some :: "'a list option list \<Rightarrow> 'a list option" where
  "concat_some xs = map_option concat (those xs)"

definition delimit :: "wire_lib \<Rightarrow> nat \<Rightarrow> byte list option \<Rightarrow> byte list option" where
  "delimit w tag body = map_option (\<lambda>b. w_uint32 w tag @ w_uint32 w (length b) @ b) body"

definition schema_size :: "schema \<Rightarrow> nat" where
  "schema_size = size_list (size_prod (\<lambda>_. 0) (size_prod (\<lambda>_. 0) size))"

definition enc_scalar :: "wire_lib \<Rightarrow> nat \<Rightarrow> proto_scalar \<Rightarrow> proto_item \<Rightarrow> byte list option" where
  "enc_scalar w tag t v = (if is_default t v then Some [] else map_option ((@) (w_uint32 w tag)) (write_scalar w t v))"

definition timestamp_encode :: "wire_lib \<Rightarrow> message \<Rightarrow> byte list option" where
  "timestamp_encode w m = concat_some
    [enc_scalar w 8 T_int64 (prop_of m ''seconds''), enc_scalar w 16 T_int32 (prop_of m ''nanos'')]"

function enc_kind :: "wire_lib \<Rightarrow> nat \<Rightarrow> proto_kind \<Rightarrow> proto_item \<Rightarrow> byte list option"
  and proto_encode :: "wire_lib \<Rightarrow> schema \<Rightarrow> message \<Rightarrow> byte list option" where
  "enc_kind w tag (One t) v = enc_scalar w tag t v"
| "enc_kind w tag (Each t) v =
    (case v of I_list vs \<Rightarrow> concat_some (map (\<lambda>v. map_option ((@) (w_uint32 w tag)) (write_scalar w t v)) vs) | _ \<Rightarrow> None)"
| "enc_kind w tag (Sub fs) v =
    (case v of I_undefined \<Rightarrow> Some [] | I_msg m \<Rightarrow> delimit w tag (proto_encode w fs m) | _ \<Rightarrow> None)"
| "enc_kind w tag (Subs fs) v =
    (case v of I_list vs \<Rightarrow> concat_some (map (\<lambda>v. case v of I_msg m \<Rightarrow> delimit w tag (proto_encode w fs m) | _ \<Rightarrow> None) vs) | _ \<Rightarrow> None)"
| "enc_kind w tag Moment v =
    (case v of I_undefined \<Rightarrow> Some [] | I_date d \<Rightarrow>
       delimit w tag (timestamp_encode w (toTimestamp d))
     | _ \<Rightarrow> None)"
| "proto_encode w [] m = Some []"
| "proto_encode w ((n, x, k) # fs) m = concat_some [enc_kind w (n * 8 + kind_wire k) k (prop_of m x), proto_encode w fs m]"
  by pat_completeness auto
termination
  by (relation "measure (\<lambda>a. case a of Inl (w, tag, k, v) \<Rightarrow> size k | Inr (w, fs, m) \<Rightarrow> schema_size fs)")
    (auto simp: schema_size_def)

section \<open>decode\<close>

fun read_scalar :: "wire_lib \<Rightarrow> proto_scalar \<Rightarrow> byte list \<Rightarrow> (proto_item \<times> byte list) option" where
  "read_scalar w T_string bs = map_option (apfst I_text) (r_string w bs)"
| "read_scalar w T_bytes bs = map_option (apfst I_bytes) (r_bytes w bs)"
| "read_scalar w T_bool bs = map_option (apfst I_flag) (r_bool w bs)"
| "read_scalar w T_uint32 bs = map_option (apfst (\<lambda>n. I_num (num_of_int (int n)))) (r_uint32 w bs)"
| "read_scalar w T_int32 bs = map_option (apfst (\<lambda>i. I_num (num_of_int i))) (r_int32 w bs)"
| "read_scalar w (T_enum _) bs = map_option (apfst (\<lambda>i. I_num (num_of_int i))) (r_int32 w bs)"
| "read_scalar w T_uint64 bs = map_option (apfst (\<lambda>i. I_text (show_int i))) (r_uint64 w bs)"
| "read_scalar w T_int64 bs = map_option (apfst (\<lambda>i. I_text (show_int i))) (r_int64 w bs)"

text \<open>\<open>message.x = v\<close>, and \<open>message.x.push(v)\<close> for a repeated field.\<close>

definition put_field :: "string \<Rightarrow> proto_kind \<Rightarrow> proto_item \<Rightarrow> message \<Rightarrow> message" where
  "put_field x k v m =
    (case kind_default k of
       I_list _ \<Rightarrow> map_set x (case prop_of m x of I_list vs \<Rightarrow> I_list (vs @ [v]) | u \<Rightarrow> u) m
     | _ \<Rightarrow> map_set x v m)"

text \<open>A submessage: its length, then its own loop over that many bytes.\<close>

definition read_sub :: "wire_lib \<Rightarrow> (nat \<Rightarrow> byte list \<Rightarrow> message \<Rightarrow> (message \<times> byte list) option option) \<Rightarrow> message \<Rightarrow>
    byte list \<Rightarrow> (message \<times> byte list) option" where
  "read_sub w field base bs = Option.bind (r_uint32 w bs) (\<lambda>(len, r). decode_loop w field len r base)"

text \<open>\<open>Timestamp\<close>'s own decoder.\<close>

definition timestamp_switch :: "wire_lib \<Rightarrow> nat \<Rightarrow> byte list \<Rightarrow> message \<Rightarrow> (message \<times> byte list) option option" where
  "timestamp_switch w tag bs m =
    (if tag div 8 = 1 then
       (if tag \<noteq> 8 then None else set_field (put_field ''seconds'' (One T_int64)) (read_scalar w T_int64 bs) m)
     else if tag div 8 = 2 then
       (if tag \<noteq> 16 then None else set_field (put_field ''nanos'' (One T_int32)) (read_scalar w T_int32 bs) m)
     else None)"

function read_kind :: "wire_lib \<Rightarrow> proto_kind \<Rightarrow> byte list \<Rightarrow> (proto_item \<times> byte list) option"
  and proto_switch :: "wire_lib \<Rightarrow> schema \<Rightarrow> nat \<Rightarrow> byte list \<Rightarrow> message \<Rightarrow> (message \<times> byte list) option option" where
  "read_kind w (One t) = read_scalar w t"
| "read_kind w (Each t) = read_scalar w t"
| "read_kind w (Sub fs) = (\<lambda>bs. map_option (apfst I_msg) (read_sub w (proto_switch w fs) (proto_base fs) bs))"
| "read_kind w (Subs fs) = (\<lambda>bs. map_option (apfst I_msg) (read_sub w (proto_switch w fs) (proto_base fs) bs))"
| "read_kind w Moment = (\<lambda>bs. map_option (apfst fromTimestamp) (read_sub w (timestamp_switch w) (proto_base timestamp_schema) bs))"
| "proto_switch w [] = (\<lambda>tag bs m. None)"
| "proto_switch w ((n, x, k) # fs) = (\<lambda>tag bs m.
    if tag div 8 = n then
      (if tag \<noteq> n * 8 + kind_wire k then None else set_field (put_field x k) (read_kind w k bs) m)
    else proto_switch w fs tag bs m)"
  by pat_completeness auto
termination
  by (relation "measure (\<lambda>a. case a of Inl (w, k) \<Rightarrow> size k | Inr (w, fs) \<Rightarrow> schema_size fs)") (auto simp: schema_size_def)

definition proto_decode :: "wire_lib \<Rightarrow> schema \<Rightarrow> byte list \<Rightarrow> message option" where
  "proto_decode w fs bs = decode_all w (proto_switch w fs) (proto_base fs) bs"

section \<open>fromPartial\<close>

text \<open>\<open>??\<close> puts the default for what is missing; \<open>None\<close> where \<open>map\<close> is called on what is not an array.\<close>

function partial_kind :: "proto_kind \<Rightarrow> proto_item \<Rightarrow> proto_item option"
  and proto_fromPartial :: "schema \<Rightarrow> message \<Rightarrow> message option" where
  "partial_kind (One t) v = Some (if v = I_undefined then scalar_default t else v)"
| "partial_kind Moment v = Some v"
| "partial_kind (Each t) v = (case v of I_undefined \<Rightarrow> Some (I_list []) | I_list vs \<Rightarrow> Some (I_list vs) | _ \<Rightarrow> None)"
| "partial_kind (Sub fs) v = (case v of I_undefined \<Rightarrow> Some I_undefined | I_msg m \<Rightarrow> map_option I_msg (proto_fromPartial fs m) | _ \<Rightarrow> None)"
| "partial_kind (Subs fs) v =
    (case v of I_undefined \<Rightarrow> Some (I_list [])
     | I_list vs \<Rightarrow> map_option I_list (those (map (\<lambda>v. case v of I_msg m \<Rightarrow> map_option I_msg (proto_fromPartial fs m) | _ \<Rightarrow> None) vs))
     | _ \<Rightarrow> None)"
| "proto_fromPartial [] m = Some []"
| "proto_fromPartial ((n, x, k) # fs) m = concat_some [map_option (\<lambda>v. [(x, v)]) (partial_kind k (prop_of m x)), proto_fromPartial fs m]"
  by pat_completeness auto
termination
  by (relation "measure (\<lambda>a. case a of Inl (k, v) \<Rightarrow> size k | Inr (fs, m) \<Rightarrow> schema_size fs)") (auto simp: schema_size_def)

section \<open>toJSON\<close>

text \<open>An enum's \<open>ToJSON\<close>.\<close>

definition enum_name :: "(nat \<times> string) list \<Rightarrow> jsnum \<Rightarrow> string" where
  "enum_name cs x = (case List.find (\<lambda>(c, s). num_eq x (num_of_int (int c))) cs of None \<Rightarrow> ''UNRECOGNIZED'' | Some (c, s) \<Rightarrow> s)"

definition json_scalar :: "proto_scalar \<Rightarrow> proto_item \<Rightarrow> json option" where
  "json_scalar t v =
    (case (t, v) of
       (T_bytes, I_bytes b) \<Rightarrow> Some (JStr (btoa b))
     | (T_bool, I_flag c) \<Rightarrow> Some (JBool c)
     | (T_uint32, I_num x) \<Rightarrow> Some (JNum (num_round x))
     | (T_int32, I_num x) \<Rightarrow> Some (JNum (num_round x))
     | (T_enum cs, I_num x) \<Rightarrow> Some (JStr (enum_name cs x))
     | (T_string, I_text s) \<Rightarrow> Some (JStr s)
     | (T_uint64, I_text s) \<Rightarrow> Some (JStr s)
     | (T_int64, I_text s) \<Rightarrow> Some (JStr s)
     | _ \<Rightarrow> None)"

text \<open>The JSON of a field, \<open>Some None\<close> where it is left out; \<open>None\<close> where \<open>toISOString\<close> throws.\<close>

definition json_list :: "(proto_item \<Rightarrow> json option) \<Rightarrow> proto_item \<Rightarrow> json option option" where
  "json_list f v =
    (case v of I_list vs \<Rightarrow> (if vs = [] then Some None else map_option (\<lambda>js. Some (JArr js)) (those (map f vs))) | _ \<Rightarrow> None)"

function json_kind :: "proto_kind \<Rightarrow> proto_item \<Rightarrow> json option option"
  and json_members :: "schema \<Rightarrow> message \<Rightarrow> (string \<times> json) list option" where
  "json_kind (One t) v = (if is_default t v then Some None else map_option Some (json_scalar t v))"
| "json_kind (Each t) v = json_list (json_scalar t) v"
| "json_kind (Sub fs) v = (case v of I_undefined \<Rightarrow> Some None | I_msg m \<Rightarrow> map_option (\<lambda>ms. Some (JObj ms)) (json_members fs m) | _ \<Rightarrow> None)"
| "json_kind (Subs fs) v = json_list (\<lambda>v. case v of I_msg m \<Rightarrow> map_option JObj (json_members fs m) | _ \<Rightarrow> None) v"
| "json_kind Moment v = (case v of I_undefined \<Rightarrow> Some None | I_date (Some t) \<Rightarrow> Some (Some (JStr (iso_string t))) | _ \<Rightarrow> None)"
| "json_members [] m = Some []"
| "json_members ((n, x, k) # fs) m =
    concat_some [map_option (\<lambda>j. case j of None \<Rightarrow> [] | Some v \<Rightarrow> [(x, v)]) (json_kind k (prop_of m x)), json_members fs m]"
  by pat_completeness auto
termination
  by (relation "measure (\<lambda>a. case a of Inl (k, v) \<Rightarrow> size k | Inr (fs, m) \<Rightarrow> schema_size fs)") (auto simp: schema_size_def)

definition proto_toJSON :: "schema \<Rightarrow> message \<Rightarrow> json option" where
  "proto_toJSON fs m = map_option JObj (json_members fs m)"

section \<open>fromJSON\<close>

text \<open>
  \<open>object.x\<close> of a parsed JSON value: outer \<open>None\<close> where \<open>null\<close> has no properties and it throws. Base64 is
  read with \<open>atob\<close>, the branch taken outside Node. \<open>host\<close> reads the dates that are not in ISO form.
\<close>

definition json_get :: "string \<Rightarrow> json \<Rightarrow> json option option" where
  "json_get x j = (case j of JNull \<Rightarrow> None | JObj ms \<Rightarrow> Some (map_of ms x) | _ \<Rightarrow> Some None)"

text \<open>An enum's \<open>FromJSON\<close>: a constant's number or its name.\<close>

definition enum_value :: "(nat \<times> string) list \<Rightarrow> json \<Rightarrow> jsnum" where
  "enum_value cs j =
    (case List.find (\<lambda>(c, s). case j of JNum x \<Rightarrow> num_eq x (num_of_int (int c)) | JStr t \<Rightarrow> t = s | _ \<Rightarrow> False) cs of
       None \<Rightarrow> num_of_int (- 1) | Some (c, s) \<Rightarrow> num_of_int (int c))"

fun scalar_from :: "proto_scalar \<Rightarrow> json \<Rightarrow> proto_item option" where
  "scalar_from T_bytes j = map_option I_bytes (atob (js_string j))"
| "scalar_from T_bool j = Some (I_flag (truthy_json (Some j)))"
| "scalar_from T_uint32 j = Some (I_num (js_number (Some j)))"
| "scalar_from T_int32 j = Some (I_num (js_number (Some j)))"
| "scalar_from (T_enum cs) j = Some (I_num (enum_value cs j))"
| "scalar_from _ j = Some (I_text (js_string j))"

text \<open>\<open>isSet(object.x) ? f(object.x) : d\<close>, and \<open>Array.isArray(object?.x) ? object.x.map(f) : []\<close>.\<close>

definition if_set :: "(json \<Rightarrow> proto_item option) \<Rightarrow> proto_item \<Rightarrow> json option option \<Rightarrow> proto_item option" where
  "if_set f d got = (case got of None \<Rightarrow> None | Some None \<Rightarrow> Some d | Some (Some JNull) \<Rightarrow> Some d | Some (Some j) \<Rightarrow> f j)"

definition if_array :: "(json \<Rightarrow> proto_item option) \<Rightarrow> json option option \<Rightarrow> proto_item option" where
  "if_array f got = (case got of Some (Some (JArr js)) \<Rightarrow> map_option I_list (those (map f js)) | _ \<Rightarrow> Some (I_list []))"

definition timestamp_from :: "json \<Rightarrow> message option" where
  "timestamp_from j =
    concat_some [map_option (\<lambda>v. [(''seconds'', v)]) (if_set (scalar_from T_int64) (scalar_default T_int64) (json_get ''seconds'' j)),
      map_option (\<lambda>v. [(''nanos'', v)]) (if_set (scalar_from T_int32) (scalar_default T_int32) (json_get ''nanos'' j))]"

function kind_from :: "(string \<Rightarrow> int option) \<Rightarrow> proto_kind \<Rightarrow> json option option \<Rightarrow> proto_item option"
  and proto_fromJSON :: "(string \<Rightarrow> int option) \<Rightarrow> schema \<Rightarrow> json \<Rightarrow> message option" where
  "kind_from host (One t) got = if_set (scalar_from t) (scalar_default t) got"
| "kind_from host (Each t) got = if_array (scalar_from t) got"
| "kind_from host (Sub fs) got = if_set (\<lambda>j. map_option I_msg (proto_fromJSON host fs j)) I_undefined got"
| "kind_from host (Subs fs) got = if_array (\<lambda>j. map_option I_msg (proto_fromJSON host fs j)) got"
| "kind_from host Moment got =
    if_set (\<lambda>j. case j of JStr s \<Rightarrow> Some (I_date (date_parse host s))
      | _ \<Rightarrow> map_option fromTimestamp (timestamp_from j)) I_undefined got"
| "proto_fromJSON host [] j = Some []"
| "proto_fromJSON host ((n, x, k) # fs) j =
    concat_some [map_option (\<lambda>v. [(x, v)]) (kind_from host k (json_get x j)), proto_fromJSON host fs j]"
  by pat_completeness auto
termination
  by (relation "measure (\<lambda>a. case a of Inl (h, k, g) \<Rightarrow> size k | Inr (h, fs, j) \<Rightarrow> schema_size fs)")
    (auto simp: schema_size_def)

section \<open>Well-formed schemas and typed messages\<close>

definition good_scalar :: "proto_scalar \<Rightarrow> bool" where
  "good_scalar t = (case t of
     T_enum cs \<Rightarrow> distinct (map fst cs) \<and> distinct (map snd cs) \<and> list_all (\<lambda>(c, s). c < 2 ^ 31 \<and> s \<noteq> ''UNRECOGNIZED'') cs
   | _ \<Rightarrow> True)"

fun good_kind :: "proto_kind \<Rightarrow> bool" where
  "good_kind (One t) = good_scalar t"
| "good_kind (Each t) = good_scalar t"
| "good_kind Moment = True"
| "good_kind (Sub fs) = (distinct (map fst fs) \<and> distinct (map (fst \<circ> snd) fs) \<and> list_all (\<lambda>(n, x, k). 0 < n \<and> n < 2 ^ 29 \<and> good_kind k) fs)"
| "good_kind (Subs fs) = (distinct (map fst fs) \<and> distinct (map (fst \<circ> snd) fs) \<and> list_all (\<lambda>(n, x, k). 0 < n \<and> n < 2 ^ 29 \<and> good_kind k) fs)"

definition good_schema :: "schema \<Rightarrow> bool" where
  "good_schema fs = good_kind (Sub fs)"

definition number_in :: "int \<Rightarrow> int \<Rightarrow> jsnum \<Rightarrow> bool" where
  "number_in lo hi x = (case int_of_num x of None \<Rightarrow> False | Some i \<Rightarrow> lo \<le> i \<and> i < hi \<and> x = num_of_int i)"

definition digits_in :: "int \<Rightarrow> int \<Rightarrow> string \<Rightarrow> bool" where
  "digits_in lo hi s = (case big_int s of None \<Rightarrow> False | Some i \<Rightarrow> lo \<le> i \<and> i < hi \<and> s = show_int i)"

text \<open>The values of the type TypeScript declares, the numbers within the width the field has on the wire.\<close>

definition typed_scalar :: "proto_scalar \<Rightarrow> proto_item \<Rightarrow> bool" where
  "typed_scalar t v =
    (case (t, v) of
       (T_string, I_text s) \<Rightarrow> True
     | (T_bytes, I_bytes b) \<Rightarrow> True
     | (T_bool, I_flag c) \<Rightarrow> True
     | (T_uint32, I_num x) \<Rightarrow> number_in 0 (2 ^ 32) x
     | (T_int32, I_num x) \<Rightarrow> number_in (- (2 ^ 31)) (2 ^ 31) x
     | (T_enum cs, I_num x) \<Rightarrow> number_in (- (2 ^ 31)) (2 ^ 31) x
     | (T_uint64, I_text s) \<Rightarrow> digits_in 0 (2 ^ 64) s
     | (T_int64, I_text s) \<Rightarrow> digits_in (- (2 ^ 63)) (2 ^ 63) s
     | _ \<Rightarrow> False)"

fun typed_kind :: "proto_kind \<Rightarrow> proto_item \<Rightarrow> bool" where
  "typed_kind (One t) v = typed_scalar t v"
| "typed_kind (Each t) v = (case v of I_list vs \<Rightarrow> list_all (typed_scalar t) vs | _ \<Rightarrow> False)"
| "typed_kind Moment v = (case v of I_undefined \<Rightarrow> True | I_date (Some t) \<Rightarrow> time_ok t | _ \<Rightarrow> False)"
| "typed_kind (Sub fs) v =
    (case v of I_undefined \<Rightarrow> True
     | I_msg m \<Rightarrow> map fst m = map (fst \<circ> snd) fs \<and> list_all (\<lambda>(n, x, k). typed_kind k (prop_of m x)) fs | _ \<Rightarrow> False)"
| "typed_kind (Subs fs) v =
    (case v of I_list vs \<Rightarrow>
       list_all (\<lambda>v. case v of
         I_msg m \<Rightarrow> map fst m = map (fst \<circ> snd) fs \<and> list_all (\<lambda>(n, x, k). typed_kind k (prop_of m x)) fs | _ \<Rightarrow> False) vs
     | _ \<Rightarrow> False)"

definition typed_message :: "schema \<Rightarrow> message \<Rightarrow> bool" where
  "typed_message fs m = typed_kind (Sub fs) (I_msg m)"

text \<open>
  The messages whose JSON keeps everything: each enum is one of its constants, and each date is one
  whose ISO text is read back.
\<close>

definition named_scalar :: "proto_scalar \<Rightarrow> proto_item \<Rightarrow> bool" where
  "named_scalar t v = (case (t, v) of
     (T_enum cs, I_num x) \<Rightarrow> (case int_of_num x of None \<Rightarrow> False | Some i \<Rightarrow> i \<in> set (map (int \<circ> fst) cs)) | _ \<Rightarrow> True)"

fun named_kind :: "proto_kind \<Rightarrow> proto_item \<Rightarrow> bool" where
  "named_kind (One t) v = named_scalar t v"
| "named_kind (Each t) v = (case v of I_list vs \<Rightarrow> list_all (named_scalar t) vs | _ \<Rightarrow> True)"
| "named_kind Moment v = (case v of I_date (Some t) \<Rightarrow> iso_parse (iso_string t) = Some t | _ \<Rightarrow> True)"
| "named_kind (Sub fs) v = (case v of I_msg m \<Rightarrow> list_all (\<lambda>(n, x, k). named_kind k (prop_of m x)) fs | _ \<Rightarrow> True)"
| "named_kind (Subs fs) v =
    (case v of I_list vs \<Rightarrow>
       list_all (\<lambda>v. case v of I_msg m \<Rightarrow> list_all (\<lambda>(n, x, k). named_kind k (prop_of m x)) fs | _ \<Rightarrow> True) vs
     | _ \<Rightarrow> True)"

definition named_message :: "schema \<Rightarrow> message \<Rightarrow> bool" where
  "named_message fs m = named_kind (Sub fs) (I_msg m)"

lemmas good_simps = good_schema_def good_scalar_def

end
