(* ===== verification/SchemaBack.thy ===== *)
theory SchemaBack imports Schema begin

text \<open>
  What a generated codec writes it reads back, from bytes and from JSON, for every schema whose field
  numbers and names are distinct.
\<close>

section \<open>Doubles that hold integers\<close>

lemma holds_int_parts:
  assumes "holds_int x i"
  obtains s m e d where "x = JFin s m e" "num_frac m e = (nat \<bar>i\<bar> * d, d)" "0 < d" "signed_nat s (nat \<bar>i\<bar>) = i"
proof -
  obtain s m e n d where x: "x = JFin s m e" "num_frac m e = (n, d)" "0 < d" "signed_nat s n = i * int d"
    using assms by (rule holds_int_frac)
  have "int n = int (nat \<bar>i\<bar> * d)" using abs_signed_nat [of s n] x(4) by (simp add: abs_mult)
  then have n: "n = nat \<bar>i\<bar> * d" by (simp only: of_nat_eq_iff)
  then have "signed_nat s (nat \<bar>i\<bar>) * int d = i * int d" using x(4) by (simp add: signed_nat_mult)
  then show ?thesis using that x n by simp
qed

lemma signed_nat_signs: "signed_nat s (nat \<bar>i\<bar>) = i \<Longrightarrow> signed_nat t (nat \<bar>j\<bar>) = j \<Longrightarrow> signed_nat (s \<noteq> t) (nat \<bar>i\<bar> * nat \<bar>j\<bar>) = i * j"
  by (auto simp: signed_nat_def split: if_splits)

lemma num_mul_exact:
  assumes "holds_int x i" and "holds_int y j" and "\<bar>i * j\<bar> < 2 ^ 53"
  shows "holds_int (num_mul x y) (i * j)"
proof -
  obtain s m e b where x: "x = JFin s m e" "num_frac m e = (nat \<bar>i\<bar> * b, b)" "0 < b" "signed_nat s (nat \<bar>i\<bar>) = i"
    using assms(1) by (rule holds_int_parts)
  obtain t n f d where y: "y = JFin t n f" "num_frac n f = (nat \<bar>j\<bar> * d, d)" "0 < d" "signed_nat t (nat \<bar>j\<bar>) = j"
    using assms(2) by (rule holds_int_parts)
  have "num_mul x y = to_double (s \<noteq> t) ((nat \<bar>i\<bar> * nat \<bar>j\<bar>) * (b * d)) (b * d)"
    using x y by (simp add: mult.assoc mult.left_commute)
  moreover have "int (nat \<bar>i\<bar> * nat \<bar>j\<bar>) < 2 ^ 53" using assms(3) by (simp add: abs_mult)
  then have "nat \<bar>i\<bar> * nat \<bar>j\<bar> < 2 ^ 53" by (metis of_nat_less_iff of_nat_numeral of_nat_power)
  ultimately show ?thesis
    using to_double_exact [of "b * d" "nat \<bar>i\<bar> * nat \<bar>j\<bar>" "s \<noteq> t"] signed_nat_signs [OF x(4) y(4)] x(3) y(3) by simp
qed

lemma num_div_exact:
  assumes "holds_int x (q * j)" and "holds_int y j" and "0 < j" and "\<bar>q\<bar> < 2 ^ 53"
  shows "holds_int (num_div x y) q"
proof -
  obtain s m e b where x: "x = JFin s m e" "num_frac m e = (nat \<bar>q * j\<bar> * b, b)" "0 < b" "signed_nat s (nat \<bar>q * j\<bar>) = q * j"
    using assms(1) by (rule holds_int_parts)
  obtain t n f d where y: "y = JFin t n f" "num_frac n f = (nat \<bar>j\<bar> * d, d)" "0 < d" "signed_nat t (nat \<bar>j\<bar>) = j"
    using assms(2) by (rule holds_int_parts)
  have n: "n \<noteq> 0"
  proof
    assume "n = 0"
    then have "fst (num_frac n f) = 0" by (simp add: num_frac_def)
    then have "nat \<bar>j\<bar> * d = 0" using y(2) by simp
    then show False using assms(3) y(3) by simp
  qed
  have t: "\<not> t" using y(4) assms(3) by (auto simp: signed_nat_def)
  have "num_div x y = to_double (s \<noteq> t) (nat \<bar>q * j\<bar> * b * d) (b * (nat \<bar>j\<bar> * d))"
    using x y n by simp
  also have "\<dots> = to_double s (nat \<bar>q\<bar> * (b * (nat \<bar>j\<bar> * d))) (b * (nat \<bar>j\<bar> * d))"
    using t by (simp add: abs_mult nat_mult_distrib ac_simps)
  finally have v: "num_div x y = \<dots>" .
  have "signed_nat s (nat \<bar>q\<bar>) * j = signed_nat s (nat \<bar>q * j\<bar>)"
    using assms(3) by (simp add: signed_nat_def abs_mult)
  then have "signed_nat s (nat \<bar>q\<bar>) * j = q * j" using x(4) by simp
  then have "signed_nat s (nat \<bar>q\<bar>) = q" using assms(3) by simp
  then show ?thesis
    using to_double_exact [of "b * (nat \<bar>j\<bar> * d)" "nat \<bar>q\<bar>" s] assms(3,4) x(3) y(3) v by (simp add: nat_less_iff)
qed

lemma dec_nat_split: obtains c r where "dec_nat n = c # r" "is_digit c" "all_digits r"
  using dec_nat_ne [of n] dec_nat_digits [of n] by (cases "dec_nat n") auto

lemma unsigned_digits: "all_digits s \<Longrightarrow> s \<noteq> [] \<Longrightarrow> unsigned_num neg s = to_double neg (nat_of_dec s) 1"
proof -
  assume s: "all_digits s" "s \<noteq> []"
  have e: "\<forall>c \<in> set s. is_digit c" using s(1) by (simp add: all_digits_def list_all_iff)
  have ne: "\<forall>c \<in> set s. c \<noteq> CHR ''e'' \<and> c \<noteq> CHR ''E'' \<and> c \<noteq> CHR ''.'' \<and> c \<noteq> CHR ''I''"
    using e by (auto simp: is_digit_def)
  then have "CHR ''I'' \<notin> set s" by blast
  then have "s \<noteq> ''Infinity''" by (metis list.set_intros(1))
  moreover have "takeWhile (\<lambda>c. c \<noteq> CHR ''e'' \<and> c \<noteq> CHR ''E'') s = s" "dropWhile (\<lambda>c. c \<noteq> CHR ''e'' \<and> c \<noteq> CHR ''E'') s = []"
    "takeWhile (\<lambda>c. c \<noteq> CHR ''.'') s = s"
    using ne by (simp_all add: takeWhile_eq_all_conv dropWhile_eq_Nil_conv)
  ultimately show ?thesis using s by (simp add: unsigned_num_def Let_def dec_scaled_def del: takeWhile_eq_all_conv dropWhile_eq_Nil_conv)
qed

lemma number_of_text: "number (show_int i) = num_of_int i"
proof -
  let ?d = "dec_nat (nat \<bar>i\<bar>)"
  have g: "\<forall>c \<in> set ?d. graphic c" by (intro all_digits_graphic) simp
  have "number (show_int i) = to_double (i < 0) (nat \<bar>i\<bar>) 1"
  proof (cases "i < 0")
    case True
    have "trim (CHR ''-'' # ?d) = CHR ''-'' # ?d" using g by (intro trim_all_graphic) (auto simp: graphic_def)
    moreover have "radix_prefix (CHR ''-'' # ?d) = None" by (cases ?d) (simp_all add: radix_prefix_def)
    ultimately show ?thesis using True by (simp add: number_def show_int_def unsigned_digits)
  next
    case False
    have "trim ?d = ?d" using g by (rule trim_all_graphic)
    moreover have "radix_prefix ?d = None" by (simp add: radix_prefix_digits)
    moreover have "hd ?d \<noteq> CHR ''-''" "hd ?d \<noteq> CHR ''+''" using dec_nat_split [of "nat \<bar>i\<bar>"] by (metis list.sel(1) specials_no_digits(1,2))+
    ultimately show ?thesis using False by (simp add: number_def show_int_def unsigned_digits)
  qed
  then show ?thesis by (simp add: num_of_int_def)
qed

lemma number_show_int: "\<bar>i\<bar> < 2 ^ 53 \<Longrightarrow> holds_int (number (show_int i)) i"
  by (simp add: number_of_text)

lemma num_round_int: "\<bar>i\<bar> < 2 ^ 53 \<Longrightarrow> num_round (num_of_int i) = num_of_int i"
proof -
  assume "\<bar>i\<bar> < 2 ^ 53"
  then obtain s m e n d where x: "num_of_int i = JFin s m e" "num_frac m e = (n, d)" "0 < d" "signed_nat s n = i * int d"
    using num_of_int_exact holds_int_frac by metis
  have "(2 * (i * int d) + int d) div (2 * int d) = i"
  proof -
    have "2 * (i * int d) + int d = int d + i * (2 * int d)" by simp
    also have "\<dots> div (2 * int d) = i + int d div (2 * int d)" using x(3) by (intro div_mult_self1) simp
    finally show ?thesis using x(3) by (simp add: div_pos_pos_trivial)
  qed
  then show ?thesis using x by simp
qed

lemma num_of_int_inj: "\<bar>i\<bar> < 2 ^ 53 \<Longrightarrow> \<bar>j\<bar> < 2 ^ 53 \<Longrightarrow> num_of_int i = num_of_int j \<longleftrightarrow> i = j"
  by (metis int_of_num_holds num_of_int_exact option.inject)

section \<open>Dates\<close>

lemma big_div_mod_1000: "t = big_div t 1000 * 1000 + big_mod t 1000" "\<bar>big_mod t 1000\<bar> < 1000" "\<bar>big_div t 1000\<bar> \<le> \<bar>t\<bar>"
proof -
  show "t = big_div t 1000 * 1000 + big_mod t 1000" by (simp add: big_mod_def)
  have d: "big_div t 1000 = (if t < 0 then - (- t div 1000) else t div 1000)" by (simp add: big_div_def)
  show "\<bar>big_mod t 1000\<bar> < 1000" unfolding big_mod_def d by (auto simp: abs_if; presburger)
  show "\<bar>big_div t 1000\<bar> \<le> \<bar>t\<bar>" unfolding d by (auto simp: abs_if; presburger)
qed

lemma fromTimestamp_back: "time_ok t \<Longrightarrow> fromTimestamp (toTimestamp (Some t)) = I_date (Some t)"
proof -
  assume t: "time_ok t"
  have b: "\<bar>t\<bar> < 2 ^ 53" using t by (simp add: time_ok_def)
  define q r where qr: "q = big_div t 1000" "r = big_mod t 1000"
  have r: "t = q * 1000 + r" "\<bar>r\<bar> < 1000" "\<bar>q\<bar> \<le> \<bar>t\<bar>" using big_div_mod_1000 [of t] by (simp_all add: qr)
  have q: "\<bar>q * 1000\<bar> < 2 ^ 53" using r t by (simp add: time_ok_def)
  have z: "num_or_zero x = x" if "holds_int x i" for x i using that by (auto simp: num_or_zero_def holds_int_def)
  have s: "holds_int (number (show_int q)) q" using r(3) b by (intro number_show_int) linarith
  have n: "holds_int (num_of_int (r * 1000000)) (r * 1000000)" using r(2) by (intro num_of_int_exact) simp
  have "holds_int (num_mul (number (show_int q)) (num_of_int 1000)) (q * 1000)" using s q by (intro num_mul_exact) simp_all
  moreover have "holds_int (num_div (num_of_int (r * 1000000)) (num_of_int 1000000)) r" using n r(2) by (intro num_div_exact [where j = 1000000]) simp_all
  ultimately have "holds_int (num_add (num_mul (number (show_int q)) (num_of_int 1000)) (num_div (num_of_int (r * 1000000)) (num_of_int 1000000))) t"
    using num_add_exact r(1) b by metis
  then have "time_clip (num_add (num_mul (number (show_int q)) (num_of_int 1000)) (num_div (num_of_int (r * 1000000)) (num_of_int 1000000))) = Some t"
    using int_of_num_holds [OF num_trunc_holds [OF _ b]] t by (simp add: time_clip_def)
  then show ?thesis using z [OF s] z [OF n] by (simp add: fromTimestamp_def toTimestamp_def prop_of_def flip: qr)
qed

section \<open>Typed messages\<close>

lemma typed_Subs: "typed_kind (Subs gs) (I_list vs) \<longleftrightarrow> (\<forall>u \<in> set vs. \<exists>m. u = I_msg m \<and> typed_message gs m)"
  by (auto simp: typed_message_def list_all_iff split: proto_item.splits) (metis proto_item.exhaust)

section \<open>Scalars\<close>

lemma number_inE:
  assumes "number_in lo hi x" obtains i where "x = num_of_int i" "lo \<le> i" "i < hi"
  using assms by (auto simp: number_in_def split: option.splits)

lemma digits_inE:
  assumes "digits_in lo hi s" obtains i where "s = show_int i" "lo \<le> i" "i < hi"
  using assms by (auto simp: digits_in_def split: option.splits)

lemma num_eq_int: "\<bar>i\<bar> < 2 ^ 53 \<Longrightarrow> \<bar>j\<bar> < 2 ^ 53 \<Longrightarrow> num_eq (num_of_int i) (num_of_int j) \<longleftrightarrow> i = j"
  by (rule num_cmp_holds) (rule num_of_int_exact, assumption)+

lemma default_value: "typed_scalar t v \<Longrightarrow> is_default t v \<longleftrightarrow> v = scalar_default t"
  by (cases t; cases v) (auto simp: typed_scalar_def is_default_def num_eq_int elim!: number_inE)

lemma number_in_of: "\<bar>i\<bar> < 2 ^ 53 \<Longrightarrow> number_in lo hi (num_of_int i) \<longleftrightarrow> lo \<le> i \<and> i < hi"
  by (simp add: number_in_def int_of_num_holds [OF num_of_int_exact])

lemma digits_in_of: "digits_in lo hi (show_int i) \<longleftrightarrow> lo \<le> i \<and> i < hi"
  by (simp add: digits_in_def)

lemma defaults_typed: "typed_scalar t (scalar_default t)"
proof -
  have "digits_in lo hi ''0'' \<longleftrightarrow> lo \<le> 0 \<and> 0 < hi" for lo hi using digits_in_of [of lo hi 0] by (simp add: show_int_def)
  then show ?thesis by (cases t) (simp_all add: typed_scalar_def number_in_of)
qed

context protobuf begin

lemma scalar_back:
  assumes "typed_scalar t v" and "write_scalar w t v = Some b" and "length b < 2 ^ 32"
  shows "read_scalar w t (b @ r) = Some (v, r)"
proof -
  have n32: "r_int32 w (w_int32 w (num_of_int i) @ r) = Some (i, r)" if "- 2147483648 \<le> i" "i < 2147483648" for i
    using that int32_back [of i r] by simp
  have u32: "r_uint32 w (w_number w (num_of_int i) @ r) = Some (nat i, r)" if "0 \<le> i" "i < 4294967296" for i
    using that number_back [of "nat i"] uint32_back [of "nat i" r] by simp
  have u64: "r_uint64 w (b @ r) = Some (i, r)" if "w_uint64 w (show_int i) = Some b" "0 \<le> i" "i < 18446744073709551616" for i
    using that uint64_back [of i] by auto
  have n64: "r_int64 w (b @ r) = Some (i, r)" if "w_int64 w (show_int i) = Some b" "- 9223372036854775808 \<le> i" "i < 9223372036854775808" for i
    using that int64_back [of i] by auto
  have st: "r_string w (w_string w s @ r) = Some (s, r)" if "length (w_string w s) < 2 ^ 32" for s
    using that carried(2) [of s] by (intro string_back) linarith
  have bt: "r_bytes w (w_bytes w c @ r) = Some (c, r)" if "length (w_bytes w c) < 2 ^ 32" for c
    using that carried(1) [of c] by (intro bytes_back) linarith
  show ?thesis using assms
    by (cases t; cases v) (auto simp: typed_scalar_def write_scalar_def bool_back n32 u32 u64 n64 st bt elim!: number_inE digits_inE)
qed

lemma scalar_written: "typed_scalar t v \<Longrightarrow> \<exists>b. write_scalar w t v = Some b"
  using uint64_back int64_back
  by (cases t; cases v) (fastforce simp: typed_scalar_def write_scalar_def elim!: digits_inE)+

end

section \<open>One field\<close>

lemma map_set_same: "map_of m x = Some v \<Longrightarrow> map_set x v m = m"
  by (induction m) (auto split: if_splits)

lemma map_set_twice: "map_set x v (map_set x u m) = map_set x v m"
  by (induction m) auto

lemma kind_wire_less: "kind_wire k < 8"
proof (cases k)
  case (One t) then show ?thesis by (cases t) simp_all
next
  case (Each t) then show ?thesis by (cases t) simp_all
qed simp_all

lemma switch_hit:
  "(n, x, k) \<in> set fs \<Longrightarrow> distinct (map fst fs) \<Longrightarrow>
   proto_switch w fs (n * 8 + kind_wire k) bs m = set_field (put_field x k) (read_kind w k bs) m"
proof (induction fs)
  case (Cons f fs)
  obtain n' x' k' where f: "f = (n', x', k')" by (cases f)
  have d: "(n * 8 + kind_wire k) div 8 = n" using kind_wire_less [of k] by simp
  show ?case
  proof (cases "n' = n")
    case True
    then have "(n', x', k') = (n, x, k)" using Cons.prems f by (force simp: image_iff)
    then show ?thesis using f d by simp
  next
    case False
    then show ?thesis using Cons f d by auto
  qed
qed simp

lemma concat_some_Cons: "concat_some (x # xs) = Option.bind x (\<lambda>a. map_option ((@) a) (concat_some xs))"
  by (cases x; cases "those xs") (simp_all add: concat_some_def)

lemma concat_some_Nil [simp]: "concat_some [] = Some []"
  by (simp add: concat_some_def)


lemma map_Cons_append: "map_option ((@) a) x = Some b \<longleftrightarrow> (\<exists>c. x = Some c \<and> b = a @ c)"
  by (cases x) auto

text \<open>
  \<open>sub_back w gs\<close>: the loop of \<open>gs\<close> reads back what \<open>gs\<close> wrote, whatever follows it in the buffer.
\<close>

definition sub_back :: "wire_lib \<Rightarrow> schema \<Rightarrow> bool" where
  "sub_back w gs \<longleftrightarrow> (\<forall>m b r. typed_message gs m \<longrightarrow> proto_encode w gs m = Some b \<longrightarrow> length b < 2 ^ 32 \<longrightarrow>
     decode_loop w (proto_switch w gs) (length b) (b @ r) (proto_base gs) = Some (m, r))"

fun parts_back :: "wire_lib \<Rightarrow> proto_kind \<Rightarrow> bool" where
  "parts_back w (Sub gs) \<longleftrightarrow> sub_back w gs"
| "parts_back w (Subs gs) \<longleftrightarrow> sub_back w gs"
| "parts_back w Moment \<longleftrightarrow> sub_back w timestamp_schema"
| "parts_back w _ \<longleftrightarrow> True"

text \<open>What \<open>enc\<close> writes after the tag is what \<open>read_kind w k\<close> reads.\<close>

definition reads_item :: "wire_lib \<Rightarrow> proto_kind \<Rightarrow> proto_item \<Rightarrow> byte list \<Rightarrow> bool" where
  "reads_item w k v c \<longleftrightarrow> (\<forall>r. read_kind w k (c @ r) = Some (v, r))"

context protobuf begin

lemma loop_item:
  assumes "(n, x, k) \<in> set fs" and "distinct (map fst fs)" and "n < 2 ^ 29" and "reads_item w k v c"
  shows "decode_loop w (proto_switch w fs) (length ((w_uint32 w (n * 8 + kind_wire k) @ c) @ b)) ((w_uint32 w (n * 8 + kind_wire k) @ c) @ b @ r) m =
    decode_loop w (proto_switch w fs) (length b) (b @ r) (put_field x k v m)"
  using loop_field [of "n * 8 + kind_wire k" "proto_switch w fs" c b r m "put_field x k v m"] assms kind_wire_less [of k]
  by (simp add: switch_hit reads_item_def)

text \<open>A repeated field: its items are pushed one after the other.\<close>

lemma loop_items:
  assumes hit: "(n, x, k) \<in> set fs" "distinct (map fst fs)" "n < 2 ^ 29" and rep: "kind_default k = I_list []"
    and items: "\<And>v c. v \<in> set vs \<Longrightarrow> f v = Some c \<Longrightarrow> length c < 2 ^ 32 \<Longrightarrow> \<exists>d. c = w_uint32 w (n * 8 + kind_wire k) @ d \<and> reads_item w k v d"
    and written: "concat_some (map f vs) = Some b" "length b < 2 ^ 32"
    and acc: "map_of m x = Some (I_list us)"
  shows "decode_loop w (proto_switch w fs) (length (b @ b')) (b @ b' @ r) m =
    decode_loop w (proto_switch w fs) (length b') (b' @ r) (map_set x (I_list (us @ vs)) m)"
  using items written acc
proof (induction vs arbitrary: b us m)
  case Nil
  then show ?case by (simp add: map_set_same)
next
  case (Cons v vs)
  obtain c b1 where c: "f v = Some c" and b1: "concat_some (map f vs) = Some b1" and b: "b = c @ b1"
    using Cons.prems(2) by (auto simp: concat_some_Cons bind_eq_Some_conv map_Cons_append)
  obtain d where d: "c = w_uint32 w (n * 8 + kind_wire k) @ d" "reads_item w k v d"
    using Cons.prems(1) [of v c] c Cons.prems(3) b by auto
  have put: "put_field x k v m = map_set x (I_list (us @ [v])) m"
    using rep Cons.prems(4) by (simp add: put_field_def prop_of_def)
  have "decode_loop w (proto_switch w fs) (length (b @ b')) (b @ b' @ r) m =
    decode_loop w (proto_switch w fs) (length (b1 @ b')) (b1 @ b' @ r) (map_set x (I_list (us @ [v])) m)"
    using loop_item [OF hit d(2), of "b1 @ b'" r m] by (simp add: b d(1) put)
  also have "\<dots> = decode_loop w (proto_switch w fs) (length b') (b' @ r) (map_set x (I_list ((us @ [v]) @ vs)) (map_set x (I_list (us @ [v])) m))"
    using Cons.prems b b1 by (intro Cons.IH) auto
  finally show ?case by (simp add: map_set_twice)
qed

lemma delimited_item:
  assumes "delimit w tag (proto_encode w gs m) = Some b" and "length b < 2 ^ 32" and "sub_back w gs" and "typed_message gs m"
    and "\<And>bs. read_kind w k bs = map_option (apfst I_msg) (read_sub w (proto_switch w gs) (proto_base gs) bs)"
  shows "\<exists>d. b = w_uint32 w tag @ d \<and> reads_item w k (I_msg m) d"
proof -
  obtain c where c: "proto_encode w gs m = Some c" and b: "b = w_uint32 w tag @ w_uint32 w (length c) @ c"
    using assms(1) by (auto simp: delimit_def)
  have len: "length c < 2 ^ 32" using assms(2) b by simp
  have "reads_item w k (I_msg m) (w_uint32 w (length c) @ c)"
    using assms(3,4) c len uint32_back [OF len] by (simp add: reads_item_def assms(5) read_sub_def sub_back_def)
  then show ?thesis using b by blast
qed

lemma scalar_item:
  assumes "map_option ((@) (w_uint32 w tag)) (write_scalar w t v) = Some b" and "length b < 2 ^ 32" and "typed_scalar t v"
    and "\<And>bs. read_kind w k bs = read_scalar w t bs"
  shows "\<exists>d. b = w_uint32 w tag @ d \<and> reads_item w k v d"
  using assms scalar_back by (auto simp: map_Cons_append reads_item_def)

end


lemma timestamp_as_schema:
  "timestamp_switch w = proto_switch w timestamp_schema" "timestamp_encode w = proto_encode w timestamp_schema"
  by (simp_all add: fun_eq_iff timestamp_switch_def timestamp_schema_def timestamp_encode_def concat_some_Cons bind_assoc
      split: option.splits)

lemma timestamp_typed: "time_ok t \<Longrightarrow> typed_message timestamp_schema (toTimestamp (Some t))"
proof -
  assume t: "time_ok t"
  then have "\<bar>big_div t 1000\<bar> < 2 ^ 63" "\<bar>big_mod t 1000 * 1000000\<bar> < 2 ^ 31"
    using big_div_mod_1000 [of t] by (simp_all add: time_ok_def)
  then show ?thesis
    by (simp add: typed_message_def timestamp_schema_def toTimestamp_def prop_of_def typed_scalar_def digits_in_of number_in_of abs_less_iff)
qed

context protobuf begin

lemma field_back:
  assumes hit: "(n, x, k) \<in> set fs" "distinct (map fst fs)" "n < 2 ^ 29"
    and v: "typed_kind k v" "enc_kind w (n * 8 + kind_wire k) k v = Some b" "length b < 2 ^ 32"
    and acc: "map_of m x = Some (kind_default k)" and parts: "parts_back w k"
  shows "decode_loop w (proto_switch w fs) (length (b @ b')) (b @ b' @ r) m =
    decode_loop w (proto_switch w fs) (length b') (b' @ r) (map_set x v m)"
proof -
  let ?tag = "n * 8 + kind_wire k"
  have one: ?thesis if d: "b = w_uint32 w ?tag @ d" "reads_item w k v d" and "put_field x k v m = map_set x v m" for d
    using loop_item [OF hit d(2), of b' r m] that by simp
  have none: ?thesis if "b = []" "v = kind_default k" using that acc by (simp add: map_set_same)
  show ?thesis
  proof (cases k)
    case (One t)
    then have put: "put_field x k v m = map_set x v m" by (cases t) (simp_all add: put_field_def)
    show ?thesis
    proof (cases "is_default t v")
      case True
      then show ?thesis using One v default_value [of t v] by (intro none) (simp_all add: enc_scalar_def)
    next
      case False
      then show ?thesis using One v scalar_item [of ?tag t v b k] one put by (auto simp: enc_scalar_def add.assoc)
    qed
  next
    case (Each t)
    obtain vs where vs: "v = I_list vs" using v(1) Each by (cases v) auto
    have "\<exists>d. c = w_uint32 w ?tag @ d \<and> reads_item w k u d"
      if "u \<in> set vs" "map_option ((@) (w_uint32 w ?tag)) (write_scalar w t u) = Some c" "length c < 2 ^ 32" for u c
      using that v(1) Each vs by (intro scalar_item [of _ t]) (auto simp: list_all_iff)
    then show ?thesis using Each v(2,3) vs acc
      by (subst loop_items [OF hit, where us = "[]" and vs = vs and f = "\<lambda>u. map_option ((@) (w_uint32 w ?tag)) (write_scalar w t u)"]) auto
  next
    case (Subs gs)
    obtain vs where vs: "v = I_list vs" using v(1) Subs by (cases v) auto
    have "\<exists>d. c = w_uint32 w ?tag @ d \<and> reads_item w k u d"
      if u: "u \<in> set vs" "(case u of I_msg m \<Rightarrow> delimit w ?tag (proto_encode w gs m) | _ \<Rightarrow> None) = Some c" "length c < 2 ^ 32" for u c
    proof -
      obtain p where p: "u = I_msg p" "typed_message gs p" using v(1) Subs vs u(1) typed_Subs by blast
      then show ?thesis using u p parts Subs delimited_item [of ?tag gs p c k] by simp
    qed
    then show ?thesis using Subs v(2,3) vs acc
      by (subst loop_items [OF hit, where us = "[]" and vs = vs
            and f = "\<lambda>u. case u of I_msg m \<Rightarrow> delimit w ?tag (proto_encode w gs m) | _ \<Rightarrow> None"]) auto
  next
    case (Sub gs)
    show ?thesis
    proof (cases v)
      case I_undefined
      then show ?thesis using Sub v(2) by (intro none) simp_all
    next
      case (I_msg p)
      then have "typed_message gs p" using v(1) Sub by (simp add: typed_message_def)
      then show ?thesis using I_msg v Sub parts one delimited_item [of ?tag gs p b k] by (auto simp: put_field_def add.assoc)
    qed (use v(1) Sub in simp_all)
  next
    case Moment
    show ?thesis
    proof (cases v)
      case I_undefined
      then show ?thesis using Moment v(2) by (intro none) simp_all
    next
      case (I_date e)
      then obtain t where e: "e = Some t" and t: "time_ok t" using v(1) Moment by (cases e) auto
      have "\<exists>c. b = w_uint32 w ?tag @ c \<and> reads_item w (Sub timestamp_schema) (I_msg (toTimestamp (Some t))) c"
        using v(2,3) I_date Moment e parts timestamp_typed [OF t]
        by (intro delimited_item) (simp_all add: timestamp_as_schema)
      then obtain c where c: "b = w_uint32 w ?tag @ c" "reads_item w (Sub timestamp_schema) (I_msg (toTimestamp (Some t))) c" by blast
      then have "reads_item w k v c"
        using Moment I_date e fromTimestamp_back [OF t] by (auto simp: reads_item_def timestamp_as_schema apfst_def map_prod_def split: prod.splits)
      then show ?thesis using c one Moment by (simp add: put_field_def)
    qed (use v(1) Moment in simp_all)
  qed
qed

end


section \<open>Whole messages\<close>

lemma map_of_map_set_other: "y \<noteq> x \<Longrightarrow> map_of (map_set x v m) y = map_of m y"
  by simp

context protobuf begin

lemma fields_back:
  assumes "set suf \<subseteq> set fs" and "distinct (map fst fs)" and "distinct (map (fst \<circ> snd) suf)"
    and "\<And>n x k. (n, x, k) \<in> set suf \<Longrightarrow> n < 2 ^ 29 \<and> parts_back w k \<and> typed_kind k (prop_of m x) \<and> map_of acc x = Some (kind_default k)"
    and "proto_encode w suf m = Some b" and "length b < 2 ^ 32"
  shows "decode_loop w (proto_switch w fs) (length b) (b @ r) acc = Some (fold (\<lambda>(n, x, k). map_set x (prop_of m x)) suf acc, r)"
  using assms
proof (induction suf arbitrary: b acc)
  case (Cons f suf)
  obtain n x k where f: "f = (n, x, k)" by (cases f)
  obtain b1 b2 where b1: "enc_kind w (n * 8 + kind_wire k) k (prop_of m x) = Some b1" and b2: "proto_encode w suf m = Some b2"
    and b: "b = b1 @ b2"
    using Cons.prems(5) f by (auto simp: concat_some_Cons bind_eq_Some_conv map_Cons_append)
  have h: "(n, x, k) \<in> set fs" "n < 2 ^ 29" "parts_back w k" "typed_kind k (prop_of m x)" "map_of acc x = Some (kind_default k)"
    using Cons.prems(1) Cons.prems(4) [of n x k] f by auto
  have rest: "map_of (map_set x (prop_of m x) acc) y = Some (kind_default j)" if "(l, y, j) \<in> set suf" for l y j
  proof -
    have "y \<noteq> x" using Cons.prems(3) f that by (force simp: image_iff)
    then show ?thesis using Cons.prems(4) [of l y j] that by simp
  qed
  have "decode_loop w (proto_switch w fs) (length b) (b @ r) acc =
    decode_loop w (proto_switch w fs) (length b2) (b2 @ r) (map_set x (prop_of m x) acc)"
    using field_back [OF h(1) Cons.prems(2) h(2,4) b1 _ h(5,3), where b' = b2 and r = r] Cons.prems(6) b by simp
  also have "\<dots> = Some (fold (\<lambda>(n, x, k). map_set x (prop_of m x)) suf (map_set x (prop_of m x) acc), r)"
    using Cons.prems b b2 rest by (intro Cons.IH) auto
  finally show ?case using f by simp
qed simp

end

lemma map_of_base: "distinct (map (fst \<circ> snd) fs) \<Longrightarrow> (n, x, k) \<in> set fs \<Longrightarrow> map_of (proto_base fs) x = Some (kind_default k)"
proof -
  assume d: "distinct (map (fst \<circ> snd) fs)" and i: "(n, x, k) \<in> set fs"
  have "map fst (proto_base fs) = map (fst \<circ> snd) fs" by (simp add: proto_base_def split_beta)
  moreover have "(x, kind_default k) \<in> set (proto_base fs)" using i by (force simp: proto_base_def)
  ultimately show ?thesis using d by (metis map_of_is_SomeI)
qed

text \<open>Setting every field of a base message gives the message.\<close>

lemma map_fst_fold: "\<forall>f \<in> set fs. fst (snd f) \<in> fst ` set acc \<Longrightarrow> map fst (fold (\<lambda>(n, x, k). map_set x (g x)) fs acc) = map fst acc"
proof (induction fs arbitrary: acc)
  case (Cons f fs)
  have "map fst (map_set (fst (snd f)) (g (fst (snd f))) acc) = map fst acc" using Cons.prems by (simp add: map_fst_map_set)
  moreover have "\<forall>e \<in> set fs. fst (snd e) \<in> fst ` set (map_set (fst (snd f)) (g (fst (snd f))) acc)"
    using Cons.prems by (simp add: keys_map_set)
  ultimately show ?case using Cons.IH by (simp add: split_beta)
qed simp

lemma map_of_fold:
  "map_of (fold (\<lambda>(n, x, k). map_set x (g x)) fs acc) y = (if y \<in> (fst \<circ> snd) ` set fs then Some (g y) else map_of acc y)"
  by (induction fs arbitrary: acc) auto

lemma alist_eq: "map fst a = map fst b \<Longrightarrow> distinct (map fst a) \<Longrightarrow> (\<And>x. x \<in> fst ` set a \<Longrightarrow> map_of a x = map_of b x) \<Longrightarrow> a = b"
proof (rule nth_equalityI)
  assume k: "map fst a = map fst b" and d: "distinct (map fst a)" and e: "\<And>x. x \<in> fst ` set a \<Longrightarrow> map_of a x = map_of b x"
  show l: "length a = length b" using k by (metis length_map)
  fix i assume i: "i < length a"
  have f: "fst (a ! i) = fst (b ! i)" using k i l by (metis nth_map)
  have "map_of a (fst (a ! i)) = Some (snd (a ! i))" "map_of b (fst (b ! i)) = Some (snd (b ! i))"
    using d k i l by (metis map_of_is_SomeI nth_mem prod.collapse)+
  then show "a ! i = b ! i" using e [of "fst (a ! i)"] f i by (metis image_eqI nth_mem option.inject prod.collapse)
qed

lemma fold_base:
  assumes "map fst m = map (fst \<circ> snd) fs" and "distinct (map (fst \<circ> snd) fs)"
  shows "fold (\<lambda>(n, x, k). map_set x (prop_of m x)) fs (proto_base fs) = m"
proof (rule alist_eq)
  let ?r = "fold (\<lambda>(n, x, k). map_set x (prop_of m x)) fs (proto_base fs)"
  have r: "map fst ?r = map (fst \<circ> snd) fs"
    by (subst map_fst_fold) (auto simp: proto_base_def image_iff split: prod.splits intro: rev_bexI)
  then show "map fst ?r = map fst m" "distinct (map fst ?r)" using assms by simp_all
  fix x assume "x \<in> fst ` set ?r"
  then have x: "x \<in> (fst \<circ> snd) ` set fs" using r by (metis list.set_map)
  then have "x \<in> fst ` set m" using assms(1) by (metis list.set_map)
  then obtain v where "map_of m x = Some v" by (metis map_of_eq_None_iff not_Some_eq)
  then show "map_of ?r x = map_of m x" using x by (simp add: map_of_fold prop_of_def)
qed

context protobuf begin

lemma schema_back:
  assumes "distinct (map fst fs)" and "distinct (map (fst \<circ> snd) fs)"
    and "\<And>n x k. (n, x, k) \<in> set fs \<Longrightarrow> n < 2 ^ 29 \<and> parts_back w k"
  shows "sub_back w fs"
  unfolding sub_back_def
proof (intro allI impI)
  fix m b r
  assume m: "typed_message fs m" "proto_encode w fs m = Some b" "length b < 2 ^ 32"
  have t: "map fst m = map (fst \<circ> snd) fs" "\<And>n x k. (n, x, k) \<in> set fs \<Longrightarrow> typed_kind k (prop_of m x)"
    using m(1) by (auto simp: typed_message_def list_all_iff)
  show "decode_loop w (proto_switch w fs) (length b) (b @ r) (proto_base fs) = Some (m, r)"
    using fields_back [of fs fs m "proto_base fs" b r] assms t m map_of_base [OF assms(2)] fold_base [OF t(1) assms(2)] by auto
qed

lemma good_parts_back: "good_kind k \<Longrightarrow> parts_back w k"
proof (induction k)
  case Moment
  show ?case unfolding parts_back.simps by (rule schema_back) (auto simp: timestamp_schema_def)
next
  case (Sub gs)
  show ?case unfolding parts_back.simps
    by (rule schema_back) (use Sub in \<open>auto simp: list_all_iff comp_def\<close>)
next
  case (Subs gs)
  show ?case unfolding parts_back.simps
    by (rule schema_back) (use Subs in \<open>auto simp: list_all_iff comp_def\<close>)
qed simp_all

text \<open>What \<open>encode\<close> writes of a typed message, \<open>decode\<close> reads back, whatever the library's bytes are.\<close>

lemma message_back:
  assumes "good_schema fs" and "typed_message fs m" and "proto_encode w fs m = Some b" and "length b < 2 ^ 32"
  shows "proto_decode w fs b = Some m"
proof -
  have "sub_back w fs" using good_parts_back [of "Sub fs"] assms(1) by (simp add: good_schema_def)
  then have "decode_loop w (proto_switch w fs) (length b) (b @ []) (proto_base fs) = Some (m, [])"
    using assms unfolding sub_back_def by blast
  then show ?thesis by (simp add: proto_decode_def decode_all_def)
qed

end

section \<open>Every typed message is written\<close>

lemma concat_some_all: "(\<And>x. x \<in> set xs \<Longrightarrow> x \<noteq> None) \<Longrightarrow> concat_some xs \<noteq> None"
proof (induction xs)
  case (Cons x xs)
  have "x \<noteq> None" "concat_some xs \<noteq> None" using Cons.prems [of x] Cons.IH Cons.prems by auto
  then show ?case by (auto simp: concat_some_Cons)
qed simp

lemma those_map: "(\<And>v. v \<in> set vs \<Longrightarrow> f v = Some (g v)) \<Longrightarrow> those (map f vs) = Some (map g vs)"
  by (induction vs) auto

lemma those_all: "those xs = Some ys \<longleftrightarrow> xs = map Some ys"
  by (induction xs arbitrary: ys) (auto split: option.splits)

context protobuf begin

lemma scalar_encodes: "typed_scalar t v \<Longrightarrow> enc_scalar w tag t v \<noteq> None"
  using scalar_written [of t v] by (auto simp: enc_scalar_def)

lemma fields_written:
  "(\<And>n x k. (n, x, k) \<in> set fs \<Longrightarrow> enc_kind w (n * 8 + kind_wire k) k (prop_of m x) \<noteq> None) \<Longrightarrow> proto_encode w fs m \<noteq> None"
proof (induction fs)
  case (Cons f fs)
  obtain n x k where f: "f = (n, x, k)" by (cases f)
  have "enc_kind w (n * 8 + kind_wire k) k (prop_of m x) \<noteq> None" "proto_encode w fs m \<noteq> None"
    using Cons.prems [of n x k] Cons.IH Cons.prems f by auto
  then show ?case using f by (auto simp: concat_some_Cons)
qed simp

lemma typed_fields_written:
  assumes "typed_message gs m" and "\<And>n x k tag v. (n, x, k) \<in> set gs \<Longrightarrow> typed_kind k v \<Longrightarrow> enc_kind w tag k v \<noteq> None"
  shows "proto_encode w gs m \<noteq> None"
  using assms(1) by (intro fields_written assms(2)) (auto simp: typed_message_def list_all_iff)

lemma kind_written: "typed_kind k v \<Longrightarrow> enc_kind w tag k v \<noteq> None"
proof (induction k arbitrary: tag v)
  case (One t)
  then show ?case by (simp add: scalar_encodes)
next
  case (Each t)
  then show ?case using scalar_written
    by (cases v) (auto simp: list_all_iff intro!: concat_some_all simp del: not_None_eq)
next
  case Moment
  show ?case
  proof (cases v)
    case (I_date e)
    then obtain t where "e = Some t" "time_ok t" using Moment by (cases e) auto
    then have "proto_encode w timestamp_schema (toTimestamp e) \<noteq> None"
      using timestamp_typed by (intro typed_fields_written) (auto simp: timestamp_schema_def intro!: scalar_encodes [unfolded not_None_eq])
    then show ?thesis using I_date by (auto simp: delimit_def timestamp_as_schema)
  qed (use Moment in simp_all)
next
  case (Sub gs)
  show ?case
  proof (cases v)
    case (I_msg m)
    then have "proto_encode w gs m \<noteq> None"
      using Sub.prems by (intro typed_fields_written Sub.IH) (auto simp: typed_message_def snds.simps)
    then show ?thesis using I_msg by (auto simp: delimit_def)
  qed (use Sub.prems in simp_all)
next
  case (Subs gs)
  obtain vs where vs: "v = I_list vs" using Subs.prems by (cases v) auto
  let ?f = "\<lambda>u. case u of I_msg m \<Rightarrow> delimit w tag (proto_encode w gs m) | _ \<Rightarrow> None"
  have all: "\<forall>u \<in> set vs. \<exists>m. u = I_msg m \<and> typed_message gs m" using Subs.prems unfolding vs typed_Subs .
  have "?f u \<noteq> None" if mem: "u \<in> set vs" for u
  proof -
    obtain m where m: "u = I_msg m" "typed_message gs m" using all mem by blast
    have "proto_encode w gs m \<noteq> None"
    proof (rule typed_fields_written [OF m(2)])
      fix n x k tag v assume "(n, x, k) \<in> set gs" "typed_kind k v"
      then show "enc_kind w tag k v \<noteq> None" by (intro Subs.IH [of "(n, x, k)" "(x, k)" k]) simp_all
    qed
    then show ?thesis using m(1) by (auto simp: delimit_def)
  qed
  then have "concat_some (map ?f vs) \<noteq> None" by (intro concat_some_all) auto
  then show ?case using vs by simp
qed

lemma message_written: "typed_message fs m \<Longrightarrow> \<exists>b. proto_encode w fs m = Some b"
  using typed_fields_written [OF _ kind_written] by blast

end

section \<open>JSON\<close>

lemma named_Subs: "named_kind (Subs gs) (I_list vs) \<Longrightarrow> I_msg m \<in> set vs \<Longrightarrow> named_message gs m"
  by (force simp: named_message_def list_all_iff)

lemma find_key: "distinct (map fst cs) \<Longrightarrow> (c, s) \<in> set cs \<Longrightarrow> List.find (\<lambda>(d, t). d = c) cs = Some (c, s)"
  by (induction cs) (auto simp: image_iff rev_image_eqI)

lemma find_value: "distinct (map snd cs) \<Longrightarrow> (c, s) \<in> set cs \<Longrightarrow> List.find (\<lambda>(d, t). s = t) cs = Some (c, s)"
  by (induction cs) (auto simp: image_iff rev_image_eqI)

lemma find_cong_set: "(\<And>x. x \<in> set xs \<Longrightarrow> P x = Q x) \<Longrightarrow> List.find P xs = List.find Q xs"
  by (induction xs) auto

lemma enum_back:
  assumes "good_scalar (T_enum cs)" and "c \<in> fst ` set cs"
  shows "enum_value cs (JStr (enum_name cs (num_of_int (int c)))) = num_of_int (int c)"
proof -
  have g: "distinct (map fst cs)" "distinct (map snd cs)" "\<And>d s. (d, s) \<in> set cs \<Longrightarrow> d < 2 ^ 31"
    using assms(1) by (auto simp: good_scalar_def list_all_iff)
  obtain s where s: "(c, s) \<in> set cs" using assms(2) by force
  have eq: "num_eq (num_of_int (int c)) (num_of_int (int d)) \<longleftrightarrow> d = c" if "(d, t) \<in> set cs" for d t
    using g(3) [OF that] g(3) [OF s] by (subst num_eq_int) auto
  have "List.find (\<lambda>(d, t). num_eq (num_of_int (int c)) (num_of_int (int d))) cs = Some (c, s)"
    using find_key [OF g(1) s] eq by (subst find_cong_set [where Q = "\<lambda>(d, t). d = c"]) auto
  then have n: "enum_name cs (num_of_int (int c)) = s" by (simp add: enum_name_def)
  show ?thesis using find_value [OF g(2) s] by (simp add: n enum_value_def)
qed

lemma scalar_json_back:
  assumes "good_scalar t" and "typed_scalar t v" and "named_scalar t v" and "json_scalar t v = Some j"
  shows "scalar_from t j = Some v" and "j \<noteq> JNull"
proof -
  have e: "scalar_from (T_enum cs) j = Some v" if t: "t = T_enum cs" for cs
  proof -
    obtain x where x: "v = I_num x" using assms(2) t by (cases v) (simp_all add: typed_scalar_def)
    obtain i where i: "x = num_of_int i" "- (2 ^ 31) \<le> i" "i < 2 ^ 31" using assms(2) t x by (auto simp: typed_scalar_def elim: number_inE)
    have "int_of_num x = Some i" using i by (simp add: int_of_num_holds [OF num_of_int_exact])
    then obtain c where c: "i = int c" "c \<in> fst ` set cs" using assms(3) t x by (auto simp: named_scalar_def)
    then show ?thesis using assms(1,4) t x i enum_back [of cs c] by (auto simp: json_scalar_def)
  qed
  then show "scalar_from t j = Some v" using assms(2,4)
    by (cases t; cases v) (auto simp: typed_scalar_def json_scalar_def num_round_int elim!: number_inE)
  show "j \<noteq> JNull" using assms(4) by (cases t; cases v) (auto simp: json_scalar_def)
qed

text \<open>\<open>got\<close> is what the property is in the object a field's JSON went into.\<close>

definition json_back :: "(string \<Rightarrow> int option) \<Rightarrow> proto_kind \<Rightarrow> bool" where
  "json_back host k \<longleftrightarrow> (\<forall>v got. typed_kind k v \<longrightarrow> named_kind k v \<longrightarrow> json_kind k v = Some got \<longrightarrow> kind_from host k (Some got) = Some v)"

lemma members_lookup:
  "json_members fs m = Some ms \<Longrightarrow> distinct (map (fst \<circ> snd) fs) \<Longrightarrow>
   (\<forall>(n, x, k) \<in> set fs. json_kind k (prop_of m x) = Some (map_of ms x)) \<and> fst ` set ms \<subseteq> (fst \<circ> snd) ` set fs"
proof (induction fs arbitrary: ms)
  case (Cons f fs)
  obtain p y j where f: "f = (p, y, j)" by (cases f)
  obtain got ms' where g: "json_kind j (prop_of m y) = Some got" and ms': "json_members fs m = Some ms'"
    and ms: "ms = (case got of None \<Rightarrow> [] | Some v \<Rightarrow> [(y, v)]) @ ms'"
    using Cons.prems f by (auto simp: concat_some_Cons bind_eq_Some_conv map_Cons_append)
  have d: "distinct (map (fst \<circ> snd) fs)" "y \<notin> (fst \<circ> snd) ` set fs" using Cons.prems f by (auto simp: comp_def)
  have IH: "\<forall>(n, x, k) \<in> set fs. json_kind k (prop_of m x) = Some (map_of ms' x)" "fst ` set ms' \<subseteq> (fst \<circ> snd) ` set fs"
    using Cons.IH [OF ms' d(1)] by auto
  have "map_of ms' y = None" using IH(2) d(2) by (auto simp: map_of_eq_None_iff)
  then have here: "json_kind j (prop_of m y) = Some (map_of ms y)" using g ms by (auto split: option.splits)
  have "json_kind k (prop_of m x) = Some (map_of ms x)" if i: "(n, x, k) \<in> set fs" for n x k
  proof -
    have "x \<noteq> y" using d(2) i by force
    then show ?thesis using IH(1) i ms by (auto split: option.splits)
  qed
  then have "\<forall>(n, x, k) \<in> set (f # fs). json_kind k (prop_of m x) = Some (map_of ms x)" using here f by auto
  moreover have "fst ` set ms \<subseteq> (fst \<circ> snd) ` set (f # fs)" using IH(2) ms f by (auto split: option.splits)
  ultimately show ?case ..
qed simp

lemma from_fields:
  assumes "\<And>n x k. (n, x, k) \<in> set fs \<Longrightarrow> kind_from host k (json_get x j) = Some (g x)"
  shows "proto_fromJSON host fs j = Some (map (\<lambda>(n, x, k). (x, g x)) fs)"
  using assms
proof (induction fs)
  case (Cons f fs)
  obtain n x k where f: "f = (n, x, k)" by (cases f)
  have "proto_fromJSON host fs j = Some (map (\<lambda>(n, x, k). (x, g x)) fs)" using Cons by auto
  then show ?case using Cons.prems [of n x k] f by (simp add: concat_some_Cons)
qed simp

lemma message_from_json:
  assumes "distinct (map (fst \<circ> snd) fs)" and "\<And>n x k. (n, x, k) \<in> set fs \<Longrightarrow> json_back host k"
    and "typed_message fs m" and "named_message fs m" and "json_members fs m = Some ms"
  shows "proto_fromJSON host fs (JObj ms) = Some m"
proof -
  have keys: "map fst m = map (fst \<circ> snd) fs" using assms(3) by (simp add: typed_message_def)
  have "kind_from host k (json_get x (JObj ms)) = Some (prop_of m x)" if "(n, x, k) \<in> set fs" for n x k
  proof -
    have "typed_kind k (prop_of m x)" "named_kind k (prop_of m x)"
      using assms(3,4) that by (auto simp: typed_message_def named_message_def list_all_iff)
    moreover have "json_kind k (prop_of m x) = Some (map_of ms x)" using members_lookup [OF assms(5,1)] that by fast
    ultimately show ?thesis using assms(2) [OF that] by (simp add: json_back_def json_get_def)
  qed
  then have "proto_fromJSON host fs (JObj ms) = Some (map (\<lambda>(n, x, k). (x, prop_of m x)) fs)" by (rule from_fields)
  also have "map (\<lambda>(n, x, k). (x, prop_of m x)) fs = m"
  proof (rule alist_eq)
    show k: "map fst (map (\<lambda>(n, x, k). (x, prop_of m x)) fs) = map fst m" by (simp add: keys split_beta)
    show d: "distinct (map fst (map (\<lambda>(n, x, k). (x, prop_of m x)) fs))" unfolding k keys by (rule assms(1))
    fix x assume "x \<in> fst ` set (map (\<lambda>(n, x, k). (x, prop_of m x)) fs)"
    then obtain n k where i: "(n, x, k) \<in> set fs" by auto
    then have "map_of (map (\<lambda>(n, x, k). (x, prop_of m x)) fs) x = Some (prop_of m x)"
      using imageI [OF i, of "\<lambda>(n, x, k). (x, prop_of m x)"] by (intro map_of_is_SomeI [OF d]) simp
    moreover have "x \<in> set (map fst m)" unfolding keys using imageI [OF i, of "fst \<circ> snd"] by simp
    ultimately show "map_of (map (\<lambda>(n, x, k). (x, prop_of m x)) fs) x = map_of m x"
      by (cases "map_of m x") (simp_all add: prop_of_def map_of_eq_None_iff)
  qed
  finally show ?thesis .
qed

lemma list_json_back:
  assumes "json_list f (I_list vs) = Some got" and "\<And>v j. v \<in> set vs \<Longrightarrow> f v = Some j \<Longrightarrow> g j = Some v"
  shows "if_array g (Some got) = Some (I_list vs)"
proof (cases "vs = []")
  case False
  then obtain js where js: "those (map f vs) = Some js" and got: "got = Some (JArr js)"
    using assms(1) by (auto simp: json_list_def)
  have "map f vs = map Some js" using js those_all by blast
  then have "length js = length vs" "\<And>i. i < length vs \<Longrightarrow> f (vs ! i) = Some (js ! i)"
    by (metis length_map) (metis (no_types, lifting) \<open>map f vs = map Some js\<close> length_map nth_map)
  then have "map g js = map Some vs" using assms(2) by (intro nth_equalityI) auto
  then have "those (map g js) = Some vs" using those_all by blast
  then show ?thesis using got by (simp add: if_array_def)
qed (use assms(1) in \<open>simp add: json_list_def if_array_def\<close>)

lemma kind_json_back: "good_kind k \<Longrightarrow> json_back host k"
proof (induction k)
  case (One t)
  show ?case unfolding json_back_def
  proof (intro allI impI)
    fix v got assume h: "typed_kind (One t) v" "named_kind (One t) v" "json_kind (One t) v = Some got"
    show "kind_from host (One t) (Some got) = Some v"
    proof (cases "is_default t v")
      case True
      then show ?thesis using h default_value [of t v] by (simp add: if_set_def)
    next
      case False
      then obtain j where j: "got = Some j" "json_scalar t v = Some j" using h(3) by auto
      then show ?thesis using scalar_json_back [of t v j] One h by (cases j) (simp_all add: if_set_def)
    qed
  qed
next
  case (Each t)
  show ?case unfolding json_back_def
  proof (intro allI impI)
    fix v got assume h: "typed_kind (Each t) v" "named_kind (Each t) v" "json_kind (Each t) v = Some got"
    obtain vs where vs: "v = I_list vs" using h(1) by (cases v) auto
    have "if_array (scalar_from t) (Some got) = Some (I_list vs)"
      using h(1,2) Each scalar_json_back(1) vs by (intro list_json_back [where f = "json_scalar t"]) (use h(3) vs in \<open>auto simp: list_all_iff\<close>)
    then show "kind_from host (Each t) (Some got) = Some v" using vs by simp
  qed
next
  case Moment
  show ?case unfolding json_back_def
  proof (intro allI impI)
    fix v got assume h: "typed_kind Moment v" "named_kind Moment v" "json_kind Moment v = Some got"
    show "kind_from host Moment (Some got) = Some v"
    proof (cases v)
      case (I_date e)
      then show ?thesis using h by (cases e) (auto simp: if_set_def date_parse_def)
    qed (use h in \<open>auto simp: if_set_def\<close>)
  qed
next
  case (Sub gs)
  have gs: "distinct (map (fst \<circ> snd) gs)" "\<And>n x k. (n, x, k) \<in> set gs \<Longrightarrow> json_back host k"
    using Sub by (auto simp: list_all_iff snds.simps)
  show ?case unfolding json_back_def
  proof (intro allI impI)
    fix v got assume h: "typed_kind (Sub gs) v" "named_kind (Sub gs) v" "json_kind (Sub gs) v = Some got"
    show "kind_from host (Sub gs) (Some got) = Some v"
    proof (cases v)
      case (I_msg m)
      then obtain ms where ms: "json_members gs m = Some ms" "got = Some (JObj ms)" using h(3) by auto
      have "typed_message gs m" "named_message gs m" using h I_msg by (simp_all add: typed_message_def named_message_def)
      then show ?thesis using message_from_json [OF gs _ _ ms(1)] ms(2) I_msg by (simp add: if_set_def)
    qed (use h in \<open>auto simp: if_set_def\<close>)
  qed
next
  case (Subs gs)
  have gs: "distinct (map (fst \<circ> snd) gs)" "\<And>n x k. (n, x, k) \<in> set gs \<Longrightarrow> json_back host k"
    using Subs by (auto simp: list_all_iff snds.simps)
  show ?case unfolding json_back_def
  proof (intro allI impI)
    fix v got assume h: "typed_kind (Subs gs) v" "named_kind (Subs gs) v" "json_kind (Subs gs) v = Some got"
    obtain vs where vs: "v = I_list vs" using h(1) by (cases v) auto
    have item: "map_option I_msg (proto_fromJSON host gs j) = Some u"
      if u: "u \<in> set vs" "(case u of I_msg m \<Rightarrow> map_option JObj (json_members gs m) | _ \<Rightarrow> None) = Some j" for u j
    proof -
      have "\<forall>u \<in> set vs. \<exists>m. u = I_msg m \<and> typed_message gs m" using h(1) unfolding vs typed_Subs .
      then obtain m where m: "u = I_msg m" "typed_message gs m" using u(1) by blast
      then obtain ms where ms: "json_members gs m = Some ms" "j = JObj ms" using u(2) by auto
      have "named_message gs m" using named_Subs h(2) vs u(1) m(1) by blast
      then show ?thesis using message_from_json [OF gs m(2) _ ms(1)] m(1) ms(2) by simp
    qed
    have "if_array (\<lambda>j. map_option I_msg (proto_fromJSON host gs j)) (Some got) = Some (I_list vs)"
      using h(3) vs item by (intro list_json_back [where f = "\<lambda>u. case u of I_msg m \<Rightarrow> map_option JObj (json_members gs m) | _ \<Rightarrow> None"]) auto
    then show "kind_from host (Subs gs) (Some got) = Some v" using vs by simp
  qed
qed

lemma json_message_back:
  assumes "good_schema fs" and "typed_message fs m" and "named_message fs m" and "proto_toJSON fs m = Some j"
  shows "proto_fromJSON host fs j = Some m"
proof -
  obtain ms where ms: "json_members fs m = Some ms" "j = JObj ms" using assms(4) by (auto simp: proto_toJSON_def)
  have "json_back host k" if "(n, x, k) \<in> set fs" for n x k
    using kind_json_back assms(1) that by (auto simp: good_schema_def list_all_iff)
  then show ?thesis using message_from_json [OF _ _ assms(2,3) ms(1)] assms(1) ms(2) by (simp add: good_schema_def)
qed

text \<open>The JSON of a typed message exists: its dates are valid.\<close>

lemma scalar_has_json: "typed_scalar t v \<Longrightarrow> json_scalar t v \<noteq> None"
  by (cases t; cases v) (auto simp: typed_scalar_def json_scalar_def)

lemma list_has_json: "(\<And>v. v \<in> set vs \<Longrightarrow> f v \<noteq> None) \<Longrightarrow> json_list f (I_list vs) \<noteq> None"
proof -
  assume f: "\<And>v. v \<in> set vs \<Longrightarrow> f v \<noteq> None"
  have "those (map f vs) = Some (map (the \<circ> f) vs)" using f by (intro those_map) auto
  then show ?thesis by (simp add: json_list_def)
qed

lemma members_exist:
  "(\<And>n x k. (n, x, k) \<in> set fs \<Longrightarrow> json_kind k (prop_of m x) \<noteq> None) \<Longrightarrow> json_members fs m \<noteq> None"
proof (induction fs)
  case (Cons f fs)
  obtain n x k where f: "f = (n, x, k)" by (cases f)
  have "json_kind k (prop_of m x) \<noteq> None" by (rule Cons.prems [of n x k]) (simp add: f)
  moreover have "json_members fs m \<noteq> None" by (rule Cons.IH, rule Cons.prems) (rule list.set_intros(2))
  ultimately show ?case using f by (auto simp: concat_some_Cons)
qed simp

lemma typed_members_exist:
  assumes "typed_message gs m" and "\<And>n x k v. (n, x, k) \<in> set gs \<Longrightarrow> typed_kind k v \<Longrightarrow> json_kind k v \<noteq> None"
  shows "json_members gs m \<noteq> None"
  using assms(1) by (intro members_exist assms(2)) (auto simp: typed_message_def list_all_iff)

lemma kind_has_json: "typed_kind k v \<Longrightarrow> json_kind k v \<noteq> None"
proof (induction k arbitrary: v)
  case (One t)
  then show ?case using scalar_has_json [of t v] by simp
next
  case (Each t)
  then obtain vs where vs: "v = I_list vs" by (cases v) auto
  then show ?case using Each scalar_has_json list_has_json [of vs "json_scalar t"] by (simp add: list_all_iff)
next
  case Moment
  then show ?case by (cases v) (auto split: option.splits)
next
  case (Sub gs)
  show ?case
  proof (cases v)
    case (I_msg m)
    have "json_members gs m \<noteq> None"
    proof (rule typed_members_exist)
      show "typed_message gs m" using Sub.prems I_msg by (simp add: typed_message_def)
      fix n x k v assume "(n, x, k) \<in> set gs" "typed_kind k v"
      then show "json_kind k v \<noteq> None" by (intro Sub.IH [of "(n, x, k)" "(x, k)" k]) simp_all
    qed
    then show ?thesis using I_msg by auto
  qed (use Sub.prems in simp_all)
next
  case (Subs gs)
  obtain vs where vs: "v = I_list vs" using Subs.prems by (cases v) auto
  let ?f = "\<lambda>u. case u of I_msg m \<Rightarrow> map_option JObj (json_members gs m) | _ \<Rightarrow> None"
  have all: "\<forall>u \<in> set vs. \<exists>m. u = I_msg m \<and> typed_message gs m" using Subs.prems unfolding vs typed_Subs .
  have "?f u \<noteq> None" if mem: "u \<in> set vs" for u
  proof -
    obtain m where m: "u = I_msg m" "typed_message gs m" using all mem by blast
    have "json_members gs m \<noteq> None"
    proof (rule typed_members_exist [OF m(2)])
      fix n x k v assume "(n, x, k) \<in> set gs" "typed_kind k v"
      then show "json_kind k v \<noteq> None" by (intro Subs.IH [of "(n, x, k)" "(x, k)" k]) simp_all
    qed
    then show ?thesis using m(1) by auto
  qed
  then have "json_list ?f (I_list vs) \<noteq> None" by (rule list_has_json)
  then show ?case using vs by simp
qed

lemma message_has_json: "typed_message fs m \<Longrightarrow> \<exists>j. proto_toJSON fs m = Some j"
  using typed_members_exist [OF _ kind_has_json] by (fastforce simp: proto_toJSON_def)

end
