(* ===== verification/SchemaSafe.thy ===== *)
theory SchemaSafe imports SchemaBack begin

text \<open>
  The generated decoders on bytes somebody else wrote: they return or throw on every input, and what
  they return is of the message's type. The bytes of an approval request come from the application that
  asks, so neither may depend on them.
\<close>

section \<open>Nothing read moves backwards\<close>

context protobuf begin

text \<open>A loop keeps what its fields keep, and never gives bytes back.\<close>

lemma loop_keeps:
  assumes step: "\<And>tag bs m m' bs'. field tag bs m = Some (Some (m', bs')) \<Longrightarrow> I m \<Longrightarrow> I m' \<and> length bs' \<le> length bs"
  shows "decode_loop w field todo bs m = Some (m', r) \<Longrightarrow> I m \<Longrightarrow> I m' \<and> length r \<le> length bs"
proof (induction "length bs" arbitrary: todo bs m rule: less_induct)
  case less
  show ?case
  proof (cases "todo = 0")
    case True
    then show ?thesis using less.prems by (simp add: decode_loop.simps)
  next
    case False
    then obtain tag bs1 where t: "r_uint32 w bs = Some (tag, bs1)"
      using less.prems(1) by (subst (asm) decode_loop.simps) (auto split: option.splits)
    have shorter: "length bs1 < length bs" using t by (rule reads)
    show ?thesis
    proof (cases "field tag bs1 m")
      case None
      show ?thesis
      proof (cases "tag mod 8 = 4 \<or> tag = 0")
        case True
        then have "m' = m \<and> r = bs1"
          using less.prems(1) False t None by (subst (asm) decode_loop.simps) auto
        then show ?thesis using less.prems(2) shorter by simp
      next
        case go: False
        obtain bs2 where s: "r_skip w (tag mod 8) bs1 = Some bs2"
          and l: "decode_loop w field (todo - (length bs - length bs2)) bs2 m = Some (m', r)"
          using less.prems(1) False t None go by (subst (asm) decode_loop.simps) (auto split: option.splits if_splits)
        have "length bs2 \<le> length bs1" using s by (rule reads)
        then show ?thesis using less.hyps [OF _ l less.prems(2)] shorter by linarith
      qed
    next
      case (Some g)
      then obtain m1 bs2 where g: "g = Some (m1, bs2)"
        and l: "decode_loop w field (todo - (length bs - length bs2)) bs2 m1 = Some (m', r)"
        using less.prems(1) False t by (subst (asm) decode_loop.simps) (auto split: option.splits)
      have "I m1" "length bs2 \<le> length bs1" using step Some g less.prems(2) by blast+
      then show ?thesis using less.hyps [OF _ l] shorter by force
    qed
  qed
qed

lemma scalar_shorter: "read_scalar w t bs = Some (v, r) \<Longrightarrow> length r \<le> length bs"
  by (cases t) (auto dest: reads intro: less_imp_le)

end

text \<open>\<open>kind_shrinks w k\<close>: reading a value of kind \<open>k\<close> gives no bytes back.\<close>

definition kind_shrinks :: "wire_lib \<Rightarrow> proto_kind \<Rightarrow> bool" where
  "kind_shrinks w k \<longleftrightarrow> (\<forall>bs v r. read_kind w k bs = Some (v, r) \<longrightarrow> length r \<le> length bs)"

lemma switch_reads:
  assumes "proto_switch w fs tag bs m = Some (Some (m', bs'))"
  shows "\<exists>n x k v. (n, x, k) \<in> set fs \<and> tag = n * 8 + kind_wire k \<and> read_kind w k bs = Some (v, bs') \<and> m' = put_field x k v m"
  using assms
proof (induction fs)
  case (Cons f fs)
  obtain n x k where f: "f = (n, x, k)" by (cases f)
  show ?case
  proof (cases "tag div 8 = n")
    case True
    then have "tag = n * 8 + kind_wire k" "set_field (put_field x k) (read_kind w k bs) m = Some (Some (m', bs'))"
      using Cons.prems f by (auto split: if_splits)
    then show ?thesis using f by (auto simp: set_field_def intro!: exI [of _ n] exI [of _ x] exI [of _ k])
  next
    case False
    then show ?thesis using Cons f by auto
  qed
qed simp

context protobuf begin

lemma sub_shrinks:
  assumes "\<And>n x k. (n, x, k) \<in> set fs \<Longrightarrow> kind_shrinks w k"
  shows "read_sub w (proto_switch w fs) base bs = Some (m, r) \<Longrightarrow> length r \<le> length bs"
proof -
  assume "read_sub w (proto_switch w fs) base bs = Some (m, r)"
  then obtain n bs1 where l: "r_uint32 w bs = Some (n, bs1)" "decode_loop w (proto_switch w fs) n bs1 base = Some (m, r)"
    by (auto simp: read_sub_def bind_eq_Some_conv)
  have "length r \<le> length bs1"
    using loop_keeps [where I = "\<lambda>_. True" and field = "proto_switch w fs", OF _ l(2)] switch_reads assms
    unfolding kind_shrinks_def by blast
  then show ?thesis using reads(1) [OF l(1)] by simp
qed

lemma all_shrink: "kind_shrinks w k"
proof (induction k)
  case (Sub gs)
  then show ?case using sub_shrinks [of gs] by (fastforce simp: kind_shrinks_def)
next
  case (Subs gs)
  then show ?case using sub_shrinks [of gs] by (fastforce simp: kind_shrinks_def)
next
  case Moment
  have one: "kind_shrinks w (One t)" for t by (auto simp: kind_shrinks_def dest: scalar_shorter)
  have "kind_shrinks w k" if "(n, x, k) \<in> set timestamp_schema" for n x k
    using that by (auto simp: timestamp_schema_def one)
  then show ?case using sub_shrinks [of timestamp_schema] by (fastforce simp: kind_shrinks_def timestamp_as_schema)
qed (auto simp: kind_shrinks_def dest: scalar_shorter)

lemma switch_shrinks: "proto_switch w fs tag bs m = Some (Some (m', bs')) \<Longrightarrow> length bs' \<le> length bs"
  using switch_reads all_shrink unfolding kind_shrinks_def by blast

end

section \<open>Decoding returns\<close>

text \<open>
  The decoders once more, counting the turns of each loop, with three results told apart: a value, an
  exception, and a loop that still runs when its turns are used up. \<open>decode_loop\<close> is \<open>None\<close> for the last
  two alike; it is proved below to be this run for any number of turns above the bytes there are, and that
  a run of so many turns has ended. So a \<open>None\<close> of a decoder is an exception, at every depth.
\<close>

datatype 'a run = Returned 'a | Threw | Running

fun map_run :: "('a \<Rightarrow> 'b) \<Rightarrow> 'a run \<Rightarrow> 'b run" where
  "map_run f (Returned v) = Returned (f v)"
| "map_run f Threw = Threw"
| "map_run f Running = Running"

fun returned :: "'a run \<Rightarrow> 'a option" where
  "returned (Returned v) = Some v"
| "returned Threw = None"
| "returned Running = None"

definition run_of :: "'a option \<Rightarrow> 'a run" where
  "run_of r = (case r of None \<Rightarrow> Threw | Some v \<Rightarrow> Returned v)"

fun run_loop :: "nat \<Rightarrow> wire_lib \<Rightarrow> (nat \<Rightarrow> byte list \<Rightarrow> 'm \<Rightarrow> ('m \<times> byte list) run option) \<Rightarrow> nat \<Rightarrow> byte list \<Rightarrow> 'm \<Rightarrow>
    ('m \<times> byte list) run" where
  "run_loop 0 w field todo bs m = Running"
| "run_loop (Suc turns) w field todo bs m =
    (if todo = 0 then Returned (m, bs)
     else (case r_uint32 w bs of
       None \<Rightarrow> Threw
     | Some (tag, bs1) \<Rightarrow>
         (case field tag bs1 m of
            Some (Returned (m', bs2)) \<Rightarrow> run_loop turns w field (todo - (length bs - length bs2)) bs2 m'
          | Some Threw \<Rightarrow> Threw
          | Some Running \<Rightarrow> Running
          | None \<Rightarrow>
              if tag mod 8 = 4 \<or> tag = 0 then Returned (m, bs1)
              else (case r_skip w (tag mod 8) bs1 of
                None \<Rightarrow> Threw
              | Some bs2 \<Rightarrow> run_loop turns w field (todo - (length bs - length bs2)) bs2 m))))"

definition run_set :: "('v \<Rightarrow> 'm \<Rightarrow> 'm) \<Rightarrow> ('v \<times> byte list) run \<Rightarrow> 'm \<Rightarrow> ('m \<times> byte list) run option" where
  "run_set upd r m = Some (map_run (\<lambda>(v, bs). (upd v m, bs)) r)"

definition run_sub :: "nat \<Rightarrow> wire_lib \<Rightarrow> (nat \<Rightarrow> byte list \<Rightarrow> message \<Rightarrow> (message \<times> byte list) run option) \<Rightarrow> message \<Rightarrow>
    byte list \<Rightarrow> (message \<times> byte list) run" where
  "run_sub turns w field base bs = (case r_uint32 w bs of None \<Rightarrow> Threw | Some (len, r) \<Rightarrow> run_loop turns w field len r base)"

definition run_timestamp :: "wire_lib \<Rightarrow> nat \<Rightarrow> byte list \<Rightarrow> message \<Rightarrow> (message \<times> byte list) run option" where
  "run_timestamp w tag bs m =
    (if tag div 8 = 1 then
       (if tag \<noteq> 8 then None else run_set (put_field ''seconds'' (One T_int64)) (run_of (read_scalar w T_int64 bs)) m)
     else if tag div 8 = 2 then
       (if tag \<noteq> 16 then None else run_set (put_field ''nanos'' (One T_int32)) (run_of (read_scalar w T_int32 bs)) m)
     else None)"

function run_kind :: "nat \<Rightarrow> wire_lib \<Rightarrow> proto_kind \<Rightarrow> byte list \<Rightarrow> (proto_item \<times> byte list) run"
  and run_switch :: "nat \<Rightarrow> wire_lib \<Rightarrow> schema \<Rightarrow> nat \<Rightarrow> byte list \<Rightarrow> message \<Rightarrow> (message \<times> byte list) run option" where
  "run_kind turns w (One t) = (\<lambda>bs. run_of (read_scalar w t bs))"
| "run_kind turns w (Each t) = (\<lambda>bs. run_of (read_scalar w t bs))"
| "run_kind turns w (Sub fs) = (\<lambda>bs. map_run (apfst I_msg) (run_sub turns w (run_switch turns w fs) (proto_base fs) bs))"
| "run_kind turns w (Subs fs) = (\<lambda>bs. map_run (apfst I_msg) (run_sub turns w (run_switch turns w fs) (proto_base fs) bs))"
| "run_kind turns w Moment = (\<lambda>bs. map_run (apfst fromTimestamp) (run_sub turns w (run_timestamp w) (proto_base timestamp_schema) bs))"
| "run_switch turns w [] = (\<lambda>tag bs m. None)"
| "run_switch turns w ((n, x, k) # fs) = (\<lambda>tag bs m.
    if tag div 8 = n then
      (if tag \<noteq> n * 8 + kind_wire k then None else run_set (put_field x k) (run_kind turns w k bs) m)
    else run_switch turns w fs tag bs m)"
  by pat_completeness auto
termination
  by (relation "measure (\<lambda>a. case a of Inl (turns, w, k) \<Rightarrow> size k | Inr (turns, w, fs) \<Rightarrow> schema_size fs)") (auto simp: schema_size_def)

definition run_decode :: "nat \<Rightarrow> wire_lib \<Rightarrow> schema \<Rightarrow> byte list \<Rightarrow> message run" where
  "run_decode turns w fs bs = map_run fst (run_loop turns w (run_switch turns w fs) (length bs) bs (proto_base fs))"

text \<open>\<open>ends_as r v\<close>: the run has ended, with the value or the exception \<open>v\<close> stands for.\<close>

definition ends_as :: "'a run \<Rightarrow> 'a option \<Rightarrow> bool" where
  "ends_as r v \<longleftrightarrow> r \<noteq> Running \<and> v = returned r"

definition field_ends_as :: "'a run option \<Rightarrow> 'a option option \<Rightarrow> bool" where
  "field_ends_as r v \<longleftrightarrow> (case (r, v) of (None, None) \<Rightarrow> True | (Some x, Some y) \<Rightarrow> ends_as x y | _ \<Rightarrow> False)"

lemma ends_run_of: "ends_as (run_of r) r"
  by (cases r) (simp_all add: ends_as_def run_of_def)

lemma ends_map: "ends_as r v \<Longrightarrow> ends_as (map_run f r) (map_option f v)"
  by (cases r) (simp_all add: ends_as_def)

lemma ends_none [simp]: "field_ends_as None None" by (simp add: field_ends_as_def)

lemma ends_set: "ends_as r v \<Longrightarrow> field_ends_as (run_set upd r m) (set_field upd v m)"
  by (simp add: field_ends_as_def run_set_def set_field_def ends_map)

context protobuf begin

lemma loop_run:
  assumes same: "\<And>tag bs' m. length bs' < bound \<Longrightarrow> field_ends_as (field' tag bs' m) (field tag bs' m)"
    and shrinks: "\<And>tag bs' m m' bs''. field tag bs' m = Some (Some (m', bs'')) \<Longrightarrow> length bs'' \<le> length bs'"
  shows "length bs < turns \<Longrightarrow> length bs \<le> bound \<Longrightarrow> ends_as (run_loop turns w field' todo bs m) (decode_loop w field todo bs m)"
proof (induction turns arbitrary: todo bs m)
  case (Suc turns)
  show ?case
  proof (cases "todo = 0 \<or> r_uint32 w bs = None")
    case True
    then show ?thesis by (subst decode_loop.simps) (auto simp: ends_as_def)
  next
    case False
    then obtain tag bs1 where t: "todo \<noteq> 0" "r_uint32 w bs = Some (tag, bs1)" by auto
    have shorter: "length bs1 < length bs" using t(2) by (rule reads)
    have f: "field_ends_as (field' tag bs1 m) (field tag bs1 m)" using same shorter Suc.prems(2) by simp
    have on: "ends_as (run_loop turns w field' td bs2 m2) (decode_loop w field td bs2 m2)" if "length bs2 \<le> length bs1" for td bs2 m2
      using Suc.IH Suc.prems that shorter by simp
    show ?thesis
    proof (cases "field tag bs1 m")
      case None
      then have f': "field' tag bs1 m = None" using f by (cases "field' tag bs1 m") (simp_all add: field_ends_as_def)
      show ?thesis
      proof (cases "tag mod 8 = 4 \<or> tag = 0 \<or> r_skip w (tag mod 8) bs1 = None")
        case True
        then show ?thesis using t None f' by (subst decode_loop.simps) (auto simp: ends_as_def)
      next
        case go: False
        then obtain bs2 where s: "r_skip w (tag mod 8) bs1 = Some bs2" by auto
        have "length bs2 \<le> length bs1" using s by (rule reads)
        then show ?thesis using t None f' go s on by (subst decode_loop.simps) simp
      qed
    next
      case (Some g)
      then obtain g' where g': "field' tag bs1 m = Some g'" "ends_as g' g" using f by (cases "field' tag bs1 m") (simp_all add: field_ends_as_def)
      show ?thesis
      proof (cases g)
        case None
        then have "g' = Threw" using g'(2) by (cases g') (simp_all add: ends_as_def)
        then show ?thesis using t Some g'(1) None by (subst decode_loop.simps) (simp add: ends_as_def)
      next
        case read: (Some q)
        obtain m2 bs2 where q: "q = (m2, bs2)" by (cases q)
        have "g' = Returned (m2, bs2)" using g'(2) read q by (cases g') (simp_all add: ends_as_def)
        moreover have "length bs2 \<le> length bs1" using shrinks Some read q by blast
        ultimately show ?thesis using t Some g'(1) read q on by (subst decode_loop.simps) simp
      qed
    qed
  qed
qed simp

definition kind_runs :: "nat \<Rightarrow> proto_kind \<Rightarrow> bool" where
  "kind_runs turns k \<longleftrightarrow> (\<forall>bs. length bs < turns \<longrightarrow> ends_as (run_kind turns w k bs) (read_kind w k bs))"

lemma switch_runs:
  assumes "\<And>n x k. (n, x, k) \<in> set fs \<Longrightarrow> kind_runs turns k" and "length bs < turns"
  shows "field_ends_as (run_switch turns w fs tag bs m) (proto_switch w fs tag bs m)"
  using assms
proof (induction fs)
  case (Cons f fs)
  obtain n x k where f: "f = (n, x, k)" by (cases f)
  then have "ends_as (run_kind turns w k bs) (read_kind w k bs)" using Cons.prems by (auto simp: kind_runs_def)
  then have "field_ends_as (run_set (put_field x k) (run_kind turns w k bs) m) (set_field (put_field x k) (read_kind w k bs) m)" by (rule ends_set)
  moreover have "field_ends_as (run_switch turns w fs tag bs m) (proto_switch w fs tag bs m)" using Cons by auto
  ultimately show ?case
    unfolding f by (cases "tag div 8 = n"; cases "tag \<noteq> n * 8 + kind_wire k") (simp_all only: run_switch.simps proto_switch.simps if_True if_False ends_none refl not_False_eq_True simp_thms)
qed simp

lemma timestamp_runs: "field_ends_as (run_timestamp w tag bs m) (timestamp_switch w tag bs m)"
proof -
  have "field_ends_as (run_set upd (run_of r) m) (set_field upd r m)" for upd :: "proto_item \<Rightarrow> message \<Rightarrow> message" and r
    by (rule ends_set [OF ends_run_of])
  then show ?thesis by (simp add: run_timestamp_def timestamp_switch_def)
qed

lemma sub_runs:
  assumes "\<And>tag bs' m. length bs' < turns \<Longrightarrow> field_ends_as (field' tag bs' m) (field tag bs' m)"
    and "\<And>tag bs' m m' bs''. field tag bs' m = Some (Some (m', bs'')) \<Longrightarrow> length bs'' \<le> length bs'" and "length bs < turns"
  shows "ends_as (run_sub turns w field' base bs) (read_sub w field base bs)"
proof (cases "r_uint32 w bs")
  case (Some p)
  obtain len bs1 where p: "p = (len, bs1)" by (cases p)
  then have "length bs1 < length bs" using Some reads(1) by simp
  then show ?thesis using Some p loop_run [where bound = turns and turns = turns and field' = field' and field = field, OF assms(1,2)] assms(3)
    by (simp add: run_sub_def read_sub_def)
qed (simp add: run_sub_def read_sub_def ends_as_def)

lemma timestamp_shrinks: "timestamp_switch w tag bs m = Some (Some (m', bs')) \<Longrightarrow> length bs' \<le> length bs"
  using switch_shrinks [of timestamp_schema] by (simp add: timestamp_as_schema)

lemma every_kind_runs: "kind_runs turns k"
proof (induction k)
  case (Sub gs)
  have "ends_as (run_sub turns w (run_switch turns w gs) (proto_base gs) bs) (read_sub w (proto_switch w gs) (proto_base gs) bs)"
    if "length bs < turns" for bs
    by (rule sub_runs [OF switch_runs switch_shrinks that]) (use Sub in fastforce)
  then show ?case by (simp add: kind_runs_def ends_map)
next
  case (Subs gs)
  have "ends_as (run_sub turns w (run_switch turns w gs) (proto_base gs) bs) (read_sub w (proto_switch w gs) (proto_base gs) bs)"
    if "length bs < turns" for bs
    by (rule sub_runs [OF switch_runs switch_shrinks that]) (use Subs in fastforce)
  then show ?case by (simp add: kind_runs_def ends_map)
next
  case Moment
  have "ends_as (run_sub turns w (run_timestamp w) base bs) (read_sub w (timestamp_switch w) base bs)" if "length bs < turns" for base bs
    by (rule sub_runs [OF timestamp_runs timestamp_shrinks that])
  then show ?case by (simp add: kind_runs_def ends_map)
qed (simp_all add: kind_runs_def ends_run_of)

lemma decoder_ends:
  assumes "length bs < turns"
  shows "run_decode turns w fs bs \<noteq> Running \<and> proto_decode w fs bs = returned (run_decode turns w fs bs)"
proof -
  have "ends_as (run_loop turns w (run_switch turns w fs) (length bs) bs (proto_base fs)) (decode_loop w (proto_switch w fs) (length bs) bs (proto_base fs))"
    by (rule loop_run [where bound = turns, OF switch_runs switch_shrinks assms]) (use every_kind_runs assms in auto)
  then have "ends_as (run_decode turns w fs bs) (proto_decode w fs bs)"
    unfolding run_decode_def proto_decode_def decode_all_def by (rule ends_map)
  then show ?thesis by (simp add: ends_as_def)
qed

end

section \<open>What is decoded is typed\<close>

fun dateless :: "proto_kind \<Rightarrow> bool" where
  "dateless Moment = False"
| "dateless (Sub fs) = list_all (\<lambda>(n, x, k). dateless k) fs"
| "dateless (Subs fs) = list_all (\<lambda>(n, x, k). dateless k) fs"
| "dateless _ = True"

fun item_typed :: "proto_kind \<Rightarrow> proto_item \<Rightarrow> bool" where
  "item_typed (Each t) v = typed_scalar t v"
| "item_typed (Subs gs) v = typed_kind (Subs gs) (I_list [v])"
| "item_typed (Sub gs) v = (v \<noteq> I_undefined \<and> typed_kind (Sub gs) v)"
| "item_typed k v = typed_kind k v"

lemma base_typed: "distinct (map (fst \<circ> snd) fs) \<Longrightarrow> typed_message fs (proto_base fs)"
proof -
  assume d: "distinct (map (fst \<circ> snd) fs)"
  have "typed_kind k (kind_default k)" for k by (cases k) (simp_all add: defaults_typed)
  then have "typed_kind k (prop_of (proto_base fs) x)" if "(n, x, k) \<in> set fs" for n x k
    using map_of_base [OF d that] by (simp add: prop_of_def)
  moreover have "map fst (proto_base fs) = map (fst \<circ> snd) fs" by (simp add: proto_base_def split_beta)
  ultimately show ?thesis by (auto simp: typed_message_def list_all_iff)
qed

lemma no_list_default [simp]: "scalar_default t \<noteq> I_list vs"
  by (cases t) simp_all

lemma put_typed:
  assumes "distinct (map (fst \<circ> snd) fs)" and "(n, x, k) \<in> set fs" and "item_typed k v" and "typed_message fs m"
  shows "typed_message fs (put_field x k v m)"
proof -
  have keys: "map fst m = map (fst \<circ> snd) fs" and ty: "\<And>n x k. (n, x, k) \<in> set fs \<Longrightarrow> typed_kind k (prop_of m x)"
    using assms(4) by (auto simp: typed_message_def list_all_iff)
  have "x \<in> set (map fst m)" unfolding keys using imageI [OF assms(2), of "fst \<circ> snd"] by simp
  then have k': "map fst (map_set x u m) = map fst m" for u by (simp add: map_fst_map_set)
  obtain u where u: "put_field x k v m = map_set x u m" "typed_kind k u"
  proof (cases "kind_default k = I_list []")
    case True
    then obtain vs where vs: "prop_of m x = I_list vs" using ty [OF assms(2)] by (cases k; cases "prop_of m x") auto
    have "typed_kind k (I_list (vs @ [v]))" using ty [OF assms(2)] vs assms(3) True by (cases k) auto
    then show ?thesis using that [of "I_list (vs @ [v])"] True vs by (simp add: put_field_def)
  next
    case False
    then have "put_field x k v m = map_set x v m"
      by (cases k) (auto simp: put_field_def split: proto_item.splits proto_scalar.splits elim: scalar_default.elims)
    moreover have "typed_kind k v" using False assms(3) by (cases k) auto
    ultimately show ?thesis using that by blast
  qed
  have "typed_kind k2 (prop_of (map_set x u m) y)" if i: "(n2, y, k2) \<in> set fs" for n2 y k2
  proof (cases "y = x")
    case True
    have "(n2, y, k2) = (n, x, k)"
      by (rule inj_onD [of "fst \<circ> snd" "set fs"]) (use assms(1,2) i True in \<open>simp_all add: distinct_map\<close>)
    then show ?thesis using u(2) by (simp add: prop_of_def)
  next
    case False
    then show ?thesis using ty [OF i] by (simp add: prop_of_def)
  qed
  then show ?thesis using u(1) k' keys by (auto simp: typed_message_def list_all_iff)
qed

definition reads_typed :: "wire_lib \<Rightarrow> proto_kind \<Rightarrow> bool" where
  "reads_typed w k \<longleftrightarrow> (\<forall>bs v r. read_kind w k bs = Some (v, r) \<longrightarrow> item_typed k v)"

context protobuf begin

lemma scalar_typed: "read_scalar w t bs = Some (v, r) \<Longrightarrow> typed_scalar t v"
  by (cases t) (auto simp: typed_scalar_def number_in_of digits_in_of abs_if dest!: widths [simplified])

lemma loop_typed:
  assumes "distinct (map (fst \<circ> snd) fs)" and "\<And>n x k. (n, x, k) \<in> set fs \<Longrightarrow> reads_typed w k"
    and "decode_loop w (proto_switch w fs) todo bs (proto_base fs) = Some (m, r)"
  shows "typed_message fs m"
proof -
  have "typed_message fs m \<and> length r \<le> length bs"
  proof (rule loop_keeps [where I = "typed_message fs" and field = "proto_switch w fs", OF _ assms(3) base_typed [OF assms(1)]])
    fix tag bs m m' bs' assume s: "proto_switch w fs tag bs m = Some (Some (m', bs'))" and m: "typed_message fs m"
    obtain n x k v where "(n, x, k) \<in> set fs" "read_kind w k bs = Some (v, bs')" "m' = put_field x k v m"
      using switch_reads [OF s] by blast
    then show "typed_message fs m' \<and> length bs' \<le> length bs"
      using put_typed [OF assms(1) _ _ m] assms(2) switch_shrinks [OF s] unfolding reads_typed_def by blast
  qed
  then show ?thesis ..
qed

lemma kind_reads_typed: "good_kind k \<Longrightarrow> dateless k \<Longrightarrow> reads_typed w k"
proof (induction k)
  case (Sub gs)
  have "reads_typed w k" if i: "(n, x, k) \<in> set gs" for n x k
    by (rule Sub.IH [of "(n, x, k)" "(x, k)" k]) (use Sub.prems i in \<open>auto simp: list_all_iff\<close>)
  moreover have "distinct (map (fst \<circ> snd) gs)" using Sub.prems by simp
  ultimately have g: "decode_loop w (proto_switch w gs) todo bs (proto_base gs) = Some (m, r) \<Longrightarrow> typed_message gs m" for todo bs m r
    using loop_typed by blast
  show ?case unfolding reads_typed_def
    using g by (auto simp: read_sub_def bind_eq_Some_conv typed_message_def)
next
  case (Subs gs)
  have "reads_typed w k" if i: "(n, x, k) \<in> set gs" for n x k
    by (rule Subs.IH [of "(n, x, k)" "(x, k)" k]) (use Subs.prems i in \<open>auto simp: list_all_iff\<close>)
  moreover have "distinct (map (fst \<circ> snd) gs)" using Subs.prems by simp
  ultimately have g: "decode_loop w (proto_switch w gs) todo bs (proto_base gs) = Some (m, r) \<Longrightarrow> typed_message gs m" for todo bs m r
    using loop_typed by blast
  show ?case unfolding reads_typed_def
    using g by (auto simp: read_sub_def bind_eq_Some_conv typed_message_def)
qed (auto simp: reads_typed_def dest: scalar_typed)

lemma decoded_typed:
  assumes "good_schema fs" and "dateless (Sub fs)" and "proto_decode w fs bs = Some m"
  shows "typed_message fs m"
proof -
  have "reads_typed w k" if "(n, x, k) \<in> set fs" for n x k
    using that assms(1,2) by (intro kind_reads_typed) (auto simp: good_schema_def list_all_iff)
  then show ?thesis using assms by (auto simp: proto_decode_def decode_all_def good_schema_def intro: loop_typed)
qed

end

end
