(* ===== verification/CosmosProto.thy ===== *)
theory CosmosProto imports Schema begin

text \<open>
  Coins and pagination, as \<open>clients/sdk/src/generated/cosmos/base\<close> codes them: the
  enums, then each message as the schema its six functions follow.
\<close>

definition cosmos_PageRequest :: schema where
  "cosmos_PageRequest = [(1, ''key'', One T_bytes), (2, ''offset'', One T_uint64), (3, ''limit'', One T_uint64),
     (4, ''countTotal'', One T_bool), (5, ''reverse'', One T_bool)]"

definition cosmos_PageResponse :: schema where
  "cosmos_PageResponse = [(1, ''nextKey'', One T_bytes), (2, ''total'', One T_uint64)]"

definition cosmos_Coin :: schema where
  "cosmos_Coin = [(1, ''denom'', One T_string), (2, ''amount'', One T_string)]"

definition cosmos_DecCoin :: schema where
  "cosmos_DecCoin = [(1, ''denom'', One T_string), (2, ''amount'', One T_string)]"

definition cosmos_IntProto :: schema where
  "cosmos_IntProto = [(1, ''int'', One T_string)]"

definition cosmos_DecProto :: schema where
  "cosmos_DecProto = [(1, ''dec'', One T_string)]"

text \<open>Their type names, as the chain and the registry write them.\<close>

definition cosmos_messages :: "(string \<times> schema) list" where
  "cosmos_messages = [(''cosmos.base.query.v1beta1.PageRequest'', cosmos_PageRequest),
     (''cosmos.base.query.v1beta1.PageResponse'', cosmos_PageResponse), (''cosmos.base.v1beta1.Coin'', cosmos_Coin),
     (''cosmos.base.v1beta1.DecCoin'', cosmos_DecCoin), (''cosmos.base.v1beta1.IntProto'', cosmos_IntProto),
     (''cosmos.base.v1beta1.DecProto'', cosmos_DecProto)]"

lemmas cosmos_schemas =
  cosmos_PageRequest_def cosmos_PageResponse_def cosmos_Coin_def cosmos_DecCoin_def cosmos_IntProto_def
     cosmos_DecProto_def

lemma cosmos_good: "list_all (\<lambda>(u, fs). good_schema fs) cosmos_messages"
  by (simp add: cosmos_messages_def cosmos_schemas good_simps)

end
