(* ===== verification/AliasProto.thy ===== *)
theory AliasProto imports CosmosProto begin

text \<open>
  The messages, queries, events and state of the chain's alias module, as \<open>clients/sdk/src/generated/blockchain/alias/v1\<close> codes them: the
  enums, then each message as the schema its six functions follow.
\<close>

definition alias_PayloadReaderBasis :: proto_scalar where
  "alias_PayloadReaderBasis = T_enum [(0, ''PAYLOAD_READER_UNSPECIFIED''), (1, ''PAYLOAD_READER_REGULATOR''),
     (2, ''PAYLOAD_READER_SUPERVISOR'')]"

definition alias_Role :: proto_scalar where
  "alias_Role = T_enum [(0, ''ROLE_UNSPECIFIED''), (1, ''ROLE_REGISTRY_AUTHORITY''),
     (2, ''ROLE_MONETARY_AUTHORITY''), (3, ''ROLE_PAYMENTS_AUTHORITY''), (4, ''ROLE_ENFORCEMENT_AUTHORITY''),
     (5, ''ROLE_SUPERVISOR''), (6, ''ROLE_FOUNDATION_ADMINISTRATOR'')]"

definition alias_Alias :: schema where
  "alias_Alias = [(1, ''id'', One T_string), (2, ''address'', One T_string),
     (3, ''registeredAtHeight'', One T_int64)]"

definition alias_Params :: schema where
  "alias_Params = [(1, ''payloadLength'', One T_uint32)]"

definition alias_Jurisdiction :: schema where
  "alias_Jurisdiction = [(1, ''address'', One T_string), (2, ''country'', One T_string),
     (3, ''recordedBy'', One T_string), (4, ''recordedAtHeight'', One T_int64)]"

definition alias_ViewingKey :: schema where
  "alias_ViewingKey = [(1, ''address'', One T_string), (2, ''version'', One T_uint64),
     (3, ''publicKey'', One T_bytes), (4, ''registeredAtHeight'', One T_int64), (5, ''revoked'', One T_bool),
     (6, ''revokedAtHeight'', One T_int64)]"

definition alias_RegulatorAppointment :: schema where
  "alias_RegulatorAppointment = [(1, ''country'', One T_string), (2, ''address'', One T_string),
     (3, ''appointedBy'', One T_string), (4, ''appointedAtHeight'', One T_int64)]"

definition alias_AuditorGrant :: schema where
  "alias_AuditorGrant = [(1, ''address'', One T_string), (2, ''grantedBy'', One T_string),
     (3, ''grantedAtHeight'', One T_int64), (4, ''expiresAtHeight'', One T_int64)]"

definition alias_OfficeShape :: schema where
  "alias_OfficeShape = [(1, ''signatures'', One T_uint32), (2, ''members'', One T_uint32)]"

definition alias_RoleGrant :: schema where
  "alias_RoleGrant = [(1, ''holder'', One T_string), (2, ''role'', One alias_Role),
     (3, ''jurisdiction'', One T_string), (4, ''grantedBy'', One T_string), (5, ''grantedAtHeight'', One T_int64),
     (6, ''requiredShape'', Sub alias_OfficeShape)]"

definition alias_GenesisState :: schema where
  "alias_GenesisState = [(1, ''params'', Sub alias_Params), (2, ''aliases'', Subs alias_Alias),
     (3, ''retired'', Each T_string), (4, ''jurisdictions'', Subs alias_Jurisdiction),
     (5, ''viewingKeys'', Subs alias_ViewingKey), (6, ''regulators'', Subs alias_RegulatorAppointment),
     (7, ''auditorGrants'', Subs alias_AuditorGrant), (8, ''roleGrants'', Subs alias_RoleGrant)]"

definition alias_QueryParamsRequest :: schema where
  "alias_QueryParamsRequest = []"

definition alias_QueryParamsResponse :: schema where
  "alias_QueryParamsResponse = [(1, ''params'', Sub alias_Params)]"

definition alias_QueryAliasRequest :: schema where
  "alias_QueryAliasRequest = [(1, ''id'', One T_string)]"

definition alias_QueryAliasResponse :: schema where
  "alias_QueryAliasResponse = [(1, ''alias'', Sub alias_Alias)]"

definition alias_QueryAliasOfRequest :: schema where
  "alias_QueryAliasOfRequest = [(1, ''address'', One T_string)]"

definition alias_QueryAliasOfResponse :: schema where
  "alias_QueryAliasOfResponse = [(1, ''alias'', Sub alias_Alias)]"

definition alias_QueryRetiredRequest :: schema where
  "alias_QueryRetiredRequest = [(1, ''id'', One T_string)]"

definition alias_QueryRetiredResponse :: schema where
  "alias_QueryRetiredResponse = [(1, ''retired'', One T_bool)]"

definition alias_QueryJurisdictionRequest :: schema where
  "alias_QueryJurisdictionRequest = [(1, ''address'', One T_string)]"

definition alias_QueryJurisdictionResponse :: schema where
  "alias_QueryJurisdictionResponse = [(1, ''jurisdiction'', Sub alias_Jurisdiction)]"

definition alias_QueryPerimeterRequest :: schema where
  "alias_QueryPerimeterRequest = [(1, ''country'', One T_string), (2, ''pagination'', Sub cosmos_PageRequest)]"

definition alias_QueryPerimeterResponse :: schema where
  "alias_QueryPerimeterResponse = [(1, ''jurisdictions'', Subs alias_Jurisdiction),
     (2, ''pagination'', Sub cosmos_PageResponse)]"

definition alias_QueryViewingKeysRequest :: schema where
  "alias_QueryViewingKeysRequest = [(1, ''address'', One T_string)]"

definition alias_QueryViewingKeysResponse :: schema where
  "alias_QueryViewingKeysResponse = [(1, ''keys'', Subs alias_ViewingKey)]"

definition alias_QueryRegulatorRequest :: schema where
  "alias_QueryRegulatorRequest = [(1, ''country'', One T_string)]"

definition alias_QueryRegulatorResponse :: schema where
  "alias_QueryRegulatorResponse = [(1, ''appointment'', Sub alias_RegulatorAppointment),
     (2, ''key'', Sub alias_ViewingKey)]"

definition alias_QueryPayloadReadersRequest :: schema where
  "alias_QueryPayloadReadersRequest = [(1, ''country'', One T_string)]"

definition alias_PayloadReader :: schema where
  "alias_PayloadReader = [(1, ''address'', One T_string), (2, ''basis'', One alias_PayloadReaderBasis),
     (3, ''scope'', One T_string), (4, ''key'', Sub alias_ViewingKey)]"

definition alias_QueryPayloadReadersResponse :: schema where
  "alias_QueryPayloadReadersResponse = [(1, ''readers'', Subs alias_PayloadReader)]"

definition alias_QueryAuditorsRequest :: schema where
  "alias_QueryAuditorsRequest = []"

definition alias_AuditorEntitlement :: schema where
  "alias_AuditorEntitlement = [(1, ''grant'', Sub alias_AuditorGrant), (2, ''key'', Sub alias_ViewingKey)]"

definition alias_QueryAuditorsResponse :: schema where
  "alias_QueryAuditorsResponse = [(1, ''auditors'', Subs alias_AuditorEntitlement)]"

definition alias_QueryRoleGrantsRequest :: schema where
  "alias_QueryRoleGrantsRequest = [(1, ''holder'', One T_string)]"

definition alias_QueryRoleGrantsResponse :: schema where
  "alias_QueryRoleGrantsResponse = [(1, ''grants'', Subs alias_RoleGrant)]"

definition alias_QueryRoleHoldersRequest :: schema where
  "alias_QueryRoleHoldersRequest = [(1, ''jurisdiction'', One T_string), (2, ''role'', One alias_Role),
     (3, ''pagination'', Sub cosmos_PageRequest)]"

definition alias_QueryRoleHoldersResponse :: schema where
  "alias_QueryRoleHoldersResponse = [(1, ''grants'', Subs alias_RoleGrant),
     (2, ''pagination'', Sub cosmos_PageResponse)]"

definition alias_QueryChainWideGrantsRequest :: schema where
  "alias_QueryChainWideGrantsRequest = []"

definition alias_QueryChainWideGrantsResponse :: schema where
  "alias_QueryChainWideGrantsResponse = [(1, ''grants'', Subs alias_RoleGrant)]"

definition alias_MsgRegisterAlias :: schema where
  "alias_MsgRegisterAlias = [(1, ''account'', One T_string)]"

definition alias_MsgRegisterAliasResponse :: schema where
  "alias_MsgRegisterAliasResponse = [(1, ''id'', One T_string)]"

definition alias_MsgRotateAlias :: schema where
  "alias_MsgRotateAlias = [(1, ''account'', One T_string)]"

definition alias_MsgRotateAliasResponse :: schema where
  "alias_MsgRotateAliasResponse = [(1, ''retired'', One T_string), (2, ''id'', One T_string)]"

definition alias_MsgSetJurisdiction :: schema where
  "alias_MsgSetJurisdiction = [(1, ''recorder'', One T_string), (2, ''account'', One T_string),
     (3, ''country'', One T_string)]"

definition alias_MsgSetJurisdictionResponse :: schema where
  "alias_MsgSetJurisdictionResponse = [(1, ''retired'', One T_string), (2, ''id'', One T_string)]"

definition alias_MsgRegisterViewingKey :: schema where
  "alias_MsgRegisterViewingKey = [(1, ''account'', One T_string), (2, ''publicKey'', One T_bytes)]"

definition alias_MsgRegisterViewingKeyResponse :: schema where
  "alias_MsgRegisterViewingKeyResponse = [(1, ''version'', One T_uint64)]"

definition alias_MsgRevokeViewingKey :: schema where
  "alias_MsgRevokeViewingKey = [(1, ''account'', One T_string), (2, ''version'', One T_uint64)]"

definition alias_MsgRevokeViewingKeyResponse :: schema where
  "alias_MsgRevokeViewingKeyResponse = []"

definition alias_MsgAppointRegulator :: schema where
  "alias_MsgAppointRegulator = [(1, ''authority'', One T_string), (2, ''country'', One T_string),
     (3, ''address'', One T_string)]"

definition alias_MsgAppointRegulatorResponse :: schema where
  "alias_MsgAppointRegulatorResponse = []"

definition alias_MsgGrantAuditor :: schema where
  "alias_MsgGrantAuditor = [(1, ''authority'', One T_string), (2, ''address'', One T_string),
     (3, ''expiresAtHeight'', One T_int64)]"

definition alias_MsgGrantAuditorResponse :: schema where
  "alias_MsgGrantAuditorResponse = []"

definition alias_MsgGrantRole :: schema where
  "alias_MsgGrantRole = [(1, ''authority'', One T_string), (2, ''holder'', One T_string),
     (3, ''role'', One alias_Role), (4, ''jurisdiction'', One T_string),
     (5, ''requiredShape'', Sub alias_OfficeShape)]"

definition alias_MsgGrantRoleResponse :: schema where
  "alias_MsgGrantRoleResponse = []"

definition alias_MsgRevokeRole :: schema where
  "alias_MsgRevokeRole = [(1, ''authority'', One T_string), (2, ''holder'', One T_string),
     (3, ''role'', One alias_Role), (4, ''jurisdiction'', One T_string)]"

definition alias_MsgRevokeRoleResponse :: schema where
  "alias_MsgRevokeRoleResponse = []"

definition alias_MsgUpdateParams :: schema where
  "alias_MsgUpdateParams = [(1, ''authority'', One T_string), (2, ''params'', Sub alias_Params)]"

definition alias_MsgUpdateParamsResponse :: schema where
  "alias_MsgUpdateParamsResponse = []"

text \<open>Their type names, as the chain and the registry write them.\<close>

definition alias_messages :: "(string \<times> schema) list" where
  "alias_messages = [(''blockchain.alias.v1.Alias'', alias_Alias), (''blockchain.alias.v1.Params'', alias_Params),
     (''blockchain.alias.v1.Jurisdiction'', alias_Jurisdiction),
     (''blockchain.alias.v1.ViewingKey'', alias_ViewingKey),
     (''blockchain.alias.v1.RegulatorAppointment'', alias_RegulatorAppointment),
     (''blockchain.alias.v1.AuditorGrant'', alias_AuditorGrant),
     (''blockchain.alias.v1.OfficeShape'', alias_OfficeShape), (''blockchain.alias.v1.RoleGrant'', alias_RoleGrant),
     (''blockchain.alias.v1.GenesisState'', alias_GenesisState),
     (''blockchain.alias.v1.QueryParamsRequest'', alias_QueryParamsRequest),
     (''blockchain.alias.v1.QueryParamsResponse'', alias_QueryParamsResponse),
     (''blockchain.alias.v1.QueryAliasRequest'', alias_QueryAliasRequest),
     (''blockchain.alias.v1.QueryAliasResponse'', alias_QueryAliasResponse),
     (''blockchain.alias.v1.QueryAliasOfRequest'', alias_QueryAliasOfRequest),
     (''blockchain.alias.v1.QueryAliasOfResponse'', alias_QueryAliasOfResponse),
     (''blockchain.alias.v1.QueryRetiredRequest'', alias_QueryRetiredRequest),
     (''blockchain.alias.v1.QueryRetiredResponse'', alias_QueryRetiredResponse),
     (''blockchain.alias.v1.QueryJurisdictionRequest'', alias_QueryJurisdictionRequest),
     (''blockchain.alias.v1.QueryJurisdictionResponse'', alias_QueryJurisdictionResponse),
     (''blockchain.alias.v1.QueryPerimeterRequest'', alias_QueryPerimeterRequest),
     (''blockchain.alias.v1.QueryPerimeterResponse'', alias_QueryPerimeterResponse),
     (''blockchain.alias.v1.QueryViewingKeysRequest'', alias_QueryViewingKeysRequest),
     (''blockchain.alias.v1.QueryViewingKeysResponse'', alias_QueryViewingKeysResponse),
     (''blockchain.alias.v1.QueryRegulatorRequest'', alias_QueryRegulatorRequest),
     (''blockchain.alias.v1.QueryRegulatorResponse'', alias_QueryRegulatorResponse),
     (''blockchain.alias.v1.QueryPayloadReadersRequest'', alias_QueryPayloadReadersRequest),
     (''blockchain.alias.v1.PayloadReader'', alias_PayloadReader),
     (''blockchain.alias.v1.QueryPayloadReadersResponse'', alias_QueryPayloadReadersResponse),
     (''blockchain.alias.v1.QueryAuditorsRequest'', alias_QueryAuditorsRequest),
     (''blockchain.alias.v1.AuditorEntitlement'', alias_AuditorEntitlement),
     (''blockchain.alias.v1.QueryAuditorsResponse'', alias_QueryAuditorsResponse),
     (''blockchain.alias.v1.QueryRoleGrantsRequest'', alias_QueryRoleGrantsRequest),
     (''blockchain.alias.v1.QueryRoleGrantsResponse'', alias_QueryRoleGrantsResponse),
     (''blockchain.alias.v1.QueryRoleHoldersRequest'', alias_QueryRoleHoldersRequest),
     (''blockchain.alias.v1.QueryRoleHoldersResponse'', alias_QueryRoleHoldersResponse),
     (''blockchain.alias.v1.QueryChainWideGrantsRequest'', alias_QueryChainWideGrantsRequest),
     (''blockchain.alias.v1.QueryChainWideGrantsResponse'', alias_QueryChainWideGrantsResponse),
     (''blockchain.alias.v1.MsgRegisterAlias'', alias_MsgRegisterAlias),
     (''blockchain.alias.v1.MsgRegisterAliasResponse'', alias_MsgRegisterAliasResponse),
     (''blockchain.alias.v1.MsgRotateAlias'', alias_MsgRotateAlias),
     (''blockchain.alias.v1.MsgRotateAliasResponse'', alias_MsgRotateAliasResponse),
     (''blockchain.alias.v1.MsgSetJurisdiction'', alias_MsgSetJurisdiction),
     (''blockchain.alias.v1.MsgSetJurisdictionResponse'', alias_MsgSetJurisdictionResponse),
     (''blockchain.alias.v1.MsgRegisterViewingKey'', alias_MsgRegisterViewingKey),
     (''blockchain.alias.v1.MsgRegisterViewingKeyResponse'', alias_MsgRegisterViewingKeyResponse),
     (''blockchain.alias.v1.MsgRevokeViewingKey'', alias_MsgRevokeViewingKey),
     (''blockchain.alias.v1.MsgRevokeViewingKeyResponse'', alias_MsgRevokeViewingKeyResponse),
     (''blockchain.alias.v1.MsgAppointRegulator'', alias_MsgAppointRegulator),
     (''blockchain.alias.v1.MsgAppointRegulatorResponse'', alias_MsgAppointRegulatorResponse),
     (''blockchain.alias.v1.MsgGrantAuditor'', alias_MsgGrantAuditor),
     (''blockchain.alias.v1.MsgGrantAuditorResponse'', alias_MsgGrantAuditorResponse),
     (''blockchain.alias.v1.MsgGrantRole'', alias_MsgGrantRole),
     (''blockchain.alias.v1.MsgGrantRoleResponse'', alias_MsgGrantRoleResponse),
     (''blockchain.alias.v1.MsgRevokeRole'', alias_MsgRevokeRole),
     (''blockchain.alias.v1.MsgRevokeRoleResponse'', alias_MsgRevokeRoleResponse),
     (''blockchain.alias.v1.MsgUpdateParams'', alias_MsgUpdateParams),
     (''blockchain.alias.v1.MsgUpdateParamsResponse'', alias_MsgUpdateParamsResponse)]"

lemmas alias_schemas =
  alias_PayloadReaderBasis_def alias_Role_def alias_Alias_def alias_Params_def alias_Jurisdiction_def
     alias_ViewingKey_def alias_RegulatorAppointment_def alias_AuditorGrant_def alias_OfficeShape_def
     alias_RoleGrant_def alias_GenesisState_def alias_QueryParamsRequest_def alias_QueryParamsResponse_def
     alias_QueryAliasRequest_def alias_QueryAliasResponse_def alias_QueryAliasOfRequest_def
     alias_QueryAliasOfResponse_def alias_QueryRetiredRequest_def alias_QueryRetiredResponse_def
     alias_QueryJurisdictionRequest_def alias_QueryJurisdictionResponse_def alias_QueryPerimeterRequest_def
     alias_QueryPerimeterResponse_def alias_QueryViewingKeysRequest_def alias_QueryViewingKeysResponse_def
     alias_QueryRegulatorRequest_def alias_QueryRegulatorResponse_def alias_QueryPayloadReadersRequest_def
     alias_PayloadReader_def alias_QueryPayloadReadersResponse_def alias_QueryAuditorsRequest_def
     alias_AuditorEntitlement_def alias_QueryAuditorsResponse_def alias_QueryRoleGrantsRequest_def
     alias_QueryRoleGrantsResponse_def alias_QueryRoleHoldersRequest_def alias_QueryRoleHoldersResponse_def
     alias_QueryChainWideGrantsRequest_def alias_QueryChainWideGrantsResponse_def alias_MsgRegisterAlias_def
     alias_MsgRegisterAliasResponse_def alias_MsgRotateAlias_def alias_MsgRotateAliasResponse_def
     alias_MsgSetJurisdiction_def alias_MsgSetJurisdictionResponse_def alias_MsgRegisterViewingKey_def
     alias_MsgRegisterViewingKeyResponse_def alias_MsgRevokeViewingKey_def alias_MsgRevokeViewingKeyResponse_def
     alias_MsgAppointRegulator_def alias_MsgAppointRegulatorResponse_def alias_MsgGrantAuditor_def
     alias_MsgGrantAuditorResponse_def alias_MsgGrantRole_def alias_MsgGrantRoleResponse_def alias_MsgRevokeRole_def
     alias_MsgRevokeRoleResponse_def alias_MsgUpdateParams_def alias_MsgUpdateParamsResponse_def

lemma alias_good: "list_all (\<lambda>(u, fs). good_schema fs) alias_messages"
  by (simp add: alias_messages_def alias_schemas cosmos_schemas good_simps)

end
