(* ===== verification/AmmProto.thy ===== *)
theory AmmProto imports CosmosProto begin

text \<open>
  The messages, queries, events and state of the chain's amm module, as \<open>clients/sdk/src/generated/blockchain/amm/v1\<close> codes them: the
  enums, then each message as the schema its six functions follow.
\<close>

definition amm_Params :: schema where
  "amm_Params = []"

definition amm_Pool :: schema where
  "amm_Pool = [(1, ''id'', One T_uint64), (2, ''denomA'', One T_string), (3, ''denomB'', One T_string),
     (4, ''reserveA'', One T_string), (5, ''reserveB'', One T_string), (6, ''totalShares'', One T_string),
     (7, ''swapFeeBps'', One T_uint64)]"

definition amm_GenesisState :: schema where
  "amm_GenesisState = [(1, ''params'', Sub amm_Params), (2, ''poolList'', Subs amm_Pool),
     (3, ''poolCount'', One T_uint64)]"

definition amm_QueryParamsRequest :: schema where
  "amm_QueryParamsRequest = []"

definition amm_QueryParamsResponse :: schema where
  "amm_QueryParamsResponse = [(1, ''params'', Sub amm_Params)]"

definition amm_QueryGetPoolRequest :: schema where
  "amm_QueryGetPoolRequest = [(1, ''id'', One T_uint64)]"

definition amm_QueryGetPoolResponse :: schema where
  "amm_QueryGetPoolResponse = [(1, ''pool'', Sub amm_Pool)]"

definition amm_QueryAllPoolRequest :: schema where
  "amm_QueryAllPoolRequest = [(1, ''pagination'', Sub cosmos_PageRequest)]"

definition amm_QueryAllPoolResponse :: schema where
  "amm_QueryAllPoolResponse = [(1, ''pool'', Subs amm_Pool), (2, ''pagination'', Sub cosmos_PageResponse)]"

definition amm_MsgUpdateParams :: schema where
  "amm_MsgUpdateParams = [(1, ''authority'', One T_string), (2, ''params'', Sub amm_Params)]"

definition amm_MsgUpdateParamsResponse :: schema where
  "amm_MsgUpdateParamsResponse = []"

definition amm_MsgCreatePool :: schema where
  "amm_MsgCreatePool = [(1, ''creator'', One T_string), (2, ''denomA'', One T_string),
     (3, ''amountA'', One T_string), (4, ''denomB'', One T_string), (5, ''amountB'', One T_string),
     (6, ''swapFeeBps'', One T_uint64)]"

definition amm_MsgCreatePoolResponse :: schema where
  "amm_MsgCreatePoolResponse = []"

definition amm_MsgJoinPool :: schema where
  "amm_MsgJoinPool = [(1, ''sender'', One T_string), (2, ''poolId'', One T_uint64), (3, ''amountA'', One T_string),
     (4, ''amountB'', One T_string)]"

definition amm_MsgJoinPoolResponse :: schema where
  "amm_MsgJoinPoolResponse = []"

definition amm_MsgExitPool :: schema where
  "amm_MsgExitPool = [(1, ''sender'', One T_string), (2, ''poolId'', One T_uint64), (3, ''shares'', One T_string)]"

definition amm_MsgExitPoolResponse :: schema where
  "amm_MsgExitPoolResponse = []"

definition amm_MsgSwap :: schema where
  "amm_MsgSwap = [(1, ''sender'', One T_string), (2, ''poolId'', One T_uint64), (3, ''tokenInDenom'', One T_string),
     (4, ''tokenInAmount'', One T_string), (5, ''tokenOutDenom'', One T_string),
     (6, ''minAmountOut'', One T_string)]"

definition amm_MsgSwapResponse :: schema where
  "amm_MsgSwapResponse = []"

text \<open>Their type names, as the chain and the registry write them.\<close>

definition amm_messages :: "(string \<times> schema) list" where
  "amm_messages = [(''blockchain.amm.v1.Params'', amm_Params), (''blockchain.amm.v1.Pool'', amm_Pool),
     (''blockchain.amm.v1.GenesisState'', amm_GenesisState),
     (''blockchain.amm.v1.QueryParamsRequest'', amm_QueryParamsRequest),
     (''blockchain.amm.v1.QueryParamsResponse'', amm_QueryParamsResponse),
     (''blockchain.amm.v1.QueryGetPoolRequest'', amm_QueryGetPoolRequest),
     (''blockchain.amm.v1.QueryGetPoolResponse'', amm_QueryGetPoolResponse),
     (''blockchain.amm.v1.QueryAllPoolRequest'', amm_QueryAllPoolRequest),
     (''blockchain.amm.v1.QueryAllPoolResponse'', amm_QueryAllPoolResponse),
     (''blockchain.amm.v1.MsgUpdateParams'', amm_MsgUpdateParams),
     (''blockchain.amm.v1.MsgUpdateParamsResponse'', amm_MsgUpdateParamsResponse),
     (''blockchain.amm.v1.MsgCreatePool'', amm_MsgCreatePool),
     (''blockchain.amm.v1.MsgCreatePoolResponse'', amm_MsgCreatePoolResponse),
     (''blockchain.amm.v1.MsgJoinPool'', amm_MsgJoinPool),
     (''blockchain.amm.v1.MsgJoinPoolResponse'', amm_MsgJoinPoolResponse),
     (''blockchain.amm.v1.MsgExitPool'', amm_MsgExitPool),
     (''blockchain.amm.v1.MsgExitPoolResponse'', amm_MsgExitPoolResponse),
     (''blockchain.amm.v1.MsgSwap'', amm_MsgSwap), (''blockchain.amm.v1.MsgSwapResponse'', amm_MsgSwapResponse)]"

lemmas amm_schemas =
  amm_Params_def amm_Pool_def amm_GenesisState_def amm_QueryParamsRequest_def amm_QueryParamsResponse_def
     amm_QueryGetPoolRequest_def amm_QueryGetPoolResponse_def amm_QueryAllPoolRequest_def
     amm_QueryAllPoolResponse_def amm_MsgUpdateParams_def amm_MsgUpdateParamsResponse_def amm_MsgCreatePool_def
     amm_MsgCreatePoolResponse_def amm_MsgJoinPool_def amm_MsgJoinPoolResponse_def amm_MsgExitPool_def
     amm_MsgExitPoolResponse_def amm_MsgSwap_def amm_MsgSwapResponse_def

lemma amm_good: "list_all (\<lambda>(u, fs). good_schema fs) amm_messages"
  by (simp add: amm_messages_def amm_schemas cosmos_schemas good_simps)

end
