(* ===== verification/BuilderfeeProto.thy ===== *)
theory BuilderfeeProto imports CosmosProto begin

text \<open>
  The messages, queries, events and state of the chain's builderfee module, as \<open>clients/sdk/src/generated/blockchain/builderfee/v1\<close> codes them: the
  enums, then each message as the schema its six functions follow.
\<close>

definition builderfee_ApprovedBuilder :: schema where
  "builderfee_ApprovedBuilder = [(1, ''msgTypeUrl'', One T_string), (2, ''payoutAddress'', One T_string)]"

definition builderfee_BuilderApplication :: schema where
  "builderfee_BuilderApplication = [(1, ''msgTypeUrl'', One T_string), (2, ''status'', One T_string),
     (3, ''payoutAddress'', One T_string), (4, ''creator'', One T_string)]"

definition builderfee_Params :: schema where
  "builderfee_Params = [(1, ''builderFeeShareBps'', One T_uint64)]"

definition builderfee_GenesisState :: schema where
  "builderfee_GenesisState = [(1, ''params'', Sub builderfee_Params),
     (2, ''builderApplicationMap'', Subs builderfee_BuilderApplication),
     (3, ''approvedBuilderMap'', Subs builderfee_ApprovedBuilder)]"

definition builderfee_QueryParamsRequest :: schema where
  "builderfee_QueryParamsRequest = []"

definition builderfee_QueryParamsResponse :: schema where
  "builderfee_QueryParamsResponse = [(1, ''params'', Sub builderfee_Params)]"

definition builderfee_QueryGetBuilderApplicationRequest :: schema where
  "builderfee_QueryGetBuilderApplicationRequest = [(1, ''msgTypeUrl'', One T_string)]"

definition builderfee_QueryGetBuilderApplicationResponse :: schema where
  "builderfee_QueryGetBuilderApplicationResponse = [(1, ''builderApplication'', Sub builderfee_BuilderApplication)]"

definition builderfee_QueryAllBuilderApplicationRequest :: schema where
  "builderfee_QueryAllBuilderApplicationRequest = [(1, ''pagination'', Sub cosmos_PageRequest)]"

definition builderfee_QueryAllBuilderApplicationResponse :: schema where
  "builderfee_QueryAllBuilderApplicationResponse = [(1, ''builderApplication'', Subs builderfee_BuilderApplication),
     (2, ''pagination'', Sub cosmos_PageResponse)]"

definition builderfee_QueryGetApprovedBuilderRequest :: schema where
  "builderfee_QueryGetApprovedBuilderRequest = [(1, ''msgTypeUrl'', One T_string)]"

definition builderfee_QueryGetApprovedBuilderResponse :: schema where
  "builderfee_QueryGetApprovedBuilderResponse = [(1, ''approvedBuilder'', Sub builderfee_ApprovedBuilder)]"

definition builderfee_QueryAllApprovedBuilderRequest :: schema where
  "builderfee_QueryAllApprovedBuilderRequest = [(1, ''pagination'', Sub cosmos_PageRequest)]"

definition builderfee_QueryAllApprovedBuilderResponse :: schema where
  "builderfee_QueryAllApprovedBuilderResponse = [(1, ''approvedBuilder'', Subs builderfee_ApprovedBuilder),
     (2, ''pagination'', Sub cosmos_PageResponse)]"

definition builderfee_MsgUpdateParams :: schema where
  "builderfee_MsgUpdateParams = [(1, ''authority'', One T_string), (2, ''params'', Sub builderfee_Params)]"

definition builderfee_MsgUpdateParamsResponse :: schema where
  "builderfee_MsgUpdateParamsResponse = []"

definition builderfee_MsgRegisterBuilder :: schema where
  "builderfee_MsgRegisterBuilder = [(1, ''creator'', One T_string), (2, ''msgTypeUrl'', One T_string),
     (3, ''payoutAddress'', One T_string)]"

definition builderfee_MsgRegisterBuilderResponse :: schema where
  "builderfee_MsgRegisterBuilderResponse = []"

definition builderfee_MsgApproveBuilder :: schema where
  "builderfee_MsgApproveBuilder = [(1, ''authority'', One T_string), (2, ''msgTypeUrl'', One T_string),
     (3, ''approve'', One T_bool)]"

definition builderfee_MsgApproveBuilderResponse :: schema where
  "builderfee_MsgApproveBuilderResponse = []"

text \<open>Their type names, as the chain and the registry write them.\<close>

definition builderfee_messages :: "(string \<times> schema) list" where
  "builderfee_messages = [(''blockchain.builderfee.v1.ApprovedBuilder'', builderfee_ApprovedBuilder),
     (''blockchain.builderfee.v1.BuilderApplication'', builderfee_BuilderApplication),
     (''blockchain.builderfee.v1.Params'', builderfee_Params),
     (''blockchain.builderfee.v1.GenesisState'', builderfee_GenesisState),
     (''blockchain.builderfee.v1.QueryParamsRequest'', builderfee_QueryParamsRequest),
     (''blockchain.builderfee.v1.QueryParamsResponse'', builderfee_QueryParamsResponse),
     (''blockchain.builderfee.v1.QueryGetBuilderApplicationRequest'', builderfee_QueryGetBuilderApplicationRequest),
     (''blockchain.builderfee.v1.QueryGetBuilderApplicationResponse'', builderfee_QueryGetBuilderApplicationResponse),
     (''blockchain.builderfee.v1.QueryAllBuilderApplicationRequest'', builderfee_QueryAllBuilderApplicationRequest),
     (''blockchain.builderfee.v1.QueryAllBuilderApplicationResponse'', builderfee_QueryAllBuilderApplicationResponse),
     (''blockchain.builderfee.v1.QueryGetApprovedBuilderRequest'', builderfee_QueryGetApprovedBuilderRequest),
     (''blockchain.builderfee.v1.QueryGetApprovedBuilderResponse'', builderfee_QueryGetApprovedBuilderResponse),
     (''blockchain.builderfee.v1.QueryAllApprovedBuilderRequest'', builderfee_QueryAllApprovedBuilderRequest),
     (''blockchain.builderfee.v1.QueryAllApprovedBuilderResponse'', builderfee_QueryAllApprovedBuilderResponse),
     (''blockchain.builderfee.v1.MsgUpdateParams'', builderfee_MsgUpdateParams),
     (''blockchain.builderfee.v1.MsgUpdateParamsResponse'', builderfee_MsgUpdateParamsResponse),
     (''blockchain.builderfee.v1.MsgRegisterBuilder'', builderfee_MsgRegisterBuilder),
     (''blockchain.builderfee.v1.MsgRegisterBuilderResponse'', builderfee_MsgRegisterBuilderResponse),
     (''blockchain.builderfee.v1.MsgApproveBuilder'', builderfee_MsgApproveBuilder),
     (''blockchain.builderfee.v1.MsgApproveBuilderResponse'', builderfee_MsgApproveBuilderResponse)]"

lemmas builderfee_schemas =
  builderfee_ApprovedBuilder_def builderfee_BuilderApplication_def builderfee_Params_def builderfee_GenesisState_def
     builderfee_QueryParamsRequest_def builderfee_QueryParamsResponse_def
     builderfee_QueryGetBuilderApplicationRequest_def builderfee_QueryGetBuilderApplicationResponse_def
     builderfee_QueryAllBuilderApplicationRequest_def builderfee_QueryAllBuilderApplicationResponse_def
     builderfee_QueryGetApprovedBuilderRequest_def builderfee_QueryGetApprovedBuilderResponse_def
     builderfee_QueryAllApprovedBuilderRequest_def builderfee_QueryAllApprovedBuilderResponse_def
     builderfee_MsgUpdateParams_def builderfee_MsgUpdateParamsResponse_def builderfee_MsgRegisterBuilder_def
     builderfee_MsgRegisterBuilderResponse_def builderfee_MsgApproveBuilder_def
     builderfee_MsgApproveBuilderResponse_def

lemma builderfee_good: "list_all (\<lambda>(u, fs). good_schema fs) builderfee_messages"
  by (simp add: builderfee_messages_def builderfee_schemas cosmos_schemas good_simps)

end
