(* ===== verification/ConstitutionProto.thy ===== *)
theory ConstitutionProto imports CosmosProto begin

text \<open>
  The messages, queries, events and state of the chain's constitution module, as \<open>clients/sdk/src/generated/blockchain/constitution/v1\<close> codes them: the
  enums, then each message as the schema its six functions follow.
\<close>

definition constitution_AmendmentStatus :: proto_scalar where
  "constitution_AmendmentStatus = T_enum [(0, ''AMENDMENT_STATUS_UNSPECIFIED''), (1, ''AMENDMENT_STATUS_PENDING''),
     (2, ''AMENDMENT_STATUS_ENACTED''), (3, ''AMENDMENT_STATUS_LAPSED''), (4, ''AMENDMENT_STATUS_WITHDRAWN'')]"

definition constitution_Invariants :: schema where
  "constitution_Invariants = [(1, ''maxEntityPowerBps'', One T_uint64),
     (2, ''maxBeneficialOwnerPowerBps'', One T_uint64), (3, ''maxJurisdictionPowerBps'', One T_uint64),
     (4, ''concentrationEpochBlocks'', One T_uint64), (5, ''minActiveValidators'', One T_uint32),
     (6, ''enforcementThresholdBps'', One T_uint64), (7, ''enforcementRecoveryDestination'', One T_string),
     (8, ''enforcementVotingPeriodBlocks'', One T_uint64),
     (9, ''enforcementProvisionalFreezeBlocks'', One T_uint64), (10, ''amendmentDelayBlocks'', One T_uint64),
     (11, ''amendmentThresholdBps'', One T_uint64), (12, ''foundationCustodianCount'', One T_uint32),
     (13, ''foundationSignatureThreshold'', One T_uint32)]"

definition constitution_Amendment :: schema where
  "constitution_Amendment = [(1, ''id'', One T_uint64), (2, ''proposed'', Sub constitution_Invariants),
     (3, ''reason'', One T_string), (4, ''proposedAtHeight'', One T_int64), (5, ''effectiveAtHeight'', One T_int64),
     (6, ''snapshotPower'', One T_int64), (7, ''ratifiedPower'', One T_int64),
     (8, ''status'', One constitution_AmendmentStatus), (9, ''resolvedAtHeight'', One T_int64)]"

definition constitution_Ratification :: schema where
  "constitution_Ratification = [(1, ''amendmentId'', One T_uint64), (2, ''validator'', One T_string),
     (3, ''power'', One T_int64), (4, ''height'', One T_int64)]"

definition constitution_EventAmendmentProposed :: schema where
  "constitution_EventAmendmentProposed = [(1, ''amendmentId'', One T_uint64), (2, ''reason'', One T_string),
     (3, ''effectiveAtHeight'', One T_int64), (4, ''snapshotPower'', One T_int64),
     (5, ''requiredPower'', One T_int64)]"

definition constitution_EventAmendmentRatified :: schema where
  "constitution_EventAmendmentRatified = [(1, ''amendmentId'', One T_uint64), (2, ''validator'', One T_string),
     (3, ''power'', One T_int64), (4, ''ratifiedPower'', One T_int64), (5, ''requiredPower'', One T_int64)]"

definition constitution_EventAmendmentResolved :: schema where
  "constitution_EventAmendmentResolved = [(1, ''amendmentId'', One T_uint64),
     (2, ''status'', One constitution_AmendmentStatus), (3, ''ratifiedPower'', One T_int64),
     (4, ''requiredPower'', One T_int64)]"

definition constitution_GenesisState :: schema where
  "constitution_GenesisState = [(1, ''invariants'', Sub constitution_Invariants),
     (2, ''amendments'', Subs constitution_Amendment), (3, ''ratifications'', Subs constitution_Ratification),
     (4, ''amendmentCount'', One T_uint64)]"

definition constitution_QueryInvariantsRequest :: schema where
  "constitution_QueryInvariantsRequest = []"

definition constitution_QueryInvariantsResponse :: schema where
  "constitution_QueryInvariantsResponse = [(1, ''invariants'', Sub constitution_Invariants)]"

definition constitution_QueryAmendmentRequest :: schema where
  "constitution_QueryAmendmentRequest = [(1, ''id'', One T_uint64)]"

definition constitution_QueryAmendmentResponse :: schema where
  "constitution_QueryAmendmentResponse = [(1, ''amendment'', Sub constitution_Amendment)]"

definition constitution_QueryAllAmendmentRequest :: schema where
  "constitution_QueryAllAmendmentRequest = [(1, ''pagination'', Sub cosmos_PageRequest)]"

definition constitution_QueryAllAmendmentResponse :: schema where
  "constitution_QueryAllAmendmentResponse = [(1, ''amendment'', Subs constitution_Amendment),
     (2, ''pagination'', Sub cosmos_PageResponse)]"

definition constitution_QueryRatificationsRequest :: schema where
  "constitution_QueryRatificationsRequest = [(1, ''amendmentId'', One T_uint64)]"

definition constitution_QueryRatificationsResponse :: schema where
  "constitution_QueryRatificationsResponse = [(1, ''ratifications'', Subs constitution_Ratification),
     (2, ''requiredPower'', One T_int64)]"

definition constitution_MsgProposeAmendment :: schema where
  "constitution_MsgProposeAmendment = [(1, ''authority'', One T_string),
     (2, ''invariants'', Sub constitution_Invariants), (3, ''reason'', One T_string)]"

definition constitution_MsgProposeAmendmentResponse :: schema where
  "constitution_MsgProposeAmendmentResponse = [(1, ''amendmentId'', One T_uint64)]"

definition constitution_MsgRatifyAmendment :: schema where
  "constitution_MsgRatifyAmendment = [(1, ''validator'', One T_string), (2, ''amendmentId'', One T_uint64)]"

definition constitution_MsgRatifyAmendmentResponse :: schema where
  "constitution_MsgRatifyAmendmentResponse = []"

definition constitution_MsgWithdrawAmendment :: schema where
  "constitution_MsgWithdrawAmendment = [(1, ''authority'', One T_string), (2, ''amendmentId'', One T_uint64)]"

definition constitution_MsgWithdrawAmendmentResponse :: schema where
  "constitution_MsgWithdrawAmendmentResponse = []"

text \<open>Their type names, as the chain and the registry write them.\<close>

definition constitution_messages :: "(string \<times> schema) list" where
  "constitution_messages = [(''blockchain.constitution.v1.Invariants'', constitution_Invariants),
     (''blockchain.constitution.v1.Amendment'', constitution_Amendment),
     (''blockchain.constitution.v1.Ratification'', constitution_Ratification),
     (''blockchain.constitution.v1.EventAmendmentProposed'', constitution_EventAmendmentProposed),
     (''blockchain.constitution.v1.EventAmendmentRatified'', constitution_EventAmendmentRatified),
     (''blockchain.constitution.v1.EventAmendmentResolved'', constitution_EventAmendmentResolved),
     (''blockchain.constitution.v1.GenesisState'', constitution_GenesisState),
     (''blockchain.constitution.v1.QueryInvariantsRequest'', constitution_QueryInvariantsRequest),
     (''blockchain.constitution.v1.QueryInvariantsResponse'', constitution_QueryInvariantsResponse),
     (''blockchain.constitution.v1.QueryAmendmentRequest'', constitution_QueryAmendmentRequest),
     (''blockchain.constitution.v1.QueryAmendmentResponse'', constitution_QueryAmendmentResponse),
     (''blockchain.constitution.v1.QueryAllAmendmentRequest'', constitution_QueryAllAmendmentRequest),
     (''blockchain.constitution.v1.QueryAllAmendmentResponse'', constitution_QueryAllAmendmentResponse),
     (''blockchain.constitution.v1.QueryRatificationsRequest'', constitution_QueryRatificationsRequest),
     (''blockchain.constitution.v1.QueryRatificationsResponse'', constitution_QueryRatificationsResponse),
     (''blockchain.constitution.v1.MsgProposeAmendment'', constitution_MsgProposeAmendment),
     (''blockchain.constitution.v1.MsgProposeAmendmentResponse'', constitution_MsgProposeAmendmentResponse),
     (''blockchain.constitution.v1.MsgRatifyAmendment'', constitution_MsgRatifyAmendment),
     (''blockchain.constitution.v1.MsgRatifyAmendmentResponse'', constitution_MsgRatifyAmendmentResponse),
     (''blockchain.constitution.v1.MsgWithdrawAmendment'', constitution_MsgWithdrawAmendment),
     (''blockchain.constitution.v1.MsgWithdrawAmendmentResponse'', constitution_MsgWithdrawAmendmentResponse)]"

lemmas constitution_schemas =
  constitution_AmendmentStatus_def constitution_Invariants_def constitution_Amendment_def
     constitution_Ratification_def constitution_EventAmendmentProposed_def constitution_EventAmendmentRatified_def
     constitution_EventAmendmentResolved_def constitution_GenesisState_def constitution_QueryInvariantsRequest_def
     constitution_QueryInvariantsResponse_def constitution_QueryAmendmentRequest_def
     constitution_QueryAmendmentResponse_def constitution_QueryAllAmendmentRequest_def
     constitution_QueryAllAmendmentResponse_def constitution_QueryRatificationsRequest_def
     constitution_QueryRatificationsResponse_def constitution_MsgProposeAmendment_def
     constitution_MsgProposeAmendmentResponse_def constitution_MsgRatifyAmendment_def
     constitution_MsgRatifyAmendmentResponse_def constitution_MsgWithdrawAmendment_def
     constitution_MsgWithdrawAmendmentResponse_def

lemma constitution_good: "list_all (\<lambda>(u, fs). good_schema fs) constitution_messages"
  by (simp add: constitution_messages_def constitution_schemas cosmos_schemas good_simps)

end
