(* ===== verification/EnforcementProto.thy ===== *)
theory EnforcementProto imports CosmosProto begin

text \<open>
  The messages, queries, events and state of the chain's enforcement module, as \<open>clients/sdk/src/generated/blockchain/enforcement/v1\<close> codes them: the
  enums, then each message as the schema its six functions follow.
\<close>

definition enforcement_CaseAction :: proto_scalar where
  "enforcement_CaseAction = T_enum [(0, ''CASE_ACTION_UNSPECIFIED''), (1, ''CASE_ACTION_FREEZE''),
     (2, ''CASE_ACTION_SEIZE'')]"

definition enforcement_CaseStatus :: proto_scalar where
  "enforcement_CaseStatus = T_enum [(0, ''CASE_STATUS_UNSPECIFIED''), (1, ''CASE_STATUS_VOTING''),
     (2, ''CASE_STATUS_PASSED''), (3, ''CASE_STATUS_REJECTED''), (4, ''CASE_STATUS_EXPIRED''),
     (5, ''CASE_STATUS_WITHDRAWN''), (6, ''CASE_STATUS_REVERSED''), (7, ''CASE_STATUS_HELD''),
     (8, ''CASE_STATUS_VETOED'')]"

definition enforcement_LegalInstrumentKind :: proto_scalar where
  "enforcement_LegalInstrumentKind = T_enum [(0, ''LEGAL_INSTRUMENT_KIND_UNSPECIFIED''),
     (1, ''LEGAL_INSTRUMENT_KIND_COURT_ORDER''), (2, ''LEGAL_INSTRUMENT_KIND_REGULATORY_DIRECTION''),
     (3, ''LEGAL_INSTRUMENT_KIND_WARRANT'')]"

definition enforcement_VoteOption :: proto_scalar where
  "enforcement_VoteOption = T_enum [(0, ''VOTE_OPTION_UNSPECIFIED''), (1, ''VOTE_OPTION_YES''),
     (2, ''VOTE_OPTION_NO''), (3, ''VOTE_OPTION_ABSTAIN'')]"

definition enforcement_LegalInstrument :: schema where
  "enforcement_LegalInstrument = [(1, ''issuingAuthority'', One T_string), (2, ''reference'', One T_string),
     (3, ''kind'', One enforcement_LegalInstrumentKind), (4, ''hash'', One T_string),
     (5, ''issuedAt'', One T_int64)]"

definition enforcement_SeizureRecord :: schema where
  "enforcement_SeizureRecord = [(1, ''caseId'', One T_uint64), (2, ''height'', One T_int64),
     (3, ''amount'', Subs cosmos_Coin)]"

definition enforcement_Case :: schema where
  "enforcement_Case = [(1, ''id'', One T_uint64), (2, ''target'', One T_string), (3, ''opener'', One T_string),
     (4, ''action'', One enforcement_CaseAction), (5, ''status'', One enforcement_CaseStatus),
     (6, ''reason'', One T_string), (7, ''evidenceUri'', One T_string), (8, ''evidenceHash'', One T_string),
     (9, ''openedAtHeight'', One T_int64), (10, ''votingEndsAtHeight'', One T_int64),
     (11, ''resolvedAtHeight'', One T_int64), (12, ''totalPowerAtOpen'', One T_int64),
     (13, ''yesPower'', One T_int64), (14, ''noPower'', One T_int64), (15, ''abstainPower'', One T_int64),
     (16, ''recovered'', Subs cosmos_Coin), (17, ''sweepComplete'', One T_bool), (18, ''emergency'', One T_bool),
     (19, ''legalInstrument'', Sub enforcement_LegalInstrument), (20, ''executeAtHeight'', One T_int64),
     (21, ''assessedValue'', Subs cosmos_Coin)]"

definition enforcement_Vote :: schema where
  "enforcement_Vote = [(1, ''caseId'', One T_uint64), (2, ''validator'', One T_string),
     (3, ''option'', One enforcement_VoteOption), (4, ''power'', One T_int64)]"

definition enforcement_Freeze :: schema where
  "enforcement_Freeze = [(1, ''address'', One T_string), (2, ''caseId'', One T_uint64),
     (3, ''expiresAtHeight'', One T_int64), (4, ''frozenAtHeight'', One T_int64)]"

definition enforcement_EventCaseOpened :: schema where
  "enforcement_EventCaseOpened = [(1, ''caseId'', One T_uint64), (2, ''target'', One T_string),
     (3, ''opener'', One T_string), (4, ''action'', One enforcement_CaseAction), (5, ''reason'', One T_string),
     (6, ''votingEndsAtHeight'', One T_int64), (7, ''emergency'', One T_bool)]"

definition enforcement_EventCaseVoted :: schema where
  "enforcement_EventCaseVoted = [(1, ''caseId'', One T_uint64), (2, ''validator'', One T_string),
     (3, ''option'', One enforcement_VoteOption), (4, ''power'', One T_int64)]"

definition enforcement_EventCaseResolved :: schema where
  "enforcement_EventCaseResolved = [(1, ''caseId'', One T_uint64), (2, ''target'', One T_string),
     (3, ''status'', One enforcement_CaseStatus), (4, ''yesPower'', One T_int64), (5, ''noPower'', One T_int64),
     (6, ''requiredPower'', One T_int64)]"

definition enforcement_EventSeized :: schema where
  "enforcement_EventSeized = [(1, ''caseId'', One T_uint64), (2, ''target'', One T_string),
     (3, ''destination'', One T_string), (4, ''collected'', Subs cosmos_Coin), (5, ''complete'', One T_bool)]"

definition enforcement_EventCaseHeld :: schema where
  "enforcement_EventCaseHeld = [(1, ''caseId'', One T_uint64), (2, ''target'', One T_string),
     (3, ''assessedValue'', Subs cosmos_Coin), (4, ''executeAtHeight'', One T_int64),
     (5, ''delayBlocks'', One T_uint64)]"

definition enforcement_EventCaseVetoed :: schema where
  "enforcement_EventCaseVetoed = [(1, ''caseId'', One T_uint64), (2, ''target'', One T_string),
     (3, ''ombudsman'', One T_string), (4, ''reason'', One T_string), (5, ''wasHeld'', One T_bool)]"

definition enforcement_EventSeizureDeferred :: schema where
  "enforcement_EventSeizureDeferred = [(1, ''caseId'', One T_uint64), (2, ''target'', One T_string),
     (3, ''retryAtHeight'', One T_int64), (4, ''reason'', One T_string)]"

definition enforcement_EventFreezeLifted :: schema where
  "enforcement_EventFreezeLifted = [(1, ''address'', One T_string), (2, ''caseId'', One T_uint64),
     (3, ''status'', One enforcement_CaseStatus)]"

definition enforcement_SeizureDelayTier :: schema where
  "enforcement_SeizureDelayTier = [(1, ''threshold'', Sub cosmos_Coin), (2, ''delayBlocks'', One T_uint64)]"

definition enforcement_Params :: schema where
  "enforcement_Params = [(1, ''votingPeriodBlocks'', One T_uint64), (2, ''provisionalFreezeBlocks'', One T_uint64),
     (3, ''thresholdBps'', One T_uint64), (4, ''recoveryDestination'', One T_string),
     (5, ''maxReasonLength'', One T_uint64), (6, ''maxEvidenceUriLength'', One T_uint64),
     (7, ''seizeRequiresEvidence'', One T_bool), (9, ''seizureDelayBlocks'', One T_uint64),
     (10, ''seizureDelayTiers'', Subs enforcement_SeizureDelayTier), (11, ''seizureWindowBlocks'', One T_uint64),
     (12, ''seizureWindowCap'', Subs cosmos_Coin), (13, ''maxSeizuresPerWindow'', One T_uint64),
     (14, ''ombudsman'', One T_string)]"

definition enforcement_GenesisState :: schema where
  "enforcement_GenesisState = [(1, ''params'', Sub enforcement_Params), (2, ''cases'', Subs enforcement_Case),
     (3, ''votes'', Subs enforcement_Vote), (4, ''freezes'', Subs enforcement_Freeze),
     (5, ''caseCount'', One T_uint64), (6, ''seizures'', Subs enforcement_SeizureRecord)]"

definition enforcement_QueryParamsRequest :: schema where
  "enforcement_QueryParamsRequest = []"

definition enforcement_QueryParamsResponse :: schema where
  "enforcement_QueryParamsResponse = [(1, ''params'', Sub enforcement_Params)]"

definition enforcement_QueryGetCaseRequest :: schema where
  "enforcement_QueryGetCaseRequest = [(1, ''id'', One T_uint64)]"

definition enforcement_QueryGetCaseResponse :: schema where
  "enforcement_QueryGetCaseResponse = [(1, ''case'', Sub enforcement_Case), (2, ''votes'', Subs enforcement_Vote)]"

definition enforcement_QueryListCaseRequest :: schema where
  "enforcement_QueryListCaseRequest = [(1, ''pagination'', Sub cosmos_PageRequest)]"

definition enforcement_QueryListCaseResponse :: schema where
  "enforcement_QueryListCaseResponse = [(1, ''case'', Subs enforcement_Case),
     (2, ''pagination'', Sub cosmos_PageResponse)]"

definition enforcement_QueryOpenCasesRequest :: schema where
  "enforcement_QueryOpenCasesRequest = []"

definition enforcement_QueryOpenCasesResponse :: schema where
  "enforcement_QueryOpenCasesResponse = [(1, ''case'', Subs enforcement_Case)]"

definition enforcement_QueryCaseVotesRequest :: schema where
  "enforcement_QueryCaseVotesRequest = [(1, ''caseId'', One T_uint64)]"

definition enforcement_QueryCaseVotesResponse :: schema where
  "enforcement_QueryCaseVotesResponse = [(1, ''votes'', Subs enforcement_Vote), (2, ''yesPower'', One T_int64),
     (3, ''noPower'', One T_int64), (4, ''abstainPower'', One T_int64), (5, ''totalPowerAtOpen'', One T_int64),
     (6, ''requiredPower'', One T_int64)]"

definition enforcement_QueryFreezeStatusRequest :: schema where
  "enforcement_QueryFreezeStatusRequest = [(1, ''address'', One T_string)]"

definition enforcement_QueryFreezeStatusResponse :: schema where
  "enforcement_QueryFreezeStatusResponse = [(1, ''frozen'', One T_bool), (2, ''freeze'', Sub enforcement_Freeze),
     (3, ''case'', Sub enforcement_Case)]"

definition enforcement_QueryListFreezeRequest :: schema where
  "enforcement_QueryListFreezeRequest = [(1, ''pagination'', Sub cosmos_PageRequest)]"

definition enforcement_QueryListFreezeResponse :: schema where
  "enforcement_QueryListFreezeResponse = [(1, ''freeze'', Subs enforcement_Freeze),
     (2, ''pagination'', Sub cosmos_PageResponse)]"

definition enforcement_QueryRecoveredRequest :: schema where
  "enforcement_QueryRecoveredRequest = []"

definition enforcement_QueryRecoveredResponse :: schema where
  "enforcement_QueryRecoveredResponse = [(1, ''total'', Subs cosmos_Coin), (2, ''casesOpened'', One T_uint64),
     (3, ''casesPassed'', One T_uint64)]"

definition enforcement_QueryHeldCasesRequest :: schema where
  "enforcement_QueryHeldCasesRequest = []"

definition enforcement_QueryHeldCasesResponse :: schema where
  "enforcement_QueryHeldCasesResponse = [(1, ''case'', Subs enforcement_Case)]"

definition enforcement_QuerySeizureWindowRequest :: schema where
  "enforcement_QuerySeizureWindowRequest = []"

definition enforcement_QuerySeizureWindowResponse :: schema where
  "enforcement_QuerySeizureWindowResponse = [(1, ''windowStartHeight'', One T_int64),
     (2, ''currentHeight'', One T_int64), (3, ''seized'', Subs cosmos_Coin), (4, ''cap'', Subs cosmos_Coin),
     (5, ''remaining'', Subs cosmos_Coin), (6, ''seizureCount'', One T_uint64), (7, ''maxSeizures'', One T_uint64)]"

definition enforcement_MsgUpdateParams :: schema where
  "enforcement_MsgUpdateParams = [(1, ''authority'', One T_string), (2, ''params'', Sub enforcement_Params)]"

definition enforcement_MsgUpdateParamsResponse :: schema where
  "enforcement_MsgUpdateParamsResponse = []"

definition enforcement_MsgOpenCase :: schema where
  "enforcement_MsgOpenCase = [(1, ''opener'', One T_string), (2, ''target'', One T_string),
     (3, ''action'', One enforcement_CaseAction), (4, ''reason'', One T_string), (5, ''evidenceUri'', One T_string),
     (6, ''evidenceHash'', One T_string), (7, ''legalInstrument'', Sub enforcement_LegalInstrument)]"

definition enforcement_MsgOpenCaseResponse :: schema where
  "enforcement_MsgOpenCaseResponse = [(1, ''id'', One T_uint64)]"

definition enforcement_MsgVoteCase :: schema where
  "enforcement_MsgVoteCase = [(1, ''voter'', One T_string), (2, ''caseId'', One T_uint64),
     (3, ''option'', One enforcement_VoteOption)]"

definition enforcement_MsgVoteCaseResponse :: schema where
  "enforcement_MsgVoteCaseResponse = []"

definition enforcement_MsgWithdrawCase :: schema where
  "enforcement_MsgWithdrawCase = [(1, ''opener'', One T_string), (2, ''caseId'', One T_uint64)]"

definition enforcement_MsgWithdrawCaseResponse :: schema where
  "enforcement_MsgWithdrawCaseResponse = []"

definition enforcement_MsgSweep :: schema where
  "enforcement_MsgSweep = [(1, ''sender'', One T_string), (2, ''caseId'', One T_uint64)]"

definition enforcement_MsgSweepResponse :: schema where
  "enforcement_MsgSweepResponse = [(1, ''collected'', Subs cosmos_Coin), (2, ''complete'', One T_bool)]"

definition enforcement_MsgOmbudsmanVeto :: schema where
  "enforcement_MsgOmbudsmanVeto = [(1, ''ombudsman'', One T_string), (2, ''caseId'', One T_uint64),
     (3, ''reason'', One T_string)]"

definition enforcement_MsgOmbudsmanVetoResponse :: schema where
  "enforcement_MsgOmbudsmanVetoResponse = []"

definition enforcement_MsgReverseCase :: schema where
  "enforcement_MsgReverseCase = [(1, ''authority'', One T_string), (2, ''caseId'', One T_uint64),
     (3, ''reason'', One T_string)]"

definition enforcement_MsgReverseCaseResponse :: schema where
  "enforcement_MsgReverseCaseResponse = []"

definition enforcement_MsgEmergencyFreeze :: schema where
  "enforcement_MsgEmergencyFreeze = [(1, ''authority'', One T_string), (2, ''target'', One T_string),
     (3, ''reason'', One T_string), (4, ''evidenceUri'', One T_string), (5, ''evidenceHash'', One T_string)]"

definition enforcement_MsgEmergencyFreezeResponse :: schema where
  "enforcement_MsgEmergencyFreezeResponse = [(1, ''id'', One T_uint64)]"

definition enforcement_MsgEmergencyRelease :: schema where
  "enforcement_MsgEmergencyRelease = [(1, ''authority'', One T_string), (2, ''caseId'', One T_uint64),
     (3, ''reason'', One T_string)]"

definition enforcement_MsgEmergencyReleaseResponse :: schema where
  "enforcement_MsgEmergencyReleaseResponse = []"

text \<open>Their type names, as the chain and the registry write them.\<close>

definition enforcement_messages :: "(string \<times> schema) list" where
  "enforcement_messages = [(''blockchain.enforcement.v1.LegalInstrument'', enforcement_LegalInstrument),
     (''blockchain.enforcement.v1.SeizureRecord'', enforcement_SeizureRecord),
     (''blockchain.enforcement.v1.Case'', enforcement_Case), (''blockchain.enforcement.v1.Vote'', enforcement_Vote),
     (''blockchain.enforcement.v1.Freeze'', enforcement_Freeze),
     (''blockchain.enforcement.v1.EventCaseOpened'', enforcement_EventCaseOpened),
     (''blockchain.enforcement.v1.EventCaseVoted'', enforcement_EventCaseVoted),
     (''blockchain.enforcement.v1.EventCaseResolved'', enforcement_EventCaseResolved),
     (''blockchain.enforcement.v1.EventSeized'', enforcement_EventSeized),
     (''blockchain.enforcement.v1.EventCaseHeld'', enforcement_EventCaseHeld),
     (''blockchain.enforcement.v1.EventCaseVetoed'', enforcement_EventCaseVetoed),
     (''blockchain.enforcement.v1.EventSeizureDeferred'', enforcement_EventSeizureDeferred),
     (''blockchain.enforcement.v1.EventFreezeLifted'', enforcement_EventFreezeLifted),
     (''blockchain.enforcement.v1.SeizureDelayTier'', enforcement_SeizureDelayTier),
     (''blockchain.enforcement.v1.Params'', enforcement_Params),
     (''blockchain.enforcement.v1.GenesisState'', enforcement_GenesisState),
     (''blockchain.enforcement.v1.QueryParamsRequest'', enforcement_QueryParamsRequest),
     (''blockchain.enforcement.v1.QueryParamsResponse'', enforcement_QueryParamsResponse),
     (''blockchain.enforcement.v1.QueryGetCaseRequest'', enforcement_QueryGetCaseRequest),
     (''blockchain.enforcement.v1.QueryGetCaseResponse'', enforcement_QueryGetCaseResponse),
     (''blockchain.enforcement.v1.QueryListCaseRequest'', enforcement_QueryListCaseRequest),
     (''blockchain.enforcement.v1.QueryListCaseResponse'', enforcement_QueryListCaseResponse),
     (''blockchain.enforcement.v1.QueryOpenCasesRequest'', enforcement_QueryOpenCasesRequest),
     (''blockchain.enforcement.v1.QueryOpenCasesResponse'', enforcement_QueryOpenCasesResponse),
     (''blockchain.enforcement.v1.QueryCaseVotesRequest'', enforcement_QueryCaseVotesRequest),
     (''blockchain.enforcement.v1.QueryCaseVotesResponse'', enforcement_QueryCaseVotesResponse),
     (''blockchain.enforcement.v1.QueryFreezeStatusRequest'', enforcement_QueryFreezeStatusRequest),
     (''blockchain.enforcement.v1.QueryFreezeStatusResponse'', enforcement_QueryFreezeStatusResponse),
     (''blockchain.enforcement.v1.QueryListFreezeRequest'', enforcement_QueryListFreezeRequest),
     (''blockchain.enforcement.v1.QueryListFreezeResponse'', enforcement_QueryListFreezeResponse),
     (''blockchain.enforcement.v1.QueryRecoveredRequest'', enforcement_QueryRecoveredRequest),
     (''blockchain.enforcement.v1.QueryRecoveredResponse'', enforcement_QueryRecoveredResponse),
     (''blockchain.enforcement.v1.QueryHeldCasesRequest'', enforcement_QueryHeldCasesRequest),
     (''blockchain.enforcement.v1.QueryHeldCasesResponse'', enforcement_QueryHeldCasesResponse),
     (''blockchain.enforcement.v1.QuerySeizureWindowRequest'', enforcement_QuerySeizureWindowRequest),
     (''blockchain.enforcement.v1.QuerySeizureWindowResponse'', enforcement_QuerySeizureWindowResponse),
     (''blockchain.enforcement.v1.MsgUpdateParams'', enforcement_MsgUpdateParams),
     (''blockchain.enforcement.v1.MsgUpdateParamsResponse'', enforcement_MsgUpdateParamsResponse),
     (''blockchain.enforcement.v1.MsgOpenCase'', enforcement_MsgOpenCase),
     (''blockchain.enforcement.v1.MsgOpenCaseResponse'', enforcement_MsgOpenCaseResponse),
     (''blockchain.enforcement.v1.MsgVoteCase'', enforcement_MsgVoteCase),
     (''blockchain.enforcement.v1.MsgVoteCaseResponse'', enforcement_MsgVoteCaseResponse),
     (''blockchain.enforcement.v1.MsgWithdrawCase'', enforcement_MsgWithdrawCase),
     (''blockchain.enforcement.v1.MsgWithdrawCaseResponse'', enforcement_MsgWithdrawCaseResponse),
     (''blockchain.enforcement.v1.MsgSweep'', enforcement_MsgSweep),
     (''blockchain.enforcement.v1.MsgSweepResponse'', enforcement_MsgSweepResponse),
     (''blockchain.enforcement.v1.MsgOmbudsmanVeto'', enforcement_MsgOmbudsmanVeto),
     (''blockchain.enforcement.v1.MsgOmbudsmanVetoResponse'', enforcement_MsgOmbudsmanVetoResponse),
     (''blockchain.enforcement.v1.MsgReverseCase'', enforcement_MsgReverseCase),
     (''blockchain.enforcement.v1.MsgReverseCaseResponse'', enforcement_MsgReverseCaseResponse),
     (''blockchain.enforcement.v1.MsgEmergencyFreeze'', enforcement_MsgEmergencyFreeze),
     (''blockchain.enforcement.v1.MsgEmergencyFreezeResponse'', enforcement_MsgEmergencyFreezeResponse),
     (''blockchain.enforcement.v1.MsgEmergencyRelease'', enforcement_MsgEmergencyRelease),
     (''blockchain.enforcement.v1.MsgEmergencyReleaseResponse'', enforcement_MsgEmergencyReleaseResponse)]"

lemmas enforcement_schemas =
  enforcement_CaseAction_def enforcement_CaseStatus_def enforcement_LegalInstrumentKind_def
     enforcement_VoteOption_def enforcement_LegalInstrument_def enforcement_SeizureRecord_def enforcement_Case_def
     enforcement_Vote_def enforcement_Freeze_def enforcement_EventCaseOpened_def enforcement_EventCaseVoted_def
     enforcement_EventCaseResolved_def enforcement_EventSeized_def enforcement_EventCaseHeld_def
     enforcement_EventCaseVetoed_def enforcement_EventSeizureDeferred_def enforcement_EventFreezeLifted_def
     enforcement_SeizureDelayTier_def enforcement_Params_def enforcement_GenesisState_def
     enforcement_QueryParamsRequest_def enforcement_QueryParamsResponse_def enforcement_QueryGetCaseRequest_def
     enforcement_QueryGetCaseResponse_def enforcement_QueryListCaseRequest_def enforcement_QueryListCaseResponse_def
     enforcement_QueryOpenCasesRequest_def enforcement_QueryOpenCasesResponse_def
     enforcement_QueryCaseVotesRequest_def enforcement_QueryCaseVotesResponse_def
     enforcement_QueryFreezeStatusRequest_def enforcement_QueryFreezeStatusResponse_def
     enforcement_QueryListFreezeRequest_def enforcement_QueryListFreezeResponse_def
     enforcement_QueryRecoveredRequest_def enforcement_QueryRecoveredResponse_def
     enforcement_QueryHeldCasesRequest_def enforcement_QueryHeldCasesResponse_def
     enforcement_QuerySeizureWindowRequest_def enforcement_QuerySeizureWindowResponse_def
     enforcement_MsgUpdateParams_def enforcement_MsgUpdateParamsResponse_def enforcement_MsgOpenCase_def
     enforcement_MsgOpenCaseResponse_def enforcement_MsgVoteCase_def enforcement_MsgVoteCaseResponse_def
     enforcement_MsgWithdrawCase_def enforcement_MsgWithdrawCaseResponse_def enforcement_MsgSweep_def
     enforcement_MsgSweepResponse_def enforcement_MsgOmbudsmanVeto_def enforcement_MsgOmbudsmanVetoResponse_def
     enforcement_MsgReverseCase_def enforcement_MsgReverseCaseResponse_def enforcement_MsgEmergencyFreeze_def
     enforcement_MsgEmergencyFreezeResponse_def enforcement_MsgEmergencyRelease_def
     enforcement_MsgEmergencyReleaseResponse_def

lemma enforcement_good: "list_all (\<lambda>(u, fs). good_schema fs) enforcement_messages"
  by (simp add: enforcement_messages_def enforcement_schemas cosmos_schemas good_simps)

end
