(* ===== verification/GoogleProto.thy ===== *)
theory GoogleProto imports Schema begin

text \<open>
  The well-known types, as \<open>clients/sdk/src/generated/google/protobuf\<close> codes them: the
  enums, then each message as the schema its six functions follow.
\<close>

definition google_Duration :: schema where
  "google_Duration = [(1, ''seconds'', One T_int64), (2, ''nanos'', One T_int32)]"

definition google_Any :: schema where
  "google_Any = [(1, ''typeUrl'', One T_string), (2, ''value'', One T_bytes)]"

definition google_Timestamp :: schema where
  "google_Timestamp = [(1, ''seconds'', One T_int64), (2, ''nanos'', One T_int32)]"

text \<open>Their type names, as the chain and the registry write them.\<close>

definition google_messages :: "(string \<times> schema) list" where
  "google_messages = [(''google.protobuf.Duration'', google_Duration), (''google.protobuf.Any'', google_Any),
     (''google.protobuf.Timestamp'', google_Timestamp)]"

lemmas google_schemas =
  google_Duration_def google_Any_def google_Timestamp_def

lemma google_good: "list_all (\<lambda>(u, fs). good_schema fs) google_messages"
  by (simp add: google_messages_def google_schemas good_simps)

end
