(* ===== verification/FeegrantProto.thy ===== *)
theory FeegrantProto imports CosmosProto GoogleProto begin

text \<open>
  The fee-grant module's allowances, messages and queries, as \<open>clients/sdk/src/generated/cosmos/feegrant/v1beta1\<close> codes them: the
  enums, then each message as the schema its six functions follow.
\<close>

definition feegrant_BasicAllowance :: schema where
  "feegrant_BasicAllowance = [(1, ''spendLimit'', Subs cosmos_Coin), (2, ''expiration'', Moment)]"

definition feegrant_PeriodicAllowance :: schema where
  "feegrant_PeriodicAllowance = [(1, ''basic'', Sub feegrant_BasicAllowance), (2, ''period'', Sub google_Duration),
     (3, ''periodSpendLimit'', Subs cosmos_Coin), (4, ''periodCanSpend'', Subs cosmos_Coin),
     (5, ''periodReset'', Moment)]"

definition feegrant_AllowedMsgAllowance :: schema where
  "feegrant_AllowedMsgAllowance = [(1, ''allowance'', Sub google_Any), (2, ''allowedMessages'', Each T_string)]"

definition feegrant_Grant :: schema where
  "feegrant_Grant = [(1, ''granter'', One T_string), (2, ''grantee'', One T_string),
     (3, ''allowance'', Sub google_Any)]"

definition feegrant_GenesisState :: schema where
  "feegrant_GenesisState = [(1, ''allowances'', Subs feegrant_Grant)]"

definition feegrant_QueryAllowanceRequest :: schema where
  "feegrant_QueryAllowanceRequest = [(1, ''granter'', One T_string), (2, ''grantee'', One T_string)]"

definition feegrant_QueryAllowanceResponse :: schema where
  "feegrant_QueryAllowanceResponse = [(1, ''allowance'', Sub feegrant_Grant)]"

definition feegrant_QueryAllowancesRequest :: schema where
  "feegrant_QueryAllowancesRequest = [(1, ''grantee'', One T_string), (2, ''pagination'', Sub cosmos_PageRequest)]"

definition feegrant_QueryAllowancesResponse :: schema where
  "feegrant_QueryAllowancesResponse = [(1, ''allowances'', Subs feegrant_Grant),
     (2, ''pagination'', Sub cosmos_PageResponse)]"

definition feegrant_QueryAllowancesByGranterRequest :: schema where
  "feegrant_QueryAllowancesByGranterRequest = [(1, ''granter'', One T_string),
     (2, ''pagination'', Sub cosmos_PageRequest)]"

definition feegrant_QueryAllowancesByGranterResponse :: schema where
  "feegrant_QueryAllowancesByGranterResponse = [(1, ''allowances'', Subs feegrant_Grant),
     (2, ''pagination'', Sub cosmos_PageResponse)]"

definition feegrant_MsgGrantAllowance :: schema where
  "feegrant_MsgGrantAllowance = [(1, ''granter'', One T_string), (2, ''grantee'', One T_string),
     (3, ''allowance'', Sub google_Any)]"

definition feegrant_MsgGrantAllowanceResponse :: schema where
  "feegrant_MsgGrantAllowanceResponse = []"

definition feegrant_MsgRevokeAllowance :: schema where
  "feegrant_MsgRevokeAllowance = [(1, ''granter'', One T_string), (2, ''grantee'', One T_string)]"

definition feegrant_MsgRevokeAllowanceResponse :: schema where
  "feegrant_MsgRevokeAllowanceResponse = []"

definition feegrant_MsgPruneAllowances :: schema where
  "feegrant_MsgPruneAllowances = [(1, ''pruner'', One T_string)]"

definition feegrant_MsgPruneAllowancesResponse :: schema where
  "feegrant_MsgPruneAllowancesResponse = []"

text \<open>Their type names, as the chain and the registry write them.\<close>

definition feegrant_messages :: "(string \<times> schema) list" where
  "feegrant_messages = [(''cosmos.feegrant.v1beta1.BasicAllowance'', feegrant_BasicAllowance),
     (''cosmos.feegrant.v1beta1.PeriodicAllowance'', feegrant_PeriodicAllowance),
     (''cosmos.feegrant.v1beta1.AllowedMsgAllowance'', feegrant_AllowedMsgAllowance),
     (''cosmos.feegrant.v1beta1.Grant'', feegrant_Grant),
     (''cosmos.feegrant.v1beta1.GenesisState'', feegrant_GenesisState),
     (''cosmos.feegrant.v1beta1.QueryAllowanceRequest'', feegrant_QueryAllowanceRequest),
     (''cosmos.feegrant.v1beta1.QueryAllowanceResponse'', feegrant_QueryAllowanceResponse),
     (''cosmos.feegrant.v1beta1.QueryAllowancesRequest'', feegrant_QueryAllowancesRequest),
     (''cosmos.feegrant.v1beta1.QueryAllowancesResponse'', feegrant_QueryAllowancesResponse),
     (''cosmos.feegrant.v1beta1.QueryAllowancesByGranterRequest'', feegrant_QueryAllowancesByGranterRequest),
     (''cosmos.feegrant.v1beta1.QueryAllowancesByGranterResponse'', feegrant_QueryAllowancesByGranterResponse),
     (''cosmos.feegrant.v1beta1.MsgGrantAllowance'', feegrant_MsgGrantAllowance),
     (''cosmos.feegrant.v1beta1.MsgGrantAllowanceResponse'', feegrant_MsgGrantAllowanceResponse),
     (''cosmos.feegrant.v1beta1.MsgRevokeAllowance'', feegrant_MsgRevokeAllowance),
     (''cosmos.feegrant.v1beta1.MsgRevokeAllowanceResponse'', feegrant_MsgRevokeAllowanceResponse),
     (''cosmos.feegrant.v1beta1.MsgPruneAllowances'', feegrant_MsgPruneAllowances),
     (''cosmos.feegrant.v1beta1.MsgPruneAllowancesResponse'', feegrant_MsgPruneAllowancesResponse)]"

lemmas feegrant_schemas =
  feegrant_BasicAllowance_def feegrant_PeriodicAllowance_def feegrant_AllowedMsgAllowance_def feegrant_Grant_def
     feegrant_GenesisState_def feegrant_QueryAllowanceRequest_def feegrant_QueryAllowanceResponse_def
     feegrant_QueryAllowancesRequest_def feegrant_QueryAllowancesResponse_def
     feegrant_QueryAllowancesByGranterRequest_def feegrant_QueryAllowancesByGranterResponse_def
     feegrant_MsgGrantAllowance_def feegrant_MsgGrantAllowanceResponse_def feegrant_MsgRevokeAllowance_def
     feegrant_MsgRevokeAllowanceResponse_def feegrant_MsgPruneAllowances_def feegrant_MsgPruneAllowancesResponse_def

lemma feegrant_good: "list_all (\<lambda>(u, fs). good_schema fs) feegrant_messages"
  by (simp add: feegrant_messages_def feegrant_schemas cosmos_schemas google_schemas good_simps)

end
