(* ===== verification/NettingProto.thy ===== *)
theory NettingProto imports CosmosProto begin

text \<open>
  The messages, queries, events and state of the chain's netting module, as \<open>clients/sdk/src/generated/blockchain/netting/v1\<close> codes them: the
  enums, then each message as the schema its six functions follow.
\<close>

definition netting_SettlementMode :: proto_scalar where
  "netting_SettlementMode = T_enum [(0, ''SETTLEMENT_MODE_UNSPECIFIED''), (1, ''SETTLEMENT_MODE_GROSS''),
     (2, ''SETTLEMENT_MODE_NET'')]"

definition netting_CycleStatus :: proto_scalar where
  "netting_CycleStatus = T_enum [(0, ''CYCLE_STATUS_UNSPECIFIED''), (1, ''CYCLE_STATUS_OPEN''),
     (2, ''CYCLE_STATUS_SETTLED''), (3, ''CYCLE_STATUS_HELD'')]"

definition netting_DenomStatus :: proto_scalar where
  "netting_DenomStatus = T_enum [(0, ''DENOM_STATUS_UNSPECIFIED''), (1, ''DENOM_STATUS_OPEN''),
     (2, ''DENOM_STATUS_SETTLED''), (3, ''DENOM_STATUS_HELD'')]"

definition netting_EventObligationSubmitted :: schema where
  "netting_EventObligationSubmitted = [(1, ''id'', One T_uint64), (2, ''cycleId'', One T_uint64),
     (3, ''mode'', One netting_SettlementMode), (4, ''fromParticipant'', One T_string),
     (5, ''toParticipant'', One T_string), (6, ''denom'', One T_string), (7, ''amount'', One T_string)]"

definition netting_EventCycleSettled :: schema where
  "netting_EventCycleSettled = [(1, ''cycleId'', One T_uint64), (2, ''denom'', One T_string),
     (3, ''grossAmount'', One T_string), (4, ''netAmount'', One T_string), (5, ''obligationCount'', One T_uint64),
     (6, ''participantCount'', One T_uint64), (7, ''retried'', One T_bool)]"

definition netting_EventCycleHeld :: schema where
  "netting_EventCycleHeld = [(1, ''cycleId'', One T_uint64), (2, ''denom'', One T_string),
     (3, ''reason'', One T_string)]"

definition netting_EventReserveChanged :: schema where
  "netting_EventReserveChanged = [(1, ''participant'', One T_string), (2, ''denom'', One T_string),
     (3, ''amount'', One T_string), (4, ''deposited'', One T_bool)]"

definition netting_DenomPolicy :: schema where
  "netting_DenomPolicy = [(1, ''denom'', One T_string), (2, ''grossThreshold'', One T_string)]"

definition netting_Params :: schema where
  "netting_Params = [(1, ''cycleBlocks'', One T_uint64), (2, ''denomPolicies'', Subs netting_DenomPolicy)]"

definition netting_DenomOutcome :: schema where
  "netting_DenomOutcome = [(1, ''denom'', One T_string), (2, ''status'', One netting_DenomStatus),
     (3, ''grossAmount'', One T_string), (4, ''netAmount'', One T_string), (5, ''obligationCount'', One T_uint64),
     (6, ''holdReason'', One T_string)]"

definition netting_Cycle :: schema where
  "netting_Cycle = [(1, ''id'', One T_uint64), (2, ''openedAtHeight'', One T_int64),
     (3, ''closedAtHeight'', One T_int64), (4, ''status'', One netting_CycleStatus),
     (5, ''outcomes'', Subs netting_DenomOutcome)]"

definition netting_Obligation :: schema where
  "netting_Obligation = [(1, ''cycleId'', One T_uint64), (2, ''id'', One T_uint64),
     (3, ''fromParticipant'', One T_string), (4, ''toParticipant'', One T_string), (5, ''denom'', One T_string),
     (6, ''amount'', One T_string), (7, ''batchHash'', One T_bytes), (8, ''mode'', One netting_SettlementMode),
     (9, ''submittedAtHeight'', One T_int64)]"

definition netting_Position :: schema where
  "netting_Position = [(1, ''cycleId'', One T_uint64), (2, ''denom'', One T_string),
     (3, ''participant'', One T_string), (4, ''amount'', One T_string)]"

definition netting_Reserve :: schema where
  "netting_Reserve = [(1, ''participant'', One T_string), (2, ''denom'', One T_string),
     (3, ''amount'', One T_string)]"

definition netting_GenesisState :: schema where
  "netting_GenesisState = [(1, ''params'', Sub netting_Params), (2, ''cycles'', Subs netting_Cycle),
     (3, ''obligations'', Subs netting_Obligation), (4, ''positions'', Subs netting_Position),
     (5, ''reserves'', Subs netting_Reserve), (6, ''currentCycle'', One T_uint64),
     (7, ''cycleCount'', One T_uint64), (8, ''obligationCount'', One T_uint64)]"

definition netting_QueryParamsRequest :: schema where
  "netting_QueryParamsRequest = []"

definition netting_QueryParamsResponse :: schema where
  "netting_QueryParamsResponse = [(1, ''params'', Sub netting_Params)]"

definition netting_QueryCurrentCycleRequest :: schema where
  "netting_QueryCurrentCycleRequest = []"

definition netting_QueryCurrentCycleResponse :: schema where
  "netting_QueryCurrentCycleResponse = [(1, ''cycle'', Sub netting_Cycle), (2, ''closesAtHeight'', One T_int64)]"

definition netting_QueryCycleRequest :: schema where
  "netting_QueryCycleRequest = [(1, ''id'', One T_uint64)]"

definition netting_DenomCompression :: schema where
  "netting_DenomCompression = [(1, ''denom'', One T_string), (2, ''compressionBps'', One T_uint64)]"

definition netting_QueryCycleResponse :: schema where
  "netting_QueryCycleResponse = [(1, ''cycle'', Sub netting_Cycle),
     (2, ''compression'', Subs netting_DenomCompression)]"

definition netting_QueryPositionRequest :: schema where
  "netting_QueryPositionRequest = [(1, ''participant'', One T_string)]"

definition netting_PositionEntry :: schema where
  "netting_PositionEntry = [(1, ''denom'', One T_string), (2, ''reserve'', One T_string),
     (3, ''locked'', One T_string), (4, ''available'', One T_string), (5, ''netPosition'', One T_string)]"

definition netting_QueryPositionResponse :: schema where
  "netting_QueryPositionResponse = [(1, ''entries'', Subs netting_PositionEntry)]"

definition netting_QueryParticipantObligationsRequest :: schema where
  "netting_QueryParticipantObligationsRequest = [(1, ''participant'', One T_string), (2, ''cycleId'', One T_uint64),
     (3, ''pagination'', Sub cosmos_PageRequest)]"

definition netting_QueryParticipantObligationsResponse :: schema where
  "netting_QueryParticipantObligationsResponse = [(1, ''obligations'', Subs netting_Obligation),
     (2, ''pagination'', Sub cosmos_PageResponse)]"

definition netting_QueryHeldSlicesRequest :: schema where
  "netting_QueryHeldSlicesRequest = []"

definition netting_HeldSlice :: schema where
  "netting_HeldSlice = [(1, ''cycleId'', One T_uint64), (2, ''denom'', One T_string), (3, ''reason'', One T_string),
     (4, ''heldSinceHeight'', One T_int64)]"

definition netting_QueryHeldSlicesResponse :: schema where
  "netting_QueryHeldSlicesResponse = [(1, ''held'', Subs netting_HeldSlice)]"

definition netting_MsgUpdateParams :: schema where
  "netting_MsgUpdateParams = [(1, ''authority'', One T_string), (2, ''params'', Sub netting_Params)]"

definition netting_MsgUpdateParamsResponse :: schema where
  "netting_MsgUpdateParamsResponse = []"

definition netting_MsgPostReserve :: schema where
  "netting_MsgPostReserve = [(1, ''participant'', One T_string), (2, ''amount'', Subs cosmos_Coin)]"

definition netting_MsgPostReserveResponse :: schema where
  "netting_MsgPostReserveResponse = []"

definition netting_MsgWithdrawReserve :: schema where
  "netting_MsgWithdrawReserve = [(1, ''participant'', One T_string), (2, ''amount'', Subs cosmos_Coin)]"

definition netting_MsgWithdrawReserveResponse :: schema where
  "netting_MsgWithdrawReserveResponse = []"

definition netting_MsgSubmitObligation :: schema where
  "netting_MsgSubmitObligation = [(1, ''fromParticipant'', One T_string), (2, ''toParticipant'', One T_string),
     (3, ''denom'', One T_string), (4, ''amount'', One T_string), (5, ''batchHash'', One T_bytes)]"

definition netting_MsgSubmitObligationResponse :: schema where
  "netting_MsgSubmitObligationResponse = [(1, ''id'', One T_uint64), (2, ''cycleId'', One T_uint64),
     (3, ''mode'', One netting_SettlementMode)]"

text \<open>Their type names, as the chain and the registry write them.\<close>

definition netting_messages :: "(string \<times> schema) list" where
  "netting_messages = [(''blockchain.netting.v1.EventObligationSubmitted'', netting_EventObligationSubmitted),
     (''blockchain.netting.v1.EventCycleSettled'', netting_EventCycleSettled),
     (''blockchain.netting.v1.EventCycleHeld'', netting_EventCycleHeld),
     (''blockchain.netting.v1.EventReserveChanged'', netting_EventReserveChanged),
     (''blockchain.netting.v1.DenomPolicy'', netting_DenomPolicy),
     (''blockchain.netting.v1.Params'', netting_Params),
     (''blockchain.netting.v1.DenomOutcome'', netting_DenomOutcome),
     (''blockchain.netting.v1.Cycle'', netting_Cycle), (''blockchain.netting.v1.Obligation'', netting_Obligation),
     (''blockchain.netting.v1.Position'', netting_Position), (''blockchain.netting.v1.Reserve'', netting_Reserve),
     (''blockchain.netting.v1.GenesisState'', netting_GenesisState),
     (''blockchain.netting.v1.QueryParamsRequest'', netting_QueryParamsRequest),
     (''blockchain.netting.v1.QueryParamsResponse'', netting_QueryParamsResponse),
     (''blockchain.netting.v1.QueryCurrentCycleRequest'', netting_QueryCurrentCycleRequest),
     (''blockchain.netting.v1.QueryCurrentCycleResponse'', netting_QueryCurrentCycleResponse),
     (''blockchain.netting.v1.QueryCycleRequest'', netting_QueryCycleRequest),
     (''blockchain.netting.v1.DenomCompression'', netting_DenomCompression),
     (''blockchain.netting.v1.QueryCycleResponse'', netting_QueryCycleResponse),
     (''blockchain.netting.v1.QueryPositionRequest'', netting_QueryPositionRequest),
     (''blockchain.netting.v1.PositionEntry'', netting_PositionEntry),
     (''blockchain.netting.v1.QueryPositionResponse'', netting_QueryPositionResponse),
     (''blockchain.netting.v1.QueryParticipantObligationsRequest'', netting_QueryParticipantObligationsRequest),
     (''blockchain.netting.v1.QueryParticipantObligationsResponse'', netting_QueryParticipantObligationsResponse),
     (''blockchain.netting.v1.QueryHeldSlicesRequest'', netting_QueryHeldSlicesRequest),
     (''blockchain.netting.v1.HeldSlice'', netting_HeldSlice),
     (''blockchain.netting.v1.QueryHeldSlicesResponse'', netting_QueryHeldSlicesResponse),
     (''blockchain.netting.v1.MsgUpdateParams'', netting_MsgUpdateParams),
     (''blockchain.netting.v1.MsgUpdateParamsResponse'', netting_MsgUpdateParamsResponse),
     (''blockchain.netting.v1.MsgPostReserve'', netting_MsgPostReserve),
     (''blockchain.netting.v1.MsgPostReserveResponse'', netting_MsgPostReserveResponse),
     (''blockchain.netting.v1.MsgWithdrawReserve'', netting_MsgWithdrawReserve),
     (''blockchain.netting.v1.MsgWithdrawReserveResponse'', netting_MsgWithdrawReserveResponse),
     (''blockchain.netting.v1.MsgSubmitObligation'', netting_MsgSubmitObligation),
     (''blockchain.netting.v1.MsgSubmitObligationResponse'', netting_MsgSubmitObligationResponse)]"

lemmas netting_schemas =
  netting_SettlementMode_def netting_CycleStatus_def netting_DenomStatus_def netting_EventObligationSubmitted_def
     netting_EventCycleSettled_def netting_EventCycleHeld_def netting_EventReserveChanged_def
     netting_DenomPolicy_def netting_Params_def netting_DenomOutcome_def netting_Cycle_def netting_Obligation_def
     netting_Position_def netting_Reserve_def netting_GenesisState_def netting_QueryParamsRequest_def
     netting_QueryParamsResponse_def netting_QueryCurrentCycleRequest_def netting_QueryCurrentCycleResponse_def
     netting_QueryCycleRequest_def netting_DenomCompression_def netting_QueryCycleResponse_def
     netting_QueryPositionRequest_def netting_PositionEntry_def netting_QueryPositionResponse_def
     netting_QueryParticipantObligationsRequest_def netting_QueryParticipantObligationsResponse_def
     netting_QueryHeldSlicesRequest_def netting_HeldSlice_def netting_QueryHeldSlicesResponse_def
     netting_MsgUpdateParams_def netting_MsgUpdateParamsResponse_def netting_MsgPostReserve_def
     netting_MsgPostReserveResponse_def netting_MsgWithdrawReserve_def netting_MsgWithdrawReserveResponse_def
     netting_MsgSubmitObligation_def netting_MsgSubmitObligationResponse_def

lemma netting_good: "list_all (\<lambda>(u, fs). good_schema fs) netting_messages"
  by (simp add: netting_messages_def netting_schemas cosmos_schemas good_simps)

end
