(* ===== verification/OracleProto.thy ===== *)
theory OracleProto imports CosmosProto begin

text \<open>
  The messages, queries, events and state of the chain's oracle module, as \<open>clients/sdk/src/generated/blockchain/oracle/v1\<close> codes them: the
  enums, then each message as the schema its six functions follow.
\<close>

definition oracle_AppraiserStatus :: proto_scalar where
  "oracle_AppraiserStatus = T_enum [(0, ''APPRAISER_STATUS_UNSPECIFIED''), (1, ''APPRAISER_STATUS_PENDING''),
     (2, ''APPRAISER_STATUS_APPROVED''), (3, ''APPRAISER_STATUS_REJECTED'')]"

definition oracle_Params :: schema where
  "oracle_Params = [(1, ''votePeriod'', One T_uint64), (2, ''voteThresholdBps'', One T_uint64),
     (3, ''quoteSymbol'', One T_string), (4, ''acceptedDenoms'', Each T_string),
     (5, ''maxRateAgeSeconds'', One T_uint64), (6, ''maxAppraisalAgeSeconds'', One T_uint64),
     (7, ''maxClassIdsPerAppraiser'', One T_uint64)]"

definition oracle_ExchangeRate :: schema where
  "oracle_ExchangeRate = [(1, ''denom'', One T_string), (2, ''rate'', One T_string),
     (3, ''updatedAt'', One T_int64), (4, ''updatedHeight'', One T_int64), (5, ''votingPowerBps'', One T_uint64)]"

definition oracle_Appraiser :: schema where
  "oracle_Appraiser = [(1, ''address'', One T_string), (2, ''name'', One T_string),
     (3, ''credentials'', One T_string), (4, ''classIds'', Each T_string),
     (5, ''status'', One oracle_AppraiserStatus), (6, ''approvedAtHeight'', One T_uint64)]"

definition oracle_Appraisal :: schema where
  "oracle_Appraisal = [(1, ''classId'', One T_string), (2, ''nftId'', One T_string), (3, ''value'', One T_string),
     (4, ''valueDenom'', One T_string), (5, ''appraiser'', One T_string), (6, ''valuedAt'', One T_int64),
     (7, ''submittedAt'', One T_int64), (8, ''submittedHeight'', One T_uint64), (9, ''method'', One T_string),
     (10, ''reportUri'', One T_string), (11, ''reportHash'', One T_string), (12, ''superseded'', One T_bool)]"

definition oracle_FeederDelegation :: schema where
  "oracle_FeederDelegation = [(1, ''validator'', One T_string), (2, ''feeder'', One T_string)]"

definition oracle_MissCounter :: schema where
  "oracle_MissCounter = [(1, ''validator'', One T_string), (2, ''misses'', One T_uint64),
     (3, ''windows'', One T_uint64)]"

definition oracle_GenesisState :: schema where
  "oracle_GenesisState = [(1, ''params'', Sub oracle_Params), (2, ''exchangeRates'', Subs oracle_ExchangeRate),
     (3, ''appraisers'', Subs oracle_Appraiser), (4, ''appraisals'', Subs oracle_Appraisal),
     (5, ''feederDelegations'', Subs oracle_FeederDelegation), (6, ''missCounters'', Subs oracle_MissCounter),
     (7, ''appraisalHistory'', Subs oracle_Appraisal)]"

definition oracle_ExchangeRateVote :: schema where
  "oracle_ExchangeRateVote = [(1, ''validator'', One T_string), (2, ''denom'', One T_string),
     (3, ''rate'', One T_string)]"

definition oracle_QueryParamsRequest :: schema where
  "oracle_QueryParamsRequest = []"

definition oracle_QueryParamsResponse :: schema where
  "oracle_QueryParamsResponse = [(1, ''params'', Sub oracle_Params)]"

definition oracle_QueryExchangeRateRequest :: schema where
  "oracle_QueryExchangeRateRequest = [(1, ''denom'', One T_string)]"

definition oracle_QueryExchangeRateResponse :: schema where
  "oracle_QueryExchangeRateResponse = [(1, ''rate'', Sub oracle_ExchangeRate), (2, ''stale'', One T_bool),
     (3, ''ageSeconds'', One T_int64)]"

definition oracle_QueryExchangeRatesRequest :: schema where
  "oracle_QueryExchangeRatesRequest = [(1, ''pagination'', Sub cosmos_PageRequest)]"

definition oracle_QueryExchangeRatesResponse :: schema where
  "oracle_QueryExchangeRatesResponse = [(1, ''rates'', Subs oracle_ExchangeRate),
     (2, ''pagination'', Sub cosmos_PageResponse)]"

definition oracle_QueryAppraisalRequest :: schema where
  "oracle_QueryAppraisalRequest = [(1, ''classId'', One T_string), (2, ''nftId'', One T_string)]"

definition oracle_QueryAppraisalResponse :: schema where
  "oracle_QueryAppraisalResponse = [(1, ''appraisal'', Sub oracle_Appraisal), (2, ''stale'', One T_bool),
     (3, ''ageSeconds'', One T_int64), (4, ''appraiserStillApproved'', One T_bool)]"

definition oracle_QueryAppraisalHistoryRequest :: schema where
  "oracle_QueryAppraisalHistoryRequest = [(1, ''classId'', One T_string), (2, ''nftId'', One T_string),
     (3, ''pagination'', Sub cosmos_PageRequest)]"

definition oracle_QueryAppraisalHistoryResponse :: schema where
  "oracle_QueryAppraisalHistoryResponse = [(1, ''appraisals'', Subs oracle_Appraisal),
     (2, ''pagination'', Sub cosmos_PageResponse)]"

definition oracle_QueryGetAppraiserRequest :: schema where
  "oracle_QueryGetAppraiserRequest = [(1, ''address'', One T_string)]"

definition oracle_QueryGetAppraiserResponse :: schema where
  "oracle_QueryGetAppraiserResponse = [(1, ''appraiser'', Sub oracle_Appraiser)]"

definition oracle_QueryListAppraiserRequest :: schema where
  "oracle_QueryListAppraiserRequest = [(1, ''pagination'', Sub cosmos_PageRequest)]"

definition oracle_QueryListAppraiserResponse :: schema where
  "oracle_QueryListAppraiserResponse = [(1, ''appraisers'', Subs oracle_Appraiser),
     (2, ''pagination'', Sub cosmos_PageResponse)]"

definition oracle_QueryMissCountersRequest :: schema where
  "oracle_QueryMissCountersRequest = [(1, ''pagination'', Sub cosmos_PageRequest)]"

definition oracle_QueryMissCountersResponse :: schema where
  "oracle_QueryMissCountersResponse = [(1, ''counters'', Subs oracle_MissCounter),
     (2, ''pagination'', Sub cosmos_PageResponse)]"

definition oracle_QueryFeederDelegationRequest :: schema where
  "oracle_QueryFeederDelegationRequest = [(1, ''validator'', One T_string)]"

definition oracle_QueryFeederDelegationResponse :: schema where
  "oracle_QueryFeederDelegationResponse = [(1, ''feeder'', One T_string)]"

definition oracle_MsgUpdateParams :: schema where
  "oracle_MsgUpdateParams = [(1, ''authority'', One T_string), (2, ''params'', Sub oracle_Params)]"

definition oracle_MsgUpdateParamsResponse :: schema where
  "oracle_MsgUpdateParamsResponse = []"

definition oracle_RateVote :: schema where
  "oracle_RateVote = [(1, ''denom'', One T_string), (2, ''rate'', One T_string)]"

definition oracle_MsgSubmitExchangeRates :: schema where
  "oracle_MsgSubmitExchangeRates = [(1, ''feeder'', One T_string), (2, ''validator'', One T_string),
     (3, ''rates'', Subs oracle_RateVote)]"

definition oracle_MsgSubmitExchangeRatesResponse :: schema where
  "oracle_MsgSubmitExchangeRatesResponse = []"

definition oracle_MsgDelegateFeeder :: schema where
  "oracle_MsgDelegateFeeder = [(1, ''operator'', One T_string), (2, ''validator'', One T_string),
     (3, ''feeder'', One T_string)]"

definition oracle_MsgDelegateFeederResponse :: schema where
  "oracle_MsgDelegateFeederResponse = []"

definition oracle_MsgApplyAppraiser :: schema where
  "oracle_MsgApplyAppraiser = [(1, ''creator'', One T_string), (2, ''name'', One T_string),
     (3, ''credentials'', One T_string), (4, ''classIds'', Each T_string)]"

definition oracle_MsgApplyAppraiserResponse :: schema where
  "oracle_MsgApplyAppraiserResponse = []"

definition oracle_MsgApproveAppraiser :: schema where
  "oracle_MsgApproveAppraiser = [(1, ''authority'', One T_string), (2, ''appraiser'', One T_string),
     (3, ''approve'', One T_bool), (4, ''classIds'', Each T_string)]"

definition oracle_MsgApproveAppraiserResponse :: schema where
  "oracle_MsgApproveAppraiserResponse = []"

definition oracle_MsgRevokeAppraiser :: schema where
  "oracle_MsgRevokeAppraiser = [(1, ''authority'', One T_string), (2, ''appraiser'', One T_string),
     (3, ''reason'', One T_string)]"

definition oracle_MsgRevokeAppraiserResponse :: schema where
  "oracle_MsgRevokeAppraiserResponse = []"

definition oracle_MsgSubmitAppraisal :: schema where
  "oracle_MsgSubmitAppraisal = [(1, ''appraiser'', One T_string), (2, ''classId'', One T_string),
     (3, ''nftId'', One T_string), (4, ''value'', One T_string), (5, ''valueDenom'', One T_string),
     (6, ''valuedAt'', One T_int64), (7, ''method'', One T_string), (8, ''reportUri'', One T_string),
     (9, ''reportHash'', One T_string)]"

definition oracle_MsgSubmitAppraisalResponse :: schema where
  "oracle_MsgSubmitAppraisalResponse = []"

text \<open>Their type names, as the chain and the registry write them.\<close>

definition oracle_messages :: "(string \<times> schema) list" where
  "oracle_messages = [(''blockchain.oracle.v1.Params'', oracle_Params),
     (''blockchain.oracle.v1.ExchangeRate'', oracle_ExchangeRate),
     (''blockchain.oracle.v1.Appraiser'', oracle_Appraiser), (''blockchain.oracle.v1.Appraisal'', oracle_Appraisal),
     (''blockchain.oracle.v1.FeederDelegation'', oracle_FeederDelegation),
     (''blockchain.oracle.v1.MissCounter'', oracle_MissCounter),
     (''blockchain.oracle.v1.GenesisState'', oracle_GenesisState),
     (''blockchain.oracle.v1.ExchangeRateVote'', oracle_ExchangeRateVote),
     (''blockchain.oracle.v1.QueryParamsRequest'', oracle_QueryParamsRequest),
     (''blockchain.oracle.v1.QueryParamsResponse'', oracle_QueryParamsResponse),
     (''blockchain.oracle.v1.QueryExchangeRateRequest'', oracle_QueryExchangeRateRequest),
     (''blockchain.oracle.v1.QueryExchangeRateResponse'', oracle_QueryExchangeRateResponse),
     (''blockchain.oracle.v1.QueryExchangeRatesRequest'', oracle_QueryExchangeRatesRequest),
     (''blockchain.oracle.v1.QueryExchangeRatesResponse'', oracle_QueryExchangeRatesResponse),
     (''blockchain.oracle.v1.QueryAppraisalRequest'', oracle_QueryAppraisalRequest),
     (''blockchain.oracle.v1.QueryAppraisalResponse'', oracle_QueryAppraisalResponse),
     (''blockchain.oracle.v1.QueryAppraisalHistoryRequest'', oracle_QueryAppraisalHistoryRequest),
     (''blockchain.oracle.v1.QueryAppraisalHistoryResponse'', oracle_QueryAppraisalHistoryResponse),
     (''blockchain.oracle.v1.QueryGetAppraiserRequest'', oracle_QueryGetAppraiserRequest),
     (''blockchain.oracle.v1.QueryGetAppraiserResponse'', oracle_QueryGetAppraiserResponse),
     (''blockchain.oracle.v1.QueryListAppraiserRequest'', oracle_QueryListAppraiserRequest),
     (''blockchain.oracle.v1.QueryListAppraiserResponse'', oracle_QueryListAppraiserResponse),
     (''blockchain.oracle.v1.QueryMissCountersRequest'', oracle_QueryMissCountersRequest),
     (''blockchain.oracle.v1.QueryMissCountersResponse'', oracle_QueryMissCountersResponse),
     (''blockchain.oracle.v1.QueryFeederDelegationRequest'', oracle_QueryFeederDelegationRequest),
     (''blockchain.oracle.v1.QueryFeederDelegationResponse'', oracle_QueryFeederDelegationResponse),
     (''blockchain.oracle.v1.MsgUpdateParams'', oracle_MsgUpdateParams),
     (''blockchain.oracle.v1.MsgUpdateParamsResponse'', oracle_MsgUpdateParamsResponse),
     (''blockchain.oracle.v1.RateVote'', oracle_RateVote),
     (''blockchain.oracle.v1.MsgSubmitExchangeRates'', oracle_MsgSubmitExchangeRates),
     (''blockchain.oracle.v1.MsgSubmitExchangeRatesResponse'', oracle_MsgSubmitExchangeRatesResponse),
     (''blockchain.oracle.v1.MsgDelegateFeeder'', oracle_MsgDelegateFeeder),
     (''blockchain.oracle.v1.MsgDelegateFeederResponse'', oracle_MsgDelegateFeederResponse),
     (''blockchain.oracle.v1.MsgApplyAppraiser'', oracle_MsgApplyAppraiser),
     (''blockchain.oracle.v1.MsgApplyAppraiserResponse'', oracle_MsgApplyAppraiserResponse),
     (''blockchain.oracle.v1.MsgApproveAppraiser'', oracle_MsgApproveAppraiser),
     (''blockchain.oracle.v1.MsgApproveAppraiserResponse'', oracle_MsgApproveAppraiserResponse),
     (''blockchain.oracle.v1.MsgRevokeAppraiser'', oracle_MsgRevokeAppraiser),
     (''blockchain.oracle.v1.MsgRevokeAppraiserResponse'', oracle_MsgRevokeAppraiserResponse),
     (''blockchain.oracle.v1.MsgSubmitAppraisal'', oracle_MsgSubmitAppraisal),
     (''blockchain.oracle.v1.MsgSubmitAppraisalResponse'', oracle_MsgSubmitAppraisalResponse)]"

lemmas oracle_schemas =
  oracle_AppraiserStatus_def oracle_Params_def oracle_ExchangeRate_def oracle_Appraiser_def oracle_Appraisal_def
     oracle_FeederDelegation_def oracle_MissCounter_def oracle_GenesisState_def oracle_ExchangeRateVote_def
     oracle_QueryParamsRequest_def oracle_QueryParamsResponse_def oracle_QueryExchangeRateRequest_def
     oracle_QueryExchangeRateResponse_def oracle_QueryExchangeRatesRequest_def oracle_QueryExchangeRatesResponse_def
     oracle_QueryAppraisalRequest_def oracle_QueryAppraisalResponse_def oracle_QueryAppraisalHistoryRequest_def
     oracle_QueryAppraisalHistoryResponse_def oracle_QueryGetAppraiserRequest_def
     oracle_QueryGetAppraiserResponse_def oracle_QueryListAppraiserRequest_def oracle_QueryListAppraiserResponse_def
     oracle_QueryMissCountersRequest_def oracle_QueryMissCountersResponse_def
     oracle_QueryFeederDelegationRequest_def oracle_QueryFeederDelegationResponse_def oracle_MsgUpdateParams_def
     oracle_MsgUpdateParamsResponse_def oracle_RateVote_def oracle_MsgSubmitExchangeRates_def
     oracle_MsgSubmitExchangeRatesResponse_def oracle_MsgDelegateFeeder_def oracle_MsgDelegateFeederResponse_def
     oracle_MsgApplyAppraiser_def oracle_MsgApplyAppraiserResponse_def oracle_MsgApproveAppraiser_def
     oracle_MsgApproveAppraiserResponse_def oracle_MsgRevokeAppraiser_def oracle_MsgRevokeAppraiserResponse_def
     oracle_MsgSubmitAppraisal_def oracle_MsgSubmitAppraisalResponse_def

lemma oracle_good: "list_all (\<lambda>(u, fs). good_schema fs) oracle_messages"
  by (simp add: oracle_messages_def oracle_schemas cosmos_schemas good_simps)

end
