(* ===== verification/PaymsgProto.thy ===== *)
theory PaymsgProto imports CosmosProto begin

text \<open>
  The messages, queries, events and state of the chain's paymsg module, as \<open>clients/sdk/src/generated/blockchain/paymsg/v1\<close> codes them: the
  enums, then each message as the schema its six functions follow.
\<close>

definition paymsg_ApprovedParticipant :: schema where
  "paymsg_ApprovedParticipant = [(1, ''participant'', One T_string), (2, ''code'', One T_string),
     (3, ''name'', One T_string), (4, ''payloadStoreUrl'', One T_string)]"

definition paymsg_Customer :: schema where
  "paymsg_Customer = [(1, ''customer'', One T_string), (2, ''participant'', One T_string)]"

definition paymsg_Params :: schema where
  "paymsg_Params = [(1, ''requireSettlementJurisdiction'', One T_bool)]"

definition paymsg_ParticipantApplication :: schema where
  "paymsg_ParticipantApplication = [(1, ''creator'', One T_string), (2, ''status'', One T_string),
     (3, ''code'', One T_string), (4, ''name'', One T_string)]"

definition paymsg_PaymentRecord :: schema where
  "paymsg_PaymentRecord = [(1, ''endToEndId'', One T_string), (2, ''instructingParticipant'', One T_string),
     (3, ''instructedParticipant'', One T_string), (4, ''debtor'', One T_string), (5, ''creditor'', One T_string),
     (6, ''denom'', One T_string), (7, ''amount'', One T_string), (8, ''purposeCode'', One T_string),
     (9, ''remittanceInformation'', One T_string), (10, ''blockHeight'', One T_uint64),
     (11, ''amountCommitment'', One T_bytes), (12, ''metadataHash'', One T_bytes),
     (13, ''settlementJurisdiction'', One T_string)]"

definition paymsg_GenesisState :: schema where
  "paymsg_GenesisState = [(1, ''params'', Sub paymsg_Params),
     (2, ''participantApplicationMap'', Subs paymsg_ParticipantApplication),
     (3, ''approvedParticipantMap'', Subs paymsg_ApprovedParticipant),
     (4, ''paymentRecordMap'', Subs paymsg_PaymentRecord), (5, ''customerMap'', Subs paymsg_Customer)]"

definition paymsg_RecipientBlock :: schema where
  "paymsg_RecipientBlock = [(1, ''keyId'', One T_bytes), (2, ''ephemeralPublicKey'', One T_bytes),
     (3, ''wrappedKey'', One T_bytes)]"

definition paymsg_PayloadEnvelope :: schema where
  "paymsg_PayloadEnvelope = [(1, ''version'', One T_uint32), (2, ''recipients'', Subs paymsg_RecipientBlock),
     (3, ''nonce'', One T_bytes), (4, ''ciphertext'', One T_bytes)]"

definition paymsg_PaymentMetadata :: schema where
  "paymsg_PaymentMetadata = [(1, ''salt'', One T_bytes), (2, ''purposeCode'', One T_string),
     (3, ''remittanceInformation'', One T_string)]"

definition paymsg_QueryParamsRequest :: schema where
  "paymsg_QueryParamsRequest = []"

definition paymsg_QueryParamsResponse :: schema where
  "paymsg_QueryParamsResponse = [(1, ''params'', Sub paymsg_Params)]"

definition paymsg_QueryGetParticipantApplicationRequest :: schema where
  "paymsg_QueryGetParticipantApplicationRequest = [(1, ''creator'', One T_string)]"

definition paymsg_QueryGetParticipantApplicationResponse :: schema where
  "paymsg_QueryGetParticipantApplicationResponse =
     [(1, ''participantApplication'', Sub paymsg_ParticipantApplication)]"

definition paymsg_QueryAllParticipantApplicationRequest :: schema where
  "paymsg_QueryAllParticipantApplicationRequest = [(1, ''pagination'', Sub cosmos_PageRequest)]"

definition paymsg_QueryAllParticipantApplicationResponse :: schema where
  "paymsg_QueryAllParticipantApplicationResponse =
     [(1, ''participantApplication'', Subs paymsg_ParticipantApplication),
     (2, ''pagination'', Sub cosmos_PageResponse)]"

definition paymsg_QueryGetApprovedParticipantRequest :: schema where
  "paymsg_QueryGetApprovedParticipantRequest = [(1, ''participant'', One T_string)]"

definition paymsg_QueryGetApprovedParticipantResponse :: schema where
  "paymsg_QueryGetApprovedParticipantResponse = [(1, ''approvedParticipant'', Sub paymsg_ApprovedParticipant)]"

definition paymsg_QueryAllApprovedParticipantRequest :: schema where
  "paymsg_QueryAllApprovedParticipantRequest = [(1, ''pagination'', Sub cosmos_PageRequest)]"

definition paymsg_QueryAllApprovedParticipantResponse :: schema where
  "paymsg_QueryAllApprovedParticipantResponse = [(1, ''approvedParticipant'', Subs paymsg_ApprovedParticipant),
     (2, ''pagination'', Sub cosmos_PageResponse)]"

definition paymsg_QueryGetPaymentRecordRequest :: schema where
  "paymsg_QueryGetPaymentRecordRequest = [(1, ''endToEndId'', One T_string),
     (2, ''instructingParticipant'', One T_string)]"

definition paymsg_QueryGetPaymentRecordResponse :: schema where
  "paymsg_QueryGetPaymentRecordResponse = [(1, ''paymentRecord'', Sub paymsg_PaymentRecord)]"

definition paymsg_QueryAllPaymentRecordRequest :: schema where
  "paymsg_QueryAllPaymentRecordRequest = [(1, ''pagination'', Sub cosmos_PageRequest)]"

definition paymsg_QueryAllPaymentRecordResponse :: schema where
  "paymsg_QueryAllPaymentRecordResponse = [(1, ''paymentRecord'', Subs paymsg_PaymentRecord),
     (2, ''pagination'', Sub cosmos_PageResponse)]"

definition paymsg_MsgUpdateParams :: schema where
  "paymsg_MsgUpdateParams = [(1, ''authority'', One T_string), (2, ''params'', Sub paymsg_Params)]"

definition paymsg_MsgUpdateParamsResponse :: schema where
  "paymsg_MsgUpdateParamsResponse = []"

definition paymsg_MsgApplyParticipant :: schema where
  "paymsg_MsgApplyParticipant = [(1, ''creator'', One T_string), (2, ''code'', One T_string),
     (3, ''name'', One T_string)]"

definition paymsg_MsgApplyParticipantResponse :: schema where
  "paymsg_MsgApplyParticipantResponse = []"

definition paymsg_MsgSendPayment :: schema where
  "paymsg_MsgSendPayment = [(1, ''debtor'', One T_string), (2, ''endToEndId'', One T_string),
     (3, ''instructingParticipant'', One T_string), (4, ''instructedParticipant'', One T_string),
     (5, ''creditor'', One T_string), (6, ''denom'', One T_string), (7, ''amount'', One T_string),
     (8, ''purposeCode'', One T_string), (9, ''remittanceInformation'', One T_string),
     (10, ''amountCommitment'', One T_bytes), (11, ''amountRangeProof'', One T_bytes),
     (12, ''metadataHash'', One T_bytes), (13, ''settlementJurisdiction'', One T_string)]"

definition paymsg_MsgSendPaymentResponse :: schema where
  "paymsg_MsgSendPaymentResponse = []"

definition paymsg_MsgApproveParticipant :: schema where
  "paymsg_MsgApproveParticipant = [(1, ''authority'', One T_string), (2, ''participant'', One T_string),
     (3, ''approve'', One T_bool)]"

definition paymsg_MsgApproveParticipantResponse :: schema where
  "paymsg_MsgApproveParticipantResponse = []"

definition paymsg_MsgRegisterCustomer :: schema where
  "paymsg_MsgRegisterCustomer = [(1, ''participant'', One T_string), (2, ''customer'', One T_string),
     (3, ''registered'', One T_bool)]"

definition paymsg_MsgRegisterCustomerResponse :: schema where
  "paymsg_MsgRegisterCustomerResponse = []"

definition paymsg_MsgSetPayloadStore :: schema where
  "paymsg_MsgSetPayloadStore = [(1, ''participant'', One T_string), (2, ''url'', One T_string)]"

definition paymsg_MsgSetPayloadStoreResponse :: schema where
  "paymsg_MsgSetPayloadStoreResponse = []"

text \<open>Their type names, as the chain and the registry write them.\<close>

definition paymsg_messages :: "(string \<times> schema) list" where
  "paymsg_messages = [(''blockchain.paymsg.v1.ApprovedParticipant'', paymsg_ApprovedParticipant),
     (''blockchain.paymsg.v1.Customer'', paymsg_Customer), (''blockchain.paymsg.v1.Params'', paymsg_Params),
     (''blockchain.paymsg.v1.ParticipantApplication'', paymsg_ParticipantApplication),
     (''blockchain.paymsg.v1.PaymentRecord'', paymsg_PaymentRecord),
     (''blockchain.paymsg.v1.GenesisState'', paymsg_GenesisState),
     (''blockchain.paymsg.v1.RecipientBlock'', paymsg_RecipientBlock),
     (''blockchain.paymsg.v1.PayloadEnvelope'', paymsg_PayloadEnvelope),
     (''blockchain.paymsg.v1.PaymentMetadata'', paymsg_PaymentMetadata),
     (''blockchain.paymsg.v1.QueryParamsRequest'', paymsg_QueryParamsRequest),
     (''blockchain.paymsg.v1.QueryParamsResponse'', paymsg_QueryParamsResponse),
     (''blockchain.paymsg.v1.QueryGetParticipantApplicationRequest'', paymsg_QueryGetParticipantApplicationRequest),
     (''blockchain.paymsg.v1.QueryGetParticipantApplicationResponse'', paymsg_QueryGetParticipantApplicationResponse),
     (''blockchain.paymsg.v1.QueryAllParticipantApplicationRequest'', paymsg_QueryAllParticipantApplicationRequest),
     (''blockchain.paymsg.v1.QueryAllParticipantApplicationResponse'', paymsg_QueryAllParticipantApplicationResponse),
     (''blockchain.paymsg.v1.QueryGetApprovedParticipantRequest'', paymsg_QueryGetApprovedParticipantRequest),
     (''blockchain.paymsg.v1.QueryGetApprovedParticipantResponse'', paymsg_QueryGetApprovedParticipantResponse),
     (''blockchain.paymsg.v1.QueryAllApprovedParticipantRequest'', paymsg_QueryAllApprovedParticipantRequest),
     (''blockchain.paymsg.v1.QueryAllApprovedParticipantResponse'', paymsg_QueryAllApprovedParticipantResponse),
     (''blockchain.paymsg.v1.QueryGetPaymentRecordRequest'', paymsg_QueryGetPaymentRecordRequest),
     (''blockchain.paymsg.v1.QueryGetPaymentRecordResponse'', paymsg_QueryGetPaymentRecordResponse),
     (''blockchain.paymsg.v1.QueryAllPaymentRecordRequest'', paymsg_QueryAllPaymentRecordRequest),
     (''blockchain.paymsg.v1.QueryAllPaymentRecordResponse'', paymsg_QueryAllPaymentRecordResponse),
     (''blockchain.paymsg.v1.MsgUpdateParams'', paymsg_MsgUpdateParams),
     (''blockchain.paymsg.v1.MsgUpdateParamsResponse'', paymsg_MsgUpdateParamsResponse),
     (''blockchain.paymsg.v1.MsgApplyParticipant'', paymsg_MsgApplyParticipant),
     (''blockchain.paymsg.v1.MsgApplyParticipantResponse'', paymsg_MsgApplyParticipantResponse),
     (''blockchain.paymsg.v1.MsgSendPayment'', paymsg_MsgSendPayment),
     (''blockchain.paymsg.v1.MsgSendPaymentResponse'', paymsg_MsgSendPaymentResponse),
     (''blockchain.paymsg.v1.MsgApproveParticipant'', paymsg_MsgApproveParticipant),
     (''blockchain.paymsg.v1.MsgApproveParticipantResponse'', paymsg_MsgApproveParticipantResponse),
     (''blockchain.paymsg.v1.MsgRegisterCustomer'', paymsg_MsgRegisterCustomer),
     (''blockchain.paymsg.v1.MsgRegisterCustomerResponse'', paymsg_MsgRegisterCustomerResponse),
     (''blockchain.paymsg.v1.MsgSetPayloadStore'', paymsg_MsgSetPayloadStore),
     (''blockchain.paymsg.v1.MsgSetPayloadStoreResponse'', paymsg_MsgSetPayloadStoreResponse)]"

lemmas paymsg_schemas =
  paymsg_ApprovedParticipant_def paymsg_Customer_def paymsg_Params_def paymsg_ParticipantApplication_def
     paymsg_PaymentRecord_def paymsg_GenesisState_def paymsg_RecipientBlock_def paymsg_PayloadEnvelope_def
     paymsg_PaymentMetadata_def paymsg_QueryParamsRequest_def paymsg_QueryParamsResponse_def
     paymsg_QueryGetParticipantApplicationRequest_def paymsg_QueryGetParticipantApplicationResponse_def
     paymsg_QueryAllParticipantApplicationRequest_def paymsg_QueryAllParticipantApplicationResponse_def
     paymsg_QueryGetApprovedParticipantRequest_def paymsg_QueryGetApprovedParticipantResponse_def
     paymsg_QueryAllApprovedParticipantRequest_def paymsg_QueryAllApprovedParticipantResponse_def
     paymsg_QueryGetPaymentRecordRequest_def paymsg_QueryGetPaymentRecordResponse_def
     paymsg_QueryAllPaymentRecordRequest_def paymsg_QueryAllPaymentRecordResponse_def paymsg_MsgUpdateParams_def
     paymsg_MsgUpdateParamsResponse_def paymsg_MsgApplyParticipant_def paymsg_MsgApplyParticipantResponse_def
     paymsg_MsgSendPayment_def paymsg_MsgSendPaymentResponse_def paymsg_MsgApproveParticipant_def
     paymsg_MsgApproveParticipantResponse_def paymsg_MsgRegisterCustomer_def paymsg_MsgRegisterCustomerResponse_def
     paymsg_MsgSetPayloadStore_def paymsg_MsgSetPayloadStoreResponse_def

lemma paymsg_good: "list_all (\<lambda>(u, fs). good_schema fs) paymsg_messages"
  by (simp add: paymsg_messages_def paymsg_schemas cosmos_schemas good_simps)

end
