(* ===== verification/StablecoinProto.thy ===== *)
theory StablecoinProto imports CosmosProto begin

text \<open>
  The messages, queries, events and state of the chain's stablecoin module, as \<open>clients/sdk/src/generated/blockchain/stablecoin/v1\<close> codes them: the
  enums, then each message as the schema its six functions follow.
\<close>

definition stablecoin_ApprovedIssuer :: schema where
  "stablecoin_ApprovedIssuer = [(1, ''denom'', One T_string), (2, ''issuer'', One T_string)]"

definition stablecoin_Params :: schema where
  "stablecoin_Params = []"

definition stablecoin_IssuerApplication :: schema where
  "stablecoin_IssuerApplication = [(1, ''denom'', One T_string), (2, ''status'', One T_string),
     (3, ''creator'', One T_string), (4, ''displayDenom'', One T_string), (5, ''exponent'', One T_uint64),
     (6, ''name'', One T_string), (7, ''symbol'', One T_string), (8, ''description'', One T_string)]"

definition stablecoin_GenesisState :: schema where
  "stablecoin_GenesisState = [(1, ''params'', Sub stablecoin_Params),
     (2, ''issuerApplicationMap'', Subs stablecoin_IssuerApplication),
     (3, ''approvedIssuerMap'', Subs stablecoin_ApprovedIssuer)]"

definition stablecoin_QueryParamsRequest :: schema where
  "stablecoin_QueryParamsRequest = []"

definition stablecoin_QueryParamsResponse :: schema where
  "stablecoin_QueryParamsResponse = [(1, ''params'', Sub stablecoin_Params)]"

definition stablecoin_QueryGetIssuerApplicationRequest :: schema where
  "stablecoin_QueryGetIssuerApplicationRequest = [(1, ''denom'', One T_string)]"

definition stablecoin_QueryGetIssuerApplicationResponse :: schema where
  "stablecoin_QueryGetIssuerApplicationResponse = [(1, ''issuerApplication'', Sub stablecoin_IssuerApplication)]"

definition stablecoin_QueryAllIssuerApplicationRequest :: schema where
  "stablecoin_QueryAllIssuerApplicationRequest = [(1, ''pagination'', Sub cosmos_PageRequest)]"

definition stablecoin_QueryAllIssuerApplicationResponse :: schema where
  "stablecoin_QueryAllIssuerApplicationResponse = [(1, ''issuerApplication'', Subs stablecoin_IssuerApplication),
     (2, ''pagination'', Sub cosmos_PageResponse)]"

definition stablecoin_QueryGetApprovedIssuerRequest :: schema where
  "stablecoin_QueryGetApprovedIssuerRequest = [(1, ''denom'', One T_string)]"

definition stablecoin_QueryGetApprovedIssuerResponse :: schema where
  "stablecoin_QueryGetApprovedIssuerResponse = [(1, ''approvedIssuer'', Sub stablecoin_ApprovedIssuer)]"

definition stablecoin_QueryAllApprovedIssuerRequest :: schema where
  "stablecoin_QueryAllApprovedIssuerRequest = [(1, ''pagination'', Sub cosmos_PageRequest)]"

definition stablecoin_QueryAllApprovedIssuerResponse :: schema where
  "stablecoin_QueryAllApprovedIssuerResponse = [(1, ''approvedIssuer'', Subs stablecoin_ApprovedIssuer),
     (2, ''pagination'', Sub cosmos_PageResponse)]"

definition stablecoin_MsgUpdateParams :: schema where
  "stablecoin_MsgUpdateParams = [(1, ''authority'', One T_string), (2, ''params'', Sub stablecoin_Params)]"

definition stablecoin_MsgUpdateParamsResponse :: schema where
  "stablecoin_MsgUpdateParamsResponse = []"

definition stablecoin_MsgRegisterCurrency :: schema where
  "stablecoin_MsgRegisterCurrency = [(1, ''creator'', One T_string), (2, ''denom'', One T_string),
     (3, ''displayDenom'', One T_string), (4, ''exponent'', One T_uint64), (5, ''name'', One T_string),
     (6, ''symbol'', One T_string), (7, ''description'', One T_string)]"

definition stablecoin_MsgRegisterCurrencyResponse :: schema where
  "stablecoin_MsgRegisterCurrencyResponse = []"

definition stablecoin_MsgMintCoin :: schema where
  "stablecoin_MsgMintCoin = [(1, ''issuer'', One T_string), (2, ''denom'', One T_string),
     (3, ''amount'', One T_string), (4, ''recipient'', One T_string)]"

definition stablecoin_MsgMintCoinResponse :: schema where
  "stablecoin_MsgMintCoinResponse = []"

definition stablecoin_MsgBurnCoin :: schema where
  "stablecoin_MsgBurnCoin = [(1, ''issuer'', One T_string), (2, ''denom'', One T_string),
     (3, ''amount'', One T_string)]"

definition stablecoin_MsgBurnCoinResponse :: schema where
  "stablecoin_MsgBurnCoinResponse = []"

definition stablecoin_MsgApproveIssuer :: schema where
  "stablecoin_MsgApproveIssuer = [(1, ''authority'', One T_string), (2, ''denom'', One T_string),
     (3, ''approve'', One T_bool)]"

definition stablecoin_MsgApproveIssuerResponse :: schema where
  "stablecoin_MsgApproveIssuerResponse = []"

text \<open>Their type names, as the chain and the registry write them.\<close>

definition stablecoin_messages :: "(string \<times> schema) list" where
  "stablecoin_messages = [(''blockchain.stablecoin.v1.ApprovedIssuer'', stablecoin_ApprovedIssuer),
     (''blockchain.stablecoin.v1.Params'', stablecoin_Params),
     (''blockchain.stablecoin.v1.IssuerApplication'', stablecoin_IssuerApplication),
     (''blockchain.stablecoin.v1.GenesisState'', stablecoin_GenesisState),
     (''blockchain.stablecoin.v1.QueryParamsRequest'', stablecoin_QueryParamsRequest),
     (''blockchain.stablecoin.v1.QueryParamsResponse'', stablecoin_QueryParamsResponse),
     (''blockchain.stablecoin.v1.QueryGetIssuerApplicationRequest'', stablecoin_QueryGetIssuerApplicationRequest),
     (''blockchain.stablecoin.v1.QueryGetIssuerApplicationResponse'', stablecoin_QueryGetIssuerApplicationResponse),
     (''blockchain.stablecoin.v1.QueryAllIssuerApplicationRequest'', stablecoin_QueryAllIssuerApplicationRequest),
     (''blockchain.stablecoin.v1.QueryAllIssuerApplicationResponse'', stablecoin_QueryAllIssuerApplicationResponse),
     (''blockchain.stablecoin.v1.QueryGetApprovedIssuerRequest'', stablecoin_QueryGetApprovedIssuerRequest),
     (''blockchain.stablecoin.v1.QueryGetApprovedIssuerResponse'', stablecoin_QueryGetApprovedIssuerResponse),
     (''blockchain.stablecoin.v1.QueryAllApprovedIssuerRequest'', stablecoin_QueryAllApprovedIssuerRequest),
     (''blockchain.stablecoin.v1.QueryAllApprovedIssuerResponse'', stablecoin_QueryAllApprovedIssuerResponse),
     (''blockchain.stablecoin.v1.MsgUpdateParams'', stablecoin_MsgUpdateParams),
     (''blockchain.stablecoin.v1.MsgUpdateParamsResponse'', stablecoin_MsgUpdateParamsResponse),
     (''blockchain.stablecoin.v1.MsgRegisterCurrency'', stablecoin_MsgRegisterCurrency),
     (''blockchain.stablecoin.v1.MsgRegisterCurrencyResponse'', stablecoin_MsgRegisterCurrencyResponse),
     (''blockchain.stablecoin.v1.MsgMintCoin'', stablecoin_MsgMintCoin),
     (''blockchain.stablecoin.v1.MsgMintCoinResponse'', stablecoin_MsgMintCoinResponse),
     (''blockchain.stablecoin.v1.MsgBurnCoin'', stablecoin_MsgBurnCoin),
     (''blockchain.stablecoin.v1.MsgBurnCoinResponse'', stablecoin_MsgBurnCoinResponse),
     (''blockchain.stablecoin.v1.MsgApproveIssuer'', stablecoin_MsgApproveIssuer),
     (''blockchain.stablecoin.v1.MsgApproveIssuerResponse'', stablecoin_MsgApproveIssuerResponse)]"

lemmas stablecoin_schemas =
  stablecoin_ApprovedIssuer_def stablecoin_Params_def stablecoin_IssuerApplication_def stablecoin_GenesisState_def
     stablecoin_QueryParamsRequest_def stablecoin_QueryParamsResponse_def
     stablecoin_QueryGetIssuerApplicationRequest_def stablecoin_QueryGetIssuerApplicationResponse_def
     stablecoin_QueryAllIssuerApplicationRequest_def stablecoin_QueryAllIssuerApplicationResponse_def
     stablecoin_QueryGetApprovedIssuerRequest_def stablecoin_QueryGetApprovedIssuerResponse_def
     stablecoin_QueryAllApprovedIssuerRequest_def stablecoin_QueryAllApprovedIssuerResponse_def
     stablecoin_MsgUpdateParams_def stablecoin_MsgUpdateParamsResponse_def stablecoin_MsgRegisterCurrency_def
     stablecoin_MsgRegisterCurrencyResponse_def stablecoin_MsgMintCoin_def stablecoin_MsgMintCoinResponse_def
     stablecoin_MsgBurnCoin_def stablecoin_MsgBurnCoinResponse_def stablecoin_MsgApproveIssuer_def
     stablecoin_MsgApproveIssuerResponse_def

lemma stablecoin_good: "list_all (\<lambda>(u, fs). good_schema fs) stablecoin_messages"
  by (simp add: stablecoin_messages_def stablecoin_schemas cosmos_schemas good_simps)

end
