(* ===== verification/TokenisationProto.thy ===== *)
theory TokenisationProto imports CosmosProto begin

text \<open>
  The messages, queries, events and state of the chain's tokenisation module, as \<open>clients/sdk/src/generated/blockchain/tokenisation/v1\<close> codes them: the
  enums, then each message as the schema its six functions follow.
\<close>

definition tokenisation_VerificationMode :: proto_scalar where
  "tokenisation_VerificationMode = T_enum [(0, ''VERIFICATION_UNSPECIFIED''), (1, ''VERIFY_VALUER''),
     (2, ''VERIFY_ATTESTORS''), (3, ''VERIFY_GOVERNANCE''), (4, ''VERIFY_SCHEDULE'')]"

definition tokenisation_Status :: proto_scalar where
  "tokenisation_Status = T_enum [(0, ''STATUS_UNSPECIFIED''), (1, ''STATUS_HELD''), (2, ''STATUS_ACTIVE''),
     (3, ''STATUS_REPORTED''), (4, ''STATUS_REALISED''), (5, ''STATUS_CLOSED''), (6, ''STATUS_DISPUTED'')]"

definition tokenisation_Params :: schema where
  "tokenisation_Params = [(1, ''minChallengeWindowSeconds'', One T_int64),
     (2, ''maxChallengeWindowSeconds'', One T_int64), (3, ''maxDisputeBondBps'', One T_uint32)]"

definition tokenisation_Collection :: schema where
  "tokenisation_Collection = [(1, ''id'', One T_string), (2, ''authority'', One T_string),
     (3, ''verification'', One tokenisation_VerificationMode), (4, ''attestationThreshold'', One T_uint32),
     (5, ''challengeWindowSeconds'', One T_int64), (6, ''disputeBondBps'', One T_uint32)]"

definition tokenisation_Asset :: schema where
  "tokenisation_Asset = [(1, ''id'', One T_uint64), (2, ''collectionId'', One T_string),
     (3, ''owner'', One T_string), (4, ''uri'', One T_string), (5, ''fractionDenom'', One T_string),
     (6, ''holderShareBps'', One T_uint32), (7, ''status'', One tokenisation_Status),
     (8, ''parcelId'', One T_uint64)]"

definition tokenisation_Vault :: schema where
  "tokenisation_Vault = [(1, ''assetId'', One T_uint64), (2, ''cumulativePerToken'', One T_string),
     (3, ''funded'', Subs cosmos_Coin), (4, ''denom'', One T_string)]"

definition tokenisation_Position :: schema where
  "tokenisation_Position = [(1, ''assetId'', One T_uint64), (2, ''holder'', One T_string),
     (3, ''lastIndex'', One T_string), (4, ''accrued'', One T_string)]"

definition tokenisation_SaleReport :: schema where
  "tokenisation_SaleReport = [(1, ''assetId'', One T_uint64), (2, ''price'', Sub cosmos_Coin),
     (3, ''reporter'', One T_string), (4, ''reportedAt'', Moment), (5, ''claimableAt'', Moment),
     (6, ''attestors'', Each T_string), (7, ''disputed'', One T_bool)]"

definition tokenisation_GenesisState :: schema where
  "tokenisation_GenesisState = [(1, ''params'', Sub tokenisation_Params),
     (2, ''collections'', Subs tokenisation_Collection), (3, ''assets'', Subs tokenisation_Asset),
     (4, ''vaults'', Subs tokenisation_Vault), (5, ''positions'', Subs tokenisation_Position),
     (6, ''saleReports'', Subs tokenisation_SaleReport), (7, ''nextAssetId'', One T_uint64)]"

definition tokenisation_QueryParamsRequest :: schema where
  "tokenisation_QueryParamsRequest = []"

definition tokenisation_QueryParamsResponse :: schema where
  "tokenisation_QueryParamsResponse = [(1, ''params'', Sub tokenisation_Params)]"

definition tokenisation_QueryCollectionsRequest :: schema where
  "tokenisation_QueryCollectionsRequest = [(1, ''pagination'', Sub cosmos_PageRequest)]"

definition tokenisation_QueryCollectionsResponse :: schema where
  "tokenisation_QueryCollectionsResponse = [(1, ''collections'', Subs tokenisation_Collection),
     (2, ''pagination'', Sub cosmos_PageResponse)]"

definition tokenisation_QueryAssetsRequest :: schema where
  "tokenisation_QueryAssetsRequest = [(1, ''collectionId'', One T_string),
     (2, ''pagination'', Sub cosmos_PageRequest)]"

definition tokenisation_QueryAssetsResponse :: schema where
  "tokenisation_QueryAssetsResponse = [(1, ''assets'', Subs tokenisation_Asset),
     (2, ''pagination'', Sub cosmos_PageResponse)]"

definition tokenisation_QueryAssetRequest :: schema where
  "tokenisation_QueryAssetRequest = [(1, ''assetId'', One T_uint64)]"

definition tokenisation_QueryAssetResponse :: schema where
  "tokenisation_QueryAssetResponse = [(1, ''asset'', Sub tokenisation_Asset),
     (2, ''vault'', Sub tokenisation_Vault), (3, ''sale'', Sub tokenisation_SaleReport)]"

definition tokenisation_QueryEntitlementRequest :: schema where
  "tokenisation_QueryEntitlementRequest = [(1, ''assetId'', One T_uint64), (2, ''holder'', One T_string)]"

definition tokenisation_QueryEntitlementResponse :: schema where
  "tokenisation_QueryEntitlementResponse = [(1, ''owed'', Sub cosmos_Coin)]"

definition tokenisation_MsgUpdateParams :: schema where
  "tokenisation_MsgUpdateParams = [(1, ''authority'', One T_string), (2, ''params'', Sub tokenisation_Params)]"

definition tokenisation_MsgUpdateParamsResponse :: schema where
  "tokenisation_MsgUpdateParamsResponse = []"

definition tokenisation_MsgCreateCollection :: schema where
  "tokenisation_MsgCreateCollection = [(1, ''authority'', One T_string),
     (2, ''collection'', Sub tokenisation_Collection)]"

definition tokenisation_MsgCreateCollectionResponse :: schema where
  "tokenisation_MsgCreateCollectionResponse = []"

definition tokenisation_MsgSetCollectionAuthority :: schema where
  "tokenisation_MsgSetCollectionAuthority = [(1, ''authority'', One T_string), (2, ''collectionId'', One T_string),
     (3, ''newAuthority'', One T_string)]"

definition tokenisation_MsgSetCollectionAuthorityResponse :: schema where
  "tokenisation_MsgSetCollectionAuthorityResponse = []"

definition tokenisation_MsgMintAsset :: schema where
  "tokenisation_MsgMintAsset = [(1, ''minter'', One T_string), (2, ''collectionId'', One T_string),
     (3, ''owner'', One T_string), (4, ''uri'', One T_string), (5, ''parcelId'', One T_uint64)]"

definition tokenisation_MsgMintAssetResponse :: schema where
  "tokenisation_MsgMintAssetResponse = [(1, ''assetId'', One T_uint64)]"

definition tokenisation_MsgFractionalise :: schema where
  "tokenisation_MsgFractionalise = [(1, ''owner'', One T_string), (2, ''assetId'', One T_uint64),
     (3, ''symbol'', One T_string), (4, ''supply'', One T_string), (5, ''holderShareBps'', One T_uint32),
     (6, ''incomeDenom'', One T_string)]"

definition tokenisation_MsgFractionaliseResponse :: schema where
  "tokenisation_MsgFractionaliseResponse = [(1, ''fractionDenom'', One T_string)]"

definition tokenisation_MsgTransferAsset :: schema where
  "tokenisation_MsgTransferAsset = [(1, ''owner'', One T_string), (2, ''assetId'', One T_uint64),
     (3, ''recipient'', One T_string)]"

definition tokenisation_MsgTransferAssetResponse :: schema where
  "tokenisation_MsgTransferAssetResponse = []"

definition tokenisation_MsgFundVault :: schema where
  "tokenisation_MsgFundVault = [(1, ''funder'', One T_string), (2, ''assetId'', One T_uint64),
     (3, ''amount'', Sub cosmos_Coin)]"

definition tokenisation_MsgFundVaultResponse :: schema where
  "tokenisation_MsgFundVaultResponse = []"

definition tokenisation_MsgReportSale :: schema where
  "tokenisation_MsgReportSale = [(1, ''reporter'', One T_string), (2, ''assetId'', One T_uint64),
     (3, ''price'', Sub cosmos_Coin), (4, ''evidenceUri'', One T_string)]"

definition tokenisation_MsgReportSaleResponse :: schema where
  "tokenisation_MsgReportSaleResponse = []"

definition tokenisation_MsgAttestSale :: schema where
  "tokenisation_MsgAttestSale = [(1, ''attestor'', One T_string), (2, ''assetId'', One T_uint64),
     (3, ''price'', Sub cosmos_Coin)]"

definition tokenisation_MsgAttestSaleResponse :: schema where
  "tokenisation_MsgAttestSaleResponse = []"

definition tokenisation_MsgDisputeSale :: schema where
  "tokenisation_MsgDisputeSale = [(1, ''challenger'', One T_string), (2, ''assetId'', One T_uint64),
     (3, ''reason'', One T_string)]"

definition tokenisation_MsgDisputeSaleResponse :: schema where
  "tokenisation_MsgDisputeSaleResponse = []"

definition tokenisation_MsgResolveDispute :: schema where
  "tokenisation_MsgResolveDispute = [(1, ''authority'', One T_string), (2, ''assetId'', One T_uint64),
     (3, ''correctedPrice'', Sub cosmos_Coin)]"

definition tokenisation_MsgResolveDisputeResponse :: schema where
  "tokenisation_MsgResolveDisputeResponse = []"

definition tokenisation_MsgClaim :: schema where
  "tokenisation_MsgClaim = [(1, ''holder'', One T_string), (2, ''assetId'', One T_uint64)]"

definition tokenisation_MsgClaimResponse :: schema where
  "tokenisation_MsgClaimResponse = [(1, ''paid'', Subs cosmos_Coin)]"

definition tokenisation_MsgRedeem :: schema where
  "tokenisation_MsgRedeem = [(1, ''holder'', One T_string), (2, ''assetId'', One T_uint64),
     (3, ''amount'', One T_string)]"

definition tokenisation_MsgRedeemResponse :: schema where
  "tokenisation_MsgRedeemResponse = [(1, ''paid'', Subs cosmos_Coin)]"

text \<open>Their type names, as the chain and the registry write them.\<close>

definition tokenisation_messages :: "(string \<times> schema) list" where
  "tokenisation_messages = [(''blockchain.tokenisation.v1.Params'', tokenisation_Params),
     (''blockchain.tokenisation.v1.Collection'', tokenisation_Collection),
     (''blockchain.tokenisation.v1.Asset'', tokenisation_Asset),
     (''blockchain.tokenisation.v1.Vault'', tokenisation_Vault),
     (''blockchain.tokenisation.v1.Position'', tokenisation_Position),
     (''blockchain.tokenisation.v1.SaleReport'', tokenisation_SaleReport),
     (''blockchain.tokenisation.v1.GenesisState'', tokenisation_GenesisState),
     (''blockchain.tokenisation.v1.QueryParamsRequest'', tokenisation_QueryParamsRequest),
     (''blockchain.tokenisation.v1.QueryParamsResponse'', tokenisation_QueryParamsResponse),
     (''blockchain.tokenisation.v1.QueryCollectionsRequest'', tokenisation_QueryCollectionsRequest),
     (''blockchain.tokenisation.v1.QueryCollectionsResponse'', tokenisation_QueryCollectionsResponse),
     (''blockchain.tokenisation.v1.QueryAssetsRequest'', tokenisation_QueryAssetsRequest),
     (''blockchain.tokenisation.v1.QueryAssetsResponse'', tokenisation_QueryAssetsResponse),
     (''blockchain.tokenisation.v1.QueryAssetRequest'', tokenisation_QueryAssetRequest),
     (''blockchain.tokenisation.v1.QueryAssetResponse'', tokenisation_QueryAssetResponse),
     (''blockchain.tokenisation.v1.QueryEntitlementRequest'', tokenisation_QueryEntitlementRequest),
     (''blockchain.tokenisation.v1.QueryEntitlementResponse'', tokenisation_QueryEntitlementResponse),
     (''blockchain.tokenisation.v1.MsgUpdateParams'', tokenisation_MsgUpdateParams),
     (''blockchain.tokenisation.v1.MsgUpdateParamsResponse'', tokenisation_MsgUpdateParamsResponse),
     (''blockchain.tokenisation.v1.MsgCreateCollection'', tokenisation_MsgCreateCollection),
     (''blockchain.tokenisation.v1.MsgCreateCollectionResponse'', tokenisation_MsgCreateCollectionResponse),
     (''blockchain.tokenisation.v1.MsgSetCollectionAuthority'', tokenisation_MsgSetCollectionAuthority),
     (''blockchain.tokenisation.v1.MsgSetCollectionAuthorityResponse'', tokenisation_MsgSetCollectionAuthorityResponse),
     (''blockchain.tokenisation.v1.MsgMintAsset'', tokenisation_MsgMintAsset),
     (''blockchain.tokenisation.v1.MsgMintAssetResponse'', tokenisation_MsgMintAssetResponse),
     (''blockchain.tokenisation.v1.MsgFractionalise'', tokenisation_MsgFractionalise),
     (''blockchain.tokenisation.v1.MsgFractionaliseResponse'', tokenisation_MsgFractionaliseResponse),
     (''blockchain.tokenisation.v1.MsgTransferAsset'', tokenisation_MsgTransferAsset),
     (''blockchain.tokenisation.v1.MsgTransferAssetResponse'', tokenisation_MsgTransferAssetResponse),
     (''blockchain.tokenisation.v1.MsgFundVault'', tokenisation_MsgFundVault),
     (''blockchain.tokenisation.v1.MsgFundVaultResponse'', tokenisation_MsgFundVaultResponse),
     (''blockchain.tokenisation.v1.MsgReportSale'', tokenisation_MsgReportSale),
     (''blockchain.tokenisation.v1.MsgReportSaleResponse'', tokenisation_MsgReportSaleResponse),
     (''blockchain.tokenisation.v1.MsgAttestSale'', tokenisation_MsgAttestSale),
     (''blockchain.tokenisation.v1.MsgAttestSaleResponse'', tokenisation_MsgAttestSaleResponse),
     (''blockchain.tokenisation.v1.MsgDisputeSale'', tokenisation_MsgDisputeSale),
     (''blockchain.tokenisation.v1.MsgDisputeSaleResponse'', tokenisation_MsgDisputeSaleResponse),
     (''blockchain.tokenisation.v1.MsgResolveDispute'', tokenisation_MsgResolveDispute),
     (''blockchain.tokenisation.v1.MsgResolveDisputeResponse'', tokenisation_MsgResolveDisputeResponse),
     (''blockchain.tokenisation.v1.MsgClaim'', tokenisation_MsgClaim),
     (''blockchain.tokenisation.v1.MsgClaimResponse'', tokenisation_MsgClaimResponse),
     (''blockchain.tokenisation.v1.MsgRedeem'', tokenisation_MsgRedeem),
     (''blockchain.tokenisation.v1.MsgRedeemResponse'', tokenisation_MsgRedeemResponse)]"

lemmas tokenisation_schemas =
  tokenisation_VerificationMode_def tokenisation_Status_def tokenisation_Params_def tokenisation_Collection_def
     tokenisation_Asset_def tokenisation_Vault_def tokenisation_Position_def tokenisation_SaleReport_def
     tokenisation_GenesisState_def tokenisation_QueryParamsRequest_def tokenisation_QueryParamsResponse_def
     tokenisation_QueryCollectionsRequest_def tokenisation_QueryCollectionsResponse_def
     tokenisation_QueryAssetsRequest_def tokenisation_QueryAssetsResponse_def tokenisation_QueryAssetRequest_def
     tokenisation_QueryAssetResponse_def tokenisation_QueryEntitlementRequest_def
     tokenisation_QueryEntitlementResponse_def tokenisation_MsgUpdateParams_def
     tokenisation_MsgUpdateParamsResponse_def tokenisation_MsgCreateCollection_def
     tokenisation_MsgCreateCollectionResponse_def tokenisation_MsgSetCollectionAuthority_def
     tokenisation_MsgSetCollectionAuthorityResponse_def tokenisation_MsgMintAsset_def
     tokenisation_MsgMintAssetResponse_def tokenisation_MsgFractionalise_def
     tokenisation_MsgFractionaliseResponse_def tokenisation_MsgTransferAsset_def
     tokenisation_MsgTransferAssetResponse_def tokenisation_MsgFundVault_def tokenisation_MsgFundVaultResponse_def
     tokenisation_MsgReportSale_def tokenisation_MsgReportSaleResponse_def tokenisation_MsgAttestSale_def
     tokenisation_MsgAttestSaleResponse_def tokenisation_MsgDisputeSale_def tokenisation_MsgDisputeSaleResponse_def
     tokenisation_MsgResolveDispute_def tokenisation_MsgResolveDisputeResponse_def tokenisation_MsgClaim_def
     tokenisation_MsgClaimResponse_def tokenisation_MsgRedeem_def tokenisation_MsgRedeemResponse_def

lemma tokenisation_good: "list_all (\<lambda>(u, fs). good_schema fs) tokenisation_messages"
  by (simp add: tokenisation_messages_def tokenisation_schemas cosmos_schemas good_simps)

end
