(* ===== verification/TreasuryProto.thy ===== *)
theory TreasuryProto imports CosmosProto begin

text \<open>
  The messages, queries, events and state of the chain's treasury module, as \<open>clients/sdk/src/generated/blockchain/treasury/v1\<close> codes them: the
  enums, then each message as the schema its six functions follow.
\<close>

definition treasury_LockType :: proto_scalar where
  "treasury_LockType = T_enum [(0, ''LOCK_TYPE_UNSPECIFIED''), (1, ''LOCK_TYPE_TIME''), (2, ''LOCK_TYPE_VESTING''),
     (3, ''LOCK_TYPE_CONDITIONAL'')]"

definition treasury_DisputeState :: proto_scalar where
  "treasury_DisputeState = T_enum [(0, ''DISPUTE_STATE_NONE''), (1, ''DISPUTE_STATE_OPEN''),
     (2, ''DISPUTE_STATE_RESOLVED'')]"

definition treasury_Role :: proto_scalar where
  "treasury_Role = T_enum [(0, ''ROLE_UNSPECIFIED''), (1, ''ROLE_ADMIN''), (2, ''ROLE_SPENDER''),
     (3, ''ROLE_PAUSER'')]"

definition treasury_Params :: schema where
  "treasury_Params = [(1, ''maxLocksPerTreasury'', One T_uint64),
     (2, ''maxRoleAssignmentsPerTreasury'', One T_uint64), (3, ''minLockSeconds'', One T_uint64),
     (4, ''maxSpendPolicyAddresses'', One T_uint64), (5, ''feeOperatingTreasuryId'', One T_uint64),
     (6, ''routeFeesToOperatingTreasury'', One T_bool)]"

definition treasury_Treasury :: schema where
  "treasury_Treasury = [(1, ''id'', One T_uint64), (2, ''name'', One T_string), (3, ''admin'', One T_string),
     (4, ''paused'', One T_bool), (5, ''createdAtHeight'', One T_uint64)]"

definition treasury_Lock :: schema where
  "treasury_Lock = [(1, ''id'', One T_uint64), (2, ''treasuryId'', One T_uint64),
     (3, ''beneficiary'', One T_string), (4, ''denom'', One T_string), (5, ''totalAmount'', One T_string),
     (6, ''releasedAmount'', One T_string), (7, ''startTime'', One T_int64), (8, ''cliffTime'', One T_int64),
     (9, ''endTime'', One T_int64), (10, ''releaseIntervals'', One T_uint64),
     (11, ''lockType'', One treasury_LockType), (12, ''revocable'', One T_bool), (13, ''active'', One T_bool),
     (14, ''createdAtHeight'', One T_uint64), (15, ''depositor'', One T_string), (16, ''moderator'', One T_string),
     (17, ''dispute'', One treasury_DisputeState), (18, ''disputeReason'', One T_string),
     (19, ''disputeOpenedBy'', One T_string)]"

definition treasury_TreasuryBalance :: schema where
  "treasury_TreasuryBalance = [(1, ''treasuryId'', One T_uint64), (2, ''denom'', One T_string),
     (3, ''total'', One T_string), (4, ''locked'', One T_string)]"

definition treasury_RoleAssignment :: schema where
  "treasury_RoleAssignment = [(1, ''treasuryId'', One T_uint64), (2, ''address'', One T_string),
     (3, ''role'', One treasury_Role)]"

definition treasury_SpendPolicy :: schema where
  "treasury_SpendPolicy = [(1, ''treasuryId'', One T_uint64), (2, ''denom'', One T_string),
     (3, ''perTransactionLimit'', One T_string), (4, ''periodLimit'', One T_string),
     (5, ''periodSeconds'', One T_uint64), (6, ''allowlist'', Each T_string), (7, ''blocklist'', Each T_string)]"

definition treasury_SpendWindow :: schema where
  "treasury_SpendWindow = [(1, ''treasuryId'', One T_uint64), (2, ''denom'', One T_string),
     (3, ''spent'', One T_string), (4, ''windowStart'', One T_int64)]"

definition treasury_GenesisState :: schema where
  "treasury_GenesisState = [(1, ''params'', Sub treasury_Params), (2, ''treasuryList'', Subs treasury_Treasury),
     (3, ''treasuryCount'', One T_uint64), (4, ''lockList'', Subs treasury_Lock), (5, ''lockCount'', One T_uint64),
     (6, ''balanceList'', Subs treasury_TreasuryBalance), (7, ''roleList'', Subs treasury_RoleAssignment),
     (8, ''spendPolicyList'', Subs treasury_SpendPolicy), (9, ''spendWindowList'', Subs treasury_SpendWindow)]"

definition treasury_QueryParamsRequest :: schema where
  "treasury_QueryParamsRequest = []"

definition treasury_QueryParamsResponse :: schema where
  "treasury_QueryParamsResponse = [(1, ''params'', Sub treasury_Params)]"

definition treasury_QueryGetTreasuryRequest :: schema where
  "treasury_QueryGetTreasuryRequest = [(1, ''id'', One T_uint64)]"

definition treasury_QueryGetTreasuryResponse :: schema where
  "treasury_QueryGetTreasuryResponse = [(1, ''treasury'', Sub treasury_Treasury)]"

definition treasury_QueryAllTreasuryRequest :: schema where
  "treasury_QueryAllTreasuryRequest = [(1, ''pagination'', Sub cosmos_PageRequest)]"

definition treasury_QueryAllTreasuryResponse :: schema where
  "treasury_QueryAllTreasuryResponse = [(1, ''treasury'', Subs treasury_Treasury),
     (2, ''pagination'', Sub cosmos_PageResponse)]"

definition treasury_DenomBalance :: schema where
  "treasury_DenomBalance = [(1, ''denom'', One T_string), (2, ''total'', One T_string),
     (3, ''locked'', One T_string), (4, ''available'', One T_string)]"

definition treasury_QueryTreasuryBalancesRequest :: schema where
  "treasury_QueryTreasuryBalancesRequest = [(1, ''treasuryId'', One T_uint64)]"

definition treasury_QueryTreasuryBalancesResponse :: schema where
  "treasury_QueryTreasuryBalancesResponse = [(1, ''balances'', Subs treasury_DenomBalance)]"

definition treasury_QueryGetLockRequest :: schema where
  "treasury_QueryGetLockRequest = [(1, ''id'', One T_uint64)]"

definition treasury_QueryGetLockResponse :: schema where
  "treasury_QueryGetLockResponse = [(1, ''lock'', Sub treasury_Lock)]"

definition treasury_QueryAllLockRequest :: schema where
  "treasury_QueryAllLockRequest = [(1, ''pagination'', Sub cosmos_PageRequest)]"

definition treasury_QueryAllLockResponse :: schema where
  "treasury_QueryAllLockResponse = [(1, ''lock'', Subs treasury_Lock),
     (2, ''pagination'', Sub cosmos_PageResponse)]"

definition treasury_QueryLocksByTreasuryRequest :: schema where
  "treasury_QueryLocksByTreasuryRequest = [(1, ''treasuryId'', One T_uint64),
     (2, ''pagination'', Sub cosmos_PageRequest)]"

definition treasury_QueryLocksByTreasuryResponse :: schema where
  "treasury_QueryLocksByTreasuryResponse = [(1, ''lock'', Subs treasury_Lock),
     (2, ''pagination'', Sub cosmos_PageResponse)]"

definition treasury_QueryLocksByBeneficiaryRequest :: schema where
  "treasury_QueryLocksByBeneficiaryRequest = [(1, ''beneficiary'', One T_string),
     (2, ''pagination'', Sub cosmos_PageRequest)]"

definition treasury_QueryLocksByBeneficiaryResponse :: schema where
  "treasury_QueryLocksByBeneficiaryResponse = [(1, ''lock'', Subs treasury_Lock),
     (2, ''pagination'', Sub cosmos_PageResponse)]"

definition treasury_QueryClaimableAmountRequest :: schema where
  "treasury_QueryClaimableAmountRequest = [(1, ''lockId'', One T_uint64)]"

definition treasury_QueryClaimableAmountResponse :: schema where
  "treasury_QueryClaimableAmountResponse = [(1, ''claimable'', One T_string), (2, ''vested'', One T_string),
     (3, ''remaining'', One T_string)]"

definition treasury_QueryListRoleRequest :: schema where
  "treasury_QueryListRoleRequest = [(1, ''treasuryId'', One T_uint64), (2, ''pagination'', Sub cosmos_PageRequest)]"

definition treasury_QueryListRoleResponse :: schema where
  "treasury_QueryListRoleResponse = [(1, ''role'', Subs treasury_RoleAssignment),
     (2, ''pagination'', Sub cosmos_PageResponse)]"

definition treasury_QueryGetSpendPolicyRequest :: schema where
  "treasury_QueryGetSpendPolicyRequest = [(1, ''treasuryId'', One T_uint64), (2, ''denom'', One T_string)]"

definition treasury_QueryGetSpendPolicyResponse :: schema where
  "treasury_QueryGetSpendPolicyResponse = [(1, ''policy'', Sub treasury_SpendPolicy)]"

definition treasury_QuerySpendCapacityRequest :: schema where
  "treasury_QuerySpendCapacityRequest = [(1, ''treasuryId'', One T_uint64), (2, ''denom'', One T_string)]"

definition treasury_QuerySpendCapacityResponse :: schema where
  "treasury_QuerySpendCapacityResponse = [(1, ''remainingThisPeriod'', One T_string),
     (2, ''available'', One T_string), (3, ''perTransactionLimit'', One T_string),
     (4, ''periodResetsAt'', One T_int64)]"

definition treasury_MsgUpdateParams :: schema where
  "treasury_MsgUpdateParams = [(1, ''authority'', One T_string), (2, ''params'', Sub treasury_Params)]"

definition treasury_MsgUpdateParamsResponse :: schema where
  "treasury_MsgUpdateParamsResponse = []"

definition treasury_MsgCreateTreasury :: schema where
  "treasury_MsgCreateTreasury = [(1, ''creator'', One T_string), (2, ''name'', One T_string),
     (3, ''admin'', One T_string)]"

definition treasury_MsgCreateTreasuryResponse :: schema where
  "treasury_MsgCreateTreasuryResponse = [(1, ''id'', One T_uint64)]"

definition treasury_MsgDeposit :: schema where
  "treasury_MsgDeposit = [(1, ''depositor'', One T_string), (2, ''treasuryId'', One T_uint64),
     (3, ''amount'', Subs cosmos_Coin)]"

definition treasury_MsgDepositResponse :: schema where
  "treasury_MsgDepositResponse = []"

definition treasury_MsgSpend :: schema where
  "treasury_MsgSpend = [(1, ''spender'', One T_string), (2, ''treasuryId'', One T_uint64),
     (3, ''recipient'', One T_string), (4, ''amount'', Subs cosmos_Coin), (5, ''memo'', One T_string),
     (6, ''amountCommitment'', One T_bytes), (7, ''amountRangeProof'', One T_bytes),
     (8, ''metadataHash'', One T_bytes)]"

definition treasury_MsgSpendResponse :: schema where
  "treasury_MsgSpendResponse = []"

definition treasury_MsgCreateLock :: schema where
  "treasury_MsgCreateLock = [(1, ''admin'', One T_string), (2, ''treasuryId'', One T_uint64),
     (3, ''beneficiary'', One T_string), (4, ''denom'', One T_string), (5, ''amount'', One T_string),
     (6, ''lockType'', One treasury_LockType), (7, ''startTime'', One T_int64), (8, ''cliffTime'', One T_int64),
     (9, ''endTime'', One T_int64), (10, ''releaseIntervals'', One T_uint64), (11, ''revocable'', One T_bool)]"

definition treasury_MsgCreateLockResponse :: schema where
  "treasury_MsgCreateLockResponse = [(1, ''id'', One T_uint64)]"

definition treasury_MsgClaimLock :: schema where
  "treasury_MsgClaimLock = [(1, ''beneficiary'', One T_string), (2, ''lockId'', One T_uint64)]"

definition treasury_MsgClaimLockResponse :: schema where
  "treasury_MsgClaimLockResponse = [(1, ''released'', One T_string)]"

definition treasury_MsgRevokeLock :: schema where
  "treasury_MsgRevokeLock = [(1, ''admin'', One T_string), (2, ''lockId'', One T_uint64)]"

definition treasury_MsgRevokeLockResponse :: schema where
  "treasury_MsgRevokeLockResponse = [(1, ''returned'', One T_string), (2, ''vestedToBeneficiary'', One T_string)]"

definition treasury_MsgAssignRole :: schema where
  "treasury_MsgAssignRole = [(1, ''admin'', One T_string), (2, ''treasuryId'', One T_uint64),
     (3, ''address'', One T_string), (4, ''role'', One treasury_Role)]"

definition treasury_MsgAssignRoleResponse :: schema where
  "treasury_MsgAssignRoleResponse = []"

definition treasury_MsgRevokeRole :: schema where
  "treasury_MsgRevokeRole = [(1, ''admin'', One T_string), (2, ''treasuryId'', One T_uint64),
     (3, ''address'', One T_string)]"

definition treasury_MsgRevokeRoleResponse :: schema where
  "treasury_MsgRevokeRoleResponse = []"

definition treasury_MsgSetSpendPolicy :: schema where
  "treasury_MsgSetSpendPolicy = [(1, ''admin'', One T_string), (2, ''policy'', Sub treasury_SpendPolicy)]"

definition treasury_MsgSetSpendPolicyResponse :: schema where
  "treasury_MsgSetSpendPolicyResponse = []"

definition treasury_MsgSetPaused :: schema where
  "treasury_MsgSetPaused = [(1, ''sender'', One T_string), (2, ''treasuryId'', One T_uint64),
     (3, ''paused'', One T_bool)]"

definition treasury_MsgSetPausedResponse :: schema where
  "treasury_MsgSetPausedResponse = []"

definition treasury_MsgSetAdmin :: schema where
  "treasury_MsgSetAdmin = [(1, ''admin'', One T_string), (2, ''treasuryId'', One T_uint64),
     (3, ''newAdmin'', One T_string)]"

definition treasury_MsgSetAdminResponse :: schema where
  "treasury_MsgSetAdminResponse = []"

definition treasury_MsgOpenEscrow :: schema where
  "treasury_MsgOpenEscrow = [(1, ''depositor'', One T_string), (2, ''beneficiary'', One T_string),
     (3, ''moderator'', One T_string), (4, ''amount'', Sub cosmos_Coin), (5, ''memo'', One T_string),
     (6, ''amountCommitment'', One T_bytes), (7, ''amountRangeProof'', One T_bytes),
     (8, ''metadataHash'', One T_bytes)]"

definition treasury_MsgOpenEscrowResponse :: schema where
  "treasury_MsgOpenEscrowResponse = [(1, ''lockId'', One T_uint64)]"

definition treasury_MsgReleaseEscrow :: schema where
  "treasury_MsgReleaseEscrow = [(1, ''depositor'', One T_string), (2, ''lockId'', One T_uint64)]"

definition treasury_MsgReleaseEscrowResponse :: schema where
  "treasury_MsgReleaseEscrowResponse = []"

definition treasury_MsgDisputeEscrow :: schema where
  "treasury_MsgDisputeEscrow = [(1, ''party'', One T_string), (2, ''lockId'', One T_uint64),
     (3, ''reason'', One T_string)]"

definition treasury_MsgDisputeEscrowResponse :: schema where
  "treasury_MsgDisputeEscrowResponse = []"

definition treasury_MsgResolveEscrow :: schema where
  "treasury_MsgResolveEscrow = [(1, ''moderator'', One T_string), (2, ''lockId'', One T_uint64),
     (3, ''payBeneficiary'', One T_bool)]"

definition treasury_MsgResolveEscrowResponse :: schema where
  "treasury_MsgResolveEscrowResponse = []"

text \<open>Their type names, as the chain and the registry write them.\<close>

definition treasury_messages :: "(string \<times> schema) list" where
  "treasury_messages = [(''blockchain.treasury.v1.Params'', treasury_Params),
     (''blockchain.treasury.v1.Treasury'', treasury_Treasury), (''blockchain.treasury.v1.Lock'', treasury_Lock),
     (''blockchain.treasury.v1.TreasuryBalance'', treasury_TreasuryBalance),
     (''blockchain.treasury.v1.RoleAssignment'', treasury_RoleAssignment),
     (''blockchain.treasury.v1.SpendPolicy'', treasury_SpendPolicy),
     (''blockchain.treasury.v1.SpendWindow'', treasury_SpendWindow),
     (''blockchain.treasury.v1.GenesisState'', treasury_GenesisState),
     (''blockchain.treasury.v1.QueryParamsRequest'', treasury_QueryParamsRequest),
     (''blockchain.treasury.v1.QueryParamsResponse'', treasury_QueryParamsResponse),
     (''blockchain.treasury.v1.QueryGetTreasuryRequest'', treasury_QueryGetTreasuryRequest),
     (''blockchain.treasury.v1.QueryGetTreasuryResponse'', treasury_QueryGetTreasuryResponse),
     (''blockchain.treasury.v1.QueryAllTreasuryRequest'', treasury_QueryAllTreasuryRequest),
     (''blockchain.treasury.v1.QueryAllTreasuryResponse'', treasury_QueryAllTreasuryResponse),
     (''blockchain.treasury.v1.DenomBalance'', treasury_DenomBalance),
     (''blockchain.treasury.v1.QueryTreasuryBalancesRequest'', treasury_QueryTreasuryBalancesRequest),
     (''blockchain.treasury.v1.QueryTreasuryBalancesResponse'', treasury_QueryTreasuryBalancesResponse),
     (''blockchain.treasury.v1.QueryGetLockRequest'', treasury_QueryGetLockRequest),
     (''blockchain.treasury.v1.QueryGetLockResponse'', treasury_QueryGetLockResponse),
     (''blockchain.treasury.v1.QueryAllLockRequest'', treasury_QueryAllLockRequest),
     (''blockchain.treasury.v1.QueryAllLockResponse'', treasury_QueryAllLockResponse),
     (''blockchain.treasury.v1.QueryLocksByTreasuryRequest'', treasury_QueryLocksByTreasuryRequest),
     (''blockchain.treasury.v1.QueryLocksByTreasuryResponse'', treasury_QueryLocksByTreasuryResponse),
     (''blockchain.treasury.v1.QueryLocksByBeneficiaryRequest'', treasury_QueryLocksByBeneficiaryRequest),
     (''blockchain.treasury.v1.QueryLocksByBeneficiaryResponse'', treasury_QueryLocksByBeneficiaryResponse),
     (''blockchain.treasury.v1.QueryClaimableAmountRequest'', treasury_QueryClaimableAmountRequest),
     (''blockchain.treasury.v1.QueryClaimableAmountResponse'', treasury_QueryClaimableAmountResponse),
     (''blockchain.treasury.v1.QueryListRoleRequest'', treasury_QueryListRoleRequest),
     (''blockchain.treasury.v1.QueryListRoleResponse'', treasury_QueryListRoleResponse),
     (''blockchain.treasury.v1.QueryGetSpendPolicyRequest'', treasury_QueryGetSpendPolicyRequest),
     (''blockchain.treasury.v1.QueryGetSpendPolicyResponse'', treasury_QueryGetSpendPolicyResponse),
     (''blockchain.treasury.v1.QuerySpendCapacityRequest'', treasury_QuerySpendCapacityRequest),
     (''blockchain.treasury.v1.QuerySpendCapacityResponse'', treasury_QuerySpendCapacityResponse),
     (''blockchain.treasury.v1.MsgUpdateParams'', treasury_MsgUpdateParams),
     (''blockchain.treasury.v1.MsgUpdateParamsResponse'', treasury_MsgUpdateParamsResponse),
     (''blockchain.treasury.v1.MsgCreateTreasury'', treasury_MsgCreateTreasury),
     (''blockchain.treasury.v1.MsgCreateTreasuryResponse'', treasury_MsgCreateTreasuryResponse),
     (''blockchain.treasury.v1.MsgDeposit'', treasury_MsgDeposit),
     (''blockchain.treasury.v1.MsgDepositResponse'', treasury_MsgDepositResponse),
     (''blockchain.treasury.v1.MsgSpend'', treasury_MsgSpend),
     (''blockchain.treasury.v1.MsgSpendResponse'', treasury_MsgSpendResponse),
     (''blockchain.treasury.v1.MsgCreateLock'', treasury_MsgCreateLock),
     (''blockchain.treasury.v1.MsgCreateLockResponse'', treasury_MsgCreateLockResponse),
     (''blockchain.treasury.v1.MsgClaimLock'', treasury_MsgClaimLock),
     (''blockchain.treasury.v1.MsgClaimLockResponse'', treasury_MsgClaimLockResponse),
     (''blockchain.treasury.v1.MsgRevokeLock'', treasury_MsgRevokeLock),
     (''blockchain.treasury.v1.MsgRevokeLockResponse'', treasury_MsgRevokeLockResponse),
     (''blockchain.treasury.v1.MsgAssignRole'', treasury_MsgAssignRole),
     (''blockchain.treasury.v1.MsgAssignRoleResponse'', treasury_MsgAssignRoleResponse),
     (''blockchain.treasury.v1.MsgRevokeRole'', treasury_MsgRevokeRole),
     (''blockchain.treasury.v1.MsgRevokeRoleResponse'', treasury_MsgRevokeRoleResponse),
     (''blockchain.treasury.v1.MsgSetSpendPolicy'', treasury_MsgSetSpendPolicy),
     (''blockchain.treasury.v1.MsgSetSpendPolicyResponse'', treasury_MsgSetSpendPolicyResponse),
     (''blockchain.treasury.v1.MsgSetPaused'', treasury_MsgSetPaused),
     (''blockchain.treasury.v1.MsgSetPausedResponse'', treasury_MsgSetPausedResponse),
     (''blockchain.treasury.v1.MsgSetAdmin'', treasury_MsgSetAdmin),
     (''blockchain.treasury.v1.MsgSetAdminResponse'', treasury_MsgSetAdminResponse),
     (''blockchain.treasury.v1.MsgOpenEscrow'', treasury_MsgOpenEscrow),
     (''blockchain.treasury.v1.MsgOpenEscrowResponse'', treasury_MsgOpenEscrowResponse),
     (''blockchain.treasury.v1.MsgReleaseEscrow'', treasury_MsgReleaseEscrow),
     (''blockchain.treasury.v1.MsgReleaseEscrowResponse'', treasury_MsgReleaseEscrowResponse),
     (''blockchain.treasury.v1.MsgDisputeEscrow'', treasury_MsgDisputeEscrow),
     (''blockchain.treasury.v1.MsgDisputeEscrowResponse'', treasury_MsgDisputeEscrowResponse),
     (''blockchain.treasury.v1.MsgResolveEscrow'', treasury_MsgResolveEscrow),
     (''blockchain.treasury.v1.MsgResolveEscrowResponse'', treasury_MsgResolveEscrowResponse)]"

lemmas treasury_schemas =
  treasury_LockType_def treasury_DisputeState_def treasury_Role_def treasury_Params_def treasury_Treasury_def
     treasury_Lock_def treasury_TreasuryBalance_def treasury_RoleAssignment_def treasury_SpendPolicy_def
     treasury_SpendWindow_def treasury_GenesisState_def treasury_QueryParamsRequest_def
     treasury_QueryParamsResponse_def treasury_QueryGetTreasuryRequest_def treasury_QueryGetTreasuryResponse_def
     treasury_QueryAllTreasuryRequest_def treasury_QueryAllTreasuryResponse_def treasury_DenomBalance_def
     treasury_QueryTreasuryBalancesRequest_def treasury_QueryTreasuryBalancesResponse_def
     treasury_QueryGetLockRequest_def treasury_QueryGetLockResponse_def treasury_QueryAllLockRequest_def
     treasury_QueryAllLockResponse_def treasury_QueryLocksByTreasuryRequest_def
     treasury_QueryLocksByTreasuryResponse_def treasury_QueryLocksByBeneficiaryRequest_def
     treasury_QueryLocksByBeneficiaryResponse_def treasury_QueryClaimableAmountRequest_def
     treasury_QueryClaimableAmountResponse_def treasury_QueryListRoleRequest_def treasury_QueryListRoleResponse_def
     treasury_QueryGetSpendPolicyRequest_def treasury_QueryGetSpendPolicyResponse_def
     treasury_QuerySpendCapacityRequest_def treasury_QuerySpendCapacityResponse_def treasury_MsgUpdateParams_def
     treasury_MsgUpdateParamsResponse_def treasury_MsgCreateTreasury_def treasury_MsgCreateTreasuryResponse_def
     treasury_MsgDeposit_def treasury_MsgDepositResponse_def treasury_MsgSpend_def treasury_MsgSpendResponse_def
     treasury_MsgCreateLock_def treasury_MsgCreateLockResponse_def treasury_MsgClaimLock_def
     treasury_MsgClaimLockResponse_def treasury_MsgRevokeLock_def treasury_MsgRevokeLockResponse_def
     treasury_MsgAssignRole_def treasury_MsgAssignRoleResponse_def treasury_MsgRevokeRole_def
     treasury_MsgRevokeRoleResponse_def treasury_MsgSetSpendPolicy_def treasury_MsgSetSpendPolicyResponse_def
     treasury_MsgSetPaused_def treasury_MsgSetPausedResponse_def treasury_MsgSetAdmin_def
     treasury_MsgSetAdminResponse_def treasury_MsgOpenEscrow_def treasury_MsgOpenEscrowResponse_def
     treasury_MsgReleaseEscrow_def treasury_MsgReleaseEscrowResponse_def treasury_MsgDisputeEscrow_def
     treasury_MsgDisputeEscrowResponse_def treasury_MsgResolveEscrow_def treasury_MsgResolveEscrowResponse_def

lemma treasury_good: "list_all (\<lambda>(u, fs). good_schema fs) treasury_messages"
  by (simp add: treasury_messages_def treasury_schemas cosmos_schemas good_simps)

end
