(* ===== verification/ValidatorgovProto.thy ===== *)
theory ValidatorgovProto imports CosmosProto begin

text \<open>
  The messages, queries, events and state of the chain's validatorgov module, as \<open>clients/sdk/src/generated/blockchain/validatorgov/v1\<close> codes them: the
  enums, then each message as the schema its six functions follow.
\<close>

definition validatorgov_ConcentrationCap :: proto_scalar where
  "validatorgov_ConcentrationCap = T_enum [(0, ''CONCENTRATION_CAP_UNSPECIFIED''),
     (1, ''CONCENTRATION_CAP_ENTITY''), (2, ''CONCENTRATION_CAP_BENEFICIAL_OWNER''),
     (3, ''CONCENTRATION_CAP_JURISDICTION'')]"

definition validatorgov_JurisdictionAgreement :: proto_scalar where
  "validatorgov_JurisdictionAgreement = T_enum [(0, ''JURISDICTION_AGREEMENT_UNSPECIFIED''),
     (1, ''JURISDICTION_AGREEMENT_AGREE''), (2, ''JURISDICTION_AGREEMENT_DISAGREE''),
     (3, ''JURISDICTION_AGREEMENT_UNRECORDED'')]"

definition validatorgov_RotationKind :: proto_scalar where
  "validatorgov_RotationKind = T_enum [(0, ''ROTATION_KIND_UNSPECIFIED''), (1, ''ROTATION_KIND_PLANNED''),
     (2, ''ROTATION_KIND_RECOVERY'')]"

definition validatorgov_RotationStatus :: proto_scalar where
  "validatorgov_RotationStatus = T_enum [(0, ''ROTATION_STATUS_UNSPECIFIED''), (1, ''ROTATION_STATUS_PENDING''),
     (2, ''ROTATION_STATUS_COMPLETED''), (3, ''ROTATION_STATUS_CANCELLED''), (4, ''ROTATION_STATUS_VETOED''),
     (5, ''ROTATION_STATUS_REJECTED'')]"

definition validatorgov_Declaration :: schema where
  "validatorgov_Declaration = [(1, ''legalEntityId'', One T_string), (2, ''beneficialOwnerId'', One T_string),
     (3, ''jurisdiction'', One T_string), (4, ''attestedAtHeight'', One T_int64)]"

definition validatorgov_ApprovedValidator :: schema where
  "validatorgov_ApprovedValidator = [(1, ''candidate'', One T_string), (2, ''approved'', One T_string),
     (3, ''declaration'', Sub validatorgov_Declaration)]"

definition validatorgov_Demotion :: schema where
  "validatorgov_Demotion = [(1, ''operator'', One T_string), (2, ''cap'', One validatorgov_ConcentrationCap),
     (3, ''group'', One T_string), (4, ''groupPowerBps'', One T_uint64), (5, ''capBps'', One T_uint64),
     (6, ''demotedAtHeight'', One T_int64), (7, ''jailedValidator'', One T_bool)]"

definition validatorgov_ConcentrationGroup :: schema where
  "validatorgov_ConcentrationGroup = [(1, ''cap'', One validatorgov_ConcentrationCap), (2, ''group'', One T_string),
     (3, ''power'', One T_int64), (4, ''powerBps'', One T_uint64), (5, ''capBps'', One T_uint64),
     (6, ''over'', One T_bool)]"

definition validatorgov_EventRotationProposed :: schema where
  "validatorgov_EventRotationProposed = [(1, ''rotationId'', One T_uint64), (2, ''currentOperator'', One T_string),
     (3, ''newOperator'', One T_string), (4, ''proposer'', One T_string),
     (5, ''kind'', One validatorgov_RotationKind), (6, ''reason'', One T_string),
     (7, ''completesAtHeight'', One T_int64)]"

definition validatorgov_EventRecoveryApproved :: schema where
  "validatorgov_EventRecoveryApproved = [(1, ''rotationId'', One T_uint64), (2, ''currentOperator'', One T_string),
     (3, ''newOperator'', One T_string), (4, ''completesAtHeight'', One T_int64),
     (5, ''validatorPaused'', One T_bool)]"

definition validatorgov_EventRotationResolved :: schema where
  "validatorgov_EventRotationResolved = [(1, ''rotationId'', One T_uint64), (2, ''currentOperator'', One T_string),
     (3, ''newOperator'', One T_string), (4, ''kind'', One validatorgov_RotationKind),
     (5, ''status'', One validatorgov_RotationStatus)]"

definition validatorgov_EventValidatorDemoted :: schema where
  "validatorgov_EventValidatorDemoted = [(1, ''operator'', One T_string),
     (2, ''cap'', One validatorgov_ConcentrationCap), (3, ''group'', One T_string),
     (4, ''groupPowerBps'', One T_uint64), (5, ''capBps'', One T_uint64), (6, ''jailedValidator'', One T_bool)]"

definition validatorgov_EventValidatorRestored :: schema where
  "validatorgov_EventValidatorRestored = [(1, ''operator'', One T_string),
     (2, ''cap'', One validatorgov_ConcentrationCap), (3, ''group'', One T_string),
     (4, ''unjailedValidator'', One T_bool)]"

definition validatorgov_EventConcentrationUncorrected :: schema where
  "validatorgov_EventConcentrationUncorrected = [(1, ''cap'', One validatorgov_ConcentrationCap),
     (2, ''group'', One T_string), (3, ''groupPowerBps'', One T_uint64), (4, ''capBps'', One T_uint64),
     (5, ''activeValidators'', One T_uint32), (6, ''minActiveValidators'', One T_uint32)]"

definition validatorgov_EventDeclarationStale :: schema where
  "validatorgov_EventDeclarationStale = [(1, ''operator'', One T_string), (2, ''attestedAtHeight'', One T_int64),
     (3, ''staleSinceHeight'', One T_int64)]"

definition validatorgov_Params :: schema where
  "validatorgov_Params = [(1, ''plannedRotationDelayBlocks'', One T_uint64),
     (2, ''recoveryChallengeWindowBlocks'', One T_uint64), (3, ''attestationIntervalBlocks'', One T_uint64),
     (4, ''seatBondAmount'', One T_string)]"

definition validatorgov_ValidatorApplication :: schema where
  "validatorgov_ValidatorApplication = [(1, ''candidate'', One T_string), (2, ''status'', One T_string),
     (3, ''declaration'', Sub validatorgov_Declaration)]"

definition validatorgov_OperatorRotation :: schema where
  "validatorgov_OperatorRotation = [(1, ''id'', One T_uint64), (2, ''currentOperator'', One T_string),
     (3, ''newOperator'', One T_string), (4, ''kind'', One validatorgov_RotationKind),
     (5, ''status'', One validatorgov_RotationStatus), (6, ''proposer'', One T_string),
     (7, ''reason'', One T_string), (8, ''approved'', One T_bool), (9, ''openedAtHeight'', One T_int64),
     (10, ''completesAtHeight'', One T_int64), (11, ''resolvedAtHeight'', One T_int64),
     (12, ''pausedValidator'', One T_bool)]"

definition validatorgov_GenesisState :: schema where
  "validatorgov_GenesisState = [(1, ''params'', Sub validatorgov_Params),
     (2, ''validatorApplicationMap'', Subs validatorgov_ValidatorApplication),
     (3, ''approvedValidatorMap'', Subs validatorgov_ApprovedValidator),
     (4, ''operatorRotations'', Subs validatorgov_OperatorRotation), (5, ''rotationCount'', One T_uint64),
     (6, ''demotions'', Subs validatorgov_Demotion)]"

definition validatorgov_QueryParamsRequest :: schema where
  "validatorgov_QueryParamsRequest = []"

definition validatorgov_QueryParamsResponse :: schema where
  "validatorgov_QueryParamsResponse = [(1, ''params'', Sub validatorgov_Params)]"

definition validatorgov_QueryGetValidatorApplicationRequest :: schema where
  "validatorgov_QueryGetValidatorApplicationRequest = [(1, ''candidate'', One T_string)]"

definition validatorgov_QueryGetValidatorApplicationResponse :: schema where
  "validatorgov_QueryGetValidatorApplicationResponse =
     [(1, ''validatorApplication'', Sub validatorgov_ValidatorApplication)]"

definition validatorgov_QueryAllValidatorApplicationRequest :: schema where
  "validatorgov_QueryAllValidatorApplicationRequest = [(1, ''pagination'', Sub cosmos_PageRequest)]"

definition validatorgov_QueryAllValidatorApplicationResponse :: schema where
  "validatorgov_QueryAllValidatorApplicationResponse =
     [(1, ''validatorApplication'', Subs validatorgov_ValidatorApplication),
     (2, ''pagination'', Sub cosmos_PageResponse)]"

definition validatorgov_QueryGetApprovedValidatorRequest :: schema where
  "validatorgov_QueryGetApprovedValidatorRequest = [(1, ''candidate'', One T_string)]"

definition validatorgov_QueryGetApprovedValidatorResponse :: schema where
  "validatorgov_QueryGetApprovedValidatorResponse =
     [(1, ''approvedValidator'', Sub validatorgov_ApprovedValidator)]"

definition validatorgov_QueryAllApprovedValidatorRequest :: schema where
  "validatorgov_QueryAllApprovedValidatorRequest = [(1, ''pagination'', Sub cosmos_PageRequest)]"

definition validatorgov_QueryAllApprovedValidatorResponse :: schema where
  "validatorgov_QueryAllApprovedValidatorResponse =
     [(1, ''approvedValidator'', Subs validatorgov_ApprovedValidator),
     (2, ''pagination'', Sub cosmos_PageResponse)]"

definition validatorgov_QueryGetOperatorRotationRequest :: schema where
  "validatorgov_QueryGetOperatorRotationRequest = [(1, ''id'', One T_uint64)]"

definition validatorgov_QueryGetOperatorRotationResponse :: schema where
  "validatorgov_QueryGetOperatorRotationResponse = [(1, ''operatorRotation'', Sub validatorgov_OperatorRotation)]"

definition validatorgov_QueryAllOperatorRotationRequest :: schema where
  "validatorgov_QueryAllOperatorRotationRequest = [(1, ''pagination'', Sub cosmos_PageRequest)]"

definition validatorgov_QueryAllOperatorRotationResponse :: schema where
  "validatorgov_QueryAllOperatorRotationResponse = [(1, ''operatorRotation'', Subs validatorgov_OperatorRotation),
     (2, ''pagination'', Sub cosmos_PageResponse)]"

definition validatorgov_QueryPendingOperatorRotationRequest :: schema where
  "validatorgov_QueryPendingOperatorRotationRequest = [(1, ''currentOperator'', One T_string)]"

definition validatorgov_QueryPendingOperatorRotationResponse :: schema where
  "validatorgov_QueryPendingOperatorRotationResponse = [(1, ''found'', One T_bool),
     (2, ''operatorRotation'', Sub validatorgov_OperatorRotation)]"

definition validatorgov_QueryConcentrationRequest :: schema where
  "validatorgov_QueryConcentrationRequest = []"

definition validatorgov_QueryConcentrationResponse :: schema where
  "validatorgov_QueryConcentrationResponse = [(1, ''groups'', Subs validatorgov_ConcentrationGroup),
     (2, ''totalPower'', One T_int64), (3, ''activeValidators'', One T_uint32),
     (4, ''minActiveValidators'', One T_uint32)]"

definition validatorgov_QueryAllDemotionRequest :: schema where
  "validatorgov_QueryAllDemotionRequest = [(1, ''pagination'', Sub cosmos_PageRequest)]"

definition validatorgov_QueryAllDemotionResponse :: schema where
  "validatorgov_QueryAllDemotionResponse = [(1, ''demotion'', Subs validatorgov_Demotion),
     (2, ''pagination'', Sub cosmos_PageResponse)]"

definition validatorgov_JurisdictionReconciliation :: schema where
  "validatorgov_JurisdictionReconciliation = [(1, ''candidate'', One T_string),
     (2, ''declaredJurisdiction'', One T_string), (3, ''recordedJurisdiction'', One T_string),
     (4, ''recordedBy'', One T_string), (5, ''recordedAtHeight'', One T_int64),
     (6, ''agreement'', One validatorgov_JurisdictionAgreement)]"

definition validatorgov_QueryJurisdictionReconciliationRequest :: schema where
  "validatorgov_QueryJurisdictionReconciliationRequest = []"

definition validatorgov_QueryJurisdictionReconciliationResponse :: schema where
  "validatorgov_QueryJurisdictionReconciliationResponse =
     [(1, ''records'', Subs validatorgov_JurisdictionReconciliation), (2, ''agreeCount'', One T_uint32),
     (3, ''disagreeCount'', One T_uint32), (4, ''unrecordedCount'', One T_uint32)]"

definition validatorgov_MsgUpdateParams :: schema where
  "validatorgov_MsgUpdateParams = [(1, ''authority'', One T_string), (2, ''params'', Sub validatorgov_Params)]"

definition validatorgov_MsgUpdateParamsResponse :: schema where
  "validatorgov_MsgUpdateParamsResponse = []"

definition validatorgov_MsgApplyValidator :: schema where
  "validatorgov_MsgApplyValidator = [(1, ''creator'', One T_string), (2, ''moniker'', One T_string),
     (3, ''description'', One T_string), (4, ''legalEntityId'', One T_string),
     (5, ''beneficialOwnerId'', One T_string), (6, ''jurisdiction'', One T_string)]"

definition validatorgov_MsgApplyValidatorResponse :: schema where
  "validatorgov_MsgApplyValidatorResponse = []"

definition validatorgov_MsgApproveValidator :: schema where
  "validatorgov_MsgApproveValidator = [(1, ''authority'', One T_string), (2, ''candidate'', One T_string),
     (3, ''approve'', One T_bool)]"

definition validatorgov_MsgApproveValidatorResponse :: schema where
  "validatorgov_MsgApproveValidatorResponse = []"

definition validatorgov_MsgRotateOperator :: schema where
  "validatorgov_MsgRotateOperator = [(1, ''creator'', One T_string), (2, ''newOperator'', One T_string)]"

definition validatorgov_MsgRotateOperatorResponse :: schema where
  "validatorgov_MsgRotateOperatorResponse = [(1, ''rotationId'', One T_uint64)]"

definition validatorgov_MsgProposeOperatorRecovery :: schema where
  "validatorgov_MsgProposeOperatorRecovery = [(1, ''creator'', One T_string),
     (2, ''currentOperator'', One T_string), (3, ''newOperator'', One T_string), (4, ''reason'', One T_string)]"

definition validatorgov_MsgProposeOperatorRecoveryResponse :: schema where
  "validatorgov_MsgProposeOperatorRecoveryResponse = [(1, ''rotationId'', One T_uint64)]"

definition validatorgov_MsgApproveOperatorRecovery :: schema where
  "validatorgov_MsgApproveOperatorRecovery = [(1, ''authority'', One T_string), (2, ''rotationId'', One T_uint64),
     (3, ''approve'', One T_bool)]"

definition validatorgov_MsgApproveOperatorRecoveryResponse :: schema where
  "validatorgov_MsgApproveOperatorRecoveryResponse = []"

definition validatorgov_MsgCancelOperatorRotation :: schema where
  "validatorgov_MsgCancelOperatorRotation = [(1, ''creator'', One T_string), (2, ''rotationId'', One T_uint64)]"

definition validatorgov_MsgCancelOperatorRotationResponse :: schema where
  "validatorgov_MsgCancelOperatorRotationResponse = []"

definition validatorgov_MsgAttestOwnership :: schema where
  "validatorgov_MsgAttestOwnership = [(1, ''creator'', One T_string), (2, ''legalEntityId'', One T_string),
     (3, ''beneficialOwnerId'', One T_string), (4, ''jurisdiction'', One T_string)]"

definition validatorgov_MsgAttestOwnershipResponse :: schema where
  "validatorgov_MsgAttestOwnershipResponse = []"

definition validatorgov_MsgSetValidatorPower :: schema where
  "validatorgov_MsgSetValidatorPower = [(1, ''authority'', One T_string), (2, ''validator'', One T_string),
     (3, ''seats'', One T_uint64)]"

definition validatorgov_MsgSetValidatorPowerResponse :: schema where
  "validatorgov_MsgSetValidatorPowerResponse = [(1, ''seats'', One T_uint64)]"

text \<open>Their type names, as the chain and the registry write them.\<close>

definition validatorgov_messages :: "(string \<times> schema) list" where
  "validatorgov_messages = [(''blockchain.validatorgov.v1.Declaration'', validatorgov_Declaration),
     (''blockchain.validatorgov.v1.ApprovedValidator'', validatorgov_ApprovedValidator),
     (''blockchain.validatorgov.v1.Demotion'', validatorgov_Demotion),
     (''blockchain.validatorgov.v1.ConcentrationGroup'', validatorgov_ConcentrationGroup),
     (''blockchain.validatorgov.v1.EventRotationProposed'', validatorgov_EventRotationProposed),
     (''blockchain.validatorgov.v1.EventRecoveryApproved'', validatorgov_EventRecoveryApproved),
     (''blockchain.validatorgov.v1.EventRotationResolved'', validatorgov_EventRotationResolved),
     (''blockchain.validatorgov.v1.EventValidatorDemoted'', validatorgov_EventValidatorDemoted),
     (''blockchain.validatorgov.v1.EventValidatorRestored'', validatorgov_EventValidatorRestored),
     (''blockchain.validatorgov.v1.EventConcentrationUncorrected'', validatorgov_EventConcentrationUncorrected),
     (''blockchain.validatorgov.v1.EventDeclarationStale'', validatorgov_EventDeclarationStale),
     (''blockchain.validatorgov.v1.Params'', validatorgov_Params),
     (''blockchain.validatorgov.v1.ValidatorApplication'', validatorgov_ValidatorApplication),
     (''blockchain.validatorgov.v1.OperatorRotation'', validatorgov_OperatorRotation),
     (''blockchain.validatorgov.v1.GenesisState'', validatorgov_GenesisState),
     (''blockchain.validatorgov.v1.QueryParamsRequest'', validatorgov_QueryParamsRequest),
     (''blockchain.validatorgov.v1.QueryParamsResponse'', validatorgov_QueryParamsResponse),
     (''blockchain.validatorgov.v1.QueryGetValidatorApplicationRequest'', validatorgov_QueryGetValidatorApplicationRequest),
     (''blockchain.validatorgov.v1.QueryGetValidatorApplicationResponse'', validatorgov_QueryGetValidatorApplicationResponse),
     (''blockchain.validatorgov.v1.QueryAllValidatorApplicationRequest'', validatorgov_QueryAllValidatorApplicationRequest),
     (''blockchain.validatorgov.v1.QueryAllValidatorApplicationResponse'', validatorgov_QueryAllValidatorApplicationResponse),
     (''blockchain.validatorgov.v1.QueryGetApprovedValidatorRequest'', validatorgov_QueryGetApprovedValidatorRequest),
     (''blockchain.validatorgov.v1.QueryGetApprovedValidatorResponse'', validatorgov_QueryGetApprovedValidatorResponse),
     (''blockchain.validatorgov.v1.QueryAllApprovedValidatorRequest'', validatorgov_QueryAllApprovedValidatorRequest),
     (''blockchain.validatorgov.v1.QueryAllApprovedValidatorResponse'', validatorgov_QueryAllApprovedValidatorResponse),
     (''blockchain.validatorgov.v1.QueryGetOperatorRotationRequest'', validatorgov_QueryGetOperatorRotationRequest),
     (''blockchain.validatorgov.v1.QueryGetOperatorRotationResponse'', validatorgov_QueryGetOperatorRotationResponse),
     (''blockchain.validatorgov.v1.QueryAllOperatorRotationRequest'', validatorgov_QueryAllOperatorRotationRequest),
     (''blockchain.validatorgov.v1.QueryAllOperatorRotationResponse'', validatorgov_QueryAllOperatorRotationResponse),
     (''blockchain.validatorgov.v1.QueryPendingOperatorRotationRequest'', validatorgov_QueryPendingOperatorRotationRequest),
     (''blockchain.validatorgov.v1.QueryPendingOperatorRotationResponse'', validatorgov_QueryPendingOperatorRotationResponse),
     (''blockchain.validatorgov.v1.QueryConcentrationRequest'', validatorgov_QueryConcentrationRequest),
     (''blockchain.validatorgov.v1.QueryConcentrationResponse'', validatorgov_QueryConcentrationResponse),
     (''blockchain.validatorgov.v1.QueryAllDemotionRequest'', validatorgov_QueryAllDemotionRequest),
     (''blockchain.validatorgov.v1.QueryAllDemotionResponse'', validatorgov_QueryAllDemotionResponse),
     (''blockchain.validatorgov.v1.JurisdictionReconciliation'', validatorgov_JurisdictionReconciliation),
     (''blockchain.validatorgov.v1.QueryJurisdictionReconciliationRequest'', validatorgov_QueryJurisdictionReconciliationRequest),
     (''blockchain.validatorgov.v1.QueryJurisdictionReconciliationResponse'', validatorgov_QueryJurisdictionReconciliationResponse),
     (''blockchain.validatorgov.v1.MsgUpdateParams'', validatorgov_MsgUpdateParams),
     (''blockchain.validatorgov.v1.MsgUpdateParamsResponse'', validatorgov_MsgUpdateParamsResponse),
     (''blockchain.validatorgov.v1.MsgApplyValidator'', validatorgov_MsgApplyValidator),
     (''blockchain.validatorgov.v1.MsgApplyValidatorResponse'', validatorgov_MsgApplyValidatorResponse),
     (''blockchain.validatorgov.v1.MsgApproveValidator'', validatorgov_MsgApproveValidator),
     (''blockchain.validatorgov.v1.MsgApproveValidatorResponse'', validatorgov_MsgApproveValidatorResponse),
     (''blockchain.validatorgov.v1.MsgRotateOperator'', validatorgov_MsgRotateOperator),
     (''blockchain.validatorgov.v1.MsgRotateOperatorResponse'', validatorgov_MsgRotateOperatorResponse),
     (''blockchain.validatorgov.v1.MsgProposeOperatorRecovery'', validatorgov_MsgProposeOperatorRecovery),
     (''blockchain.validatorgov.v1.MsgProposeOperatorRecoveryResponse'', validatorgov_MsgProposeOperatorRecoveryResponse),
     (''blockchain.validatorgov.v1.MsgApproveOperatorRecovery'', validatorgov_MsgApproveOperatorRecovery),
     (''blockchain.validatorgov.v1.MsgApproveOperatorRecoveryResponse'', validatorgov_MsgApproveOperatorRecoveryResponse),
     (''blockchain.validatorgov.v1.MsgCancelOperatorRotation'', validatorgov_MsgCancelOperatorRotation),
     (''blockchain.validatorgov.v1.MsgCancelOperatorRotationResponse'', validatorgov_MsgCancelOperatorRotationResponse),
     (''blockchain.validatorgov.v1.MsgAttestOwnership'', validatorgov_MsgAttestOwnership),
     (''blockchain.validatorgov.v1.MsgAttestOwnershipResponse'', validatorgov_MsgAttestOwnershipResponse),
     (''blockchain.validatorgov.v1.MsgSetValidatorPower'', validatorgov_MsgSetValidatorPower),
     (''blockchain.validatorgov.v1.MsgSetValidatorPowerResponse'', validatorgov_MsgSetValidatorPowerResponse)]"

lemmas validatorgov_schemas =
  validatorgov_ConcentrationCap_def validatorgov_JurisdictionAgreement_def validatorgov_RotationKind_def
     validatorgov_RotationStatus_def validatorgov_Declaration_def validatorgov_ApprovedValidator_def
     validatorgov_Demotion_def validatorgov_ConcentrationGroup_def validatorgov_EventRotationProposed_def
     validatorgov_EventRecoveryApproved_def validatorgov_EventRotationResolved_def
     validatorgov_EventValidatorDemoted_def validatorgov_EventValidatorRestored_def
     validatorgov_EventConcentrationUncorrected_def validatorgov_EventDeclarationStale_def validatorgov_Params_def
     validatorgov_ValidatorApplication_def validatorgov_OperatorRotation_def validatorgov_GenesisState_def
     validatorgov_QueryParamsRequest_def validatorgov_QueryParamsResponse_def
     validatorgov_QueryGetValidatorApplicationRequest_def validatorgov_QueryGetValidatorApplicationResponse_def
     validatorgov_QueryAllValidatorApplicationRequest_def validatorgov_QueryAllValidatorApplicationResponse_def
     validatorgov_QueryGetApprovedValidatorRequest_def validatorgov_QueryGetApprovedValidatorResponse_def
     validatorgov_QueryAllApprovedValidatorRequest_def validatorgov_QueryAllApprovedValidatorResponse_def
     validatorgov_QueryGetOperatorRotationRequest_def validatorgov_QueryGetOperatorRotationResponse_def
     validatorgov_QueryAllOperatorRotationRequest_def validatorgov_QueryAllOperatorRotationResponse_def
     validatorgov_QueryPendingOperatorRotationRequest_def validatorgov_QueryPendingOperatorRotationResponse_def
     validatorgov_QueryConcentrationRequest_def validatorgov_QueryConcentrationResponse_def
     validatorgov_QueryAllDemotionRequest_def validatorgov_QueryAllDemotionResponse_def
     validatorgov_JurisdictionReconciliation_def validatorgov_QueryJurisdictionReconciliationRequest_def
     validatorgov_QueryJurisdictionReconciliationResponse_def validatorgov_MsgUpdateParams_def
     validatorgov_MsgUpdateParamsResponse_def validatorgov_MsgApplyValidator_def
     validatorgov_MsgApplyValidatorResponse_def validatorgov_MsgApproveValidator_def
     validatorgov_MsgApproveValidatorResponse_def validatorgov_MsgRotateOperator_def
     validatorgov_MsgRotateOperatorResponse_def validatorgov_MsgProposeOperatorRecovery_def
     validatorgov_MsgProposeOperatorRecoveryResponse_def validatorgov_MsgApproveOperatorRecovery_def
     validatorgov_MsgApproveOperatorRecoveryResponse_def validatorgov_MsgCancelOperatorRotation_def
     validatorgov_MsgCancelOperatorRotationResponse_def validatorgov_MsgAttestOwnership_def
     validatorgov_MsgAttestOwnershipResponse_def validatorgov_MsgSetValidatorPower_def
     validatorgov_MsgSetValidatorPowerResponse_def

lemma validatorgov_good: "list_all (\<lambda>(u, fs). good_schema fs) validatorgov_messages"
  by (simp add: validatorgov_messages_def validatorgov_schemas cosmos_schemas good_simps)

end
