(* ===== verification/CustodyProto.thy ===== *)
theory CustodyProto imports Schema begin

text \<open>
  The messages, queries, events and state of the chain's custody module, as \<open>clients/sdk/src/generated/blockchain/custody/v1\<close> codes them: the
  enums, then each message as the schema its six functions follow.
\<close>

definition custody_DepositStatus :: proto_scalar where
  "custody_DepositStatus = T_enum [(0, ''DEPOSIT_STATUS_UNSPECIFIED''), (1, ''DEPOSIT_STATUS_PENDING''),
     (2, ''DEPOSIT_STATUS_CREDITED''), (3, ''DEPOSIT_STATUS_REJECTED'')]"

definition custody_RedemptionStatus :: proto_scalar where
  "custody_RedemptionStatus = T_enum [(0, ''REDEMPTION_STATUS_UNSPECIFIED''), (1, ''REDEMPTION_STATUS_PENDING''),
     (2, ''REDEMPTION_STATUS_SETTLED''), (3, ''REDEMPTION_STATUS_CANCELLED'')]"

definition custody_Asset :: schema where
  "custody_Asset = [(1, ''denom'', One T_string), (2, ''sourceChain'', One T_string), (3, ''symbol'', One T_string),
     (4, ''exponent'', One T_uint32), (5, ''paused'', One T_bool)]"

definition custody_Attestation :: schema where
  "custody_Attestation = [(1, ''depositId'', One T_string), (2, ''attestor'', One T_string),
     (3, ''attestedAtHeight'', One T_int64)]"

definition custody_Deposit :: schema where
  "custody_Deposit = [(1, ''id'', One T_string), (2, ''denom'', One T_string), (3, ''recipient'', One T_string),
     (4, ''amount'', One T_string), (5, ''externalRef'', One T_string), (6, ''status'', One custody_DepositStatus),
     (7, ''createdAtHeight'', One T_int64)]"

definition custody_Redemption :: schema where
  "custody_Redemption = [(1, ''id'', One T_string), (2, ''denom'', One T_string), (3, ''redeemer'', One T_string),
     (4, ''amount'', One T_string), (5, ''destination'', One T_string),
     (6, ''status'', One custody_RedemptionStatus), (7, ''requestedAtHeight'', One T_int64),
     (8, ''payableAtHeight'', One T_int64), (9, ''settledRef'', One T_string)]"

definition custody_Reserve :: schema where
  "custody_Reserve = [(1, ''denom'', One T_string), (2, ''held'', One T_string), (3, ''asOfHeight'', One T_int64),
     (4, ''attestor'', One T_string)]"

definition custody_Solvency :: schema where
  "custody_Solvency = [(1, ''denom'', One T_string), (2, ''issued'', One T_string), (3, ''held'', One T_string),
     (4, ''reserveAgeBlocks'', One T_int64), (5, ''solvent'', One T_bool)]"

definition custody_Params :: schema where
  "custody_Params = [(1, ''attestationThreshold'', One T_uint32), (2, ''redemptionDelayBlocks'', One T_uint64),
     (3, ''feeBps'', One T_uint32)]"

definition custody_GenesisState :: schema where
  "custody_GenesisState = [(1, ''params'', Sub custody_Params), (2, ''assets'', Subs custody_Asset),
     (3, ''attestors'', Each T_string), (4, ''deposits'', Subs custody_Deposit),
     (5, ''redemptions'', Subs custody_Redemption), (6, ''reserves'', Subs custody_Reserve),
     (7, ''nextDeposit'', One T_uint64), (8, ''nextRedemption'', One T_uint64)]"

definition custody_QueryParamsRequest :: schema where
  "custody_QueryParamsRequest = []"

definition custody_QueryParamsResponse :: schema where
  "custody_QueryParamsResponse = [(1, ''params'', Sub custody_Params)]"

definition custody_QueryAssetsRequest :: schema where
  "custody_QueryAssetsRequest = []"

definition custody_QueryAssetsResponse :: schema where
  "custody_QueryAssetsResponse = [(1, ''assets'', Subs custody_Asset)]"

definition custody_QuerySolvencyRequest :: schema where
  "custody_QuerySolvencyRequest = []"

definition custody_QuerySolvencyResponse :: schema where
  "custody_QuerySolvencyResponse = [(1, ''solvency'', Subs custody_Solvency)]"

definition custody_QueryDepositRequest :: schema where
  "custody_QueryDepositRequest = [(1, ''id'', One T_string)]"

definition custody_QueryDepositResponse :: schema where
  "custody_QueryDepositResponse = [(1, ''deposit'', Sub custody_Deposit)]"

definition custody_QueryRedemptionRequest :: schema where
  "custody_QueryRedemptionRequest = [(1, ''id'', One T_string)]"

definition custody_QueryRedemptionResponse :: schema where
  "custody_QueryRedemptionResponse = [(1, ''redemption'', Sub custody_Redemption)]"

definition custody_MsgRegisterAsset :: schema where
  "custody_MsgRegisterAsset = [(1, ''authority'', One T_string), (2, ''denom'', One T_string),
     (3, ''sourceChain'', One T_string), (4, ''symbol'', One T_string), (5, ''exponent'', One T_uint32)]"

definition custody_MsgRegisterAssetResponse :: schema where
  "custody_MsgRegisterAssetResponse = []"

definition custody_MsgSetAttestor :: schema where
  "custody_MsgSetAttestor = [(1, ''authority'', One T_string), (2, ''attestor'', One T_string),
     (3, ''active'', One T_bool)]"

definition custody_MsgSetAttestorResponse :: schema where
  "custody_MsgSetAttestorResponse = []"

definition custody_MsgAttestDeposit :: schema where
  "custody_MsgAttestDeposit = [(1, ''attestor'', One T_string), (2, ''denom'', One T_string),
     (3, ''recipient'', One T_string), (4, ''amount'', One T_string), (5, ''externalRef'', One T_string)]"

definition custody_MsgAttestDepositResponse :: schema where
  "custody_MsgAttestDepositResponse = [(1, ''depositId'', One T_string), (2, ''attestations'', One T_uint32),
     (3, ''credited'', One T_bool)]"

definition custody_MsgReportReserve :: schema where
  "custody_MsgReportReserve = [(1, ''attestor'', One T_string), (2, ''denom'', One T_string),
     (3, ''held'', One T_string)]"

definition custody_MsgReportReserveResponse :: schema where
  "custody_MsgReportReserveResponse = []"

definition custody_MsgRequestRedemption :: schema where
  "custody_MsgRequestRedemption = [(1, ''redeemer'', One T_string), (2, ''denom'', One T_string),
     (3, ''amount'', One T_string), (4, ''destination'', One T_string)]"

definition custody_MsgRequestRedemptionResponse :: schema where
  "custody_MsgRequestRedemptionResponse = [(1, ''redemptionId'', One T_string),
     (2, ''payableAtHeight'', One T_int64)]"

definition custody_MsgSettleRedemption :: schema where
  "custody_MsgSettleRedemption = [(1, ''attestor'', One T_string), (2, ''redemptionId'', One T_string),
     (3, ''settledRef'', One T_string)]"

definition custody_MsgSettleRedemptionResponse :: schema where
  "custody_MsgSettleRedemptionResponse = []"

definition custody_MsgUpdateParams :: schema where
  "custody_MsgUpdateParams = [(1, ''authority'', One T_string), (2, ''params'', Sub custody_Params)]"

definition custody_MsgUpdateParamsResponse :: schema where
  "custody_MsgUpdateParamsResponse = []"

text \<open>Their type names, as the chain and the registry write them.\<close>

definition custody_messages :: "(string \<times> schema) list" where
  "custody_messages = [(''blockchain.custody.v1.Asset'', custody_Asset),
     (''blockchain.custody.v1.Attestation'', custody_Attestation),
     (''blockchain.custody.v1.Deposit'', custody_Deposit),
     (''blockchain.custody.v1.Redemption'', custody_Redemption),
     (''blockchain.custody.v1.Reserve'', custody_Reserve), (''blockchain.custody.v1.Solvency'', custody_Solvency),
     (''blockchain.custody.v1.Params'', custody_Params),
     (''blockchain.custody.v1.GenesisState'', custody_GenesisState),
     (''blockchain.custody.v1.QueryParamsRequest'', custody_QueryParamsRequest),
     (''blockchain.custody.v1.QueryParamsResponse'', custody_QueryParamsResponse),
     (''blockchain.custody.v1.QueryAssetsRequest'', custody_QueryAssetsRequest),
     (''blockchain.custody.v1.QueryAssetsResponse'', custody_QueryAssetsResponse),
     (''blockchain.custody.v1.QuerySolvencyRequest'', custody_QuerySolvencyRequest),
     (''blockchain.custody.v1.QuerySolvencyResponse'', custody_QuerySolvencyResponse),
     (''blockchain.custody.v1.QueryDepositRequest'', custody_QueryDepositRequest),
     (''blockchain.custody.v1.QueryDepositResponse'', custody_QueryDepositResponse),
     (''blockchain.custody.v1.QueryRedemptionRequest'', custody_QueryRedemptionRequest),
     (''blockchain.custody.v1.QueryRedemptionResponse'', custody_QueryRedemptionResponse),
     (''blockchain.custody.v1.MsgRegisterAsset'', custody_MsgRegisterAsset),
     (''blockchain.custody.v1.MsgRegisterAssetResponse'', custody_MsgRegisterAssetResponse),
     (''blockchain.custody.v1.MsgSetAttestor'', custody_MsgSetAttestor),
     (''blockchain.custody.v1.MsgSetAttestorResponse'', custody_MsgSetAttestorResponse),
     (''blockchain.custody.v1.MsgAttestDeposit'', custody_MsgAttestDeposit),
     (''blockchain.custody.v1.MsgAttestDepositResponse'', custody_MsgAttestDepositResponse),
     (''blockchain.custody.v1.MsgReportReserve'', custody_MsgReportReserve),
     (''blockchain.custody.v1.MsgReportReserveResponse'', custody_MsgReportReserveResponse),
     (''blockchain.custody.v1.MsgRequestRedemption'', custody_MsgRequestRedemption),
     (''blockchain.custody.v1.MsgRequestRedemptionResponse'', custody_MsgRequestRedemptionResponse),
     (''blockchain.custody.v1.MsgSettleRedemption'', custody_MsgSettleRedemption),
     (''blockchain.custody.v1.MsgSettleRedemptionResponse'', custody_MsgSettleRedemptionResponse),
     (''blockchain.custody.v1.MsgUpdateParams'', custody_MsgUpdateParams),
     (''blockchain.custody.v1.MsgUpdateParamsResponse'', custody_MsgUpdateParamsResponse)]"

lemmas custody_schemas =
  custody_DepositStatus_def custody_RedemptionStatus_def custody_Asset_def custody_Attestation_def
     custody_Deposit_def custody_Redemption_def custody_Reserve_def custody_Solvency_def custody_Params_def
     custody_GenesisState_def custody_QueryParamsRequest_def custody_QueryParamsResponse_def
     custody_QueryAssetsRequest_def custody_QueryAssetsResponse_def custody_QuerySolvencyRequest_def
     custody_QuerySolvencyResponse_def custody_QueryDepositRequest_def custody_QueryDepositResponse_def
     custody_QueryRedemptionRequest_def custody_QueryRedemptionResponse_def custody_MsgRegisterAsset_def
     custody_MsgRegisterAssetResponse_def custody_MsgSetAttestor_def custody_MsgSetAttestorResponse_def
     custody_MsgAttestDeposit_def custody_MsgAttestDepositResponse_def custody_MsgReportReserve_def
     custody_MsgReportReserveResponse_def custody_MsgRequestRedemption_def custody_MsgRequestRedemptionResponse_def
     custody_MsgSettleRedemption_def custody_MsgSettleRedemptionResponse_def custody_MsgUpdateParams_def
     custody_MsgUpdateParamsResponse_def

lemma custody_good: "list_all (\<lambda>(u, fs). good_schema fs) custody_messages"
  by (simp add: custody_messages_def custody_schemas good_simps)

end
