(* ===== verification/EmissionProto.thy ===== *)
theory EmissionProto imports Schema begin

text \<open>
  The messages, queries, events and state of the chain's emission module, as \<open>clients/sdk/src/generated/blockchain/emission/v1\<close> codes them: the
  enums, then each message as the schema its six functions follow.
\<close>

definition emission_EmissionState :: schema where
  "emission_EmissionState = [(1, ''currentProvisionsPerBlock'', One T_string),
     (2, ''lastReductionPeriod'', One T_uint64)]"

definition emission_Params :: schema where
  "emission_Params = [(1, ''reductionPeriodInBlocks'', One T_uint64), (2, ''reductionFactor'', One T_string),
     (3, ''genesisProvisionsPerBlock'', One T_string)]"

definition emission_GenesisState :: schema where
  "emission_GenesisState = [(1, ''params'', Sub emission_Params),
     (2, ''emissionState'', Sub emission_EmissionState)]"

definition emission_QueryParamsRequest :: schema where
  "emission_QueryParamsRequest = []"

definition emission_QueryParamsResponse :: schema where
  "emission_QueryParamsResponse = [(1, ''params'', Sub emission_Params)]"

definition emission_QueryGetEmissionStateRequest :: schema where
  "emission_QueryGetEmissionStateRequest = []"

definition emission_QueryGetEmissionStateResponse :: schema where
  "emission_QueryGetEmissionStateResponse = [(1, ''emissionState'', Sub emission_EmissionState)]"

definition emission_MsgUpdateParams :: schema where
  "emission_MsgUpdateParams = [(1, ''authority'', One T_string), (2, ''params'', Sub emission_Params)]"

definition emission_MsgUpdateParamsResponse :: schema where
  "emission_MsgUpdateParamsResponse = []"

text \<open>Their type names, as the chain and the registry write them.\<close>

definition emission_messages :: "(string \<times> schema) list" where
  "emission_messages = [(''blockchain.emission.v1.EmissionState'', emission_EmissionState),
     (''blockchain.emission.v1.Params'', emission_Params),
     (''blockchain.emission.v1.GenesisState'', emission_GenesisState),
     (''blockchain.emission.v1.QueryParamsRequest'', emission_QueryParamsRequest),
     (''blockchain.emission.v1.QueryParamsResponse'', emission_QueryParamsResponse),
     (''blockchain.emission.v1.QueryGetEmissionStateRequest'', emission_QueryGetEmissionStateRequest),
     (''blockchain.emission.v1.QueryGetEmissionStateResponse'', emission_QueryGetEmissionStateResponse),
     (''blockchain.emission.v1.MsgUpdateParams'', emission_MsgUpdateParams),
     (''blockchain.emission.v1.MsgUpdateParamsResponse'', emission_MsgUpdateParamsResponse)]"

lemmas emission_schemas =
  emission_EmissionState_def emission_Params_def emission_GenesisState_def emission_QueryParamsRequest_def
     emission_QueryParamsResponse_def emission_QueryGetEmissionStateRequest_def
     emission_QueryGetEmissionStateResponse_def emission_MsgUpdateParams_def emission_MsgUpdateParamsResponse_def

lemma emission_good: "list_all (\<lambda>(u, fs). good_schema fs) emission_messages"
  by (simp add: emission_messages_def emission_schemas good_simps)

end
