(* ===== verification/LandProto.thy ===== *)
theory LandProto imports CosmosProto begin

text \<open>
  The messages, queries, events and state of the chain's land module, as \<open>clients/sdk/src/generated/blockchain/land/v1\<close> codes them: the
  enums, then each message as the schema its six functions follow.
\<close>

definition land_Status :: proto_scalar where
  "land_Status = T_enum [(0, ''STATUS_UNSPECIFIED''), (1, ''STATUS_REGISTERED''), (2, ''STATUS_TRANSFER_PENDING''),
     (3, ''STATUS_DISPUTED''), (4, ''STATUS_FROZEN'')]"

definition land_Params :: schema where
  "land_Params = [(1, ''attestationQuorum'', One T_uint32), (2, ''challengeWindow'', One T_int64),
     (3, ''sameAuthorityAttestation'', One T_bool)]"

definition land_Authority :: schema where
  "land_Authority = [(1, ''address'', One T_string), (2, ''name'', One T_string),
     (3, ''jurisdiction'', One T_string), (4, ''active'', One T_bool)]"

definition land_Encumbrance :: schema where
  "land_Encumbrance = [(1, ''kind'', One T_string), (2, ''holder'', One T_string), (3, ''detail'', One T_string),
     (4, ''recordedAt'', One T_int64), (5, ''released'', One T_bool)]"

definition land_Deed :: schema where
  "land_Deed = [(1, ''kind'', One T_string), (2, ''documentHash'', One T_string), (3, ''uri'', One T_string),
     (4, ''reference'', One T_string), (5, ''issuedOn'', One T_string), (6, ''recordedAt'', One T_int64)]"

definition land_Restriction :: schema where
  "land_Restriction = [(1, ''kind'', One T_string), (2, ''value'', One T_string), (3, ''detail'', One T_string),
     (4, ''imposedBy'', One T_string), (5, ''imposedAt'', One T_int64), (6, ''lifted'', One T_bool)]"

definition land_Freeze :: schema where
  "land_Freeze = [(1, ''reason'', One T_string), (2, ''imposedBy'', One T_string), (3, ''imposedAt'', One T_int64),
     (4, ''lifted'', One T_bool), (5, ''liftedBy'', One T_string), (6, ''liftReason'', One T_string),
     (7, ''liftedAt'', One T_int64)]"

definition land_Parcel :: schema where
  "land_Parcel = [(1, ''id'', One T_uint64), (2, ''geometryHash'', One T_string),
     (3, ''cadastralRef'', One T_string), (4, ''holder'', One T_string), (5, ''authority'', One T_string),
     (6, ''status'', One land_Status), (7, ''encumbrances'', Subs land_Encumbrance),
     (8, ''registeredAt'', One T_int64), (9, ''deeds'', Subs land_Deed),
     (10, ''restrictions'', Subs land_Restriction), (11, ''vehicleId'', One T_uint64),
     (12, ''freezes'', Subs land_Freeze)]"

definition land_Transfer :: schema where
  "land_Transfer = [(1, ''id'', One T_uint64), (2, ''parcelId'', One T_uint64), (3, ''from'', One T_string),
     (4, ''to'', One T_string), (5, ''price'', One T_string), (6, ''validated'', One T_bool),
     (7, ''validatedBy'', One T_string), (8, ''attestors'', Each T_string), (9, ''quorumAt'', One T_int64),
     (10, ''objectedBy'', One T_string), (11, ''objectionReason'', One T_string), (12, ''proposedAt'', One T_int64),
     (13, ''completedAt'', One T_int64)]"

definition land_FractionalisationAuthority :: schema where
  "land_FractionalisationAuthority = [(1, ''parcelId'', One T_uint64), (2, ''right'', One T_string),
     (3, ''maxShareBps'', One T_uint32), (4, ''expiresAt'', One T_int64), (5, ''grantedBy'', One T_string),
     (6, ''grantedAt'', One T_int64), (7, ''withdrawn'', One T_bool), (8, ''withdrawnAt'', One T_int64)]"

definition land_GenesisState :: schema where
  "land_GenesisState = [(1, ''params'', Sub land_Params), (2, ''authorities'', Subs land_Authority),
     (3, ''parcels'', Subs land_Parcel), (4, ''transfers'', Subs land_Transfer),
     (5, ''nextParcelId'', One T_uint64), (6, ''nextTransferId'', One T_uint64),
     (7, ''fractionalisationAuthorities'', Subs land_FractionalisationAuthority)]"

definition land_QueryParamsRequest :: schema where
  "land_QueryParamsRequest = []"

definition land_QueryParamsResponse :: schema where
  "land_QueryParamsResponse = [(1, ''params'', Sub land_Params)]"

definition land_QueryParcelRequest :: schema where
  "land_QueryParcelRequest = [(1, ''id'', One T_uint64)]"

definition land_QueryParcelResponse :: schema where
  "land_QueryParcelResponse = [(1, ''parcel'', Sub land_Parcel)]"

definition land_QueryParcelByRefRequest :: schema where
  "land_QueryParcelByRefRequest = [(1, ''cadastralRef'', One T_string)]"

definition land_QueryParcelByRefResponse :: schema where
  "land_QueryParcelByRefResponse = [(1, ''parcel'', Sub land_Parcel)]"

definition land_QueryParcelByGeometryRequest :: schema where
  "land_QueryParcelByGeometryRequest = [(1, ''geometryHash'', One T_string)]"

definition land_QueryParcelByGeometryResponse :: schema where
  "land_QueryParcelByGeometryResponse = [(1, ''parcel'', Sub land_Parcel)]"

definition land_QueryParcelsByHolderRequest :: schema where
  "land_QueryParcelsByHolderRequest = [(1, ''holder'', One T_string), (2, ''pagination'', Sub cosmos_PageRequest)]"

definition land_QueryParcelsByHolderResponse :: schema where
  "land_QueryParcelsByHolderResponse = [(1, ''parcels'', Subs land_Parcel),
     (2, ''pagination'', Sub cosmos_PageResponse)]"

definition land_QueryTransferRequest :: schema where
  "land_QueryTransferRequest = [(1, ''id'', One T_uint64)]"

definition land_QueryTransferResponse :: schema where
  "land_QueryTransferResponse = [(1, ''transfer'', Sub land_Transfer)]"

definition land_QueryTransfersByParcelRequest :: schema where
  "land_QueryTransfersByParcelRequest = [(1, ''parcelId'', One T_uint64),
     (2, ''pagination'', Sub cosmos_PageRequest)]"

definition land_QueryTransfersByParcelResponse :: schema where
  "land_QueryTransfersByParcelResponse = [(1, ''transfers'', Subs land_Transfer),
     (2, ''pagination'', Sub cosmos_PageResponse)]"

definition land_QueryPendingTransfersRequest :: schema where
  "land_QueryPendingTransfersRequest = [(1, ''pagination'', Sub cosmos_PageRequest)]"

definition land_QueryPendingTransfersResponse :: schema where
  "land_QueryPendingTransfersResponse = [(1, ''transfers'', Subs land_Transfer),
     (2, ''pagination'', Sub cosmos_PageResponse)]"

definition land_QueryAuthoritiesRequest :: schema where
  "land_QueryAuthoritiesRequest = [(1, ''pagination'', Sub cosmos_PageRequest)]"

definition land_QueryAuthoritiesResponse :: schema where
  "land_QueryAuthoritiesResponse = [(1, ''authorities'', Subs land_Authority),
     (2, ''pagination'', Sub cosmos_PageResponse)]"

definition land_QueryFractionalisationAuthorityRequest :: schema where
  "land_QueryFractionalisationAuthorityRequest = [(1, ''parcelId'', One T_uint64)]"

definition land_QueryFractionalisationAuthorityResponse :: schema where
  "land_QueryFractionalisationAuthorityResponse = [(1, ''authorisation'', Sub land_FractionalisationAuthority),
     (2, ''live'', One T_bool)]"

definition land_MsgUpdateParams :: schema where
  "land_MsgUpdateParams = [(1, ''authority'', One T_string), (2, ''params'', Sub land_Params)]"

definition land_MsgUpdateParamsResponse :: schema where
  "land_MsgUpdateParamsResponse = []"

definition land_MsgRegisterAuthority :: schema where
  "land_MsgRegisterAuthority = [(1, ''authority'', One T_string), (2, ''office'', One T_string),
     (3, ''name'', One T_string), (4, ''jurisdiction'', One T_string), (5, ''active'', One T_bool)]"

definition land_MsgRegisterAuthorityResponse :: schema where
  "land_MsgRegisterAuthorityResponse = []"

definition land_MsgRegisterParcel :: schema where
  "land_MsgRegisterParcel = [(1, ''creator'', One T_string), (2, ''geometryHash'', One T_string),
     (3, ''cadastralRef'', One T_string), (4, ''holder'', One T_string)]"

definition land_MsgRegisterParcelResponse :: schema where
  "land_MsgRegisterParcelResponse = [(1, ''id'', One T_uint64)]"

definition land_MsgProposeTransfer :: schema where
  "land_MsgProposeTransfer = [(1, ''creator'', One T_string), (2, ''parcelId'', One T_uint64),
     (3, ''to'', One T_string), (4, ''price'', One T_string)]"

definition land_MsgProposeTransferResponse :: schema where
  "land_MsgProposeTransferResponse = [(1, ''transferId'', One T_uint64)]"

definition land_MsgValidateTransfer :: schema where
  "land_MsgValidateTransfer = [(1, ''creator'', One T_string), (2, ''transferId'', One T_uint64)]"

definition land_MsgValidateTransferResponse :: schema where
  "land_MsgValidateTransferResponse = []"

definition land_MsgAttestTransfer :: schema where
  "land_MsgAttestTransfer = [(1, ''creator'', One T_string), (2, ''transferId'', One T_uint64)]"

definition land_MsgAttestTransferResponse :: schema where
  "land_MsgAttestTransferResponse = [(1, ''attestations'', One T_uint32), (2, ''quorum'', One T_uint32)]"

definition land_MsgObject :: schema where
  "land_MsgObject = [(1, ''creator'', One T_string), (2, ''transferId'', One T_uint64),
     (3, ''reason'', One T_string)]"

definition land_MsgObjectResponse :: schema where
  "land_MsgObjectResponse = []"

definition land_MsgCompleteTransfer :: schema where
  "land_MsgCompleteTransfer = [(1, ''creator'', One T_string), (2, ''transferId'', One T_uint64)]"

definition land_MsgCompleteTransferResponse :: schema where
  "land_MsgCompleteTransferResponse = []"

definition land_MsgRecordEncumbrance :: schema where
  "land_MsgRecordEncumbrance = [(1, ''creator'', One T_string), (2, ''parcelId'', One T_uint64),
     (3, ''kind'', One T_string), (4, ''holder'', One T_string), (5, ''detail'', One T_string),
     (6, ''release'', One T_bool), (7, ''index'', One T_uint32)]"

definition land_MsgRecordEncumbranceResponse :: schema where
  "land_MsgRecordEncumbranceResponse = []"

definition land_MsgFreezeParcel :: schema where
  "land_MsgFreezeParcel = [(1, ''creator'', One T_string), (2, ''parcelId'', One T_uint64),
     (3, ''reason'', One T_string), (4, ''unfreeze'', One T_bool)]"

definition land_MsgFreezeParcelResponse :: schema where
  "land_MsgFreezeParcelResponse = []"

definition land_MsgAttachDeed :: schema where
  "land_MsgAttachDeed = [(1, ''creator'', One T_string), (2, ''parcelId'', One T_uint64),
     (3, ''kind'', One T_string), (4, ''documentHash'', One T_string), (5, ''uri'', One T_string),
     (6, ''reference'', One T_string), (7, ''issuedOn'', One T_string)]"

definition land_MsgAttachDeedResponse :: schema where
  "land_MsgAttachDeedResponse = []"

definition land_MsgSetRestriction :: schema where
  "land_MsgSetRestriction = [(1, ''creator'', One T_string), (2, ''parcelId'', One T_uint64),
     (3, ''kind'', One T_string), (4, ''value'', One T_string), (5, ''detail'', One T_string),
     (6, ''lift'', One T_bool), (7, ''index'', One T_uint32)]"

definition land_MsgSetRestrictionResponse :: schema where
  "land_MsgSetRestrictionResponse = []"

definition land_MsgAuthoriseFractionalisation :: schema where
  "land_MsgAuthoriseFractionalisation = [(1, ''creator'', One T_string), (2, ''parcelId'', One T_uint64),
     (3, ''right'', One T_string), (4, ''maxShareBps'', One T_uint32), (5, ''expiresAt'', One T_int64),
     (6, ''withdraw'', One T_bool)]"

definition land_MsgAuthoriseFractionalisationResponse :: schema where
  "land_MsgAuthoriseFractionalisationResponse = []"

text \<open>Their type names, as the chain and the registry write them.\<close>

definition land_messages :: "(string \<times> schema) list" where
  "land_messages = [(''blockchain.land.v1.Params'', land_Params),
     (''blockchain.land.v1.Authority'', land_Authority), (''blockchain.land.v1.Encumbrance'', land_Encumbrance),
     (''blockchain.land.v1.Deed'', land_Deed), (''blockchain.land.v1.Restriction'', land_Restriction),
     (''blockchain.land.v1.Freeze'', land_Freeze), (''blockchain.land.v1.Parcel'', land_Parcel),
     (''blockchain.land.v1.Transfer'', land_Transfer),
     (''blockchain.land.v1.FractionalisationAuthority'', land_FractionalisationAuthority),
     (''blockchain.land.v1.GenesisState'', land_GenesisState),
     (''blockchain.land.v1.QueryParamsRequest'', land_QueryParamsRequest),
     (''blockchain.land.v1.QueryParamsResponse'', land_QueryParamsResponse),
     (''blockchain.land.v1.QueryParcelRequest'', land_QueryParcelRequest),
     (''blockchain.land.v1.QueryParcelResponse'', land_QueryParcelResponse),
     (''blockchain.land.v1.QueryParcelByRefRequest'', land_QueryParcelByRefRequest),
     (''blockchain.land.v1.QueryParcelByRefResponse'', land_QueryParcelByRefResponse),
     (''blockchain.land.v1.QueryParcelByGeometryRequest'', land_QueryParcelByGeometryRequest),
     (''blockchain.land.v1.QueryParcelByGeometryResponse'', land_QueryParcelByGeometryResponse),
     (''blockchain.land.v1.QueryParcelsByHolderRequest'', land_QueryParcelsByHolderRequest),
     (''blockchain.land.v1.QueryParcelsByHolderResponse'', land_QueryParcelsByHolderResponse),
     (''blockchain.land.v1.QueryTransferRequest'', land_QueryTransferRequest),
     (''blockchain.land.v1.QueryTransferResponse'', land_QueryTransferResponse),
     (''blockchain.land.v1.QueryTransfersByParcelRequest'', land_QueryTransfersByParcelRequest),
     (''blockchain.land.v1.QueryTransfersByParcelResponse'', land_QueryTransfersByParcelResponse),
     (''blockchain.land.v1.QueryPendingTransfersRequest'', land_QueryPendingTransfersRequest),
     (''blockchain.land.v1.QueryPendingTransfersResponse'', land_QueryPendingTransfersResponse),
     (''blockchain.land.v1.QueryAuthoritiesRequest'', land_QueryAuthoritiesRequest),
     (''blockchain.land.v1.QueryAuthoritiesResponse'', land_QueryAuthoritiesResponse),
     (''blockchain.land.v1.QueryFractionalisationAuthorityRequest'', land_QueryFractionalisationAuthorityRequest),
     (''blockchain.land.v1.QueryFractionalisationAuthorityResponse'', land_QueryFractionalisationAuthorityResponse),
     (''blockchain.land.v1.MsgUpdateParams'', land_MsgUpdateParams),
     (''blockchain.land.v1.MsgUpdateParamsResponse'', land_MsgUpdateParamsResponse),
     (''blockchain.land.v1.MsgRegisterAuthority'', land_MsgRegisterAuthority),
     (''blockchain.land.v1.MsgRegisterAuthorityResponse'', land_MsgRegisterAuthorityResponse),
     (''blockchain.land.v1.MsgRegisterParcel'', land_MsgRegisterParcel),
     (''blockchain.land.v1.MsgRegisterParcelResponse'', land_MsgRegisterParcelResponse),
     (''blockchain.land.v1.MsgProposeTransfer'', land_MsgProposeTransfer),
     (''blockchain.land.v1.MsgProposeTransferResponse'', land_MsgProposeTransferResponse),
     (''blockchain.land.v1.MsgValidateTransfer'', land_MsgValidateTransfer),
     (''blockchain.land.v1.MsgValidateTransferResponse'', land_MsgValidateTransferResponse),
     (''blockchain.land.v1.MsgAttestTransfer'', land_MsgAttestTransfer),
     (''blockchain.land.v1.MsgAttestTransferResponse'', land_MsgAttestTransferResponse),
     (''blockchain.land.v1.MsgObject'', land_MsgObject),
     (''blockchain.land.v1.MsgObjectResponse'', land_MsgObjectResponse),
     (''blockchain.land.v1.MsgCompleteTransfer'', land_MsgCompleteTransfer),
     (''blockchain.land.v1.MsgCompleteTransferResponse'', land_MsgCompleteTransferResponse),
     (''blockchain.land.v1.MsgRecordEncumbrance'', land_MsgRecordEncumbrance),
     (''blockchain.land.v1.MsgRecordEncumbranceResponse'', land_MsgRecordEncumbranceResponse),
     (''blockchain.land.v1.MsgFreezeParcel'', land_MsgFreezeParcel),
     (''blockchain.land.v1.MsgFreezeParcelResponse'', land_MsgFreezeParcelResponse),
     (''blockchain.land.v1.MsgAttachDeed'', land_MsgAttachDeed),
     (''blockchain.land.v1.MsgAttachDeedResponse'', land_MsgAttachDeedResponse),
     (''blockchain.land.v1.MsgSetRestriction'', land_MsgSetRestriction),
     (''blockchain.land.v1.MsgSetRestrictionResponse'', land_MsgSetRestrictionResponse),
     (''blockchain.land.v1.MsgAuthoriseFractionalisation'', land_MsgAuthoriseFractionalisation),
     (''blockchain.land.v1.MsgAuthoriseFractionalisationResponse'', land_MsgAuthoriseFractionalisationResponse)]"

lemmas land_schemas =
  land_Status_def land_Params_def land_Authority_def land_Encumbrance_def land_Deed_def land_Restriction_def
     land_Freeze_def land_Parcel_def land_Transfer_def land_FractionalisationAuthority_def land_GenesisState_def
     land_QueryParamsRequest_def land_QueryParamsResponse_def land_QueryParcelRequest_def
     land_QueryParcelResponse_def land_QueryParcelByRefRequest_def land_QueryParcelByRefResponse_def
     land_QueryParcelByGeometryRequest_def land_QueryParcelByGeometryResponse_def
     land_QueryParcelsByHolderRequest_def land_QueryParcelsByHolderResponse_def land_QueryTransferRequest_def
     land_QueryTransferResponse_def land_QueryTransfersByParcelRequest_def land_QueryTransfersByParcelResponse_def
     land_QueryPendingTransfersRequest_def land_QueryPendingTransfersResponse_def land_QueryAuthoritiesRequest_def
     land_QueryAuthoritiesResponse_def land_QueryFractionalisationAuthorityRequest_def
     land_QueryFractionalisationAuthorityResponse_def land_MsgUpdateParams_def land_MsgUpdateParamsResponse_def
     land_MsgRegisterAuthority_def land_MsgRegisterAuthorityResponse_def land_MsgRegisterParcel_def
     land_MsgRegisterParcelResponse_def land_MsgProposeTransfer_def land_MsgProposeTransferResponse_def
     land_MsgValidateTransfer_def land_MsgValidateTransferResponse_def land_MsgAttestTransfer_def
     land_MsgAttestTransferResponse_def land_MsgObject_def land_MsgObjectResponse_def land_MsgCompleteTransfer_def
     land_MsgCompleteTransferResponse_def land_MsgRecordEncumbrance_def land_MsgRecordEncumbranceResponse_def
     land_MsgFreezeParcel_def land_MsgFreezeParcelResponse_def land_MsgAttachDeed_def land_MsgAttachDeedResponse_def
     land_MsgSetRestriction_def land_MsgSetRestrictionResponse_def land_MsgAuthoriseFractionalisation_def
     land_MsgAuthoriseFractionalisationResponse_def

lemma land_good: "list_all (\<lambda>(u, fs). good_schema fs) land_messages"
  by (simp add: land_messages_def land_schemas cosmos_schemas good_simps)

end
