(* ===== verification/Registry.thy ===== *)
theory Registry imports SchemaSafe SignRequest
  AliasProto AmmProto BuilderfeeProto ConstitutionProto
  EnforcementProto FeegrantProto NettingProto OracleProto PaymsgProto StablecoinProto
  TokenisationProto TreasuryProto ValidatorgovProto CustodyProto EmissionProto LandProto
begin

text \<open>
  The registry of the chain's own messages (\<open>clients/sdk/src/registry.ts\<close>): each type URL with its
  generated codec, and what it gives the approval screen of \<open>signrequest.ts\<close>. The codecs of the
  standard Cosmos messages are CosmJS's and stay an argument.
\<close>

section \<open>The generated tree\<close>

definition generated_messages :: "(string \<times> schema) list" where
  "generated_messages = alias_messages @ amm_messages @ builderfee_messages @ constitution_messages @ cosmos_messages @
     custody_messages @ emission_messages @ enforcement_messages @ feegrant_messages @ google_messages @
     land_messages @ netting_messages @ oracle_messages @ paymsg_messages @ stablecoin_messages @ tokenisation_messages @ treasury_messages @ validatorgov_messages"

lemma generated_good: "(u, fs) \<in> set generated_messages \<Longrightarrow> good_schema fs"
  using alias_good amm_good builderfee_good constitution_good cosmos_good custody_good emission_good enforcement_good feegrant_good google_good land_good netting_good oracle_good paymsg_good stablecoin_good tokenisation_good treasury_good validatorgov_good
  by (auto simp: generated_messages_def list_all_iff)

section \<open>The registry\<close>

definition CHAIN_MESSAGE_TYPES :: "(string \<times> schema) list" where
  "CHAIN_MESSAGE_TYPES = [
    (''/cosmos.feegrant.v1beta1.MsgGrantAllowance'', feegrant_MsgGrantAllowance),
    (''/cosmos.feegrant.v1beta1.MsgRevokeAllowance'', feegrant_MsgRevokeAllowance),
    (''/blockchain.paymsg.v1.MsgSendPayment'', paymsg_MsgSendPayment),
    (''/blockchain.paymsg.v1.MsgApplyParticipant'', paymsg_MsgApplyParticipant),
    (''/blockchain.paymsg.v1.MsgApproveParticipant'', paymsg_MsgApproveParticipant),
    (''/blockchain.paymsg.v1.MsgRegisterCustomer'', paymsg_MsgRegisterCustomer),
    (''/blockchain.treasury.v1.MsgCreateTreasury'', treasury_MsgCreateTreasury),
    (''/blockchain.treasury.v1.MsgDeposit'', treasury_MsgDeposit),
    (''/blockchain.treasury.v1.MsgSpend'', treasury_MsgSpend),
    (''/blockchain.treasury.v1.MsgCreateLock'', treasury_MsgCreateLock),
    (''/blockchain.treasury.v1.MsgOpenEscrow'', treasury_MsgOpenEscrow),
    (''/blockchain.treasury.v1.MsgReleaseEscrow'', treasury_MsgReleaseEscrow),
    (''/blockchain.treasury.v1.MsgDisputeEscrow'', treasury_MsgDisputeEscrow),
    (''/blockchain.treasury.v1.MsgResolveEscrow'', treasury_MsgResolveEscrow),
    (''/blockchain.treasury.v1.MsgClaimLock'', treasury_MsgClaimLock),
    (''/blockchain.treasury.v1.MsgRevokeLock'', treasury_MsgRevokeLock),
    (''/blockchain.treasury.v1.MsgAssignRole'', treasury_MsgAssignRole),
    (''/blockchain.treasury.v1.MsgRevokeRole'', treasury_MsgRevokeRole),
    (''/blockchain.treasury.v1.MsgSetSpendPolicy'', treasury_MsgSetSpendPolicy),
    (''/blockchain.treasury.v1.MsgSetPaused'', treasury_MsgSetPaused),
    (''/blockchain.treasury.v1.MsgSetAdmin'', treasury_MsgSetAdmin),
    (''/blockchain.amm.v1.MsgCreatePool'', amm_MsgCreatePool),
    (''/blockchain.amm.v1.MsgJoinPool'', amm_MsgJoinPool),
    (''/blockchain.amm.v1.MsgExitPool'', amm_MsgExitPool),
    (''/blockchain.amm.v1.MsgSwap'', amm_MsgSwap),
    (''/blockchain.stablecoin.v1.MsgRegisterCurrency'', stablecoin_MsgRegisterCurrency),
    (''/blockchain.stablecoin.v1.MsgMintCoin'', stablecoin_MsgMintCoin),
    (''/blockchain.stablecoin.v1.MsgBurnCoin'', stablecoin_MsgBurnCoin),
    (''/blockchain.stablecoin.v1.MsgApproveIssuer'', stablecoin_MsgApproveIssuer),
    (''/blockchain.oracle.v1.MsgSubmitExchangeRates'', oracle_MsgSubmitExchangeRates),
    (''/blockchain.oracle.v1.MsgDelegateFeeder'', oracle_MsgDelegateFeeder),
    (''/blockchain.oracle.v1.MsgApplyAppraiser'', oracle_MsgApplyAppraiser),
    (''/blockchain.oracle.v1.MsgApproveAppraiser'', oracle_MsgApproveAppraiser),
    (''/blockchain.oracle.v1.MsgRevokeAppraiser'', oracle_MsgRevokeAppraiser),
    (''/blockchain.oracle.v1.MsgSubmitAppraisal'', oracle_MsgSubmitAppraisal),
    (''/blockchain.alias.v1.MsgRegisterAlias'', alias_MsgRegisterAlias),
    (''/blockchain.alias.v1.MsgRotateAlias'', alias_MsgRotateAlias),
    (''/blockchain.alias.v1.MsgSetJurisdiction'', alias_MsgSetJurisdiction),
    (''/blockchain.alias.v1.MsgRegisterViewingKey'', alias_MsgRegisterViewingKey),
    (''/blockchain.alias.v1.MsgRevokeViewingKey'', alias_MsgRevokeViewingKey),
    (''/blockchain.alias.v1.MsgAppointRegulator'', alias_MsgAppointRegulator),
    (''/blockchain.alias.v1.MsgGrantAuditor'', alias_MsgGrantAuditor),
    (''/blockchain.paymsg.v1.MsgSetPayloadStore'', paymsg_MsgSetPayloadStore),
    (''/blockchain.enforcement.v1.MsgOpenCase'', enforcement_MsgOpenCase),
    (''/blockchain.enforcement.v1.MsgVoteCase'', enforcement_MsgVoteCase),
    (''/blockchain.enforcement.v1.MsgWithdrawCase'', enforcement_MsgWithdrawCase),
    (''/blockchain.enforcement.v1.MsgSweep'', enforcement_MsgSweep),
    (''/blockchain.enforcement.v1.MsgReverseCase'', enforcement_MsgReverseCase),
    (''/blockchain.enforcement.v1.MsgEmergencyFreeze'', enforcement_MsgEmergencyFreeze),
    (''/blockchain.enforcement.v1.MsgEmergencyRelease'', enforcement_MsgEmergencyRelease),
    (''/blockchain.validatorgov.v1.MsgApplyValidator'', validatorgov_MsgApplyValidator),
    (''/blockchain.validatorgov.v1.MsgApproveValidator'', validatorgov_MsgApproveValidator),
    (''/blockchain.validatorgov.v1.MsgRotateOperator'', validatorgov_MsgRotateOperator),
    (''/blockchain.validatorgov.v1.MsgProposeOperatorRecovery'', validatorgov_MsgProposeOperatorRecovery),
    (''/blockchain.validatorgov.v1.MsgApproveOperatorRecovery'', validatorgov_MsgApproveOperatorRecovery),
    (''/blockchain.validatorgov.v1.MsgCancelOperatorRotation'', validatorgov_MsgCancelOperatorRotation),
    (''/blockchain.validatorgov.v1.MsgAttestOwnership'', validatorgov_MsgAttestOwnership),
    (''/blockchain.validatorgov.v1.MsgSetValidatorPower'', validatorgov_MsgSetValidatorPower),
    (''/blockchain.constitution.v1.MsgProposeAmendment'', constitution_MsgProposeAmendment),
    (''/blockchain.constitution.v1.MsgRatifyAmendment'', constitution_MsgRatifyAmendment),
    (''/blockchain.constitution.v1.MsgWithdrawAmendment'', constitution_MsgWithdrawAmendment),
    (''/blockchain.builderfee.v1.MsgRegisterBuilder'', builderfee_MsgRegisterBuilder),
    (''/blockchain.builderfee.v1.MsgApproveBuilder'', builderfee_MsgApproveBuilder),
    (''/blockchain.netting.v1.MsgPostReserve'', netting_MsgPostReserve),
    (''/blockchain.netting.v1.MsgWithdrawReserve'', netting_MsgWithdrawReserve),
    (''/blockchain.netting.v1.MsgSubmitObligation'', netting_MsgSubmitObligation),
    (''/blockchain.tokenisation.v1.MsgCreateCollection'', tokenisation_MsgCreateCollection),
    (''/blockchain.tokenisation.v1.MsgSetCollectionAuthority'', tokenisation_MsgSetCollectionAuthority),
    (''/blockchain.tokenisation.v1.MsgMintAsset'', tokenisation_MsgMintAsset),
    (''/blockchain.tokenisation.v1.MsgFractionalise'', tokenisation_MsgFractionalise),
    (''/blockchain.tokenisation.v1.MsgTransferAsset'', tokenisation_MsgTransferAsset),
    (''/blockchain.tokenisation.v1.MsgFundVault'', tokenisation_MsgFundVault),
    (''/blockchain.tokenisation.v1.MsgReportSale'', tokenisation_MsgReportSale),
    (''/blockchain.tokenisation.v1.MsgAttestSale'', tokenisation_MsgAttestSale),
    (''/blockchain.tokenisation.v1.MsgDisputeSale'', tokenisation_MsgDisputeSale),
    (''/blockchain.tokenisation.v1.MsgResolveDispute'', tokenisation_MsgResolveDispute),
    (''/blockchain.tokenisation.v1.MsgClaim'', tokenisation_MsgClaim),
    (''/blockchain.tokenisation.v1.MsgRedeem'', tokenisation_MsgRedeem)]"

text \<open>
  \<open>chainRegistry\<close>: the default types first, then the chain's, a later entry for a type URL
  overriding an earlier one. \<open>pc_json\<close> is \<open>type.toJSON(type.decode(value))\<close>.
\<close>

definition chainRegistry :: "wire_lib \<Rightarrow> codecs \<Rightarrow> codecs" where
  "chainRegistry w standard = standard
    \<lparr>pc_known := (\<lambda>u. map_of CHAIN_MESSAGE_TYPES u \<noteq> None \<or> pc_known standard u),
     pc_json := (\<lambda>u bs. case map_of CHAIN_MESSAGE_TYPES u of
        None \<Rightarrow> pc_json standard u bs
      | Some fs \<Rightarrow> Option.bind (proto_decode w fs bs) (proto_toJSON fs))\<rparr>"

lemma alias_registered:
    "(''blockchain.alias.v1.MsgRegisterAlias'', alias_MsgRegisterAlias) \<in> set generated_messages"
    "(''blockchain.alias.v1.MsgRotateAlias'', alias_MsgRotateAlias) \<in> set generated_messages"
    "(''blockchain.alias.v1.MsgSetJurisdiction'', alias_MsgSetJurisdiction) \<in> set generated_messages"
    "(''blockchain.alias.v1.MsgRegisterViewingKey'', alias_MsgRegisterViewingKey) \<in> set generated_messages"
    "(''blockchain.alias.v1.MsgRevokeViewingKey'', alias_MsgRevokeViewingKey) \<in> set generated_messages"
    "(''blockchain.alias.v1.MsgAppointRegulator'', alias_MsgAppointRegulator) \<in> set generated_messages"
    "(''blockchain.alias.v1.MsgGrantAuditor'', alias_MsgGrantAuditor) \<in> set generated_messages"
  by (simp_all add: generated_messages_def alias_messages_def)

lemma amm_registered:
    "(''blockchain.amm.v1.MsgCreatePool'', amm_MsgCreatePool) \<in> set generated_messages"
    "(''blockchain.amm.v1.MsgJoinPool'', amm_MsgJoinPool) \<in> set generated_messages"
    "(''blockchain.amm.v1.MsgExitPool'', amm_MsgExitPool) \<in> set generated_messages"
    "(''blockchain.amm.v1.MsgSwap'', amm_MsgSwap) \<in> set generated_messages"
  by (simp_all add: generated_messages_def amm_messages_def)

lemma builderfee_registered:
    "(''blockchain.builderfee.v1.MsgRegisterBuilder'', builderfee_MsgRegisterBuilder) \<in> set generated_messages"
    "(''blockchain.builderfee.v1.MsgApproveBuilder'', builderfee_MsgApproveBuilder) \<in> set generated_messages"
  by (simp_all add: generated_messages_def builderfee_messages_def)

lemma constitution_registered:
    "(''blockchain.constitution.v1.MsgProposeAmendment'', constitution_MsgProposeAmendment) \<in> set generated_messages"
    "(''blockchain.constitution.v1.MsgRatifyAmendment'', constitution_MsgRatifyAmendment) \<in> set generated_messages"
    "(''blockchain.constitution.v1.MsgWithdrawAmendment'', constitution_MsgWithdrawAmendment) \<in> set generated_messages"
  by (simp_all add: generated_messages_def constitution_messages_def)

lemma enforcement_registered:
    "(''blockchain.enforcement.v1.MsgOpenCase'', enforcement_MsgOpenCase) \<in> set generated_messages"
    "(''blockchain.enforcement.v1.MsgVoteCase'', enforcement_MsgVoteCase) \<in> set generated_messages"
    "(''blockchain.enforcement.v1.MsgWithdrawCase'', enforcement_MsgWithdrawCase) \<in> set generated_messages"
    "(''blockchain.enforcement.v1.MsgSweep'', enforcement_MsgSweep) \<in> set generated_messages"
    "(''blockchain.enforcement.v1.MsgReverseCase'', enforcement_MsgReverseCase) \<in> set generated_messages"
    "(''blockchain.enforcement.v1.MsgEmergencyFreeze'', enforcement_MsgEmergencyFreeze) \<in> set generated_messages"
    "(''blockchain.enforcement.v1.MsgEmergencyRelease'', enforcement_MsgEmergencyRelease) \<in> set generated_messages"
  by (simp_all add: generated_messages_def enforcement_messages_def)

lemma feegrant_registered:
    "(''cosmos.feegrant.v1beta1.MsgGrantAllowance'', feegrant_MsgGrantAllowance) \<in> set generated_messages"
    "(''cosmos.feegrant.v1beta1.MsgRevokeAllowance'', feegrant_MsgRevokeAllowance) \<in> set generated_messages"
  by (simp_all add: generated_messages_def feegrant_messages_def)

lemma netting_registered:
    "(''blockchain.netting.v1.MsgPostReserve'', netting_MsgPostReserve) \<in> set generated_messages"
    "(''blockchain.netting.v1.MsgWithdrawReserve'', netting_MsgWithdrawReserve) \<in> set generated_messages"
    "(''blockchain.netting.v1.MsgSubmitObligation'', netting_MsgSubmitObligation) \<in> set generated_messages"
  by (simp_all add: generated_messages_def netting_messages_def)

lemma oracle_registered:
    "(''blockchain.oracle.v1.MsgSubmitExchangeRates'', oracle_MsgSubmitExchangeRates) \<in> set generated_messages"
    "(''blockchain.oracle.v1.MsgDelegateFeeder'', oracle_MsgDelegateFeeder) \<in> set generated_messages"
    "(''blockchain.oracle.v1.MsgApplyAppraiser'', oracle_MsgApplyAppraiser) \<in> set generated_messages"
    "(''blockchain.oracle.v1.MsgApproveAppraiser'', oracle_MsgApproveAppraiser) \<in> set generated_messages"
    "(''blockchain.oracle.v1.MsgRevokeAppraiser'', oracle_MsgRevokeAppraiser) \<in> set generated_messages"
    "(''blockchain.oracle.v1.MsgSubmitAppraisal'', oracle_MsgSubmitAppraisal) \<in> set generated_messages"
  by (simp_all add: generated_messages_def oracle_messages_def)

lemma paymsg_registered:
    "(''blockchain.paymsg.v1.MsgSendPayment'', paymsg_MsgSendPayment) \<in> set generated_messages"
    "(''blockchain.paymsg.v1.MsgApplyParticipant'', paymsg_MsgApplyParticipant) \<in> set generated_messages"
    "(''blockchain.paymsg.v1.MsgApproveParticipant'', paymsg_MsgApproveParticipant) \<in> set generated_messages"
    "(''blockchain.paymsg.v1.MsgRegisterCustomer'', paymsg_MsgRegisterCustomer) \<in> set generated_messages"
    "(''blockchain.paymsg.v1.MsgSetPayloadStore'', paymsg_MsgSetPayloadStore) \<in> set generated_messages"
  by (simp_all add: generated_messages_def paymsg_messages_def)

lemma stablecoin_registered:
    "(''blockchain.stablecoin.v1.MsgRegisterCurrency'', stablecoin_MsgRegisterCurrency) \<in> set generated_messages"
    "(''blockchain.stablecoin.v1.MsgMintCoin'', stablecoin_MsgMintCoin) \<in> set generated_messages"
    "(''blockchain.stablecoin.v1.MsgBurnCoin'', stablecoin_MsgBurnCoin) \<in> set generated_messages"
    "(''blockchain.stablecoin.v1.MsgApproveIssuer'', stablecoin_MsgApproveIssuer) \<in> set generated_messages"
  by (simp_all add: generated_messages_def stablecoin_messages_def)

lemma tokenisation_registered:
    "(''blockchain.tokenisation.v1.MsgCreateCollection'', tokenisation_MsgCreateCollection) \<in> set generated_messages"
    "(''blockchain.tokenisation.v1.MsgSetCollectionAuthority'', tokenisation_MsgSetCollectionAuthority) \<in> set generated_messages"
    "(''blockchain.tokenisation.v1.MsgMintAsset'', tokenisation_MsgMintAsset) \<in> set generated_messages"
    "(''blockchain.tokenisation.v1.MsgFractionalise'', tokenisation_MsgFractionalise) \<in> set generated_messages"
    "(''blockchain.tokenisation.v1.MsgTransferAsset'', tokenisation_MsgTransferAsset) \<in> set generated_messages"
    "(''blockchain.tokenisation.v1.MsgFundVault'', tokenisation_MsgFundVault) \<in> set generated_messages"
    "(''blockchain.tokenisation.v1.MsgReportSale'', tokenisation_MsgReportSale) \<in> set generated_messages"
    "(''blockchain.tokenisation.v1.MsgAttestSale'', tokenisation_MsgAttestSale) \<in> set generated_messages"
    "(''blockchain.tokenisation.v1.MsgDisputeSale'', tokenisation_MsgDisputeSale) \<in> set generated_messages"
    "(''blockchain.tokenisation.v1.MsgResolveDispute'', tokenisation_MsgResolveDispute) \<in> set generated_messages"
    "(''blockchain.tokenisation.v1.MsgClaim'', tokenisation_MsgClaim) \<in> set generated_messages"
    "(''blockchain.tokenisation.v1.MsgRedeem'', tokenisation_MsgRedeem) \<in> set generated_messages"
  by (simp_all add: generated_messages_def tokenisation_messages_def)

lemma treasury_registered:
    "(''blockchain.treasury.v1.MsgCreateTreasury'', treasury_MsgCreateTreasury) \<in> set generated_messages"
    "(''blockchain.treasury.v1.MsgDeposit'', treasury_MsgDeposit) \<in> set generated_messages"
    "(''blockchain.treasury.v1.MsgSpend'', treasury_MsgSpend) \<in> set generated_messages"
    "(''blockchain.treasury.v1.MsgCreateLock'', treasury_MsgCreateLock) \<in> set generated_messages"
    "(''blockchain.treasury.v1.MsgOpenEscrow'', treasury_MsgOpenEscrow) \<in> set generated_messages"
    "(''blockchain.treasury.v1.MsgReleaseEscrow'', treasury_MsgReleaseEscrow) \<in> set generated_messages"
    "(''blockchain.treasury.v1.MsgDisputeEscrow'', treasury_MsgDisputeEscrow) \<in> set generated_messages"
    "(''blockchain.treasury.v1.MsgResolveEscrow'', treasury_MsgResolveEscrow) \<in> set generated_messages"
    "(''blockchain.treasury.v1.MsgClaimLock'', treasury_MsgClaimLock) \<in> set generated_messages"
    "(''blockchain.treasury.v1.MsgRevokeLock'', treasury_MsgRevokeLock) \<in> set generated_messages"
    "(''blockchain.treasury.v1.MsgAssignRole'', treasury_MsgAssignRole) \<in> set generated_messages"
    "(''blockchain.treasury.v1.MsgRevokeRole'', treasury_MsgRevokeRole) \<in> set generated_messages"
    "(''blockchain.treasury.v1.MsgSetSpendPolicy'', treasury_MsgSetSpendPolicy) \<in> set generated_messages"
    "(''blockchain.treasury.v1.MsgSetPaused'', treasury_MsgSetPaused) \<in> set generated_messages"
    "(''blockchain.treasury.v1.MsgSetAdmin'', treasury_MsgSetAdmin) \<in> set generated_messages"
  by (simp_all add: generated_messages_def treasury_messages_def)

lemma validatorgov_registered:
    "(''blockchain.validatorgov.v1.MsgApplyValidator'', validatorgov_MsgApplyValidator) \<in> set generated_messages"
    "(''blockchain.validatorgov.v1.MsgApproveValidator'', validatorgov_MsgApproveValidator) \<in> set generated_messages"
    "(''blockchain.validatorgov.v1.MsgRotateOperator'', validatorgov_MsgRotateOperator) \<in> set generated_messages"
    "(''blockchain.validatorgov.v1.MsgProposeOperatorRecovery'', validatorgov_MsgProposeOperatorRecovery) \<in> set generated_messages"
    "(''blockchain.validatorgov.v1.MsgApproveOperatorRecovery'', validatorgov_MsgApproveOperatorRecovery) \<in> set generated_messages"
    "(''blockchain.validatorgov.v1.MsgCancelOperatorRotation'', validatorgov_MsgCancelOperatorRotation) \<in> set generated_messages"
    "(''blockchain.validatorgov.v1.MsgAttestOwnership'', validatorgov_MsgAttestOwnership) \<in> set generated_messages"
    "(''blockchain.validatorgov.v1.MsgSetValidatorPower'', validatorgov_MsgSetValidatorPower) \<in> set generated_messages"
  by (simp_all add: generated_messages_def validatorgov_messages_def)

lemma registered_generated: "list_all (\<lambda>(u, fs). hd u = CHR ''/'' \<and> (tl u, fs) \<in> set generated_messages) CHAIN_MESSAGE_TYPES"
  unfolding CHAIN_MESSAGE_TYPES_def
  by (simp add: alias_registered amm_registered builderfee_registered constitution_registered enforcement_registered
    feegrant_registered netting_registered oracle_registered paymsg_registered stablecoin_registered tokenisation_registered treasury_registered validatorgov_registered)

lemma registered_once: "distinct (map fst CHAIN_MESSAGE_TYPES)"
  by (simp add: CHAIN_MESSAGE_TYPES_def)

lemma registered_good: "(u, fs) \<in> set CHAIN_MESSAGE_TYPES \<Longrightarrow> good_schema fs"
  using registered_generated generated_good by (fastforce simp: list_all_iff)

lemma registered_dateless: "list_all (\<lambda>(u, fs). dateless (Sub fs)) CHAIN_MESSAGE_TYPES"
  by (simp add: CHAIN_MESSAGE_TYPES_def alias_schemas amm_schemas builderfee_schemas constitution_schemas cosmos_schemas
    enforcement_schemas feegrant_schemas google_schemas netting_schemas oracle_schemas paymsg_schemas stablecoin_schemas
    tokenisation_schemas treasury_schemas validatorgov_schemas)

text \<open>A vote on an enforcement case, as bytes: the messages of the witnesses.\<close>

definition sample_vote :: message where
  "sample_vote = [(''voter'', I_text ''yml1v''), (''caseId'', I_text ''300''), (''option'', I_num (num_of_int 2))]"

lemma digits_300: "show_int 300 = ''300''" by code_simp

lemma sample_vote_typed: "typed_message enforcement_MsgVoteCase sample_vote" "named_message enforcement_MsgVoteCase sample_vote"
proof -
  note d = digits_300 [symmetric]
  show "typed_message enforcement_MsgVoteCase sample_vote"
    unfolding sample_vote_def d
    by (simp add: typed_message_def typed_scalar_def enforcement_MsgVoteCase_def enforcement_VoteOption_def prop_of_def number_in_of digits_in_of)
  show "named_message enforcement_MsgVoteCase sample_vote"
    by (simp add: sample_vote_def named_message_def named_scalar_def enforcement_MsgVoteCase_def enforcement_VoteOption_def prop_of_def
      int_of_num_holds [OF num_of_int_exact])
qed

lemma sample_vote_bytes:
  "proto_encode varint_wire enforcement_MsgVoteCase sample_vote = Some [10, 5, 121, 109, 108, 49, 118, 16, 172, 2, 24, 2]"
proof -
  have "big_int ''300'' = Some 300" using big_int_show [of 300] by (simp only: digits_300)
  then show ?thesis
    by (simp add: sample_vote_def enforcement_MsgVoteCase_def enforcement_VoteOption_def prop_of_def concat_some_Cons enc_scalar_def
      is_default_def write_scalar_def varint_wire_simps num_eq_int delimited_def utf8_bytes_def varint.simps to_bits_def)
qed

section \<open>Properties\<close>

text \<open>
  C6. Every message of the generated tree, given with a value for each field that fits the field's width,
  is encoded, and its decoder reads exactly that message back from the bytes (below 4 GiB). This holds
  for every protobuf library with the documented laws.
\<close>

theorem generated_codecs_read_back:
  assumes "protobuf w" and "(u, fs) \<in> set generated_messages" and "typed_message fs m"
  shows "\<exists>b. proto_encode w fs m = Some b \<and> (length b < 2 ^ 32 \<longrightarrow> proto_decode w fs b = Some m)"
  using protobuf.message_written [OF assms(1,3)] protobuf.message_back [OF assms(1) generated_good [OF assms(2)] assms(3)]
  by blast

text \<open>
  C3. The approval screen shows all of a chain message whose enum numbers are constants of their enums: from
  the JSON that the registry's decoder makes of its bytes, the message can be read back, so two different
  such messages are never shown alike. A number that is no constant is shown as \<open>UNRECOGNIZED\<close> whatever it
  is.
\<close>

theorem approval_shows_the_message:
  assumes "protobuf w" and "map_of CHAIN_MESSAGE_TYPES u = Some fs" and "typed_message fs m" and "named_message fs m"
    and "proto_encode w fs m = Some b" and "length b < 2 ^ 32"
  shows "\<exists>j. pc_json (chainRegistry w standard) u b = Some j \<and> proto_fromJSON host fs j = Some m"
proof -
  have good: "good_schema fs" using assms(2) by (intro registered_good map_of_SomeD)
  obtain j where j: "proto_toJSON fs m = Some j" using message_has_json assms(3) by blast
  show ?thesis
    using protobuf.message_back [OF assms(1) good assms(3,5,6)] json_message_back [OF good assms(3,4) j] j assms(2)
    by (simp add: chainRegistry_def)
qed

text \<open>The qualification is needed: two votes that differ in an unknown option alone have one JSON.\<close>

lemma unknown_enums_are_shown_alike:
  "proto_toJSON enforcement_MsgVoteCase [(''voter'', I_text ''yml1v''), (''caseId'', I_text ''7''), (''option'', I_num (num_of_int 8))] =
   proto_toJSON enforcement_MsgVoteCase [(''voter'', I_text ''yml1v''), (''caseId'', I_text ''7''), (''option'', I_num (num_of_int 9))]"
  by code_simp

text \<open>
  The registry pairs each type URL with one codec, the generated one of the message the URL names.
\<close>

theorem registry_names_its_codecs:
  assumes "(u, fs) \<in> set CHAIN_MESSAGE_TYPES"
  shows "map_of CHAIN_MESSAGE_TYPES u = Some fs \<and> (\<exists>n. u = ''/'' @ n \<and> (n, fs) \<in> set generated_messages)"
proof -
  have "hd u = CHR ''/''" "(tl u, fs) \<in> set generated_messages" using registered_generated assms by (auto simp: list_all_iff)
  moreover have "u \<noteq> []" using assms by (auto simp: CHAIN_MESSAGE_TYPES_def)
  ultimately have "u = ''/'' @ tl u" by (cases u) simp_all
  then show ?thesis using assms registered_once \<open>(tl u, fs) \<in> set generated_messages\<close> by auto
qed

text \<open>
  C10. A decoder returns or throws on every input: on no bytes an application can send does the loop of a
  message, or of a message nested in it, run for more turns than there are bytes. A decoder that gives no
  message has therefore thrown.
\<close>

theorem decoders_return:
  assumes "protobuf w" and "length bs < turns"
  shows "run_decode turns w fs bs \<noteq> Running \<and> proto_decode w fs bs = returned (run_decode turns w fs bs)"
  by (rule protobuf.decoder_ends [OF assms])

text \<open>
  C5. Whatever the bytes, what a registered decoder returns is a message of its type, with every field
  there and every number within its width, and its JSON exists, so the approval screen fails on no
  message that decodes.
\<close>

theorem decoded_messages_are_typed:
  assumes "protobuf w" and "map_of CHAIN_MESSAGE_TYPES u = Some fs" and "proto_decode w fs bs = Some m"
  shows "typed_message fs m \<and> (\<exists>j. pc_json (chainRegistry w standard) u bs = Some j)"
proof -
  have r: "(u, fs) \<in> set CHAIN_MESSAGE_TYPES" using assms(2) by (rule map_of_SomeD)
  have "dateless (Sub fs)" using r registered_dateless by (auto simp: list_all_iff)
  then have t: "typed_message fs m" by (rule protobuf.decoded_typed [OF assms(1) registered_good [OF r] _ assms(3)])
  then show ?thesis using message_has_json [OF t] assms(2,3) by (simp add: chainRegistry_def)
qed

section \<open>Witnesses\<close>

lemma vote_registered: "map_of CHAIN_MESSAGE_TYPES ''/blockchain.enforcement.v1.MsgVoteCase'' = Some enforcement_MsgVoteCase"
  by (simp add: CHAIN_MESSAGE_TYPES_def)

theorem generated_codecs_read_back_witness:
  "\<exists>b. proto_encode varint_wire enforcement_MsgVoteCase sample_vote = Some b \<and>
     (length b < 2 ^ 32 \<longrightarrow> proto_decode varint_wire enforcement_MsgVoteCase b = Some sample_vote)"
  by (rule generated_codecs_read_back [OF pb.protobuf_axioms enforcement_registered(2) sample_vote_typed(1)])

theorem approval_shows_the_message_witness:
  "\<exists>j. pc_json (chainRegistry varint_wire \<lparr>pc_known = (\<lambda>_. False), pc_json = (\<lambda>_ _. None), pc_body = (\<lambda>_. Inl []), pc_auth = (\<lambda>_. None)\<rparr>)
       ''/blockchain.enforcement.v1.MsgVoteCase'' [10, 5, 121, 109, 108, 49, 118, 16, 172, 2, 24, 2] = Some j \<and>
     proto_fromJSON (\<lambda>_. None) enforcement_MsgVoteCase j = Some sample_vote"
  by (rule approval_shows_the_message [OF pb.protobuf_axioms vote_registered sample_vote_typed sample_vote_bytes]) simp

theorem registry_names_its_codecs_witness:
  "map_of CHAIN_MESSAGE_TYPES ''/blockchain.enforcement.v1.MsgVoteCase'' = Some enforcement_MsgVoteCase \<and>
   (\<exists>n. ''/blockchain.enforcement.v1.MsgVoteCase'' = ''/'' @ n \<and> (n, enforcement_MsgVoteCase) \<in> set generated_messages)"
  by (rule registry_names_its_codecs [OF map_of_SomeD [OF vote_registered]])

theorem decoders_return_witness:
  "run_decode 4 varint_wire enforcement_MsgVoteCase [10, 255, 255] \<noteq> Running \<and>
   proto_decode varint_wire enforcement_MsgVoteCase [10, 255, 255] = returned (run_decode 4 varint_wire enforcement_MsgVoteCase [10, 255, 255])"
  by (rule decoders_return [OF pb.protobuf_axioms]) simp

theorem decoded_messages_are_typed_witness:
  "typed_message enforcement_MsgVoteCase sample_vote \<and>
   (\<exists>j. pc_json (chainRegistry varint_wire \<lparr>pc_known = (\<lambda>_. False), pc_json = (\<lambda>_ _. None), pc_body = (\<lambda>_. Inl []), pc_auth = (\<lambda>_. None)\<rparr>)
       ''/blockchain.enforcement.v1.MsgVoteCase'' [10, 5, 121, 109, 108, 49, 118, 16, 172, 2, 24, 2] = Some j)"
  by (rule decoded_messages_are_typed [OF pb.protobuf_axioms vote_registered
      protobuf.message_back [OF pb.protobuf_axioms registered_good [OF map_of_SomeD [OF vote_registered]] sample_vote_typed(1) sample_vote_bytes]]) simp

end
