(* ===== verification/Regex.thy ===== *)
theory Regex imports Text begin

text \<open>
  The part of JavaScript's regular expressions the SDK uses, with the case-insensitive flag: literals,
  classes, repeated classes (greedy or lazy), capturing groups, alternatives in order and word
  boundaries. \<open>re_run\<close> gives the ways to match at a place, in the order the engine tries them, so the
  first is the match. Characters outside ASCII are neither space nor line end here.
\<close>

datatype re =
    R_lit string
  | R_one "char \<Rightarrow> bool"
  | R_many "char \<Rightarrow> bool" nat bool
  | R_seq "re list"
  | R_alt "re list"
  | R_cap re
  | R_edge

definition is_space :: "char \<Rightarrow> bool" where
  "is_space c \<longleftrightarrow> c \<in> {CHR 0x09, CHR 0x0A, CHR 0x0B, CHR 0x0C, CHR 0x0D, CHR '' ''}"

definition not_space :: "char \<Rightarrow> bool" where
  "not_space c \<longleftrightarrow> \<not> is_space c"

definition not_newline :: "char \<Rightarrow> bool" where
  "not_newline c \<longleftrightarrow> c \<noteq> CHR 0x0A \<and> c \<noteq> CHR 0x0D"

definition is_word :: "char \<Rightarrow> bool" where
  "is_word c \<longleftrightarrow> is_digit c \<or> c \<in> set upper_alphabet \<or> c \<in> set lower_alphabet \<or> c = CHR ''_''"

text \<open>
  A place in the text: the character before it, the rest of the text, and the groups captured so far.
\<close>

type_synonym re_state = "char option \<times> string \<times> string list"

definition step_over :: "nat \<Rightarrow> re_state \<Rightarrow> re_state" where
  "step_over n st = (case st of (b, s, c) \<Rightarrow> (if n = 0 then b else Some (s ! (n - 1)), drop n s, c))"

fun re_run :: "re \<Rightarrow> re_state \<Rightarrow> re_state list"
  and re_seq :: "re list \<Rightarrow> re_state \<Rightarrow> re_state list"
  and re_alt :: "re list \<Rightarrow> re_state \<Rightarrow> re_state list" where
  "re_run (R_lit p) st =
    (if length p \<le> length (fst (snd st)) \<and> to_lower (take (length p) (fst (snd st))) = to_lower p then [step_over (length p) st] else [])"
| "re_run (R_one P) st = (case fst (snd st) of [] \<Rightarrow> [] | c # _ \<Rightarrow> if P c then [step_over 1 st] else [])"
| "re_run (R_many P n lazy) st =
    (let ns = [n..<Suc (length (takeWhile P (fst (snd st))))] in map (\<lambda>k. step_over k st) (if lazy then ns else rev ns))"
| "re_run (R_seq rs) st = re_seq rs st"
| "re_run (R_alt rs) st = re_alt rs st"
| "re_run (R_cap r) st =
    map (\<lambda>(b, s, c). (b, s, c @ [take (length (fst (snd st)) - length s) (fst (snd st))])) (re_run r st)"
| "re_run R_edge st =
    (let before = (case fst st of None \<Rightarrow> False | Some c \<Rightarrow> is_word c); after = (case fst (snd st) of [] \<Rightarrow> False | c # _ \<Rightarrow> is_word c) in
     if before \<noteq> after then [st] else [])"
| "re_seq [] st = [st]"
| "re_seq (r # rs) st = concat (map (re_seq rs) (re_run r st))"
| "re_alt [] st = []"
| "re_alt (r # rs) st = re_run r st @ re_alt rs st"

text \<open>\<open>exec\<close>: the leftmost match, as its captured groups.\<close>

fun re_from :: "re \<Rightarrow> char option \<Rightarrow> string \<Rightarrow> string list option" where
  "re_from r b s =
    (case re_run r (b, s, []) of
       (_, _, c) # _ \<Rightarrow> Some c
     | [] \<Rightarrow> (case s of [] \<Rightarrow> None | x # t \<Rightarrow> re_from r (Some x) t))"

declare re_from.simps [simp del]

definition re_exec :: "re \<Rightarrow> string \<Rightarrow> string list option" where
  "re_exec r s = re_from r None s"

text \<open>A text has a phrase when the phrase is in it in some mix of cases.\<close>

definition has_phrase :: "string \<Rightarrow> string \<Rightarrow> bool" where
  "has_phrase p s \<longleftrightarrow> (\<exists>u q v. s = u @ q @ v \<and> to_lower q = to_lower p)"

lemma lit_runs: "to_lower q = to_lower p \<Longrightarrow> re_run (R_lit p) (b, q @ v, c) \<noteq> []"
proof -
  assume e: "to_lower q = to_lower p"
  have "length q = length p" using arg_cong [OF e, of length] by (simp add: to_lower_def)
  then show ?thesis using e by simp
qed

lemma alt_runs: "r \<in> set rs \<Longrightarrow> re_run r st \<noteq> [] \<Longrightarrow> re_run (R_alt rs) st \<noteq> []"
  by (induction rs) auto

lemma from_found: "(\<And>b. re_run r (b, v, []) \<noteq> []) \<Longrightarrow> re_from r b (u @ v) \<noteq> None"
proof (induction u arbitrary: b)
  case Nil
  then show ?case by (subst re_from.simps) (auto split: list.splits)
next
  case (Cons x u)
  then show ?case by (subst re_from.simps) (auto split: list.splits)
qed

lemma phrase_found: "has_phrase p s \<Longrightarrow> re_exec (R_lit p) s \<noteq> None"
  using from_found [where r = "R_lit p", OF lit_runs] by (fastforce simp: has_phrase_def re_exec_def)

lemma phrase_found_alt: "has_phrase p s \<Longrightarrow> R_lit p \<in> set rs \<Longrightarrow> re_exec (R_alt rs) s \<noteq> None"
proof -
  assume "has_phrase p s" and r: "R_lit p \<in> set rs"
  then obtain u q v where s: "s = u @ q @ v" "to_lower q = to_lower p" by (auto simp: has_phrase_def)
  have "re_run (R_alt rs) (b, q @ v, []) \<noteq> []" for b by (rule alt_runs [OF r lit_runs [OF s(2)]])
  then show ?thesis using from_found [where r = "R_alt rs"] s(1) by (simp add: re_exec_def)
qed

lemma phrase_part: "has_phrase (a @ p @ b) s \<Longrightarrow> has_phrase p s"
proof -
  assume "has_phrase (a @ p @ b) s"
  then obtain u q v where s: "s = u @ q @ v" "to_lower q = to_lower (a @ p @ b)" by (auto simp: has_phrase_def)
  have l: "length q = length a + length p + length b" using arg_cong [OF s(2), of length] by (simp add: to_lower_def)
  have "take (length p) (drop (length a) (to_lower q)) = to_lower p" using s(2) by (simp add: to_lower_def)
  then have "to_lower (take (length p) (drop (length a) q)) = to_lower p" by (simp add: to_lower_def take_map drop_map)
  moreover have "q = take (length a) q @ take (length p) (drop (length a) q) @ drop (length p) (drop (length a) q)"
    by (simp only: append_take_drop_id)
  then have "s = (u @ take (length a) q) @ take (length p) (drop (length a) q) @ (drop (length p) (drop (length a) q) @ v)"
    using s(1) by (metis append_assoc)
  ultimately show ?thesis unfolding has_phrase_def by blast
qed

end
