(* ===== verification/Errors.thy ===== *)
theory Errors imports Regex Format JsValue begin

text \<open>
  What the interfaces say of a failure (\<open>clients/sdk/src/errors.ts\<close>): an ordered table of patterns, the
  first that matches deciding the message, and the raw text kept.
\<close>

section \<open>The table\<close>

record translated =
  te_message :: string
  te_reason :: "string option"
  te_next :: "string option"
  te_raw :: string
  te_retryable :: bool

text \<open>A rule: its pattern, and from the captured groups the message, the reason, the next step and whether to retry.\<close>

type_synonym error_rule = "re \<times> (string list \<Rightarrow> string \<times> string \<times> string \<times> bool)"

definition cap :: "string list \<Rightarrow> nat \<Rightarrow> string" where
  "cap m n = (if n < length m then m ! n else ''undefined'')"

definition QUOTE :: string where "QUOTE = [CHR 0x27]"

definition rule_1 :: error_rule where
  "rule_1 =
    (R_alt [R_lit ''failed to fetch'', R_lit ''networkerror'', R_lit ''network request failed'', R_lit
      ''load failed'', R_seq [R_lit ''err_'', R_alt [R_lit ''connection'', R_lit ''network'', R_lit
      ''name_not_resolved'']]],
    (\<lambda>m. (''The node could not be reached'',
    (''The request never arrived. That is a fault between this device and the node '' @ EM_DASH @
      '' nothing on the chain has changed, and nothing shown as missing is known to be missing.''),
    ''Check the connection and try again.'', True)))"

definition rule_2 :: error_rule where
  "rule_2 =
    (R_alt [R_seq [R_lit ''request failed with '', R_cap (R_seq [R_lit ''5'', R_one is_digit, R_one is_digit])],
      R_seq [R_edge, R_alt [R_lit ''502'', R_lit ''503'', R_lit ''504''], R_lit '' '', R_alt [R_lit
      ''bad gateway'', R_lit ''service unavailable'', R_seq [R_lit ''gateway time'', R_alt [R_lit ''-'', R_seq
      []], R_lit ''out'']]]],
    (\<lambda>m. (''The node is not answering'',
    (''It replied '' @ (if m = [] then ''with a server error'' else cap m 0) @
      '' rather than with data. The chain itself may be perfectly healthy; this particular node is not serving.''),
    ''Try again shortly, or point this interface at another node.'', True)))"

definition rule_3 :: error_rule where
  "rule_3 =
    (R_alt [R_seq [R_lit ''request failed with 40'', R_one (\<lambda>c. to_lower_char c \<in> set ''13'')], R_seq
      [R_lit ''unauthori'', R_one (\<lambda>c. to_lower_char c \<in> set ''sz''), R_lit ''ed request''], R_lit
      ''forbidden''],
    (\<lambda>m. (''This node refuses that query'',
    ''The node answered, but its gateway does not expose this endpoint to the public. It is a configuration decision, not a fault in the data.'',
    ''Ask whoever runs the node to allow this query, or use a node that serves it.'', False)))"

definition rule_4 :: error_rule where
  "rule_4 =
    (R_lit ''request failed with 404'',
    (\<lambda>m. (''There is no such record'',
    ''The node answered, and it holds nothing under that identifier.'',
    ''Check the number or the address.'', False)))"

definition rule_5 :: error_rule where
  "rule_5 =
    (R_alt [R_lit ''aborted'', R_lit ''timeout'', R_lit ''timed out''],
    (\<lambda>m. (''The node took too long'',
    ''The request was given up on before an answer came back.'',
    ''Try again.'', True)))"

definition rule_6 :: error_rule where
  "rule_6 =
    (R_alt [R_lit ''fee-grant not found'', R_lit ''allow to pay fees for''],
    (\<lambda>m. (''No fee allowance'',
    (''This transaction asked another account to pay its network fee, but that account has not granted an allowance ''
      @ EM_DASH @ '' or the allowance has run out or expired.''),
    ''Ask the sponsoring institution to grant an allowance, or pay the fee from this account directly.'', False)))"

definition rule_7 :: error_rule where
  "rule_7 =
    (R_seq [R_lit ''spendable balance 0uyml is smaller than '', R_cap (R_many (\<lambda>c. not_space c \<and> c
      \<noteq> CHR '':'') 1 False)],
    (\<lambda>m. (''No YML for the network fee'',
    (''This account holds no YML, and the network fee is '' @ cap m 0 @
      ''. Its balances in other currencies cannot pay it.''),
    ''Have the account sponsored with a fee allowance, or send it a small amount of YML.'', False)))"

definition rule_8 :: error_rule where
  "rule_8 =
    (R_seq [R_lit ''insufficient funds: insufficient account funds; '', R_cap (R_many not_space 1 False), R_lit
      '' is smaller than '', R_cap (R_many not_space 1 False)],
    (\<lambda>m. (''Not enough funds'',
    (''This account holds '' @ cap m 0 @ '' but the transaction needs '' @ cap m 1 @
      '', including the network fee.''),
    ''Reduce the amount, or top up the account.'', False)))"

definition rule_9 :: error_rule where
  "rule_9 =
    (R_alt [R_lit ''does not exist on chain'', R_seq [R_lit ''account '', R_many not_newline 0 False, R_lit
      '' not found: key not found'']],
    (\<lambda>m. (''This account has never received anything'',
    ''The chain has no record of it yet. An account comes into existence when money first arrives, so until then it cannot send.'',
    ''Have somebody send it any amount, or claim test funds, and then try again.'', False)))"

definition rule_10 :: error_rule where
  "rule_10 =
    (R_lit ''insufficient funds'',
    (\<lambda>m. (''Not enough funds'',
    ''The account does not hold enough to cover the amount and the network fee.'',
    ''Reduce the amount, or top up the account.'', False)))"

definition rule_11 :: error_rule where
  "rule_11 =
    (R_seq [R_lit ''treasury '', R_many is_digit 1 False, R_lit '' has '', R_cap (R_many not_space 1 False), R_lit
      '' available'', R_many not_newline 0 False, R_lit ''needs '', R_cap (R_many not_space 1 False)],
    (\<lambda>m. (''Not enough available in the treasury'',
    (cap m 0 @ '' is available to spend and '' @ cap m 1 @
      '' was requested. Funds committed to a vesting or lock schedule cannot be spent by anyone.''),
    ''Spend a smaller amount, or cancel a revocable commitment to free funds.'', False)))"

definition rule_12 :: error_rule where
  "rule_12 =
    (R_lit ''spend exceeds the policy limit'',
    (\<lambda>m. (''Over the spending limit'',
    ''This treasury has a limit on how much may be paid out per transaction or per period.'',
    ''Wait for the period to reset, split the payment, or ask an administrator to raise the limit.'', True)))"

definition rule_13 :: error_rule where
  "rule_13 =
    (R_alt [R_lit ''destination is not permitted'', R_seq [R_lit ''not on '', R_many not_newline 0 False, R_lit
      '' allowlist''], R_seq [R_lit ''on '', R_many not_newline 0 False, R_lit '' blocklist'']],
    (\<lambda>m. (''Recipient not permitted'',
    ''This treasury only pays out to approved destinations, and this one is not on the list.'',
    ''Ask an administrator to add the recipient to the allowlist.'', False)))"

definition rule_14 :: error_rule where
  "rule_14 =
    (R_lit ''treasury is paused'',
    (\<lambda>m. (''This treasury is frozen'',
    ''Someone with emergency access has paused it, so no funds can move in or out.'',
    ''Contact a treasury administrator.'', True)))"

definition rule_15 :: error_rule where
  "rule_15 =
    (R_alt [R_lit ''nothing has vested yet'', R_lit ''has nothing available at this time''],
    (\<lambda>m. (''Nothing to claim yet'',
    ''None of this commitment has become available under its schedule.'',
    ''Check the schedule for when the next portion unlocks.'', True)))"

definition rule_16 :: error_rule where
  "rule_16 =
    (R_alt [R_lit ''is not the approved issuer'', R_lit ''has no approved issuer''],
    (\<lambda>m. (''Not authorised to issue this currency'',
    ''Only the issuer that governance approved for this currency may create or redeem it.'',
    ''Use the approved issuer account, or apply for issuing rights.'', False)))"

definition rule_17 :: error_rule where
  "rule_17 =
    (R_lit ''is not approved by governance; submit a MsgApplyValidator'',
    (\<lambda>m. (''This validator has not been approved'',
    ''The chain only accepts validators that governance has voted to admit.'',
    ''Submit a validator application and wait for the vote.'', False)))"

definition rule_18 :: error_rule where
  "rule_18 =
    (R_alt [R_lit ''is not approved'', R_lit ''not an approved participant''],
    (\<lambda>m. (''Not an approved participant'',
    ''Payments must be routed through institutions that governance has approved.'',
    ''Use an approved institution, or apply for approval.'', False)))"

definition rule_19 :: error_rule where
  "rule_19 =
    (R_alt [R_seq [R_lit ''a payment with '', R_many not_newline 0 False, R_lit ''end-to-end id '', R_many
      not_newline 0 False, R_lit '' already exists''], R_lit ''already exists''],
    (\<lambda>m. (''This has already been recorded'',
    ''A payment with the same reference has already been settled. References are unique so a payment cannot be made twice by accident.'',
    ''Use a new reference if this is genuinely a separate payment.'', False)))"

definition rule_20 :: error_rule where
  "rule_20 =
    (R_alt [R_lit ''swap output is below the minimum requested'', R_lit ''slippage''],
    (\<lambda>m. (''The price moved'',
    ''The trade would return less than the minimum you accepted, so it was cancelled rather than filled at a worse rate.'',
    ''Try again at the current price, or allow more slippage.'', True)))"

definition rule_21 :: error_rule where
  "rule_21 =
    (R_seq [R_lit ''account sequence mismatch, expected '', R_cap (R_many is_digit 1 False), R_lit '', got '',
      R_cap (R_many is_digit 1 False)],
    (\<lambda>m. (''Transactions arrived out of order'',
    (''The chain expected transaction number '' @ cap m 0 @ '' but received '' @ cap m 1 @
      ''. This usually means an earlier transaction is still pending.''),
    ''Wait a moment and try again.'', True)))"

definition rule_22 :: error_rule where
  "rule_22 =
    (R_alt [R_lit ''out of gas'', R_lit ''gas limit'', R_lit ''insufficient fee''],
    (\<lambda>m. (''The network fee was too low'',
    ''This transaction needed more work than the fee covered.'',
    (''Try again '' @ EM_DASH @ '' the fee will be re-estimated.''), True)))"

definition rule_23 :: error_rule where
  "rule_23 =
    (R_alt [R_lit ''tx already exists in cache'', R_lit ''tx already in mempool''],
    (\<lambda>m. (''Already submitted'',
    ''This exact transaction is already waiting to be included.'',
    ''Wait for it to confirm rather than sending it again.'', False)))"

definition rule_24 :: error_rule where
  "rule_24 =
    (R_alt [R_lit ''unauthorized'', R_lit ''is not authorized'', R_lit ''signer is not''],
    (\<lambda>m. (''Not allowed'',
    ''This account does not have permission to do that.'',
    ''Use an account with the right role, or ask an administrator to grant it.'', False)))"

definition rule_25 :: error_rule where
  "rule_25 =
    (R_seq [R_lit ''load group policy: '', R_cap (R_many not_space 1 True), R_alt [R_lit '':'', R_seq []], R_lit
      '' not found''],
    (\<lambda>m. (''That is not a shared account'',
    (''The chain has no group policy at '' @ truncateAddress (cap m 0) @
      ''. A proposal must name the policy address of the group that will decide it, which is not the same as any member''
      @ QUOTE @ ''s own address '' @ EM_DASH @ '' and not the same as the treasury'' @ QUOTE @ ''s id either.''),
    (''Use the group'' @ QUOTE @
      ''s policy address: it is the account the treasury is administered by, shown as the admin on the treasury''
      @ QUOTE @ ''s page.''), False)))"

definition rule_26 :: error_rule where
  "rule_26 =
    (R_lit ''not found'',
    (\<lambda>m. (''Not found'',
    ''The thing this transaction refers to does not exist.'',
    ''Check the reference and try again.'', False)))"


definition RULES :: "error_rule list" where
  "RULES = [rule_1, rule_2, rule_3, rule_4, rule_5, rule_6, rule_7, rule_8, rule_9, rule_10, rule_11, rule_12, rule_13, rule_14, rule_15, rule_16, rule_17, rule_18, rule_19, rule_20, rule_21, rule_22, rule_23, rule_24, rule_25, rule_26]"

section \<open>Translating\<close>

fun first_rule :: "error_rule list \<Rightarrow> string \<Rightarrow> translated option" where
  "first_rule [] txt = None"
| "first_rule ((pat, say) # rules) txt =
    (case re_exec pat txt of
       Some m \<Rightarrow> (case say m of (message, reason, nextStep, retryable) \<Rightarrow>
         Some \<lparr>te_message = message, te_reason = Some reason, te_next = Some nextStep, te_raw = txt, te_retryable = retryable\<rparr>)
     | None \<Rightarrow> first_rule rules txt)"

definition translateError :: "string option \<Rightarrow> translated" where
  "translateError raw =
    (let txt = trim (case raw of None \<Rightarrow> [] | Some r \<Rightarrow> r) in
     if txt = [] then \<lparr>te_message = ''Something went wrong'', te_reason = None, te_next = None, te_raw = [], te_retryable = True\<rparr>
     else case first_rule RULES txt of
       Some t \<Rightarrow> t
     | None \<Rightarrow> \<lparr>te_message = ''The transaction was rejected'', te_reason = Some txt,
         te_next = Some ''If this keeps happening, quote the details below to support.'', te_raw = txt, te_retryable = False\<rparr>)"

definition describeTxResult :: "jsnum \<Rightarrow> string option \<Rightarrow> bool \<times> translated option" where
  "describeTxResult code rawLog = (if num_eq code (num_of_int 0) then (True, None) else (False, Some (translateError rawLog)))"

section \<open>Properties\<close>

lemma first_rule_raw: "first_rule rules txt = Some t \<Longrightarrow> te_raw t = txt"
  by (induction rules) (auto split: option.splits prod.splits)

lemma first_rule_hit: "first_rule rules txt = Some t \<Longrightarrow> \<exists>pat say m. (pat, say) \<in> set rules \<and> re_exec pat txt = Some m \<and>
    te_message t = fst (say m) \<and> te_reason t \<noteq> None \<and> te_next t \<noteq> None"
proof (induction rules)
  case Nil
  then show ?case by simp
next
  case (Cons a rules)
  obtain pat say where a: "a = (pat, say)" by (cases a)
  show ?case
  proof (cases "re_exec pat txt")
    case None
    then have "first_rule rules txt = Some t" using Cons.prems a by simp
    from Cons.IH [OF this] obtain p f m where "(p, f) \<in> set rules" "re_exec p txt = Some m"
      "te_message t = fst (f m)" "te_reason t \<noteq> None" "te_next t \<noteq> None" by blast
    then show ?thesis by (meson list.set_intros(2))
  next
    case (Some m)
    then have "(pat, say) \<in> set (a # rules) \<and> te_message t = fst (say m) \<and> te_reason t \<noteq> None \<and> te_next t \<noteq> None"
      using Cons.prems a by (cases "say m") auto
    then show ?thesis using Some by blast
  qed
qed

lemma first_rule_none: "first_rule rules txt = None \<longleftrightarrow> (\<forall>(pat, say) \<in> set rules. re_exec pat txt = None)"
  by (induction rules) (auto split: option.splits prod.splits)

lemma first_rule_append:
  "first_rule (rs @ qs) txt = (case first_rule rs txt of None \<Rightarrow> first_rule qs txt | Some t \<Rightarrow> Some t)"
  by (induction rs) (auto split: option.splits prod.splits)

definition before_cache :: "error_rule list" where
  "before_cache = [rule_1, rule_2, rule_3, rule_4, rule_5, rule_6, rule_7, rule_8, rule_9, rule_10, rule_11, rule_12,
     rule_13, rule_14, rule_15, rule_16, rule_17, rule_18, rule_19]"

lemma RULES_split: "RULES = before_cache @ [rule_20, rule_21, rule_22, rule_23, rule_24, rule_25, rule_26]"
  by (simp add: RULES_def before_cache_def)

lemma before_cache_says: "(pat, say) \<in> set before_cache \<Longrightarrow> fst (say m) \<noteq> ''Already submitted''"
  by (auto simp: before_cache_def rule_1_def rule_2_def rule_3_def rule_4_def rule_5_def rule_6_def rule_7_def rule_8_def
    rule_9_def rule_10_def rule_11_def rule_12_def rule_13_def rule_14_def rule_15_def rule_16_def rule_17_def rule_18_def rule_19_def)

text \<open>
  C37. A failure is never reported without its text: the raw error, less surrounding space, is always kept;
  what no rule knows is shown verbatim with a next step; and a result is a success exactly when its code
  is zero, every other carrying a translated error.
\<close>

theorem no_error_is_swallowed:
  "te_raw (translateError raw) = trim (case raw of None \<Rightarrow> [] | Some r \<Rightarrow> r) \<and>
   (trim r \<noteq> [] \<and> (\<forall>(pat, say) \<in> set RULES. re_exec pat (trim r) = None) \<longrightarrow>
      te_reason (translateError (Some r)) = Some (trim r) \<and> te_next (translateError (Some r)) \<noteq> None \<and> \<not> te_retryable (translateError (Some r))) \<and>
   (trim r \<noteq> [] \<longrightarrow> te_reason (translateError (Some r)) \<noteq> None \<and> te_next (translateError (Some r)) \<noteq> None) \<and>
   (fst (describeTxResult code raw) \<longleftrightarrow> num_eq code (num_of_int 0)) \<and>
   snd (describeTxResult code raw) = (if num_eq code (num_of_int 0) then None else Some (translateError raw))"
proof -
  have "te_raw (translateError raw) = trim (case raw of None \<Rightarrow> [] | Some r \<Rightarrow> r)"
    using first_rule_raw by (auto simp: translateError_def Let_def split: option.splits)
  moreover have "te_reason (translateError (Some r)) \<noteq> None \<and> te_next (translateError (Some r)) \<noteq> None" if "trim r \<noteq> []"
    using that first_rule_hit [of RULES "trim r"] by (cases "first_rule RULES (trim r)") (auto simp: translateError_def Let_def)
  moreover have "te_reason (translateError (Some r)) = Some (trim r) \<and> \<not> te_retryable (translateError (Some r))"
    if "trim r \<noteq> []" "\<forall>(pat, say) \<in> set RULES. re_exec pat (trim r) = None"
  proof -
    have "first_rule RULES (trim r) = None" unfolding first_rule_none by (rule that(2))
    then show ?thesis using that(1) by (simp add: translateError_def Let_def)
  qed
  ultimately show ?thesis by (auto simp: describeTxResult_def)
qed

text \<open>
  C38. A transaction the node already holds is never reported as already submitted: a log that says "tx
  already exists in cache" is caught by an earlier rule, which says a payment with the same reference has
  been settled and to use a new reference. An unreachable node, in contrast, is always told from a refusal.
\<close>

theorem cached_transaction_reads_as_settled:
  assumes "has_phrase ''tx already exists in cache'' (trim r)"
  shows "te_message (translateError (Some r)) \<noteq> ''Already submitted''"
proof -
  have "has_phrase ''already exists'' (trim r)"
    using phrase_part [of "''tx ''" "''already exists''" "'' in cache''"] assms by simp
  then have hit: "re_exec (fst rule_19) (trim r) \<noteq> None"
    unfolding rule_19_def fst_conv by (intro phrase_found_alt) (simp, simp)
  have "first_rule before_cache (trim r) \<noteq> None"
  proof (rule notI)
    assume "first_rule before_cache (trim r) = None"
    then have "re_exec (fst x) (trim r) = None" if "x \<in> set before_cache" for x
      using that by (auto simp: first_rule_none)
    then show False using hit by (simp add: before_cache_def)
  qed
  then obtain t where t: "first_rule before_cache (trim r) = Some t" by blast
  then have "first_rule RULES (trim r) = Some t" by (simp add: RULES_split first_rule_append)
  moreover have "te_message t \<noteq> ''Already submitted''" using first_rule_hit [OF t] before_cache_says by fastforce
  moreover have "trim r \<noteq> []" using assms by (auto simp: has_phrase_def to_lower_def)
  ultimately show ?thesis by (simp add: translateError_def Let_def)
qed

lemma no_error_is_swallowed_witness:
  "te_raw (translateError (Some '' x '')) = ''x'' \<and> te_reason (translateError (Some '' x '')) = Some ''x'' \<and>
   \<not> te_retryable (translateError (Some '' x ''))"
proof -
  have t: "trim '' x '' = ''x''" by code_simp
  have n: "\<forall>(pat, say) \<in> set RULES. re_exec pat (trim '' x '') = None"
    unfolding t RULES_def by code_simp
  show ?thesis
    using no_error_is_swallowed [of "Some '' x ''" "'' x ''"] n t by simp
qed

lemma cached_transaction_reads_as_settled_witness:
  "te_message (translateError (Some '' tx already exists in cache'')) \<noteq> ''Already submitted''"
proof (rule cached_transaction_reads_as_settled)
  have "trim '' tx already exists in cache'' = [] @ ''tx already exists in cache'' @ []" by code_simp
  then show "has_phrase ''tx already exists in cache'' (trim '' tx already exists in cache'')"
    unfolding has_phrase_def by blast
qed

end
