(* ===== verification/Signing.thy ===== *)
theory Signing imports Registry Errors begin

text \<open>
  Building and submitting messages (\<open>clients/sdk/src/signing.ts\<close>). A constructor gives a type URL and an
  object; CosmJS's registry turns the object into bytes with the codec's \<open>fromPartial\<close> and \<open>encode\<close>, and
  \<open>fromPartial\<close> silently leaves out a property it does not know.
\<close>

section \<open>Objects\<close>

record encode_object =
  eo_url :: string
  eo_value :: message

definition coin_item :: "coin \<Rightarrow> proto_item" where
  "coin_item c = I_msg [(''denom'', I_text (c_denom c)), (''amount'', I_text (c_amount c))]"

abbreviation coins_item :: "coin list \<Rightarrow> proto_item" where
  "coins_item cs \<equiv> I_list (map coin_item cs)"

definition or_empty :: "string option \<Rightarrow> string" where
  "or_empty s = (case s of None \<Rightarrow> [] | Some t \<Rightarrow> t)"

section \<open>Standard Cosmos messages\<close>

definition send :: "string \<Rightarrow> string \<Rightarrow> coin list \<Rightarrow> encode_object" where
  "send from to amount = \<lparr>eo_url = ''/cosmos.bank.v1beta1.MsgSend'',
     eo_value = [(''fromAddress'', I_text from), (''toAddress'', I_text to), (''amount'', coins_item amount)]\<rparr>"

definition delegate :: "string \<Rightarrow> string \<Rightarrow> coin \<Rightarrow> encode_object" where
  "delegate delegator validator amount = \<lparr>eo_url = ''/cosmos.staking.v1beta1.MsgDelegate'',
     eo_value = [(''delegatorAddress'', I_text delegator), (''validatorAddress'', I_text validator), (''amount'', coin_item amount)]\<rparr>"

definition beginUnbonding :: "string \<Rightarrow> string \<Rightarrow> coin \<Rightarrow> encode_object" where
  "beginUnbonding delegator validator amount = \<lparr>eo_url = ''/cosmos.staking.v1beta1.MsgUndelegate'',
     eo_value = [(''delegatorAddress'', I_text delegator), (''validatorAddress'', I_text validator), (''amount'', coin_item amount)]\<rparr>"

datatype vote_choice = Vote_yes | Vote_abstain | Vote_no | Vote_veto

fun VOTE_OPTIONS :: "vote_choice \<Rightarrow> int" where
  "VOTE_OPTIONS Vote_yes = 1"
| "VOTE_OPTIONS Vote_abstain = 2"
| "VOTE_OPTIONS Vote_no = 3"
| "VOTE_OPTIONS Vote_veto = 4"

text \<open>\<open>None\<close> where \<open>BigInt(proposalId)\<close> throws.\<close>

definition vote :: "string \<Rightarrow> string \<Rightarrow> vote_choice \<Rightarrow> encode_object option" where
  "vote voter proposalId option = map_option (\<lambda>i. \<lparr>eo_url = ''/cosmos.gov.v1.MsgVote'',
     eo_value = [(''proposalId'', I_big i), (''voter'', I_text voter), (''option'', I_num (num_of_int (VOTE_OPTIONS option)))]\<rparr>)
     (big_int proposalId)"

definition claimRewards :: "string \<Rightarrow> string \<Rightarrow> encode_object" where
  "claimRewards delegator validator = \<lparr>eo_url = ''/cosmos.distribution.v1beta1.MsgWithdrawDelegatorReward'',
     eo_value = [(''delegatorAddress'', I_text delegator), (''validatorAddress'', I_text validator)]\<rparr>"

section \<open>The chain's own messages\<close>

record payment_fields =
  pf_debtor :: string
  pf_endToEndId :: string
  pf_instructing :: string
  pf_instructed :: string
  pf_creditor :: string
  pf_denom :: string
  pf_amount :: string
  pf_purpose :: "string option"
  pf_remittance :: "string option"
  pf_hash :: "byte list option"
  pf_jurisdiction :: "string option"

definition BOTH_DETAILS :: string where
  "BOTH_DETAILS = ''a payment carries its ISO 20022 detail as metadataHash or as plaintext, never both: sending both records the detail the hash exists to keep off the ledger''"

text \<open>\<open>/^[A-Z]{2}$/\<close>.\<close>

definition country_code :: "string \<Rightarrow> bool" where
  "country_code s \<longleftrightarrow> length s = 2 \<and> set s \<subseteq> set upper_alphabet"

definition payment :: "payment_fields \<Rightarrow> string + encode_object" where
  "payment f =
    (let purposeCode = or_empty (pf_purpose f); remittanceInformation = or_empty (pf_remittance f);
         metadataHash = (case pf_hash f of None \<Rightarrow> [] | Some h \<Rightarrow> h); jurisdiction = or_empty (pf_jurisdiction f) in
     if length metadataHash > 0 \<and> (purposeCode \<noteq> [] \<or> remittanceInformation \<noteq> []) then Inl BOTH_DETAILS
     else if jurisdiction \<noteq> [] \<and> \<not> country_code jurisdiction
     then Inl (''settlementJurisdiction must be a two-letter uppercase ISO 3166-1 alpha-2 code, got \"'' @ jurisdiction @ ''\"'')
     else Inr \<lparr>eo_url = ''/blockchain.paymsg.v1.MsgSendPayment'',
       eo_value = [(''debtor'', I_text (pf_debtor f)), (''endToEndId'', I_text (pf_endToEndId f)),
         (''instructingParticipant'', I_text (pf_instructing f)), (''instructedParticipant'', I_text (pf_instructed f)),
         (''creditor'', I_text (pf_creditor f)), (''denom'', I_text (pf_denom f)), (''amount'', I_text (pf_amount f)),
         (''purposeCode'', I_text purposeCode), (''remittanceInformation'', I_text remittanceInformation),
         (''metadataHash'', I_bytes metadataHash), (''settlementJurisdiction'', I_text jurisdiction)]\<rparr>)"

definition swap :: "string \<Rightarrow> string \<Rightarrow> string \<Rightarrow> string \<Rightarrow> string \<Rightarrow> string \<Rightarrow> encode_object" where
  "swap sender poolId tokenInDenom tokenInAmount tokenOutDenom minAmountOut = \<lparr>eo_url = ''/blockchain.amm.v1.MsgSwap'',
     eo_value = [(''sender'', I_text sender), (''poolId'', I_text poolId), (''tokenInDenom'', I_text tokenInDenom),
       (''tokenInAmount'', I_text tokenInAmount), (''tokenOutDenom'', I_text tokenOutDenom), (''minAmountOut'', I_text minAmountOut)]\<rparr>"

definition createTreasury :: "string \<Rightarrow> string \<Rightarrow> string \<Rightarrow> encode_object" where
  "createTreasury creator name admin = \<lparr>eo_url = ''/blockchain.treasury.v1.MsgCreateTreasury'',
     eo_value = [(''creator'', I_text creator), (''name'', I_text name), (''admin'', I_text admin)]\<rparr>"

definition depositToTreasury :: "string \<Rightarrow> string \<Rightarrow> coin list \<Rightarrow> encode_object" where
  "depositToTreasury depositor treasuryId amount = \<lparr>eo_url = ''/blockchain.treasury.v1.MsgDeposit'',
     eo_value = [(''depositor'', I_text depositor), (''treasuryId'', I_text treasuryId), (''amount'', coins_item amount)]\<rparr>"

definition treasurySpend :: "string \<Rightarrow> string \<Rightarrow> string \<Rightarrow> coin list \<Rightarrow> string option \<Rightarrow> encode_object" where
  "treasurySpend spender treasuryId recipient amount memo = \<lparr>eo_url = ''/blockchain.treasury.v1.MsgSpend'',
     eo_value = [(''spender'', I_text spender), (''treasuryId'', I_text treasuryId), (''recipient'', I_text recipient),
       (''amount'', coins_item amount), (''memo'', I_text (or_empty memo))]\<rparr>"

definition claimLock :: "string \<Rightarrow> string \<Rightarrow> encode_object" where
  "claimLock beneficiary lockId = \<lparr>eo_url = ''/blockchain.treasury.v1.MsgClaimLock'',
     eo_value = [(''beneficiary'', I_text beneficiary), (''lockId'', I_text lockId)]\<rparr>"

text \<open>\<open>rates\<close>: pairs of a denom and a rate.\<close>

definition rate_item :: "string \<times> string \<Rightarrow> proto_item" where
  "rate_item r = I_msg [(''denom'', I_text (fst r)), (''rate'', I_text (snd r))]"

definition submitRates :: "string \<Rightarrow> string \<Rightarrow> (string \<times> string) list \<Rightarrow> encode_object" where
  "submitRates feeder validator rates = \<lparr>eo_url = ''/blockchain.oracle.v1.MsgSubmitExchangeRates'',
     eo_value = [(''feeder'', I_text feeder), (''validator'', I_text validator), (''rates'', I_list (map rate_item rates))]\<rparr>"

datatype case_action = Case_freeze | Case_seize

fun CASE_ACTIONS :: "case_action \<Rightarrow> int" where
  "CASE_ACTIONS Case_freeze = 1"
| "CASE_ACTIONS Case_seize = 2"

definition openCase :: "string \<Rightarrow> string \<Rightarrow> case_action \<Rightarrow> string \<Rightarrow> string option \<Rightarrow> string option \<Rightarrow> encode_object" where
  "openCase opener target act reason evidenceUri evidenceHash = \<lparr>eo_url = ''/blockchain.enforcement.v1.MsgOpenCase'',
     eo_value = [(''opener'', I_text opener), (''target'', I_text target), (''action'', I_num (num_of_int (CASE_ACTIONS act))),
       (''reason'', I_text reason), (''evidenceUri'', I_text (or_empty evidenceUri)), (''evidenceHash'', I_text (or_empty evidenceHash))]\<rparr>"

datatype case_vote = Case_yes | Case_no | Case_abstain

fun CASE_VOTES :: "case_vote \<Rightarrow> int" where
  "CASE_VOTES Case_yes = 1"
| "CASE_VOTES Case_no = 2"
| "CASE_VOTES Case_abstain = 3"

definition voteCase :: "string \<Rightarrow> string \<Rightarrow> case_vote \<Rightarrow> encode_object" where
  "voteCase voter caseId option = \<lparr>eo_url = ''/blockchain.enforcement.v1.MsgVoteCase'',
     eo_value = [(''voter'', I_text voter), (''caseId'', I_text caseId), (''option'', I_num (num_of_int (CASE_VOTES option)))]\<rparr>"

definition withdrawCase :: "string \<Rightarrow> string \<Rightarrow> encode_object" where
  "withdrawCase opener caseId = \<lparr>eo_url = ''/blockchain.enforcement.v1.MsgWithdrawCase'',
     eo_value = [(''opener'', I_text opener), (''caseId'', I_text caseId)]\<rparr>"

definition sweepCase :: "string \<Rightarrow> string \<Rightarrow> encode_object" where
  "sweepCase sender caseId = \<lparr>eo_url = ''/blockchain.enforcement.v1.MsgSweep'',
     eo_value = [(''sender'', I_text sender), (''caseId'', I_text caseId)]\<rparr>"

definition emergencyFreeze :: "string \<Rightarrow> string \<Rightarrow> string \<Rightarrow> string option \<Rightarrow> string option \<Rightarrow> encode_object" where
  "emergencyFreeze authority target reason evidenceUri evidenceHash = \<lparr>eo_url = ''/blockchain.enforcement.v1.MsgEmergencyFreeze'',
     eo_value = [(''authority'', I_text authority), (''target'', I_text target), (''reason'', I_text reason),
       (''evidenceUri'', I_text (or_empty evidenceUri)), (''evidenceHash'', I_text (or_empty evidenceHash))]\<rparr>"

definition emergencyRelease :: "string \<Rightarrow> string \<Rightarrow> string \<Rightarrow> encode_object" where
  "emergencyRelease authority caseId reason = \<lparr>eo_url = ''/blockchain.enforcement.v1.MsgEmergencyRelease'',
     eo_value = [(''authority'', I_text authority), (''caseId'', I_text caseId), (''reason'', I_text reason)]\<rparr>"

text \<open>
  The allowance is packed by hand into an \<open>Any\<close>. \<open>None\<close> where \<open>encode\<close> throws; \<open>expiresAt\<close> is
  \<open>Some None\<close> for an invalid date.
\<close>

definition basic_allowance :: "coin list \<Rightarrow> int option option \<Rightarrow> message" where
  "basic_allowance spendLimit expiresAt =
    [(''spendLimit'', coins_item spendLimit), (''expiration'', case expiresAt of None \<Rightarrow> I_undefined | Some d \<Rightarrow> I_date d)]"

definition grantFeeAllowance :: "wire_lib \<Rightarrow> string \<Rightarrow> string \<Rightarrow> coin list \<Rightarrow> int option option \<Rightarrow> encode_object option" where
  "grantFeeAllowance w granter grantee spendLimit expiresAt =
    map_option (\<lambda>b. \<lparr>eo_url = ''/cosmos.feegrant.v1beta1.MsgGrantAllowance'',
      eo_value = [(''granter'', I_text granter), (''grantee'', I_text grantee),
        (''allowance'', I_msg [(''typeUrl'', I_text ''/cosmos.feegrant.v1beta1.BasicAllowance''), (''value'', I_bytes b)])]\<rparr>)
    (Option.bind (proto_fromPartial feegrant_BasicAllowance (basic_allowance spendLimit expiresAt)) (proto_encode w feegrant_BasicAllowance))"

definition revokeFeeAllowance :: "string \<Rightarrow> string \<Rightarrow> encode_object" where
  "revokeFeeAllowance granter grantee = \<lparr>eo_url = ''/cosmos.feegrant.v1beta1.MsgRevokeAllowance'',
     eo_value = [(''granter'', I_text granter), (''grantee'', I_text grantee)]\<rparr>"

definition registerAlias :: "string \<Rightarrow> encode_object" where
  "registerAlias account = \<lparr>eo_url = ''/blockchain.alias.v1.MsgRegisterAlias'', eo_value = [(''account'', I_text account)]\<rparr>"

definition rotateAlias :: "string \<Rightarrow> encode_object" where
  "rotateAlias account = \<lparr>eo_url = ''/blockchain.alias.v1.MsgRotateAlias'', eo_value = [(''account'', I_text account)]\<rparr>"

definition setJurisdiction :: "string \<Rightarrow> string \<Rightarrow> string \<Rightarrow> encode_object" where
  "setJurisdiction recorder account country = \<lparr>eo_url = ''/blockchain.alias.v1.MsgSetJurisdiction'',
     eo_value = [(''recorder'', I_text recorder), (''account'', I_text account), (''country'', I_text (to_upper country))]\<rparr>"

definition registerViewingKey :: "string \<Rightarrow> byte list \<Rightarrow> string + encode_object" where
  "registerViewingKey account publicKey =
    (if length publicKey \<noteq> 32
     then Inl (''a viewing key is 32 bytes of X25519, got '' @ dec_nat (length publicKey) @ ''; a shorter value seals envelopes that open for nobody'')
     else Inr \<lparr>eo_url = ''/blockchain.alias.v1.MsgRegisterViewingKey'',
       eo_value = [(''account'', I_text account), (''publicKey'', I_bytes publicKey)]\<rparr>)"

definition revokeViewingKey :: "string \<Rightarrow> string \<Rightarrow> encode_object" where
  "revokeViewingKey account version = \<lparr>eo_url = ''/blockchain.alias.v1.MsgRevokeViewingKey'',
     eo_value = [(''account'', I_text account), (''version'', I_text version)]\<rparr>"

definition appointRegulator :: "string \<Rightarrow> string \<Rightarrow> string \<Rightarrow> encode_object" where
  "appointRegulator authority country address = \<lparr>eo_url = ''/blockchain.alias.v1.MsgAppointRegulator'',
     eo_value = [(''authority'', I_text authority), (''country'', I_text (to_upper country)), (''address'', I_text address)]\<rparr>"

definition grantAuditor :: "string \<Rightarrow> string \<Rightarrow> string \<Rightarrow> encode_object" where
  "grantAuditor authority address expiresAtHeight = \<lparr>eo_url = ''/blockchain.alias.v1.MsgGrantAuditor'',
     eo_value = [(''authority'', I_text authority), (''address'', I_text address), (''expiresAtHeight'', I_text expiresAtHeight)]\<rparr>"

definition setPayloadStore :: "string \<Rightarrow> string \<Rightarrow> encode_object" where
  "setPayloadStore participant url = \<lparr>eo_url = ''/blockchain.paymsg.v1.MsgSetPayloadStore'',
     eo_value = [(''participant'', I_text participant), (''url'', I_text url)]\<rparr>"

section \<open>Submitting\<close>

text \<open>\<open>fee\<close>: \<open>Math.ceil(gas * price)\<close> of the denom, nothing above a thousand characters to print.\<close>

definition num_ceil :: "jsnum \<Rightarrow> jsnum" where
  "num_ceil x = num_neg (num_floor (num_neg x))"

definition fee :: "string option \<Rightarrow> jsnum option \<Rightarrow> jsnum \<Rightarrow> (string \<times> string) list \<times> string" where
  "fee feeDenom gasPrice gas =
    ([(case feeDenom of None \<Rightarrow> ''uyml'' | Some d \<Rightarrow> d,
       num_string (num_ceil (num_mul gas (case gasPrice of None \<Rightarrow> num_of_int 0 | Some p \<Rightarrow> p))))], num_string gas)"

text \<open>A value that was thrown, by its properties: \<open>None\<close> is \<open>undefined\<close>. The promise is rejected with it, or with \<open>No_accounts\<close>.\<close>

type_synonym thrown = "json option"

definition asBroadcastFailure :: "thrown \<Rightarrow> (jsnum \<times> string) option" where
  "asBroadcastFailure caught =
    (case Option.bind caught (member ''code'') of
       Some (JNum code) \<Rightarrow>
         (if num_eq code (num_of_int 0) then None
          else Some (code, case Option.bind caught (member ''log'') of
            Some (JStr log) \<Rightarrow> log | _ \<Rightarrow> js_string_or (Option.bind caught (member ''message'')) []))
     | _ \<Rightarrow> None)"

record delivered =
  dt_hash :: string
  dt_height :: jsnum
  dt_code :: jsnum
  dt_log :: "string option"
  dt_gasUsed :: jsnum

record submit_result =
  su_hash :: string
  su_height :: jsnum
  su_code :: jsnum
  su_succeeded :: bool
  su_gasUsed :: jsnum
  su_error :: "translated option"

datatype submit_fail = No_accounts | Thrown thrown

text \<open>
  \<open>submit\<close>. The state is whether the client is already connected (\<open>this.client\<close>), and the result gives it
  back. \<open>link\<close> is what connecting throws, if it does; \<open>accounts\<close> what the signer offers; \<open>answer\<close> what
  \<open>signAndBroadcast\<close> throws or returns for the account that signs.
\<close>

definition signer_address :: "thrown + string list \<Rightarrow> submit_fail + string" where
  "signer_address accounts =
    (case accounts of Inl e \<Rightarrow> Inl (Thrown e) | Inr [] \<Rightarrow> Inl No_accounts | Inr (a # _) \<Rightarrow> Inr a)"

definition reported :: "delivered \<Rightarrow> submit_result" where
  "reported r =
    (let described = describeTxResult (dt_code r) (Some (or_empty (dt_log r))) in
     \<lparr>su_hash = dt_hash r, su_height = dt_height r, su_code = dt_code r, su_succeeded = fst described,
       su_gasUsed = dt_gasUsed r, su_error = snd described\<rparr>)"

definition refused :: "jsnum \<Rightarrow> string \<Rightarrow> submit_result" where
  "refused code log =
    \<lparr>su_hash = [], su_height = num_of_int 0, su_code = code, su_succeeded = False, su_gasUsed = num_of_int 0,
      su_error = snd (describeTxResult code (Some log))\<rparr>"

definition submit :: "bool \<Rightarrow> thrown option \<Rightarrow> thrown + string list \<Rightarrow> (string \<Rightarrow> thrown + delivered) \<Rightarrow>
    (submit_fail + submit_result) \<times> bool" where
  "submit connected link accounts answer =
    (if \<not> connected \<and> link \<noteq> None then (Inl (Thrown (the link)), False)
     else (case signer_address accounts of
       Inl e \<Rightarrow> Inl e
     | Inr sender \<Rightarrow>
         (case answer sender of
            Inr r \<Rightarrow> Inr (reported r)
          | Inl caught \<Rightarrow>
              (case asBroadcastFailure caught of None \<Rightarrow> Inl (Thrown caught) | Some (code, log) \<Rightarrow> Inr (refused code log))), True))"

section \<open>What a constructor may be given\<close>

text \<open>
  The messages an interface can construct for the chain's own codecs. An identifier is the decimal text of
  a 64-bit number, as the chain prints it; nothing else is asked of the caller.
\<close>

abbreviation id64 :: "string \<Rightarrow> bool" where
  "id64 s \<equiv> digits_in 0 (2 ^ 64) s"

inductive constructed :: "wire_lib \<Rightarrow> encode_object \<Rightarrow> bool" for w where
  c_payment: "payment f = Inr ob \<Longrightarrow> constructed w ob"
| c_swap: "id64 poolId \<Longrightarrow> constructed w (swap sender poolId inDenom inAmount outDenom minOut)"
| c_createTreasury: "constructed w (createTreasury creator name admin)"
| c_deposit: "id64 treasuryId \<Longrightarrow> constructed w (depositToTreasury depositor treasuryId cs)"
| c_spend: "id64 treasuryId \<Longrightarrow> constructed w (treasurySpend spender treasuryId recipient cs memo)"
| c_claimLock: "id64 lockId \<Longrightarrow> constructed w (claimLock beneficiary lockId)"
| c_submitRates: "constructed w (submitRates feeder validator rates)"
| c_openCase: "constructed w (openCase opener target act reason uri hash)"
| c_voteCase: "id64 caseId \<Longrightarrow> constructed w (voteCase voter caseId choice)"
| c_withdrawCase: "id64 caseId \<Longrightarrow> constructed w (withdrawCase opener caseId)"
| c_sweepCase: "id64 caseId \<Longrightarrow> constructed w (sweepCase sender caseId)"
| c_emergencyFreeze: "constructed w (emergencyFreeze authority target reason uri hash)"
| c_emergencyRelease: "id64 caseId \<Longrightarrow> constructed w (emergencyRelease authority caseId reason)"
| c_grantFee: "grantFeeAllowance w granter grantee limit expiry = Some ob \<Longrightarrow> constructed w ob"
| c_revokeFee: "constructed w (revokeFeeAllowance granter grantee)"
| c_registerAlias: "constructed w (registerAlias account)"
| c_rotateAlias: "constructed w (rotateAlias account)"
| c_setJurisdiction: "constructed w (setJurisdiction recorder account country)"
| c_registerViewingKey: "registerViewingKey account key = Inr ob \<Longrightarrow> constructed w ob"
| c_revokeViewingKey: "id64 version \<Longrightarrow> constructed w (revokeViewingKey account version)"
| c_appointRegulator: "constructed w (appointRegulator authority country address)"
| c_grantAuditor: "digits_in (- (2 ^ 63)) (2 ^ 63) expires \<Longrightarrow> constructed w (grantAuditor authority address expires)"
| c_setPayloadStore: "constructed w (setPayloadStore participant url)"

text \<open>Every property given is a field of the message, kept as it was given.\<close>

definition carried :: "encode_object \<Rightarrow> schema \<Rightarrow> message \<Rightarrow> bool" where
  "carried ob fs m \<longleftrightarrow> map_of CHAIN_MESSAGE_TYPES (eo_url ob) = Some fs \<and> proto_fromPartial fs (eo_value ob) = Some m \<and>
     (\<forall>(x, v) \<in> set (eo_value ob). x \<in> fst ` set m \<and> prop_of m x = v) \<and> typed_message fs m \<and> named_message fs m"


section \<open>What a constructor gives\<close>

lemmas schema_of = alias_schemas enforcement_schemas feegrant_schemas google_schemas cosmos_schemas paymsg_schemas treasury_schemas amm_schemas oracle_schemas

lemma items_kept:
  "(\<And>v. v \<in> set vs \<Longrightarrow> f v = Some v) \<Longrightarrow> those (map f vs) = Some vs"
  by (induction vs) auto

lemma subs_kept:
  assumes "\<And>v. v \<in> set vs \<Longrightarrow> \<exists>m. v = I_msg m \<and> proto_fromPartial fs m = Some m"
  shows "partial_kind (Subs fs) (I_list vs) = Some (I_list vs)"
  using assms by (fastforce intro!: items_kept)

lemma coins_kept:
  "partial_kind (Subs cosmos_Coin) (coins_item cs) = Some (coins_item cs)"
  "typed_kind (Subs cosmos_Coin) (coins_item cs)" "named_kind (Subs cosmos_Coin) (coins_item cs)"
  by (rule subs_kept) (auto simp: coin_item_def cosmos_Coin_def concat_some_Cons prop_of_def list_all_iff typed_scalar_def named_scalar_def)

lemma rates_kept:
  "partial_kind (Subs oracle_RateVote) (I_list (map rate_item rs)) = Some (I_list (map rate_item rs))"
  "typed_kind (Subs oracle_RateVote) (I_list (map rate_item rs))" "named_kind (Subs oracle_RateVote) (I_list (map rate_item rs))"
  by (rule subs_kept) (auto simp: rate_item_def oracle_RateVote_def concat_some_Cons prop_of_def list_all_iff typed_scalar_def named_scalar_def)

lemmas carried_simps = carried_def concat_some_Cons prop_of_def typed_message_def named_message_def typed_scalar_def named_scalar_def
  number_in_of int_of_num_holds [OF num_of_int_exact]

lemma registered_at:
  "map_of CHAIN_MESSAGE_TYPES ''/blockchain.paymsg.v1.MsgSendPayment'' = Some paymsg_MsgSendPayment"
  "map_of CHAIN_MESSAGE_TYPES ''/blockchain.amm.v1.MsgSwap'' = Some amm_MsgSwap"
  "map_of CHAIN_MESSAGE_TYPES ''/blockchain.treasury.v1.MsgCreateTreasury'' = Some treasury_MsgCreateTreasury"
  "map_of CHAIN_MESSAGE_TYPES ''/blockchain.treasury.v1.MsgDeposit'' = Some treasury_MsgDeposit"
  "map_of CHAIN_MESSAGE_TYPES ''/blockchain.treasury.v1.MsgSpend'' = Some treasury_MsgSpend"
  "map_of CHAIN_MESSAGE_TYPES ''/blockchain.treasury.v1.MsgClaimLock'' = Some treasury_MsgClaimLock"
  "map_of CHAIN_MESSAGE_TYPES ''/blockchain.oracle.v1.MsgSubmitExchangeRates'' = Some oracle_MsgSubmitExchangeRates"
  "map_of CHAIN_MESSAGE_TYPES ''/blockchain.enforcement.v1.MsgOpenCase'' = Some enforcement_MsgOpenCase"
  "map_of CHAIN_MESSAGE_TYPES ''/blockchain.enforcement.v1.MsgVoteCase'' = Some enforcement_MsgVoteCase"
  "map_of CHAIN_MESSAGE_TYPES ''/blockchain.enforcement.v1.MsgWithdrawCase'' = Some enforcement_MsgWithdrawCase"
  "map_of CHAIN_MESSAGE_TYPES ''/blockchain.enforcement.v1.MsgSweep'' = Some enforcement_MsgSweep"
  "map_of CHAIN_MESSAGE_TYPES ''/blockchain.enforcement.v1.MsgEmergencyFreeze'' = Some enforcement_MsgEmergencyFreeze"
  "map_of CHAIN_MESSAGE_TYPES ''/blockchain.enforcement.v1.MsgEmergencyRelease'' = Some enforcement_MsgEmergencyRelease"
  "map_of CHAIN_MESSAGE_TYPES ''/cosmos.feegrant.v1beta1.MsgGrantAllowance'' = Some feegrant_MsgGrantAllowance"
  "map_of CHAIN_MESSAGE_TYPES ''/cosmos.feegrant.v1beta1.MsgRevokeAllowance'' = Some feegrant_MsgRevokeAllowance"
  "map_of CHAIN_MESSAGE_TYPES ''/blockchain.alias.v1.MsgRegisterAlias'' = Some alias_MsgRegisterAlias"
  "map_of CHAIN_MESSAGE_TYPES ''/blockchain.alias.v1.MsgRotateAlias'' = Some alias_MsgRotateAlias"
  "map_of CHAIN_MESSAGE_TYPES ''/blockchain.alias.v1.MsgSetJurisdiction'' = Some alias_MsgSetJurisdiction"
  "map_of CHAIN_MESSAGE_TYPES ''/blockchain.alias.v1.MsgRegisterViewingKey'' = Some alias_MsgRegisterViewingKey"
  "map_of CHAIN_MESSAGE_TYPES ''/blockchain.alias.v1.MsgRevokeViewingKey'' = Some alias_MsgRevokeViewingKey"
  "map_of CHAIN_MESSAGE_TYPES ''/blockchain.alias.v1.MsgAppointRegulator'' = Some alias_MsgAppointRegulator"
  "map_of CHAIN_MESSAGE_TYPES ''/blockchain.alias.v1.MsgGrantAuditor'' = Some alias_MsgGrantAuditor"
  "map_of CHAIN_MESSAGE_TYPES ''/blockchain.paymsg.v1.MsgSetPayloadStore'' = Some paymsg_MsgSetPayloadStore"
  by (simp_all add: CHAIN_MESSAGE_TYPES_def)

lemma constructed_carried: "constructed w ob \<Longrightarrow> \<exists>fs m. carried ob fs m"
proof (induction rule: constructed.induct)
  case c_payment
  then show ?case by (auto simp: carried_simps registered_at payment_def paymsg_MsgSendPayment_def Let_def split: if_splits)
next
  case c_swap
  then show ?case by (simp add: carried_simps registered_at swap_def amm_MsgSwap_def)
next
  case c_createTreasury
  then show ?case by (simp add: carried_simps registered_at createTreasury_def treasury_MsgCreateTreasury_def)
next
  case c_deposit
  then show ?case by (simp add: carried_simps registered_at depositToTreasury_def treasury_MsgDeposit_def coins_kept del: partial_kind.simps(5) typed_kind.simps(5) named_kind.simps(5))
next
  case c_spend
  then show ?case by (simp add: carried_simps registered_at treasurySpend_def treasury_MsgSpend_def coins_kept del: partial_kind.simps(5) typed_kind.simps(5) named_kind.simps(5))
next
  case c_claimLock
  then show ?case by (simp add: carried_simps registered_at claimLock_def treasury_MsgClaimLock_def)
next
  case c_submitRates
  then show ?case by (simp add: carried_simps registered_at submitRates_def oracle_MsgSubmitExchangeRates_def rates_kept del: partial_kind.simps(5) typed_kind.simps(5) named_kind.simps(5))
next
  case (c_openCase opener target act reason uri hash)
  then show ?case by (cases act) (simp_all add: carried_simps registered_at openCase_def enforcement_MsgOpenCase_def enforcement_CaseAction_def)
next
  case (c_voteCase caseId voter choice)
  then show ?case by (cases choice) (simp_all add: carried_simps registered_at voteCase_def enforcement_MsgVoteCase_def enforcement_VoteOption_def)
next
  case c_withdrawCase
  then show ?case by (simp add: carried_simps registered_at withdrawCase_def enforcement_MsgWithdrawCase_def)
next
  case c_sweepCase
  then show ?case by (simp add: carried_simps registered_at sweepCase_def enforcement_MsgSweep_def)
next
  case c_emergencyFreeze
  then show ?case by (simp add: carried_simps registered_at emergencyFreeze_def enforcement_MsgEmergencyFreeze_def)
next
  case c_emergencyRelease
  then show ?case by (simp add: carried_simps registered_at emergencyRelease_def enforcement_MsgEmergencyRelease_def)
next
  case c_grantFee
  then show ?case by (auto simp: carried_simps registered_at grantFeeAllowance_def feegrant_MsgGrantAllowance_def google_Any_def)
next
  case c_revokeFee
  then show ?case by (simp add: carried_simps registered_at revokeFeeAllowance_def feegrant_MsgRevokeAllowance_def)
next
  case c_registerAlias
  then show ?case by (simp add: carried_simps registered_at registerAlias_def alias_MsgRegisterAlias_def)
next
  case c_rotateAlias
  then show ?case by (simp add: carried_simps registered_at rotateAlias_def alias_MsgRotateAlias_def)
next
  case c_setJurisdiction
  then show ?case by (simp add: carried_simps registered_at setJurisdiction_def alias_MsgSetJurisdiction_def)
next
  case c_registerViewingKey
  then show ?case by (auto simp: carried_simps registered_at registerViewingKey_def alias_MsgRegisterViewingKey_def Let_def split: if_splits)
next
  case c_revokeViewingKey
  then show ?case by (simp add: carried_simps registered_at revokeViewingKey_def alias_MsgRevokeViewingKey_def)
next
  case c_appointRegulator
  then show ?case by (simp add: carried_simps registered_at appointRegulator_def alias_MsgAppointRegulator_def)
next
  case c_grantAuditor
  then show ?case by (simp add: carried_simps registered_at grantAuditor_def alias_MsgGrantAuditor_def)
next
  case c_setPayloadStore
  then show ?case by (simp add: carried_simps registered_at setPayloadStore_def paymsg_MsgSetPayloadStore_def)
qed


text \<open>The allowance is packed as the message it is.\<close>

lemma allowance_kept:
  assumes "case expiry of None \<Rightarrow> True | Some d \<Rightarrow> (case d of None \<Rightarrow> False | Some t \<Rightarrow> time_ok t)"
  shows "proto_fromPartial feegrant_BasicAllowance (basic_allowance limit expiry) = Some (basic_allowance limit expiry)"
    and "typed_message feegrant_BasicAllowance (basic_allowance limit expiry)"
  using assms
  by (auto simp: basic_allowance_def feegrant_BasicAllowance_def concat_some_Cons prop_of_def typed_message_def coins_kept
    simp del: partial_kind.simps(5) typed_kind.simps(5) split: option.splits)

lemma allowance_generated: "(''cosmos.feegrant.v1beta1.BasicAllowance'', feegrant_BasicAllowance) \<in> set generated_messages"
  by (simp add: generated_messages_def feegrant_messages_def)

lemma rejection_code: "asBroadcastFailure caught = Some (code, log) \<Longrightarrow> \<not> num_eq code (num_of_int 0)"
  by (auto simp: asBroadcastFailure_def split: option.splits json.splits if_splits)

lemma capital_letter: "c \<in> set upper_alphabet \<longleftrightarrow> of_char c \<in> {65..90::nat}"
proof -
  have "list_all (\<lambda>c. of_char c \<in> {65..90::nat}) upper_alphabet" by code_simp
  then have a: "c \<in> set upper_alphabet \<Longrightarrow> of_char c \<in> {65..90::nat}" by (simp only: list_all_iff)
  have "list_all (\<lambda>n. char_of (n :: nat) \<in> set upper_alphabet) [65..<91]" by code_simp
  then have "\<forall>n \<in> set [65..<91::nat]. char_of n \<in> set upper_alphabet" by (simp only: list_all_iff)
  moreover have "set [65..<91::nat] = {65..90}" by (simp only: set_upt atLeastLessThanSuc_atLeastAtMost [symmetric]) simp
  ultimately have "of_char c \<in> {65..90::nat} \<Longrightarrow> char_of (of_char c :: nat) \<in> set upper_alphabet" by metis
  then show ?thesis using a by (metis char_of_char)
qed

lemma country_code_iff: "country_code s \<longleftrightarrow> (\<exists>x y. s = [x, y] \<and> of_char x \<in> {65..90::nat} \<and> of_char y \<in> {65..90::nat})"
  by (auto simp: country_code_def capital_letter length_Suc_conv numeral_2_eq_2)

section \<open>Properties\<close>

text \<open>
  C2. What an interface constructs is what the signer approves and what the chain receives. Each property
  given to a constructor is a field of the registered codec's message and keeps its value, none being
  dropped as unknown; the message has bytes; and both the decoder and the approval screen read that very
  message back from them.
\<close>

theorem constructed_messages_arrive:
  assumes "protobuf w" and "constructed w ob"
  shows "\<exists>fs m b. carried ob fs m \<and> proto_encode w fs m = Some b \<and>
    (length b < 2 ^ 32 \<longrightarrow> proto_decode w fs b = Some m \<and>
      (\<exists>j. pc_json (chainRegistry w standard) (eo_url ob) b = Some j \<and> proto_fromJSON host fs j = Some m))"
proof -
  obtain fs m where c: "carried ob fs m" using constructed_carried [OF assms(2)] by blast
  then have r: "map_of CHAIN_MESSAGE_TYPES (eo_url ob) = Some fs" and t: "typed_message fs m" and n: "named_message fs m"
    by (simp_all add: carried_def)
  have good: "good_schema fs" using r by (intro registered_good map_of_SomeD)
  obtain b where b: "proto_encode w fs m = Some b" using protobuf.message_written [OF assms(1) t] by blast
  obtain j where j: "proto_toJSON fs m = Some j" using message_has_json [OF t] by blast
  have "proto_decode w fs b = Some m" if "length b < 2 ^ 32" by (rule protobuf.message_back [OF assms(1) good t b that])
  then have "length b < 2 ^ 32 \<longrightarrow> proto_decode w fs b = Some m \<and>
      (\<exists>j. pc_json (chainRegistry w standard) (eo_url ob) b = Some j \<and> proto_fromJSON host fs j = Some m)"
    using r j json_message_back [OF good t n j] by (simp add: chainRegistry_def)
  then show ?thesis using c b by blast
qed

text \<open>
  C39. The bytes of a payment say what was asked. They are built exactly for the fields the constructor
  documents as a payment: not both a hash and plain detail, and a country that is absent or two capital
  letters. What the chain decodes from them is each field as it was given, in its own place, the absent
  ones empty; and the record never holds a hash beside a purpose or a remittance text.
\<close>

theorem payment_arrives_as_given:
  assumes "protobuf w"
  shows "((\<exists>ob. payment f = Inr ob) \<longleftrightarrow>
      (pf_hash f \<in> {None, Some []} \<or> pf_purpose f \<in> {None, Some []} \<and> pf_remittance f \<in> {None, Some []}) \<and>
      (pf_jurisdiction f \<in> {None, Some []} \<or>
        (\<exists>x y. pf_jurisdiction f = Some [x, y] \<and> of_char x \<in> {65..90::nat} \<and> of_char y \<in> {65..90::nat}))) \<and>
    (\<forall>ob. payment f = Inr ob \<longrightarrow> eo_url ob = ''/blockchain.paymsg.v1.MsgSendPayment'' \<and>
      (\<exists>b. Option.bind (proto_fromPartial paymsg_MsgSendPayment (eo_value ob)) (proto_encode w paymsg_MsgSendPayment) = Some b \<and>
        (length b < 2 ^ 32 \<longrightarrow> (\<exists>m. proto_decode w paymsg_MsgSendPayment b = Some m \<and>
          prop_of m ''debtor'' = I_text (pf_debtor f) \<and> prop_of m ''creditor'' = I_text (pf_creditor f) \<and>
          prop_of m ''endToEndId'' = I_text (pf_endToEndId f) \<and>
          prop_of m ''instructingParticipant'' = I_text (pf_instructing f) \<and>
          prop_of m ''instructedParticipant'' = I_text (pf_instructed f) \<and>
          prop_of m ''denom'' = I_text (pf_denom f) \<and> prop_of m ''amount'' = I_text (pf_amount f) \<and>
          prop_of m ''purposeCode'' = I_text (case pf_purpose f of None \<Rightarrow> [] | Some t \<Rightarrow> t) \<and>
          prop_of m ''remittanceInformation'' = I_text (case pf_remittance f of None \<Rightarrow> [] | Some t \<Rightarrow> t) \<and>
          prop_of m ''metadataHash'' = I_bytes (case pf_hash f of None \<Rightarrow> [] | Some h \<Rightarrow> h) \<and>
          prop_of m ''settlementJurisdiction'' = I_text (case pf_jurisdiction f of None \<Rightarrow> [] | Some t \<Rightarrow> t) \<and>
          (prop_of m ''metadataHash'' = I_bytes [] \<or>
            prop_of m ''purposeCode'' = I_text [] \<and> prop_of m ''remittanceInformation'' = I_text [])))))"
proof (intro conjI allI impI)
  show "(\<exists>ob. payment f = Inr ob) \<longleftrightarrow>
      (pf_hash f \<in> {None, Some []} \<or> pf_purpose f \<in> {None, Some []} \<and> pf_remittance f \<in> {None, Some []}) \<and>
      (pf_jurisdiction f \<in> {None, Some []} \<or>
        (\<exists>x y. pf_jurisdiction f = Some [x, y] \<and> of_char x \<in> {65..90::nat} \<and> of_char y \<in> {65..90::nat}))"
  proof -
    let ?two = "\<exists>x y. pf_jurisdiction f = Some [x, y] \<and> of_char x \<in> {65..90::nat} \<and> of_char y \<in> {65..90::nat}"
    have h: "(pf_hash f \<in> {None, Some []} \<or> pf_purpose f \<in> {None, Some []} \<and> pf_remittance f \<in> {None, Some []}) \<longleftrightarrow>
        \<not> (length (case pf_hash f of None \<Rightarrow> [] | Some h \<Rightarrow> h) > 0 \<and> (or_empty (pf_purpose f) \<noteq> [] \<or> or_empty (pf_remittance f) \<noteq> []))"
      by (auto simp: or_empty_def split: option.splits)
    have c: "pf_jurisdiction f \<in> {None, Some []} \<or> ?two \<longleftrightarrow>
        \<not> (or_empty (pf_jurisdiction f) \<noteq> [] \<and> \<not> country_code (or_empty (pf_jurisdiction f)))"
    proof (cases "pf_jurisdiction f")
      case (Some t)
      then show ?thesis using country_code_iff [of t] unfolding or_empty_def by (simp only: option.case option.inject) blast
    qed (simp add: or_empty_def)
    show ?thesis unfolding h c by (simp only: payment_def Let_def split: if_split) blast
  qed
next
  fix ob assume p: "payment f = Inr ob"
  show "eo_url ob = ''/blockchain.paymsg.v1.MsgSendPayment''" using p by (auto simp: payment_def Let_def split: if_splits)
  obtain fs m where c: "carried ob fs m" using constructed_carried constructed.c_payment [OF p] by blast
  then have fs: "fs = paymsg_MsgSendPayment" and m: "proto_fromPartial paymsg_MsgSendPayment (eo_value ob) = Some m"
    and t: "typed_message paymsg_MsgSendPayment m" and k: "\<forall>(x, v) \<in> set (eo_value ob). prop_of m x = v"
    using p registered_at(1) by (auto simp: carried_def payment_def Let_def split: if_splits)
  obtain b where b: "proto_encode w paymsg_MsgSendPayment m = Some b" using protobuf.message_written [OF assms t] by blast
  have good: "good_schema paymsg_MsgSendPayment" using registered_at(1) by (intro registered_good map_of_SomeD)
  have "proto_decode w paymsg_MsgSendPayment b = Some m" if "length b < 2 ^ 32" by (rule protobuf.message_back [OF assms good t b that])
  then show "\<exists>b. Option.bind (proto_fromPartial paymsg_MsgSendPayment (eo_value ob)) (proto_encode w paymsg_MsgSendPayment) = Some b \<and>
        (length b < 2 ^ 32 \<longrightarrow> (\<exists>m. proto_decode w paymsg_MsgSendPayment b = Some m \<and>
          prop_of m ''debtor'' = I_text (pf_debtor f) \<and> prop_of m ''creditor'' = I_text (pf_creditor f) \<and>
          prop_of m ''endToEndId'' = I_text (pf_endToEndId f) \<and>
          prop_of m ''instructingParticipant'' = I_text (pf_instructing f) \<and>
          prop_of m ''instructedParticipant'' = I_text (pf_instructed f) \<and>
          prop_of m ''denom'' = I_text (pf_denom f) \<and> prop_of m ''amount'' = I_text (pf_amount f) \<and>
          prop_of m ''purposeCode'' = I_text (case pf_purpose f of None \<Rightarrow> [] | Some t \<Rightarrow> t) \<and>
          prop_of m ''remittanceInformation'' = I_text (case pf_remittance f of None \<Rightarrow> [] | Some t \<Rightarrow> t) \<and>
          prop_of m ''metadataHash'' = I_bytes (case pf_hash f of None \<Rightarrow> [] | Some h \<Rightarrow> h) \<and>
          prop_of m ''settlementJurisdiction'' = I_text (case pf_jurisdiction f of None \<Rightarrow> [] | Some t \<Rightarrow> t) \<and>
          (prop_of m ''metadataHash'' = I_bytes [] \<or>
            prop_of m ''purposeCode'' = I_text [] \<and> prop_of m ''remittanceInformation'' = I_text [])))"
    using m b k p by (intro exI [of _ b]) (auto simp: payment_def Let_def or_empty_def split: if_splits)
qed

text \<open>
  C7. A submission succeeds only when the chain included the transaction with code zero, and its hash is
  then the one the chain gave. A refusal at broadcast that carries a code is a result that failed, with
  its error translated; only a fault without a code, or a signer with no account, throws.
\<close>

theorem success_means_included:
  "(\<forall>r. fst (submit connected link accounts answer) = Inr r \<longrightarrow>
      (su_succeeded r \<longleftrightarrow> num_eq (su_code r) (num_of_int 0)) \<and> (su_error r = None \<longleftrightarrow> su_succeeded r) \<and>
      (su_succeeded r \<longrightarrow> (\<exists>a d. signer_address accounts = Inr a \<and> answer a = Inr d \<and> su_hash r = dt_hash d \<and> num_eq (dt_code d) (num_of_int 0)))) \<and>
   (\<forall>e. fst (submit connected link accounts answer) = Inl e \<longrightarrow>
      (\<not> connected \<and> link \<noteq> None) \<or> signer_address accounts = Inl e \<or>
      (\<exists>a c. signer_address accounts = Inr a \<and> answer a = Inl c \<and> asBroadcastFailure c = None \<and> e = Thrown c)) \<and>
   snd (submit connected link accounts answer) = (connected \<or> link = None)"
  by (auto simp: submit_def reported_def refused_def describeTxResult_def Let_def dest: rejection_code split: sum.splits option.splits if_splits)

text \<open>
  A fee grant carries exactly the budget given: the bytes packed by hand into its \<open>Any\<close> decode, as the
  type the \<open>Any\<close> names, to the limit and the expiry of the caller. Neither is required: a grant with no
  limit and no expiry is built like any other.
\<close>

theorem fee_grant_carries_the_budget:
  assumes "protobuf w" and "case expiry of None \<Rightarrow> True | Some d \<Rightarrow> (case d of None \<Rightarrow> False | Some t \<Rightarrow> time_ok t)"
  shows "\<exists>b. grantFeeAllowance w granter grantee limit expiry = Some \<lparr>eo_url = ''/cosmos.feegrant.v1beta1.MsgGrantAllowance'',
      eo_value = [(''granter'', I_text granter), (''grantee'', I_text grantee),
        (''allowance'', I_msg [(''typeUrl'', I_text ''/cosmos.feegrant.v1beta1.BasicAllowance''), (''value'', I_bytes b)])]\<rparr> \<and>
    (length b < 2 ^ 32 \<longrightarrow> proto_decode w feegrant_BasicAllowance b =
      Some [(''spendLimit'', coins_item limit), (''expiration'', case expiry of None \<Rightarrow> I_undefined | Some d \<Rightarrow> I_date d)])"
proof -
  note k = allowance_kept [OF assms(2), of limit]
  obtain b where b: "proto_encode w feegrant_BasicAllowance (basic_allowance limit expiry) = Some b"
    using protobuf.message_written [OF assms(1) k(2)] by blast
  have "proto_decode w feegrant_BasicAllowance b = Some (basic_allowance limit expiry)" if "length b < 2 ^ 32"
    by (rule protobuf.message_back [OF assms(1) generated_good [OF allowance_generated] k(2) b that])
  then show ?thesis using b k(1) by (simp add: grantFeeAllowance_def basic_allowance_def)
qed

section \<open>Witnesses\<close>

theorem constructed_messages_arrive_witness:
  "\<exists>fs m b. carried (voteCase ''yml1v'' (show_int 300) Case_no) fs m \<and> proto_encode varint_wire fs m = Some b \<and>
    (length b < 2 ^ 32 \<longrightarrow> proto_decode varint_wire fs b = Some m \<and>
      (\<exists>j. pc_json (chainRegistry varint_wire \<lparr>pc_known = (\<lambda>_. False), pc_json = (\<lambda>_ _. None), pc_body = (\<lambda>_. Inl []), pc_auth = (\<lambda>_. None)\<rparr>)
          (eo_url (voteCase ''yml1v'' (show_int 300) Case_no)) b = Some j \<and> proto_fromJSON (\<lambda>_. None) fs j = Some m))"
  by (rule constructed_messages_arrive [OF pb.protobuf_axioms constructed.c_voteCase]) (simp add: digits_in_of)

definition sample_payment :: payment_fields where
  "sample_payment = \<lparr>pf_debtor = ''yml1a'', pf_endToEndId = ''E2E-1'', pf_instructing = ''bank'', pf_instructed = ''bank2'',
     pf_creditor = ''yml1b'', pf_denom = ''uyml'', pf_amount = ''100'', pf_purpose = None, pf_remittance = None,
     pf_hash = Some [1, 2, 3], pf_jurisdiction = Some ''PG''\<rparr>"

theorem payment_arrives_as_given_witness:
  "\<exists>ob b. payment sample_payment = Inr ob \<and>
    Option.bind (proto_fromPartial paymsg_MsgSendPayment (eo_value ob)) (proto_encode varint_wire paymsg_MsgSendPayment) = Some b \<and>
    (length b < 2 ^ 32 \<longrightarrow> (\<exists>m. proto_decode varint_wire paymsg_MsgSendPayment b = Some m \<and> prop_of m ''amount'' = I_text ''100'' \<and>
      prop_of m ''metadataHash'' = I_bytes [1, 2, 3] \<and> prop_of m ''purposeCode'' = I_text []))"
proof -
  have "of_char CHR ''P'' \<in> {65..90::nat}" "of_char CHR ''G'' \<in> {65..90::nat}" by code_simp+
  then have "\<exists>ob. payment sample_payment = Inr ob"
    using payment_arrives_as_given [OF pb.protobuf_axioms, of sample_payment] by (simp add: sample_payment_def)
  then obtain ob where ob: "payment sample_payment = Inr ob" by blast
  then have "\<forall>ob. payment sample_payment = Inr ob \<longrightarrow> (\<exists>b.
      Option.bind (proto_fromPartial paymsg_MsgSendPayment (eo_value ob)) (proto_encode varint_wire paymsg_MsgSendPayment) = Some b \<and>
      (length b < 2 ^ 32 \<longrightarrow> (\<exists>m. proto_decode varint_wire paymsg_MsgSendPayment b = Some m \<and> prop_of m ''amount'' = I_text (pf_amount sample_payment) \<and>
        prop_of m ''metadataHash'' = I_bytes (case pf_hash sample_payment of None \<Rightarrow> [] | Some h \<Rightarrow> h) \<and>
        prop_of m ''purposeCode'' = I_text (case pf_purpose sample_payment of None \<Rightarrow> [] | Some t \<Rightarrow> t))))"
    using conjunct2 [OF payment_arrives_as_given [OF pb.protobuf_axioms, of sample_payment]] by blast
  then show ?thesis using ob by (simp add: sample_payment_def)
qed

theorem success_means_included_witness:
  "fst (submit True None (Inr [''yml1a'']) (\<lambda>_. Inl (Some (JObj [(''code'', JNum (num_of_int 13)), (''log'', JStr ''out of gas'')])))) =
     Inr (refused (num_of_int 13) ''out of gas'') \<and> \<not> su_succeeded (refused (num_of_int 13) ''out of gas'') \<and>
   su_error (refused (num_of_int 13) ''out of gas'') \<noteq> None"
proof -
  have n: "\<not> num_eq (num_of_int 13) (num_of_int 0)" by code_simp
  have f: "member ''code'' (JObj [(''code'', JNum (num_of_int 13)), (''log'', JStr ''out of gas'')]) = Some (JNum (num_of_int 13))"
    "member ''log'' (JObj [(''code'', JNum (num_of_int 13)), (''log'', JStr ''out of gas'')]) = Some (JStr ''out of gas'')"
    by (simp_all add: member_def)
  have s: "fst (submit True None (Inr [''yml1a'']) (\<lambda>_. Inl (Some (JObj [(''code'', JNum (num_of_int 13)), (''log'', JStr ''out of gas'')])))) =
      Inr (refused (num_of_int 13) ''out of gas'')"
    using n f by (simp add: submit_def signer_address_def asBroadcastFailure_def)
  have "su_code (refused (num_of_int 13) ''out of gas'') = num_of_int 13" by (simp add: refused_def)
  then show ?thesis
    using conjunct1 [OF success_means_included, rule_format, OF s] s n by simp
qed

theorem fee_grant_carries_the_budget_witness:
  "\<exists>b. grantFeeAllowance varint_wire ''yml1bank'' ''yml1c'' [] None = Some \<lparr>eo_url = ''/cosmos.feegrant.v1beta1.MsgGrantAllowance'',
      eo_value = [(''granter'', I_text ''yml1bank''), (''grantee'', I_text ''yml1c''),
        (''allowance'', I_msg [(''typeUrl'', I_text ''/cosmos.feegrant.v1beta1.BasicAllowance''), (''value'', I_bytes b)])]\<rparr> \<and>
    (length b < 2 ^ 32 \<longrightarrow> proto_decode varint_wire feegrant_BasicAllowance b = Some [(''spendLimit'', I_list []), (''expiration'', I_undefined)])"
  using fee_grant_carries_the_budget [OF pb.protobuf_axioms, of None "''yml1bank''" "''yml1c''" "[]"] by simp

end
