(* ===== verification/Decode.thy ===== *)
theory Decode imports SignRequest Schema begin

text \<open>
  Turning chain messages into sentences (\<open>clients/sdk/src/decode.ts\<close>): the table of decoders, one
  definition each, what is said of a type without one, the forward-looking phrase of a proposal and the
  line for a whole transaction. \<open>None\<close> is an exception, or a field that is not of the type the code
  declares for it. The tables are objects, whose inherited names (\<open>constructor\<close> and the like) no message uses.
\<close>

section \<open>Decoded messages\<close>

datatype message_kind =
    Transfer_kind | Payment_kind | Staking_kind | Governance_kind | Trade_kind | Treasury_kind | Issuance_kind
  | Admin_kind | Other_kind

record decoded_detail =
  dl_label :: string
  dl_value :: string
  dl_address :: bool

text \<open>A coin as it is read: its denom and its amount, \<open>None\<close> for \<open>undefined\<close>.\<close>

type_synonym raw_coin = "json option \<times> json option"

record decoded_parts =
  dd_kind :: message_kind
  dd_title :: string
  dd_summary :: string
  dd_everyday :: bool
  dd_actor :: "json option"
  dd_counterparty :: "json option"
  dd_coins :: "raw_coin list option"
  dd_details :: "decoded_detail list"

record decoded = decoded_parts +
  dd_type :: string
  dd_raw :: json

text \<open>The context, with the translation \<open>formatCoins\<close> joins amounts by.\<close>

record decode_context =
  dx_registry :: "registry option"
  dx_names :: "string \<Rightarrow> string option"
  dx_tr :: "string \<Rightarrow> string"

type_synonym message_decoder = "decode_context \<Rightarrow> json \<Rightarrow> decoded_parts option"

section \<open>Pieces of a sentence\<close>

definition say :: "string option list \<Rightarrow> string option" where
  "say parts = map_option concat (those parts)"

text \<open>A value in a template literal, and a value declared to be a string.\<close>

definition spoken :: "json option \<Rightarrow> string option" where
  "spoken j = Some (case j of None \<Rightarrow> ''undefined'' | Some v \<Rightarrow> js_string v)"

definition string_in :: "json option \<Rightarrow> string option" where
  "string_in j = (case j of Some (JStr s) \<Rightarrow> Some s | _ \<Rightarrow> None)"

definition is_text :: "json option \<Rightarrow> bool" where
  "is_text j = (case j of Some (JStr _) \<Rightarrow> True | _ \<Rightarrow> False)"

definition who :: "decode_context \<Rightarrow> json option \<Rightarrow> string option" where
  "who ctx address =
    (if \<not> truthy_json address then Some ''someone''
     else map_option (\<lambda>a. case dx_names ctx a of Some n \<Rightarrow> n | None \<Rightarrow> truncateAddress a) (string_in address))"

definition in_registry :: "decode_context \<Rightarrow> format_options" where
  "in_registry ctx = (case dx_registry ctx of None \<Rightarrow> default_format | Some r \<Rightarrow> default_format\<lparr>fo_registry := r\<rparr>)"

definition as_coin :: "json option \<Rightarrow> raw_coin" where
  "as_coin j = (Option.bind j (member ''denom''), Option.bind j (member ''amount''))"

definition coinsOf :: "json option \<Rightarrow> raw_coin list" where
  "coinsOf value =
    (case value of
       Some (JArr xs) \<Rightarrow> map (\<lambda>c. as_coin (Some c))
         (filter (\<lambda>c. case c of JObj ms \<Rightarrow> ''denom'' \<in> fst ` set ms \<and> ''amount'' \<in> fst ` set ms | _ \<Rightarrow> False) xs)
     | _ \<Rightarrow> [])"

definition text_coin :: "raw_coin \<Rightarrow> coin option" where
  "text_coin c = (case c of (Some (JStr d), Some (JStr a)) \<Rightarrow> Some \<lparr>c_denom = d, c_amount = a\<rparr> | _ \<Rightarrow> None)"

definition money :: "decode_context \<Rightarrow> raw_coin list \<Rightarrow> string option" where
  "money ctx coins = map_option (\<lambda>cs. formatCoins (dx_tr ctx) cs (in_registry ctx)) (those (map text_coin coins))"

definition amount_of :: "decode_context \<Rightarrow> json option \<Rightarrow> json option \<Rightarrow> string option" where
  "amount_of ctx amount denom =
    (case (amount, denom) of
       (Some (JStr a), Some (JStr d)) \<Rightarrow> Some (formatAmount (BText a) d (in_registry ctx))
     | _ \<Rightarrow> Some ''an amount'')"

definition short_of :: "json option \<Rightarrow> string option" where
  "short_of j = (if \<not> truthy_json j then Some ''unknown'' else map_option shortTypeUrl (string_in j))"

definition truncated :: "json option \<Rightarrow> string option" where
  "truncated j = map_option truncateAddress (string_in j)"

text \<open>\<open>/^\/(?:[a-z0-9]+)\.([a-z0-9]+)\./\<close>.\<close>

definition module_char :: "char \<Rightarrow> bool" where
  "module_char c \<longleftrightarrow> c \<in> set lower_alphabet \<or> is_digit c"

definition moduleOf :: "string \<Rightarrow> string" where
  "moduleOf typeUrl =
    (if \<not> starts_with typeUrl ''/'' then ''chain'' else
     let a = takeWhile module_char (tl typeUrl); r = dropWhile module_char (tl typeUrl);
         b = takeWhile module_char (tl r); q = dropWhile module_char (tl r) in
     if a \<noteq> [] \<and> starts_with r ''.'' \<and> b \<noteq> [] \<and> starts_with q ''.'' then b else ''chain'')"

definition resolveSymbol :: "decode_context \<Rightarrow> json option \<Rightarrow> string option" where
  "resolveSymbol ctx denom =
    (case denom of
       Some (JStr d) \<Rightarrow>
         (let s = join_with '' '' (drop 1 (split_on CHR '' '' (formatAmount (BText ''0'') d (in_registry ctx)))) in
          Some (if s = [] then d else s))
     | _ \<Rightarrow> Some ''another asset'')"

definition VOTE_WORDS :: "(string \<times> string) list" where
  "VOTE_WORDS = [(''VOTE_OPTION_YES'', ''yes''), (''VOTE_OPTION_NO'', ''no''), (''VOTE_OPTION_ABSTAIN'', ''abstain''),
     (''VOTE_OPTION_NO_WITH_VETO'', ''no with veto''), (''VOTE_OPTION_ONE'', ''yes''), (''VOTE_OPTION_THREE'', ''no'')]"

definition string_of :: "json option \<Rightarrow> string" where
  "string_of j = (case j of None \<Rightarrow> ''undefined'' | Some v \<Rightarrow> js_string v)"

definition voteOption :: "json option \<Rightarrow> string" where
  "voteOption option =
    (case map_of VOTE_WORDS (string_of option) of Some w \<Rightarrow> w | None \<Rightarrow> to_lower (js_string_or option ''unknown''))"

definition ROLE_NAMES :: "(string \<times> string) list" where
  "ROLE_NAMES = [(''ROLE_ADMIN'', ''administrator''), (''ROLE_SPENDER'', ''spender''), (''ROLE_PAUSER'', ''emergency freeze'')]"

definition roleName :: "json option \<Rightarrow> string" where
  "roleName role =
    (case map_of ROLE_NAMES (string_of role) of Some w \<Rightarrow> w | None \<Rightarrow> to_lower (js_string_or role ''unknown''))"

text \<open>\<open>None\<close> where \<open>toISOString\<close> throws a \<open>RangeError\<close>: \<open>value\<close> is positive but no date is that late.\<close>

definition unixDate :: "json option \<Rightarrow> string option" where
  "unixDate secs =
    (let value = js_number (coalesce secs (Some (JNum (num_of_int 0)))) in
     if \<not> num_is_finite value \<or> num_le value (num_of_int 0) then Some EM_DASH
     else map_option (\<lambda>t. take 10 (iso_string t)) (time_clip (num_mul value (num_of_int 1000))))"

definition hasMetadataHash :: "json \<Rightarrow> bool" where
  "hasMetadataHash m =
    (case coalesce (member ''metadata_hash'' m) (member ''metadataHash'' m) of Some (JStr s) \<Rightarrow> s \<noteq> [] | _ \<Rightarrow> False)"

definition PURPOSE_WORDS :: "(string \<times> string) list" where
  "PURPOSE_WORDS = [(''SALA'', ''Salary''), (''SUPP'', ''Supplier payment''), (''TRAD'', ''Trade''),
     (''INTC'', ''Intra-company transfer''), (''TAXS'', ''Tax''), (''PENS'', ''Pension'')]"

definition purposeCode :: "json option \<Rightarrow> string" where
  "purposeCode code =
    (let key = js_string_or code [] in
     case map_of PURPOSE_WORDS key of Some w \<Rightarrow> w | None \<Rightarrow> if key = [] then EM_DASH else key)"

text \<open>\<open>toFixed(k)\<close> with \<open>k\<close> at least one: the decimal nearest the exact value, the larger of two.\<close>

fun to_fixed :: "nat \<Rightarrow> jsnum \<Rightarrow> string" where
  "to_fixed k (JFin s m e) =
    (let (n, d) = num_frac m e; q = (2 * n * 10 ^ k + d) div (2 * d); f = dec_nat (q mod 10 ^ k) in
     if 10 ^ 21 * d \<le> n then num_string (JFin s m e)
     else (if s \<and> m \<noteq> 0 then ''-'' else []) @ dec_nat (q div 10 ^ k) @ ''.'' @ replicate (k - length f) CHR ''0'' @ f)"
| "to_fixed k x = num_string x"

definition labelled :: "string \<Rightarrow> string option \<Rightarrow> bool \<Rightarrow> decoded_detail option" where
  "labelled name val address = map_option (\<lambda>v. \<lparr>dl_label = name, dl_value = v, dl_address = address\<rparr>) val"

definition decoded_as :: "message_kind \<Rightarrow> string option \<Rightarrow> string option \<Rightarrow> bool \<Rightarrow> json option \<Rightarrow> json option \<Rightarrow>
    raw_coin list option \<Rightarrow> decoded_detail option list \<Rightarrow> decoded_parts option" where
  "decoded_as kind title summary everyday actor counterparty coins details =
    (case (title, summary, those details) of
       (Some t, Some s, Some ds) \<Rightarrow>
         Some \<lparr>dd_kind = kind, dd_title = t, dd_summary = s, dd_everyday = everyday, dd_actor = actor,
           dd_counterparty = counterparty, dd_coins = coins, dd_details = ds\<rparr>
     | _ \<Rightarrow> None)"

section \<open>The decoders\<close>

text \<open>\<open>Array.isArray(x) ? x : []\<close>, the elements of a declared array, and its first element.\<close>

definition array_or_empty :: "json option \<Rightarrow> json list" where
  "array_or_empty j = (case j of Some (JArr xs) \<Rightarrow> xs | _ \<Rightarrow> [])"

definition declared_array :: "json option \<Rightarrow> json list option" where
  "declared_array j = (if nullish j then Some [] else case j of Some (JArr xs) \<Rightarrow> Some xs | _ \<Rightarrow> None)"

definition plural :: "nat \<Rightarrow> string" where
  "plural n = (if n = 1 then [] else ''s'')"

definition dec_bank_MultiSend :: message_decoder where
  "dec_bank_MultiSend ctx m =
     (let outputs = array_or_empty (member ''outputs'' m);
          inputs = array_or_empty (member ''inputs'' m);
          payer = (if inputs \<noteq> [] \<and> truthy_json (Some (hd inputs)) then Some (hd inputs) else None) in
      decoded_as Transfer_kind (Some ''Batch transfer'')
       (Some (''A batch payment to '' @ dec_nat (length outputs) @ '' recipient'' @ plural (length outputs)))
       True (Option.bind payer (member ''address'')) None (Some (coinsOf (Option.bind payer (member ''coins'')))) [])"

definition dec_oracle_SubmitExchangeRates :: message_decoder where
  "dec_oracle_SubmitExchangeRates ctx m =
    (case declared_array (member ''rates'' m) of None \<Rightarrow> None
     | Some rates \<Rightarrow>
      decoded_as Admin_kind (Some ''Price report'')
       (say [who ctx (member ''feeder'' m), Some '' reported '', Some (dec_nat (length rates)), Some '' price'', Some (plural (length rates)),
         Some '' for '', truncated (coalesce (member ''validator'' m) (Some (JStr [])))])
       False (member ''feeder'' m) None None
       (map (\<lambda>r. case (if r = JNull then None else string_in (coalesce (member ''denom'' r) (Some (JStr [])))) of
          None \<Rightarrow> None | Some d \<Rightarrow> labelled d (string_in (coalesce (member ''rate'' r) (Some (JStr [])))) False) rates))"

definition joined :: "json option \<Rightarrow> string option" where
  "joined j = map_option (\<lambda>xs. join_with '', '' (map (\<lambda>x. if x = JNull then [] else js_string x) xs)) (declared_array j)"

definition dec_oracle_ApplyAppraiser :: message_decoder where
  "dec_oracle_ApplyAppraiser ctx m =
     decoded_as Admin_kind (Some ''Valuer application'')
       (say [who ctx (member ''creator'' m), Some '' applied to value real-world assets'', (if truthy_json (member ''name'' m) then say [Some ('' as '' @ [CHR 0x22]), spoken (member ''name'' m), Some [CHR 0x22]] else Some [])])
       False (member ''creator'' m) None None
       [labelled ''Credentials'' (string_in (coalesce (member ''credentials'' m) (Some (JStr [])))) False,
        labelled ''Asset types'' (map_option (\<lambda>s. if s = [] then ''all'' else s) (joined (member ''class_ids'' m))) False]"

definition dec_group_SubmitProposal :: message_decoder where
  "dec_group_SubmitProposal ctx m =
     decoded_as Governance_kind (Some ''Approval requested'')
       (say [who ctx (case member ''proposers'' m of Some (JArr (p # _)) \<Rightarrow> Some p | _ \<Rightarrow> None),
         Some '' requested approval for an action on a shared account''])
       True None None None []"

definition dec_bank_Send :: message_decoder where
  "dec_bank_Send ctx m =
     decoded_as Transfer_kind (Some ''Transfer'')
       (say [who ctx (member ''from_address'' m), Some '' sent '', money ctx (coinsOf (member ''amount'' m)),
         Some '' to '', who ctx (member ''to_address'' m)])
       True (member ''from_address'' m) (member ''to_address'' m) (Some (coinsOf (member ''amount'' m)))
       ([])"

definition dec_paymsg_SendPayment :: message_decoder where
  "dec_paymsg_SendPayment ctx m =
     decoded_as Payment_kind (Some ''Payment'')
       (say [who ctx (member ''debtor'' m), Some '' paid '', amount_of ctx (member ''amount'' m) (member ''denom'' m),
         Some '' to '', who ctx (member ''creditor'' m), (if truthy_json (member ''remittance_information'' m)
         then say [Some ('' for '' @ [CHR 0x22]), spoken (member ''remittance_information'' m), Some [CHR 0x22]]
         else Some [])])
       True (member ''debtor'' m) (member ''creditor'' m) (Some (if (is_text (member ''amount'' m) \<and> is_text (member ''denom'' m)) then [(member ''denom'' m, member ''amount'' m)] else []))
       ([labelled ''Reference'' (string_in (coalesce (member ''end_to_end_id'' m) (Some (JStr EM_DASH)))) False]
         @ [if hasMetadataHash m then labelled ''Purpose'' (Some ''Held off-chain'') False
         else labelled ''Purpose'' (Some (purposeCode (member ''purpose_code'' m))) False]
         @ [labelled ''Sending institution'' (string_in (coalesce (member ''instructing_participant'' m) (Some (JStr EM_DASH)))) True] @ [labelled ''Receiving institution'' (string_in (coalesce (member ''instructed_participant'' m) (Some (JStr EM_DASH)))) True] @ (if truthy_json (member ''settlement_jurisdiction'' m) then [labelled ''Settles in'' (spoken (member ''settlement_jurisdiction'' m)) False] else []))"

definition dec_paymsg_ApplyParticipant :: message_decoder where
  "dec_paymsg_ApplyParticipant ctx m =
     decoded_as Admin_kind (Some ''Institution application'')
       (say [who ctx (member ''creator'' m), Some '' applied to become a payment institution'',
         (if truthy_json (member ''name'' m) then say [Some ('' as '' @ [CHR 0x22]), spoken (member ''name'' m),
         Some [CHR 0x22]] else Some [])])
       False (member ''creator'' m) (None) (None)
       ([])"

definition dec_paymsg_RegisterCustomer :: message_decoder where
  "dec_paymsg_RegisterCustomer ctx m =
     decoded_as Admin_kind ((if truthy_json (member ''registered'' m) then Some ''Customer registered''
       else Some ''Customer removed''))
       ((if truthy_json (member ''registered'' m) then say [who ctx (member ''participant'' m), Some '' recorded '',
         who ctx (member ''customer'' m),
         Some '' as one of its customers, which lets their payments name it as the instructing institution'']
         else say [who ctx (member ''participant'' m), Some '' ended its relationship with '',
         who ctx (member ''customer'' m)]))
       False (member ''participant'' m) (member ''customer'' m) (None)
       ([])"

definition dec_paymsg_ApproveParticipant :: message_decoder where
  "dec_paymsg_ApproveParticipant ctx m =
     decoded_as Governance_kind (Some ''Institution decision'')
       (say [Some ''Governance '', (if truthy_json (member ''approve'' m) then Some ''approved'' else Some ''rejected''),
         Some '' '', who ctx (member ''participant'' m), Some '' as a payment institution''])
       False (None) (member ''participant'' m) (None)
       ([])"

definition dec_staking_Delegate :: message_decoder where
  "dec_staking_Delegate ctx m =
     decoded_as Staking_kind (Some ''Stake'')
       (say [who ctx (member ''delegator_address'' m), Some '' staked '', money ctx (if truthy_json (member ''amount'' m)
         then [as_coin (member ''amount'' m)] else []), Some '' with '', who ctx (member ''validator_address'' m)])
       True (member ''delegator_address'' m) (member ''validator_address'' m) (Some (if truthy_json (member ''amount'' m)
         then [as_coin (member ''amount'' m)] else []))
       ([])"

definition dec_staking_Undelegate :: message_decoder where
  "dec_staking_Undelegate ctx m =
     decoded_as Staking_kind (Some ''Unstake'')
       (say [who ctx (member ''delegator_address'' m), Some '' began unstaking '',
         money ctx (if truthy_json (member ''amount'' m) then [as_coin (member ''amount'' m)] else []), Some '' from '',
         who ctx (member ''validator_address'' m)])
       True (member ''delegator_address'' m) (member ''validator_address'' m) (Some (if truthy_json (member ''amount'' m)
         then [as_coin (member ''amount'' m)] else []))
       ([labelled ''Note'' (Some ''Unstaked funds are released after the unbonding period.'') False])"

definition dec_staking_BeginRedelegate :: message_decoder where
  "dec_staking_BeginRedelegate ctx m =
     decoded_as Staking_kind (Some ''Move stake'')
       (say [who ctx (member ''delegator_address'' m), Some '' moved '', money ctx (if truthy_json (member ''amount'' m)
         then [as_coin (member ''amount'' m)] else []), Some '' from '', who ctx (member ''validator_src_address'' m),
         Some '' to '', who ctx (member ''validator_dst_address'' m)])
       True (member ''delegator_address'' m) (member ''validator_dst_address'' m) (Some (if truthy_json (member ''amount'' m) then [as_coin (member ''amount'' m)] else []))
       ([])"

definition dec_staking_CreateValidator :: message_decoder where
  "dec_staking_CreateValidator ctx m =
     decoded_as Staking_kind (Some ''New validator'')
       (say [(if truthy_json (Option.bind (member ''description'' m) (member ''moniker'')) then say [Some [CHR 0x22],
         spoken (Option.bind (member ''description'' m) (member ''moniker'')), Some [CHR 0x22]]
         else who ctx (member ''validator_address'' m)), Some '' joined as a validator''])
       False (member ''validator_address'' m) (None) (Some (if truthy_json (member ''value'' m)
         then [as_coin (member ''value'' m)] else []))
       ([])"

definition dec_staking_EditValidator :: message_decoder where
  "dec_staking_EditValidator ctx m =
     decoded_as Staking_kind (Some ''Validator update'')
       (say [who ctx (member ''validator_address'' m), Some '' updated their validator details''])
       False (member ''validator_address'' m) (None) (None)
       ([])"

definition dec_staking_CancelUnbondingDelegation :: message_decoder where
  "dec_staking_CancelUnbondingDelegation ctx m =
     decoded_as Staking_kind (Some ''Cancel unstake'')
       (say [who ctx (member ''delegator_address'' m), Some '' cancelled an unstaking request''])
       True (member ''delegator_address'' m) (None) (Some (if truthy_json (member ''amount'' m)
         then [as_coin (member ''amount'' m)] else []))
       ([])"

definition dec_distribution_WithdrawDelegatorReward :: message_decoder where
  "dec_distribution_WithdrawDelegatorReward ctx m =
     decoded_as Staking_kind (Some ''Collect rewards'')
       (say [who ctx (member ''delegator_address'' m), Some '' collected staking rewards from '',
         who ctx (member ''validator_address'' m)])
       True (member ''delegator_address'' m) (member ''validator_address'' m) (None)
       ([])"

definition dec_distribution_WithdrawValidatorCommission :: message_decoder where
  "dec_distribution_WithdrawValidatorCommission ctx m =
     decoded_as Staking_kind (Some ''Collect commission'')
       (say [who ctx (member ''validator_address'' m), Some '' collected their validator commission''])
       False (member ''validator_address'' m) (None) (None)
       ([])"

definition dec_distribution_SetWithdrawAddress :: message_decoder where
  "dec_distribution_SetWithdrawAddress ctx m =
     decoded_as Admin_kind (Some ''Reward address'')
       (say [who ctx (member ''delegator_address'' m), Some '' set rewards to be paid to '',
         who ctx (member ''withdraw_address'' m)])
       False (member ''delegator_address'' m) (None) (None)
       ([])"

definition dec_distribution_FundCommunityPool :: message_decoder where
  "dec_distribution_FundCommunityPool ctx m =
     decoded_as Governance_kind (Some ''Community funding'')
       (say [who ctx (member ''depositor'' m), Some '' contributed '', money ctx (coinsOf (member ''amount'' m)),
         Some '' to the community pool''])
       False (member ''depositor'' m) (None) (Some (coinsOf (member ''amount'' m)))
       ([])"

definition dec_gov_SubmitProposal :: message_decoder where
  "dec_gov_SubmitProposal ctx m =
     decoded_as Governance_kind (Some ''New proposal'')
       (say [who ctx (member ''proposer'' m), Some '' submitted a governance proposal'',
         (if truthy_json (member ''title'' m) then say [Some ('': '' @ [CHR 0x22]), spoken (member ''title'' m),
         Some [CHR 0x22]] else Some [])])
       False (member ''proposer'' m) (None) (Some (coinsOf (member ''initial_deposit'' m)))
       ([])"

definition dec_gov_Vote :: message_decoder where
  "dec_gov_Vote ctx m =
     decoded_as Governance_kind (Some ''Vote'')
       (say [who ctx (member ''voter'' m), Some '' voted '', Some (voteOption (member ''option'' m)),
         Some '' on proposal '', spoken (member ''proposal_id'' m)])
       False (member ''voter'' m) (None) (None)
       ([])"

definition dec_gov_VoteWeighted :: message_decoder where
  "dec_gov_VoteWeighted ctx m =
     decoded_as Governance_kind (Some ''Split vote'')
       (say [who ctx (member ''voter'' m), Some '' cast a split vote on proposal '', spoken (member ''proposal_id'' m)])
       False (member ''voter'' m) (None) (None)
       ([])"

definition dec_gov_Deposit :: message_decoder where
  "dec_gov_Deposit ctx m =
     decoded_as Governance_kind (Some ''Proposal deposit'')
       (say [who ctx (member ''depositor'' m), Some '' backed proposal '', spoken (member ''proposal_id'' m),
         Some '' with '', money ctx (coinsOf (member ''amount'' m))])
       False (member ''depositor'' m) (None) (Some (coinsOf (member ''amount'' m)))
       ([])"

definition dec_amm_Swap :: message_decoder where
  "dec_amm_Swap ctx m =
     decoded_as Trade_kind (Some ''Swap'')
       (say [who ctx (member ''sender'' m), Some '' swapped '',
         amount_of ctx (member ''token_in_amount'' m) (member ''token_in_denom'' m), Some '' for '',
         resolveSymbol ctx (member ''token_out_denom'' m)])
       True (member ''sender'' m) (None) (Some (if is_text (member ''token_in_amount'' m)
         then [(member ''token_in_denom'' m, member ''token_in_amount'' m)] else []))
       ([labelled ''Pool'' (say [Some ''#'', spoken (member ''pool_id'' m)]) False]
         @ [labelled ''Minimum accepted'' (amount_of ctx (member ''min_amount_out'' m) (member ''token_out_denom'' m)) False])"

definition dec_amm_CreatePool :: message_decoder where
  "dec_amm_CreatePool ctx m =
     decoded_as Trade_kind (Some ''New pool'')
       (say [who ctx (member ''creator'' m), Some '' opened a '', resolveSymbol ctx (member ''denom_a'' m), Some ''/'',
         resolveSymbol ctx (member ''denom_b'' m), Some '' trading pool''])
       False (member ''creator'' m) (None) (None)
       ([labelled ''Initial liquidity'' (say [amount_of ctx (member ''amount_a'' m) (member ''denom_a'' m), Some '' and '',
         amount_of ctx (member ''amount_b'' m) (member ''denom_b'' m)]) False]
         @ [labelled ''Trading fee'' (say [Some (to_fixed 2 (num_div (js_number (coalesce (member ''swap_fee_bps'' m) (Some (JNum (num_of_int 0))))) (num_of_int 100))), Some ''%'']) False])"

definition dec_amm_JoinPool :: message_decoder where
  "dec_amm_JoinPool ctx m =
     decoded_as Trade_kind (Some ''Add liquidity'')
       (say [who ctx (member ''sender'' m), Some '' added liquidity to pool #'', spoken (member ''pool_id'' m)])
       False (member ''sender'' m) (None) (None)
       ([])"

definition dec_amm_ExitPool :: message_decoder where
  "dec_amm_ExitPool ctx m =
     decoded_as Trade_kind (Some ''Remove liquidity'')
       (say [who ctx (member ''sender'' m), Some '' withdrew liquidity from pool #'', spoken (member ''pool_id'' m)])
       False (member ''sender'' m) (None) (None)
       ([])"

definition dec_stablecoin_MintCoin :: message_decoder where
  "dec_stablecoin_MintCoin ctx m =
     decoded_as Issuance_kind (Some ''Issued'')
       (say [who ctx (member ''issuer'' m), Some '' issued '', amount_of ctx (member ''amount'' m) (member ''denom'' m),
         Some '' to '', who ctx (member ''recipient'' m)])
       True (member ''issuer'' m) (member ''recipient'' m) (Some (if is_text (member ''amount'' m)
         then [(member ''denom'' m, member ''amount'' m)] else []))
       ([])"

definition dec_stablecoin_BurnCoin :: message_decoder where
  "dec_stablecoin_BurnCoin ctx m =
     decoded_as Issuance_kind (Some ''Redeemed'')
       (say [who ctx (member ''issuer'' m), Some '' redeemed '', amount_of ctx (member ''amount'' m) (member ''denom'' m),
         Some '' out of circulation''])
       True (member ''issuer'' m) (None) (Some (if is_text (member ''amount'' m) then [(member ''denom'' m,
         member ''amount'' m)] else []))
       ([])"

definition dec_stablecoin_RegisterCurrency :: message_decoder where
  "dec_stablecoin_RegisterCurrency ctx m =
     decoded_as Admin_kind (Some ''Currency application'')
       (say [who ctx (member ''creator'' m), Some '' applied to issue '', (if truthy_json (member ''symbol'' m)
         then spoken (member ''symbol'' m) else spoken (member ''denom'' m))])
       False (member ''creator'' m) (None) (None)
       ([])"

definition dec_stablecoin_ApproveIssuer :: message_decoder where
  "dec_stablecoin_ApproveIssuer ctx m =
     decoded_as Governance_kind (Some ''Issuer decision'')
       (say [Some ''Governance '', (if truthy_json (member ''approve'' m) then Some ''approved'' else Some ''rejected''),
         Some '' an issuer for '', spoken (member ''denom'' m)])
       False (None) (None) (None)
       ([])"

definition dec_treasury_CreateTreasury :: message_decoder where
  "dec_treasury_CreateTreasury ctx m =
     decoded_as Treasury_kind (Some ''New treasury'')
       (say [who ctx (member ''creator'' m), Some ('' opened the treasury '' @ [CHR 0x22]),
         (if truthy_json (member ''name'' m) then spoken (member ''name'' m) else Some ''untitled''), Some [CHR 0x22]])
       False (member ''creator'' m) (None) (None)
       ([])"

definition dec_treasury_Deposit :: message_decoder where
  "dec_treasury_Deposit ctx m =
     decoded_as Treasury_kind (Some ''Treasury deposit'')
       (say [who ctx (member ''depositor'' m), Some '' paid '', money ctx (coinsOf (member ''amount'' m)),
         Some '' into treasury #'', spoken (member ''treasury_id'' m)])
       True (member ''depositor'' m) (None) (Some (coinsOf (member ''amount'' m)))
       ([])"

definition dec_treasury_Spend :: message_decoder where
  "dec_treasury_Spend ctx m =
     decoded_as Treasury_kind (Some ''Treasury payment'')
       (say [Some ''Treasury #'', spoken (member ''treasury_id'' m), Some '' paid '',
         money ctx (coinsOf (member ''amount'' m)), Some '' to '', who ctx (member ''recipient'' m),
         (if truthy_json (member ''memo'' m) then say [Some ('' for '' @ [CHR 0x22]), spoken (member ''memo'' m),
         Some [CHR 0x22]] else Some [])])
       True (member ''spender'' m) (member ''recipient'' m) (Some (coinsOf (member ''amount'' m)))
       ([])"

definition dec_treasury_CreateLock :: message_decoder where
  "dec_treasury_CreateLock ctx m =
     decoded_as Treasury_kind (Some ''Funds committed'')
       (say [Some ''Treasury #'', spoken (member ''treasury_id'' m), Some '' committed '',
         amount_of ctx (member ''amount'' m) (member ''denom'' m), Some '' to '', who ctx (member ''beneficiary'' m),
         (if member ''lock_type'' m = Some (JStr ''LOCK_TYPE_VESTING'') then Some '', vesting over time''
         else Some '', released in full later'')])
       True (member ''admin'' m) (member ''beneficiary'' m) (Some (if is_text (member ''amount'' m)
         then [(member ''denom'' m, member ''amount'' m)] else []))
       ([labelled ''Type'' ((if member ''lock_type'' m = Some (JStr ''LOCK_TYPE_VESTING'') then Some ''Vesting schedule''
         else Some ''Time lock'')) False] @ [labelled ''Can be cancelled'' ((if truthy_json (member ''revocable'' m)
         then Some ''Yes'' else Some ''No'')) False])"

definition dec_treasury_ClaimLock :: message_decoder where
  "dec_treasury_ClaimLock ctx m =
     decoded_as Treasury_kind (Some ''Claimed'')
       (say [who ctx (member ''beneficiary'' m), Some '' claimed funds that had become available to them''])
       True (member ''beneficiary'' m) (None) (None)
       ([])"

definition dec_treasury_RevokeLock :: message_decoder where
  "dec_treasury_RevokeLock ctx m =
     decoded_as Treasury_kind (Some ''Commitment cancelled'')
       (say [Some ''A treasury cancelled commitment #'', spoken (member ''lock_id'' m),
         Some ''; anything already earned still goes to the beneficiary''])
       True (member ''admin'' m) (None) (None)
       ([])"

definition dec_treasury_AssignRole :: message_decoder where
  "dec_treasury_AssignRole ctx m =
     decoded_as Admin_kind (Some ''Role granted'')
       (say [Some ''Treasury #'', spoken (member ''treasury_id'' m), Some '' granted '', who ctx (member ''address'' m),
         Some '' the '', Some (roleName (member ''role'' m)), Some '' role''])
       False (member ''admin'' m) (member ''address'' m) (None)
       ([])"

definition dec_treasury_RevokeRole :: message_decoder where
  "dec_treasury_RevokeRole ctx m =
     decoded_as Admin_kind (Some ''Role removed'')
       (say [Some ''Treasury #'', spoken (member ''treasury_id'' m), Some '' removed '', who ctx (member ''address'' m),
         Some ([CHR 0x27] @ ''s role'')])
       False (member ''admin'' m) (None) (None)
       ([])"

definition dec_treasury_SetSpendPolicy :: message_decoder where
  "dec_treasury_SetSpendPolicy ctx m =
     decoded_as Admin_kind (Some ''Spending rules'')
       (say [Some ''Treasury #'', spoken (Option.bind (member ''policy'' m) (member ''treasury_id'')),
         Some '' updated its spending limits''])
       False (member ''admin'' m) (None) (None)
       ([])"

definition dec_treasury_SetPaused :: message_decoder where
  "dec_treasury_SetPaused ctx m =
     decoded_as Admin_kind ((if truthy_json (member ''paused'' m) then Some ''Treasury frozen''
       else Some ''Treasury resumed''))
       (say [who ctx (member ''sender'' m), Some '' '', (if truthy_json (member ''paused'' m) then Some ''froze''
         else Some ''resumed''), Some '' treasury #'', spoken (member ''treasury_id'' m)])
       True (member ''sender'' m) (None) (None)
       ([])"

definition dec_treasury_SetAdmin :: message_decoder where
  "dec_treasury_SetAdmin ctx m =
     decoded_as Admin_kind (Some ''Control transferred'')
       (say [Some ''Treasury #'', spoken (member ''treasury_id'' m), Some '' handed control to '',
         who ctx (member ''new_admin'' m)])
       False (member ''admin'' m) (member ''new_admin'' m) (None)
       ([])"

definition dec_validatorgov_ApplyValidator :: message_decoder where
  "dec_validatorgov_ApplyValidator ctx m =
     decoded_as Admin_kind (Some ''Validator application'')
       (say [who ctx (member ''creator'' m), Some '' applied to run a validator'', (if truthy_json (member ''moniker'' m)
         then say [Some ('' as '' @ [CHR 0x22]), spoken (member ''moniker'' m), Some [CHR 0x22]] else Some [])])
       False (member ''creator'' m) (None) (None)
       ([])"

definition dec_validatorgov_ApproveValidator :: message_decoder where
  "dec_validatorgov_ApproveValidator ctx m =
     decoded_as Governance_kind (Some ''Validator decision'')
       (say [Some ''Governance '', (if truthy_json (member ''approve'' m) then Some ''approved'' else Some ''rejected''),
         Some '' '', who ctx (member ''candidate'' m), Some '' as a validator''])
       False (None) (member ''candidate'' m) (None)
       ([])"

definition dec_builderfee_RegisterBuilder :: message_decoder where
  "dec_builderfee_RegisterBuilder ctx m =
     decoded_as Admin_kind (Some ''Builder registration'')
       (say [who ctx (member ''creator'' m), Some '' registered for a fee share on '',
         short_of (member ''msg_type_url'' m)])
       False (member ''creator'' m) (None) (None)
       ([])"

definition dec_builderfee_ApproveBuilder :: message_decoder where
  "dec_builderfee_ApproveBuilder ctx m =
     decoded_as Governance_kind (Some ''Builder decision'')
       (say [Some ''Governance '', (if truthy_json (member ''approve'' m) then Some ''approved'' else Some ''rejected''),
         Some '' a fee share for '', short_of (member ''msg_type_url'' m)])
       False (None) (None) (None)
       ([])"

definition dec_oracle_DelegateFeeder :: message_decoder where
  "dec_oracle_DelegateFeeder ctx m =
     decoded_as Admin_kind (Some ''Price reporting delegated'')
       (say [truncated (coalesce (member ''validator'' m) (Some (JStr []))), Some '' authorised '',
         who ctx (member ''feeder'' m), Some '' to report prices on its behalf''])
       False (member ''operator'' m) (member ''feeder'' m) (None)
       ([])"

definition dec_oracle_ApproveAppraiser :: message_decoder where
  "dec_oracle_ApproveAppraiser ctx m =
     decoded_as Governance_kind (Some ''Valuer decision'')
       (say [Some ''Governance '', (if truthy_json (member ''approve'' m) then Some ''approved'' else Some ''rejected''),
         Some '' '', who ctx (member ''appraiser'' m), Some '' as an independent valuer''])
       False (None) (member ''appraiser'' m) (None)
       ([])"

definition dec_oracle_RevokeAppraiser :: message_decoder where
  "dec_oracle_RevokeAppraiser ctx m =
     decoded_as Governance_kind (Some ''Valuer authority withdrawn'')
       (say [Some ''Governance withdrew '', who ctx (member ''appraiser'' m), Some ([CHR 0x27]
         @ ''s authority to value assets''), (if truthy_json (member ''reason'' m) then say [Some '': '',
         spoken (member ''reason'' m)] else Some []), Some ''. Their existing valuations remain on record.''])
       False (None) (member ''appraiser'' m) (None)
       ([])"

definition dec_oracle_SubmitAppraisal :: message_decoder where
  "dec_oracle_SubmitAppraisal ctx m =
     decoded_as Admin_kind (Some ''Asset valued'')
       (say [who ctx (member ''appraiser'' m), Some '' valued '', spoken (member ''class_id'' m), Some ''/'',
         spoken (member ''nft_id'' m), Some '' at '', amount_of ctx (member ''value'' m) (member ''value_denom'' m)])
       True (member ''appraiser'' m) (None) (None)
       ([labelled ''Valuation date'' (unixDate (member ''valued_at'' m)) False]
         @ [labelled ''Method'' (string_in (coalesce (member ''method'' m) (Some (JStr [])))) False]
         @ (if truthy_json (member ''report_uri'' m) then [labelled ''Report'' (string_in (member ''report_uri'' m)) False]
         else []))"

definition dec_authz_Grant :: message_decoder where
  "dec_authz_Grant ctx m =
     decoded_as Admin_kind (Some ''Permission granted'')
       (say [who ctx (member ''granter'' m), Some '' authorised '', who ctx (member ''grantee'' m),
         Some '' to act on their behalf''])
       False (member ''granter'' m) (member ''grantee'' m) (None)
       ([])"

definition dec_authz_Revoke :: message_decoder where
  "dec_authz_Revoke ctx m =
     decoded_as Admin_kind (Some ''Permission revoked'')
       (say [who ctx (member ''granter'' m), Some '' withdrew '', who ctx (member ''grantee'' m), Some ([CHR 0x27]
         @ ''s authorisation'')])
       False (member ''granter'' m) (member ''grantee'' m) (None)
       ([])"

definition dec_authz_Exec :: message_decoder where
  "dec_authz_Exec ctx m =
     decoded_as Admin_kind (Some ''Acted on behalf'')
       (say [who ctx (member ''grantee'' m), Some '' acted using an authorisation granted to them''])
       False (member ''grantee'' m) (None) (None)
       ([])"

definition dec_feegrant_GrantAllowance :: message_decoder where
  "dec_feegrant_GrantAllowance ctx m =
     decoded_as Admin_kind (Some ''Fee sponsorship'')
       (say [who ctx (member ''granter'' m), Some '' agreed to cover '', who ctx (member ''grantee'' m), Some ([CHR 0x27]
         @ ''s transaction fees'')])
       False (member ''granter'' m) (member ''grantee'' m) (None)
       ([])"

definition dec_feegrant_RevokeAllowance :: message_decoder where
  "dec_feegrant_RevokeAllowance ctx m =
     decoded_as Admin_kind (Some ''Sponsorship ended'')
       (say [who ctx (member ''granter'' m), Some '' stopped covering '', who ctx (member ''grantee'' m), Some ([CHR 0x27]
         @ ''s fees'')])
       False (member ''granter'' m) (None) (None)
       ([])"

definition dec_group_CreateGroupWithPolicy :: message_decoder where
  "dec_group_CreateGroupWithPolicy ctx m =
     decoded_as Admin_kind (Some ''Shared account created'')
       (say [who ctx (member ''admin'' m), Some '' created a shared account requiring multiple approvals''])
       False (member ''admin'' m) (None) (None)
       ([])"

definition dec_group_Vote :: message_decoder where
  "dec_group_Vote ctx m =
     decoded_as Governance_kind (Some ''Approval given'')
       (say [who ctx (member ''voter'' m), Some '' voted '', Some (voteOption (member ''option'' m)),
         Some '' on shared-account request '', spoken (member ''proposal_id'' m)])
       True (member ''voter'' m) (None) (None)
       ([])"

definition dec_group_Exec :: message_decoder where
  "dec_group_Exec ctx m =
     decoded_as Governance_kind (Some ''Approved action carried out'')
       (say [Some ''Request '', spoken (member ''proposal_id'' m), Some '' reached enough approvals and was carried out''])
       True (member ''executor'' m) (None) (None)
       ([])"

definition dec_transfer_Transfer :: message_decoder where
  "dec_transfer_Transfer ctx m =
     decoded_as Transfer_kind (Some ''Sent to another chain'')
       (say [who ctx (member ''sender'' m), Some '' sent '', (if truthy_json (member ''token'' m)
         then money ctx ([as_coin (member ''token'' m)]) else Some ''funds''), Some '' to another chain''])
       True (member ''sender'' m) (member ''receiver'' m) (Some (if truthy_json (member ''token'' m)
         then [as_coin (member ''token'' m)] else []))
       ([])"

definition DECODERS :: "(string \<times> message_decoder) list" where
  "DECODERS = [
    (''/cosmos.bank.v1beta1.MsgSend'', dec_bank_Send),
    (''/cosmos.bank.v1beta1.MsgMultiSend'', dec_bank_MultiSend),
    (''/blockchain.paymsg.v1.MsgSendPayment'', dec_paymsg_SendPayment),
    (''/blockchain.paymsg.v1.MsgApplyParticipant'', dec_paymsg_ApplyParticipant),
    (''/blockchain.paymsg.v1.MsgRegisterCustomer'', dec_paymsg_RegisterCustomer),
    (''/blockchain.paymsg.v1.MsgApproveParticipant'', dec_paymsg_ApproveParticipant),
    (''/cosmos.staking.v1beta1.MsgDelegate'', dec_staking_Delegate),
    (''/cosmos.staking.v1beta1.MsgUndelegate'', dec_staking_Undelegate),
    (''/cosmos.staking.v1beta1.MsgBeginRedelegate'', dec_staking_BeginRedelegate),
    (''/cosmos.staking.v1beta1.MsgCreateValidator'', dec_staking_CreateValidator),
    (''/cosmos.staking.v1beta1.MsgEditValidator'', dec_staking_EditValidator),
    (''/cosmos.staking.v1beta1.MsgCancelUnbondingDelegation'', dec_staking_CancelUnbondingDelegation),
    (''/cosmos.distribution.v1beta1.MsgWithdrawDelegatorReward'', dec_distribution_WithdrawDelegatorReward),
    (''/cosmos.distribution.v1beta1.MsgWithdrawValidatorCommission'', dec_distribution_WithdrawValidatorCommission),
    (''/cosmos.distribution.v1beta1.MsgSetWithdrawAddress'', dec_distribution_SetWithdrawAddress),
    (''/cosmos.distribution.v1beta1.MsgFundCommunityPool'', dec_distribution_FundCommunityPool),
    (''/cosmos.gov.v1.MsgSubmitProposal'', dec_gov_SubmitProposal),
    (''/cosmos.gov.v1.MsgVote'', dec_gov_Vote),
    (''/cosmos.gov.v1.MsgVoteWeighted'', dec_gov_VoteWeighted),
    (''/cosmos.gov.v1.MsgDeposit'', dec_gov_Deposit),
    (''/blockchain.amm.v1.MsgSwap'', dec_amm_Swap),
    (''/blockchain.amm.v1.MsgCreatePool'', dec_amm_CreatePool),
    (''/blockchain.amm.v1.MsgJoinPool'', dec_amm_JoinPool),
    (''/blockchain.amm.v1.MsgExitPool'', dec_amm_ExitPool),
    (''/blockchain.stablecoin.v1.MsgMintCoin'', dec_stablecoin_MintCoin),
    (''/blockchain.stablecoin.v1.MsgBurnCoin'', dec_stablecoin_BurnCoin),
    (''/blockchain.stablecoin.v1.MsgRegisterCurrency'', dec_stablecoin_RegisterCurrency),
    (''/blockchain.stablecoin.v1.MsgApproveIssuer'', dec_stablecoin_ApproveIssuer),
    (''/blockchain.treasury.v1.MsgCreateTreasury'', dec_treasury_CreateTreasury),
    (''/blockchain.treasury.v1.MsgDeposit'', dec_treasury_Deposit),
    (''/blockchain.treasury.v1.MsgSpend'', dec_treasury_Spend),
    (''/blockchain.treasury.v1.MsgCreateLock'', dec_treasury_CreateLock),
    (''/blockchain.treasury.v1.MsgClaimLock'', dec_treasury_ClaimLock),
    (''/blockchain.treasury.v1.MsgRevokeLock'', dec_treasury_RevokeLock),
    (''/blockchain.treasury.v1.MsgAssignRole'', dec_treasury_AssignRole),
    (''/blockchain.treasury.v1.MsgRevokeRole'', dec_treasury_RevokeRole),
    (''/blockchain.treasury.v1.MsgSetSpendPolicy'', dec_treasury_SetSpendPolicy),
    (''/blockchain.treasury.v1.MsgSetPaused'', dec_treasury_SetPaused),
    (''/blockchain.treasury.v1.MsgSetAdmin'', dec_treasury_SetAdmin),
    (''/blockchain.validatorgov.v1.MsgApplyValidator'', dec_validatorgov_ApplyValidator),
    (''/blockchain.validatorgov.v1.MsgApproveValidator'', dec_validatorgov_ApproveValidator),
    (''/blockchain.builderfee.v1.MsgRegisterBuilder'', dec_builderfee_RegisterBuilder),
    (''/blockchain.builderfee.v1.MsgApproveBuilder'', dec_builderfee_ApproveBuilder),
    (''/blockchain.oracle.v1.MsgSubmitExchangeRates'', dec_oracle_SubmitExchangeRates),
    (''/blockchain.oracle.v1.MsgDelegateFeeder'', dec_oracle_DelegateFeeder),
    (''/blockchain.oracle.v1.MsgApplyAppraiser'', dec_oracle_ApplyAppraiser),
    (''/blockchain.oracle.v1.MsgApproveAppraiser'', dec_oracle_ApproveAppraiser),
    (''/blockchain.oracle.v1.MsgRevokeAppraiser'', dec_oracle_RevokeAppraiser),
    (''/blockchain.oracle.v1.MsgSubmitAppraisal'', dec_oracle_SubmitAppraisal),
    (''/cosmos.authz.v1beta1.MsgGrant'', dec_authz_Grant),
    (''/cosmos.authz.v1beta1.MsgRevoke'', dec_authz_Revoke),
    (''/cosmos.authz.v1beta1.MsgExec'', dec_authz_Exec),
    (''/cosmos.feegrant.v1beta1.MsgGrantAllowance'', dec_feegrant_GrantAllowance),
    (''/cosmos.feegrant.v1beta1.MsgRevokeAllowance'', dec_feegrant_RevokeAllowance),
    (''/cosmos.group.v1.MsgCreateGroupWithPolicy'', dec_group_CreateGroupWithPolicy),
    (''/cosmos.group.v1.MsgSubmitProposal'', dec_group_SubmitProposal),
    (''/cosmos.group.v1.MsgVote'', dec_group_Vote),
    (''/cosmos.group.v1.MsgExec'', dec_group_Exec),
    (''/ibc.applications.transfer.v1.MsgTransfer'', dec_transfer_Transfer)]"

section \<open>decodeMessage\<close>

definition isParamUpdate :: "string \<Rightarrow> bool" where
  "isParamUpdate typeUrl = ends_with typeUrl ''.MsgUpdateParams''"

text \<open>\<open>.replace(/([a-z])([A-Z])/g, '$1 $2')\<close>.\<close>

fun spaced :: "string \<Rightarrow> string" where
  "spaced (a # b # s) = (if a \<in> set lower_alphabet \<and> b \<in> set upper_alphabet then a # CHR '' '' # spaced (b # s) else a # spaced (b # s))"
| "spaced s = s"

definition without_msg :: "string \<Rightarrow> string" where
  "without_msg s = (if starts_with s ''Msg'' then drop 3 s else s)"

definition fallbackDecode :: "string \<Rightarrow> decoded_parts option" where
  "fallbackDecode typeUrl =
    (let s = spaced (without_msg (shortTypeUrl typeUrl)) in
     decoded_as Other_kind (Some (if s = [] then ''Unknown'' else s))
       (Some ((if s = [] then ''An action'' else s) @ '' on the '' @ moduleOf typeUrl @ '' module''))
       False None None None [])"

definition type_of :: "json \<Rightarrow> string option" where
  "type_of m = string_in (coalesce (coalesce (member ''@type'' m) (member ''typeUrl'' m)) (Some (JStr ''unknown'')))"

definition decode_parts :: "decode_context \<Rightarrow> string \<Rightarrow> json \<Rightarrow> decoded_parts option" where
  "decode_parts ctx typeUrl m =
    (case map_of DECODERS typeUrl of
       Some decoder \<Rightarrow> decoder ctx m
     | None \<Rightarrow>
         if isParamUpdate typeUrl
         then decoded_as Governance_kind (Some ''Settings change'')
                (Some (''Governance updated the '' @ moduleOf typeUrl @ '' module'' @ [CHR 0x27] @ ''s settings'')) False None None None []
         else fallbackDecode typeUrl)"

definition decodeMessage :: "decode_context \<Rightarrow> json \<Rightarrow> decoded option" where
  "decodeMessage ctx m =
    (case type_of m of None \<Rightarrow> None
     | Some typeUrl \<Rightarrow> map_option (\<lambda>d. decoded_parts.extend d \<lparr>dd_type = typeUrl, dd_raw = m\<rparr>) (decode_parts ctx typeUrl m))"

text \<open>The message as a proposal would carry it out, \<open>describeProposalAction\<close>.\<close>

definition describeProposalAction :: "decode_context \<Rightarrow> json \<Rightarrow> string option" where
  "describeProposalAction ctx m =
    (case type_of m of None \<Rightarrow> None | Some typeUrl \<Rightarrow>
     if typeUrl = ''/blockchain.oracle.v1.MsgApproveAppraiser'' then
       (if truthy_json (member ''approve'' m)
        then say [Some ''Admit '', who ctx (member ''appraiser'' m), Some '' as an independent valuer'',
               (case member ''class_ids'' m of
                  Some (JArr xs) \<Rightarrow> if xs = [] then Some [] else say [Some '', limited to '', joined (member ''class_ids'' m)]
                | Some (JStr s) \<Rightarrow> if s = [] then Some [] else None
                | Some (JObj ms) \<Rightarrow> if truthy_json (map_of ms ''length'') then None else Some []
                | _ \<Rightarrow> Some [])]
        else say [Some ''Refuse '', who ctx (member ''appraiser'' m), Some ([CHR 0x27] @ ''s application to value assets'')])
     else if typeUrl = ''/blockchain.oracle.v1.MsgRevokeAppraiser'' then
       say [Some ''Withdraw '', who ctx (member ''appraiser'' m), Some ([CHR 0x27] @ ''s authority to value assets''),
         (if truthy_json (member ''reason'' m) then say [Some ('' '' @ EM_DASH @ '' ''), spoken (member ''reason'' m)] else Some [])]
     else if typeUrl = ''/blockchain.validatorgov.v1.MsgApproveValidator'' then
       (if truthy_json (member ''approve'' m) then say [Some ''Allow '', who ctx (member ''candidate'' m), Some '' to run a validator'']
        else say [Some ''Refuse '', who ctx (member ''candidate'' m), Some ([CHR 0x27] @ ''s application to validate'')])
     else if typeUrl = ''/blockchain.stablecoin.v1.MsgApproveIssuer'' then
       (if truthy_json (member ''approve'' m)
        then say [Some ''Allow '', who ctx (member ''issuer'' m), Some '' to issue '', Some (js_string_or (member ''denom'' m) ''a currency'')]
        else say [Some ''Refuse '', who ctx (member ''issuer'' m), Some ([CHR 0x27] @ ''s application to issue currency'')])
     else if typeUrl = ''/blockchain.paymsg.v1.MsgApproveParticipant'' then
       (if truthy_json (member ''approve'' m) then say [Some ''Allow '', who ctx (member ''participant'' m), Some '' to send and receive payments'']
        else say [Some ''Refuse '', who ctx (member ''participant'' m), Some ([CHR 0x27] @ ''s application to route payments'')])
     else if typeUrl = ''/blockchain.builderfee.v1.MsgApproveBuilder'' then
       (if truthy_json (member ''approve'' m) then say [Some ''Grant a share of the fees on '', short_of (member ''msg_type_url'' m)]
        else say [Some ''Refuse a fee share on '', short_of (member ''msg_type_url'' m)])
     else if isParamUpdate typeUrl then Some (''Change the '' @ moduleOf typeUrl @ '' module'' @ [CHR 0x27] @ ''s settings'')
     else map_option dd_summary (decodeMessage ctx m))"

definition TIMES :: string where "TIMES = [CHR 0xC3, CHR 0x97]"

definition summariseTransaction :: "('a decoded_parts_scheme) list \<Rightarrow> string" where
  "summariseTransaction messages =
    (case messages of
       [] \<Rightarrow> ''An empty transaction''
     | [m] \<Rightarrow> dd_summary m
     | m # _ \<Rightarrow>
         (if \<forall>x \<in> set messages. dd_title x = dd_title m
          then dec_nat (length messages) @ '' '' @ TIMES @ '' '' @ to_lower (dd_title m)
          else dec_nat (length messages) @ '' actions in one transaction''))"

end
