(* ===== verification/Rounding.thy ===== *)
theory Rounding imports JsValue Complex_Main begin

text \<open>
  How far an operation on doubles is from the exact result: the value of a double as a real number, the
  relative error of one rounding, and the comparisons that no rounding can turn around.
\<close>

section \<open>Values\<close>

fun num_val :: "jsnum \<Rightarrow> real" where
  "num_val (JFin s m e) = (if s then - (real m * 2 powi e) else real m * 2 powi e)"
| "num_val _ = 0"

lemma num_frac_val: "num_frac m e = (n, d) \<Longrightarrow> real n / real d = real m * 2 powi e"
  by (auto simp: num_frac_def power_int_def field_simps split: if_splits)

lemma signed_nat_val: "num_frac m e = (n, d) \<Longrightarrow> real_of_int (signed_nat s n) / real d = num_val (JFin s m e)"
  using num_frac_val [of m e n d] by (simp add: signed_nat_def)

lemma num_cmp_val:
  assumes "num_is_finite x" "num_is_finite y"
  shows "num_less x y \<longleftrightarrow> num_val x < num_val y" "num_eq x y \<longleftrightarrow> num_val x = num_val y" "num_le x y \<longleftrightarrow> num_val x \<le> num_val y"
proof -
  obtain s m e t n f where xy: "x = JFin s m e" "y = JFin t n f" using assms by (cases x; cases y) auto
  obtain a b c d where fr: "num_frac m e = (a, b)" "num_frac n f = (c, d)" and p: "0 < b" "0 < d"
    using num_frac_pos [of m e] num_frac_pos [of n f] by (cases "num_frac m e"; cases "num_frac n f") auto
  let ?a = "real_of_int (signed_nat s a)" and ?c = "real_of_int (signed_nat t c)"
  have v: "num_val x = ?a / real b" "num_val y = ?c / real d" unfolding xy by (rule signed_nat_val [OF fr(1), symmetric], rule signed_nat_val [OF fr(2), symmetric])
  have l: "real_of_int (signed_nat s (a * d)) = ?a * real d" and r: "real_of_int (signed_nat t (c * b)) = ?c * real b"
    by (simp_all add: signed_nat_mult)
  have "num_less x y \<longleftrightarrow> ?a * real d < ?c * real b" unfolding l [symmetric] r [symmetric] by (simp add: xy fr)
  then show less: "num_less x y \<longleftrightarrow> num_val x < num_val y" unfolding v using p by (simp add: divide_less_eq less_divide_eq mult.commute)
  have "num_eq x y \<longleftrightarrow> ?a * real d = ?c * real b" unfolding l [symmetric] r [symmetric] by (simp add: xy fr)
  then show eq: "num_eq x y \<longleftrightarrow> num_val x = num_val y" unfolding v using p by (simp add: frac_eq_eq)
  show "num_le x y \<longleftrightarrow> num_val x \<le> num_val y" unfolding num_le_def less eq by linarith
qed

section \<open>One rounding\<close>

lemma round_even_near: "0 < b \<Longrightarrow> \<bar>real (round_even a b) - real a / real b\<bar> \<le> 1 / 2"
proof -
  assume b: "0 < b"
  have "real a = real b * real (a div b) + real (a mod b)" by (metis mult_div_mod_eq of_nat_add of_nat_mult)
  then have e: "real a / real b = real (a div b) + real (a mod b) / real b" using b by (simp add: field_simps)
  have "a mod b < b" using b by simp
  then have f: "0 \<le> real (a mod b) / real b" "real (a mod b) / real b < 1" using b by simp_all
  have "\<not> b < 2 * (a mod b) \<Longrightarrow> real (a mod b) / real b \<le> 1 / 2" using b by (simp add: field_simps flip: of_nat_mult)
  moreover have "\<not> 2 * (a mod b) < b \<Longrightarrow> 1 / 2 \<le> real (a mod b) / real b" using b by (simp add: field_simps flip: of_nat_mult)
  ultimately show ?thesis using e f by (auto simp: round_even_def Let_def)
qed

lemma round_even_scaled: "0 < c \<Longrightarrow> round_even (c * a) (c * b) = round_even a b"
  by (simp add: round_even_def Let_def mult_mod_right [symmetric] mult.left_commute [of 2 c])

lemma round_even_ratio: "0 < b \<Longrightarrow> 0 < d \<Longrightarrow> a * d = c * b \<Longrightarrow> round_even a b = round_even c d"
  by (metis round_even_scaled mult.commute)

lemma scale_val:
  assumes "scale n d e = (a, b)" "0 < d"
  shows "0 < b" "real a / real b = real n / real d * 2 powi (- e)"
  using assms by (auto simp: scale_def power_int_def field_simps split: if_splits)

lemma powi_of_nat: "(2::real) powi int k = 2 ^ k"
  by (rule power_int_of_nat)

lemma bit_len_val: "0 < n \<Longrightarrow> 2 powi (int (bit_len n) - 1) \<le> real n \<and> real n < 2 powi int (bit_len n)"
proof -
  assume "0 < n"
  then have b: "2 ^ (bit_len n - 1) \<le> n" "n < 2 ^ bit_len n" "0 < bit_len n" using bit_len_bounds by blast+
  obtain k where k: "bit_len n = Suc k" using b(3) by (cases "bit_len n") auto
  have "2 ^ k \<le> real n" using of_nat_mono [OF b(1), where 'a = real] by (simp add: k)
  moreover have "real n < 2 ^ Suc k" using b(2) unfolding k by (metis of_nat_less_iff of_nat_numeral of_nat_power)
  moreover have "int (Suc k) - 1 = int k" by simp
  ultimately show ?thesis unfolding k by (simp only: powi_of_nat)
qed

lemma powi_shift: "2 ^ 53 \<le> x * 2 powi (- e) \<longleftrightarrow> 2 powi (e + 53) \<le> (x :: real)"
  by (simp add: power_int_add power_int_minus field_simps)

definition fits :: "real \<Rightarrow> int \<Rightarrow> bool" where
  "fits x e \<longleftrightarrow> 2 ^ 52 \<le> x * 2 powi (- e) \<and> x * 2 powi (- e) < 2 ^ 53"

lemma fits_bounds: "fits x e \<longleftrightarrow> 2 powi (e + 52) \<le> x \<and> x < 2 powi (e + 53)"
  by (simp add: fits_def power_int_add power_int_minus field_simps)

lemma fits_unique: "fits x e \<Longrightarrow> fits x f \<Longrightarrow> e = f"
proof (rule ccontr)
  assume f: "fits x e" "fits x f" and "e \<noteq> f"
  then have "e + 53 \<le> f + 52 \<or> f + 53 \<le> e + 52" by linarith
  then have "(2::real) powi (e + 53) \<le> 2 powi (f + 52) \<or> (2::real) powi (f + 53) \<le> 2 powi (e + 52)"
    by (auto intro: power_int_increasing)
  then show False using f unfolding fits_bounds by linarith
qed

lemma num_exp_fits:
  assumes n: "0 < n" "0 < d" and x: "1 / 2 ^ 60 \<le> real n / real d"
  shows "fits (real n / real d) (num_exp n d)"
proof -
  let ?x = "real n / real d" and ?i = "int (bit_len n)" and ?j = "int (bit_len d)"
  define e where "e = ?i - ?j - 53"
  obtain a b where s: "scale n d e = (a, b)" by (cases "scale n d e")
  have q: "0 < b" "real a / real b = ?x * 2 powi (- e)" using scale_val [OF s n(2)] by simp_all
  have "2 powi (?i - 1) / real d \<le> ?x" "?x < 2 powi ?i / real d"
    using bit_len_val [OF n(1)] n(2) by (simp_all add: divide_right_mono divide_strict_right_mono)
  moreover have "2 powi (?i - 1) / 2 powi ?j \<le> 2 powi (?i - 1) / real d" "2 powi ?i / real d \<le> 2 powi ?i / 2 powi (?j - 1)"
    using bit_len_val [OF n(2)] n(2) by (intro divide_left_mono; simp)+
  moreover have "(2::real) powi (?i - 1) / 2 powi ?j = 2 powi (e + 52)" "(2::real) powi ?i / 2 powi (?j - 1) = 2 powi (e + 54)"
  proof -
    have e: "e + 52 = (?i - 1) - ?j" "e + 54 = ?i - (?j - 1)" by (simp_all add: e_def)
    show "(2::real) powi (?i - 1) / 2 powi ?j = 2 powi (e + 52)" unfolding e(1) by (rule power_int_diff [symmetric]) simp
    show "(2::real) powi ?i / 2 powi (?j - 1) = 2 powi (e + 54)" unfolding e(2) by (rule power_int_diff [symmetric]) simp
  qed
  ultimately have l: "2 powi (e + 52) \<le> ?x" and u: "?x < 2 powi (e + 54)" by linarith+
  define e' where "e' = (if 2 ^ 53 * b \<le> a then e + 1 else e)"
  have "2 ^ 53 * b \<le> a \<longleftrightarrow> real (2 ^ 53 * b) \<le> real a" by (simp only: of_nat_le_iff)
  also have "\<dots> \<longleftrightarrow> 2 ^ 53 \<le> real a / real b" using q(1) by (simp add: le_divide_eq)
  also have "\<dots> \<longleftrightarrow> 2 powi (e + 53) \<le> ?x" unfolding q(2) by (rule powi_shift)
  finally have f: "fits ?x e'" using l u by (auto simp: e'_def fits_bounds add.commute add.left_commute)
  have "- 1074 < e'"
  proof (rule ccontr)
    assume "\<not> - 1074 < e'"
    then have "(2::real) powi (e' + 53) \<le> 2 powi (- 60)" by (intro power_int_increasing) simp_all
    moreover have "(2::real) powi (- 60) = 1 / 2 ^ 60" by (simp add: power_int_minus)
    ultimately show False using f x unfolding fits_bounds by linarith
  qed
  then have "num_exp n d = e'" by (simp add: num_exp_def s e'_def flip: e_def)
  then show ?thesis using f by simp
qed

lemma to_double_near:
  assumes n: "0 < n" "0 < d" and x: "1 / 2 ^ 60 \<le> real n / real d" "real n / real d \<le> 2 ^ 80"
  shows "num_is_finite (to_double s n d)" "\<bar>num_val (to_double False n d) - real n / real d\<bar> \<le> real n / real d / 2 ^ 53"
proof -
  let ?x = "real n / real d"
  define e where "e = num_exp n d"
  have f: "fits ?x e" unfolding e_def by (rule num_exp_fits [OF n x(1)])
  obtain a b where s: "scale n d e = (a, b)" by (cases "scale n d e")
  define m where "m = round_even a b"
  have q: "0 < b" "real a / real b = ?x * 2 powi (- e)" using scale_val [OF s n(2)] by simp_all
  have near: "\<bar>real m - ?x * 2 powi (- e)\<bar> \<le> 1 / 2" using round_even_near [OF q(1)] unfolding m_def q(2) [symmetric] .
  have small: "e < 900"
  proof (rule ccontr)
    assume "\<not> e < 900"
    then have "(2::real) powi 100 \<le> 2 powi (e + 52)" by (intro power_int_increasing) simp_all
    then show False using f x(2) by (simp add: fits_bounds)
  qed
  have m0: "0 < m"
  proof (rule ccontr)
    assume "\<not> 0 < m"
    then have "?x * 2 powi (- e) \<le> 1 / 2" using near by linarith
    moreover have "(1::real) / 2 < 2 ^ 52" by simp
    ultimately show False using f unfolding fits_def by linarith
  qed
  have t: "to_double s n d = (if m = 2 ^ 53 then JFin s (2 ^ 52) (e + 1) else JFin s m e)" for s
    using n(1) small m0 by (simp add: to_double_def s m_def flip: e_def)
  show "num_is_finite (to_double s n d)" unfolding t by simp
  have v: "num_val (to_double False n d) = real m * 2 powi e" unfolding t by (simp add: power_int_add)
  have p: "(0::real) < 2 powi e" by simp
  have "real m * 2 powi e - ?x = (real m - ?x * 2 powi (- e)) * 2 powi e" by (simp add: power_int_minus field_simps)
  then have "\<bar>real m * 2 powi e - ?x\<bar> \<le> 1 / 2 * 2 powi e" using near p by (simp add: abs_mult)
  also have "\<dots> \<le> ?x / 2 ^ 53" using f unfolding fits_bounds by (simp add: power_int_add)
  finally show "\<bar>num_val (to_double False n d) - ?x\<bar> \<le> ?x / 2 ^ 53" unfolding v .
qed

text \<open>The rounding of a rational does not depend on how it is written.\<close>

lemma to_double_ratio:
  assumes n: "0 < n" "0 < d" "0 < n'" "0 < d'" and x: "1 / 2 ^ 60 \<le> real n / real d" and eq: "n * d' = n' * d"
  shows "to_double s n d = to_double s n' d'"
proof -
  have "real n * real d' = real n' * real d" using eq by (simp flip: of_nat_mult)
  then have r: "real n / real d = real n' / real d'" using n by (simp add: frac_eq_eq)
  then have e: "num_exp n d = num_exp n' d'" using num_exp_fits [OF n(1,2) x] num_exp_fits [OF n(3,4)] x fits_unique by metis
  obtain a b a' b' where s: "scale n d (num_exp n' d') = (a, b)" "scale n' d' (num_exp n' d') = (a', b')"
    by (cases "scale n d (num_exp n' d')"; cases "scale n' d' (num_exp n' d')")
  have q: "0 < b" "0 < b'" "real a / real b = real a' / real b'" using scale_val [OF s(1) n(2)] scale_val [OF s(2) n(4)] r by simp_all
  then have "real a * real b' = real a' * real b" by (simp add: frac_eq_eq)
  then have "a * b' = a' * b" by (simp flip: of_nat_mult)
  then have "round_even a b = round_even a' b'" by (rule round_even_ratio [OF q(1,2)])
  then show ?thesis using n(1,3) by (simp add: to_double_def e s)
qed

section \<open>Positive doubles\<close>

lemma to_double_positive: "num_is_finite (to_double False n d) \<Longrightarrow> \<exists>m e. to_double False n d = JFin False m e"
  by (auto simp: to_double_def Let_def split: prod.splits if_splits)

lemma num_mul_near:
  assumes "x = JFin False m e" "y = JFin False n f"
    and "1 / 2 ^ 60 \<le> num_val x * num_val y" "num_val x * num_val y \<le> 2 ^ 80"
  shows "\<exists>k g. num_mul x y = JFin False k g"
    and "\<bar>num_val (num_mul x y) - num_val x * num_val y\<bar> \<le> num_val x * num_val y / 2 ^ 53"
proof -
  obtain a b c d where fr: "num_frac m e = (a, b)" "num_frac n f = (c, d)" and p: "0 < b" "0 < d"
    using num_frac_pos [of m e] num_frac_pos [of n f] by (cases "num_frac m e"; cases "num_frac n f") auto
  have v: "num_val x * num_val y = real (a * c) / real (b * d)"
    using num_frac_val [OF fr(1)] num_frac_val [OF fr(2)] by (simp add: assms(1,2) flip: times_divide_times_eq)
  have e: "num_mul x y = to_double False (a * c) (b * d)" by (simp add: assms(1,2) fr)
  have "0 < real (a * c) / real (b * d)" using assms(3) v by (simp add: less_le_trans [of 0 "1 / 2 ^ 60"])
  then have "a * c \<noteq> 0" by (metis div_0 less_irrefl of_nat_0)
  then have n: "0 < a * c" "0 < b * d" using p by simp_all
  note near = to_double_near [OF n assms(3,4) [unfolded v]]
  show "\<exists>k g. num_mul x y = JFin False k g" unfolding e by (rule to_double_positive [OF near(1)])
  show "\<bar>num_val (num_mul x y) - num_val x * num_val y\<bar> \<le> num_val x * num_val y / 2 ^ 53" unfolding e v by (rule near(2))
qed

lemma int_of_num_val: "int_of_num x = Some t \<Longrightarrow> num_val x = of_int t"
proof -
  assume i: "int_of_num x = Some t"
  obtain s m e where x: "x = JFin s m e" using i by (cases x) (simp_all add: int_of_num_def)
  obtain n d where nd: "num_frac m e = (n, d)" "0 < d" using num_frac_pos [of m e] by (cases "num_frac m e") auto
  have "n mod d = 0" and t: "t = signed_nat s (n div d)"
    using i by (auto simp: x int_of_num_def nd signed_nat_def split: if_splits)
  then obtain q where "n = d * q" by (auto elim: dvdE [OF mod_eq_0_iff_dvd [THEN iffD1]])
  then have "real_of_int (signed_nat s n) = of_int t * real d" using nd(2) unfolding t by (simp add: signed_nat_def)
  then show ?thesis using signed_nat_val [OF nd(1), of s] nd(2) by (simp add: x)
qed

text \<open>A number past the last millisecond of \<open>Date\<close> stays past it when its fraction is cut off.\<close>

lemma trunc_late:
  assumes x: "x = JFin False m e" and v: "8640000000000002 \<le> num_val x" "num_val x \<le> 2 ^ 79"
    and t: "int_of_num (num_trunc x) = Some t"
  shows "8640000000000000 < t"
proof -
  obtain n d where nd: "num_frac m e = (n, d)" "0 < d" using num_frac_pos [of m e] by (cases "num_frac m e") auto
  define q where "q = n div d"
  have "real n / real d = num_val x" using num_frac_val [OF nd(1)] by (simp add: x)
  moreover have "real q = of_int \<lfloor>real n / real d\<rfloor>" by (simp add: q_def floor_divide_of_nat_eq)
  then have "real q \<le> real n / real d" "real n / real d < real q + 1" by linarith+
  moreover have "(2::real) ^ 79 \<le> 2 ^ 80" by simp
  ultimately have q: "8640000000000001 \<le> real q" "real q \<le> 2 ^ 80" using v by linarith+
  have z: "num_trunc x = to_double False q 1" by (simp add: x nd signed_nat_def num_of_int_def q_def)
  have "0 < q" using q(1) by simp
  moreover have "(1::real) / 2 ^ 60 \<le> 1" by simp
  then have "(1::real) / 2 ^ 60 \<le> real q / real 1" using q(1) by (simp add: order_trans [of _ 1])
  ultimately have "\<bar>num_val (num_trunc x) - real q / real 1\<bar> \<le> real q / real 1 / 2 ^ 53"
    unfolding z using q(2) by (intro to_double_near(2)) simp_all
  then have "real q - real q / 2 ^ 53 \<le> of_int t" unfolding int_of_num_val [OF t] abs_le_iff by linarith
  moreover have "real q - real q / 2 ^ 53 = real q * (1 - 1 / 2 ^ 53)" by (simp add: algebra_simps)
  moreover have "8640000000000001 * (1 - 1 / 2 ^ 53) \<le> real q * (1 - 1 / 2 ^ 53)" using q(1) by (intro mult_right_mono) simp_all
  ultimately have "8640000000000001 * (1 - 1 / 2 ^ 53) \<le> real_of_int t" by linarith
  then have "(8640000000000000::real) < of_int t" by simp
  then show ?thesis by linarith
qed

end
