(* ===== verification/Sentences.thy ===== *)
theory Sentences imports Decode Registry Rounding begin

text \<open>
  What the approval screen says of the chain's own messages: the bytes of a registered type, through its
  generated decoder and JSON, to the sentence of \<open>decode.ts\<close>.
\<close>

section \<open>The shape of a message's JSON\<close>

text \<open>
  The JSON of a typed field of a kind, its keys rewritten in snake case. A property that is there comes
  from a field of the schema, but for the \<open>@type\<close> that the screen adds.
\<close>

inductive shaped :: "proto_kind \<Rightarrow> json \<Rightarrow> bool" where
  sh_text: "t \<in> {T_string, T_bytes, T_uint64, T_int64} \<Longrightarrow> shaped (One t) (JStr s)"
| sh_enum: "shaped (One (T_enum cs)) (JStr s)"
| sh_bool: "shaped (One T_bool) (JBool b)"
| sh_num: "t \<in> {T_uint32, T_int32} \<Longrightarrow> shaped (One t) (JNum x)"
| sh_each: "(\<And>x. x \<in> set xs \<Longrightarrow> shaped (One t) x) \<Longrightarrow> shaped (Each t) (JArr xs)"
| sh_date: "shaped Moment (JStr s)"
| sh_msg: "(\<And>y v. y \<noteq> ''@type'' \<Longrightarrow> member y (JObj ms) = Some v \<Longrightarrow> \<exists>n x k. (n, x, k) \<in> set fs \<and> (snake_case x = y \<or> x = y) \<and> shaped k v) \<Longrightarrow>
    shaped (Sub fs) (JObj ms)"
| sh_msgs: "(\<And>x. x \<in> set xs \<Longrightarrow> shaped (Sub fs) x) \<Longrightarrow> shaped (Subs fs) (JArr xs)"

inductive_cases shaped_one: "shaped (One t) j"
inductive_cases shaped_each: "shaped (Each t) j"
inductive_cases shaped_sub: "shaped (Sub fs) j"
inductive_cases shaped_subs: "shaped (Subs fs) j"

lemma map_set_from: "map_of (map_set k v ms) y = Some w \<Longrightarrow> (y = k \<and> w = v) \<or> map_of ms y = Some w"
  by (auto split: if_splits)

definition snake_put :: "string \<times> json \<Rightarrow> (string \<times> json) list \<Rightarrow> (string \<times> json) list" where
  "snake_put = (\<lambda>(key, v) out.
       let snake = snake_case key; out = map_set snake v out in
       if snake \<noteq> key \<and> (key = ''typeUrl'' \<or> key = ''msgTypeUrl'') then map_set key v out else out)"

lemma snake_put_from:
  "map_of (snake_put (k, v) out) y = Some w \<Longrightarrow> (w = v \<and> (snake_case k = y \<or> k = y)) \<or> map_of out y = Some w"
  by (auto simp: snake_put_def Let_def split: if_splits)

lemma snake_fold_from:
  "map_of (fold snake_put kvs out0) y = Some w \<Longrightarrow>
   (\<exists>k. (k, w) \<in> set kvs \<and> (snake_case k = y \<or> k = y)) \<or> map_of out0 y = Some w"
proof (induction kvs arbitrary: out0)
  case (Cons kv kvs)
  obtain k v where kv: "kv = (k, v)" by (cases kv)
  have "(\<exists>k. (k, w) \<in> set kvs \<and> (snake_case k = y \<or> k = y)) \<or> map_of (snake_put kv out0) y = Some w"
    using Cons.IH Cons.prems by simp
  then show ?case using snake_put_from [of k v out0 y w] kv by auto
qed simp

lemma snake_member_from:
  assumes "member y (snakeKeys (JObj ms)) = Some w"
  shows "\<exists>k v. (k, v) \<in> set ms \<and> w = snakeKeys v \<and> (snake_case k = y \<or> k = y)"
proof -
  have "(\<exists>k. (k, w) \<in> set (map (\<lambda>(k, v). (k, snakeKeys v)) ms) \<and> (snake_case k = y \<or> k = y))"
    using snake_fold_from [of "map (\<lambda>(k, v). (k, snakeKeys v)) ms" "[]" y w] assms by (simp add: member_def flip: snake_put_def)
  then show ?thesis by auto
qed

lemma members_from:
  "json_members fs m = Some ms \<Longrightarrow> (x, v) \<in> set ms \<Longrightarrow> \<exists>n k. (n, x, k) \<in> set fs \<and> json_kind k (prop_of m x) = Some (Some v)"
proof (induction fs arbitrary: ms)
  case (Cons f fs)
  obtain n y k where f: "f = (n, y, k)" by (cases f)
  from Cons.prems(1) obtain j ns where j: "json_kind k (prop_of m y) = Some j" "json_members fs m = Some ns"
    "ms = (case j of None \<Rightarrow> [] | Some v \<Rightarrow> [(y, v)]) @ ns"
    by (auto simp: f concat_some_Cons bind_eq_Some_conv)
  show ?case
  proof (cases "(x, v) \<in> set ns")
    case True
    then show ?thesis using Cons.IH [OF j(2)] by auto
  next
    case False
    then have "x = y" "j = Some v" using Cons.prems(2) j(3) by (auto split: option.splits)
    then show ?thesis using j(1) f by auto
  qed
qed (simp add: concat_some_def)

lemma scalar_shaped: "typed_scalar t v \<Longrightarrow> json_scalar t v = Some j \<Longrightarrow> shaped (One t) j"
  by (cases t; cases v) (auto simp: typed_scalar_def json_scalar_def intro: shaped.intros)

lemma snake_scalar: "json_scalar t v = Some j \<Longrightarrow> snakeKeys j = j"
  by (cases t; cases v) (auto simp: json_scalar_def)

lemma members_shaped:
  assumes "typed_message fs m" and "json_members fs m = Some ms"
    and "\<And>n x k v j. (n, x, k) \<in> set fs \<Longrightarrow> typed_kind k v \<Longrightarrow> json_kind k v = Some (Some j) \<Longrightarrow> shaped k (snakeKeys j)"
  shows "shaped (Sub fs) (snakeKeys (JObj ms))"
proof -
  have "\<exists>n x k. (n, x, k) \<in> set fs \<and> (snake_case x = y \<or> x = y) \<and> shaped k w" if w: "member y (snakeKeys (JObj ms)) = Some w" for y w
  proof -
    obtain x v where v: "(x, v) \<in> set ms" "w = snakeKeys v" "snake_case x = y \<or> x = y" using snake_member_from [OF w] by blast
    obtain n k where k: "(n, x, k) \<in> set fs" "json_kind k (prop_of m x) = Some (Some v)" using members_from [OF assms(2) v(1)] by blast
    have "typed_kind k (prop_of m x)" using assms(1) k(1) by (auto simp: typed_message_def list_all_iff)
    then have "shaped k w" using assms(3) k v(2) by blast
    then show ?thesis using k(1) v(3) by blast
  qed
  moreover obtain ns where "snakeKeys (JObj ms) = JObj ns" by simp
  ultimately show ?thesis using sh_msg by metis
qed

lemma those_from: "those (map f vs) = Some js \<Longrightarrow> j \<in> set js \<Longrightarrow> \<exists>v \<in> set vs. f v = Some j"
  by (induction vs arbitrary: js) (auto split: option.splits)

lemma list_from: "json_list f v = Some (Some j) \<Longrightarrow> \<exists>vs js. v = I_list vs \<and> j = JArr js \<and> (\<forall>x \<in> set js. \<exists>u \<in> set vs. f u = Some x)"
  using those_from by (auto simp: json_list_def split: proto_item.splits if_splits) (metis those_from)

lemma kind_shaped: "typed_kind k v \<Longrightarrow> json_kind k v = Some (Some j) \<Longrightarrow> shaped k (snakeKeys j)"
proof (induction k arbitrary: v j)
  case (One t)
  then show ?case using scalar_shaped snake_scalar by (auto split: if_splits)
next
  case (Each t)
  obtain vs js where l: "v = I_list vs" "j = JArr js" "\<forall>x \<in> set js. \<exists>u \<in> set vs. json_scalar t u = Some x"
    using list_from Each.prems(2) by force
  have "shaped (One t) (snakeKeys x)" if "x \<in> set js" for x
    using that l(3) Each.prems(1) scalar_shaped snake_scalar by (force simp: l(1) list_all_iff)
  then show ?case unfolding l(2) by (simp, intro sh_each) auto
next
  case Moment
  then show ?case by (auto split: proto_item.splits option.splits intro: sh_date)
next
  case (Sub gs)
  then obtain m ms where m: "v = I_msg m" "json_members gs m = Some ms" "j = JObj ms" by (cases v) auto
  show ?case unfolding m(3)
  proof (rule members_shaped [OF _ m(2)])
    show "typed_message gs m" using Sub.prems(1) m(1) by (simp add: typed_message_def)
    fix n x k v j assume "(n, x, k) \<in> set gs" "typed_kind k v" "json_kind k v = Some (Some j)"
    then show "shaped k (snakeKeys j)" by (intro Sub.IH [of "(n, x, k)" "(x, k)" k]) simp_all
  qed
next
  case (Subs gs)
  obtain vs js where l: "v = I_list vs" "j = JArr js"
    "\<forall>x \<in> set js. \<exists>u \<in> set vs. (case u of I_msg m \<Rightarrow> map_option JObj (json_members gs m) | _ \<Rightarrow> None) = Some x"
    using list_from [OF Subs.prems(2) [unfolded json_kind.simps]] by blast
  have all: "\<forall>u \<in> set vs. \<exists>m. u = I_msg m \<and> typed_message gs m" using Subs.prems unfolding l(1) typed_Subs by blast
  have "shaped (Sub gs) (snakeKeys x)" if mem: "x \<in> set js" for x
  proof -
    obtain m ms where m: "typed_message gs m" "json_members gs m = Some ms" "x = JObj ms" using mem l(3) all by fastforce
    show ?thesis unfolding m(3)
    proof (rule members_shaped [OF m(1,2)])
      fix n x k v j assume "(n, x, k) \<in> set gs" "typed_kind k v" "json_kind k v = Some (Some j)"
      then show "shaped k (snakeKeys j)" by (intro Subs.IH [of "(n, x, k)" "(x, k)" k]) simp_all
    qed
  qed
  then show ?case unfolding l(2) snakeKeys.simps(1) by (intro sh_msgs) (auto simp del: snakeKeys.simps(2))
qed


section \<open>Sentences that exist\<close>

definition textual :: "json option \<Rightarrow> bool" where
  "textual j \<longleftrightarrow> j = None \<or> (\<exists>s. j = Some (JStr s))"

definition text_coins :: "json option \<Rightarrow> bool" where
  "text_coins j \<longleftrightarrow> j = None \<or> (\<exists>xs. j = Some (JArr xs) \<and> (\<forall>x \<in> set xs. textual (member ''denom'' x) \<and> textual (member ''amount'' x)))"

definition defined :: "'a option \<Rightarrow> bool" where
  "defined x \<longleftrightarrow> x \<noteq> None"

lemma those_defined: "defined (those xs) \<longleftrightarrow> list_all defined xs"
  by (induction xs) (auto simp: defined_def split: option.splits)

lemma defined_some [simp]: "defined (Some x)"
  by (simp add: defined_def)

lemma defined_map [simp]: "defined (map_option f x) \<longleftrightarrow> defined x"
  by (simp add: defined_def)

lemma defined_say [simp]: "defined (say ps) \<longleftrightarrow> list_all defined ps"
  by (simp add: say_def those_defined)

lemma defined_spoken [simp]: "defined (spoken j)"
  by (simp add: spoken_def)

lemma defined_labelled [simp]: "defined (labelled n v a) \<longleftrightarrow> defined v"
  by (simp add: labelled_def)

lemma defined_amount [simp]: "defined (amount_of ctx a d)"
  by (auto simp: amount_of_def split: option.splits json.splits)

lemma defined_symbol [simp]: "defined (resolveSymbol ctx d)"
  by (auto simp: resolveSymbol_def Let_def split: option.splits json.splits)

lemma defined_who: "textual j \<Longrightarrow> defined (who ctx j)"
  by (auto simp: who_def textual_def string_in_def)

lemma defined_short: "textual j \<Longrightarrow> defined (short_of j)"
  by (auto simp: short_of_def textual_def string_in_def)

lemma defined_coalesced: "textual j \<Longrightarrow> defined (string_in (coalesce j (Some (JStr d))))"
  by (auto simp: textual_def coalesce_def nullish_def string_in_def)

lemma defined_truncated: "textual j \<Longrightarrow> defined (truncated (coalesce j (Some (JStr d))))"
  using defined_coalesced by (simp add: truncated_def)

lemma defined_string_if: "textual j \<Longrightarrow> truthy_json j \<Longrightarrow> defined (string_in j)"
  by (auto simp: textual_def string_in_def)

lemma has_member: "y \<in> fst ` set ms \<Longrightarrow> textual (member y (JObj ms)) \<Longrightarrow> \<exists>s. member y (JObj ms) = Some (JStr s)"
  by (auto simp: member_def textual_def map_of_eq_None_iff)

lemma defined_money: "text_coins j \<Longrightarrow> defined (money ctx (coinsOf j))"
proof -
  assume "text_coins j"
  then consider "j = None" | xs where "j = Some (JArr xs)" "\<forall>x \<in> set xs. textual (member ''denom'' x) \<and> textual (member ''amount'' x)"
    by (auto simp: text_coins_def)
  then show ?thesis
  proof cases
    case 2
    have "defined (text_coin (as_coin (Some (JObj ms))))"
      if "JObj ms \<in> set xs" "''denom'' \<in> fst ` set ms" "''amount'' \<in> fst ` set ms" for ms
      using has_member [OF that(2)] has_member [OF that(3)] 2(2) that(1) by (fastforce simp: as_coin_def text_coin_def)
    then show ?thesis
      unfolding 2(1) money_def coinsOf_def by (auto simp: those_defined list_all_iff split: json.splits)
  qed (simp add: money_def coinsOf_def)
qed

lemma defined_decoded [simp]:
  "defined (decoded_as k t s e a c co ds) \<longleftrightarrow> defined t \<and> defined s \<and> list_all defined ds"
  using those_defined [of ds] by (auto simp: decoded_as_def defined_def split: option.splits)

lemmas defined_intros = defined_who defined_short defined_coalesced defined_truncated defined_string_if defined_money

text \<open>The kinds of the fields a decoder reads, computed from the schema.\<close>

fun text_kind :: "proto_kind \<Rightarrow> bool" where
  "text_kind (One t) = (case t of T_bool \<Rightarrow> False | T_uint32 \<Rightarrow> False | T_int32 \<Rightarrow> False | _ \<Rightarrow> True)"
| "text_kind _ = False"

definition fields_at :: "(proto_kind \<Rightarrow> bool) \<Rightarrow> schema \<Rightarrow> string \<Rightarrow> bool" where
  "fields_at P fs y \<longleftrightarrow> y \<noteq> ''@type'' \<and> list_all (\<lambda>(n, x, k). snake_case x = y \<or> x = y \<longrightarrow> P k) fs"

lemma member_shaped:
  assumes "shaped (Sub fs) j" and "fields_at P fs y" and "member y j = Some v"
  shows "\<exists>k. P k \<and> shaped k v"
proof -
  obtain n x k where k: "(n, x, k) \<in> set fs" "snake_case x = y \<or> x = y" "shaped k v"
  proof -
    have "y \<noteq> ''@type''" using assms(2) by (simp add: fields_at_def)
    then show thesis using assms(1,3) that by (elim shaped_sub) blast
  qed
  then have "P k" using assms(2) unfolding fields_at_def list_all_iff by blast
  then show ?thesis using k(3) by blast
qed

lemma text_shaped: "text_kind k \<Longrightarrow> shaped k v \<Longrightarrow> \<exists>s. v = JStr s"
  by (cases k) (auto elim: shaped_one split: proto_scalar.splits)

lemma member_textual: "shaped (Sub fs) j \<Longrightarrow> fields_at text_kind fs y \<Longrightarrow> textual (member y j)"
  using member_shaped text_shaped unfolding textual_def by (metis not_None_eq)


fun coin_kind :: "string \<Rightarrow> proto_kind \<Rightarrow> bool" where
  "coin_kind amount (Subs gs) = (fields_at text_kind gs ''denom'' \<and> fields_at text_kind gs amount)"
| "coin_kind amount _ = False"

fun list_kind :: "proto_kind \<Rightarrow> bool" where
  "list_kind (Each t) = True"
| "list_kind _ = False"

lemma member_objects:
  assumes "shaped (Sub fs) j" and "fields_at (coin_kind z) fs y" and "member y j = Some v"
  shows "\<exists>xs. v = JArr xs \<and> (\<forall>x \<in> set xs. x \<noteq> JNull \<and> textual (member ''denom'' x) \<and> textual (member z x))"
proof -
  obtain k where k: "coin_kind z k" "shaped k v" using member_shaped [OF assms] by blast
  then obtain gs where gs: "k = Subs gs" by (cases k) simp_all
  then obtain xs where xs: "v = JArr xs" "\<forall>x \<in> set xs. shaped (Sub gs) x" using k(2) by (auto elim: shaped_subs)
  have "x \<noteq> JNull" if "shaped (Sub gs) x" for x using that by (auto elim: shaped_sub)
  then show ?thesis using xs k(1) gs member_textual by fastforce
qed

lemma member_coins: "shaped (Sub fs) j \<Longrightarrow> fields_at (coin_kind ''amount'') fs y \<Longrightarrow> text_coins (member y j)"
  using member_objects unfolding text_coins_def by (metis not_None_eq)

lemma member_joined: "shaped (Sub fs) j \<Longrightarrow> fields_at list_kind fs y \<Longrightarrow> defined (joined (member y j))"
proof -
  assume a: "shaped (Sub fs) j" "fields_at list_kind fs y"
  show ?thesis
  proof (cases "member y j")
    case (Some v)
    then obtain k where "list_kind k" "shaped k v" using member_shaped a by blast
    then obtain xs where "v = JArr xs" by (cases k) (auto elim: shaped_each)
    then show ?thesis using Some by (simp add: joined_def declared_array_def nullish_def)
  qed (simp add: joined_def declared_array_def nullish_def)
qed

lemma texts_at: "shaped (Sub fs) j \<Longrightarrow> list_all (fields_at text_kind fs) ys \<Longrightarrow> list_all (\<lambda>y. textual (member y j)) ys"
  using member_textual by (auto simp: list_all_iff)

text \<open>Only the names of the fields of another kind have to be looked at.\<close>

lemma fields_at_others:
  "list_all (\<lambda>(n, x, k). list_all (\<lambda>y. snake_case x \<noteq> y \<and> x \<noteq> y) ys) (filter (\<lambda>(n, x, k). \<not> P k) fs) \<Longrightarrow>
   ''@type'' \<notin> set ys \<Longrightarrow> list_all (fields_at P fs) ys"
  by (fastforce simp: fields_at_def list_all_iff)

lemmas snake_letters = lower_alphabet_def upper_alphabet_def is_digit_def to_lower_char_def

lemma text_paymsg_SendPayment: "list_all (fields_at text_kind paymsg_MsgSendPayment) [''amount'', ''creditor'', ''debtor'', ''denom'', ''end_to_end_id'', ''instructed_participant'', ''instructing_participant'', ''purpose_code'', ''remittance_information'', ''settlement_jurisdiction'']"
  by (rule fields_at_others) (simp_all add: paymsg_MsgSendPayment_def snake_letters)

lemma text_paymsg_ApplyParticipant: "list_all (fields_at text_kind paymsg_MsgApplyParticipant) [''creator'', ''name'']"
  by (rule fields_at_others) (simp_all add: paymsg_MsgApplyParticipant_def snake_letters)

lemma text_paymsg_RegisterCustomer: "list_all (fields_at text_kind paymsg_MsgRegisterCustomer) [''customer'', ''participant'']"
  by (rule fields_at_others) (simp_all add: paymsg_MsgRegisterCustomer_def snake_letters)

lemma text_paymsg_ApproveParticipant: "list_all (fields_at text_kind paymsg_MsgApproveParticipant) [''participant'']"
  by (rule fields_at_others) (simp_all add: paymsg_MsgApproveParticipant_def snake_letters)

lemma text_amm_Swap: "list_all (fields_at text_kind amm_MsgSwap) [''min_amount_out'', ''pool_id'', ''sender'', ''token_in_amount'', ''token_in_denom'', ''token_out_denom'']"
  by (rule fields_at_others) (simp_all add: amm_MsgSwap_def snake_letters)

lemma text_amm_CreatePool: "list_all (fields_at text_kind amm_MsgCreatePool) [''amount_a'', ''amount_b'', ''creator'', ''denom_a'', ''denom_b'', ''swap_fee_bps'']"
  by (rule fields_at_others) (simp_all add: amm_MsgCreatePool_def snake_letters)

lemma text_amm_JoinPool: "list_all (fields_at text_kind amm_MsgJoinPool) [''pool_id'', ''sender'']"
  by (rule fields_at_others) (simp_all add: amm_MsgJoinPool_def snake_letters)

lemma text_amm_ExitPool: "list_all (fields_at text_kind amm_MsgExitPool) [''pool_id'', ''sender'']"
  by (rule fields_at_others) (simp_all add: amm_MsgExitPool_def snake_letters)

lemma text_stablecoin_MintCoin: "list_all (fields_at text_kind stablecoin_MsgMintCoin) [''amount'', ''denom'', ''issuer'', ''recipient'']"
  by (rule fields_at_others) (simp_all add: stablecoin_MsgMintCoin_def snake_letters)

lemma text_stablecoin_BurnCoin: "list_all (fields_at text_kind stablecoin_MsgBurnCoin) [''amount'', ''denom'', ''issuer'']"
  by (rule fields_at_others) (simp_all add: stablecoin_MsgBurnCoin_def snake_letters)

lemma text_stablecoin_RegisterCurrency: "list_all (fields_at text_kind stablecoin_MsgRegisterCurrency) [''creator'', ''denom'', ''symbol'']"
  by (rule fields_at_others) (simp_all add: stablecoin_MsgRegisterCurrency_def snake_letters)

lemma text_stablecoin_ApproveIssuer: "list_all (fields_at text_kind stablecoin_MsgApproveIssuer) [''denom'']"
  by (rule fields_at_others) (simp_all add: stablecoin_MsgApproveIssuer_def snake_letters)

lemma text_treasury_CreateTreasury: "list_all (fields_at text_kind treasury_MsgCreateTreasury) [''creator'', ''name'']"
  by (rule fields_at_others) (simp_all add: treasury_MsgCreateTreasury_def snake_letters)

lemma text_treasury_Deposit: "list_all (fields_at text_kind treasury_MsgDeposit) [''depositor'', ''treasury_id'']"
  by (rule fields_at_others) (simp_all add: treasury_MsgDeposit_def snake_letters)

lemma text_treasury_Spend: "list_all (fields_at text_kind treasury_MsgSpend) [''memo'', ''recipient'', ''spender'', ''treasury_id'']"
  by (rule fields_at_others) (simp_all add: treasury_MsgSpend_def snake_letters)

lemma text_treasury_CreateLock: "list_all (fields_at text_kind treasury_MsgCreateLock) [''admin'', ''amount'', ''beneficiary'', ''denom'', ''lock_type'', ''treasury_id'']"
  by (rule fields_at_others) (simp_all add: treasury_MsgCreateLock_def snake_letters treasury_LockType_def)

lemma text_treasury_ClaimLock: "list_all (fields_at text_kind treasury_MsgClaimLock) [''beneficiary'']"
  by (rule fields_at_others) (simp_all add: treasury_MsgClaimLock_def snake_letters)

lemma text_treasury_RevokeLock: "list_all (fields_at text_kind treasury_MsgRevokeLock) [''admin'', ''lock_id'']"
  by (rule fields_at_others) (simp_all add: treasury_MsgRevokeLock_def snake_letters)

lemma text_treasury_AssignRole: "list_all (fields_at text_kind treasury_MsgAssignRole) [''address'', ''admin'', ''role'', ''treasury_id'']"
  by (rule fields_at_others) (simp_all add: treasury_MsgAssignRole_def snake_letters treasury_Role_def)

lemma text_treasury_RevokeRole: "list_all (fields_at text_kind treasury_MsgRevokeRole) [''address'', ''admin'', ''treasury_id'']"
  by (rule fields_at_others) (simp_all add: treasury_MsgRevokeRole_def snake_letters)

lemma text_treasury_SetSpendPolicy: "list_all (fields_at text_kind treasury_MsgSetSpendPolicy) [''admin'']"
  by (rule fields_at_others) (simp_all add: treasury_MsgSetSpendPolicy_def snake_letters)

lemma text_treasury_SetPaused: "list_all (fields_at text_kind treasury_MsgSetPaused) [''sender'', ''treasury_id'']"
  by (rule fields_at_others) (simp_all add: treasury_MsgSetPaused_def snake_letters)

lemma text_treasury_SetAdmin: "list_all (fields_at text_kind treasury_MsgSetAdmin) [''admin'', ''new_admin'', ''treasury_id'']"
  by (rule fields_at_others) (simp_all add: treasury_MsgSetAdmin_def snake_letters)

lemma text_validatorgov_ApplyValidator: "list_all (fields_at text_kind validatorgov_MsgApplyValidator) [''creator'', ''moniker'']"
  by (rule fields_at_others) (simp_all add: validatorgov_MsgApplyValidator_def snake_letters)

lemma text_validatorgov_ApproveValidator: "list_all (fields_at text_kind validatorgov_MsgApproveValidator) [''candidate'']"
  by (rule fields_at_others) (simp_all add: validatorgov_MsgApproveValidator_def snake_letters)

lemma text_builderfee_RegisterBuilder: "list_all (fields_at text_kind builderfee_MsgRegisterBuilder) [''creator'', ''msg_type_url'']"
  by (rule fields_at_others) (simp_all add: builderfee_MsgRegisterBuilder_def snake_letters)

lemma text_builderfee_ApproveBuilder: "list_all (fields_at text_kind builderfee_MsgApproveBuilder) [''msg_type_url'']"
  by (rule fields_at_others) (simp_all add: builderfee_MsgApproveBuilder_def snake_letters)

lemma text_oracle_SubmitExchangeRates: "list_all (fields_at text_kind oracle_MsgSubmitExchangeRates) [''feeder'', ''validator'']"
  by (rule fields_at_others) (simp_all add: oracle_MsgSubmitExchangeRates_def snake_letters)

lemma text_oracle_DelegateFeeder: "list_all (fields_at text_kind oracle_MsgDelegateFeeder) [''feeder'', ''operator'', ''validator'']"
  by (rule fields_at_others) (simp_all add: oracle_MsgDelegateFeeder_def snake_letters)

lemma text_oracle_ApplyAppraiser: "list_all (fields_at text_kind oracle_MsgApplyAppraiser) [''creator'', ''credentials'', ''name'']"
  by (rule fields_at_others) (simp_all add: oracle_MsgApplyAppraiser_def snake_letters)

lemma text_oracle_ApproveAppraiser: "list_all (fields_at text_kind oracle_MsgApproveAppraiser) [''appraiser'']"
  by (rule fields_at_others) (simp_all add: oracle_MsgApproveAppraiser_def snake_letters)

lemma text_oracle_RevokeAppraiser: "list_all (fields_at text_kind oracle_MsgRevokeAppraiser) [''appraiser'', ''reason'']"
  by (rule fields_at_others) (simp_all add: oracle_MsgRevokeAppraiser_def snake_letters)

lemma text_oracle_SubmitAppraisal: "list_all (fields_at text_kind oracle_MsgSubmitAppraisal) [''appraiser'', ''class_id'', ''method'', ''nft_id'', ''report_uri'', ''value'', ''value_denom'', ''valued_at'']"
  by (rule fields_at_others) (simp_all add: oracle_MsgSubmitAppraisal_def snake_letters)

lemma text_feegrant_GrantAllowance: "list_all (fields_at text_kind feegrant_MsgGrantAllowance) [''grantee'', ''granter'']"
  by (rule fields_at_others) (simp_all add: feegrant_MsgGrantAllowance_def snake_letters)

lemma text_feegrant_RevokeAllowance: "list_all (fields_at text_kind feegrant_MsgRevokeAllowance) [''grantee'', ''granter'']"
  by (rule fields_at_others) (simp_all add: feegrant_MsgRevokeAllowance_def snake_letters)

lemma fields_coins:
  "fields_at (coin_kind ''amount'') treasury_MsgDeposit ''amount''"
  "fields_at (coin_kind ''amount'') treasury_MsgSpend ''amount''"
  "fields_at (coin_kind ''rate'') oracle_MsgSubmitExchangeRates ''rates''"
  "fields_at list_kind oracle_MsgApplyAppraiser ''class_ids''"
  by code_simp+


section \<open>Each decoder on a message of its type\<close>

lemma sent_paymsg_SendPayment:
  assumes "shaped (Sub paymsg_MsgSendPayment) j"
  shows "defined (dec_paymsg_SendPayment ctx j)"
  using texts_at [OF assms text_paymsg_SendPayment] by (simp add: dec_paymsg_SendPayment_def defined_intros)

lemma sent_paymsg_ApplyParticipant:
  assumes "shaped (Sub paymsg_MsgApplyParticipant) j"
  shows "defined (dec_paymsg_ApplyParticipant ctx j)"
  using texts_at [OF assms text_paymsg_ApplyParticipant] by (simp add: dec_paymsg_ApplyParticipant_def defined_intros)

lemma sent_paymsg_RegisterCustomer:
  assumes "shaped (Sub paymsg_MsgRegisterCustomer) j"
  shows "defined (dec_paymsg_RegisterCustomer ctx j)"
  using texts_at [OF assms text_paymsg_RegisterCustomer] by (simp add: dec_paymsg_RegisterCustomer_def defined_intros)

lemma sent_paymsg_ApproveParticipant:
  assumes "shaped (Sub paymsg_MsgApproveParticipant) j"
  shows "defined (dec_paymsg_ApproveParticipant ctx j)"
  using texts_at [OF assms text_paymsg_ApproveParticipant] by (simp add: dec_paymsg_ApproveParticipant_def defined_intros)

lemma sent_amm_Swap:
  assumes "shaped (Sub amm_MsgSwap) j"
  shows "defined (dec_amm_Swap ctx j)"
  using texts_at [OF assms text_amm_Swap] by (simp add: dec_amm_Swap_def defined_intros)

lemma sent_amm_CreatePool:
  assumes "shaped (Sub amm_MsgCreatePool) j"
  shows "defined (dec_amm_CreatePool ctx j)"
  using texts_at [OF assms text_amm_CreatePool] by (simp add: dec_amm_CreatePool_def defined_intros)

lemma sent_amm_JoinPool:
  assumes "shaped (Sub amm_MsgJoinPool) j"
  shows "defined (dec_amm_JoinPool ctx j)"
  using texts_at [OF assms text_amm_JoinPool] by (simp add: dec_amm_JoinPool_def defined_intros)

lemma sent_amm_ExitPool:
  assumes "shaped (Sub amm_MsgExitPool) j"
  shows "defined (dec_amm_ExitPool ctx j)"
  using texts_at [OF assms text_amm_ExitPool] by (simp add: dec_amm_ExitPool_def defined_intros)

lemma sent_stablecoin_MintCoin:
  assumes "shaped (Sub stablecoin_MsgMintCoin) j"
  shows "defined (dec_stablecoin_MintCoin ctx j)"
  using texts_at [OF assms text_stablecoin_MintCoin] by (simp add: dec_stablecoin_MintCoin_def defined_intros)

lemma sent_stablecoin_BurnCoin:
  assumes "shaped (Sub stablecoin_MsgBurnCoin) j"
  shows "defined (dec_stablecoin_BurnCoin ctx j)"
  using texts_at [OF assms text_stablecoin_BurnCoin] by (simp add: dec_stablecoin_BurnCoin_def defined_intros)

lemma sent_stablecoin_RegisterCurrency:
  assumes "shaped (Sub stablecoin_MsgRegisterCurrency) j"
  shows "defined (dec_stablecoin_RegisterCurrency ctx j)"
  using texts_at [OF assms text_stablecoin_RegisterCurrency] by (simp add: dec_stablecoin_RegisterCurrency_def defined_intros)

lemma sent_stablecoin_ApproveIssuer:
  assumes "shaped (Sub stablecoin_MsgApproveIssuer) j"
  shows "defined (dec_stablecoin_ApproveIssuer ctx j)"
  using texts_at [OF assms text_stablecoin_ApproveIssuer] by (simp add: dec_stablecoin_ApproveIssuer_def defined_intros)

lemma sent_treasury_CreateTreasury:
  assumes "shaped (Sub treasury_MsgCreateTreasury) j"
  shows "defined (dec_treasury_CreateTreasury ctx j)"
  using texts_at [OF assms text_treasury_CreateTreasury] by (simp add: dec_treasury_CreateTreasury_def defined_intros)

lemma sent_treasury_Deposit:
  assumes "shaped (Sub treasury_MsgDeposit) j"
  shows "defined (dec_treasury_Deposit ctx j)"
  using texts_at [OF assms text_treasury_Deposit] member_coins [OF assms fields_coins(1)] by (simp add: dec_treasury_Deposit_def defined_intros)

lemma sent_treasury_Spend:
  assumes "shaped (Sub treasury_MsgSpend) j"
  shows "defined (dec_treasury_Spend ctx j)"
  using texts_at [OF assms text_treasury_Spend] member_coins [OF assms fields_coins(2)] by (simp add: dec_treasury_Spend_def defined_intros)

lemma sent_treasury_CreateLock:
  assumes "shaped (Sub treasury_MsgCreateLock) j"
  shows "defined (dec_treasury_CreateLock ctx j)"
  using texts_at [OF assms text_treasury_CreateLock] by (simp add: dec_treasury_CreateLock_def defined_intros)

lemma sent_treasury_ClaimLock:
  assumes "shaped (Sub treasury_MsgClaimLock) j"
  shows "defined (dec_treasury_ClaimLock ctx j)"
  using texts_at [OF assms text_treasury_ClaimLock] by (simp add: dec_treasury_ClaimLock_def defined_intros)

lemma sent_treasury_RevokeLock:
  assumes "shaped (Sub treasury_MsgRevokeLock) j"
  shows "defined (dec_treasury_RevokeLock ctx j)"
  using texts_at [OF assms text_treasury_RevokeLock] by (simp add: dec_treasury_RevokeLock_def defined_intros)

lemma sent_treasury_AssignRole:
  assumes "shaped (Sub treasury_MsgAssignRole) j"
  shows "defined (dec_treasury_AssignRole ctx j)"
  using texts_at [OF assms text_treasury_AssignRole] by (simp add: dec_treasury_AssignRole_def defined_intros)

lemma sent_treasury_RevokeRole:
  assumes "shaped (Sub treasury_MsgRevokeRole) j"
  shows "defined (dec_treasury_RevokeRole ctx j)"
  using texts_at [OF assms text_treasury_RevokeRole] by (simp add: dec_treasury_RevokeRole_def defined_intros)

lemma sent_treasury_SetSpendPolicy:
  assumes "shaped (Sub treasury_MsgSetSpendPolicy) j"
  shows "defined (dec_treasury_SetSpendPolicy ctx j)"
  using texts_at [OF assms text_treasury_SetSpendPolicy] by (simp add: dec_treasury_SetSpendPolicy_def defined_intros)

lemma sent_treasury_SetPaused:
  assumes "shaped (Sub treasury_MsgSetPaused) j"
  shows "defined (dec_treasury_SetPaused ctx j)"
  using texts_at [OF assms text_treasury_SetPaused] by (simp add: dec_treasury_SetPaused_def defined_intros)

lemma sent_treasury_SetAdmin:
  assumes "shaped (Sub treasury_MsgSetAdmin) j"
  shows "defined (dec_treasury_SetAdmin ctx j)"
  using texts_at [OF assms text_treasury_SetAdmin] by (simp add: dec_treasury_SetAdmin_def defined_intros)

lemma sent_validatorgov_ApplyValidator:
  assumes "shaped (Sub validatorgov_MsgApplyValidator) j"
  shows "defined (dec_validatorgov_ApplyValidator ctx j)"
  using texts_at [OF assms text_validatorgov_ApplyValidator] by (simp add: dec_validatorgov_ApplyValidator_def defined_intros)

lemma sent_validatorgov_ApproveValidator:
  assumes "shaped (Sub validatorgov_MsgApproveValidator) j"
  shows "defined (dec_validatorgov_ApproveValidator ctx j)"
  using texts_at [OF assms text_validatorgov_ApproveValidator] by (simp add: dec_validatorgov_ApproveValidator_def defined_intros)

lemma sent_builderfee_RegisterBuilder:
  assumes "shaped (Sub builderfee_MsgRegisterBuilder) j"
  shows "defined (dec_builderfee_RegisterBuilder ctx j)"
  using texts_at [OF assms text_builderfee_RegisterBuilder] by (simp add: dec_builderfee_RegisterBuilder_def defined_intros)

lemma sent_builderfee_ApproveBuilder:
  assumes "shaped (Sub builderfee_MsgApproveBuilder) j"
  shows "defined (dec_builderfee_ApproveBuilder ctx j)"
  using texts_at [OF assms text_builderfee_ApproveBuilder] by (simp add: dec_builderfee_ApproveBuilder_def defined_intros)

lemma sent_oracle_SubmitExchangeRates:
  assumes "shaped (Sub oracle_MsgSubmitExchangeRates) j"
  shows "defined (dec_oracle_SubmitExchangeRates ctx j)"
proof -
  have "\<exists>xs. declared_array (member ''rates'' j) = Some xs \<and> (\<forall>x \<in> set xs. x \<noteq> JNull \<and> textual (member ''denom'' x) \<and> textual (member ''rate'' x))"
  proof (cases "member ''rates'' j")
    case (Some v)
    then show ?thesis using member_objects [OF assms fields_coins(3) Some] by (auto simp: declared_array_def nullish_def)
  qed (simp add: declared_array_def nullish_def)
  then obtain xs where xs: "declared_array (member ''rates'' j) = Some xs"
    "\<forall>x \<in> set xs. x \<noteq> JNull \<and> textual (member ''denom'' x) \<and> textual (member ''rate'' x)" by blast
  have "defined (case (if r = JNull then None else string_in (coalesce (member ''denom'' r) (Some (JStr [])))) of
          None \<Rightarrow> None | Some d \<Rightarrow> labelled d (string_in (coalesce (member ''rate'' r) (Some (JStr [])))) False)" if "r \<in> set xs" for r
    using xs(2) that defined_coalesced [of "member ''denom'' r" "[]"] defined_coalesced [of "member ''rate'' r" "[]"]
    by (auto simp: defined_def split: option.splits) (auto simp: labelled_def)
  then show ?thesis
    using texts_at [OF assms text_oracle_SubmitExchangeRates] xs(1) by (simp add: dec_oracle_SubmitExchangeRates_def defined_intros list_all_iff)
qed

lemma sent_oracle_DelegateFeeder:
  assumes "shaped (Sub oracle_MsgDelegateFeeder) j"
  shows "defined (dec_oracle_DelegateFeeder ctx j)"
  using texts_at [OF assms text_oracle_DelegateFeeder] by (simp add: dec_oracle_DelegateFeeder_def defined_intros)

lemma sent_oracle_ApplyAppraiser:
  assumes "shaped (Sub oracle_MsgApplyAppraiser) j"
  shows "defined (dec_oracle_ApplyAppraiser ctx j)"
  using texts_at [OF assms text_oracle_ApplyAppraiser] member_joined [OF assms fields_coins(4)] by (simp add: dec_oracle_ApplyAppraiser_def defined_intros)

lemma sent_oracle_ApproveAppraiser:
  assumes "shaped (Sub oracle_MsgApproveAppraiser) j"
  shows "defined (dec_oracle_ApproveAppraiser ctx j)"
  using texts_at [OF assms text_oracle_ApproveAppraiser] by (simp add: dec_oracle_ApproveAppraiser_def defined_intros)

lemma sent_oracle_RevokeAppraiser:
  assumes "shaped (Sub oracle_MsgRevokeAppraiser) j"
  shows "defined (dec_oracle_RevokeAppraiser ctx j)"
  using texts_at [OF assms text_oracle_RevokeAppraiser] by (simp add: dec_oracle_RevokeAppraiser_def defined_intros)

lemma sent_oracle_SubmitAppraisal:
  assumes "shaped (Sub oracle_MsgSubmitAppraisal) j" and "defined (unixDate (member ''valued_at'' j))"
  shows "defined (dec_oracle_SubmitAppraisal ctx j)"
  using assms(2) texts_at [OF assms(1) text_oracle_SubmitAppraisal] by (simp add: dec_oracle_SubmitAppraisal_def defined_intros)

lemma sent_feegrant_GrantAllowance:
  assumes "shaped (Sub feegrant_MsgGrantAllowance) j"
  shows "defined (dec_feegrant_GrantAllowance ctx j)"
  using texts_at [OF assms text_feegrant_GrantAllowance] by (simp add: dec_feegrant_GrantAllowance_def defined_intros)

lemma sent_feegrant_RevokeAllowance:
  assumes "shaped (Sub feegrant_MsgRevokeAllowance) j"
  shows "defined (dec_feegrant_RevokeAllowance ctx j)"
  using texts_at [OF assms text_feegrant_RevokeAllowance] by (simp add: dec_feegrant_RevokeAllowance_def defined_intros)



section \<open>The sentence of a registered message\<close>

lemma with_type_shaped: "shaped (Sub fs) j \<Longrightarrow> shaped (Sub fs) (with_type j u)"
  by (elim shaped_sub) (auto simp: with_type_def member_def intro!: sh_msg)

lemma with_type_member: "y \<noteq> ''@type'' \<Longrightarrow> shaped (Sub fs) j \<Longrightarrow> member y (with_type j u) = member y j"
  by (elim shaped_sub) (simp add: with_type_def member_def)

lemma with_type_type: "type_of (with_type j u) = Some u"
  by (cases j) (simp_all add: with_type_def type_of_def member_def coalesce_def nullish_def string_in_def)

text \<open>A date that \<open>Date\<close> can hold, from the decimal text of its seconds.\<close>

lemma unixDate_text:
  assumes "\<bar>i\<bar> * 1000 < 2 ^ 53"
  shows "defined (unixDate (Some (JStr (show_int i)))) \<longleftrightarrow> i \<le> 8640000000000"
proof -
  have h: "holds_int (number (show_int i)) i" using assms by (intro number_show_int) linarith
  have m: "holds_int (num_mul (number (show_int i)) (num_of_int 1000)) (i * 1000)"
    using assms by (intro num_mul_exact [OF h num_of_int_exact]) (simp_all add: abs_mult)
  have t: "time_clip (num_mul (number (show_int i)) (num_of_int 1000)) = (if time_ok (i * 1000) then Some (i * 1000) else None)"
    using int_of_num_holds [OF num_trunc_holds [OF m]] assms by (simp add: time_clip_def abs_mult)
  have f: "num_is_finite (number (show_int i))" using h by (rule holds_int_parts) simp
  have z: "num_le (number (show_int i)) (num_of_int 0) \<longleftrightarrow> i \<le> 0" by (rule num_cmp_holds(3) [OF h num_of_int_exact]) simp
  show ?thesis using t f z by (auto simp: unixDate_def coalesce_def nullish_def Let_def time_ok_def defined_def)
qed

lemma near_scaled:
  assumes "\<bar>v - x\<bar> \<le> x * c" and "a \<le> x" "x \<le> b" and "0 \<le> c" "c \<le> (1 :: real)"
  shows "a * (1 - c) \<le> v" "v \<le> b * (1 + c)"
proof -
  have "a * (1 - c) \<le> x * (1 - c)" "x * (1 + c) \<le> b * (1 + c)" using assms(2-5) by (intro mult_right_mono; simp)+
  then show "a * (1 - c) \<le> v" "v \<le> b * (1 + c)" using assms(1) by (simp_all add: algebra_simps abs_le_iff)
qed

lemma near_bounds: "\<bar>v - x\<bar> \<le> x / 2 ^ 53 \<Longrightarrow> a \<le> x \<Longrightarrow> x \<le> b \<Longrightarrow> a * (1 - 1 / 2 ^ 53) \<le> v \<and> v \<le> b * (1 + 1 / 2 ^ 53)" for v x a b :: real
  using near_scaled [of v x "1 / 2 ^ 53" a b] by simp

text \<open>Past what a double holds exactly, the roundings on the way stay on the far side of the last date.\<close>

lemma unixDate_late:
  assumes "8640000000000 < i" and "i < 2 ^ 63"
  shows "unixDate (Some (JStr (show_int i))) = None"
proof (cases "\<bar>i\<bar> * 1000 < 2 ^ 53")
  case True
  then show ?thesis using unixDate_text [OF True] assms(1) by (simp add: defined_def)
next
  case False
  let ?x = "number (show_int i)" and ?k = "num_of_int 1000"
  have b: "9007199254740 \<le> real_of_int i" "real_of_int i \<le> 2 ^ 63" using False assms by simp_all
  have x: "?x = to_double False (nat i) 1" using assms(1) by (simp add: number_of_text num_of_int_def)
  have r: "real (nat i) / real 1 = of_int i" using assms(1) by simp
  have "(1::real) / 2 ^ 60 \<le> 1" "(2::real) ^ 63 \<le> 2 ^ 80" by simp_all
  then have n: "(1::real) / 2 ^ 60 \<le> real (nat i) / real 1" "real (nat i) / real 1 \<le> 2 ^ 80"
    using b unfolding r by linarith+
  have "0 < nat i" "(0::nat) < 1" using assms(1) by simp_all
  note near = to_double_near [OF this n]
  obtain m e where xf: "?x = JFin False m e" using to_double_positive [OF near(1)] x by auto
  have v: "9007199254738 \<le> num_val ?x" "num_val ?x \<le> 2 ^ 64"
    using near_bounds [OF near(2) [folded x, unfolded r] b] by simp_all
  have h: "holds_int ?k 1000" by (rule num_of_int_exact) simp
  then have kv: "num_val ?k = 1000" using int_of_num_val [OF int_of_num_holds] by fastforce
  have "num_is_finite (to_double False 1000 1)" using h by (rule holds_int_parts) (simp add: num_of_int_def)
  then obtain n f where k: "?k = JFin False n f" using to_double_positive by (fastforce simp: num_of_int_def)
  have p: "1 / 2 ^ 60 \<le> num_val ?x * num_val ?k" "num_val ?x * num_val ?k \<le> 2 ^ 80" using v by (simp_all add: kv)
  note mul = num_mul_near [OF xf k p]
  obtain q g where y: "num_mul ?x ?k = JFin False q g" using mul(1) by blast
  have "8640000000000002 \<le> num_val (num_mul ?x ?k)" "num_val (num_mul ?x ?k) \<le> 2 ^ 79" 
    using near_bounds [OF mul(2), of 9007199254738000 "2 ^ 64 * 1000"] v by (simp_all add: kv)
  then have late: "8640000000000000 < t" if "int_of_num (num_trunc (num_mul ?x ?k)) = Some t" for t using trunc_late [OF y _ _ that] by blast
  have "time_clip (num_mul ?x ?k) = None"
    using late by (cases "int_of_num (num_trunc (num_mul ?x ?k))") (auto simp: time_clip_def time_ok_def)
  moreover have z: "num_of_int 0 = JFin False 0 0" by (simp add: num_of_int_def to_double_def)
  moreover have f: "num_is_finite ?x" using xf by simp
  moreover have "\<not> num_le ?x (num_of_int 0)" using v(1) num_cmp_val(3) [OF f, of "JFin False 0 0"] by (simp add: z)
  ultimately show ?thesis by (simp add: unixDate_def coalesce_def nullish_def Let_def)
qed

lemma valued_at_name: "list_all (\<lambda>(n, x, k). snake_case x = ''valued_at'' \<or> x = ''valued_at'' \<longrightarrow> x = ''valuedAt'' \<and> k = One T_int64) oracle_MsgSubmitAppraisal"
  by code_simp

lemma valued_at_member:
  assumes "typed_message oracle_MsgSubmitAppraisal m" and "json_members oracle_MsgSubmitAppraisal m = Some ms"
  shows "member ''valued_at'' (snakeKeys (JObj ms)) = None \<or>
    (\<exists>s. prop_of m ''valuedAt'' = I_text s \<and> member ''valued_at'' (snakeKeys (JObj ms)) = Some (JStr s))"
proof (cases "member ''valued_at'' (snakeKeys (JObj ms))")
  case (Some w)
  obtain x v where v: "(x, v) \<in> set ms" "w = snakeKeys v" "snake_case x = ''valued_at'' \<or> x = ''valued_at''"
    using snake_member_from [OF Some] by blast
  obtain n k where k: "(n, x, k) \<in> set oracle_MsgSubmitAppraisal" "json_kind k (prop_of m x) = Some (Some v)"
    using members_from [OF assms(2) v(1)] by blast
  have "x = ''valuedAt'' \<and> k = One T_int64" using valued_at_name k(1) v(3) by (fastforce simp: list_all_iff)
  then have "json_scalar T_int64 (prop_of m ''valuedAt'') = Some v" using k(2) by (auto split: if_splits)
  then show ?thesis using v(2) Some by (auto simp: json_scalar_def split: proto_item.splits)
qed simp

text \<open>Each decoder of a registered type, on a message of that type.\<close>

definition spoken_for :: "string \<Rightarrow> message_decoder \<Rightarrow> bool" where
  "spoken_for u dec \<longleftrightarrow> (\<forall>fs ctx j. map_of CHAIN_MESSAGE_TYPES u = Some fs \<and> shaped (Sub fs) j \<and>
     (u = ''/blockchain.oracle.v1.MsgSubmitAppraisal'' \<longrightarrow> defined (unixDate (member ''valued_at'' j))) \<longrightarrow> defined (dec ctx j))"

lemma registered_index: "i < length CHAIN_MESSAGE_TYPES \<Longrightarrow> CHAIN_MESSAGE_TYPES ! i = (u, fs) \<Longrightarrow> map_of CHAIN_MESSAGE_TYPES u = Some fs"
  using map_of_is_SomeI [OF registered_once] nth_mem by metis

lemma spoken_types:
  "map_of CHAIN_MESSAGE_TYPES ''/blockchain.paymsg.v1.MsgSendPayment'' = Some paymsg_MsgSendPayment"
  "map_of CHAIN_MESSAGE_TYPES ''/blockchain.paymsg.v1.MsgApplyParticipant'' = Some paymsg_MsgApplyParticipant"
  "map_of CHAIN_MESSAGE_TYPES ''/blockchain.paymsg.v1.MsgRegisterCustomer'' = Some paymsg_MsgRegisterCustomer"
  "map_of CHAIN_MESSAGE_TYPES ''/blockchain.paymsg.v1.MsgApproveParticipant'' = Some paymsg_MsgApproveParticipant"
  "map_of CHAIN_MESSAGE_TYPES ''/blockchain.amm.v1.MsgSwap'' = Some amm_MsgSwap"
  "map_of CHAIN_MESSAGE_TYPES ''/blockchain.amm.v1.MsgCreatePool'' = Some amm_MsgCreatePool"
  "map_of CHAIN_MESSAGE_TYPES ''/blockchain.amm.v1.MsgJoinPool'' = Some amm_MsgJoinPool"
  "map_of CHAIN_MESSAGE_TYPES ''/blockchain.amm.v1.MsgExitPool'' = Some amm_MsgExitPool"
  "map_of CHAIN_MESSAGE_TYPES ''/blockchain.stablecoin.v1.MsgMintCoin'' = Some stablecoin_MsgMintCoin"
  "map_of CHAIN_MESSAGE_TYPES ''/blockchain.stablecoin.v1.MsgBurnCoin'' = Some stablecoin_MsgBurnCoin"
  "map_of CHAIN_MESSAGE_TYPES ''/blockchain.stablecoin.v1.MsgRegisterCurrency'' = Some stablecoin_MsgRegisterCurrency"
  "map_of CHAIN_MESSAGE_TYPES ''/blockchain.stablecoin.v1.MsgApproveIssuer'' = Some stablecoin_MsgApproveIssuer"
  "map_of CHAIN_MESSAGE_TYPES ''/blockchain.treasury.v1.MsgCreateTreasury'' = Some treasury_MsgCreateTreasury"
  "map_of CHAIN_MESSAGE_TYPES ''/blockchain.treasury.v1.MsgDeposit'' = Some treasury_MsgDeposit"
  "map_of CHAIN_MESSAGE_TYPES ''/blockchain.treasury.v1.MsgSpend'' = Some treasury_MsgSpend"
  "map_of CHAIN_MESSAGE_TYPES ''/blockchain.treasury.v1.MsgCreateLock'' = Some treasury_MsgCreateLock"
  "map_of CHAIN_MESSAGE_TYPES ''/blockchain.treasury.v1.MsgClaimLock'' = Some treasury_MsgClaimLock"
  "map_of CHAIN_MESSAGE_TYPES ''/blockchain.treasury.v1.MsgRevokeLock'' = Some treasury_MsgRevokeLock"
  "map_of CHAIN_MESSAGE_TYPES ''/blockchain.treasury.v1.MsgAssignRole'' = Some treasury_MsgAssignRole"
  "map_of CHAIN_MESSAGE_TYPES ''/blockchain.treasury.v1.MsgRevokeRole'' = Some treasury_MsgRevokeRole"
  "map_of CHAIN_MESSAGE_TYPES ''/blockchain.treasury.v1.MsgSetSpendPolicy'' = Some treasury_MsgSetSpendPolicy"
  "map_of CHAIN_MESSAGE_TYPES ''/blockchain.treasury.v1.MsgSetPaused'' = Some treasury_MsgSetPaused"
  "map_of CHAIN_MESSAGE_TYPES ''/blockchain.treasury.v1.MsgSetAdmin'' = Some treasury_MsgSetAdmin"
  "map_of CHAIN_MESSAGE_TYPES ''/blockchain.validatorgov.v1.MsgApplyValidator'' = Some validatorgov_MsgApplyValidator"
  "map_of CHAIN_MESSAGE_TYPES ''/blockchain.validatorgov.v1.MsgApproveValidator'' = Some validatorgov_MsgApproveValidator"
  "map_of CHAIN_MESSAGE_TYPES ''/blockchain.builderfee.v1.MsgRegisterBuilder'' = Some builderfee_MsgRegisterBuilder"
  "map_of CHAIN_MESSAGE_TYPES ''/blockchain.builderfee.v1.MsgApproveBuilder'' = Some builderfee_MsgApproveBuilder"
  "map_of CHAIN_MESSAGE_TYPES ''/blockchain.oracle.v1.MsgSubmitExchangeRates'' = Some oracle_MsgSubmitExchangeRates"
  "map_of CHAIN_MESSAGE_TYPES ''/blockchain.oracle.v1.MsgDelegateFeeder'' = Some oracle_MsgDelegateFeeder"
  "map_of CHAIN_MESSAGE_TYPES ''/blockchain.oracle.v1.MsgApplyAppraiser'' = Some oracle_MsgApplyAppraiser"
  "map_of CHAIN_MESSAGE_TYPES ''/blockchain.oracle.v1.MsgApproveAppraiser'' = Some oracle_MsgApproveAppraiser"
  "map_of CHAIN_MESSAGE_TYPES ''/blockchain.oracle.v1.MsgRevokeAppraiser'' = Some oracle_MsgRevokeAppraiser"
  "map_of CHAIN_MESSAGE_TYPES ''/blockchain.oracle.v1.MsgSubmitAppraisal'' = Some oracle_MsgSubmitAppraisal"
  "map_of CHAIN_MESSAGE_TYPES ''/cosmos.feegrant.v1beta1.MsgGrantAllowance'' = Some feegrant_MsgGrantAllowance"
  "map_of CHAIN_MESSAGE_TYPES ''/cosmos.feegrant.v1beta1.MsgRevokeAllowance'' = Some feegrant_MsgRevokeAllowance"
  subgoal by (rule registered_index [of 2]) (simp_all add: CHAIN_MESSAGE_TYPES_def)
  subgoal by (rule registered_index [of 3]) (simp_all add: CHAIN_MESSAGE_TYPES_def)
  subgoal by (rule registered_index [of 5]) (simp_all add: CHAIN_MESSAGE_TYPES_def)
  subgoal by (rule registered_index [of 4]) (simp_all add: CHAIN_MESSAGE_TYPES_def)
  subgoal by (rule registered_index [of 24]) (simp_all add: CHAIN_MESSAGE_TYPES_def)
  subgoal by (rule registered_index [of 21]) (simp_all add: CHAIN_MESSAGE_TYPES_def)
  subgoal by (rule registered_index [of 22]) (simp_all add: CHAIN_MESSAGE_TYPES_def)
  subgoal by (rule registered_index [of 23]) (simp_all add: CHAIN_MESSAGE_TYPES_def)
  subgoal by (rule registered_index [of 26]) (simp_all add: CHAIN_MESSAGE_TYPES_def)
  subgoal by (rule registered_index [of 27]) (simp_all add: CHAIN_MESSAGE_TYPES_def)
  subgoal by (rule registered_index [of 25]) (simp_all add: CHAIN_MESSAGE_TYPES_def)
  subgoal by (rule registered_index [of 28]) (simp_all add: CHAIN_MESSAGE_TYPES_def)
  subgoal by (rule registered_index [of 6]) (simp_all add: CHAIN_MESSAGE_TYPES_def)
  subgoal by (rule registered_index [of 7]) (simp_all add: CHAIN_MESSAGE_TYPES_def)
  subgoal by (rule registered_index [of 8]) (simp_all add: CHAIN_MESSAGE_TYPES_def)
  subgoal by (rule registered_index [of 9]) (simp_all add: CHAIN_MESSAGE_TYPES_def)
  subgoal by (rule registered_index [of 14]) (simp_all add: CHAIN_MESSAGE_TYPES_def)
  subgoal by (rule registered_index [of 15]) (simp_all add: CHAIN_MESSAGE_TYPES_def)
  subgoal by (rule registered_index [of 16]) (simp_all add: CHAIN_MESSAGE_TYPES_def)
  subgoal by (rule registered_index [of 17]) (simp_all add: CHAIN_MESSAGE_TYPES_def)
  subgoal by (rule registered_index [of 18]) (simp_all add: CHAIN_MESSAGE_TYPES_def)
  subgoal by (rule registered_index [of 19]) (simp_all add: CHAIN_MESSAGE_TYPES_def)
  subgoal by (rule registered_index [of 20]) (simp_all add: CHAIN_MESSAGE_TYPES_def)
  subgoal by (rule registered_index [of 50]) (simp_all add: CHAIN_MESSAGE_TYPES_def)
  subgoal by (rule registered_index [of 51]) (simp_all add: CHAIN_MESSAGE_TYPES_def)
  subgoal by (rule registered_index [of 61]) (simp_all add: CHAIN_MESSAGE_TYPES_def)
  subgoal by (rule registered_index [of 62]) (simp_all add: CHAIN_MESSAGE_TYPES_def)
  subgoal by (rule registered_index [of 29]) (simp_all add: CHAIN_MESSAGE_TYPES_def)
  subgoal by (rule registered_index [of 30]) (simp_all add: CHAIN_MESSAGE_TYPES_def)
  subgoal by (rule registered_index [of 31]) (simp_all add: CHAIN_MESSAGE_TYPES_def)
  subgoal by (rule registered_index [of 32]) (simp_all add: CHAIN_MESSAGE_TYPES_def)
  subgoal by (rule registered_index [of 33]) (simp_all add: CHAIN_MESSAGE_TYPES_def)
  subgoal by (rule registered_index [of 34]) (simp_all add: CHAIN_MESSAGE_TYPES_def)
  subgoal by (rule registered_index [of 0]) (simp_all add: CHAIN_MESSAGE_TYPES_def)
  subgoal by (rule registered_index [of 1]) (simp_all add: CHAIN_MESSAGE_TYPES_def)
  done

lemma registered_prefix: "list_all (\<lambda>(u, fs). take 11 u = ''/blockchain'' \<or> take 16 u = ''/cosmos.feegrant'') CHAIN_MESSAGE_TYPES"
  by (simp add: CHAIN_MESSAGE_TYPES_def)

lemma spoken_elsewhere: "take 11 u \<noteq> ''/blockchain'' \<Longrightarrow> take 16 u \<noteq> ''/cosmos.feegrant'' \<Longrightarrow> spoken_for u dec"
  using registered_prefix by (fastforce simp: spoken_for_def list_all_iff dest: map_of_SomeD)

lemma spoken_here:
  "spoken_for ''/blockchain.paymsg.v1.MsgSendPayment'' dec_paymsg_SendPayment"
  "spoken_for ''/blockchain.paymsg.v1.MsgApplyParticipant'' dec_paymsg_ApplyParticipant"
  "spoken_for ''/blockchain.paymsg.v1.MsgRegisterCustomer'' dec_paymsg_RegisterCustomer"
  "spoken_for ''/blockchain.paymsg.v1.MsgApproveParticipant'' dec_paymsg_ApproveParticipant"
  "spoken_for ''/blockchain.amm.v1.MsgSwap'' dec_amm_Swap"
  "spoken_for ''/blockchain.amm.v1.MsgCreatePool'' dec_amm_CreatePool"
  "spoken_for ''/blockchain.amm.v1.MsgJoinPool'' dec_amm_JoinPool"
  "spoken_for ''/blockchain.amm.v1.MsgExitPool'' dec_amm_ExitPool"
  "spoken_for ''/blockchain.stablecoin.v1.MsgMintCoin'' dec_stablecoin_MintCoin"
  "spoken_for ''/blockchain.stablecoin.v1.MsgBurnCoin'' dec_stablecoin_BurnCoin"
  "spoken_for ''/blockchain.stablecoin.v1.MsgRegisterCurrency'' dec_stablecoin_RegisterCurrency"
  "spoken_for ''/blockchain.stablecoin.v1.MsgApproveIssuer'' dec_stablecoin_ApproveIssuer"
  "spoken_for ''/blockchain.treasury.v1.MsgCreateTreasury'' dec_treasury_CreateTreasury"
  "spoken_for ''/blockchain.treasury.v1.MsgDeposit'' dec_treasury_Deposit"
  "spoken_for ''/blockchain.treasury.v1.MsgSpend'' dec_treasury_Spend"
  "spoken_for ''/blockchain.treasury.v1.MsgCreateLock'' dec_treasury_CreateLock"
  "spoken_for ''/blockchain.treasury.v1.MsgClaimLock'' dec_treasury_ClaimLock"
  "spoken_for ''/blockchain.treasury.v1.MsgRevokeLock'' dec_treasury_RevokeLock"
  "spoken_for ''/blockchain.treasury.v1.MsgAssignRole'' dec_treasury_AssignRole"
  "spoken_for ''/blockchain.treasury.v1.MsgRevokeRole'' dec_treasury_RevokeRole"
  "spoken_for ''/blockchain.treasury.v1.MsgSetSpendPolicy'' dec_treasury_SetSpendPolicy"
  "spoken_for ''/blockchain.treasury.v1.MsgSetPaused'' dec_treasury_SetPaused"
  "spoken_for ''/blockchain.treasury.v1.MsgSetAdmin'' dec_treasury_SetAdmin"
  "spoken_for ''/blockchain.validatorgov.v1.MsgApplyValidator'' dec_validatorgov_ApplyValidator"
  "spoken_for ''/blockchain.validatorgov.v1.MsgApproveValidator'' dec_validatorgov_ApproveValidator"
  "spoken_for ''/blockchain.builderfee.v1.MsgRegisterBuilder'' dec_builderfee_RegisterBuilder"
  "spoken_for ''/blockchain.builderfee.v1.MsgApproveBuilder'' dec_builderfee_ApproveBuilder"
  "spoken_for ''/blockchain.oracle.v1.MsgSubmitExchangeRates'' dec_oracle_SubmitExchangeRates"
  "spoken_for ''/blockchain.oracle.v1.MsgDelegateFeeder'' dec_oracle_DelegateFeeder"
  "spoken_for ''/blockchain.oracle.v1.MsgApplyAppraiser'' dec_oracle_ApplyAppraiser"
  "spoken_for ''/blockchain.oracle.v1.MsgApproveAppraiser'' dec_oracle_ApproveAppraiser"
  "spoken_for ''/blockchain.oracle.v1.MsgRevokeAppraiser'' dec_oracle_RevokeAppraiser"
  "spoken_for ''/blockchain.oracle.v1.MsgSubmitAppraisal'' dec_oracle_SubmitAppraisal"
  "spoken_for ''/cosmos.feegrant.v1beta1.MsgGrantAllowance'' dec_feegrant_GrantAllowance"
  "spoken_for ''/cosmos.feegrant.v1beta1.MsgRevokeAllowance'' dec_feegrant_RevokeAllowance"
  by (simp_all add: spoken_for_def spoken_types sent_paymsg_SendPayment
    sent_paymsg_ApplyParticipant
    sent_paymsg_RegisterCustomer
    sent_paymsg_ApproveParticipant
    sent_amm_Swap
    sent_amm_CreatePool
    sent_amm_JoinPool
    sent_amm_ExitPool
    sent_stablecoin_MintCoin
    sent_stablecoin_BurnCoin
    sent_stablecoin_RegisterCurrency
    sent_stablecoin_ApproveIssuer
    sent_treasury_CreateTreasury
    sent_treasury_Deposit
    sent_treasury_Spend
    sent_treasury_CreateLock
    sent_treasury_ClaimLock
    sent_treasury_RevokeLock
    sent_treasury_AssignRole
    sent_treasury_RevokeRole
    sent_treasury_SetSpendPolicy
    sent_treasury_SetPaused
    sent_treasury_SetAdmin
    sent_validatorgov_ApplyValidator
    sent_validatorgov_ApproveValidator
    sent_builderfee_RegisterBuilder
    sent_builderfee_ApproveBuilder
    sent_oracle_SubmitExchangeRates
    sent_oracle_DelegateFeeder
    sent_oracle_ApplyAppraiser
    sent_oracle_ApproveAppraiser
    sent_oracle_RevokeAppraiser
    sent_oracle_SubmitAppraisal
    sent_feegrant_GrantAllowance
    sent_feegrant_RevokeAllowance)

lemma decoders_spoken: "list_all (\<lambda>(u, dec). spoken_for u dec) DECODERS"
  by (simp add: DECODERS_def spoken_here spoken_elsewhere)

text \<open>No decoder gives the kind of an unknown message.\<close>

definition never_other :: "decoded_parts option \<Rightarrow> bool" where
  "never_other x \<longleftrightarrow> (\<forall>d. x = Some d \<longrightarrow> dd_kind d \<noteq> Other_kind)"

lemma never_other_decoded [simp]: "k \<noteq> Other_kind \<Longrightarrow> never_other (decoded_as k t s e a c co ds)"
  by (auto simp: never_other_def decoded_as_def split: option.splits)

lemma never_other_none [simp]: "never_other None"
  by (simp add: never_other_def)


lemma never_other_decoders: "list_all (\<lambda>(u, dec). \<forall>ctx j. never_other (dec ctx j)) DECODERS"
  by (simp add: DECODERS_def Let_def dec_bank_Send_def
    dec_bank_MultiSend_def
    dec_paymsg_SendPayment_def
    dec_paymsg_ApplyParticipant_def
    dec_paymsg_RegisterCustomer_def
    dec_paymsg_ApproveParticipant_def
    dec_staking_Delegate_def
    dec_staking_Undelegate_def
    dec_staking_BeginRedelegate_def
    dec_staking_CreateValidator_def
    dec_staking_EditValidator_def
    dec_staking_CancelUnbondingDelegation_def
    dec_distribution_WithdrawDelegatorReward_def
    dec_distribution_WithdrawValidatorCommission_def
    dec_distribution_SetWithdrawAddress_def
    dec_distribution_FundCommunityPool_def
    dec_gov_SubmitProposal_def
    dec_gov_Vote_def
    dec_gov_VoteWeighted_def
    dec_gov_Deposit_def
    dec_amm_Swap_def
    dec_amm_CreatePool_def
    dec_amm_JoinPool_def
    dec_amm_ExitPool_def
    dec_stablecoin_MintCoin_def
    dec_stablecoin_BurnCoin_def
    dec_stablecoin_RegisterCurrency_def
    dec_stablecoin_ApproveIssuer_def
    dec_treasury_CreateTreasury_def
    dec_treasury_Deposit_def
    dec_treasury_Spend_def
    dec_treasury_CreateLock_def
    dec_treasury_ClaimLock_def
    dec_treasury_RevokeLock_def
    dec_treasury_AssignRole_def
    dec_treasury_RevokeRole_def
    dec_treasury_SetSpendPolicy_def
    dec_treasury_SetPaused_def
    dec_treasury_SetAdmin_def
    dec_validatorgov_ApplyValidator_def
    dec_validatorgov_ApproveValidator_def
    dec_builderfee_RegisterBuilder_def
    dec_builderfee_ApproveBuilder_def
    dec_oracle_SubmitExchangeRates_def
    dec_oracle_DelegateFeeder_def
    dec_oracle_ApplyAppraiser_def
    dec_oracle_ApproveAppraiser_def
    dec_oracle_RevokeAppraiser_def
    dec_oracle_SubmitAppraisal_def
    dec_authz_Grant_def
    dec_authz_Revoke_def
    dec_authz_Exec_def
    dec_feegrant_GrantAllowance_def
    dec_feegrant_RevokeAllowance_def
    dec_group_CreateGroupWithPolicy_def
    dec_group_SubmitProposal_def
    dec_group_Vote_def
    dec_group_Exec_def
    dec_transfer_Transfer_def split: option.splits)

lemma fallback_other: "\<exists>d. fallbackDecode u = Some d \<and> dd_kind d = Other_kind"
  by (simp add: fallbackDecode_def decoded_as_def Let_def)

lemma registered_not_params: "list_all (\<lambda>(u, fs). \<not> isParamUpdate u) CHAIN_MESSAGE_TYPES"
  by code_simp

text \<open>The JSON the screen is given, with its type, is shaped by the schema.\<close>

lemma screen_shape:
  assumes "typed_message fs m" and "proto_toJSON fs m = Some j"
  shows "shaped (Sub fs) (snakeKeys j)"
proof -
  obtain ms where ms: "json_members fs m = Some ms" "j = JObj ms" using assms(2) by (auto simp: proto_toJSON_def)
  show ?thesis unfolding ms(2) using kind_shaped by (intro members_shaped [OF assms(1) ms(1)])
qed

text \<open>A request whose body carries a message without a sentence has no summary.\<close>

lemma outer_without_sentence:
  assumes "pc_body pc bodyBytes = Inr body" and "(u, b) \<in> set (tb_messages body)" and "no_sentence pc sentence (u, b)"
  shows "summariseSigningRequest pc sentence bodyBytes auth = None"
proof -
  have "(u, b) \<in> set (carried_to pc k [(u, b)])" for k by (cases k) simp_all
  then have "decode_any pc sentence MAX_DEPTH u b = None" using assms(3) by (auto simp: decode_any_throws)
  then show ?thesis using assms(1,2) by (force simp: summariseSigningRequest_def those_None)
qed

section \<open>Properties\<close>

text \<open>
  C4. Whatever the bytes of a registered message, if its decoder accepts them the approval screen has a
  sentence for it: no decoder of the table fails on a message of its type, whatever is missing from it. The
  one exception is a valuation dated where \<open>Date\<close> has no day. The sentence is of the fallback kind exactly
  for the registered types without a decoder.
\<close>

theorem registered_messages_have_sentences:
  assumes "protobuf w" and "map_of CHAIN_MESSAGE_TYPES u = Some fs" and "proto_decode w fs bs = Some m"
    and "u = ''/blockchain.oracle.v1.MsgSubmitAppraisal'' \<Longrightarrow>
      \<exists>s. prop_of m ''valuedAt'' = I_text s \<and> digits_in (- 8640000000000) 8640000000001 s"
  shows "\<exists>j d. toJsonShape (chainRegistry w standard) u bs = Some j \<and> decodeMessage ctx (with_type j u) = Some d \<and>
    dd_type d = u \<and> (dd_kind d = Other_kind \<longleftrightarrow> map_of DECODERS u = None)"
proof -
  have r: "(u, fs) \<in> set CHAIN_MESSAGE_TYPES" using assms(2) by (rule map_of_SomeD)
  have t: "typed_message fs m"
    using r registered_dateless by (intro protobuf.decoded_typed [OF assms(1) registered_good [OF r] _ assms(3)]) (auto simp: list_all_iff)
  obtain j where j: "proto_toJSON fs m = Some j" using message_has_json [OF t] by blast
  have s: "shaped (Sub fs) (snakeKeys j)" by (rule screen_shape [OF t j])
  let ?j = "with_type (snakeKeys j) u"
  have parts: "defined (decode_parts ctx u ?j) \<and> (\<forall>d. decode_parts ctx u ?j = Some d \<longrightarrow> (dd_kind d = Other_kind \<longleftrightarrow> map_of DECODERS u = None))"
  proof (cases "map_of DECODERS u")
    case None
    moreover have "\<not> isParamUpdate u" using registered_not_params r by (fastforce simp: list_all_iff)
    ultimately show ?thesis using fallback_other [of u] by (auto simp: decode_parts_def defined_def)
  next
    case (Some dec)
    then have d: "(u, dec) \<in> set DECODERS" by (rule map_of_SomeD)
    have spoken: "spoken_for u dec" using decoders_spoken d by (auto simp: list_all_iff)
    have "defined (unixDate (member ''valued_at'' ?j))" if u: "u = ''/blockchain.oracle.v1.MsgSubmitAppraisal''"
    proof -
      have fs: "fs = oracle_MsgSubmitAppraisal" using assms(2) u spoken_types(33) by simp
      obtain ms where ms: "json_members fs m = Some ms" "j = JObj ms" using j by (auto simp: proto_toJSON_def)
      obtain v where v: "prop_of m ''valuedAt'' = I_text v" "digits_in (- 8640000000000) 8640000000001 v" using assms(4) u by blast
      obtain i where i: "v = show_int i" "\<bar>i\<bar> \<le> 8640000000000" using v(2) by (auto simp: digits_in_def split: option.splits)
      have "defined (unixDate (Some (JStr v)))" unfolding i(1) using i(2) by (subst unixDate_text) auto
      moreover have "defined (unixDate None)" by (simp add: unixDate_def coalesce_def nullish_def Let_def num_of_int_def num_of_nat_def) code_simp
      ultimately show ?thesis
        using valued_at_member [of m ms] t ms v(1) with_type_member [OF _ s, of "''valued_at''" u] unfolding fs by auto
    qed
    then have "defined (dec ctx ?j)"
      using spoken assms(2) with_type_shaped [OF s] unfolding spoken_for_def by blast
    moreover have "never_other (dec ctx ?j)" using never_other_decoders d by (fastforce simp: list_all_iff)
    ultimately show ?thesis using Some by (simp add: decode_parts_def never_other_def)
  qed
  then obtain d where d: "decode_parts ctx u ?j = Some d" by (auto simp: defined_def)
  show ?thesis
    using d parts j assms(2,3) with_type_type [of "snakeKeys j" u]
    by (simp add: toJsonShape_def chainRegistry_def decodeMessage_def decoded_parts.defs)
qed


text \<open>A property that is written is there after the keys are rewritten.\<close>

lemma snake_put_keys: "insert (snake_case k) (fst ` set out) \<subseteq> fst ` set (snake_put (k, v) out)"
proof -
  have "fst ` set (snake_put (k, v) out) \<supseteq> fst ` set (map_set (snake_case k) v out)"
    by (simp only: snake_put_def prod.case Let_def if_split_asm keys_map_set split: if_split) blast
  then show ?thesis by (simp add: keys_map_set)
qed

lemma snake_fold_keys: "snake_case ` fst ` set kvs \<union> fst ` set out \<subseteq> fst ` set (fold snake_put kvs out)"
proof (induction kvs arbitrary: out)
  case (Cons kv kvs)
  obtain k v where kv: "kv = (k, v)" by (cases kv)
  let ?A = "fst ` set (fold snake_put kvs (snake_put (k, v) out))"
  have a: "snake_case ` fst ` set kvs \<subseteq> ?A" "fst ` set (snake_put (k, v) out) \<subseteq> ?A"
    using Cons.IH [of "snake_put (k, v) out"] by (simp_all only: Un_subset_iff)
  have b: "insert (snake_case k) (fst ` set out) \<subseteq> ?A" by (rule order.trans [OF snake_put_keys a(2)])
  have "snake_case ` fst ` set (kv # kvs) \<union> fst ` set out = insert (snake_case k) (fst ` set out) \<union> snake_case ` fst ` set kvs"
    using kv by (simp add: Un_commute)
  then show ?case using a(1) b kv by (simp only: fold_simps Un_subset_iff)
qed simp

lemma snake_member_there: "(k, v) \<in> set ms \<Longrightarrow> member (snake_case k) (snakeKeys (JObj ms)) \<noteq> None"
proof -
  assume m: "(k, v) \<in> set ms"
  have "snake_case k \<in> fst ` set (fold snake_put (map (\<lambda>(k, v). (k, snakeKeys v)) ms) [])"
    using snake_fold_keys [of "map (\<lambda>(k, v). (k, snakeKeys v)) ms" "[]"] m by force
  then show ?thesis by (simp add: member_def map_of_eq_None_iff del: not_None_eq flip: snake_put_def)
qed

lemma members_there:
  "json_members fs m = Some ms \<Longrightarrow> (n, x, k) \<in> set fs \<Longrightarrow> json_kind k (prop_of m x) = Some (Some v) \<Longrightarrow> (x, v) \<in> set ms"
proof (induction fs arbitrary: ms)
  case (Cons f fs)
  obtain l y h where f: "f = (l, y, h)" by (cases f)
  from Cons.prems(1) obtain j ns where j: "json_kind h (prop_of m y) = Some j" "json_members fs m = Some ns"
    "ms = (case j of None \<Rightarrow> [] | Some v \<Rightarrow> [(y, v)]) @ ns"
    by (auto simp: f concat_some_Cons bind_eq_Some_conv)
  show ?case
  proof (cases "(n, x, k) \<in> set fs")
    case True
    then show ?thesis using Cons.IH [OF j(2)] Cons.prems(3) j(3) by simp
  next
    case False
    then have "f = (n, x, k)" using Cons.prems(2) by simp
    then show ?thesis using j(1,3) f Cons.prems(3) by simp
  qed
qed simp

lemma snake_valuedAt: "snake_case ''valuedAt'' = ''valued_at''" by code_simp

text \<open>
  C40. A valuation dated past the last day \<open>Date\<close> has, anywhere up to the last second of a 64-bit field, has
  no sentence. Its bytes decode and have JSON, but the screen's decoder throws on them; and with it
  the summary of every request that carries such a message throws, whatever else the request holds.
\<close>

theorem late_valuation_has_no_sentence:
  assumes "protobuf w" and "proto_decode w oracle_MsgSubmitAppraisal b = Some m"
    and "prop_of m ''valuedAt'' = I_text (show_int i)" and "8640000000000 < i"
  shows "(\<exists>j. toJsonShape (chainRegistry w standard) ''/blockchain.oracle.v1.MsgSubmitAppraisal'' b = Some j \<and>
      decodeMessage ctx (with_type j ''/blockchain.oracle.v1.MsgSubmitAppraisal'') = None) \<and>
    (\<forall>body. pc_body standard bodyBytes = Inr body \<and> (''/blockchain.oracle.v1.MsgSubmitAppraisal'', b) \<in> set (tb_messages body) \<longrightarrow>
      summariseSigningRequest (chainRegistry w standard) (\<lambda>j. map_option dd_summary (decodeMessage ctx j)) bodyBytes auth = None)"
proof -
  let ?u = "''/blockchain.oracle.v1.MsgSubmitAppraisal''" and ?fs = oracle_MsgSubmitAppraisal
  let ?pc = "chainRegistry w standard" and ?say = "\<lambda>j. map_option dd_summary (decodeMessage ctx j)"
  have r: "map_of CHAIN_MESSAGE_TYPES ?u = Some ?fs" by (rule spoken_types(33))
  have t: "typed_message ?fs m"
    using map_of_SomeD [OF r] registered_dateless
    by (intro protobuf.decoded_typed [OF assms(1) registered_good [OF map_of_SomeD [OF r]] _ assms(2)]) (auto simp: list_all_iff)
  obtain ms where ms: "json_members ?fs m = Some ms" using message_has_json [OF t] by (auto simp: proto_toJSON_def)
  have s: "shaped (Sub ?fs) (snakeKeys (JObj ms))" using screen_shape [OF t] ms by (simp add: proto_toJSON_def)
  have f: "(6, ''valuedAt'', One T_int64) \<in> set ?fs" by (simp add: oracle_MsgSubmitAppraisal_def)
  then have "typed_scalar T_int64 (I_text (show_int i))" using t assms(3) by (fastforce simp: typed_message_def list_all_iff)
  then have i: "i < 2 ^ 63" by (auto simp: typed_scalar_def digits_in_def big_int_show)
  have "show_int i \<noteq> ''0''" using show_int_inj [of i 0] assms(4) by (simp add: show_int_def)
  then have k: "json_kind (One T_int64) (prop_of m ''valuedAt'') = Some (Some (JStr (show_int i)))"
    using assms(3) by (simp add: is_default_def json_scalar_def)
  have "(''valuedAt'', JStr (show_int i)) \<in> set ms" by (rule members_there [OF ms f k])
  then have "member ''valued_at'' (snakeKeys (JObj ms)) \<noteq> None" using snake_member_there snake_valuedAt by metis
  then have v: "member ''valued_at'' (snakeKeys (JObj ms)) = Some (JStr (show_int i))"
    using valued_at_member [OF t ms] assms(3) by auto
  have "\<not> defined (unixDate (member ''valued_at'' (with_type (snakeKeys (JObj ms)) ?u)))"
    using unixDate_late [OF assms(4) i] v with_type_member [OF _ s, of "''valued_at''" ?u] by (simp add: defined_def)
  then have "\<not> defined (dec_oracle_SubmitAppraisal ctx (with_type (snakeKeys (JObj ms)) ?u))"
    by (simp add: dec_oracle_SubmitAppraisal_def)
  moreover have "map_of DECODERS ?u = Some dec_oracle_SubmitAppraisal" by (simp add: DECODERS_def)
  ultimately have d: "decodeMessage ctx (with_type (snakeKeys (JObj ms)) ?u) = None"
    using with_type_type [of "snakeKeys (JObj ms)" ?u] by (simp add: decodeMessage_def decode_parts_def defined_def)
  have j: "toJsonShape ?pc ?u b = Some (snakeKeys (JObj ms))"
    using r assms(2) ms by (simp add: toJsonShape_def chainRegistry_def proto_toJSON_def del: snakeKeys.simps)
  have "no_sentence ?pc ?say (?u, b)" using r j d by (simp add: no_sentence_def chainRegistry_def)
  then have "summariseSigningRequest ?pc ?say bodyBytes auth = None" if "pc_body ?pc bodyBytes = Inr body" "(?u, b) \<in> set (tb_messages body)" for body
    by (rule outer_without_sentence [OF that])
  then show ?thesis using j d by (auto simp: chainRegistry_def)
qed

section \<open>Witnesses\<close>

definition sample_screen :: codecs where
  "sample_screen = \<lparr>pc_known = (\<lambda>_. False), pc_json = (\<lambda>_ _. None), pc_body = (\<lambda>_. Inl []), pc_auth = (\<lambda>_. None)\<rparr>"

definition plain_context :: decode_context where
  "plain_context = \<lparr>dx_registry = None, dx_names = (\<lambda>_. None), dx_tr = (\<lambda>s. s)\<rparr>"

theorem registered_messages_have_sentences_witness:
  "\<exists>j d. toJsonShape (chainRegistry varint_wire sample_screen) ''/blockchain.enforcement.v1.MsgVoteCase''
        [10, 5, 121, 109, 108, 49, 118, 16, 172, 2, 24, 2] = Some j \<and>
     decodeMessage plain_context (with_type j ''/blockchain.enforcement.v1.MsgVoteCase'') = Some d \<and>
     dd_type d = ''/blockchain.enforcement.v1.MsgVoteCase'' \<and>
     (dd_kind d = Other_kind \<longleftrightarrow> map_of DECODERS ''/blockchain.enforcement.v1.MsgVoteCase'' = None)"
  by (rule registered_messages_have_sentences [OF pb.protobuf_axioms vote_registered
      protobuf.message_back [OF pb.protobuf_axioms registered_good [OF map_of_SomeD [OF vote_registered]] sample_vote_typed(1) sample_vote_bytes]]) simp_all

definition late_valuation :: message where
  "late_valuation = [(''appraiser'', I_text ''yml1a''), (''classId'', I_text ''land''), (''nftId'', I_text ''7''),
     (''value'', I_text ''100''), (''valueDenom'', I_text ''uyml''), (''valuedAt'', I_text (show_int 9000000000000)),
     (''method'', I_text []), (''reportUri'', I_text []), (''reportHash'', I_text [])]"

lemma late_valuation_bytes: "proto_encode varint_wire oracle_MsgSubmitAppraisal late_valuation =
    Some [10, 5, 121, 109, 108, 49, 97, 18, 4, 108, 97, 110, 100, 26, 1, 55, 34, 3, 49, 48, 48, 42, 4, 117, 121, 109, 108,
      48, 128, 160, 182, 206, 247, 133, 2]"
proof -
  have b: "big_int (show_int 9000000000000) = Some 9000000000000" by (rule big_int_show)
  have n: "show_int 9000000000000 \<noteq> ''0''" by code_simp
  show ?thesis using b n
    by (simp add: late_valuation_def oracle_MsgSubmitAppraisal_def prop_of_def concat_some_Cons enc_scalar_def is_default_def
      write_scalar_def varint_wire_simps delimited_def utf8_bytes_def varint.simps to_bits_def)
qed

definition late_bytes :: "byte list" where
  "late_bytes = [10, 5, 121, 109, 108, 49, 97, 18, 4, 108, 97, 110, 100, 26, 1, 55, 34, 3, 49, 48, 48, 42, 4, 117, 121, 109, 108,
      48, 128, 160, 182, 206, 247, 133, 2]"

lemma late_bytes_decode: "proto_decode varint_wire oracle_MsgSubmitAppraisal late_bytes = Some late_valuation"
proof -
  have "typed_message oracle_MsgSubmitAppraisal late_valuation"
    by (simp add: late_valuation_def typed_message_def typed_scalar_def oracle_MsgSubmitAppraisal_def prop_of_def digits_in_of)
  then show ?thesis
    unfolding late_bytes_def
    by (rule protobuf.message_back [OF pb.protobuf_axioms registered_good [OF map_of_SomeD [OF spoken_types(33)]] _ late_valuation_bytes]) simp
qed

definition late_screen :: codecs where
  "late_screen = sample_screen\<lparr>pc_body := (\<lambda>_. Inr \<lparr>tb_messages = [(''/blockchain.oracle.v1.MsgSubmitAppraisal'', late_bytes)], tb_memo = []\<rparr>)\<rparr>"

theorem late_valuation_has_no_sentence_witness:
  "(\<exists>j. toJsonShape (chainRegistry varint_wire late_screen) ''/blockchain.oracle.v1.MsgSubmitAppraisal'' late_bytes = Some j \<and>
      decodeMessage plain_context (with_type j ''/blockchain.oracle.v1.MsgSubmitAppraisal'') = None) \<and>
    summariseSigningRequest (chainRegistry varint_wire late_screen) (\<lambda>j. map_option dd_summary (decodeMessage plain_context j)) [] None = None"
proof -
  have "prop_of late_valuation ''valuedAt'' = I_text (show_int 9000000000000)" by (simp add: late_valuation_def prop_of_def)
  from late_valuation_has_no_sentence [OF pb.protobuf_axioms late_bytes_decode this]
  show ?thesis by (simp add: late_screen_def)
qed

end
