(* ===== verification/Feed.thy ===== *)
theory Feed imports Sentences begin

text \<open>
  The explorer's activity feed (\<open>clients/explorer/src/feed.ts\<close>): what is said of each message with the
  explorer's own decoders behind the SDK's, how finished a row is, and the rows of a page, an execution
  named by the request it ran. \<open>None\<close> is an exception, as in theory Decode.
\<close>

section \<open>The explorer's decoders\<close>

definition local_alias_RegisterAlias :: message_decoder where
  "local_alias_RegisterAlias ctx m =
     decoded_as Admin_kind (Some ''Identity issued'')
       (say [who ctx (member ''account'' m), Some '' was issued a Yamale user ID''])
       True (member ''account'' m) (None) None
       ([])"

definition local_alias_RotateAlias :: message_decoder where
  "local_alias_RotateAlias ctx m =
     decoded_as Admin_kind (Some ''Identity replaced'')
       (say [who ctx (member ''account'' m), Some '' replaced their user ID with a new one''])
       True (member ''account'' m) (None) None
       ([])"

definition local_alias_SetJurisdiction :: message_decoder where
  "local_alias_SetJurisdiction ctx m =
     decoded_as Governance_kind (Some ''Country recorded'')
       (say [who ctx (member ''account'' m), Some ([CHR 0x27] @ ''s country was recorded as ''),
         spoken (coalesce (member ''country'' m) (Some (JStr ''unknown'')))])
       True (member ''recorder'' m) (member ''account'' m) None
       ([labelled ''Recorded by'' (spoken (coalesce (member ''recorder'' m) (Some (JStr EM_DASH)))) True])"

definition local_alias_AppointRegulator :: message_decoder where
  "local_alias_AppointRegulator ctx m =
     decoded_as Governance_kind (Some ''Regulator appointed'')
       (say [who ctx (member ''address'' m), Some '' was appointed regulator for '',
         spoken (coalesce (member ''country'' m) (Some (JStr ''a country'')))])
       False (None) (member ''address'' m) None
       ([])"

definition local_alias_GrantAuditor :: message_decoder where
  "local_alias_GrantAuditor ctx m =
     decoded_as Governance_kind (Some ''Auditor appointed'')
       (say [who ctx (member ''address'' m), Some '' was granted audit access''])
       False (None) (member ''address'' m) None
       ([])"

definition local_alias_RegisterViewingKey :: message_decoder where
  "local_alias_RegisterViewingKey ctx m =
     decoded_as Admin_kind (Some ''Viewing key published'')
       (say [who ctx (member ''account'' m),
         Some '' published a viewing key, so payment detail addressed to them can be encrypted''])
       False (member ''account'' m) (None) None
       ([])"

definition local_alias_RevokeViewingKey :: message_decoder where
  "local_alias_RevokeViewingKey ctx m =
     decoded_as Admin_kind (Some ''Viewing key withdrawn'')
       (say [who ctx (member ''account'' m), Some '' withdrew a viewing key''])
       False (member ''account'' m) (None) None
       ([])"

definition local_enforcement_OpenCase :: message_decoder where
  "local_enforcement_OpenCase ctx m =
     decoded_as Governance_kind (Some ''Case opened'')
       (say [who ctx (member ''opener'' m), Some '' opened an enforcement case against '', who ctx (member ''target'' m)])
       True (member ''opener'' m) (member ''target'' m) None
       ((if truthy_json (member ''reason'' m) then [labelled ''Grounds given'' (spoken (member ''reason'' m)) False]
         else []))"

definition local_enforcement_VoteCase :: message_decoder where
  "local_enforcement_VoteCase ctx m =
     decoded_as Governance_kind (Some ''Case vote'')
       (map_option trim (say [who ctx (member ''voter'' m), Some '' voted on enforcement case '',
         spoken (coalesce (member ''id'' m) (Some (JStr [])))]))
       False (member ''voter'' m) (None) None
       ([])"

definition local_enforcement_EmergencyFreeze :: message_decoder where
  "local_enforcement_EmergencyFreeze ctx m =
     decoded_as Governance_kind (Some ''Account frozen'')
       (say [who ctx (member ''target'' m), Some ([CHR 0x27] @ ''s account was frozen immediately, pending a vote'')])
       True (None) (member ''target'' m) None
       ((if truthy_json (member ''reason'' m) then [labelled ''Grounds given'' (spoken (member ''reason'' m)) False]
         else []))"

definition local_enforcement_EmergencyRelease :: message_decoder where
  "local_enforcement_EmergencyRelease ctx m =
     decoded_as Governance_kind (Some ''Freeze lifted'')
       (say [Some ''An emergency freeze was lifted''])
       True (None) (None) None
       ((if truthy_json (member ''reason'' m) then [labelled ''Reason'' (spoken (member ''reason'' m)) False] else []))"

definition local_enforcement_Sweep :: message_decoder where
  "local_enforcement_Sweep ctx m =
     decoded_as Treasury_kind (Some ''Funds seized'')
       (say [who ctx (member ''sender'' m), Some '' carried out a seizure decided by an enforcement case''])
       True (member ''sender'' m) (None) None
       ([])"

definition local_enforcement_OmbudsmanVeto :: message_decoder where
  "local_enforcement_OmbudsmanVeto ctx m =
     decoded_as Governance_kind (Some ''Case vetoed'')
       (say [Some ''The ombudsman vetoed an enforcement case''])
       True (None) (None) None
       ((if truthy_json (member ''reason'' m) then [labelled ''Reason'' (spoken (member ''reason'' m)) False] else []))"

definition local_enforcement_WithdrawCase :: message_decoder where
  "local_enforcement_WithdrawCase ctx m =
     decoded_as Governance_kind (Some ''Case withdrawn'')
       (say [who ctx (member ''opener'' m), Some '' withdrew their enforcement case''])
       False (member ''opener'' m) (None) None
       ([])"

definition local_slashing_Unjail :: message_decoder where
  "local_slashing_Unjail ctx m =
     decoded_as Staking_kind (Some ''Validator back in'')
       (say [who ctx (member ''validator_addr'' m), Some '' returned to the validator set after being jailed''])
       False (member ''validator_addr'' m) (None) None
       ([])"

definition LOCAL_DECODERS :: "(string \<times> message_decoder) list" where
  "LOCAL_DECODERS = [
    (''/blockchain.alias.v1.MsgRegisterAlias'', local_alias_RegisterAlias),
    (''/blockchain.alias.v1.MsgRotateAlias'', local_alias_RotateAlias),
    (''/blockchain.alias.v1.MsgSetJurisdiction'', local_alias_SetJurisdiction),
    (''/blockchain.alias.v1.MsgAppointRegulator'', local_alias_AppointRegulator),
    (''/blockchain.alias.v1.MsgGrantAuditor'', local_alias_GrantAuditor),
    (''/blockchain.alias.v1.MsgRegisterViewingKey'', local_alias_RegisterViewingKey),
    (''/blockchain.alias.v1.MsgRevokeViewingKey'', local_alias_RevokeViewingKey),
    (''/blockchain.enforcement.v1.MsgOpenCase'', local_enforcement_OpenCase),
    (''/blockchain.enforcement.v1.MsgVoteCase'', local_enforcement_VoteCase),
    (''/blockchain.enforcement.v1.MsgEmergencyFreeze'', local_enforcement_EmergencyFreeze),
    (''/blockchain.enforcement.v1.MsgEmergencyRelease'', local_enforcement_EmergencyRelease),
    (''/blockchain.enforcement.v1.MsgSweep'', local_enforcement_Sweep),
    (''/blockchain.enforcement.v1.MsgOmbudsmanVeto'', local_enforcement_OmbudsmanVeto),
    (''/blockchain.enforcement.v1.MsgWithdrawCase'', local_enforcement_WithdrawCase),
    (''/cosmos.slashing.v1beta1.MsgUnjail'', local_slashing_Unjail)]"

text \<open>\<open>decode\<close>: what the SDK leaves undecoded is looked up here; the coins stay the SDK's.\<close>

definition decode_row :: "decode_context \<Rightarrow> json \<Rightarrow> decoded option" where
  "decode_row ctx m =
    (case decodeMessage ctx m of None \<Rightarrow> None
     | Some d \<Rightarrow>
         if dd_kind d \<noteq> Other_kind then Some d
         else case map_of LOCAL_DECODERS (dd_type d) of None \<Rightarrow> Some d
           | Some dec \<Rightarrow> map_option (\<lambda>l. decoded_parts.extend (l\<lparr>dd_coins := dd_coins d\<rparr>) \<lparr>dd_type = dd_type d, dd_raw = dd_raw d\<rparr>) (dec ctx m))"

section \<open>How finished a row is\<close>

datatype feed_tier = Outcome | Step | Routine

definition STEP_TYPES :: "string list" where
  "STEP_TYPES = [''/cosmos.group.v1.MsgVote'', ''/cosmos.group.v1.MsgSubmitProposal'', ''/cosmos.group.v1.MsgWithdrawProposal'',
     ''/cosmos.gov.v1.MsgVote'', ''/cosmos.gov.v1.MsgVoteWeighted'', ''/cosmos.gov.v1.MsgSubmitProposal'', ''/cosmos.gov.v1.MsgDeposit'',
     ''/blockchain.enforcement.v1.MsgVoteCase'', ''/blockchain.enforcement.v1.MsgOpenCase'', ''/blockchain.paymsg.v1.MsgApplyParticipant'',
     ''/blockchain.stablecoin.v1.MsgApplyIssuer'', ''/blockchain.validatorgov.v1.MsgApplyValidator'',
     ''/blockchain.oracle.v1.MsgApplyAppraiser'', ''/blockchain.builderfee.v1.MsgRegisterBuilder'']"

definition tierOf :: "decoded \<Rightarrow> bool \<Rightarrow> feed_tier" where
  "tierOf d failed =
    (if dd_type d \<in> set STEP_TYPES then Step
     else if isParamUpdate (dd_type d) then Routine
     else if failed then Step
     else if dd_kind d = Admin_kind then (if dd_everyday d then Outcome else Routine)
     else if (case dd_coins d of Some cs \<Rightarrow> cs \<noteq> [] | None \<Rightarrow> False) then Outcome
     else if dd_everyday d then Outcome else Routine)"

section \<open>Events\<close>

record feed_event =
  fv_type :: "string option"
  fv_attributes :: "(string option \<times> string option) list"

record feed_message =
  fm_type :: string
  fm_raw :: json

record feed_transaction =
  ft_hash :: string
  ft_height :: jsnum
  ft_timestamp :: string
  ft_succeeded :: bool
  ft_messages :: "feed_message list"
  ft_error :: "string option"
  ft_events :: "feed_event list"

text \<open>\<open>.replace(/^"|"$/g, '')\<close>.\<close>

definition unquoted :: "string \<Rightarrow> string" where
  "unquoted s =
    (let t = (case s of c # r \<Rightarrow> if c = CHR 0x22 then r else s | [] \<Rightarrow> []) in
     if t \<noteq> [] \<and> last t = CHR 0x22 then butlast t else t)"

fun attr_in :: "string \<Rightarrow> (string option \<times> string option) list \<Rightarrow> string option" where
  "attr_in key [] = None"
| "attr_in key ((k, v) # as) = (if k = Some key \<and> v \<noteq> None then map_option unquoted v else attr_in key as)"

fun attr :: "feed_event list \<Rightarrow> string \<Rightarrow> string \<Rightarrow> string option" where
  "attr [] kind key = None"
| "attr (ev # evs) kind key =
    (if fv_type ev \<noteq> Some kind then attr evs kind key
     else case attr_in key (fv_attributes ev) of Some v \<Rightarrow> Some v | None \<Rightarrow> attr evs kind key)"

record feed_tally =
  fy_yes :: jsnum
  fy_no :: jsnum
  fy_abstain :: jsnum
  fy_veto :: jsnum

text \<open>\<open>Number(raw[k] ?? 0) || 0\<close>; \<open>null\<close> throws, and gives no tally.\<close>

definition tally_count :: "json \<Rightarrow> string \<Rightarrow> jsnum" where
  "tally_count raw k =
    (let n = js_number (coalesce (member k raw) (Some (JNum (num_of_int 0)))) in if n = JNaN \<or> num_is_zero n then num_of_int 0 else n)"

definition parseTally :: "string option \<Rightarrow> feed_tally option" where
  "parseTally value =
    (case value of None \<Rightarrow> None | Some v \<Rightarrow>
     if v = [] then None else
     case json_parse v of None \<Rightarrow> None | Some JNull \<Rightarrow> None
     | Some raw \<Rightarrow> Some \<lparr>fy_yes = tally_count raw ''yes_count'', fy_no = tally_count raw ''no_count'',
         fy_abstain = tally_count raw ''abstain_count'', fy_veto = tally_count raw ''no_with_veto_count''\<rparr>)"

section \<open>Requests in the window\<close>

record submitted_request =
  sq_id :: string
  sq_title :: "string option"
  sq_actions :: "string list"
  sq_coins :: "raw_coin list"

type_synonym request_index = "(string \<times> submitted_request) list"

definition SUBMIT_TYPE :: string where "SUBMIT_TYPE = ''/cosmos.group.v1.MsgSubmitProposal''"
definition EXEC_TYPE :: string where "EXEC_TYPE = ''/cosmos.group.v1.MsgExec''"
definition VOTE_TYPE :: string where "VOTE_TYPE = ''/cosmos.group.v1.MsgVote''"

definition or_none :: "raw_coin list option \<Rightarrow> raw_coin list" where
  "or_none cs = (case cs of None \<Rightarrow> [] | Some x \<Rightarrow> x)"

definition request_of :: "decode_context \<Rightarrow> string \<Rightarrow> json \<Rightarrow> submitted_request option" where
  "request_of ctx rid raw =
    map_option (\<lambda>ds. \<lparr>sq_id = rid,
        sq_title = (case member ''title'' raw of Some (JStr t) \<Rightarrow> if t = [] then None else Some t | _ \<Rightarrow> None),
        sq_actions = map dd_summary ds, sq_coins = concat (map (\<lambda>d. or_none (dd_coins d)) ds)\<rparr>)
      (those (map (decode_row ctx) (array_or_empty (member ''messages'' raw))))"

fun index_messages :: "decode_context \<Rightarrow> string \<Rightarrow> feed_message list \<Rightarrow> request_index \<Rightarrow> request_index option" where
  "index_messages ctx rid [] index = Some index"
| "index_messages ctx rid (m # ms) index =
    (if fm_type m \<noteq> SUBMIT_TYPE then index_messages ctx rid ms index
     else case request_of ctx rid (fm_raw m) of None \<Rightarrow> None
       | Some q \<Rightarrow> index_messages ctx rid ms (map_set rid q index))"

definition submitted_id :: "feed_transaction \<Rightarrow> string option" where
  "submitted_id tx = attr (ft_events tx) ''cosmos.group.v1.EventSubmitProposal'' ''proposal_id''"

fun index_from :: "decode_context \<Rightarrow> feed_transaction list \<Rightarrow> request_index \<Rightarrow> request_index option" where
  "index_from ctx [] index = Some index"
| "index_from ctx (tx # txs) index =
    (if \<not> ft_succeeded tx then index_from ctx txs index
     else case submitted_id tx of None \<Rightarrow> index_from ctx txs index
       | Some rid \<Rightarrow>
           if rid = [] then index_from ctx txs index
           else case index_messages ctx rid (ft_messages tx) index of None \<Rightarrow> None | Some ix \<Rightarrow> index_from ctx txs ix)"

definition indexRequests :: "decode_context \<Rightarrow> feed_transaction list \<Rightarrow> request_index option" where
  "indexRequests ctx txs = index_from ctx txs []"

section \<open>The rows\<close>

datatype ran = Ran_success | Ran_failure | Ran_unknown

record approval_outcome =
  ao_id :: string
  ao_title :: "string option"
  ao_actions :: "string list"
  ao_tally :: "feed_tally option"
  ao_ran :: ran

record request_reference =
  rf_id :: string
  rf_title :: "string option"
  rf_option :: string

record feed_entry =
  fe_hash :: string
  fe_index :: nat
  fe_height :: jsnum
  fe_timestamp :: string
  fe_tier :: feed_tier
  fe_kind :: message_kind
  fe_type :: string
  fe_headline :: string
  fe_coins :: "raw_coin list"
  fe_actor :: "json option"
  fe_counterparty :: "json option"
  fe_details :: "decoded_detail list"
  fe_failed :: bool
  fe_failureReason :: "string option"
  fe_everyday :: bool
  fe_approval :: "approval_outcome option"
  fe_request :: "request_reference option"

definition describeSubmission :: "submitted_request option \<Rightarrow> string \<Rightarrow> string" where
  "describeSubmission q fallback =
    (case q of None \<Rightarrow> fallback
     | Some r \<Rightarrow>
         (let what = (case sq_title r of Some t \<Rightarrow> t | None \<Rightarrow> case sq_actions r of a # _ \<Rightarrow> a | [] \<Rightarrow> []) in
          if what = [] then fallback else ''Approval requested: '' @ what))"

definition FEED_VOTES :: "(string \<times> string) list" where
  "FEED_VOTES = [(''VOTE_OPTION_YES'', ''yes''), (''VOTE_OPTION_NO'', ''no''), (''VOTE_OPTION_ABSTAIN'', ''abstain''),
     (''VOTE_OPTION_NO_WITH_VETO'', ''no with veto''), (''VOTE_OPTION_ONE'', ''yes''), (''VOTE_OPTION_TWO'', ''abstain''),
     (''VOTE_OPTION_THREE'', ''no''), (''VOTE_OPTION_FOUR'', ''no with veto'')]"

definition voteWord :: "json option \<Rightarrow> string" where
  "voteWord option =
    (case map_of FEED_VOTES (string_of option) of Some w \<Rightarrow> w
     | None \<Rightarrow> map (\<lambda>c. if c = CHR ''_'' then CHR '' '' else c) (to_lower (js_string_or option [])))"

definition first_action :: "submitted_request \<Rightarrow> string option" where
  "first_action r = (case sq_actions r of a # _ \<Rightarrow> Some a | [] \<Rightarrow> None)"

definition base_row :: "feed_transaction \<Rightarrow> nat \<Rightarrow> decoded \<Rightarrow> feed_entry" where
  "base_row tx i d =
    \<lparr>fe_hash = ft_hash tx, fe_index = i, fe_height = ft_height tx, fe_timestamp = ft_timestamp tx,
     fe_tier = tierOf d (\<not> ft_succeeded tx), fe_kind = dd_kind d, fe_type = dd_type d, fe_headline = dd_summary d,
     fe_coins = or_none (dd_coins d), fe_actor = dd_actor d, fe_counterparty = dd_counterparty d, fe_details = dd_details d,
     fe_failed = (\<not> ft_succeeded tx), fe_failureReason = ft_error tx, fe_everyday = dd_everyday d,
     fe_approval = None, fe_request = None\<rparr>"

text \<open>The row of an execution: named by its effect, and not an outcome when the inner messages failed.\<close>

definition exec_row :: "request_index \<Rightarrow> feed_event list \<Rightarrow> decoded \<Rightarrow> feed_entry \<Rightarrow> feed_entry" where
  "exec_row requests evs d e =
    (let rid = js_string_or (member ''proposal_id'' (dd_raw d)) [];
         request = map_of requests rid;
         result = attr evs ''cosmos.group.v1.EventExec'' ''result'';
         ran = (if result = Some ''PROPOSAL_EXECUTOR_RESULT_SUCCESS'' then Ran_success
                else if result = Some ''PROPOSAL_EXECUTOR_RESULT_FAILURE'' then Ran_failure else Ran_unknown);
         what = (case request of None \<Rightarrow> None | Some r \<Rightarrow> (case first_action r of Some a \<Rightarrow> Some a | None \<Rightarrow> sq_title r)) in
     e\<lparr>fe_approval := Some \<lparr>ao_id = rid, ao_title = Option.bind request sq_title,
         ao_actions = (case request of None \<Rightarrow> [] | Some r \<Rightarrow> sq_actions r),
         ao_tally = parseTally (attr evs ''cosmos.group.v1.EventProposalPruned'' ''tally_result''), ao_ran = ran\<rparr>,
       fe_headline := (case what of Some w \<Rightarrow> if w = [] then fe_headline e else w | None \<Rightarrow> fe_headline e),
       fe_coins := (case request of None \<Rightarrow> fe_coins e | Some r \<Rightarrow> sq_coins r),
       fe_tier := (if ran = Ran_failure then Step else fe_tier e)\<rparr>)"

definition submit_row :: "request_index \<Rightarrow> feed_event list \<Rightarrow> decoded \<Rightarrow> feed_entry \<Rightarrow> feed_entry" where
  "submit_row requests evs d e =
    (let request = (case attr evs ''cosmos.group.v1.EventSubmitProposal'' ''proposal_id'' of
           None \<Rightarrow> None | Some rid \<Rightarrow> if rid = [] then None else map_of requests rid);
         e' = e\<lparr>fe_headline := describeSubmission request (dd_summary d)\<rparr> in
     case request of None \<Rightarrow> e'
     | Some r \<Rightarrow> e'\<lparr>fe_coins := sq_coins r, fe_request := Some \<lparr>rf_id = sq_id r, rf_title = sq_title r, rf_option = []\<rparr>\<rparr>)"

definition vote_row :: "request_index \<Rightarrow> decoded \<Rightarrow> feed_entry \<Rightarrow> feed_entry" where
  "vote_row requests d e =
    (let rid = js_string_or (member ''proposal_id'' (dd_raw d)) []; request = map_of requests rid in
     e\<lparr>fe_request := Some \<lparr>rf_id = rid,
         rf_title = (case request of None \<Rightarrow> None | Some r \<Rightarrow> (case sq_title r of Some t \<Rightarrow> Some t | None \<Rightarrow> first_action r)),
         rf_option = voteWord (member ''option'' (dd_raw d))\<rparr>\<rparr>)"

definition feed_row :: "decode_context \<Rightarrow> request_index \<Rightarrow> feed_transaction \<Rightarrow> nat \<Rightarrow> feed_message \<Rightarrow> feed_entry option" where
  "feed_row ctx requests tx i m =
    map_option (\<lambda>d.
      let e = base_row tx i d;
          e = (if dd_type d = EXEC_TYPE \<and> ft_succeeded tx then exec_row requests (ft_events tx) d e else e);
          e = (if dd_type d = SUBMIT_TYPE then submit_row requests (ft_events tx) d e else e) in
      if dd_type d = VOTE_TYPE then vote_row requests d e else e) (decode_row ctx (fm_raw m))"

definition tx_rows :: "decode_context \<Rightarrow> request_index \<Rightarrow> feed_transaction \<Rightarrow> feed_entry list option" where
  "tx_rows ctx requests tx = those (map (\<lambda>(i, m). feed_row ctx requests tx i m) (enumerate 0 (ft_messages tx)))"

definition buildFeed :: "decode_context \<Rightarrow> feed_transaction list \<Rightarrow> feed_entry list option" where
  "buildFeed ctx txs =
    (case indexRequests ctx txs of None \<Rightarrow> None
     | Some requests \<Rightarrow> map_option concat (those (map (tx_rows ctx requests) txs)))"

section \<open>The everyday feed\<close>

definition everydayFeed :: "feed_entry list \<Rightarrow> feed_entry list" where
  "everydayFeed entries =
    (let settled = List.map_filter (\<lambda>e. if fe_failed e then None else map_option ao_id (fe_approval e)) entries in
     filter (\<lambda>e. fe_tier e \<noteq> Routine \<and> (fe_everyday e \<or> fe_failed e) \<and>
       (case fe_request e of Some q \<Rightarrow> rf_id q \<notin> set settled | None \<Rightarrow> True)) entries)"

definition messageLabel :: "string \<Rightarrow> string" where
  "messageLabel typeUrl = spaced (without_msg (shortTypeUrl typeUrl))"


section \<open>What a row is\<close>

lemma decode_row_type: "decode_row ctx m = Some d \<Longrightarrow> decodeMessage ctx m = Some d' \<Longrightarrow> dd_type d = dd_type d'"
  by (auto simp: decode_row_def decoded_parts.defs split: option.splits if_splits)

lemma decoded_type: "decodeMessage ctx m = Some d \<Longrightarrow> \<exists>p. decode_parts ctx (dd_type d) m = Some p \<and> d = decoded_parts.extend p \<lparr>dd_type = dd_type d, dd_raw = m\<rparr>"
  by (auto simp: decodeMessage_def decoded_parts.defs split: option.splits)

lemma exec_decoder: "map_of DECODERS EXEC_TYPE = Some dec_group_Exec"
  by (simp add: DECODERS_def EXEC_TYPE_def)

text \<open>An execution is an everyday row of its own.\<close>

lemma exec_decoded:
  assumes "decode_row ctx m = Some d" and "dd_type d = EXEC_TYPE"
  shows "dd_everyday d \<and> dd_kind d = Governance_kind \<and> dd_coins d = None"
proof -
  obtain d' where d': "decodeMessage ctx m = Some d'" using assms(1) by (auto simp: decode_row_def split: option.splits)
  then have t: "dd_type d' = EXEC_TYPE" using decode_row_type [OF assms(1) d'] assms(2) by simp
  obtain p where p: "decode_parts ctx EXEC_TYPE m = Some p" "d' = decoded_parts.extend p \<lparr>dd_type = EXEC_TYPE, dd_raw = m\<rparr>"
    using decoded_type [OF d'] t by auto
  have k: "dd_everyday p" "dd_kind p = Governance_kind" "dd_coins p = None"
    using p(1) by (auto simp: decode_parts_def exec_decoder dec_group_Exec_def decoded_as_def split: option.splits)
  then have "d = d'" using assms(1) d' p(2) by (simp add: decode_row_def decoded_parts.defs)
  then show ?thesis using k p(2) by (simp add: decoded_parts.defs)
qed

definition sound_row :: "feed_transaction \<Rightarrow> nat \<Rightarrow> feed_entry \<Rightarrow> bool" where
  "sound_row tx i e \<longleftrightarrow> fe_hash e = ft_hash tx \<and> fe_index e = i \<and> fe_failed e = (\<not> ft_succeeded tx) \<and>
     (fe_tier e = Outcome \<longrightarrow> \<not> fe_failed e \<and> fe_type e \<notin> set STEP_TYPES) \<and>
     (fe_tier e = Outcome \<and> fe_type e = EXEC_TYPE \<longrightarrow>
        attr (ft_events tx) ''cosmos.group.v1.EventExec'' ''result'' \<noteq> Some ''PROPOSAL_EXECUTOR_RESULT_FAILURE'') \<and>
     (\<forall>a. fe_approval e = Some a \<longrightarrow> fe_type e = EXEC_TYPE \<and> \<not> fe_failed e \<and> fe_everyday e \<and> fe_tier e \<noteq> Routine \<and> fe_request e = None \<and>
        (ao_ran a = Ran_failure \<longrightarrow> fe_tier e = Step))"

lemma tier_outcome: "tierOf d failed = Outcome \<Longrightarrow> \<not> failed \<and> dd_type d \<notin> set STEP_TYPES"
  by (auto simp: tierOf_def split: if_splits)

lemma types_differ: "EXEC_TYPE \<noteq> SUBMIT_TYPE" "EXEC_TYPE \<noteq> VOTE_TYPE" "SUBMIT_TYPE \<noteq> VOTE_TYPE" "EXEC_TYPE \<notin> set STEP_TYPES" "\<not> isParamUpdate EXEC_TYPE"
  by (simp_all add: EXEC_TYPE_def SUBMIT_TYPE_def VOTE_TYPE_def STEP_TYPES_def isParamUpdate_def ends_with_def)

lemma base_row_sound: "dd_type d = EXEC_TYPE \<Longrightarrow> \<not> ft_succeeded tx \<Longrightarrow> sound_row tx i (base_row tx i d)"
  "dd_type d \<noteq> EXEC_TYPE \<Longrightarrow> sound_row tx i (base_row tx i d)"
  using tier_outcome [of d "\<not> ft_succeeded tx"] by (auto simp: sound_row_def base_row_def)

lemma exec_row_sound:
  assumes "decode_row ctx m = Some d" and "dd_type d = EXEC_TYPE" and "ft_succeeded tx"
  shows "sound_row tx i (exec_row requests (ft_events tx) d (base_row tx i d))"
proof -
  have "tierOf d False = Outcome" using exec_decoded [OF assms(1,2)] assms(2) types_differ by (simp add: tierOf_def)
  then show ?thesis using assms exec_decoded [OF assms(1,2)] types_differ
    by (auto simp: sound_row_def exec_row_def base_row_def Let_def)
qed

lemma submit_row_sound: "sound_row tx i e \<Longrightarrow> fe_approval e = None \<Longrightarrow> sound_row tx i (submit_row requests evs d e)"
  by (auto simp: sound_row_def submit_row_def Let_def split: option.splits)

lemma vote_row_sound: "sound_row tx i e \<Longrightarrow> fe_approval e = None \<Longrightarrow> sound_row tx i (vote_row requests d e)"
  by (auto simp: sound_row_def vote_row_def Let_def)

lemma feed_row_sound: "feed_row ctx requests tx i m = Some e \<Longrightarrow> sound_row tx i e"
proof -
  assume "feed_row ctx requests tx i m = Some e"
  then obtain d where d: "decode_row ctx (fm_raw m) = Some d"
    and e: "e = (let e = base_row tx i d;
          e = (if dd_type d = EXEC_TYPE \<and> ft_succeeded tx then exec_row requests (ft_events tx) d e else e);
          e = (if dd_type d = SUBMIT_TYPE then submit_row requests (ft_events tx) d e else e) in
      if dd_type d = VOTE_TYPE then vote_row requests d e else e)" by (auto simp: feed_row_def)
  have b: "fe_approval (base_row tx i d) = None" by (simp add: base_row_def)
  consider "dd_type d = EXEC_TYPE" | "dd_type d = SUBMIT_TYPE" | "dd_type d = VOTE_TYPE"
    | "dd_type d \<noteq> EXEC_TYPE" "dd_type d \<noteq> SUBMIT_TYPE" "dd_type d \<noteq> VOTE_TYPE" by blast
  then show ?thesis
  proof cases
    case 1
    then show ?thesis using e exec_row_sound [OF d 1] base_row_sound(1) [OF 1] types_differ by (simp add: Let_def)
  next
    case 2
    then show ?thesis using e submit_row_sound [OF base_row_sound(2) b] types_differ by (simp add: Let_def)
  next
    case 3
    then show ?thesis using e vote_row_sound [OF base_row_sound(2) b] types_differ by (simp add: Let_def)
  next
    case 4
    then show ?thesis using e base_row_sound(2) by (simp add: Let_def)
  qed
qed

lemma list_all2_source: "list_all2 P xs ys \<Longrightarrow> y \<in> set ys \<Longrightarrow> \<exists>x \<in> set xs. P x y"
  by (induction rule: list_all2_induct) auto

definition row_ids :: "feed_transaction \<Rightarrow> (string \<times> nat) list" where
  "row_ids tx = map (\<lambda>i. (ft_hash tx, i)) [0..<length (ft_messages tx)]"

lemma tx_rows_sound:
  assumes "tx_rows ctx requests tx = Some es"
  shows "map (\<lambda>e. (fe_hash e, fe_index e)) es = row_ids tx" "\<forall>e \<in> set es. \<exists>i. sound_row tx i e"
proof -
  have l: "list_all2 (\<lambda>x e. feed_row ctx requests tx (fst x) (snd x) = Some e) (enumerate 0 (ft_messages tx)) es"
    using assms by (simp add: tx_rows_def those_all2 list.rel_map case_prod_beta)
  then have s: "list_all2 (\<lambda>x e. sound_row tx (fst x) e) (enumerate 0 (ft_messages tx)) es"
    by (rule list_all2_mono) (rule feed_row_sound)
  show "\<forall>e \<in> set es. \<exists>i. sound_row tx i e" using list_all2_source [OF s] by blast
  have a: "map (\<lambda>x. (ft_hash tx, fst x)) (enumerate 0 (ft_messages tx)) = map (\<lambda>e. (fe_hash e, fe_index e)) es"
    using s by (induction rule: list_all2_induct) (simp_all add: sound_row_def)
  have b: "map (\<lambda>x. (ft_hash tx, fst x)) (enumerate 0 (ft_messages tx)) = row_ids tx"
    by (rule nth_equalityI) (simp_all add: row_ids_def nth_enumerate_eq)
  show "map (\<lambda>e. (fe_hash e, fe_index e)) es = row_ids tx" by (rule trans [OF a [symmetric] b])
qed

lemma feed_sound:
  assumes "buildFeed ctx txs = Some es"
  shows "map (\<lambda>e. (fe_hash e, fe_index e)) es = concat (map row_ids txs)" "\<forall>e \<in> set es. \<exists>tx \<in> set txs. \<exists>i. sound_row tx i e"
proof -
  obtain requests ess where r: "those (map (tx_rows ctx requests) txs) = Some ess" "es = concat ess"
    using assms by (auto simp: buildFeed_def split: option.splits)
  then have l: "list_all2 (\<lambda>tx es. tx_rows ctx requests tx = Some es) txs ess" by (simp add: those_all2 list.rel_map)
  then have "map (map (\<lambda>e. (fe_hash e, fe_index e))) ess = map row_ids txs"
    using tx_rows_sound(1) by (induction rule: list_all2_induct) simp_all
  then show "map (\<lambda>e. (fe_hash e, fe_index e)) es = concat (map row_ids txs)" using r(2) by (simp add: map_concat)
  show "\<forall>e \<in> set es. \<exists>tx \<in> set txs. \<exists>i. sound_row tx i e"
  proof
    fix e assume "e \<in> set es"
    then obtain rows where rows: "rows \<in> set ess" "e \<in> set rows" using r(2) by auto
    then obtain tx where "tx \<in> set txs" "tx_rows ctx requests tx = Some rows" using list_all2_source [OF l] by blast
    then show "\<exists>tx \<in> set txs. \<exists>i. sound_row tx i e" using tx_rows_sound(2) rows(2) by blast
  qed
qed

section \<open>Properties\<close>

text \<open>
  C8. The feed has one row for each message, in the chain's order, and a row says that something became
  true only of a transaction that succeeded, never of a step in a procedure, and of an approved request
  only in a transaction whose first report of an execution is not that it failed. (The report read is the
  first of the transaction, whichever execution of it the row is of.)
\<close>

theorem feed_outcomes_happened:
  assumes "buildFeed ctx txs = Some es"
  shows "map (\<lambda>e. (fe_hash e, fe_index e)) es = concat (map row_ids txs) \<and>
    (\<forall>e \<in> set es. fe_tier e = Outcome \<longrightarrow>
       (\<exists>tx \<in> set txs. ft_hash tx = fe_hash e \<and> ft_succeeded tx \<and>
          (fe_type e = EXEC_TYPE \<longrightarrow>
             attr (ft_events tx) ''cosmos.group.v1.EventExec'' ''result'' \<noteq> Some ''PROPOSAL_EXECUTOR_RESULT_FAILURE'')) \<and>
       fe_type e \<notin> set STEP_TYPES \<and> (\<forall>a. fe_approval e = Some a \<longrightarrow> ao_ran a \<noteq> Ran_failure))"
  using feed_sound [OF assms] by (fastforce simp: sound_row_def)

text \<open>
  C9. Of the rows that are not routine, and are everyday or report a failure, the everyday feed leaves out
  only steps of a request whose execution it shows.
\<close>

theorem hidden_steps_have_their_outcome:
  assumes "buildFeed ctx txs = Some es" and "e \<in> set es" and "e \<notin> set (everydayFeed es)"
    and "fe_tier e \<noteq> Routine" and "fe_everyday e \<or> fe_failed e"
  shows "\<exists>q o' a. fe_request e = Some q \<and> o' \<in> set (everydayFeed es) \<and> fe_approval o' = Some a \<and> ao_id a = rf_id q"
proof -
  have "\<exists>q x a. fe_request e = Some q \<and> x \<in> set es \<and> \<not> fe_failed x \<and> fe_approval x = Some a \<and> ao_id a = rf_id q"
    using assms(2-5) by (auto simp: everydayFeed_def Let_def List.map_filter_def split: option.splits if_splits)
  then obtain q x a where x: "fe_request e = Some q" "x \<in> set es" "fe_approval x = Some a" "ao_id a = rf_id q" by blast
  have "fe_tier x \<noteq> Routine \<and> fe_everyday x \<and> fe_request x = None"
    using feed_sound(2) [OF assms(1)] x(2,3) by (fastforce simp: sound_row_def)
  then have "x \<in> set (everydayFeed es)" using x(2) by (simp add: everydayFeed_def Let_def)
  then show ?thesis using x by blast
qed


text \<open>
  Two requests submitted in one transaction are indexed as one: the first request's identifier is given
  the second's title and actions, so its execution is later shown as what the second would do.
\<close>

theorem second_submission_takes_the_first_id:
  assumes "ft_succeeded tx" and "ft_messages tx = [m1, m2]" and "fm_type m1 = SUBMIT_TYPE" and "fm_type m2 = SUBMIT_TYPE"
    and "submitted_id tx = Some rid" and "rid \<noteq> []"
    and "request_of ctx rid (fm_raw m1) = Some q1" and "request_of ctx rid (fm_raw m2) = Some q2"
  shows "\<exists>requests. indexRequests ctx [tx] = Some requests \<and> map_of requests = [rid \<mapsto> q2] \<and>
    (\<forall>evs d e a. js_string_or (member ''proposal_id'' (dd_raw d)) [] = rid \<and> first_action q2 = Some a \<and> a \<noteq> [] \<longrightarrow>
       fe_headline (exec_row requests evs d e) = a)"
  using assms by (auto simp: indexRequests_def exec_row_def Let_def)

text \<open>
  The sentence of a vote on an enforcement case never says which case: the decoder reads a member the
  message does not have.
\<close>

theorem case_votes_read_alike:
  assumes "shaped (Sub enforcement_MsgVoteCase) j" and "local_enforcement_VoteCase ctx j = Some d"
  shows "\<exists>v. who ctx (member ''voter'' j) = Some v \<and> dd_summary d = trim (v @ '' voted on enforcement case '')"
proof -
  have "list_all (fields_at (\<lambda>k. False) enforcement_MsgVoteCase) [''id'']"
    by (rule fields_at_others) (simp_all add: enforcement_MsgVoteCase_def snake_letters)
  then have "member ''id'' j = None" using member_shaped [OF assms(1)] by (cases "member ''id'' j") auto
  then show ?thesis
    using assms(2) by (auto simp: local_enforcement_VoteCase_def decoded_as_def say_def spoken_def coalesce_def nullish_def
      split: option.splits)
qed

section \<open>Witnesses\<close>

definition sample_page :: "feed_transaction list" where
  "sample_page =
    [\<lparr>ft_hash = ''B'', ft_height = num_of_int 8, ft_timestamp = [], ft_succeeded = True,
      ft_messages = [\<lparr>fm_type = EXEC_TYPE, fm_raw = JObj [(''@type'', JStr EXEC_TYPE), (''proposal_id'', JStr ''2'')]\<rparr>],
      ft_error = None,
      ft_events = [\<lparr>fv_type = Some ''cosmos.group.v1.EventExec'',
        fv_attributes = [(Some ''result'', Some ''PROPOSAL_EXECUTOR_RESULT_SUCCESS'')]\<rparr>]\<rparr>,
     \<lparr>ft_hash = ''A'', ft_height = num_of_int 7, ft_timestamp = [], ft_succeeded = True,
      ft_messages = [\<lparr>fm_type = VOTE_TYPE, fm_raw = JObj [(''@type'', JStr VOTE_TYPE), (''proposal_id'', JStr ''2'')]\<rparr>],
      ft_error = None, ft_events = []\<rparr>]"

text \<open>Two executions in one transaction, the second of which failed: both rows are outcomes.\<close>

definition two_executions :: feed_transaction where
  "two_executions = \<lparr>ft_hash = ''D'', ft_height = num_of_int 9, ft_timestamp = [], ft_succeeded = True,
      ft_messages = [\<lparr>fm_type = EXEC_TYPE, fm_raw = JObj [(''@type'', JStr EXEC_TYPE), (''proposal_id'', JStr ''2'')]\<rparr>,
        \<lparr>fm_type = EXEC_TYPE, fm_raw = JObj [(''@type'', JStr EXEC_TYPE), (''proposal_id'', JStr ''3'')]\<rparr>],
      ft_error = None,
      ft_events = [\<lparr>fv_type = Some ''cosmos.group.v1.EventExec'',
          fv_attributes = [(Some ''result'', Some ''PROPOSAL_EXECUTOR_RESULT_SUCCESS'')]\<rparr>,
        \<lparr>fv_type = Some ''cosmos.group.v1.EventExec'',
          fv_attributes = [(Some ''result'', Some ''PROPOSAL_EXECUTOR_RESULT_FAILURE'')]\<rparr>]\<rparr>"

lemma second_execution_takes_the_first_result:
  "case buildFeed plain_context [two_executions] of None \<Rightarrow> False | Some es \<Rightarrow> map fe_tier es = [Outcome, Outcome]"
  by code_simp

lemma sample_built:
  "case buildFeed plain_context sample_page of None \<Rightarrow> False
   | Some es \<Rightarrow> map fe_hash es = [''B'', ''A''] \<and> map fe_hash (everydayFeed es) = [''B''] \<and>
       map fe_tier es = [Outcome, Step] \<and> map fe_everyday es = [True, True]"
  by code_simp

theorem feed_outcomes_happened_witness:
  "\<exists>es. buildFeed plain_context sample_page = Some es \<and> map (\<lambda>e. (fe_hash e, fe_index e)) es = [(''B'', 0), (''A'', 0)] \<and>
    (\<forall>e \<in> set es. fe_tier e = Outcome \<longrightarrow> fe_type e \<notin> set STEP_TYPES)"
proof -
  obtain es where es: "buildFeed plain_context sample_page = Some es" using sample_built by (cases "buildFeed plain_context sample_page") auto
  have "concat (map row_ids sample_page) = [(''B'', 0), (''A'', 0)]" by (simp add: sample_page_def row_ids_def)
  then show ?thesis using feed_outcomes_happened [OF es] es by auto
qed

theorem hidden_steps_have_their_outcome_witness:
  "\<exists>es e q x a. buildFeed plain_context sample_page = Some es \<and> e \<in> set es \<and> fe_request e = Some q \<and> x \<in> set (everydayFeed es) \<and>
     fe_approval x = Some a \<and> ao_id a = rf_id q"
proof -
  obtain es where es: "buildFeed plain_context sample_page = Some es" and h: "map fe_hash es = [''B'', ''A'']"
    "map fe_hash (everydayFeed es) = [''B'']" "map fe_tier es = [Outcome, Step]" "map fe_everyday es = [True, True]"
    using sample_built by (cases "buildFeed plain_context sample_page") auto
  obtain r e where e: "es = [r, e]" using h(1) by (auto simp: map_eq_Cons_conv)
  have "e \<in> set es" "e \<notin> set (everydayFeed es)" "fe_tier e \<noteq> Routine" "fe_everyday e \<or> fe_failed e"
    using h e by (auto simp: map_eq_Cons_conv)
  then show ?thesis using hidden_steps_have_their_outcome [OF es, of e] es by blast
qed

definition sample_vote_row :: json where
  "sample_vote_row = JObj [(''voter'', JStr ''yml1v''), (''case_id'', JStr ''300'')]"

lemma sample_vote_row_shaped: "shaped (Sub enforcement_MsgVoteCase) sample_vote_row"
  unfolding sample_vote_row_def
proof (rule sh_msg)
  fix y v assume "member y (JObj [(''voter'', JStr ''yml1v''), (''case_id'', JStr ''300'')]) = Some v"
  then have "(y = ''voter'' \<and> v = JStr ''yml1v'') \<or> (y = ''case_id'' \<and> v = JStr ''300'')"
    by (simp add: member_def split: if_splits)
  moreover have "snake_case ''caseId'' = ''case_id''" by (simp add: snake_letters)
  moreover have "shaped (One T_string) (JStr s)" "shaped (One T_uint64) (JStr s)" for s by (rule sh_text, simp)+
  moreover have "(1, ''voter'', One T_string) \<in> set enforcement_MsgVoteCase" "(2, ''caseId'', One T_uint64) \<in> set enforcement_MsgVoteCase"
    by (simp_all add: enforcement_MsgVoteCase_def)
  ultimately show "\<exists>n x k. (n, x, k) \<in> set enforcement_MsgVoteCase \<and> (snake_case x = y \<or> x = y) \<and> shaped k v" by metis
qed

lemma sample_vote_decoded:
  "case local_enforcement_VoteCase plain_context sample_vote_row of None \<Rightarrow> False
   | Some d \<Rightarrow> dd_summary d = ''yml1v voted on enforcement case''"
  by code_simp

theorem case_votes_read_alike_witness:
  "\<exists>v. who plain_context (member ''voter'' sample_vote_row) = Some v \<and>
     ''yml1v voted on enforcement case'' = trim (v @ '' voted on enforcement case '')"
proof -
  obtain d where d: "local_enforcement_VoteCase plain_context sample_vote_row = Some d"
    and t: "dd_summary d = ''yml1v voted on enforcement case''"
    using sample_vote_decoded by (cases "local_enforcement_VoteCase plain_context sample_vote_row") simp_all
  show ?thesis using case_votes_read_alike [OF sample_vote_row_shaped d] unfolding t .
qed

definition two_requests :: feed_transaction where
  "two_requests = \<lparr>ft_hash = ''C'', ft_height = num_of_int 9, ft_timestamp = [], ft_succeeded = True,
      ft_messages = [\<lparr>fm_type = SUBMIT_TYPE, fm_raw = JObj [(''title'', JStr ''Pay rent'')]\<rparr>,
        \<lparr>fm_type = SUBMIT_TYPE, fm_raw = JObj [(''title'', JStr ''Pay bonus'')]\<rparr>],
      ft_error = None,
      ft_events = [\<lparr>fv_type = Some ''cosmos.group.v1.EventSubmitProposal'', fv_attributes = [(Some ''proposal_id'', Some ''1'')]\<rparr>,
        \<lparr>fv_type = Some ''cosmos.group.v1.EventSubmitProposal'', fv_attributes = [(Some ''proposal_id'', Some ''2'')]\<rparr>]\<rparr>"

lemma two_requests_fields:
  "ft_succeeded two_requests" "ft_messages two_requests =
     [\<lparr>fm_type = SUBMIT_TYPE, fm_raw = JObj [(''title'', JStr ''Pay rent'')]\<rparr>,
      \<lparr>fm_type = SUBMIT_TYPE, fm_raw = JObj [(''title'', JStr ''Pay bonus'')]\<rparr>]"
  by (simp_all add: two_requests_def)

lemma titled_request:
  "t \<noteq> [] \<Longrightarrow> request_of ctx rid (fm_raw \<lparr>fm_type = u, fm_raw = JObj [(''title'', JStr t)]\<rparr>) =
     Some \<lparr>sq_id = rid, sq_title = Some t, sq_actions = [], sq_coins = []\<rparr>"
  by (simp add: request_of_def member_def array_or_empty_def)

theorem second_submission_takes_the_first_id_witness:
  "\<exists>requests. indexRequests plain_context [two_requests] = Some requests \<and>
     map_of requests = [''1'' \<mapsto> \<lparr>sq_id = ''1'', sq_title = Some ''Pay bonus'', sq_actions = [], sq_coins = []\<rparr>]"
proof -
  have i: "submitted_id two_requests = Some ''1''" by code_simp
  have q: "\<exists>requests. indexRequests plain_context [two_requests] = Some requests \<and>
      map_of requests = [''1'' \<mapsto> \<lparr>sq_id = ''1'', sq_title = Some ''Pay bonus'', sq_actions = [], sq_coins = []\<rparr>] \<and>
      (\<forall>evs d e a. js_string_or (member ''proposal_id'' (dd_raw d)) [] = ''1'' \<and>
         first_action \<lparr>sq_id = ''1'', sq_title = Some ''Pay bonus'', sq_actions = [], sq_coins = []\<rparr> = Some a \<and> a \<noteq> [] \<longrightarrow>
         fe_headline (exec_row requests evs d e) = a)"
    by (rule second_submission_takes_the_first_id [OF two_requests_fields _ _ i _ titled_request titled_request])
      (simp_all only: feed_message.select_convs list.distinct not_False_eq_True)
  then show ?thesis by blast
qed

end
