(* ===== verification/Spec2Isabelle.thy ===== *)
theory Spec2Isabelle imports Amount SignedRequest Format Consequence Treasury Amm Connect VehicleWire Ceremony Remittance PayloadStore AddressBook PayeeBook Ramp Signing Feed begin

text \<open>
  A verification library of the Yamale clients: the TypeScript under \<open>clients/\<close> that a person's money
  passes through on its way to the chain and back. The SDK (\<open>clients/sdk\<close>) knows denominations, user
  identifiers, the wire format of every message, what a signature does and what an error means; the wallet
  app (\<open>clients/app\<close>), the explorer (\<open>clients/explorer\<close>), the vehicle app (\<open>clients/rwa\<close>), the wallet
  connector (\<open>clients/connect\<close>) and the key ceremony (\<open>clients/ceremony\<close>) are built over it. What is said of
  each function is proved of a definition translated from its source; \<open>PROJECT.json\<close> gives the lines.

  \<^bold>\<open>How the parts meet.\<close> An interface builds a message with a constructor (theory Signing); the registry
  (Registry) turns it into bytes with the generated codec of its type (Schema and the \<open>*Proto\<close> theories,
  over protobufjs, Wire); the connector carries the bytes to the wallet that holds the key (Connect); the
  wallet decodes them again, summarises what it shows for approval (SignRequest) and what the signature
  will move or authorise (Consequence); the result is read back and a failure explained (Errors). Amounts
  on the way in and out are theory Denom's and Amount's; payment details are sealed to their readers
  (Envelope, Sealing), kept (LocalStore, AddressBook, PayeeBook) or fetched from the institution that holds
  them (PayloadStore); a payment may start from a code (Request, SignedRequest) and names its parties by
  identifier (UserId) and its purpose by an ISO 20022 memo (Remittance).

  \<^bold>\<open>The shared layer.\<close> Prelude (association lists, folds, a locale for the running totals every summary
  makes); Text (strings, \<open>BigInt\<close> texts, splitting, trimming, percent coding); JsNumber (IEEE doubles,
  their arithmetic, parsing and shortest printing), JsValue (the conversions of JavaScript values, with the
  facts that make whole numbers below 2^53 exact), Rounding (how far one rounding is from the exact result); Json (the text of JSON and its parser, locale of the
  round trip); IsoDate (the UTC calendar); Base32, Base64, Luhn and Regex. Where a claim rests on one of
  the language's own functions, that function is defined here, never assumed.

  \<^bold>\<open>The parts and their sources.\<close>
  \<^item> Money. Denom: \<open>sdk/denom.ts\<close>, the registry of denominations, parsing of typed amounts, display and
    formatting. Amount: \<open>explorer/amount.ts\<close> and \<open>app/money.ts\<close>. Format: \<open>sdk/format.ts\<close>. Typed amounts are
    exact or refused, printed amounts read back rounded down, sums keep every denomination.
  \<^item> Names. UserId: \<open>sdk/alias.ts\<close>, spoken identifiers with a check character (locale of theory Luhn,
    interpreted on the two alphabets). One wrong symbol is always refused.
  \<^item> Payment codes. Request: \<open>app/request.ts\<close> and \<open>app/sealed.ts\<close>; SignedRequest: \<open>app/signing.ts\<close>. A code
    reads back as the request it was made of, and one that verifies was signed by the payee it names.
  \<^item> The wire. Wire: protobufjs's reader and writer as a record of functions and the locale of the laws
    they document, interpreted on a varint implementation. Schema: a generated message's six functions
    (\<open>sdk/generated\<close>), once over the message's schema; the generator emits the same code for every message
    but for the schema, and the eighteen \<open>*Proto\<close> theories give the schemas of 616 messages and enums.
    SchemaBack proves that typed messages are written and read back, by induction on schemas, and that
    their JSON keeps them; SchemaSafe that decoders end (their loops strictly consume) and give typed
    messages on any bytes: it runs them once more with the turns of each loop counted and a loop that still
    runs told apart from an exception. Registry: \<open>sdk/registry.ts\<close>; its messages are shown in full where their
    enum numbers are constants.
  \<^item> Signing. SignRequest: \<open>sdk/signrequest.ts\<close>, what an approval screen is given: exactly the messages the
    bytes carry, nested ones to four levels, each with the reading of its own bytes; an exception of the
    sentence decoder, which nothing catches there, is an exception of the summary.
    Consequence: \<open>sdk/consequence.ts\<close>, proved against the meaning of the outer messages as a ledger effect.
    Signing: \<open>sdk/signing.ts\<close>, the constructors and \<open>submit\<close>. Errors: \<open>sdk/errors.ts\<close>, its table of patterns run
    by Regex.
  \<^item> Sentences. Decode: \<open>sdk/decode.ts\<close>, the sixty-two decoders that say a message in words, its fallback and
    the phrasing of proposals. Sentences: whatever bytes a registered message decodes from have a sentence,
    by the shape of the JSON its codec gives; the one exception is a valuation past the end of the calendar,
    which takes the summary of its whole request with it.
    Feed: \<open>explorer/feed.ts\<close>, the activity feed; an outcome row is of a transaction that succeeded, and what the
    everyday feed leaves out of a procedure is a step whose execution it shows.
  \<^item> Connection. Connect: \<open>connect/protocol.ts\<close>, \<open>client.ts\<close>, \<open>provider.ts\<close> and the browser between them as a
    step relation; in every reachable state a request that resolved as approved was approved by the wallet
    for that very request. A request always ends, but for one that receives a reply without a payload.
  \<^item> Exchange. Amm: \<open>app/swap.ts\<close> and the pool quotes of the SDK against the keeper of \<open>x/amm\<close>, by a locale whose
    laws (a quote keeps the product, and never drains) hold of both.
  \<^item> Treasuries. Treasury: \<open>sdk/treasury.ts\<close>, the spending check, sound for what the chain allows. Ramp:
    \<open>app/escrow.ts\<close> and \<open>app/ramp.ts\<close>.
  \<^item> Vehicles. Vehicle: \<open>rwa/vehicle.ts\<close> against the keeper handlers of \<open>x/tokenisation\<close>, every refusal of which is translated
    beside it: what the interface offers and quotes is what they accept and pay, but for what it is not given;
    VehicleWire: the messages, queries, durations and accounts of the same app.
  \<^item> Ceremonies. GoJson, CeremonyWire, CeremonyGroup, Ceremony: \<open>ceremony/gojson.ts\<close>, \<open>wire.ts\<close>, \<open>key.ts\<close> and
    \<open>group.ts\<close>. The assembled group is sound, does not depend on the order submissions arrive in, and its
    fingerprint covers every document.
  \<^item> Payment details. Remittance: \<open>app/iso.ts\<close>; Envelope and Sealing: \<open>sdk/envelope.ts\<close>; LocalStore:
    \<open>sdk/metadata.ts\<close>; PayloadStore: \<open>sdk/payloadstore.ts\<close>; AddressBook: \<open>sdk/addressbook.ts\<close>; PayeeBook: \<open>app/book.ts\<close>.

  \<^bold>\<open>Conventions.\<close> Strings are their UTF-8 bytes as characters; where the code counts UTF-16 units the
  theory says what it restricts to. A thrown exception is \<open>None\<close> or the left of a sum whose datatype lists
  what can be thrown. \<open>undefined\<close> is \<open>None\<close>, apart from \<open>null\<close> where the code tells them apart. Numbers that
  are \<open>number\<close> in the source are IEEE doubles with the rounding of every operation; \<open>BigInt\<close>s are \<open>int\<close>;
  32-bit operations are words.

  \<^bold>\<open>Loops.\<close> Recursion over a list or a schema is structural or by a measure given with the definition. The
  readers of bytes recurse on what is left of the input, and a generated decoder's loop returns \<open>None\<close> where
  the reader throws; that \<open>None\<close> is never a loop without end is the theorem \<open>decoders_return\<close>, where one
  turn more than there are bytes is enough for every loop. Depth limits of the source (four
  levels of nested messages) are kept as the numbers they are.

  \<^bold>\<open>What is a parameter.\<close> Code outside the repository is an argument: ciphers, hashes and curves
  (records \<open>suite\<close> and \<open>box_suite\<close> with the documented laws as the hypotheses of the theorems that need them,
  each with an instance that meets them), protobufjs, bech32, \<open>fetch\<close>, the clock and randomness, the codecs of
  the standard Cosmos messages.

  \<^bold>\<open>Not modelled.\<close> React components and page scripts, which lay out what these functions return; the
  translated sentences and their catalogues; the network client of the SDK and the query helpers of the
  apps, which build a path, await an answer and copy its fields; WebAuthn, WebCrypto and ledger transports
  of the browser; \<open>Intl\<close> formatting; descriptors of protobuf options and other generated files no client
  runs; the RPC stub classes of the generated files, which pass bytes to an object and are never made; the
  bundled copies of code that is modelled in its source; the Go chain, except the handlers a client repeats.
\<close>

end
